(* ===== verification/Prelude.thy ===== *)
theory Prelude
  imports Main "HOL-Library.AList"
begin

text \<open>
  Shared vocabulary of the development: the exceptions the backend raises, results that may be an
  exception, the text operations of Python the code uses, and relational tables.

  A table is the list of its rows, a row is a record, and a primary key is a field of that record.
  \<open>tget\<close> is \<^verbatim>\<open>db.get(Model, id)\<close>, \<open>tupd\<close> is an assignment to a loaded row (or an
  \<^verbatim>\<open>UPDATE ... WHERE id = ...\<close>), \<open>tdel\<close> is a \<^verbatim>\<open>DELETE\<close> by key.
  Text is ASCII: case mapping and white space are those of the ASCII range.
\<close>

named_theorems table_simps
named_theorems res_simps

type_synonym ident = string

text \<open>Points in time are microseconds since the epoch (UTC); \<open>seconds\<close> is
  \<^verbatim>\<open>timedelta(seconds=n)\<close>.\<close>

type_synonym instant = int

definition seconds :: "int \<Rightarrow> int" where
  "seconds n = n * 1000000"

subsection \<open>Exceptions and results\<close>

text \<open>\<open>ApiError code status\<close> is \<^verbatim>\<open>app.api.errors.ApiError\<close> without its message text;
  the other constructors are the Python and driver exceptions the modelled code can raise.\<close>

datatype exn =
    ApiError string nat
  | TypeError
  | ValueError
  | OverflowError
  | AttributeError
  | KeyError
  | AssertionError
  | IntegrityError
  | DBAPIError
  | MultipleResultsFound
  | BrokerError
  | CacheError
  | AgentStoreError
  | PreflightError
  | RuntimeError

type_synonym 'a res = "exn + 'a"

definition sbind :: "'a res \<Rightarrow> ('a \<Rightarrow> 'b res) \<Rightarrow> 'b res" where
  "sbind m f = (case m of Inl e \<Rightarrow> Inl e | Inr x \<Rightarrow> f x)"

fun mapM :: "('a \<Rightarrow> 'b res) \<Rightarrow> 'a list \<Rightarrow> 'b list res" where
  "mapM f [] = Inr []"
| "mapM f (x # xs) = sbind (f x) (\<lambda>y. sbind (mapM f xs) (\<lambda>ys. Inr (y # ys)))"

fun foldM :: "('a \<Rightarrow> 's \<Rightarrow> 's res) \<Rightarrow> 'a list \<Rightarrow> 's \<Rightarrow> 's res" where
  "foldM f [] s = Inr s"
| "foldM f (x # xs) s = sbind (f x s) (foldM f xs)"

subsection \<open>Python text\<close>

definition is_space :: "char \<Rightarrow> bool" where
  "is_space c \<longleftrightarrow> c = CHR '' '' \<or> (9 \<le> (of_char c :: nat) \<and> (of_char c :: nat) \<le> 13)
     \<or> (28 \<le> (of_char c :: nat) \<and> (of_char c :: nat) \<le> 31)"

definition lstrip_by :: "(char \<Rightarrow> bool) \<Rightarrow> string \<Rightarrow> string" where
  "lstrip_by P s = dropWhile P s"

definition rstrip_by :: "(char \<Rightarrow> bool) \<Rightarrow> string \<Rightarrow> string" where
  "rstrip_by P s = rev (dropWhile P (rev s))"

definition py_strip :: "string \<Rightarrow> string" where
  "py_strip s = rstrip_by is_space (lstrip_by is_space s)"

definition lower_char :: "char \<Rightarrow> char" where
  "lower_char c =
     (if 65 \<le> (of_char c :: nat) \<and> (of_char c :: nat) \<le> 90
      then char_of ((of_char c :: nat) + 32) else c)"

definition upper_char :: "char \<Rightarrow> char" where
  "upper_char c =
     (if 97 \<le> (of_char c :: nat) \<and> (of_char c :: nat) \<le> 122
      then char_of ((of_char c :: nat) - 32) else c)"

definition py_lower :: "string \<Rightarrow> string" where
  "py_lower s = map lower_char s"

definition py_upper :: "string \<Rightarrow> string" where
  "py_upper s = map upper_char s"

definition py_startswith :: "string \<Rightarrow> string \<Rightarrow> bool" where
  "py_startswith s p \<longleftrightarrow> take (length p) s = p"

definition py_endswith :: "string \<Rightarrow> string \<Rightarrow> bool" where
  "py_endswith s p \<longleftrightarrow> py_startswith (rev s) (rev p)"

definition py_replace_char :: "char \<Rightarrow> string \<Rightarrow> string \<Rightarrow> string" where
  "py_replace_char c r s = concat (map (\<lambda>x. if x = c then r else [x]) s)"

text \<open>\<^verbatim>\<open>s.split(c)\<close> for a one-character separator, and \<^verbatim>\<open>c.join(xs)\<close>.\<close>

fun py_split :: "char \<Rightarrow> string \<Rightarrow> string list" where
  "py_split c [] = [[]]"
| "py_split c (x # s) =
     (if x = c then [] # py_split c s
      else case py_split c s of [] \<Rightarrow> [[x]] | y # ys \<Rightarrow> (x # y) # ys)"

fun py_join :: "string \<Rightarrow> string list \<Rightarrow> string" where
  "py_join sep [] = []"
| "py_join sep [x] = x"
| "py_join sep (x # y # ys) = x @ sep @ py_join sep (y # ys)"

text \<open>\<open>none_if_empty s\<close> is \<^verbatim>\<open>s or None\<close>; \<open>or_empty\<close> is \<^verbatim>\<open>x or ""\<close>; an optional string is
  truthy when it is present and not empty.\<close>

definition none_if_empty :: "string \<Rightarrow> string option" where
  "none_if_empty s = (if s = [] then None else Some s)"

definition or_empty :: "string option \<Rightarrow> string" where
  "or_empty x = (case x of None \<Rightarrow> [] | Some s \<Rightarrow> s)"

definition opt_truthy :: "string option \<Rightarrow> bool" where
  "opt_truthy x \<longleftrightarrow> x \<noteq> None \<and> x \<noteq> Some []"

text \<open>Decimal rendering of integers, \<^verbatim>\<open>str(n)\<close>.\<close>

definition digit_char :: "nat \<Rightarrow> char" where
  "digit_char d = char_of (48 + d)"

fun nat_str :: "nat \<Rightarrow> string" where
  "nat_str n = (if n < 10 then [digit_char n] else nat_str (n div 10) @ [digit_char (n mod 10)])"

declare nat_str.simps [simp del]

definition int_str :: "int \<Rightarrow> string" where
  "int_str n = (if n < 0 then CHR ''-'' # nat_str (nat (- n)) else nat_str (nat n))"

subsection \<open>Tables\<close>

definition tget :: "('r \<Rightarrow> ident) \<Rightarrow> 'r list \<Rightarrow> ident \<Rightarrow> 'r option" where
  "tget k t i = List.find (\<lambda>r. k r = i) t"

definition tupd :: "('r \<Rightarrow> ident) \<Rightarrow> ident \<Rightarrow> ('r \<Rightarrow> 'r) \<Rightarrow> 'r list \<Rightarrow> 'r list" where
  "tupd k i f t = map (\<lambda>r. if k r = i then f r else r) t"

definition tupd_where :: "('r \<Rightarrow> bool) \<Rightarrow> ('r \<Rightarrow> 'r) \<Rightarrow> 'r list \<Rightarrow> 'r list" where
  "tupd_where P f t = map (\<lambda>r. if P r then f r else r) t"

definition tdel :: "('r \<Rightarrow> ident) \<Rightarrow> ident \<Rightarrow> 'r list \<Rightarrow> 'r list" where
  "tdel k i t = filter (\<lambda>r. k r \<noteq> i) t"

definition pk_unique :: "('r \<Rightarrow> 'k) \<Rightarrow> 'r list \<Rightarrow> bool" where
  "pk_unique k t \<longleftrightarrow> distinct (map k t)"

text \<open>\<^verbatim>\<open>scalar_one_or_none()\<close>: the single row, none, or an exception when there are several.\<close>

definition scalar_one_or_none :: "'r list \<Rightarrow> 'r option res" where
  "scalar_one_or_none rs = (case rs of [] \<Rightarrow> Inr None | [r] \<Rightarrow> Inr (Some r)
     | _ \<Rightarrow> Inl MultipleResultsFound)"

section \<open>Lemmas\<close>

subsection \<open>Results\<close>

lemma sbind_simps [simp, res_simps]:
  "sbind (Inl e) f = Inl e" "sbind (Inr x) f = f x"
  by (simp_all add: sbind_def)

lemma sbind_eq_Inr [res_simps]: "sbind m f = Inr y \<longleftrightarrow> (\<exists>x. m = Inr x \<and> f x = Inr y)"
  by (cases m) simp_all

lemma sbind_eq_Inl: "sbind m f = Inl e \<longleftrightarrow> m = Inl e \<or> (\<exists>x. m = Inr x \<and> f x = Inl e)"
  by (cases m) simp_all

lemma mapM_length: "mapM f xs = Inr ys \<Longrightarrow> length ys = length xs"
  by (induction xs arbitrary: ys) (auto simp: sbind_eq_Inr)

lemma mapM_Inr [simp]: "mapM (\<lambda>x. Inr (g x)) xs = Inr (map g xs)"
  by (induction xs) simp_all

lemma foldM_append: "foldM f (xs @ ys) s = sbind (foldM f xs s) (foldM f ys)"
proof (induction xs arbitrary: s)
  case (Cons x xs)
  then show ?case by (cases "f x s") simp_all
qed simp

lemma foldM_invariant:
  assumes "foldM f xs s = Inr s'" and "P s"
    and "\<And>x s s'. x \<in> set xs \<Longrightarrow> P s \<Longrightarrow> f x s = Inr s' \<Longrightarrow> P s'"
  shows "P s'"
  using assms
proof (induction xs arbitrary: s)
  case (Cons x xs)
  from Cons.prems(1) obtain s1 where s1: "f x s = Inr s1" "foldM f xs s1 = Inr s'"
    by (auto simp: sbind_eq_Inr)
  have "P s1" using Cons.prems(2,3) s1(1) by auto
  with s1(2) show ?case using Cons.IH Cons.prems(3) by (meson list.set_intros(2))
qed simp

subsection \<open>Text\<close>

lemma py_startswith_append [simp]: "py_startswith (p @ s) p"
  by (simp add: py_startswith_def)

lemma py_startswith_iff: "py_startswith s p \<longleftrightarrow> (\<exists>t. s = p @ t)"
  by (metis py_startswith_def append_eq_conv_conj append_take_drop_id)

lemma py_split_nonempty [simp]: "py_split c s \<noteq> []"
  by (cases s) (auto split: list.splits)

lemma py_split_no_sep: "c \<notin> set s \<Longrightarrow> py_split c s = [s]"
  by (induction s) (auto split: list.splits)

lemma py_split_append_sep: "c \<notin> set s \<Longrightarrow> py_split c (s @ c # t) = s # py_split c t"
  by (induction s) (auto split: list.splits)

lemma py_split_join:
  "xs \<noteq> [] \<Longrightarrow> (\<And>x. x \<in> set xs \<Longrightarrow> c \<notin> set x) \<Longrightarrow> py_split c (py_join [c] xs) = xs"
proof (induction "[c]" xs rule: py_join.induct)
  case (3 x y ys)
  then show ?case using py_split_append_sep [of c x "py_join [c] (y # ys)"] by simp
qed (auto simp: py_split_no_sep)

lemma rstrip_by_none: "s = [] \<or> \<not> P (last s) \<Longrightarrow> rstrip_by P s = s"
  by (cases s rule: rev_cases) (auto simp: rstrip_by_def)

lemma rstrip_by_last: "rstrip_by P s \<noteq> [] \<Longrightarrow> \<not> P (last (rstrip_by P s))"
  unfolding rstrip_by_def by (simp add: last_rev hd_dropWhile)

lemma none_if_empty_simps [simp]: "none_if_empty [] = None" "s \<noteq> [] \<Longrightarrow> none_if_empty s = Some s"
  by (simp_all add: none_if_empty_def)

lemma or_empty_simps [simp]: "or_empty None = []" "or_empty (Some s) = s"
  by (simp_all add: or_empty_def)

lemma opt_truthy_simps [simp]: "\<not> opt_truthy None" "opt_truthy (Some s) \<longleftrightarrow> s \<noteq> []"
  by (simp_all add: opt_truthy_def)

lemma opt_truthyE: "opt_truthy x \<Longrightarrow> (\<And>s. x = Some s \<Longrightarrow> s \<noteq> [] \<Longrightarrow> P) \<Longrightarrow> P"
  by (cases x) auto

subsection \<open>Tables\<close>

lemma tget_Some: "tget k t i = Some r \<Longrightarrow> r \<in> set t \<and> k r = i"
  by (auto simp: tget_def find_Some_iff)

lemma tget_None_iff [table_simps]: "tget k t i = None \<longleftrightarrow> i \<notin> k ` set t"
  by (auto simp: tget_def find_None_iff)

lemma tget_unique:
  "pk_unique k t \<Longrightarrow> tget k t i = Some r \<longleftrightarrow> r \<in> set t \<and> k r = i"
proof (induction t)
  case (Cons x t)
  then show ?case by (force simp: tget_def pk_unique_def)
qed (simp add: tget_def)

lemma tget_simps [simp, table_simps]:
  "tget k [] i = None"
  "tget k (r # t) i = (if k r = i then Some r else tget k t i)"
  by (simp_all add: tget_def)

lemma tget_append [table_simps]:
  "tget k (t @ u) i = (case tget k t i of None \<Rightarrow> tget k u i | Some r \<Rightarrow> Some r)"
  by (induction t) auto

lemma set_tupd: "set (tupd k i f t) = (\<lambda>r. if k r = i then f r else r) ` set t"
  by (simp add: tupd_def)

lemma map_tupd [simp, table_simps]:
  "(\<And>r. k' (f r) = k' r) \<Longrightarrow> map k' (tupd k i f t) = map k' t"
  by (simp add: tupd_def)

lemma map_tupd_where [simp, table_simps]:
  "(\<And>r. k' (f r) = k' r) \<Longrightarrow> map k' (tupd_where P f t) = map k' t"
  by (simp add: tupd_where_def)

lemma tget_tupd [table_simps]:
  "(\<And>r. k (f r) = k r) \<Longrightarrow>
     tget k (tupd k i f t) j = (if i = j then map_option f (tget k t j) else tget k t j)"
  by (induction t) (auto simp: tupd_def)

lemma tget_tupd_where [table_simps]:
  "(\<And>r. k (f r) = k r) \<Longrightarrow>
     tget k (tupd_where P f t) j = map_option (\<lambda>r. if P r then f r else r) (tget k t j)"
  by (induction t) (auto simp: tupd_where_def)

lemma tget_tdel [table_simps]: "tget k (tdel k i t) j = (if i = j then None else tget k t j)"
  by (induction t) (auto simp: tdel_def)

lemma tget_filter:
  "pk_unique k t \<Longrightarrow>
     tget k (filter P t) j = (case tget k t j of None \<Rightarrow> None | Some r \<Rightarrow> if P r then Some r else None)"
proof (induction t)
  case (Cons x t)
  have "tget k t (k x) = None"
    using Cons.prems by (auto simp: tget_None_iff pk_unique_def)
  with Cons show ?case by (auto simp: pk_unique_def)
qed simp

lemma set_tdel [simp, table_simps]: "set (tdel k i t) = {r \<in> set t. k r \<noteq> i}"
  by (auto simp: tdel_def)

lemma pk_unique_filter [simp, intro]: "pk_unique k t \<Longrightarrow> pk_unique k (filter P t)"
  by (simp add: pk_unique_def distinct_map_filter)

lemma pk_unique_tdel [simp, intro]: "pk_unique k t \<Longrightarrow> pk_unique k (tdel j i t)"
  by (simp add: tdel_def pk_unique_filter)

lemma pk_unique_tupd [simp, intro]:
  "(\<And>r. k (f r) = k r) \<Longrightarrow> pk_unique k (tupd j i f t) = pk_unique k t"
  by (simp add: pk_unique_def)

lemma pk_unique_tupd_where [simp, intro]:
  "(\<And>r. k (f r) = k r) \<Longrightarrow> pk_unique k (tupd_where P f t) = pk_unique k t"
  by (simp add: pk_unique_def)

lemma pk_unique_append_one [simp]:
  "pk_unique k (t @ [r]) \<longleftrightarrow> pk_unique k t \<and> k r \<notin> k ` set t"
  by (auto simp: pk_unique_def)

lemma pk_uniqueD: "pk_unique k t \<Longrightarrow> r \<in> set t \<Longrightarrow> s \<in> set t \<Longrightarrow> k r = k s \<Longrightarrow> r = s"
  by (auto simp: pk_unique_def distinct_map inj_on_def)

end
