(* ===== verification/PyJson.thy ===== *)
theory PyJson
  imports Prelude Complex_Main "HOL-Library.Log_Nat"
begin

text \<open>
  The values \<^verbatim>\<open>json.loads\<close> produces, as the agent's payloads reach the worker, and the scalar
  coercions of \<^verbatim>\<open>app/services/inventory.py\<close> (\<^verbatim>\<open>_as_int\<close>, \<^verbatim>\<open>_as_float\<close>, \<^verbatim>\<open>_num\<close>,
  \<^verbatim>\<open>_mib_to_bytes\<close>, \<^verbatim>\<open>_parse_dt\<close>, \<^verbatim>\<open>_first\<close>, \<^verbatim>\<open>_split_ips\<close>, \<^verbatim>\<open>_access_vlan\<close>).

  A Python float is a double: a rational number, an infinity or a NaN. Converting an integer rounds
  it to 53 significant bits (half to even) and overflows at \<open>2 ^ 1024\<close>; multiplying by a power of
  two is exact unless it overflows. Parsing text as a number or a date and rendering a float or a
  container as text are the functions of \<open>pyenv\<close>, an argument of the definitions that use them, and
  so are \<^verbatim>\<open>datetime.isoformat\<close> and \<^verbatim>\<open>str(UUID(s))\<close> (\<open>None\<close> is its ValueError).
\<close>

section \<open>Values\<close>

datatype pyfloat = Fin rat | PosInf | NegInf | NaN

datatype json =
    JNull
  | JBool bool
  | JInt int
  | JFloat pyfloat
  | JStr string
  | JList "json list"
  | JObj "(string \<times> json) list"

type_synonym jobj = "(string \<times> json) list"

datatype datetime = Aware instant | Naive instant

record pyenv =
  repr_of :: "json \<Rightarrow> string"
  float_of_str :: "string \<Rightarrow> pyfloat option"
  fromisoformat :: "string \<Rightarrow> datetime option"
  isoformat :: "instant \<Rightarrow> string"
  uuid_str :: "string \<Rightarrow> string option"

text \<open>A datetime without an offset is stored as UTC.\<close>

fun as_utc :: "datetime \<Rightarrow> instant" where
  "as_utc (Aware t) = t"
| "as_utc (Naive t) = t"

text \<open>Truth value, \<^verbatim>\<open>x or y\<close>, \<^verbatim>\<open>d.get(k)\<close> (Python's None is \<open>JNull\<close>), \<^verbatim>\<open>k in d\<close>,
  \<^verbatim>\<open>d.pop(k, None)\<close>.\<close>

fun truthy :: "json \<Rightarrow> bool" where
  "truthy JNull = False"
| "truthy (JBool b) = b"
| "truthy (JInt n) = (n \<noteq> 0)"
| "truthy (JFloat f) = (f \<noteq> Fin 0)"
| "truthy (JStr s) = (s \<noteq> [])"
| "truthy (JList xs) = (xs \<noteq> [])"
| "truthy (JObj kvs) = (kvs \<noteq> [])"

definition jor :: "json \<Rightarrow> json \<Rightarrow> json" where
  "jor x y = (if truthy x then x else y)"

definition jget :: "jobj \<Rightarrow> string \<Rightarrow> json" where
  "jget d k = (case map_of d k of None \<Rightarrow> JNull | Some v \<Rightarrow> v)"

definition jget_default :: "jobj \<Rightarrow> string \<Rightarrow> json \<Rightarrow> json" where
  "jget_default d k dflt = (case map_of d k of None \<Rightarrow> dflt | Some v \<Rightarrow> v)"

definition jhas :: "jobj \<Rightarrow> string \<Rightarrow> bool" where
  "jhas d k \<longleftrightarrow> k \<in> fst ` set d"

definition jpop :: "jobj \<Rightarrow> string \<Rightarrow> jobj" where
  "jpop d k = filter (\<lambda>kv. fst kv \<noteq> k) d"

fun as_dict :: "json \<Rightarrow> jobj option" where
  "as_dict (JObj d) = Some d"
| "as_dict _ = None"

fun as_list :: "json \<Rightarrow> json list option" where
  "as_list (JList xs) = Some xs"
| "as_list _ = None"

text \<open>\<^verbatim>\<open>j == n\<close> for an integer \<open>n\<close>: booleans and floats compare by value.\<close>

fun eq_int :: "json \<Rightarrow> int \<Rightarrow> bool" where
  "eq_int (JInt m) n = (m = n)"
| "eq_int (JBool b) n = ((if b then 1 else 0) = n)"
| "eq_int (JFloat (Fin q)) n = (q = of_int n)"
| "eq_int _ n = False"

fun py_str :: "pyenv \<Rightarrow> json \<Rightarrow> string" where
  "py_str env (JStr s) = s"
| "py_str env (JInt n) = int_str n"
| "py_str env (JBool b) = (if b then ''True'' else ''False'')"
| "py_str env JNull = ''None''"
| "py_str env j = repr_of env j"

section \<open>Numbers\<close>

definition float_of_int :: "int \<Rightarrow> pyfloat res" where
  "float_of_int n =
     (let m = nat \<bar>n\<bar>; b = floorlog 2 m in
      if b \<le> 53 then Inr (Fin (of_int n))
      else let e = b - 53; q = m div 2 ^ e; r = m mod 2 ^ e; h = 2 ^ (e - 1);
               q' = (if h < r \<or> (r = h \<and> odd q) then q + 1 else q);
               v = int (q' * 2 ^ e)
           in if 2 ^ 1024 \<le> v then Inl OverflowError
              else Inr (Fin (of_int (if n < 0 then - v else v))))"

fun py_float :: "pyenv \<Rightarrow> json \<Rightarrow> pyfloat res" where
  "py_float env (JBool b) = Inr (Fin (if b then 1 else 0))"
| "py_float env (JInt n) = float_of_int n"
| "py_float env (JFloat f) = Inr f"
| "py_float env (JStr s) =
     (case float_of_str env s of None \<Rightarrow> Inl ValueError | Some f \<Rightarrow> Inr f)"
| "py_float env _ = Inl TypeError"

text \<open>\<^verbatim>\<open>f * 2**k\<close>.\<close>

fun float_scale :: "nat \<Rightarrow> pyfloat \<Rightarrow> pyfloat" where
  "float_scale k (Fin q) =
     (let p = q * 2 ^ k in
      if 2 ^ 1024 \<le> p then PosInf else if p \<le> - (2 ^ 1024) then NegInf else Fin p)"
| "float_scale k f = f"

definition round_half_even :: "rat \<Rightarrow> int" where
  "round_half_even q =
     (let f = \<lfloor>q\<rfloor>; d = q - of_int f in
      if d < 1 / 2 then f else if 1 / 2 < d then f + 1 else if even f then f else f + 1)"

fun py_round :: "pyfloat \<Rightarrow> int res" where
  "py_round (Fin q) = Inr (round_half_even q)"
| "py_round NaN = Inl ValueError"
| "py_round _ = Inl OverflowError"

text \<open>\<^verbatim>\<open>try: ... except (TypeError, ValueError): return d\<close>.\<close>

definition catch_value :: "'a res \<Rightarrow> 'a \<Rightarrow> 'a res" where
  "catch_value m d = (case m of Inr x \<Rightarrow> Inr x
     | Inl e \<Rightarrow> if e = TypeError \<or> e = ValueError then Inr d else Inl e)"

definition as_int :: "pyenv \<Rightarrow> json \<Rightarrow> int option res" where
  "as_int env v = (if v = JNull then Inr None
     else catch_value (sbind (py_float env v) (\<lambda>f. sbind (py_round f) (\<lambda>n. Inr (Some n)))) None)"

definition as_float :: "pyenv \<Rightarrow> json \<Rightarrow> pyfloat option res" where
  "as_float env v = (if v = JNull then Inr None
     else catch_value (sbind (py_float env v) (\<lambda>f. Inr (Some f))) None)"

definition num :: "pyenv \<Rightarrow> json \<Rightarrow> pyfloat res" where
  "num env v = catch_value (py_float env v) (Fin 0)"

definition mib_to_bytes :: "pyenv \<Rightarrow> json \<Rightarrow> int option res" where
  "mib_to_bytes env v = (if v = JNull then Inr None
     else catch_value
       (sbind (py_float env v) (\<lambda>f. sbind (py_round (float_scale 20 f)) (\<lambda>n. Inr (Some n)))) None)"

section \<open>Dates, selections, address lists\<close>

text \<open>\<^verbatim>\<open>str(value).replace("Z", "+00:00")\<close>, parsed; unparsable text is None.\<close>

definition parse_dt :: "pyenv \<Rightarrow> json \<Rightarrow> datetime option" where
  "parse_dt env v = (if \<not> truthy v then None
     else fromisoformat env (py_replace_char (CHR ''Z'') ''+00:00'' (py_str env v)))"

definition first_of :: "jobj \<Rightarrow> string list \<Rightarrow> json" where
  "first_of item ks =
     (case filter (\<lambda>k. jget item k \<noteq> JNull) ks of [] \<Rightarrow> JNull | k # _ \<Rightarrow> jget item k)"

definition is_ip_sep :: "char \<Rightarrow> bool" where
  "is_ip_sep c \<longleftrightarrow> c = CHR '','' \<or> c = CHR '';'' \<or> is_space c"

fun split_by :: "(char \<Rightarrow> bool) \<Rightarrow> string \<Rightarrow> string list" where
  "split_by P [] = [[]]"
| "split_by P (c # s) =
     (if P c then [] # split_by P s
      else case split_by P s of [] \<Rightarrow> [[c]] | w # ws \<Rightarrow> (c # w) # ws)"

fun split_ips :: "pyenv \<Rightarrow> json \<Rightarrow> string list" where
  "split_ips env (JList xs) = map (py_str env) (filter truthy xs)"
| "split_ips env (JStr s) = filter (\<lambda>p. p \<noteq> []) (split_by is_ip_sep s)"
| "split_ips env _ = []"

text \<open>\<^verbatim>\<open>isinstance(value, int)\<close> holds of booleans too; True is stored as 1.\<close>

fun access_vlan :: "json \<Rightarrow> int option" where
  "access_vlan (JInt n) = (if 0 < n then Some n else None)"
| "access_vlan (JBool b) = (if b then Some 1 else None)"
| "access_vlan _ = None"

section \<open>Lemmas\<close>

lemma truthy_JNull_iff [simp]: "truthy v \<Longrightarrow> v \<noteq> JNull"
  by auto

lemma jor_simps [simp]: "truthy x \<Longrightarrow> jor x y = x" "\<not> truthy x \<Longrightarrow> jor x y = y"
  by (simp_all add: jor_def)

lemma jget_simps [simp]:
  "jget [] k = JNull" "jget ((k', v) # d) k = (if k = k' then v else jget d k)"
  by (simp_all add: jget_def)

lemma jhas_simps [simp]: "\<not> jhas [] k" "jhas ((k', v) # d) k \<longleftrightarrow> k = k' \<or> jhas d k"
  by (auto simp: jhas_def)

lemma jget_absent: "\<not> jhas d k \<Longrightarrow> jget d k = JNull"
  by (simp add: jhas_def jget_def map_of_eq_None_iff [THEN iffD2])

lemma jhas_jpop [simp]: "jhas (jpop d k) k' \<longleftrightarrow> k' \<noteq> k \<and> jhas d k'"
  by (force simp: jhas_def jpop_def)

lemma jget_jpop [simp]: "jget (jpop d k) k' = (if k' = k then JNull else jget d k')"
  by (induction d) (auto simp: jpop_def)

lemma catch_value_simps [simp]:
  "catch_value (Inr x) d = Inr x" "catch_value (Inl TypeError) d = Inr d"
  "catch_value (Inl ValueError) d = Inr d" "catch_value (Inl OverflowError) d = Inl OverflowError"
  by (simp_all add: catch_value_def)

lemma round_half_even_int [simp]: "round_half_even (of_int n) = n"
  by (simp add: round_half_even_def Let_def)

lemma round_half_even_near: "\<bar>of_int (round_half_even q) - q\<bar> \<le> 1 / 2"
proof -
  have "of_int \<lfloor>q\<rfloor> \<le> q" and "q < of_int \<lfloor>q\<rfloor> + 1" by linarith+
  then show ?thesis by (auto simp: round_half_even_def Let_def abs_le_iff)
qed

lemma float_of_int_small: "\<bar>n\<bar> < 2 ^ 53 \<Longrightarrow> float_of_int n = Inr (Fin (of_int n))"
proof -
  assume "\<bar>n\<bar> < 2 ^ 53"
  then have "nat \<bar>n\<bar> < 2 ^ 53" by auto
  then have "floorlog 2 (nat \<bar>n\<bar>) \<le> 53" by (intro floorlog_leI) auto
  then show ?thesis by (simp add: float_of_int_def Let_def)
qed

lemma float_scale_small:
  "\<bar>q * 2 ^ k\<bar> < 2 ^ 1024 \<Longrightarrow> float_scale k (Fin q) = Fin (q * 2 ^ k)"
  by (auto simp: Let_def abs_less_iff)

lemma as_int_JNull [simp]: "as_int env JNull = Inr None"
  by (simp add: as_int_def)

lemma as_int_exact: "\<bar>n\<bar> < 2 ^ 53 \<Longrightarrow> as_int env (JInt n) = Inr (Some n)"
  by (simp add: as_int_def float_of_int_small)

lemma mib_to_bytes_exact:
  assumes "\<bar>n\<bar> < 2 ^ 53" shows "mib_to_bytes env (JInt n) = Inr (Some (n * 2 ^ 20))"
proof -
  have "\<bar>n * 2 ^ 20\<bar> < 2 ^ 53 * 2 ^ 20" using assms by (simp add: abs_mult)
  then have lt: "\<bar>n * 2 ^ 20\<bar> < 2 ^ 1024"
    by (rule less_le_trans) (simp add: power_add [symmetric])
  have eq: "(of_int n :: rat) * 2 ^ 20 = of_int (n * 2 ^ 20)" by simp
  have "\<bar>(of_int n :: rat) * 2 ^ 20\<bar> < 2 ^ 1024"
    unfolding eq using lt by (metis of_int_abs of_int_less_iff of_int_numeral of_int_power)
  then have "float_scale 20 (Fin (of_int n)) = Fin (of_int (n * 2 ^ 20))"
    by (subst float_scale_small) simp_all
  then show ?thesis using assms by (simp add: mib_to_bytes_def float_of_int_small del: of_int_mult)
qed

lemma access_vlan_pos: "access_vlan v = Some n \<Longrightarrow> 0 < n"
  by (cases v) (auto split: if_splits)

lemma split_by_clean: "w \<in> set (split_by P s) \<Longrightarrow> c \<in> set w \<Longrightarrow> \<not> P c"
proof (induction s arbitrary: w)
  case (Cons d s)
  show ?case
  proof (cases "split_by P s")
    case Nil
    then show ?thesis using Cons.prems Cons.IH by (auto split: if_splits)
  next
    case (Cons v vs)
    then show ?thesis using Cons.prems Cons.IH by (fastforce split: if_splits)
  qed
qed simp

lemma first_of_in: "first_of item ks = JNull \<or> (\<exists>k \<in> set ks. first_of item ks = jget item k)"
  by (auto simp: first_of_def split: list.splits) (metis filter_eq_ConsD in_set_conv_decomp)

end
