(* ===== verification/Models.thy ===== *)
theory Models
  imports PyJson
begin

text \<open>
  The relational schema of \<^verbatim>\<open>app/models\<close>: one record per ORM class (a field \<open>Vm_host_id\<close> is the
  column \<^verbatim>\<open>Vm.host_id\<close>; a nullable column is an option), the database as the record of its
  tables, and the \<^verbatim>\<open>ON DELETE\<close> actions of the foreign keys. The children of a VM (disks, adapters,
  snapshots) live in its row, in \<^verbatim>\<open>position\<close> order; they have no other owner. The server-side
  \<^verbatim>\<open>updated_at\<close> columns, which no modelled code reads, are left out, and so is \<^verbatim>\<open>created_at\<close>
  except on tasks and agent binaries.
\<close>

section \<open>Rows\<close>

record cluster =
  Cluster_id :: ident
  Cluster_name :: string
  Cluster_hypervisor :: string

record host =
  Host_id :: ident
  Host_short_id :: string
  Host_cluster_id :: "ident option"
  Host_name :: string
  Host_fqdn :: "string option"
  Host_ip_address :: "string option"
  Host_hypervisor :: string
  Host_agent_rmq_user :: "string option"
  Host_agent_rmq_password :: "string option"
  Host_agent_version :: "string option"
  Host_agent_last_seen :: "instant option"
  Host_agent_refresh_vm :: "int option"
  Host_agent_refresh_host :: "int option"
  Host_hardware :: "jobj option"

record folder =
  Folder_id :: ident
  Folder_cluster_id :: "ident option"
  Folder_host_id :: "ident option"
  Folder_name :: string

record vlan =
  Vlan_id :: ident
  Vlan_cluster_id :: "ident option"
  Vlan_host_id :: "ident option"
  Vlan_name :: string
  Vlan_vlan_id :: int
  Vlan_description :: "string option"
  Vlan_is_default :: bool

record vm_disk =
  VmDisk_disk_id :: "string option"
  VmDisk_path :: "string option"
  VmDisk_controller :: "string option"
  VmDisk_size_bytes :: "int option"
  VmDisk_used_bytes :: "int option"
  VmDisk_type :: "string option"
  VmDisk_format :: "string option"

record vm_snapshot =
  VmSnapshot_snapshot_id :: string
  VmSnapshot_name :: string
  VmSnapshot_parent_snapshot_id :: "string option"
  VmSnapshot_snapshot_type :: "string option"
  VmSnapshot_snapshot_created_at :: "instant option"

record vm_nic =
  VmNic_nic_id :: "string option"
  VmNic_name :: string
  VmNic_switch_name :: "string option"
  VmNic_vlan_id :: "int option"
  VmNic_mac_address :: "string option"
  VmNic_ip_addresses :: "string list"
  VmNic_connected :: bool

record vm =
  Vm_id :: ident
  Vm_vm_uuid :: "string option"
  Vm_host_id :: ident
  Vm_cluster_id :: "ident option"
  Vm_folder_id :: "ident option"
  Vm_name :: string
  Vm_state :: string
  Vm_firmware :: string
  Vm_guest_os :: "string option"
  Vm_uptime_sec :: "int option"
  Vm_vcpu :: int
  Vm_memory_bytes :: int
  Vm_memory_min_bytes :: "int option"
  Vm_memory_max_bytes :: "int option"
  Vm_memory_dynamic :: bool
  Vm_cpu_usage_percent :: "pyfloat option"
  Vm_memory_demand_bytes :: "int option"
  Vm_secure_boot :: "bool option"
  Vm_secure_boot_template :: "string option"
  Vm_nested_virtualization :: bool
  Vm_auto_start_action :: "string option"
  Vm_auto_start_delay_sec :: "int option"
  Vm_auto_stop_action :: "string option"
  Vm_config_path :: "string option"
  Vm_dvd_path :: "string option"
  Vm_highly_available :: bool
  Vm_metrics_enabled :: bool
  Vm_notes :: "string option"
  Vm_vm_created_at :: "instant option"
  Vm_last_inventory_at :: "instant option"
  Vm_disks :: "vm_disk list"
  Vm_nics :: "vm_nic list"
  Vm_snapshots :: "vm_snapshot list"

record vm_thumbnail =
  VmThumbnail_vm_id :: ident
  VmThumbnail_image :: string
  VmThumbnail_content_type :: string
  VmThumbnail_captured_at :: instant

record tag_category =
  TagCategory_id :: ident
  TagCategory_name :: string

record tag =
  Tag_id :: ident
  Tag_category_id :: "ident option"
  Tag_name :: string
  Tag_color :: string

record task =
  Task_id :: ident
  Task_kind :: string
  Task_status :: string
  Task_target_type :: string
  Task_target_id :: ident
  Task_target_name :: "string option"
  Task_host_id :: ident
  Task_requested_by :: string
  Task_progress :: "int option"
  Task_progress_message :: "string option"
  Task_created_at :: instant
  Task_started_at :: "instant option"
  Task_finished_at :: "instant option"
  Task_result :: "string option"
  Task_error :: "string option"
  Task_request_payload :: "json option"
  Task_response_payload :: "json option"
  Task_correlation_id :: "ident option"

record template =
  Template_id :: ident
  Template_host_id :: ident
  Template_name :: string
  Template_path :: string
  Template_size_bytes :: int
  Template_disk_size_bytes :: int
  Template_notes :: "string option"
  Template_cpu_count :: int
  Template_memory_mb :: int
  Template_guest_os :: "string option"
  Template_image_created_at :: "instant option"

record iso =
  Iso_id :: ident
  Iso_host_id :: ident
  Iso_name :: string
  Iso_path :: string
  Iso_size_bytes :: int
  Iso_checksum :: "string option"

record host_metric =
  HostMetric_host_id :: ident
  HostMetric_ts :: instant
  HostMetric_cpu_percent :: "pyfloat option"
  HostMetric_mem_percent :: "pyfloat option"
  HostMetric_disk_latency_ms :: "pyfloat option"
  HostMetric_net_rx_bps :: "int option"
  HostMetric_net_tx_bps :: "int option"
  HostMetric_detail :: "json option"

record vm_metric =
  VmMetric_vm_id :: ident
  VmMetric_ts :: instant
  VmMetric_cpu_percent :: "pyfloat option"
  VmMetric_mem_bytes :: "int option"
  VmMetric_disk_bytes :: "int option"
  VmMetric_net_rx_bytes :: "int option"
  VmMetric_net_tx_bytes :: "int option"
  VmMetric_detail :: "json option"

record user =
  User_id :: ident
  User_email :: string
  User_display_name :: "string option"
  User_is_active :: bool
  User_roles :: "string option"

record scope_grant =
  ScopeGrant_id :: ident
  ScopeGrant_user_id :: ident
  ScopeGrant_level :: string
  ScopeGrant_scope_id :: "ident option"

record agent_binary =
  AgentBinary_id :: ident
  AgentBinary_version :: string
  AgentBinary_hypervisor :: string
  AgentBinary_filename :: string
  AgentBinary_size_bytes :: int
  AgentBinary_checksum_sha256 :: string
  AgentBinary_content_type :: string
  AgentBinary_storage_backend :: string
  AgentBinary_storage_key :: string
  AgentBinary_notes :: "string option"
  AgentBinary_is_active :: bool
  AgentBinary_uploaded_by :: string
  AgentBinary_created_at :: instant

record audit_event =
  AuditEvent_id :: ident
  AuditEvent_occurred_at :: instant
  AuditEvent_actor_type :: string
  AuditEvent_actor_email :: "string option"
  AuditEvent_actor_name :: "string option"
  AuditEvent_action :: string
  AuditEvent_target_type :: string
  AuditEvent_target_id :: "ident option"
  AuditEvent_target_name :: "string option"
  AuditEvent_host_id :: "ident option"
  AuditEvent_cluster_id :: "ident option"
  AuditEvent_task_id :: "ident option"
  AuditEvent_outcome :: string
  AuditEvent_error :: "string option"
  AuditEvent_details :: "json option"

text \<open>The database; \<open>db_vm_tags\<close> is the association table (VM id, tag id).\<close>

record database =
  db_clusters :: "cluster list"
  db_hosts :: "host list"
  db_folders :: "folder list"
  db_vlans :: "vlan list"
  db_vms :: "vm list"
  db_vm_thumbnails :: "vm_thumbnail list"
  db_tag_categories :: "tag_category list"
  db_tags :: "tag list"
  db_vm_tags :: "(ident \<times> ident) list"
  db_tasks :: "task list"
  db_templates :: "template list"
  db_isos :: "iso list"
  db_host_metrics :: "host_metric list"
  db_vm_metrics :: "vm_metric list"
  db_users :: "user list"
  db_scope_grants :: "scope_grant list"
  db_agent_binaries :: "agent_binary list"
  db_audit_events :: "audit_event list"

definition empty_db :: database where
  "empty_db = \<lparr>db_clusters = [], db_hosts = [], db_folders = [], db_vlans = [], db_vms = [],
     db_vm_thumbnails = [], db_tag_categories = [], db_tags = [], db_vm_tags = [], db_tasks = [],
     db_templates = [], db_isos = [], db_host_metrics = [], db_vm_metrics = [], db_users = [],
     db_scope_grants = [], db_agent_binaries = [], db_audit_events = []\<rparr>"

section \<open>Constants\<close>

definition DEFAULT_HYPERVISOR :: string where
  "DEFAULT_HYPERVISOR = ''hyperv''"

definition VM_STATES :: "string list" where
  "VM_STATES = [''Running'', ''Off'', ''Paused'', ''Saved'', ''Starting'', ''Stopping'',
     ''Saving'', ''Pausing'', ''Resuming'', ''Restarting'', ''Deleting'', ''Unknown'']"

definition TASK_STATUSES :: "string list" where
  "TASK_STATUSES = [''queued'', ''running'', ''succeeded'', ''failed'', ''timeout'']"

definition TERMINAL_TASK_STATUSES :: "string list" where
  "TERMINAL_TASK_STATUSES = [''succeeded'', ''failed'', ''timeout'']"

definition AUDIT_OUTCOMES :: "string list" where
  "AUDIT_OUTCOMES = [''pending'', ''succeeded'', ''failed'', ''timeout'']"

definition TAG_NAME_MAX_LENGTH :: nat where
  "TAG_NAME_MAX_LENGTH = 64"

definition TAG_COLORS :: "string list" where
  "TAG_COLORS = [''gray'', ''red'', ''orange'', ''yellow'', ''green'', ''teal'', ''blue'',
     ''navy'', ''purple'', ''pink'']"

end
