(* ===== verification/Relations.thy ===== *)
theory Relations
  imports Models
begin

text \<open>
  The foreign keys of \<^verbatim>\<open>app/models\<close>: deleting rows together with their \<^verbatim>\<open>ON DELETE CASCADE\<close> and
  \<^verbatim>\<open>ON DELETE SET NULL\<close> consequences, and the integrity they keep. \<open>drop_vms P\<close> deletes every VM
  satisfying \<open>P\<close>; the thumbnail, the tag assignments and the samples of a deleted VM go with it.
\<close>

section \<open>Deletions\<close>

definition drop_vms :: "(vm \<Rightarrow> bool) \<Rightarrow> database \<Rightarrow> database" where
  "drop_vms P db =
     (let gone = map Vm_id (filter P (db_vms db)) in
      db\<lparr>db_vms := filter (\<lambda>v. \<not> P v) (db_vms db),
         db_vm_thumbnails := filter (\<lambda>t. VmThumbnail_vm_id t \<notin> set gone) (db_vm_thumbnails db),
         db_vm_tags := filter (\<lambda>a. fst a \<notin> set gone) (db_vm_tags db),
         db_vm_metrics := filter (\<lambda>m. VmMetric_vm_id m \<notin> set gone) (db_vm_metrics db)\<rparr>)"

definition drop_folders :: "(folder \<Rightarrow> bool) \<Rightarrow> database \<Rightarrow> database" where
  "drop_folders P db =
     (let gone = map Folder_id (filter P (db_folders db)) in
      db\<lparr>db_folders := filter (\<lambda>f. \<not> P f) (db_folders db),
         db_vms := tupd_where (\<lambda>v. Vm_folder_id v \<in> Some ` set gone)
                     (\<lambda>v. v\<lparr>Vm_folder_id := None\<rparr>) (db_vms db)\<rparr>)"

definition drop_host :: "ident \<Rightarrow> database \<Rightarrow> database" where
  "drop_host h db =
     (let db1 = drop_folders (\<lambda>f. Folder_host_id f = Some h)
                  (drop_vms (\<lambda>v. Vm_host_id v = h) db) in
      db1\<lparr>db_hosts := tdel Host_id h (db_hosts db1),
          db_vlans := filter (\<lambda>v. Vlan_host_id v \<noteq> Some h) (db_vlans db1),
          db_tasks := filter (\<lambda>t. Task_host_id t \<noteq> h) (db_tasks db1),
          db_templates := filter (\<lambda>t. Template_host_id t \<noteq> h) (db_templates db1),
          db_isos := filter (\<lambda>i. Iso_host_id i \<noteq> h) (db_isos db1),
          db_host_metrics := filter (\<lambda>m. HostMetric_host_id m \<noteq> h) (db_host_metrics db1)\<rparr>)"

definition drop_cluster :: "ident \<Rightarrow> database \<Rightarrow> database" where
  "drop_cluster c db =
     (let db1 = drop_folders (\<lambda>f. Folder_cluster_id f = Some c) db in
      db1\<lparr>db_clusters := tdel Cluster_id c (db_clusters db1),
          db_hosts := tupd_where (\<lambda>h. Host_cluster_id h = Some c)
                        (\<lambda>h. h\<lparr>Host_cluster_id := None\<rparr>) (db_hosts db1),
          db_vms := tupd_where (\<lambda>v. Vm_cluster_id v = Some c)
                      (\<lambda>v. v\<lparr>Vm_cluster_id := None\<rparr>) (db_vms db1),
          db_vlans := filter (\<lambda>v. Vlan_cluster_id v \<noteq> Some c) (db_vlans db1)\<rparr>)"

definition drop_tags :: "(tag \<Rightarrow> bool) \<Rightarrow> database \<Rightarrow> database" where
  "drop_tags P db =
     (let gone = map Tag_id (filter P (db_tags db)) in
      db\<lparr>db_tags := filter (\<lambda>t. \<not> P t) (db_tags db),
         db_vm_tags := filter (\<lambda>a. snd a \<notin> set gone) (db_vm_tags db)\<rparr>)"

definition drop_tag_category :: "ident \<Rightarrow> database \<Rightarrow> database" where
  "drop_tag_category c db =
     (let db1 = drop_tags (\<lambda>t. Tag_category_id t = Some c) db in
      db1\<lparr>db_tag_categories := tdel TagCategory_id c (db_tag_categories db1)\<rparr>)"

section \<open>Referential integrity\<close>

definition opt_in :: "'a option \<Rightarrow> 'a set \<Rightarrow> bool" where
  "opt_in x A \<longleftrightarrow> (case x of None \<Rightarrow> True | Some a \<Rightarrow> a \<in> A)"

definition fk_placement :: "database \<Rightarrow> bool" where
  "fk_placement db \<longleftrightarrow>
     (\<forall>h \<in> set (db_hosts db). opt_in (Host_cluster_id h) (Cluster_id ` set (db_clusters db)))
   \<and> (\<forall>f \<in> set (db_folders db). opt_in (Folder_cluster_id f) (Cluster_id ` set (db_clusters db))
        \<and> opt_in (Folder_host_id f) (Host_id ` set (db_hosts db)))
   \<and> (\<forall>v \<in> set (db_vlans db). opt_in (Vlan_cluster_id v) (Cluster_id ` set (db_clusters db))
        \<and> opt_in (Vlan_host_id v) (Host_id ` set (db_hosts db)))
   \<and> (\<forall>v \<in> set (db_vms db). Vm_host_id v \<in> Host_id ` set (db_hosts db)
        \<and> opt_in (Vm_cluster_id v) (Cluster_id ` set (db_clusters db))
        \<and> opt_in (Vm_folder_id v) (Folder_id ` set (db_folders db)))"

definition fk_tags :: "database \<Rightarrow> bool" where
  "fk_tags db \<longleftrightarrow>
     (\<forall>t \<in> set (db_tags db). opt_in (Tag_category_id t) (TagCategory_id ` set (db_tag_categories db)))
   \<and> (\<forall>a \<in> set (db_vm_tags db). fst a \<in> Vm_id ` set (db_vms db) \<and> snd a \<in> Tag_id ` set (db_tags db))"

definition fk_children :: "database \<Rightarrow> bool" where
  "fk_children db \<longleftrightarrow>
     (\<forall>t \<in> set (db_tasks db). Task_host_id t \<in> Host_id ` set (db_hosts db))
   \<and> (\<forall>t \<in> set (db_templates db). Template_host_id t \<in> Host_id ` set (db_hosts db))
   \<and> (\<forall>i \<in> set (db_isos db). Iso_host_id i \<in> Host_id ` set (db_hosts db))
   \<and> (\<forall>m \<in> set (db_host_metrics db). HostMetric_host_id m \<in> Host_id ` set (db_hosts db))
   \<and> (\<forall>m \<in> set (db_vm_metrics db). VmMetric_vm_id m \<in> Vm_id ` set (db_vms db))
   \<and> (\<forall>t \<in> set (db_vm_thumbnails db). VmThumbnail_vm_id t \<in> Vm_id ` set (db_vms db))"

definition fk_ok :: "database \<Rightarrow> bool" where
  "fk_ok db \<longleftrightarrow> fk_placement db \<and> fk_tags db \<and> fk_children db"

text \<open>Primary keys.\<close>

definition keys_ok :: "database \<Rightarrow> bool" where
  "keys_ok db \<longleftrightarrow>
     pk_unique Cluster_id (db_clusters db) \<and> pk_unique Host_id (db_hosts db)
   \<and> pk_unique Folder_id (db_folders db) \<and> pk_unique Vlan_id (db_vlans db)
   \<and> pk_unique Vm_id (db_vms db) \<and> pk_unique TagCategory_id (db_tag_categories db)
   \<and> pk_unique Tag_id (db_tags db) \<and> distinct (db_vm_tags db)
   \<and> pk_unique Task_id (db_tasks db) \<and> pk_unique Template_id (db_templates db)
   \<and> pk_unique Iso_id (db_isos db) \<and> pk_unique User_id (db_users db)
   \<and> pk_unique AgentBinary_id (db_agent_binaries db)
   \<and> pk_unique AuditEvent_id (db_audit_events db)
   \<and> pk_unique VmThumbnail_vm_id (db_vm_thumbnails db)"

section \<open>Lemmas\<close>

lemma opt_in_simps [simp]: "opt_in None A" "opt_in (Some a) A \<longleftrightarrow> a \<in> A"
  by (simp_all add: opt_in_def)

lemma opt_in_mono: "opt_in x A \<Longrightarrow> A \<subseteq> B \<Longrightarrow> opt_in x B"
  by (auto simp: opt_in_def split: option.splits)

lemmas fk_defs = fk_ok_def fk_placement_def fk_tags_def fk_children_def

lemmas drop_defs = drop_vms_def drop_folders_def drop_host_def drop_cluster_def drop_tags_def
  drop_tag_category_def Let_def

lemma set_tupd_where: "set (tupd_where P f t) = (\<lambda>r. if P r then f r else r) ` set t"
  by (simp add: tupd_where_def)

lemma image_tupd_where [simp]:
  "(\<And>r. k (f r) = k r) \<Longrightarrow> k ` set (tupd_where P f t) = k ` set t"
  by (metis list.set_map map_tupd_where)

lemma in_image_filter:
  "pk_unique k t \<Longrightarrow> r \<in> set t \<Longrightarrow> k r \<in> k ` set (filter P t) \<longleftrightarrow> P r"
  by (auto dest: pk_uniqueD)

text \<open>A key that is not among the deleted rows still names a row.\<close>

lemma image_survivor:
  "i \<in> k ` A \<Longrightarrow> i \<notin> k ` {x \<in> A. P x} \<Longrightarrow> i \<in> k ` {x \<in> A. \<not> P x}"
  by auto

lemma drop_vms_fk: "fk_ok db \<Longrightarrow> fk_ok (drop_vms P db)"
  by (simp add: fk_defs drop_vms_def Let_def image_survivor)

lemma drop_folders_folder_fk:
  assumes "fk_ok db" and "v \<in> set (db_vms (drop_folders P db))"
  shows "opt_in (Vm_folder_id v) (Folder_id ` set (db_folders (drop_folders P db)))"
proof -
  define gone where "gone = Folder_id ` {f \<in> set (db_folders db). P f}"
  from assms(2) obtain r where r: "r \<in> set (db_vms db)"
    and v: "v = (if Vm_folder_id r \<in> Some ` gone then r\<lparr>Vm_folder_id := None\<rparr> else r)"
    by (auto simp: drop_folders_def Let_def set_tupd_where gone_def)
  from assms(1) r have "opt_in (Vm_folder_id r) (Folder_id ` set (db_folders db))"
    by (simp add: fk_defs)
  then show ?thesis
    by (cases "Vm_folder_id r")
      (auto simp: v drop_folders_def Let_def gone_def image_iff)
qed

lemma drop_folders_fk:
  assumes fk: "fk_ok db" shows "fk_ok (drop_folders P db)"
proof -
  have "Vm_host_id v \<in> Host_id ` set (db_hosts db)
      \<and> opt_in (Vm_cluster_id v) (Cluster_id ` set (db_clusters db))"
    if "v \<in> set (db_vms (drop_folders P db))" for v
    using that fk by (auto simp: fk_defs drop_folders_def Let_def set_tupd_where)
  then show ?thesis using fk drop_folders_folder_fk [OF fk]
    by (simp add: fk_defs drop_folders_def Let_def)
qed

lemma drop_host_fk: "fk_ok db \<Longrightarrow> fk_ok (drop_host h db)"
proof -
  define db1 where "db1 = drop_folders (\<lambda>f. Folder_host_id f = Some h) (drop_vms (\<lambda>v. Vm_host_id v = h) db)"
  assume "fk_ok db"
  then have fk: "fk_ok db1" by (simp add: db1_def drop_vms_fk drop_folders_fk)
  have no_vm: "Vm_host_id v \<noteq> h" if "v \<in> set (db_vms db1)" for v
    using that by (auto simp: db1_def drop_defs set_tupd_where)
  have no_folder: "Folder_host_id f \<noteq> Some h" if "f \<in> set (db_folders db1)" for f
    using that by (auto simp: db1_def drop_defs)
  have img: "Host_id ` {r \<in> set (db_hosts db1). Host_id r \<noteq> h} = Host_id ` set (db_hosts db1) - {h}"
    by auto
  have opt: "opt_in x (A - {h})" if "opt_in x A" "x \<noteq> Some h" for x and A :: "ident set"
    using that by (cases x) auto
  show ?thesis
    using fk no_vm no_folder
    by (simp add: drop_host_def db1_def [symmetric] Let_def fk_defs img opt)
qed

lemma drop_cluster_fk: "fk_ok db \<Longrightarrow> fk_ok (drop_cluster c db)"
proof -
  define db1 where "db1 = drop_folders (\<lambda>f. Folder_cluster_id f = Some c) db"
  assume "fk_ok db"
  then have fk: "fk_ok db1" by (simp add: db1_def drop_folders_fk)
  have no_folder: "Folder_cluster_id f \<noteq> Some c" if "f \<in> set (db_folders db1)" for f
    using that by (auto simp: db1_def drop_defs)
  have img: "Cluster_id ` {r \<in> set (db_clusters db1). Cluster_id r \<noteq> c}
     = Cluster_id ` set (db_clusters db1) - {c}" by auto
  have opt: "opt_in x (A - {c})" if "opt_in x A" "x \<noteq> Some c" for x and A :: "ident set"
    using that by (cases x) auto
  have hosts: "opt_in (Host_cluster_id h) (Cluster_id ` set (db_clusters db1) - {c})"
    if "h \<in> set (tupd_where (\<lambda>h. Host_cluster_id h = Some c)
          (\<lambda>h. h\<lparr>Host_cluster_id := None\<rparr>) (db_hosts db1))" for h
    using that fk by (auto simp: fk_defs set_tupd_where opt)
  have vms: "Vm_host_id v \<in> Host_id ` set (db_hosts db1)
      \<and> opt_in (Vm_cluster_id v) (Cluster_id ` set (db_clusters db1) - {c})
      \<and> opt_in (Vm_folder_id v) (Folder_id ` set (db_folders db1))"
    if "v \<in> set (tupd_where (\<lambda>v. Vm_cluster_id v = Some c)
          (\<lambda>v. v\<lparr>Vm_cluster_id := None\<rparr>) (db_vms db1))" for v
    using that fk by (auto simp: fk_defs set_tupd_where opt)
  show ?thesis
    using fk no_folder hosts vms
    by (simp add: drop_cluster_def db1_def [symmetric] Let_def fk_defs img opt)
qed

lemma drop_tags_fk: "fk_ok db \<Longrightarrow> fk_ok (drop_tags P db)"
  by (simp add: fk_defs drop_tags_def Let_def image_survivor)

lemma drop_tag_category_fk: "fk_ok db \<Longrightarrow> fk_ok (drop_tag_category c db)"
proof -
  define db1 where "db1 = drop_tags (\<lambda>t. Tag_category_id t = Some c) db"
  assume "fk_ok db"
  then have fk: "fk_ok db1" by (simp add: db1_def drop_tags_fk)
  have no_tag: "Tag_category_id t \<noteq> Some c" if "t \<in> set (db_tags db1)" for t
    using that by (auto simp: db1_def drop_defs)
  have img: "TagCategory_id ` {r \<in> set (db_tag_categories db1). TagCategory_id r \<noteq> c}
     = TagCategory_id ` set (db_tag_categories db1) - {c}" by auto
  have opt: "opt_in x (A - {c})" if "opt_in x A" "x \<noteq> Some c" for x and A :: "ident set"
    using that by (cases x) auto
  show ?thesis
    using fk no_tag
    by (simp add: drop_tag_category_def db1_def [symmetric] Let_def fk_defs img opt)
qed

lemma drop_keys_ok:
  assumes "keys_ok db"
  shows "keys_ok (drop_vms P db)" "keys_ok (drop_folders Q db)" "keys_ok (drop_host h db)"
    "keys_ok (drop_cluster c db)" "keys_ok (drop_tags T db)" "keys_ok (drop_tag_category c db)"
  using assms by (simp_all add: keys_ok_def drop_defs)

end
