(* ===== verification/Rbac.thy ===== *)
theory Rbac
  imports Relations Settings
begin

text \<open>
  \<^verbatim>\<open>app/services/rbac.py\<close>: what a principal may see. \<open>resolve_scope\<close> turns the grants of a user
  into the sets of visible clusters, hosts and folders; \<open>vm_visible\<close> decides one VM in Python and
  \<open>vm_visible_clause\<close> is the \<^verbatim>\<open>WHERE\<close> clause the tag counters use for the same question, in SQL's
  three-valued logic (\<open>None\<close> is the unknown truth value of a comparison with NULL).
\<close>

section \<open>Definitions\<close>

record visible_scope =
  Scope_all :: bool
  Scope_cluster_ids :: "ident set"
  Scope_host_ids :: "ident set"
  Scope_folder_ids :: "ident set"

definition empty_scope :: visible_scope where
  "empty_scope = \<lparr>Scope_all = False, Scope_cluster_ids = {}, Scope_host_ids = {}, Scope_folder_ids = {}\<rparr>"

definition sees_cluster :: "visible_scope \<Rightarrow> ident option \<Rightarrow> bool" where
  "sees_cluster sc c \<longleftrightarrow> Scope_all sc \<or> (case c of None \<Rightarrow> False | Some i \<Rightarrow> i \<in> Scope_cluster_ids sc)"

definition sees_host :: "visible_scope \<Rightarrow> ident \<Rightarrow> bool" where
  "sees_host sc h \<longleftrightarrow> Scope_all sc \<or> h \<in> Scope_host_ids sc"

definition sees_folder :: "visible_scope \<Rightarrow> ident option \<Rightarrow> bool" where
  "sees_folder sc f \<longleftrightarrow> Scope_all sc \<or> (case f of None \<Rightarrow> False | Some i \<Rightarrow> i \<in> Scope_folder_ids sc)"

text \<open>The comma-separated role names of a user row.\<close>

definition user_roles :: "user \<Rightarrow> string list" where
  "user_roles u = (if opt_truthy (User_roles u) then py_split (CHR '','') (or_empty (User_roles u)) else [])"

text \<open>The loop over the grants: \<open>None\<close> is the early return on a global grant, otherwise the
  cluster, host and folder grants.\<close>

fun collect_grants ::
  "scope_grant list \<Rightarrow> ident set \<Rightarrow> ident set \<Rightarrow> ident set \<Rightarrow> (ident set \<times> ident set \<times> ident set) option"
where
  "collect_grants [] cs hs fs = Some (cs, hs, fs)"
| "collect_grants (g # gs) cs hs fs =
     (if ScopeGrant_level g = ''global'' then None
      else if ScopeGrant_level g = ''cluster'' \<and> opt_truthy (ScopeGrant_scope_id g)
        then collect_grants gs (insert (or_empty (ScopeGrant_scope_id g)) cs) hs fs
      else if ScopeGrant_level g = ''host'' \<and> opt_truthy (ScopeGrant_scope_id g)
        then collect_grants gs cs (insert (or_empty (ScopeGrant_scope_id g)) hs) fs
      else if ScopeGrant_level g = ''folder'' \<and> opt_truthy (ScopeGrant_scope_id g)
        then collect_grants gs cs hs (insert (or_empty (ScopeGrant_scope_id g)) fs)
      else collect_grants gs cs hs fs)"

definition user_grants :: "database \<Rightarrow> ident \<Rightarrow> scope_grant list" where
  "user_grants db uid = filter (\<lambda>g. ScopeGrant_user_id g = uid) (db_scope_grants db)"

definition hosts_of_clusters :: "database \<Rightarrow> ident set \<Rightarrow> ident set" where
  "hosts_of_clusters db cs =
     set (map Host_id (filter (\<lambda>h. Host_cluster_id h \<in> Some ` cs) (db_hosts db)))"

definition folders_of_hosts :: "database \<Rightarrow> ident set \<Rightarrow> ident set" where
  "folders_of_hosts db hs =
     set (map Folder_id (filter (\<lambda>f. Folder_host_id f \<in> Some ` hs) (db_folders db)))"

definition resolve_scope :: "settings \<Rightarrow> database \<Rightarrow> user \<Rightarrow> visible_scope" where
  "resolve_scope st db u =
     (if admin_role st \<in> set (user_roles u) then empty_scope\<lparr>Scope_all := True\<rparr>
      else case collect_grants (user_grants db (User_id u)) {} {} {} of
        None \<Rightarrow> empty_scope\<lparr>Scope_all := True\<rparr>
      | Some (cs, hs, fs) \<Rightarrow>
          (let host_ids = hs \<union> (if cs = {} then {} else hosts_of_clusters db cs);
               folder_ids = fs \<union> (if host_ids = {} then {} else folders_of_hosts db host_ids)
           in \<lparr>Scope_all = False, Scope_cluster_ids = cs, Scope_host_ids = host_ids,
               Scope_folder_ids = folder_ids\<rparr>))"

definition vm_visible :: "visible_scope \<Rightarrow> vm \<Rightarrow> bool" where
  "vm_visible sc v \<longleftrightarrow> Scope_all sc \<or> sees_host sc (Vm_host_id v) \<or> sees_folder sc (Vm_folder_id v)"

text \<open>SQL: \<^verbatim>\<open>x IN (...)\<close> of a nullable column, \<^verbatim>\<open>OR\<close>, and the truth test of \<^verbatim>\<open>WHERE\<close>.\<close>

definition sql_in :: "'a option \<Rightarrow> 'a set \<Rightarrow> bool option" where
  "sql_in x A = (if A = {} then Some False else case x of None \<Rightarrow> None | Some a \<Rightarrow> Some (a \<in> A))"

fun sql_or :: "bool option \<Rightarrow> bool option \<Rightarrow> bool option" where
  "sql_or (Some True) _ = Some True"
| "sql_or _ (Some True) = Some True"
| "sql_or (Some False) (Some False) = Some False"
| "sql_or _ _ = None"

definition vm_visible_clause :: "visible_scope \<Rightarrow> vm \<Rightarrow> bool option" where
  "vm_visible_clause sc v =
     (if Scope_all sc then Some True
      else if Scope_host_ids sc = {} \<and> Scope_folder_ids sc = {} then Some False
      else sql_or (sql_in (Some (Vm_host_id v)) (Scope_host_ids sc))
                  (sql_in (Vm_folder_id v) (Scope_folder_ids sc)))"

definition sql_where :: "('r \<Rightarrow> bool option) \<Rightarrow> 'r list \<Rightarrow> 'r list" where
  "sql_where c rs = filter (\<lambda>r. c r = Some True) rs"

text \<open>The scopes \<^verbatim>\<open>GET /me\<close> reports (\<^verbatim>\<open>app/api/routes/auth.py\<close>), as sets per level.\<close>

definition me_scopes :: "visible_scope \<Rightarrow> (string \<times> ident option) set" where
  "me_scopes sc =
     (if Scope_all sc then {(''global'', None)}
      else (\<lambda>c. (''cluster'', Some c)) ` Scope_cluster_ids sc
         \<union> (\<lambda>h. (''host'', Some h)) ` Scope_host_ids sc
         \<union> (\<lambda>f. (''folder'', Some f)) ` Scope_folder_ids sc)"

text \<open>\<open>granted gs level i\<close>: some grant of the list names \<open>i\<close> at that level.\<close>

definition granted :: "scope_grant list \<Rightarrow> string \<Rightarrow> ident \<Rightarrow> bool" where
  "granted gs level i \<longleftrightarrow>
     (\<exists>g \<in> set gs. ScopeGrant_level g = level \<and> ScopeGrant_scope_id g = Some i \<and> i \<noteq> [])"

definition unrestricted :: "settings \<Rightarrow> database \<Rightarrow> user \<Rightarrow> bool" where
  "unrestricted st db u \<longleftrightarrow> admin_role st \<in> set (user_roles u)
     \<or> (\<exists>g \<in> set (user_grants db (User_id u)). ScopeGrant_level g = ''global'')"

section \<open>The guarded lookup of the routes\<close>

text \<open>
  Every route that takes an id loads the row, answers 404 when there is none and 403 when the scope
  does not show it (\<^verbatim>\<open>_get_visible_vm\<close>, \<^verbatim>\<open>_get_visible_host\<close>, \<^verbatim>\<open>_get_visible_folder\<close>,
  \<^verbatim>\<open>_get_visible_vlan\<close>). The interface is a table, its key and a visibility test that the
  unrestricted scope always passes.
\<close>

definition not_found :: exn where
  "not_found = ApiError ''NOT_FOUND'' 404"

definition forbidden :: exn where
  "forbidden = ApiError ''FORBIDDEN'' 403"

definition get_visible ::
  "('r \<Rightarrow> ident) \<Rightarrow> (visible_scope \<Rightarrow> 'r \<Rightarrow> bool) \<Rightarrow> 'r list \<Rightarrow> visible_scope \<Rightarrow> ident \<Rightarrow> 'r res"
where
  "get_visible k vis t sc i =
     (case tget k t i of None \<Rightarrow> Inl not_found
      | Some r \<Rightarrow> if vis sc r then Inr r else Inl forbidden)"

definition get_visible_host :: "database \<Rightarrow> visible_scope \<Rightarrow> ident \<Rightarrow> host res" where
  "get_visible_host db = get_visible Host_id (\<lambda>sc h. sees_host sc (Host_id h)) (db_hosts db)"

definition get_visible_vm :: "database \<Rightarrow> visible_scope \<Rightarrow> ident \<Rightarrow> vm res" where
  "get_visible_vm db = get_visible Vm_id vm_visible (db_vms db)"

text \<open>\<^verbatim>\<open>_visible\<close> of the folder and VLAN routes.\<close>

definition scoped_visible :: "ident option \<Rightarrow> ident option \<Rightarrow> visible_scope \<Rightarrow> bool" where
  "scoped_visible cid hid sc \<longleftrightarrow> Scope_all sc \<or> (cid \<noteq> None \<and> sees_cluster sc cid)
     \<or> (case hid of None \<Rightarrow> False | Some h \<Rightarrow> sees_host sc h)"

definition folder_visible :: "visible_scope \<Rightarrow> folder \<Rightarrow> bool" where
  "folder_visible sc f = scoped_visible (Folder_cluster_id f) (Folder_host_id f) sc"

definition vlan_visible :: "visible_scope \<Rightarrow> vlan \<Rightarrow> bool" where
  "vlan_visible sc v = scoped_visible (Vlan_cluster_id v) (Vlan_host_id v) sc"

definition get_visible_folder :: "database \<Rightarrow> visible_scope \<Rightarrow> ident \<Rightarrow> folder res" where
  "get_visible_folder db = get_visible Folder_id folder_visible (db_folders db)"

definition get_visible_vlan :: "database \<Rightarrow> visible_scope \<Rightarrow> ident \<Rightarrow> vlan res" where
  "get_visible_vlan db = get_visible Vlan_id vlan_visible (db_vlans db)"

section \<open>Lemmas\<close>

lemma collect_grants_None_iff:
  "collect_grants gs cs hs fs = None \<longleftrightarrow> (\<exists>g \<in> set gs. ScopeGrant_level g = ''global'')"
  by (induction gs arbitrary: cs hs fs) auto

lemma granted_simps [simp]:
  "\<not> granted [] l i"
  "granted (g # gs) l i \<longleftrightarrow>
     (ScopeGrant_level g = l \<and> ScopeGrant_scope_id g = Some i \<and> i \<noteq> []) \<or> granted gs l i"
  by (auto simp: granted_def)

lemma collect_grants_Some:
  "collect_grants gs cs hs fs = Some (cs', hs', fs') \<Longrightarrow>
     cs' = cs \<union> {i. granted gs ''cluster'' i} \<and> hs' = hs \<union> {i. granted gs ''host'' i}
   \<and> fs' = fs \<union> {i. granted gs ''folder'' i}"
proof (induction gs arbitrary: cs hs fs)
  case (Cons g gs)
  then show ?case
    by (cases "ScopeGrant_scope_id g") (auto simp: opt_truthy_def split: if_splits)
qed auto

lemma scope_guards:
  "(if X = {} then {} else hosts_of_clusters db X) = hosts_of_clusters db X"
  "(if Y = {} then {} else folders_of_hosts db Y) = folders_of_hosts db Y"
  by (auto simp: hosts_of_clusters_def folders_of_hosts_def)

lemma resolve_scope_cases:
  assumes "\<not> unrestricted st db u"
  defines "gs \<equiv> user_grants db (User_id u)"
  defines "cs \<equiv> {i. granted gs ''cluster'' i}"
  defines "hs \<equiv> {i. granted gs ''host'' i} \<union> hosts_of_clusters db cs"
  shows "resolve_scope st db u =
    \<lparr>Scope_all = False, Scope_cluster_ids = cs, Scope_host_ids = hs,
     Scope_folder_ids = {i. granted gs ''folder'' i} \<union> folders_of_hosts db hs\<rparr>"
proof -
  from assms(1) obtain cs' hs' fs' where c: "collect_grants gs {} {} {} = Some (cs', hs', fs')"
    by (cases "collect_grants gs {} {} {}")
      (auto simp: unrestricted_def gs_def collect_grants_None_iff)
  from collect_grants_Some [OF c] have "cs' = cs" "hs' = {i. granted gs ''host'' i}"
    "fs' = {i. granted gs ''folder'' i}" by (simp_all add: cs_def)
  then show ?thesis using assms(1) c
    unfolding resolve_scope_def Let_def scope_guards
    by (simp add: unrestricted_def gs_def [symmetric] hs_def)
qed

lemma resolve_scope_all: "Scope_all (resolve_scope st db u) \<longleftrightarrow> unrestricted st db u"
proof (cases "unrestricted st db u")
  case True
  then show ?thesis
    using collect_grants_None_iff [of "user_grants db (User_id u)" "{}" "{}" "{}"]
    by (auto simp: resolve_scope_def unrestricted_def)
next
  case False
  then show ?thesis by (simp add: resolve_scope_cases)
qed

lemma sql_or_True: "sql_or x y = Some True \<longleftrightarrow> x = Some True \<or> y = Some True"
  by (cases "(x, y)" rule: sql_or.cases) auto

lemma sql_in_True: "sql_in x A = Some True \<longleftrightarrow> (\<exists>a \<in> A. x = Some a)"
  by (auto simp: sql_in_def split: option.splits)

lemma vm_visible_clause_True: "vm_visible_clause sc v = Some True \<longleftrightarrow> vm_visible sc v"
  by (auto simp: vm_visible_clause_def vm_visible_def sees_host_def sees_folder_def
      sql_or_True sql_in_True split: option.splits)

text \<open>The contract of a visibility test, and what the guarded lookup gives on top of it.\<close>

locale visibility =
  fixes vis :: "visible_scope \<Rightarrow> 'r \<Rightarrow> bool"
  assumes admin_sees: "Scope_all sc \<Longrightarrow> vis sc r"
begin

lemma lookup_Inr:
  "get_visible k vis t sc i = Inr r \<longleftrightarrow> tget k t i = Some r \<and> vis sc r"
  by (auto simp: get_visible_def split: option.splits)

lemma lookup_missing: "get_visible k vis t sc i = Inl not_found \<longleftrightarrow> i \<notin> k ` set t"
  by (auto simp: get_visible_def not_found_def forbidden_def tget_None_iff [symmetric]
      split: option.splits)

lemma lookup_admin: "Scope_all sc \<Longrightarrow> tget k t i = Some r \<Longrightarrow> get_visible k vis t sc i = Inr r"
  by (simp add: lookup_Inr admin_sees)

lemma lookup_hidden:
  "get_visible k vis t sc i = Inl forbidden \<longleftrightarrow> (\<exists>r. tget k t i = Some r \<and> \<not> vis sc r)"
  by (auto simp: get_visible_def not_found_def forbidden_def split: option.splits)

end

interpretation vm_vis: visibility vm_visible
  by unfold_locales (simp add: vm_visible_def)

interpretation host_vis: visibility "\<lambda>sc h. sees_host sc (Host_id h)"
  by unfold_locales (simp add: sees_host_def)

interpretation folder_vis: visibility folder_visible
  by unfold_locales (simp add: folder_visible_def scoped_visible_def)

interpretation vlan_vis: visibility vlan_visible
  by unfold_locales (simp add: vlan_visible_def scoped_visible_def)

section \<open>Properties\<close>

text \<open>the SQL clause used to filter and count VMs selects exactly the VMs that the Python test
  \<^verbatim>\<open>vm_visible\<close> accepts, also for VMs without a folder (a NULL column) and for empty id sets.\<close>

theorem vm_visible_clause_twin:
  "sql_where (vm_visible_clause sc) vms = filter (vm_visible sc) vms"
  by (simp add: sql_where_def vm_visible_clause_True)

text \<open>a user sees a host exactly when the user is unrestricted (the admin role or a global
  grant), was granted the host itself, or was granted the cluster the host is in.\<close>

theorem resolve_scope_hosts:
  "sees_host (resolve_scope st db u) h \<longleftrightarrow>
     unrestricted st db u
   \<or> granted (user_grants db (User_id u)) ''host'' h
   \<or> (\<exists>x \<in> set (db_hosts db). Host_id x = h
        \<and> (\<exists>c. Host_cluster_id x = Some c \<and> granted (user_grants db (User_id u)) ''cluster'' c))"
proof (cases "unrestricted st db u")
  case True
  then show ?thesis by (simp add: sees_host_def resolve_scope_all)
next
  case False
  then show ?thesis
    by (auto simp: sees_host_def resolve_scope_cases hosts_of_clusters_def)
qed

text \<open>a user whose grants are all folder grants sees the VMs of a granted folder but never the
  folder itself: \<^verbatim>\<open>_visible\<close> of the folder routes does not consult the granted folder ids.\<close>

theorem folder_grant_hides_folder:
  assumes "\<not> unrestricted st db u"
    and "\<forall>g \<in> set (user_grants db (User_id u)). ScopeGrant_level g = ''folder''"
    and "granted (user_grants db (User_id u)) ''folder'' (Folder_id f)"
    and "Vm_folder_id v = Some (Folder_id f)"
  shows "vm_visible (resolve_scope st db u) v \<and> \<not> folder_visible (resolve_scope st db u) f"
proof (intro conjI)
  show "vm_visible (resolve_scope st db u) v"
    using assms(1,3,4) by (simp add: vm_visible_def sees_folder_def resolve_scope_cases)
  have none: "\<not> granted (user_grants db (User_id u)) l i" if "l \<noteq> ''folder''" for l i
    using assms(2) that by (auto simp: granted_def)
  show "\<not> folder_visible (resolve_scope st db u) f"
    using assms(1) none
    by (simp add: folder_visible_def scoped_visible_def sees_cluster_def sees_host_def
        resolve_scope_cases hosts_of_clusters_def split: option.splits)
qed

definition example_folder_user :: user where
  "example_folder_user = \<lparr>User_id = ''u1'', User_email = ''op@ovc'', User_display_name = None,
     User_is_active = True, User_roles = None\<rparr>"

definition example_folder_grant :: scope_grant where
  "example_folder_grant = \<lparr>ScopeGrant_id = ''g1'', ScopeGrant_user_id = ''u1'',
     ScopeGrant_level = ''folder'', ScopeGrant_scope_id = Some ''f1''\<rparr>"

definition example_folder :: folder where
  "example_folder = \<lparr>Folder_id = ''f1'', Folder_cluster_id = Some ''c1'', Folder_host_id = None,
     Folder_name = ''prod''\<rparr>"

definition example_db :: database where
  "example_db = empty_db\<lparr>db_users := [example_folder_user],
     db_scope_grants := [example_folder_grant], db_folders := [example_folder]\<rparr>"

lemma example_db_simps:
  "\<not> unrestricted default_settings example_db example_folder_user"
  "user_grants example_db (User_id example_folder_user) = [example_folder_grant]"
  by (simp_all add: example_db_def empty_db_def user_grants_def example_folder_user_def
      example_folder_grant_def unrestricted_def user_roles_def)

theorem folder_grant_hides_folder_witness:
  "\<exists>v. Vm_folder_id v = Some ''f1''
    \<and> vm_visible (resolve_scope default_settings example_db example_folder_user) v
    \<and> \<not> folder_visible (resolve_scope default_settings example_db example_folder_user) example_folder"
proof -
  have g: "\<forall>g \<in> set (user_grants example_db (User_id example_folder_user)).
      ScopeGrant_level g = ''folder''"
    "granted (user_grants example_db (User_id example_folder_user)) ''folder'' (Folder_id example_folder)"
    by (simp_all add: example_db_simps example_folder_grant_def example_folder_def)
  obtain v :: vm where v: "Vm_folder_id v = Some (Folder_id example_folder)"
    by (metis vm.select_convs(5))
  with folder_grant_hides_folder [OF example_db_simps(1) g v] show ?thesis
    by (auto simp: example_folder_def)
qed

end
