(* ===== verification/Auth.thy ===== *)
theory Auth
  imports Rbac
begin

text \<open>
  \<^verbatim>\<open>app/services/auth.py\<close> and \<^verbatim>\<open>app/api/deps.py\<close>: from a request to the user row its scope is
  resolved for. Here the verification of a token and the download of the signing keys are arguments (see \<^verbatim>\<open>Oidc\<close>):
  \<open>verify\<close> maps a bearer token to its claims or an exception, \<open>fetched\<close> is the document the
  provider answers. Committing concurrently with another request is the argument \<open>race\<close>: the row
  that request inserted between this one's lookup and its insert, if any.
\<close>

section \<open>Provisioning users\<close>

definition user_by_email :: "database \<Rightarrow> string \<Rightarrow> user option res" where
  "user_by_email db email = scalar_one_or_none (filter (\<lambda>u. User_email u = email) (db_users db))"

definition default_display_name :: "string \<Rightarrow> string" where
  "default_display_name email = hd (py_split (CHR ''@'') email)"

definition new_user :: "ident \<Rightarrow> string \<Rightarrow> string option \<Rightarrow> string list option \<Rightarrow> user" where
  "new_user uid email display_name roles =
     \<lparr>User_id = uid, User_email = email,
      User_display_name = Some (if opt_truthy display_name then or_empty display_name
                                else default_display_name email),
      User_is_active = True,
      User_roles = (case roles of None \<Rightarrow> None
         | Some rs \<Rightarrow> if rs = [] then None else Some (py_join '','' rs))\<rparr>"

text \<open>Lookup, or insert in a savepoint; a lost race rolls the insert back and reads the winner.\<close>

definition find_or_insert_user ::
  "user option \<Rightarrow> user \<Rightarrow> string \<Rightarrow> database \<Rightarrow> (user \<times> database) res"
where
  "find_or_insert_user race cand email db =
     sbind (user_by_email db email) (\<lambda>found.
       case found of Some u \<Rightarrow> Inr (u, db)
       | None \<Rightarrow>
           (case race of None \<Rightarrow> Inr (cand, db\<lparr>db_users := db_users db @ [cand]\<rparr>)
            | Some w \<Rightarrow>
                (let db' = db\<lparr>db_users := db_users db @ [w]\<rparr> in
                 sbind (user_by_email db' email) (\<lambda>again.
                   case again of None \<Rightarrow> Inl RuntimeError | Some u \<Rightarrow> Inr (u, db')))))"

definition set_user_roles :: "string list option \<Rightarrow> user \<Rightarrow> database \<Rightarrow> user \<times> database" where
  "set_user_roles roles u db =
     (case roles of None \<Rightarrow> (u, db)
      | Some rs \<Rightarrow>
          (let u' = u\<lparr>User_roles := Some (py_join '','' rs)\<rparr> in
           (u', db\<lparr>db_users := tupd User_id (User_id u) (\<lambda>_. u') (db_users db)\<rparr>)))"

definition grant_global_scope :: "ident \<Rightarrow> user \<Rightarrow> database \<Rightarrow> database" where
  "grant_global_scope gid u db =
     (if list_ex (\<lambda>g. ScopeGrant_level g = ''global'') (user_grants db (User_id u)) then db
      else db\<lparr>db_scope_grants := db_scope_grants db @
             [\<lparr>ScopeGrant_id = gid, ScopeGrant_user_id = User_id u, ScopeGrant_level = ''global'',
               ScopeGrant_scope_id = None\<rparr>]\<rparr>)"

definition get_or_create_user ::
  "user option \<Rightarrow> ident \<Rightarrow> ident \<Rightarrow> string \<Rightarrow> string option \<Rightarrow> string list option \<Rightarrow> bool
     \<Rightarrow> database \<Rightarrow> (user \<times> database) res"
where
  "get_or_create_user race uid gid email display_name roles grant_global db =
     sbind (find_or_insert_user race (new_user uid email display_name roles) email db) (\<lambda>(u, db1).
       let (u2, db2) = set_user_roles roles u db1 in
       Inr (u2, if grant_global then grant_global_scope gid u2 db2 else db2))"

definition resolve_stub_user ::
  "settings \<Rightarrow> user option \<Rightarrow> ident \<Rightarrow> ident \<Rightarrow> database \<Rightarrow> (user \<times> database) res"
where
  "resolve_stub_user st race uid gid =
     get_or_create_user race uid gid (stub_user_email st) None (Some [admin_role st]) True"

section \<open>Tokens\<close>

definition bearer_token :: "string \<Rightarrow> string option" where
  "bearer_token header =
     (if py_startswith (py_lower header) ''bearer '' then Some (py_strip (drop 7 header)) else None)"

fun claim_by_path :: "json \<Rightarrow> string list \<Rightarrow> json" where
  "claim_by_path node [] = node"
| "claim_by_path node (p # ps) =
     (case as_dict node of None \<Rightarrow> JNull | Some d \<Rightarrow> claim_by_path (jget d p) ps)"

text \<open>\<^verbatim>\<open>s.replace(pat, r)\<close> for a non-empty pattern.\<close>

function py_replace :: "string \<Rightarrow> string \<Rightarrow> string \<Rightarrow> string" where
  "py_replace pat r s =
     (if s = [] \<or> pat = [] then s
      else if py_startswith s pat then r @ py_replace pat r (drop (length pat) s)
      else hd s # py_replace pat r (tl s))"
  by pat_completeness auto
termination
  by (relation "measure (\<lambda>(pat, r, s). length s)") (auto simp: neq_Nil_conv)

declare py_replace.simps [simp del]

definition token_roles :: "pyenv \<Rightarrow> settings \<Rightarrow> jobj \<Rightarrow> string list" where
  "token_roles pe st claims =
     (let path = py_replace ''${client_id}'' (oidc_client_id st) (oidc_roles_claim st);
          value = claim_by_path (JObj claims) (py_split (CHR ''.'') path)
      in case value of
           JList xs \<Rightarrow> map (py_str pe) xs
         | JStr s \<Rightarrow> filter (\<lambda>w. w \<noteq> []) (split_by is_space s)
         | _ \<Rightarrow> [])"

text \<open>The signing-key cache: the document and the (monotonic) time it was fetched at, in seconds;
  the second component of the result is whether a download happened.\<close>

definition JWKS_MIN_REFRESH_SECONDS :: int where
  "JWKS_MIN_REFRESH_SECONDS = 60"

definition get_jwks ::
  "settings \<Rightarrow> bool \<Rightarrow> int \<Rightarrow> json \<Rightarrow> int \<times> json option \<Rightarrow> (json \<times> bool) \<times> (int \<times> json option)"
where
  "get_jwks st force now fetched cache =
     (let age = now - fst cache;
          ttl = (if force then JWKS_MIN_REFRESH_SECONDS else oidc_jwks_ttl_seconds st)
      in case snd cache of
           Some doc \<Rightarrow> if age < ttl then ((doc, False), cache) else ((fetched, True), (now, Some fetched))
         | None \<Rightarrow> ((fetched, True), (now, Some fetched)))"

definition unauthorized :: exn where
  "unauthorized = ApiError ''UNAUTHENTICATED'' 401"

text \<open>A claim used as text; the column write rejects any other value.\<close>

fun text_claim :: "json \<Rightarrow> string res" where
  "text_claim (JStr s) = Inr s"
| "text_claim _ = Inl DBAPIError"

fun text_claim_opt :: "json \<Rightarrow> string option res" where
  "text_claim_opt JNull = Inr None"
| "text_claim_opt (JStr s) = Inr (Some s)"
| "text_claim_opt _ = Inl DBAPIError"

definition get_current_user ::
  "pyenv \<Rightarrow> settings \<Rightarrow> (string \<Rightarrow> jobj res) \<Rightarrow> user option \<Rightarrow> ident \<Rightarrow> ident \<Rightarrow> string
     \<Rightarrow> database \<Rightarrow> (user \<times> database) res"
where
  "get_current_user pe st verify race uid gid header db =
     (if auth_mode st = ''stub'' then resolve_stub_user st race uid gid db
      else case bearer_token header of
        None \<Rightarrow> Inl unauthorized
      | Some token \<Rightarrow>
          if token = [] then Inl unauthorized
          else sbind (verify token) (\<lambda>claims.
            if \<not> truthy (jget claims ''email'') \<and> \<not> jhas claims ''sub'' then Inl KeyError
            else sbind (text_claim (jor (jget claims ''email'') (jget claims ''sub''))) (\<lambda>email.
              sbind (text_claim_opt (jget claims ''name'')) (\<lambda>name.
                get_or_create_user race uid gid email name (Some (token_roles pe st claims)) False db))))"

section \<open>Lemmas\<close>

lemma user_roles_join:
  assumes "\<And>r. r \<in> set rs \<Longrightarrow> CHR '','' \<notin> set r"
  shows "set (user_roles (u\<lparr>User_roles := Some (py_join '','' rs)\<rparr>)) = (if rs = [] \<or> rs = [[]] then {} else set rs)"
proof (cases "rs = []")
  case False
  then have split: "py_split (CHR '','') (py_join '','' rs) = rs" by (rule py_split_join) (rule assms)
  moreover have "py_join '','' rs = [] \<longleftrightarrow> rs = [[]]"
    by (metis split py_split.simps(1) py_join.simps(2))
  ultimately show ?thesis using False by (auto simp: user_roles_def)
qed (simp add: user_roles_def)

lemma user_by_email_append_fresh:
  assumes "user_by_email db e = Inr None" and "User_email u = e"
  shows "user_by_email (db\<lparr>db_users := db_users db @ [u]\<rparr>) e = Inr (Some u)"
  using assms by (auto simp: user_by_email_def scalar_one_or_none_def split: list.splits)

lemma user_by_email_hit: "user_by_email db email = Inr (Some u) \<Longrightarrow> User_email u = email"
proof -
  assume "user_by_email db email = Inr (Some u)"
  then have "filter (\<lambda>u. User_email u = email) (db_users db) = [u]"
    by (simp add: user_by_email_def scalar_one_or_none_def split: list.splits)
  then have "u \<in> set (filter (\<lambda>u. User_email u = email) (db_users db))" by simp
  then show ?thesis by simp
qed

lemma find_or_insert_email:
  assumes ret: "find_or_insert_user race cand email db = Inr (u, db')"
    and cand: "User_email cand = email"
  shows "User_email u = email"
proof (cases "user_by_email db email")
  case (Inl e)
  with ret show ?thesis by (simp add: find_or_insert_user_def)
next
  case (Inr found)
  show ?thesis
  proof (cases found)
    case (Some w)
    with ret Inr show ?thesis by (simp add: find_or_insert_user_def user_by_email_hit)
  next
    case None
    show ?thesis
    proof (cases race)
      case None
      with ret Inr \<open>found = None\<close> cand show ?thesis by (auto simp: find_or_insert_user_def)
    next
      case (Some w)
      define db1 where "db1 = db\<lparr>db_users := db_users db @ [w]\<rparr>"
      from ret Inr \<open>found = None\<close> Some have "sbind (user_by_email db1 email) (\<lambda>again.
          case again of None \<Rightarrow> Inl RuntimeError | Some u \<Rightarrow> Inr (u, db1)) = Inr (u, db')"
        by (simp add: find_or_insert_user_def db1_def [symmetric] Let_def)
      then obtain again where "user_by_email db1 email = Inr again" "again = Some u"
        by (cases "user_by_email db1 email") (auto split: option.splits)
      then show ?thesis by (simp add: user_by_email_hit)
    qed
  qed
qed

lemma grant_global_scope_global:
  "\<exists>g \<in> set (user_grants (grant_global_scope gid u db) (User_id u)). ScopeGrant_level g = ''global''"
  by (cases "list_ex (\<lambda>g. ScopeGrant_level g = ''global'') (user_grants db (User_id u))")
    (simp_all add: grant_global_scope_def list_ex_iff, simp add: user_grants_def)

section \<open>Properties\<close>

text \<open>signing in through the identity provider gives the administrator's unrestricted scope
  exactly when the token lists the admin role or the user holds a global grant, provided no role
  name contains a comma.\<close>

theorem token_roles_decide_admin:
  assumes "get_or_create_user race uid gid email name (Some rs) False db = Inr (u, db')"
    and "\<forall>r \<in> set rs. CHR '','' \<notin> set r" and "admin_role st \<noteq> []"
  shows "unrestricted st db' u \<longleftrightarrow> admin_role st \<in> set rs
     \<or> (\<exists>g \<in> set (user_grants db' (User_id u)). ScopeGrant_level g = ''global'')"
proof -
  from assms(1) obtain u0 where "u = u0\<lparr>User_roles := Some (py_join '','' rs)\<rparr>"
    by (auto simp: get_or_create_user_def sbind_eq_Inr set_user_roles_def Let_def)
  then have "set (user_roles u) = (if rs = [] \<or> rs = [[]] then {} else set rs)"
    using user_roles_join assms(2) by blast
  then show ?thesis using assms(3) by (auto simp: unrestricted_def)
qed

theorem token_roles_decide_admin_witness:
  "unrestricted default_settings
     (snd (projr (get_or_create_user None ''u'' ''g'' ''a@b'' None (Some [''ADMINISTRATOR'']) False empty_db)))
     (fst (projr (get_or_create_user None ''u'' ''g'' ''a@b'' None (Some [''ADMINISTRATOR'']) False empty_db)))"
proof -
  obtain u db' where
    r: "get_or_create_user None ''u'' ''g'' ''a@b'' None (Some [''ADMINISTRATOR'']) False empty_db = Inr (u, db')"
    by (simp add: get_or_create_user_def find_or_insert_user_def user_by_email_def
        scalar_one_or_none_def empty_db_def set_user_roles_def Let_def)
  have "unrestricted default_settings db' u"
    using token_roles_decide_admin [OF r, of default_settings] by (simp add: default_settings_def)
  then show ?thesis by (simp add: r)
qed

text \<open>the roles are stored joined by commas and read back by splitting on them, so a token role
  whose name contains a comma can name the admin role without the token listing it.\<close>

theorem comma_role_becomes_admin:
  "\<exists>rs u db'. admin_role default_settings \<notin> set rs
     \<and> get_or_create_user None ''u'' ''g'' ''a@b'' None (Some rs) False empty_db = Inr (u, db')
     \<and> Scope_all (resolve_scope default_settings db' u)"
proof (intro exI conjI)
  show "admin_role default_settings \<notin> set [''audit,ADMINISTRATOR'']"
    by (simp add: default_settings_def)
  show "get_or_create_user None ''u'' ''g'' ''a@b'' None (Some [''audit,ADMINISTRATOR'']) False empty_db
      = Inr (new_user ''u'' ''a@b'' None (Some [''audit,ADMINISTRATOR'']),
             empty_db\<lparr>db_users := [new_user ''u'' ''a@b'' None (Some [''audit,ADMINISTRATOR''])]\<rparr>)"
    by (simp add: get_or_create_user_def find_or_insert_user_def user_by_email_def tupd_def
        scalar_one_or_none_def empty_db_def set_user_roles_def new_user_def Let_def)
  show "Scope_all (resolve_scope default_settings
      (empty_db\<lparr>db_users := [new_user ''u'' ''a@b'' None (Some [''audit,ADMINISTRATOR''])]\<rparr>)
      (new_user ''u'' ''a@b'' None (Some [''audit,ADMINISTRATOR''])))"
    by (simp add: resolve_scope_all unrestricted_def user_roles_def new_user_def default_settings_def)
qed

text \<open>the development principal always ends up unrestricted, whatever the database held and
  whichever request won the race to create its row.\<close>

theorem stub_user_unrestricted:
  assumes "resolve_stub_user st race uid gid db = Inr (u, db')"
  shows "Scope_all (resolve_scope st db' u) \<and> User_email u = stub_user_email st"
proof (intro conjI)
  from assms obtain u1 db1 where
    f: "find_or_insert_user race (new_user uid (stub_user_email st) None (Some [admin_role st]))
          (stub_user_email st) db = Inr (u1, db1)"
    by (auto simp: resolve_stub_user_def get_or_create_user_def sbind_eq_Inr)
  obtain u2 db2 where s: "set_user_roles (Some [admin_role st]) u1 db1 = (u2, db2)"
    by (rule prod.exhaust)
  from assms f s have r: "u = u2" "db' = grant_global_scope gid u2 db2"
    by (auto simp: resolve_stub_user_def get_or_create_user_def)
  show "Scope_all (resolve_scope st db' u)"
    using grant_global_scope_global [of gid u2 db2]
    by (simp add: resolve_scope_all unrestricted_def r)
  have "User_email u1 = stub_user_email st"
    using find_or_insert_email [OF f] by (simp add: new_user_def)
  then show "User_email u = stub_user_email st" using s r by (auto simp: set_user_roles_def Let_def)
qed

theorem stub_user_unrestricted_witness:
  "\<exists>u db'. resolve_stub_user default_settings None ''u'' ''g'' empty_db = Inr (u, db')
     \<and> Scope_all (resolve_scope default_settings db' u) \<and> User_email u = ''operator@ovc.local''"
proof -
  obtain u db' where r: "resolve_stub_user default_settings None ''u'' ''g'' empty_db = Inr (u, db')"
    by (simp add: resolve_stub_user_def get_or_create_user_def find_or_insert_user_def
        user_by_email_def scalar_one_or_none_def empty_db_def set_user_roles_def Let_def)
  show ?thesis using r stub_user_unrestricted [OF r] by (simp add: default_settings_def)
qed

end
