(* ===== verification/Base64.thy ===== *)
theory Base64
  imports Prelude
begin

text \<open>
  Base64 as the code uses it: the URL-safe encoding of audit cursors with its padding stripped, the
  lenient decoder of \<^verbatim>\<open>base64.urlsafe_b64decode\<close> (characters outside the alphabet are skipped, input
  after a complete padding is not read), and the strict decoder of
  \<^verbatim>\<open>base64.b64decode(s, validate=True)\<close>. Bytes are characters.
\<close>

section \<open>Definitions\<close>

definition b64_chr :: "nat \<Rightarrow> char" where
  "b64_chr n =
     (if n < 26 then char_of (n + 65)
      else if n < 52 then char_of (n + 71)
      else if n < 62 then char_of (n - 4)
      else if n = 62 then CHR ''-'' else CHR ''_'')"

definition b64_val :: "char \<Rightarrow> nat option" where
  "b64_val c =
     (let n = (of_char c :: nat) in
      if 65 \<le> n \<and> n \<le> 90 then Some (n - 65)
      else if 97 \<le> n \<and> n \<le> 122 then Some (n - 71)
      else if 48 \<le> n \<and> n \<le> 57 then Some (n + 4)
      else if n = 43 then Some 62
      else if n = 47 then Some 63
      else None)"

text \<open>The translation of the URL-safe characters before decoding.\<close>

definition urlsafe_char :: "char \<Rightarrow> char" where
  "urlsafe_char c = (if c = CHR ''-'' then CHR ''+'' else if c = CHR ''_'' then CHR ''/'' else c)"

definition byte :: "char \<Rightarrow> nat" where
  "byte c = of_char c"

fun b64_data :: "string \<Rightarrow> string" where
  "b64_data [] = []"
| "b64_data [a] = [b64_chr (byte a div 4), b64_chr (byte a mod 4 * 16)]"
| "b64_data [a, b] =
     [b64_chr (byte a div 4), b64_chr (byte a mod 4 * 16 + byte b div 16), b64_chr (byte b mod 16 * 4)]"
| "b64_data (a # b # c # s) =
     b64_chr (byte a div 4) # b64_chr (byte a mod 4 * 16 + byte b div 16)
     # b64_chr (byte b mod 16 * 4 + byte c div 64) # b64_chr (byte c mod 64) # b64_data s"

definition urlsafe_b64encode :: "string \<Rightarrow> string" where
  "urlsafe_b64encode s = b64_data s @ replicate ((3 - length s mod 3) mod 3) (CHR ''='')"

text \<open>\<^verbatim>\<open>binascii.a2b_base64\<close>: position in the quad, bits carried over, pads seen.\<close>

fun a2b :: "nat \<Rightarrow> nat \<Rightarrow> nat \<Rightarrow> string \<Rightarrow> string option" where
  "a2b q l p [] = (if q = 0 then Some [] else None)"
| "a2b q l p (c # s) =
     (if c = CHR ''='' then
        (if 2 \<le> q \<and> 4 \<le> q + (p + 1) then Some []
         else a2b q l (if 2 \<le> q then p + 1 else p) s)
      else case b64_val c of None \<Rightarrow> a2b q l p s
      | Some v \<Rightarrow>
          (if q = 0 then a2b 1 v 0 s
           else if q = 1 then map_option (Cons (char_of (l * 4 + v div 16))) (a2b 2 (v mod 16) 0 s)
           else if q = 2 then map_option (Cons (char_of (l * 16 + v div 4))) (a2b 3 (v mod 4) 0 s)
           else map_option (Cons (char_of (l * 64 + v))) (a2b 0 0 0 s)))"

definition urlsafe_b64decode :: "string \<Rightarrow> string option" where
  "urlsafe_b64decode s = a2b 0 0 0 (map urlsafe_char s)"

text \<open>Strict mode: full quads of the standard alphabet, padding only at the end.\<close>

definition b64decode_strict :: "string \<Rightarrow> string option" where
  "b64decode_strict s =
     (let d = takeWhile (\<lambda>c. c \<noteq> CHR ''='') s; p = dropWhile (\<lambda>c. c \<noteq> CHR ''='') s in
      if list_all (\<lambda>c. b64_val c \<noteq> None) d \<and> list_all (\<lambda>c. c = CHR ''='') p
         \<and> length s mod 4 = 0 \<and> length p \<le> 2
      then a2b 0 0 0 s else None)"

section \<open>Lemmas\<close>

lemma char_code_iff:
  "c = CHR ''-'' \<longleftrightarrow> of_char c = (45 :: nat)" "c = CHR ''_'' \<longleftrightarrow> of_char c = (95 :: nat)"
  "c = CHR ''='' \<longleftrightarrow> of_char c = (61 :: nat)"
  by (auto simp: of_char_eq_iff [where 'a = nat, symmetric])

lemma b64_val_chr [simp]:
  assumes "n < 64"
  shows "b64_val (urlsafe_char (b64_chr n)) = Some n" "b64_chr n \<noteq> CHR ''=''"
    "urlsafe_char (b64_chr n) \<noteq> CHR ''=''"
  using assms
  by (auto simp: b64_val_def urlsafe_char_def b64_chr_def char_code_iff Let_def)

lemma byte_lt [simp]: "byte c < 256"
  by (simp add: byte_def)

lemma byte_parts [simp]: "byte a div 4 < 64" "byte a mod 4 * 16 + byte b div 16 < 64"
    "byte b mod 16 * 4 + byte c div 64 < 64" "byte a mod 4 * 16 < 64" "byte b mod 16 * 4 < 64"
  using byte_lt [of a] byte_lt [of b] byte_lt [of c] by linarith+

lemma char_of_byte [simp]: "char_of (byte c) = c"
  by (simp add: byte_def)

lemma split_low:
  fixes x y k n :: nat
  assumes "y < n"
  shows "(x * n + y) div n = x" "(x * n + y) mod n = y"
  using assms by simp_all

lemma byte_high: "byte b div 16 < 16" "byte c div 64 < 4"
  using byte_lt [of b] byte_lt [of c] by linarith+

lemma byte_high_quad [simp]: "byte b div 16 div 16 = 0" "byte b div 16 mod 16 = byte b div 16"
    "byte c div 64 div 4 = 0" "byte c div 64 mod 4 = byte c div 64"
  using byte_high(1) [of b] byte_high(2) [of c] by (simp_all only: div_less mod_less)

lemma byte_join:
  "byte a div 4 * 4 + (byte a mod 4 * 16 + byte b div 16) div 16 = byte a"
  "(byte a mod 4 * 16 + byte b div 16) mod 16 * 16 + (byte b mod 16 * 4 + byte c div 64) div 4 = byte b"
  "(byte b mod 16 * 4 + byte c div 64) mod 4 * 64 + byte c mod 64 = byte c"
  "byte a div 4 * 4 + byte a mod 4 = byte a"
  "(byte a mod 4 * 16 + byte b div 16) mod 16 * 16 + byte b mod 16 = byte b"
  by (simp_all only: split_low [OF byte_high(1)] split_low [OF byte_high(2)] div_mult_mod_eq)

lemma b64_data_no_pad: "CHR ''='' \<notin> set (b64_data s)"
  by (induction s rule: b64_data.induct) (auto dest: sym)

lemma three_more: "(n + 3) div 3 = n div 3 + (1 :: nat)" "(n + 3) mod 3 = n mod (3 :: nat)"
  by simp_all

lemma length_b64_data:
  "length (b64_data s) = 4 * (length s div 3) + (if length s mod 3 = 0 then 0 else length s mod 3 + 1)"
proof (induction s rule: b64_data.induct)
  case (4 a b c s)
  have "length (a # b # c # s) = length s + 3" by simp
  with 4 show ?case by (simp only: three_more b64_data.simps list.size) simp
qed simp_all

lemma dropWhile_replicate:
  assumes "x \<notin> set xs"
  shows "dropWhile (\<lambda>c. c = x) (replicate n x @ xs) = xs"
  using assms by (induction n) (auto simp: dropWhile_eq_self_iff)

lemma b64_encode_strip: "rstrip_by (\<lambda>c. c = CHR ''='') (urlsafe_b64encode s) = b64_data s"
  using dropWhile_replicate [of "CHR ''=''" "rev (b64_data s)"] b64_data_no_pad [of s]
  by (simp add: rstrip_by_def urlsafe_b64encode_def)

lemma pad_mod: "(- (4 * k)) mod 4 = (0 :: int)" "(- (4 * k + 2)) mod 4 = (2 :: int)"
    "(- (4 * k + 3)) mod 4 = (1 :: int)"
  by presburger+

lemma b64_pad_restored:
  "nat ((- int (length (b64_data s))) mod 4) = (3 - length s mod 3) mod 3"
proof -
  have r: "length s mod 3 < 3" by simp
  then consider "length s mod 3 = 0" | "length s mod 3 = 1" | "length s mod 3 = 2" by linarith
  then show ?thesis
  proof cases
    case 1
    then have "int (length (b64_data s)) = 4 * int (length s div 3)" by (simp add: length_b64_data)
    then have "(- int (length (b64_data s))) mod 4 = 0" by (simp only: pad_mod)
    with 1 show ?thesis by simp
  next
    case 2
    then have "int (length (b64_data s)) = 4 * int (length s div 3) + 2" by (simp add: length_b64_data)
    then have "(- int (length (b64_data s))) mod 4 = 2" by (simp only: pad_mod)
    with 2 show ?thesis by simp
  next
    case 3
    then have "int (length (b64_data s)) = 4 * int (length s div 3) + 3" by (simp add: length_b64_data)
    then have "(- int (length (b64_data s))) mod 4 = 1" by (simp only: pad_mod)
    with 3 show ?thesis by simp
  qed
qed

lemma urlsafe_pad [simp]: "urlsafe_char (CHR ''='') = CHR ''=''"
  by (simp add: urlsafe_char_def)

lemma replicate_two: "replicate 2 x = [x, x]"
  by (simp add: numeral_2_eq_2)

lemma a2b_encode: "a2b 0 0 0 (map urlsafe_char (urlsafe_b64encode s)) = Some s"
proof (induction s rule: b64_data.induct)
  case 1
  then show ?case by (simp add: urlsafe_b64encode_def)
next
  case (2 a)
  then show ?case by (simp add: urlsafe_b64encode_def byte_join replicate_two)
next
  case (3 a b)
  then show ?case by (simp add: urlsafe_b64encode_def byte_join replicate_two)
next
  case (4 a b c s)
  then show ?case by (simp add: urlsafe_b64encode_def byte_join)
qed

end
