(* ===== verification/Audit_Log.thy ===== *)
theory Audit_Log
  imports Rbac Base64 "HOL-Library.Char_ord" "HOL-Library.List_Lexorder" "HOL-Library.Product_Lexorder"
begin

text \<open>
  \<^verbatim>\<open>app/services/audit.py\<close> and \<^verbatim>\<open>app/api/routes/audit.py\<close>: recording events, the diff of an
  update, settling the pending events of a task, pruning, and the keyset-paginated listing with its
  opaque cursor. The id of a new event and the current time are arguments. UUIDs compare as their
  canonical text, dates as instants.
\<close>

section \<open>Recording\<close>

definition SYSTEM_ACTOR_NAME :: string where
  "SYSTEM_ACTOR_NAME = ''Open vCenter''"

datatype target =
    VmTarget vm
  | HostTarget host
  | ClusterTarget cluster
  | FolderTarget folder
  | VlanTarget vlan
  | TagTarget tag
  | TagCategoryTarget tag_category
  | AgentBinaryTarget agent_binary

record target_ref =
  ref_type :: string
  ref_id :: "ident option"
  ref_name :: "string option"
  ref_host_id :: "ident option"
  ref_cluster_id :: "ident option"

fun target_ref_of :: "target \<Rightarrow> target_ref" where
  "target_ref_of (VmTarget v) = \<lparr>ref_type = ''vm'', ref_id = Some (Vm_id v), ref_name = Some (Vm_name v),
     ref_host_id = Some (Vm_host_id v), ref_cluster_id = Vm_cluster_id v\<rparr>"
| "target_ref_of (HostTarget h) = \<lparr>ref_type = ''host'', ref_id = Some (Host_id h), ref_name = Some (Host_name h),
     ref_host_id = Some (Host_id h), ref_cluster_id = Host_cluster_id h\<rparr>"
| "target_ref_of (ClusterTarget c) = \<lparr>ref_type = ''cluster'', ref_id = Some (Cluster_id c),
     ref_name = Some (Cluster_name c), ref_host_id = None, ref_cluster_id = Some (Cluster_id c)\<rparr>"
| "target_ref_of (FolderTarget f) = \<lparr>ref_type = ''folder'', ref_id = Some (Folder_id f),
     ref_name = Some (Folder_name f), ref_host_id = Folder_host_id f, ref_cluster_id = Folder_cluster_id f\<rparr>"
| "target_ref_of (VlanTarget v) = \<lparr>ref_type = ''vlan'', ref_id = Some (Vlan_id v), ref_name = Some (Vlan_name v),
     ref_host_id = Vlan_host_id v, ref_cluster_id = Vlan_cluster_id v\<rparr>"
| "target_ref_of (TagTarget t) = \<lparr>ref_type = ''tag'', ref_id = Some (Tag_id t), ref_name = Some (Tag_name t),
     ref_host_id = None, ref_cluster_id = None\<rparr>"
| "target_ref_of (TagCategoryTarget c) = \<lparr>ref_type = ''tag_category'', ref_id = Some (TagCategory_id c),
     ref_name = Some (TagCategory_name c), ref_host_id = None, ref_cluster_id = None\<rparr>"
| "target_ref_of (AgentBinaryTarget b) = \<lparr>ref_type = ''agent_binary'', ref_id = Some (AgentBinary_id b),
     ref_name = Some (AgentBinary_version b), ref_host_id = None, ref_cluster_id = None\<rparr>"

definition record_ref :: "target option \<Rightarrow> string option \<Rightarrow> target_ref" where
  "record_ref tgt ttype = (case tgt of Some t \<Rightarrow> target_ref_of t
     | None \<Rightarrow> \<lparr>ref_type = or_empty ttype, ref_id = None, ref_name = None, ref_host_id = None,
                ref_cluster_id = None\<rparr>)"

definition actor_label :: "user \<Rightarrow> string" where
  "actor_label u = (if opt_truthy (User_display_name u) then or_empty (User_display_name u) else User_email u)"

definition record_event ::
  "ident \<Rightarrow> instant \<Rightarrow> user option \<Rightarrow> string \<Rightarrow> target option \<Rightarrow> string option \<Rightarrow> task option
    \<Rightarrow> jobj option \<Rightarrow> database \<Rightarrow> (audit_event \<times> database) res"
where
  "record_event eid now actor action tgt ttype tsk details db =
     (let ref = record_ref tgt ttype in
      if ref_type ref = [] then Inl ValueError
      else let ev = \<lparr>AuditEvent_id = eid, AuditEvent_occurred_at = now,
             AuditEvent_actor_type = (if actor \<noteq> None then ''user'' else ''system''),
             AuditEvent_actor_email = map_option User_email actor,
             AuditEvent_actor_name = Some (case actor of None \<Rightarrow> SYSTEM_ACTOR_NAME | Some u \<Rightarrow> actor_label u),
             AuditEvent_action = action,
             AuditEvent_target_type = ref_type ref, AuditEvent_target_id = ref_id ref,
             AuditEvent_target_name = ref_name ref, AuditEvent_host_id = ref_host_id ref,
             AuditEvent_cluster_id = ref_cluster_id ref,
             AuditEvent_task_id = map_option Task_id tsk,
             AuditEvent_outcome = (if tsk \<noteq> None then ''pending'' else ''succeeded''),
             AuditEvent_error = None,
             AuditEvent_details = (case details of None \<Rightarrow> None | Some d \<Rightarrow> if d = [] then None else Some (JObj d))\<rparr>
           in Inr (ev, db\<lparr>db_audit_events := db_audit_events db @ [ev]\<rparr>))"

text \<open>\<^verbatim>\<open>==\<close> of two JSON scalars: numbers and booleans compare by value.\<close>

fun json_num :: "json \<Rightarrow> rat option" where
  "json_num (JBool b) = Some (if b then 1 else 0)"
| "json_num (JInt n) = Some (of_int n)"
| "json_num (JFloat (Fin q)) = Some q"
| "json_num _ = None"

definition py_eq :: "json \<Rightarrow> json \<Rightarrow> bool" where
  "py_eq a b = (case (json_num a, json_num b) of (Some x, Some y) \<Rightarrow> x = y
     | _ \<Rightarrow> a = b \<and> a \<noteq> JFloat NaN)"

definition changes :: "jobj \<Rightarrow> jobj \<Rightarrow> jobj option" where
  "changes before after =
     (let changed = filter (\<lambda>k. \<not> py_eq (jget before k) (jget after k)) (map fst after) in
      if changed = [] then None
      else Some [(''before'', JObj (map (\<lambda>k. (k, jget before k)) changed)),
                 (''after'', JObj (map (\<lambda>k. (k, jget after k)) changed))])"

section \<open>Settling and pruning\<close>

definition settle_task_events :: "ident list \<Rightarrow> string \<Rightarrow> string option \<Rightarrow> database \<Rightarrow> database" where
  "settle_task_events ids outcome err db =
     (if ids = [] then db
      else db\<lparr>db_audit_events := tupd_where
        (\<lambda>e. AuditEvent_task_id e \<in> Some ` set ids \<and> AuditEvent_outcome e = ''pending'')
        (\<lambda>e. e\<lparr>AuditEvent_outcome := outcome, AuditEvent_error := err\<rparr>) (db_audit_events db)\<rparr>)"

definition prune_events :: "instant \<Rightarrow> int \<Rightarrow> database \<Rightarrow> nat \<times> database" where
  "prune_events now retention_days db =
     (if retention_days \<le> 0 then (0, db)
      else let cutoff = now - seconds (retention_days * 86400);
               kept = filter (\<lambda>e. \<not> AuditEvent_occurred_at e < cutoff) (db_audit_events db)
           in (length (db_audit_events db) - length kept, db\<lparr>db_audit_events := kept\<rparr>))"

section \<open>Cursors\<close>

definition encode_cursor :: "pyenv \<Rightarrow> audit_event \<Rightarrow> string" where
  "encode_cursor env e =
     rstrip_by (\<lambda>c. c = CHR ''='')
       (urlsafe_b64encode (isoformat env (AuditEvent_occurred_at e) @ ''|'' @ AuditEvent_id e))"

definition invalid_cursor :: exn where
  "invalid_cursor = ApiError ''INVALID'' 400"

definition is_ascii :: "string \<Rightarrow> bool" where
  "is_ascii s \<longleftrightarrow> list_all (\<lambda>c. (of_char c :: nat) < 128) s"

definition decode_cursor :: "pyenv \<Rightarrow> string \<Rightarrow> (instant \<times> string) res" where
  "decode_cursor env cursor =
     (case urlsafe_b64decode (cursor @ replicate (nat ((- int (length cursor)) mod 4)) (CHR ''='')) of
        None \<Rightarrow> Inl invalid_cursor
      | Some raw \<Rightarrow>
         if \<not> is_ascii raw \<or> CHR ''|'' \<notin> set raw then Inl invalid_cursor
         else let ts = takeWhile (\<lambda>c. c \<noteq> CHR ''|'') raw;
                  event_id = tl (dropWhile (\<lambda>c. c \<noteq> CHR ''|'') raw)
           in case (fromisoformat env ts, uuid_str env event_id) of
                (Some (Aware t), Some i) \<Rightarrow> Inr (t, i)
              | _ \<Rightarrow> Inl invalid_cursor)"

section \<open>Listing\<close>

record audit_filter =
  flt_actor :: "string option"
  flt_action :: "string option"
  flt_target_type :: "string option"
  flt_target_id :: "string option"
  flt_host_id :: "string option"
  flt_cluster_id :: "string option"
  flt_outcome :: "string option"
  flt_since :: "instant option"
  flt_until :: "instant option"
  flt_q :: "string option"

text \<open>\<^verbatim>\<open>LIKE\<close> with \<^verbatim>\<open>%\<close>, \<^verbatim>\<open>_\<close> and the backslash escape; \<^verbatim>\<open>ILIKE\<close> ignores case, and a NULL
  column does not match.\<close>

fun sql_like :: "string \<Rightarrow> string \<Rightarrow> bool" where
  "sql_like [] s = (s = [])"
| "sql_like (c # p) s =
     (if c = CHR ''%'' then sql_like p s \<or> (case s of [] \<Rightarrow> False | x # t \<Rightarrow> sql_like (c # p) t)
      else case s of [] \<Rightarrow> False
        | x # t \<Rightarrow>
           if c = CHR ''_'' then sql_like p t
           else if c = char_of (92 :: nat) then (case p of [] \<Rightarrow> False | d # q \<Rightarrow> d = x \<and> sql_like q t)
           else c = x \<and> sql_like p t)"

definition ilike :: "string option \<Rightarrow> string \<Rightarrow> bool" where
  "ilike col pat = (case col of None \<Rightarrow> False | Some s \<Rightarrow> sql_like (py_lower pat) (py_lower s))"

text \<open>A clause that is added only when the filter value is truthy.\<close>

definition when_given :: "string option \<Rightarrow> (string \<Rightarrow> bool) \<Rightarrow> bool" where
  "when_given x P \<longleftrightarrow> opt_truthy x \<longrightarrow> P (or_empty x)"

definition event_matches :: "audit_filter \<Rightarrow> audit_event \<Rightarrow> bool" where
  "event_matches flt e \<longleftrightarrow>
     when_given (flt_actor flt) (\<lambda>a. let like = ''%'' @ a @ ''%'' in
        ilike (AuditEvent_actor_email e) like \<or> ilike (AuditEvent_actor_name e) like)
   \<and> when_given (flt_action flt) (\<lambda>x. AuditEvent_action e = x)
   \<and> when_given (flt_target_type flt) (\<lambda>x. AuditEvent_target_type e = x)
   \<and> when_given (flt_target_id flt) (\<lambda>x. AuditEvent_target_id e = Some x)
   \<and> when_given (flt_host_id flt) (\<lambda>x. AuditEvent_host_id e = Some x)
   \<and> when_given (flt_cluster_id flt) (\<lambda>x. AuditEvent_cluster_id e = Some x)
   \<and> when_given (flt_outcome flt) (\<lambda>x. AuditEvent_outcome e = x)
   \<and> (case flt_since flt of None \<Rightarrow> True | Some t \<Rightarrow> t \<le> AuditEvent_occurred_at e)
   \<and> (case flt_until flt of None \<Rightarrow> True | Some t \<Rightarrow> AuditEvent_occurred_at e < t)
   \<and> when_given (flt_q flt) (\<lambda>x. let like = ''%'' @ x @ ''%'' in
        ilike (AuditEvent_target_name e) like \<or> ilike (AuditEvent_actor_email e) like
        \<or> ilike (AuditEvent_actor_name e) like)"

definition event_key :: "audit_event \<Rightarrow> instant \<times> string" where
  "event_key e = (AuditEvent_occurred_at e, AuditEvent_id e)"

definition newest_first :: "audit_event list \<Rightarrow> audit_event list" where
  "newest_first es = rev (sort_key event_key es)"

definition cursor_bound :: "pyenv \<Rightarrow> string option \<Rightarrow> (instant \<times> string) option res" where
  "cursor_bound env cursor =
     (if opt_truthy cursor then sbind (decode_cursor env (or_empty cursor)) (\<lambda>b. Inr (Some b)) else Inr None)"

definition list_events ::
  "pyenv \<Rightarrow> database \<Rightarrow> audit_filter \<Rightarrow> nat \<Rightarrow> string option \<Rightarrow> (audit_event list \<times> string option) res"
where
  "list_events env db flt limit cursor =
     sbind (cursor_bound env cursor) (\<lambda>bound.
       let matching = filter (\<lambda>e. event_matches flt e
               \<and> (case bound of None \<Rightarrow> True | Some b \<Rightarrow> event_key e < b)) (db_audit_events db);
           rows = take (limit + 1) (newest_first matching)
       in if limit < length rows
          then let page = take limit rows in Inr (page, Some (encode_cursor env (last page)))
          else Inr (rows, None))"

text \<open>The route: query bounds without an offset are UTC; administrators only. \<open>limit\<close> outside
  1..200 is the 422 of the request validation.\<close>

definition validation_error :: exn where
  "validation_error = ApiError ''VALIDATION_ERROR'' 422"

definition get_audit_events ::
  "pyenv \<Rightarrow> database \<Rightarrow> visible_scope \<Rightarrow> audit_filter \<Rightarrow> datetime option \<Rightarrow> datetime option \<Rightarrow> int
    \<Rightarrow> string option \<Rightarrow> (audit_event list \<times> string option) res"
where
  "get_audit_events env db sc flt since until limit cursor =
     (if limit < 1 \<or> 200 < limit then Inl validation_error
      else if \<not> Scope_all sc then Inl forbidden
      else list_events env db (flt\<lparr>flt_since := map_option as_utc since, flt_until := map_option as_utc until\<rparr>)
             (nat limit) cursor)"

section \<open>Lemmas\<close>

text \<open>What the listing relies on for the rows it encodes: \<^verbatim>\<open>isoformat\<close> writes ASCII text without a
  bar that \<^verbatim>\<open>fromisoformat\<close> reads back with its offset, and ids are canonical UUID text.\<close>

definition cursor_laws :: "pyenv \<Rightarrow> audit_event \<Rightarrow> bool" where
  "cursor_laws env e \<longleftrightarrow>
     fromisoformat env (isoformat env (AuditEvent_occurred_at e)) = Some (Aware (AuditEvent_occurred_at e))
   \<and> is_ascii (isoformat env (AuditEvent_occurred_at e))
   \<and> CHR ''|'' \<notin> set (isoformat env (AuditEvent_occurred_at e))
   \<and> uuid_str env (AuditEvent_id e) = Some (AuditEvent_id e) \<and> is_ascii (AuditEvent_id e)"

lemma is_ascii_append [simp]: "is_ascii (a @ b) \<longleftrightarrow> is_ascii a \<and> is_ascii b"
  by (simp add: is_ascii_def)

lemma is_ascii_bar [simp]: "is_ascii ''|''" "is_ascii (CHR ''|'' # s) \<longleftrightarrow> is_ascii s"
  by (simp_all add: is_ascii_def)

lemma split_at_bar:
  assumes "c \<notin> set a"
  shows "takeWhile (\<lambda>x. x \<noteq> c) (a @ c # b) = a" "dropWhile (\<lambda>x. x \<noteq> c) (a @ c # b) = c # b"
  using assms by (induction a) auto

lemma decode_encode_cursor:
  assumes "cursor_laws env e"
  shows "decode_cursor env (encode_cursor env e) = Inr (event_key e)"
proof -
  let ?raw = "isoformat env (AuditEvent_occurred_at e) @ ''|'' @ AuditEvent_id e"
  have enc: "encode_cursor env e = b64_data ?raw"
    by (simp only: encode_cursor_def b64_encode_strip)
  have "urlsafe_b64decode (b64_data ?raw
      @ replicate (nat ((- int (length (b64_data ?raw))) mod 4)) (CHR ''='')) = Some ?raw"
    using a2b_encode [of ?raw]
    by (simp only: urlsafe_b64decode_def b64_pad_restored urlsafe_b64encode_def)
  then show ?thesis
    using assms split_at_bar [of "CHR ''|''" "isoformat env (AuditEvent_occurred_at e)" "AuditEvent_id e"]
    by (simp add: decode_cursor_def enc cursor_laws_def event_key_def)
qed

lemma encode_cursor_nonempty: "encode_cursor env e \<noteq> []"
proof -
  have "b64_data s = [] \<Longrightarrow> s = []" for s by (cases s rule: b64_data.cases) simp_all
  then show ?thesis by (force simp only: encode_cursor_def b64_encode_strip)
qed

subsection \<open>Pagination\<close>

definition descending :: "audit_event list \<Rightarrow> bool" where
  "descending es \<longleftrightarrow> sorted_wrt (\<lambda>a b. event_key b < event_key a) es"

lemma newest_first_filter: "newest_first (filter P es) = filter P (newest_first es)"
  by (simp only: newest_first_def rev_filter [symmetric] filter_sort)

lemma set_newest_first [simp]: "set (newest_first es) = set es"
  by (simp add: newest_first_def)

lemma newest_first_descending:
  assumes "pk_unique AuditEvent_id es"
  shows "descending (newest_first es)"
proof -
  have inj: "inj_on event_key (set es)"
    using assms by (auto simp: pk_unique_def distinct_map inj_on_def event_key_def)
  have "distinct es" using assms by (simp add: pk_unique_def distinct_map)
  then have "distinct (map event_key (sort_key event_key es))"
    using inj by (simp add: distinct_map)
  then have "sorted_wrt (<) (map event_key (sort_key event_key es))"
    by (simp add: strict_sorted_iff)
  then show ?thesis
    by (simp add: descending_def newest_first_def sorted_wrt_rev sorted_wrt_map)
qed

lemma descending_after:
  assumes "descending (pre @ x # post)"
  shows "filter (\<lambda>e. event_key e < event_key x) (pre @ x # post) = post"
proof -
  have "event_key x < event_key e" if "e \<in> set pre" for e
    using assms that by (simp add: descending_def sorted_wrt_append)
  then have "filter (\<lambda>e. event_key e < event_key x) pre = []"
    by (auto simp: filter_empty_conv dest: order_less_asym)
  moreover have "filter (\<lambda>e. event_key e < event_key x) post = post"
    using assms by (simp add: descending_def sorted_wrt_append filter_id_conv)
  ultimately show ?thesis by simp
qed

text \<open>The listing of a filter without pagination.\<close>

definition all_events :: "database \<Rightarrow> audit_filter \<Rightarrow> audit_event list" where
  "all_events db flt = newest_first (filter (event_matches flt) (db_audit_events db))"

definition page_of :: "pyenv \<Rightarrow> nat \<Rightarrow> audit_event list \<Rightarrow> audit_event list \<times> string option" where
  "page_of env limit es =
     (if limit < length es then (take limit es, Some (encode_cursor env (last (take limit es)))) else (es, None))"

lemma list_events_first:
  "list_events env db flt limit None = Inr (page_of env limit (all_events db flt))"
  by (simp add: list_events_def cursor_bound_def all_events_def page_of_def Let_def)

lemma list_events_next:
  assumes "pk_unique AuditEvent_id (db_audit_events db)" and "cursor_laws env x"
    and "all_events db flt = pre @ x # post"
  shows "list_events env db flt limit (Some (encode_cursor env x)) = Inr (page_of env limit post)"
proof -
  let ?b = "event_key x"
  have "newest_first (filter (\<lambda>e. event_matches flt e \<and> event_key e < ?b) (db_audit_events db))
      = filter (\<lambda>e. event_key e < ?b) (all_events db flt)"
    by (simp add: all_events_def newest_first_filter conj_commute)
  also have "\<dots> = post"
    using newest_first_descending [of "filter (event_matches flt) (db_audit_events db)"] assms
      descending_after [of pre x post]
    by (simp add: all_events_def)
  finally have post: "newest_first (filter (\<lambda>e. event_matches flt e \<and> event_key e < ?b)
      (db_audit_events db)) = post" .
  show ?thesis
    using decode_encode_cursor [OF assms(2)] encode_cursor_nonempty [of env x]
    by (simp add: list_events_def cursor_bound_def post page_of_def Let_def)
qed

text \<open>A client that follows \<^verbatim>\<open>nextCursor\<close> until it is null; \<open>None\<close> when \<open>fuel\<close> requests are not
  enough or one of them fails.\<close>

fun walk_pages :: "nat \<Rightarrow> pyenv \<Rightarrow> database \<Rightarrow> audit_filter \<Rightarrow> nat \<Rightarrow> string option \<Rightarrow> audit_event list option" where
  "walk_pages 0 env db flt limit cursor = None"
| "walk_pages (Suc fuel) env db flt limit cursor =
     (case list_events env db flt limit cursor of
        Inl _ \<Rightarrow> None
      | Inr (page, None) \<Rightarrow> Some page
      | Inr (page, Some c) \<Rightarrow> map_option (append page) (walk_pages fuel env db flt limit (Some c)))"

lemma walk_pages_rest:
  assumes "pk_unique AuditEvent_id (db_audit_events db)"
    and "\<And>e. e \<in> set (db_audit_events db) \<Longrightarrow> cursor_laws env e" and "0 < limit"
    and "all_events db flt = pre @ x # post" and "length post < fuel"
  shows "walk_pages fuel env db flt limit (Some (encode_cursor env x)) = Some post"
  using assms(4,5)
proof (induction fuel arbitrary: pre x post)
  case (Suc fuel)
  have "set (all_events db flt) \<subseteq> set (db_audit_events db)" by (auto simp: all_events_def)
  with Suc.prems have "cursor_laws env x" using assms(2) by auto
  note page = list_events_next [OF assms(1) this Suc.prems(1), of limit]
  show ?case
  proof (cases "limit < length post")
    case True
    let ?page = "take limit post"
    have "?page \<noteq> []" using assms(3) True by auto
    then have "all_events db flt = (pre @ x # butlast ?page) @ last ?page # drop limit post"
      using Suc.prems(1) append_butlast_last_id [of ?page] append_take_drop_id [of limit post]
      by (metis append.assoc append_Cons append_Nil)
    moreover have "length (drop limit post) < fuel" using Suc.prems(2) True assms(3) by simp
    ultimately have "walk_pages fuel env db flt limit (Some (encode_cursor env (last ?page))) = Some (drop limit post)"
      by (rule Suc.IH)
    then show ?thesis using page True by (simp add: page_of_def)
  next
    case False
    then show ?thesis using page by (simp add: page_of_def)
  qed
qed simp

lemma walk_pages_all:
  assumes "pk_unique AuditEvent_id (db_audit_events db)"
    and "\<And>e. e \<in> set (db_audit_events db) \<Longrightarrow> cursor_laws env e" and "0 < limit"
    and "length (all_events db flt) < fuel"
  shows "walk_pages fuel env db flt limit None = Some (all_events db flt)"
proof (cases "limit < length (all_events db flt)")
  case False
  with assms(4) show ?thesis by (cases fuel) (simp_all add: list_events_first page_of_def)
next
  case True
  let ?all = "all_events db flt" and ?page = "take limit (all_events db flt)"
  obtain n where fuel: "fuel = Suc n" using assms(4) by (cases fuel) auto
  have "?page \<noteq> []" using True assms(3) by auto
  then have eq: "?all = butlast ?page @ last ?page # drop limit ?all"
    using append_butlast_last_id [of ?page] append_take_drop_id [of limit ?all]
    by (metis append.assoc append_Cons append_Nil)
  have "length (drop limit ?all) < n" using assms(3,4) True fuel by simp
  from walk_pages_rest [OF assms(1-3) eq this] show ?thesis
    using True by (simp add: fuel list_events_first page_of_def)
qed

lemma settle_twice:
  assumes "o1 \<noteq> ''pending''"
  shows "settle_task_events ids o2 e2 (settle_task_events ids o1 e1 db) = settle_task_events ids o1 e1 db"
  using assms by (auto simp: settle_task_events_def tupd_where_def)

section \<open>Properties\<close>

definition cursor_env :: pyenv where
  "cursor_env = \<lparr>repr_of = (\<lambda>_. []), float_of_str = (\<lambda>_. None),
     fromisoformat = (\<lambda>s. if s = ''early'' then Some (Aware 10) else if s = ''late'' then Some (Aware 20) else None),
     isoformat = (\<lambda>t. if t = 10 then ''early'' else ''late''), uuid_str = Some\<rparr>"

definition sample_event :: "ident \<Rightarrow> instant \<Rightarrow> audit_event" where
  "sample_event i t = \<lparr>AuditEvent_id = i, AuditEvent_occurred_at = t, AuditEvent_actor_type = ''user'',
     AuditEvent_actor_email = Some ''a@b'', AuditEvent_actor_name = Some ''A'', AuditEvent_action = ''vm.start'',
     AuditEvent_target_type = ''vm'', AuditEvent_target_id = Some ''v'', AuditEvent_target_name = Some ''web'',
     AuditEvent_host_id = Some ''h'', AuditEvent_cluster_id = None, AuditEvent_task_id = Some ''t'',
     AuditEvent_outcome = ''pending'', AuditEvent_error = None, AuditEvent_details = None\<rparr>"

definition no_filter :: audit_filter where
  "no_filter = \<lparr>flt_actor = None, flt_action = None, flt_target_type = None, flt_target_id = None,
     flt_host_id = None, flt_cluster_id = None, flt_outcome = None, flt_since = None, flt_until = None,
     flt_q = None\<rparr>"

definition three_events :: database where
  "three_events = empty_db\<lparr>db_audit_events :=
     [sample_event ''e1'' 10, sample_event ''e3'' 20, sample_event ''e2'' 20]\<rparr>"

text \<open>C35: Following \<^verbatim>\<open>nextCursor\<close> from the first page ends, and the pages together are every event that
  matches the filter, each once, in strictly descending order of (occurred_at, id), whatever the page
  size. The hypotheses: event ids are unique, and the dates and ids of the rows survive
  \<^verbatim>\<open>isoformat\<close>/\<^verbatim>\<open>fromisoformat\<close> and \<^verbatim>\<open>str(UUID(..))\<close>.\<close>

theorem audit_pages_complete:
  assumes "pk_unique AuditEvent_id (db_audit_events db)"
    and "\<forall>e \<in> set (db_audit_events db). cursor_laws env e"
    and "0 < limit" and "length (db_audit_events db) < fuel"
  shows "\<exists>es. walk_pages fuel env db flt limit None = Some es
     \<and> set es = {e \<in> set (db_audit_events db). event_matches flt e}
     \<and> distinct es \<and> descending es"
proof -
  have uniq: "pk_unique AuditEvent_id (filter (event_matches flt) (db_audit_events db))"
    using assms(1) by simp
  then have "descending (all_events db flt)" by (simp add: all_events_def newest_first_descending)
  moreover have "distinct (all_events db flt)"
    using uniq by (simp add: all_events_def newest_first_def pk_unique_def distinct_map)
  moreover have "set (all_events db flt) = {e \<in> set (db_audit_events db). event_matches flt e}"
    by (simp add: all_events_def)
  moreover have "length (all_events db flt) < fuel"
    using le_less_trans [OF length_filter_le assms(4)] by (simp add: all_events_def newest_first_def)
  ultimately show ?thesis using walk_pages_all [OF assms(1) _ assms(3)] assms(2) by blast
qed

lemma three_events_ok:
  "pk_unique AuditEvent_id (db_audit_events three_events)"
  "\<forall>e \<in> set (db_audit_events three_events). cursor_laws cursor_env e"
  "length (db_audit_events three_events) = 3"
  by (simp_all add: three_events_def pk_unique_def sample_event_def cursor_laws_def cursor_env_def
      is_ascii_def empty_db_def)

theorem audit_pages_complete_witness:
  "\<exists>es. walk_pages 4 cursor_env three_events no_filter 2 None = Some es
     \<and> set es = {e \<in> set (db_audit_events three_events). event_matches no_filter e} \<and> descending es"
  using audit_pages_complete [of three_events cursor_env 2 4 no_filter] three_events_ok by fastforce

text \<open>A cursor decodes to the key of the event it was made from.\<close>

theorem cursor_roundtrip:
  assumes "cursor_laws env e"
  shows "decode_cursor env (encode_cursor env e) = Inr (AuditEvent_occurred_at e, AuditEvent_id e)"
  using decode_encode_cursor [OF assms] by (simp add: event_key_def)

theorem cursor_roundtrip_witness:
  "decode_cursor cursor_env (encode_cursor cursor_env (sample_event ''e2'' 20)) = Inr (20, ''e2'')"
  using cursor_roundtrip [of cursor_env "sample_event ''e2'' 20"]
  by (simp add: sample_event_def cursor_laws_def cursor_env_def is_ascii_def)

text \<open>The first terminal outcome of a task is final: settling its events again, with any outcome and
  error, changes nothing; and no event that is not pending is ever changed by settling.\<close>

theorem settle_first_wins:
  assumes "o1 \<in> set TERMINAL_TASK_STATUSES"
  shows "settle_task_events ids o2 e2 (settle_task_events ids o1 e1 db) = settle_task_events ids o1 e1 db
    \<and> (\<forall>e \<in> set (db_audit_events db). AuditEvent_outcome e \<noteq> ''pending''
         \<longrightarrow> e \<in> set (db_audit_events (settle_task_events ids o1 e1 db)))
    \<and> (\<forall>e \<in> set (db_audit_events (settle_task_events ids o1 e1 db)).
         AuditEvent_task_id e \<in> Some ` set ids \<longrightarrow> AuditEvent_outcome e \<noteq> ''pending'')"
proof -
  have "o1 \<noteq> ''pending''" using assms by (auto simp: TERMINAL_TASK_STATUSES_def)
  then show ?thesis
    using settle_twice [of o1 ids o2 e2 e1 db]
    by (auto simp: settle_task_events_def tupd_where_def image_iff)
qed

theorem settle_first_wins_witness:
  "settle_task_events [''t''] ''succeeded'' None (settle_task_events [''t''] ''timeout'' None three_events)
     = settle_task_events [''t''] ''timeout'' None three_events"
  using settle_first_wins [of "''timeout''" "[''t'']" "''succeeded''" None None three_events]
  by (simp add: TERMINAL_TASK_STATUSES_def)

end
