(* ===== verification/Unique_Names.thy ===== *)
theory Unique_Names
  imports Relations
begin

text \<open>
  Two contracts shared by several tables. \<open>unique_names\<close> is the one behind every \<^verbatim>\<open>_require_unique_*\<close> check (tag categories, tags, VLANs): an operation
  asks whether a name is taken within its scope, by a row other than the one being edited, and
  refuses it if so. Then adding or editing a row keeps the names of the table unique.
  \<open>exclusive_flag\<close> is the one behind the default VLAN of a scope and the active agent binary of a
  hypervisor: the flag is cleared in the whole group before it is set on one row.
\<close>

locale unique_names =
  fixes rid :: "'r \<Rightarrow> ident"
    and nkey :: "'r \<Rightarrow> 'k"
    and taken :: "'k \<Rightarrow> ident option \<Rightarrow> 'r list \<Rightarrow> bool"
  assumes taken_iff: "taken k ex t \<longleftrightarrow> (\<exists>r \<in> set t. nkey r = k \<and> ex \<noteq> Some (rid r))"
begin

lemma add_row:
  "pk_unique nkey t \<Longrightarrow> \<not> taken (nkey r) None t \<Longrightarrow> pk_unique nkey (t @ [r])"
  by (auto simp: taken_iff)

lemma edit_row:
  assumes "pk_unique rid t" and "pk_unique nkey t" and "\<not> taken k (Some i) t"
    and "\<And>r. r \<in> set t \<Longrightarrow> rid r = i \<Longrightarrow> nkey (f r) = k"
  shows "pk_unique nkey (tupd rid i f t)"
  using assms
proof (induction t)
  case (Cons x t)
  have tail: "pk_unique nkey (tupd rid i f t)"
    using Cons by (auto simp: pk_unique_def taken_iff)
  have "nkey (if rid x = i then f x else x) \<notin> (\<lambda>r. nkey (if rid r = i then f r else r)) ` set t"
  proof
    assume "nkey (if rid x = i then f x else x) \<in> (\<lambda>r. nkey (if rid r = i then f r else r)) ` set t"
    then obtain y where y: "y \<in> set t" "nkey (if rid x = i then f x else x) = nkey (if rid y = i then f y else y)"
      by blast
    have "rid x \<noteq> rid y" "nkey x \<noteq> nkey y" using Cons.prems(1,2) y(1) by (auto simp: pk_unique_def)
    moreover have "nkey z \<noteq> k" if "z \<in> set (x # t)" "rid z \<noteq> i" for z
      using Cons.prems(3) that by (auto simp: taken_iff)
    ultimately show False using y Cons.prems(4) by (auto split: if_splits)
  qed
  with tail show ?case by (simp add: pk_unique_def tupd_def comp_def)
qed (simp add: tupd_def)

end

definition one_flagged :: "('r \<Rightarrow> ident) \<Rightarrow> ('r \<Rightarrow> 'g) \<Rightarrow> ('r \<Rightarrow> bool) \<Rightarrow> 'r list \<Rightarrow> bool" where
  "one_flagged rid grp flag t \<longleftrightarrow>
     (\<forall>r \<in> set t. \<forall>s \<in> set t. flag r \<longrightarrow> flag s \<longrightarrow> grp r = grp s \<longrightarrow> rid r = rid s)"

lemma one_flaggedI:
  "(\<And>r s. r \<in> set t \<Longrightarrow> s \<in> set t \<Longrightarrow> flag r \<Longrightarrow> flag s \<Longrightarrow> grp r = grp s \<Longrightarrow> rid r = rid s)
    \<Longrightarrow> one_flagged rid grp flag t"
  unfolding one_flagged_def by blast

lemma one_flaggedD:
  "one_flagged rid grp flag t \<Longrightarrow> r \<in> set t \<Longrightarrow> s \<in> set t \<Longrightarrow> flag r \<Longrightarrow> flag s \<Longrightarrow> grp r = grp s
    \<Longrightarrow> rid r = rid s"
  unfolding one_flagged_def by blast

lemma one_flagged_image:
  assumes "one_flagged rid grp flag t"
    and "\<And>r. r \<in> set t \<Longrightarrow> rid (f r) = rid r" "\<And>r. r \<in> set t \<Longrightarrow> grp (f r) = grp r"
    and "\<And>r. r \<in> set t \<Longrightarrow> flag (f r) \<Longrightarrow> flag r"
  shows "one_flagged rid grp flag (map f t)"
proof (rule one_flaggedI)
  fix r s
  assume "r \<in> set (map f t)" "s \<in> set (map f t)" and fl: "flag r" "flag s" "grp r = grp s"
  then obtain r0 s0 where "r0 \<in> set t" "r = f r0" "s0 \<in> set t" "s = f s0" unfolding set_map by blast
  with one_flaggedD [OF assms(1), of r0 s0] assms(2-4) fl show "rid r = rid s" by metis
qed

locale exclusive_flag =
  fixes rid :: "'r \<Rightarrow> ident"
    and grp :: "'r \<Rightarrow> 'g"
    and flag :: "'r \<Rightarrow> bool"
    and put :: "bool \<Rightarrow> 'r \<Rightarrow> 'r"
    and in_group :: "'g \<Rightarrow> 'r \<Rightarrow> bool"
    and row_ok :: "'r \<Rightarrow> bool"
  assumes put_flag: "flag (put b r) = b"
    and put_frame: "grp (put b r) = grp r" "rid (put b r) = rid r" "row_ok (put b r) = row_ok r"
    and in_group_iff: "row_ok r \<Longrightarrow> in_group g r \<longleftrightarrow> grp r = g"
begin

lemma clear_group:
  assumes "one_flagged rid grp flag t"
  shows "one_flagged rid grp flag (tupd_where (in_group g) (put False) t)"
  unfolding tupd_where_def
  by (rule one_flagged_image [OF assms]) (simp_all add: put_frame put_flag split: if_splits)

lemma group_cleared:
  assumes "\<forall>r \<in> set t. row_ok r" and "r \<in> set (tupd_where (in_group g) (put False) t)" and "grp r = g"
  shows "\<not> flag r"
proof -
  obtain r0 where r0: "r0 \<in> set t" "r = (if in_group g r0 then put False r0 else r0)"
    using assms(2) unfolding tupd_where_def set_map by blast
  then have "grp r0 = g" using assms(3) by (simp add: put_frame split: if_splits)
  then have "in_group g r0" using in_group_iff assms(1) r0(1) by blast
  then show ?thesis using r0(2) by (simp add: put_flag)
qed

lemma rows_ok:
  assumes "\<forall>r \<in> set t. row_ok r"
  shows "\<forall>r \<in> set (tupd_where P (put b) t). row_ok r"
  using assms unfolding tupd_where_def set_map by (auto simp: put_frame)

lemma add_row:
  assumes "one_flagged rid grp flag t" and "flag x \<Longrightarrow> \<forall>r \<in> set t. grp r = grp x \<longrightarrow> \<not> flag r"
  shows "one_flagged rid grp flag (t @ [x])"
proof (rule one_flaggedI)
  fix r s
  assume "r \<in> set (t @ [x])" "s \<in> set (t @ [x])" and fl: "flag r" "flag s" "grp r = grp s"
  then consider "r = x" "s = x" | "r = x" "s \<in> set t" | "s = x" "r \<in> set t" | "r \<in> set t" "s \<in> set t"
    by auto
  then show "rid r = rid s"
  proof cases
    case 2 then show ?thesis using assms(2) fl by metis
  next
    case 3 then show ?thesis using assms(2) fl by metis
  next
    case 4 then show ?thesis using one_flaggedD [OF assms(1)] fl by blast
  qed simp
qed

lemma set_flag:
  assumes "one_flagged rid grp flag t" and "\<forall>r \<in> set t. grp r = g \<longrightarrow> \<not> flag r"
    and "\<And>r. r \<in> set t \<Longrightarrow> rid r = i \<Longrightarrow> grp r = g"
    and "\<And>r. rid (f r) = rid r \<and> grp (f r) = grp r"
  shows "one_flagged rid grp flag (tupd rid i f t)"
proof (rule one_flaggedI)
  fix r s
  assume "r \<in> set (tupd rid i f t)" "s \<in> set (tupd rid i f t)" and fl: "flag r" "flag s" "grp r = grp s"
  then obtain r0 s0 where r0: "r0 \<in> set t" "r = (if rid r0 = i then f r0 else r0)"
    and s0: "s0 \<in> set t" "s = (if rid s0 = i then f s0 else s0)"
    unfolding set_tupd by blast
  have ids: "rid r = rid r0" "rid s = rid s0" "grp r = grp r0" "grp s = grp s0" using r0(2) s0(2) assms(4) by simp_all
  show "rid r = rid s"
  proof (cases "rid r0 = i \<or> rid s0 = i")
    case True
    then have "grp r0 = g" "grp s0 = g" using assms(3) [of r0] assms(3) [of s0] r0(1) s0(1) ids(3,4) fl(3) by metis+
    with assms(2) r0 s0 fl(1,2) have "rid r0 = i" "rid s0 = i" by metis+
    then show ?thesis by (simp add: ids)
  next
    case False
    then have "r = r0" "s = s0" using r0(2) s0(2) by simp_all
    with one_flaggedD [OF assms(1)] r0(1) s0(1) fl show ?thesis by blast
  qed
qed

lemma clear_one:
  assumes "one_flagged rid grp flag t" and "\<And>r. rid (f r) = rid r \<and> grp (f r) = grp r \<and> (flag (f r) \<longrightarrow> flag r)"
  shows "one_flagged rid grp flag (tupd rid i f t)"
  unfolding tupd_def by (rule one_flagged_image [OF assms(1)]) (simp_all add: assms(2) split: if_splits)

end

end
