(* ===== verification/Samples.thy ===== *)
theory Samples
  imports Models
begin

text \<open>Concrete rows on which the witnesses of the development evaluate the model.\<close>

definition sample_cluster :: cluster where
  "sample_cluster = \<lparr>Cluster_id = ''c1'', Cluster_name = ''lab'', Cluster_hypervisor = ''hyperv''\<rparr>"

definition sample_host :: "ident \<Rightarrow> ident option \<Rightarrow> host" where
  "sample_host i cid = \<lparr>Host_id = i, Host_short_id = ''ab12'', Host_cluster_id = cid, Host_name = ''node'',
     Host_fqdn = None, Host_ip_address = None, Host_hypervisor = ''hyperv'',
     Host_agent_rmq_user = Some ''agent-ab12'', Host_agent_rmq_password = Some ''s3cret'',
     Host_agent_version = Some ''1.2.0'', Host_agent_last_seen = None, Host_agent_refresh_vm = None,
     Host_agent_refresh_host = None, Host_hardware = None\<rparr>"

definition sample_vm :: "ident \<Rightarrow> ident \<Rightarrow> vm" where
  "sample_vm i h = \<lparr>Vm_id = i, Vm_vm_uuid = Some (''guid-'' @ i), Vm_host_id = h, Vm_cluster_id = None,
     Vm_folder_id = None, Vm_name = ''web'', Vm_state = ''Off'', Vm_firmware = ''UEFI'', Vm_guest_os = None,
     Vm_uptime_sec = None, Vm_vcpu = 2, Vm_memory_bytes = 2147483648, Vm_memory_min_bytes = None,
     Vm_memory_max_bytes = None, Vm_memory_dynamic = False, Vm_cpu_usage_percent = None,
     Vm_memory_demand_bytes = None, Vm_secure_boot = None, Vm_secure_boot_template = None,
     Vm_nested_virtualization = False, Vm_auto_start_action = None, Vm_auto_start_delay_sec = None,
     Vm_auto_stop_action = None, Vm_config_path = None, Vm_dvd_path = None, Vm_highly_available = False,
     Vm_metrics_enabled = False, Vm_notes = None, Vm_vm_created_at = None, Vm_last_inventory_at = None,
     Vm_disks = [], Vm_nics = [], Vm_snapshots = []\<rparr>"

definition sample_tag :: "ident \<Rightarrow> ident option \<Rightarrow> string \<Rightarrow> tag" where
  "sample_tag i cid nm = \<lparr>Tag_id = i, Tag_category_id = cid, Tag_name = nm, Tag_color = ''gray''\<rparr>"

definition sample_task :: "ident \<Rightarrow> string \<Rightarrow> string \<Rightarrow> ident \<Rightarrow> instant \<Rightarrow> task" where
  "sample_task i kind status target created = \<lparr>Task_id = i, Task_kind = kind, Task_status = status,
     Task_target_type = ''vm'', Task_target_id = target, Task_target_name = Some ''web'', Task_host_id = ''h1'',
     Task_requested_by = ''op@ovc'', Task_progress = None, Task_progress_message = None,
     Task_created_at = created, Task_started_at = None, Task_finished_at = None, Task_result = None,
     Task_error = None, Task_request_payload = None, Task_response_payload = None,
     Task_correlation_id = None\<rparr>"

end
