(* ===== verification/Tags.thy ===== *)
theory Tags
  imports Audit_Log Unique_Names Samples
begin

text \<open>
  \<^verbatim>\<open>app/services/tags.py\<close> and \<^verbatim>\<open>app/api/routes/tags.py\<close>: the global catalog of tag categories and
  tags, and the assignment of tags to VMs, at most one of each category. A service takes the row
  ids it works on, the routes add the administrator check and the audit event.
\<close>

section \<open>Definitions\<close>

definition is_name_char :: "char \<Rightarrow> bool" where
  "is_name_char c \<longleftrightarrow> (let n = (of_char c :: nat) in
     (65 \<le> n \<and> n \<le> 90) \<or> (97 \<le> n \<and> n \<le> 122) \<or> (48 \<le> n \<and> n \<le> 57) \<or> n = 95 \<or> n = 45)"

definition invalid :: exn where
  "invalid = ApiError ''INVALID'' 400"

definition duplicate :: exn where
  "duplicate = ApiError ''DUPLICATE'' 409"

definition tag_conflict :: exn where
  "tag_conflict = ApiError ''TAG_CONFLICT'' 409"

definition check_tag_name :: "string \<Rightarrow> string res" where
  "check_tag_name nm =
     (let name = py_strip nm in
      if name = [] \<or> TAG_NAME_MAX_LENGTH < length name \<or> \<not> list_all is_name_char name
      then Inl invalid else Inr name)"

definition check_tag_color :: "string \<Rightarrow> string res" where
  "check_tag_color color = (if color \<in> set TAG_COLORS then Inr color else Inl invalid)"

subsection \<open>Categories\<close>

definition category_key :: "tag_category \<Rightarrow> string" where
  "category_key c = py_lower (TagCategory_name c)"

definition list_categories :: "database \<Rightarrow> tag_category list" where
  "list_categories db = sort_key category_key (db_tag_categories db)"

definition category_taken :: "string \<Rightarrow> ident option \<Rightarrow> tag_category list \<Rightarrow> bool" where
  "category_taken k exclude cs =
     list_ex (\<lambda>c. category_key c = k \<and> exclude \<noteq> Some (TagCategory_id c)) cs"

definition require_unique_category :: "database \<Rightarrow> string \<Rightarrow> ident option \<Rightarrow> unit res" where
  "require_unique_category db name exclude =
     (if category_taken (py_lower name) exclude (db_tag_categories db) then Inl duplicate else Inr ())"

definition create_category :: "ident \<Rightarrow> string \<Rightarrow> database \<Rightarrow> (tag_category \<times> database) res" where
  "create_category nid nm db =
     sbind (check_tag_name nm) (\<lambda>name.
     sbind (require_unique_category db name None) (\<lambda>_.
       let c = \<lparr>TagCategory_id = nid, TagCategory_name = name\<rparr>
       in Inr (c, db\<lparr>db_tag_categories := db_tag_categories db @ [c]\<rparr>)))"

definition rename_category :: "tag_category \<Rightarrow> string \<Rightarrow> database \<Rightarrow> (tag_category \<times> database) res" where
  "rename_category c nm db =
     sbind (check_tag_name nm) (\<lambda>name.
     sbind (require_unique_category db name (Some (TagCategory_id c))) (\<lambda>_.
       Inr (c\<lparr>TagCategory_name := name\<rparr>,
            db\<lparr>db_tag_categories := tupd TagCategory_id (TagCategory_id c)
                 (\<lambda>r. r\<lparr>TagCategory_name := name\<rparr>) (db_tag_categories db)\<rparr>)))"

definition delete_category :: "tag_category \<Rightarrow> database \<Rightarrow> database" where
  "delete_category c db = drop_tag_category (TagCategory_id c) db"

subsection \<open>Tags\<close>

definition tag_key :: "tag \<Rightarrow> ident option \<times> string" where
  "tag_key t = (Tag_category_id t, py_lower (Tag_name t))"

text \<open>The rows of \<open>vm_tags\<close> joined with their VM, visible to the scope.\<close>

definition visible_assignments :: "database \<Rightarrow> visible_scope \<Rightarrow> (ident \<times> ident) list" where
  "visible_assignments db sc =
     filter (\<lambda>(v, t). list_ex (\<lambda>r. Vm_id r = v \<and> vm_visible_clause sc r = Some True) (db_vms db)) (db_vm_tags db)"

definition tag_order :: "database \<Rightarrow> tag \<Rightarrow> bool \<times> string \<times> string" where
  "tag_order db t =
     (let cat = Option.bind (Tag_category_id t) (tget TagCategory_id (db_tag_categories db)) in
      (cat = None, (case cat of None \<Rightarrow> [] | Some c \<Rightarrow> category_key c), py_lower (Tag_name t)))"

definition list_tags :: "database \<Rightarrow> visible_scope \<Rightarrow> (tag \<times> nat) list" where
  "list_tags db sc =
     (let joined = visible_assignments db sc;
          counts = map (\<lambda>i. (i, length (filter (\<lambda>p. snd p = i) joined))) (remdups (map snd joined))
      in map (\<lambda>t. (t, case map_of counts (Tag_id t) of None \<Rightarrow> 0 | Some n \<Rightarrow> n))
           (sort_key (tag_order db) (db_tags db)))"

definition tag_vm_count :: "database \<Rightarrow> visible_scope \<Rightarrow> ident \<Rightarrow> nat" where
  "tag_vm_count db sc tid = length (filter (\<lambda>p. snd p = tid) (visible_assignments db sc))"

definition get_category :: "database \<Rightarrow> ident \<Rightarrow> tag_category res" where
  "get_category db cid =
     (case tget TagCategory_id (db_tag_categories db) cid of None \<Rightarrow> Inl not_found | Some c \<Rightarrow> Inr c)"

text \<open>\<^verbatim>\<open>await _get_category(db, x) if x else None\<close>.\<close>

definition category_opt :: "database \<Rightarrow> ident option \<Rightarrow> tag_category option res" where
  "category_opt db cid =
     (if opt_truthy cid then sbind (get_category db (or_empty cid)) (\<lambda>c. Inr (Some c)) else Inr None)"

definition tag_taken :: "ident option \<times> string \<Rightarrow> ident option \<Rightarrow> tag list \<Rightarrow> bool" where
  "tag_taken k exclude ts = list_ex (\<lambda>t. tag_key t = k \<and> exclude \<noteq> Some (Tag_id t)) ts"

definition require_unique_tag :: "database \<Rightarrow> string \<Rightarrow> tag_category option \<Rightarrow> ident option \<Rightarrow> unit res" where
  "require_unique_tag db name cat exclude =
     (if tag_taken (map_option TagCategory_id cat, py_lower name) exclude (db_tags db)
      then Inl duplicate else Inr ())"

definition create_tag ::
  "ident \<Rightarrow> string \<Rightarrow> ident option \<Rightarrow> string \<Rightarrow> database \<Rightarrow> (tag \<times> database) res"
where
  "create_tag nid nm cid clr db =
     sbind (check_tag_name nm) (\<lambda>name.
     sbind (check_tag_color clr) (\<lambda>color.
     sbind (category_opt db cid) (\<lambda>cat.
     sbind (require_unique_tag db name cat None) (\<lambda>_.
       let t = \<lparr>Tag_id = nid, Tag_category_id = map_option TagCategory_id cat, Tag_name = name,
                Tag_color = color\<rparr>
       in Inr (t, db\<lparr>db_tags := db_tags db @ [t]\<rparr>)))))"

text \<open>The distinct VMs of the join: those that carry the tag and also another tag of the category.\<close>

definition carries_other :: "database \<Rightarrow> ident \<Rightarrow> ident \<Rightarrow> ident \<Rightarrow> bool" where
  "carries_other db v tid cid =
     list_ex (\<lambda>b. (v, Tag_id b) \<in> set (db_vm_tags db) \<and> Tag_category_id b = Some cid \<and> Tag_id b \<noteq> tid) (db_tags db)"

definition clashing_vms :: "database \<Rightarrow> ident \<Rightarrow> ident \<Rightarrow> ident list" where
  "clashing_vms db tid cid =
     remdups (map fst (filter (\<lambda>p. snd p = tid \<and> carries_other db (fst p) tid cid) (db_vm_tags db)))"

definition category_clash :: "database \<Rightarrow> tag \<Rightarrow> tag_category option \<Rightarrow> bool" where
  "category_clash db t cat =
     (case cat of None \<Rightarrow> False
      | Some c \<Rightarrow> Some (TagCategory_id c) \<noteq> Tag_category_id t
          \<and> clashing_vms db (Tag_id t) (TagCategory_id c) \<noteq> [])"

definition update_tag ::
  "tag \<Rightarrow> string option \<Rightarrow> ident option \<Rightarrow> bool \<Rightarrow> string option \<Rightarrow> database \<Rightarrow> (tag \<times> database) res"
where
  "update_tag t nm cid category_given clr db =
     sbind (case nm of Some n \<Rightarrow> check_tag_name n | None \<Rightarrow> Inr (Tag_name t)) (\<lambda>new_name.
     sbind (case clr of Some c \<Rightarrow> check_tag_color c | None \<Rightarrow> Inr (Tag_color t)) (\<lambda>new_color.
     sbind (category_opt db (if category_given then cid else Tag_category_id t)) (\<lambda>cat.
     sbind (require_unique_tag db new_name cat (Some (Tag_id t))) (\<lambda>_.
       if category_clash db t cat then Inl tag_conflict
       else let upd = (\<lambda>r. r\<lparr>Tag_name := new_name, Tag_color := new_color,
                              Tag_category_id := map_option TagCategory_id cat\<rparr>)
            in Inr (upd t, db\<lparr>db_tags := tupd Tag_id (Tag_id t) upd (db_tags db)\<rparr>)))))"

definition delete_tag :: "tag \<Rightarrow> database \<Rightarrow> database" where
  "delete_tag t db = drop_tags (\<lambda>r. Tag_id r = Tag_id t) db"

subsection \<open>Assignment\<close>

text \<open>\<open>vm.tags = tags\<close> replaces the rows of the VM in the association table.\<close>

definition set_vm_tags :: "vm \<Rightarrow> ident list \<Rightarrow> database \<Rightarrow> database res" where
  "set_vm_tags v tag_ids db =
     (let wanted = remdups tag_ids;
          tags = filter (\<lambda>t. Tag_id t \<in> set wanted) (db_tags db);
          cats = List.map_filter Tag_category_id tags
      in if length tags \<noteq> length wanted then Inl not_found
         else case filter (\<lambda>c. 1 < length (filter (\<lambda>t. Tag_category_id t = Some c) tags)) (rev (remdups (rev cats))) of
           c # _ \<Rightarrow> sbind (get_category db c) (\<lambda>_. Inl tag_conflict)
         | [] \<Rightarrow> Inr (db\<lparr>db_vm_tags := filter (\<lambda>p. fst p \<noteq> Vm_id v) (db_vm_tags db)
                          @ map (\<lambda>t. (Vm_id v, Tag_id t)) tags\<rparr>))"

section \<open>Routes\<close>

definition require_admin :: "visible_scope \<Rightarrow> unit res" where
  "require_admin sc = (if Scope_all sc then Inr () else Inl forbidden)"

text \<open>Record an event and keep the value: the audit call of a route.\<close>

definition audited ::
  "ident \<Rightarrow> instant \<Rightarrow> user \<Rightarrow> string \<Rightarrow> target \<Rightarrow> jobj option \<Rightarrow> database \<Rightarrow> database res"
where
  "audited eid now u action tgt details db =
     sbind (record_event eid now (Some u) action (Some tgt) None None details db) (\<lambda>(_, db'). Inr db')"

text \<open>\<^verbatim>\<open>if diff := changes(...): await record(...)\<close>.\<close>

definition audited_diff ::
  "ident \<Rightarrow> instant \<Rightarrow> user \<Rightarrow> string \<Rightarrow> target \<Rightarrow> jobj option \<Rightarrow> database \<Rightarrow> database res"
where
  "audited_diff eid now u action tgt diff db =
     (if diff = None then Inr db else audited eid now u action tgt diff db)"

definition add_tag_category ::
  "ident \<Rightarrow> instant \<Rightarrow> ident \<Rightarrow> visible_scope \<Rightarrow> user \<Rightarrow> string \<Rightarrow> database \<Rightarrow> (tag_category \<times> database) res"
where
  "add_tag_category eid now nid sc u nm db =
     sbind (require_admin sc) (\<lambda>_.
     sbind (create_category nid nm db) (\<lambda>(c, db1).
     sbind (audited eid now u ''tag_category.create'' (TagCategoryTarget c) None db1) (\<lambda>db2. Inr (c, db2))))"

definition admin_category :: "database \<Rightarrow> visible_scope \<Rightarrow> ident \<Rightarrow> tag_category res" where
  "admin_category db sc cid = sbind (require_admin sc) (\<lambda>_. get_category db cid)"

definition patch_tag_category ::
  "ident \<Rightarrow> instant \<Rightarrow> visible_scope \<Rightarrow> user \<Rightarrow> ident \<Rightarrow> string \<Rightarrow> database \<Rightarrow> (tag_category \<times> database) res"
where
  "patch_tag_category eid now sc u cid nm db =
     sbind (admin_category db sc cid) (\<lambda>c.
     sbind (rename_category c nm db) (\<lambda>(c', db1).
     sbind (audited_diff eid now u ''tag_category.rename'' (TagCategoryTarget c')
              (changes [(''name'', JStr (TagCategory_name c))] [(''name'', JStr (TagCategory_name c'))]) db1)
       (\<lambda>db2. Inr (c', db2))))"

definition remove_tag_category ::
  "ident \<Rightarrow> instant \<Rightarrow> visible_scope \<Rightarrow> user \<Rightarrow> ident \<Rightarrow> database \<Rightarrow> database res"
where
  "remove_tag_category eid now sc u cid db =
     sbind (admin_category db sc cid) (\<lambda>c.
     sbind (audited eid now u ''tag_category.delete'' (TagCategoryTarget c) None db) (\<lambda>db1.
       Inr (delete_category c db1)))"

definition opt_str :: "string option \<Rightarrow> json" where
  "opt_str x = (case x of None \<Rightarrow> JNull | Some s \<Rightarrow> JStr s)"

definition tag_fields :: "database \<Rightarrow> tag \<Rightarrow> jobj" where
  "tag_fields db t =
     [(''name'', JStr (Tag_name t)),
      (''category'', opt_str (map_option TagCategory_name
         (Option.bind (Tag_category_id t) (tget TagCategory_id (db_tag_categories db))))),
      (''color'', JStr (Tag_color t))]"

definition add_tag ::
  "ident \<Rightarrow> instant \<Rightarrow> ident \<Rightarrow> visible_scope \<Rightarrow> user \<Rightarrow> string \<Rightarrow> ident option \<Rightarrow> string \<Rightarrow> database
    \<Rightarrow> (tag \<times> database) res"
where
  "add_tag eid now nid sc u nm cid clr db =
     sbind (require_admin sc) (\<lambda>_.
     sbind (create_tag nid nm cid clr db) (\<lambda>(t, db1).
     sbind (audited eid now u ''tag.create'' (TagTarget t) (Some (tag_fields db1 t)) db1) (\<lambda>db2. Inr (t, db2))))"

definition admin_tag :: "database \<Rightarrow> visible_scope \<Rightarrow> ident \<Rightarrow> tag res" where
  "admin_tag db sc tid =
     sbind (require_admin sc) (\<lambda>_. case tget Tag_id (db_tags db) tid of None \<Rightarrow> Inl not_found | Some t \<Rightarrow> Inr t)"

definition patch_tag ::
  "ident \<Rightarrow> instant \<Rightarrow> visible_scope \<Rightarrow> user \<Rightarrow> ident \<Rightarrow> string option \<Rightarrow> ident option \<Rightarrow> bool
    \<Rightarrow> string option \<Rightarrow> database \<Rightarrow> ((tag \<times> nat) \<times> database) res"
where
  "patch_tag eid now sc u tid nm cid category_given clr db =
     sbind (admin_tag db sc tid) (\<lambda>t.
     sbind (update_tag t nm cid category_given clr db) (\<lambda>(t', db1).
     sbind (audited_diff eid now u ''tag.update'' (TagTarget t')
              (changes (tag_fields db t) (tag_fields db1 t')) db1) (\<lambda>db2.
       Inr ((t', tag_vm_count db2 sc (Tag_id t')), db2))))"

definition remove_tag ::
  "ident \<Rightarrow> instant \<Rightarrow> visible_scope \<Rightarrow> user \<Rightarrow> ident \<Rightarrow> database \<Rightarrow> database res"
where
  "remove_tag eid now sc u tid db =
     sbind (admin_tag db sc tid) (\<lambda>t.
     sbind (audited eid now u ''tag.delete'' (TagTarget t) None db) (\<lambda>db1. Inr (delete_tag t db1)))"

section \<open>The catalog invariant\<close>

definition one_per_category :: "tag list \<Rightarrow> (ident \<times> ident) list \<Rightarrow> bool" where
  "one_per_category tags assigned \<longleftrightarrow>
     (\<forall>a \<in> set tags. \<forall>b \<in> set tags. \<forall>v.
        (v, Tag_id a) \<in> set assigned \<longrightarrow> (v, Tag_id b) \<in> set assigned
        \<longrightarrow> Tag_category_id a \<noteq> None \<longrightarrow> Tag_category_id a = Tag_category_id b \<longrightarrow> Tag_id a = Tag_id b)"

definition catalog_ok :: "database \<Rightarrow> bool" where
  "catalog_ok db \<longleftrightarrow> pk_unique TagCategory_id (db_tag_categories db) \<and> pk_unique Tag_id (db_tags db)
     \<and> pk_unique category_key (db_tag_categories db) \<and> pk_unique tag_key (db_tags db)
     \<and> one_per_category (db_tags db) (db_vm_tags db)"

text \<open>One request on the catalog, with the id it draws fresh.\<close>

inductive tag_step :: "database \<Rightarrow> database \<Rightarrow> bool" where
  step_add_category: "nid \<notin> TagCategory_id ` set (db_tag_categories db) \<Longrightarrow>
     add_tag_category eid now nid sc u nm db = Inr (c, db') \<Longrightarrow> tag_step db db'"
| step_patch_category: "patch_tag_category eid now sc u cid nm db = Inr (c, db') \<Longrightarrow> tag_step db db'"
| step_remove_category: "remove_tag_category eid now sc u cid db = Inr db' \<Longrightarrow> tag_step db db'"
| step_add_tag: "nid \<notin> Tag_id ` set (db_tags db) \<Longrightarrow> nid \<notin> snd ` set (db_vm_tags db) \<Longrightarrow>
     add_tag eid now nid sc u nm cid' clr db = Inr (t, db') \<Longrightarrow> tag_step db db'"
| step_patch_tag: "patch_tag eid now sc u tid nm' cid' given clr' db = Inr (r, db') \<Longrightarrow> tag_step db db'"
| step_remove_tag: "remove_tag eid now sc u tid db = Inr db' \<Longrightarrow> tag_step db db'"
| step_set_vm_tags: "set_vm_tags v tids db = Inr db' \<Longrightarrow> tag_step db db'"

inductive_cases tag_stepE: "tag_step db db'"

section \<open>Lemmas\<close>

interpretation category_names: unique_names TagCategory_id category_key category_taken
  by unfold_locales (auto simp: category_taken_def list_ex_iff)

interpretation tag_names: unique_names Tag_id tag_key tag_taken
  by unfold_locales (auto simp: tag_taken_def list_ex_iff)

lemma audited_frame:
  assumes "audited eid now u action tgt d db = Inr db'"
  shows "\<exists>es. db' = db\<lparr>db_audit_events := es\<rparr>"
  using assms by (auto simp: audited_def record_event_def Let_def split: if_splits)

lemma audited_diff_frame:
  assumes "audited_diff eid now u action tgt d db = Inr db'"
  shows "\<exists>es. db' = db\<lparr>db_audit_events := es\<rparr>"
proof (cases "d = None")
  case True
  then have "db' = db\<lparr>db_audit_events := db_audit_events db\<rparr>" using assms by (simp add: audited_diff_def)
  then show ?thesis by blast
next
  case False
  with assms have "audited eid now u action tgt d db = Inr db'" unfolding audited_diff_def by (simp only: if_False)
  then show ?thesis by (rule audited_frame)
qed

lemma catalog_ok_audit [simp]: "catalog_ok (db\<lparr>db_audit_events := es\<rparr>) = catalog_ok db"
  by (simp add: catalog_ok_def)

lemma catalog_ok_audited:
  "audited eid now u action tgt d db = Inr db' \<Longrightarrow> catalog_ok db' = catalog_ok db"
  "audited_diff eid now u action tgt d db = Inr db' \<Longrightarrow> catalog_ok db' = catalog_ok db"
  using audited_frame audited_diff_frame catalog_ok_audit by metis+

lemma create_category_ok:
  assumes "create_category nid nm db = Inr (c, db')" and "catalog_ok db"
    and "nid \<notin> TagCategory_id ` set (db_tag_categories db)"
  shows "catalog_ok db'"
proof -
  obtain name where db': "db' = db\<lparr>db_tag_categories := db_tag_categories db @ [\<lparr>TagCategory_id = nid, TagCategory_name = name\<rparr>]\<rparr>"
    and free: "\<not> category_taken (py_lower name) None (db_tag_categories db)"
    using assms(1) by (auto simp: create_category_def require_unique_category_def sbind_eq_Inr Let_def split: if_splits)
  have "pk_unique category_key (db_tag_categories db @ [\<lparr>TagCategory_id = nid, TagCategory_name = name\<rparr>])"
    using free assms(2) by (intro category_names.add_row) (simp_all add: catalog_ok_def category_key_def)
  then show ?thesis using assms(2,3) unfolding db' catalog_ok_def by simp
qed

lemma rename_category_ok:
  assumes "rename_category c nm db = Inr (c', db')" and "catalog_ok db"
  shows "catalog_ok db'"
proof -
  obtain name where db': "db' = db\<lparr>db_tag_categories := tupd TagCategory_id (TagCategory_id c)
        (\<lambda>r. r\<lparr>TagCategory_name := name\<rparr>) (db_tag_categories db)\<rparr>"
    and free: "\<not> category_taken (py_lower name) (Some (TagCategory_id c)) (db_tag_categories db)"
    using assms(1) by (auto simp: rename_category_def require_unique_category_def sbind_eq_Inr split: if_splits)
  have "pk_unique category_key (tupd TagCategory_id (TagCategory_id c)
      (\<lambda>r. r\<lparr>TagCategory_name := name\<rparr>) (db_tag_categories db))"
    using free assms(2)
    by (intro category_names.edit_row [where k = "py_lower name"]) (simp_all add: catalog_ok_def category_key_def)
  then show ?thesis using assms(2) unfolding db' catalog_ok_def by simp
qed

lemma drop_tags_ok:
  assumes "catalog_ok db" shows "catalog_ok (drop_tags P db)"
proof -
  have "one_per_category (filter (\<lambda>t. \<not> P t) ts) (filter Q vs)" if "one_per_category ts vs" for ts vs Q
    using that unfolding one_per_category_def by (simp only: set_filter mem_Collect_eq) blast
  then show ?thesis using assms by (simp add: catalog_ok_def drop_tags_def Let_def)
qed

lemma delete_category_ok:
  assumes "catalog_ok db" shows "catalog_ok (delete_category c db)"
  using drop_tags_ok [OF assms, of "\<lambda>t. Tag_category_id t = Some (TagCategory_id c)"]
  by (simp add: delete_category_def drop_tag_category_def catalog_ok_def Let_def)

lemma one_per_category_new:
  assumes "one_per_category ts vs" and "Tag_id t \<notin> snd ` set vs"
  shows "one_per_category (ts @ [t]) vs"
proof -
  have "(v, Tag_id t) \<notin> set vs" for v using assms(2) by force
  with assms(1) show ?thesis unfolding one_per_category_def by auto
qed

lemma create_tag_ok:
  assumes "create_tag nid nm cid clr db = Inr (t, db')" and "catalog_ok db"
    and "nid \<notin> Tag_id ` set (db_tags db)" and "nid \<notin> snd ` set (db_vm_tags db)"
  shows "catalog_ok db'"
proof -
  have t: "Tag_id t = nid" and db': "db' = db\<lparr>db_tags := db_tags db @ [t]\<rparr>"
    and free: "\<not> tag_taken (tag_key t) None (db_tags db)"
    using assms(1)
    by (auto simp: create_tag_def require_unique_tag_def sbind_eq_Inr Let_def tag_key_def split: if_splits)
  have "pk_unique tag_key (db_tags db @ [t])"
    using free assms(2) by (intro tag_names.add_row) (simp_all add: catalog_ok_def)
  with assms(2-4) one_per_category_new [of "db_tags db" "db_vm_tags db" t] t show ?thesis
    unfolding db' catalog_ok_def by simp
qed

lemma clashing_vms_Nil:
  assumes "clashing_vms db tid cid = []" and "(v, tid) \<in> set (db_vm_tags db)"
    and "b \<in> set (db_tags db)" and "(v, Tag_id b) \<in> set (db_vm_tags db)" and "Tag_category_id b = Some cid"
  shows "Tag_id b = tid"
proof (rule ccontr)
  assume "Tag_id b \<noteq> tid"
  with assms have "carries_other db v tid cid" by (auto simp: carries_other_def list_ex_iff)
  with assms(1,2) show False by (auto simp: clashing_vms_def filter_empty_conv)
qed

lemma one_per_category_move:
  assumes ok: "one_per_category (db_tags db) (db_vm_tags db)"
    and upd: "\<And>r. Tag_id (f r) = Tag_id r" "\<And>r. Tag_category_id (f r) = cat"
    and same: "\<And>r. r \<in> set (db_tags db) \<Longrightarrow> Tag_id r = i \<Longrightarrow> Tag_category_id r = old"
    and free: "cat = None \<or> cat = old \<or> clashing_vms db i (the cat) = []"
  shows "one_per_category (tupd Tag_id i f (db_tags db)) (db_vm_tags db)"
  unfolding one_per_category_def
proof (intro ballI allI impI)
  fix a b v
  assume a: "a \<in> set (tupd Tag_id i f (db_tags db))" and b: "b \<in> set (tupd Tag_id i f (db_tags db))"
    and va: "(v, Tag_id a) \<in> set (db_vm_tags db)" and vb: "(v, Tag_id b) \<in> set (db_vm_tags db)"
    and c: "Tag_category_id a \<noteq> None" "Tag_category_id a = Tag_category_id b"
  from a obtain a0 where a0: "a0 \<in> set (db_tags db)" "a = (if Tag_id a0 = i then f a0 else a0)"
    by (auto simp only: set_tupd)
  from b obtain b0 where b0: "b0 \<in> set (db_tags db)" "b = (if Tag_id b0 = i then f b0 else b0)"
    by (auto simp only: set_tupd)
  have ids: "Tag_id a = Tag_id a0" "Tag_id b = Tag_id b0" using a0(2) b0(2) upd(1) by auto
  have rule: "Tag_id x = Tag_id y"
    if "x \<in> set (db_tags db)" "y \<in> set (db_tags db)" "(v, Tag_id x) \<in> set (db_vm_tags db)"
      "(v, Tag_id y) \<in> set (db_vm_tags db)" "Tag_category_id x \<noteq> None" "Tag_category_id x = Tag_category_id y" for x y
    using ok that unfolding one_per_category_def by blast
  have moved: "Tag_id x = Tag_id y"
    if x: "x \<in> set (db_tags db)" "Tag_id x = i" "(v, Tag_id x) \<in> set (db_vm_tags db)"
      and y: "y \<in> set (db_tags db)" "(v, Tag_id y) \<in> set (db_vm_tags db)" "Tag_category_id y = cat" "cat \<noteq> None" for x y
  proof (cases "cat = old")
    case True
    then show ?thesis using rule [of x y] x y same [of x] by auto
  next
    case False
    with free y(4) have "clashing_vms db i (the cat) = []" by simp
    from clashing_vms_Nil [OF this, of v y] show ?thesis using x y by auto
  qed
  consider "Tag_id a0 = i" "Tag_id b0 = i" | "Tag_id a0 = i" "Tag_id b0 \<noteq> i"
    | "Tag_id a0 \<noteq> i" "Tag_id b0 = i" | "Tag_id a0 \<noteq> i" "Tag_id b0 \<noteq> i" by blast
  then show "Tag_id a = Tag_id b"
  proof cases
    case 1 then show ?thesis using ids by simp
  next
    case 2 then show ?thesis using moved [of a0 b0] ids a0 b0 va vb c upd by simp
  next
    case 3 then show ?thesis using moved [of b0 a0] ids a0 b0 va vb c upd by simp
  next
    case 4 then show ?thesis using rule [of a0 b0] ids a0 b0 va vb c by simp
  qed
qed

lemma update_tag_ok:
  assumes "update_tag t nm cid given clr db = Inr (t', db')" and "catalog_ok db" and "t \<in> set (db_tags db)"
  shows "catalog_ok db'"
proof -
  obtain name color cat where
    db': "db' = db\<lparr>db_tags := tupd Tag_id (Tag_id t) (\<lambda>r. r\<lparr>Tag_name := name, Tag_color := color,
            Tag_category_id := map_option TagCategory_id cat\<rparr>) (db_tags db)\<rparr>" (is "_ = db\<lparr>db_tags := tupd _ _ ?f _\<rparr>")
    and free: "\<not> tag_taken (map_option TagCategory_id cat, py_lower name) (Some (Tag_id t)) (db_tags db)"
    and clash: "\<not> category_clash db t cat"
    using assms(1) unfolding update_tag_def require_unique_tag_def sbind_eq_Inr Let_def
    by (auto split: if_split_asm)
  have names: "pk_unique tag_key (tupd Tag_id (Tag_id t) ?f (db_tags db))"
    using free assms(2) by (intro tag_names.edit_row) (auto simp: catalog_ok_def tag_key_def)
  have "one_per_category (tupd Tag_id (Tag_id t) ?f (db_tags db)) (db_vm_tags db)"
  proof (rule one_per_category_move)
    show "Tag_category_id r = Tag_category_id t" if "r \<in> set (db_tags db)" "Tag_id r = Tag_id t" for r
      using pk_uniqueD [of Tag_id "db_tags db" r t] assms(2,3) that by (simp add: catalog_ok_def)
    show "map_option TagCategory_id cat = None \<or> map_option TagCategory_id cat = Tag_category_id t
       \<or> clashing_vms db (Tag_id t) (the (map_option TagCategory_id cat)) = []"
      using clash by (cases cat) (auto simp: category_clash_def)
  qed (use assms(2) in \<open>simp_all add: catalog_ok_def\<close>)
  with names assms(2) show ?thesis unfolding db' catalog_ok_def by simp
qed

lemma two_members: "a \<in> set xs \<Longrightarrow> b \<in> set xs \<Longrightarrow> a \<noteq> b \<Longrightarrow> 1 < length xs"
  by (cases xs; cases "tl xs") auto

lemma set_vm_tags_one_per_category:
  assumes ok: "one_per_category ts vs" and uniq: "pk_unique Tag_id ts" and sub: "set tags \<subseteq> set ts"
    and single: "\<And>c. c \<in> set (List.map_filter Tag_category_id tags) \<Longrightarrow>
       \<not> 1 < length (filter (\<lambda>t. Tag_category_id t = Some c) tags)"
  shows "one_per_category ts (filter (\<lambda>p. fst p \<noteq> v) vs @ map (\<lambda>t. (v, Tag_id t)) tags)"
  unfolding one_per_category_def
proof (intro ballI allI impI)
  fix a b w
  let ?new = "filter (\<lambda>p. fst p \<noteq> v) vs @ map (\<lambda>t. (v, Tag_id t)) tags"
  assume a: "a \<in> set ts" and b: "b \<in> set ts" and wa: "(w, Tag_id a) \<in> set ?new" and wb: "(w, Tag_id b) \<in> set ?new"
    and c: "Tag_category_id a \<noteq> None" "Tag_category_id a = Tag_category_id b"
  show "Tag_id a = Tag_id b"
  proof (cases "w = v")
    case False
    with wa wb have "(w, Tag_id a) \<in> set vs" "(w, Tag_id b) \<in> set vs" by auto
    with ok a b c show ?thesis unfolding one_per_category_def by blast
  next
    case True
    have mem: "x \<in> set tags" if "x \<in> set ts" "(w, Tag_id x) \<in> set ?new" for x
      using that True sub pk_uniqueD [OF uniq that(1)] by auto
    obtain k where k: "Tag_category_id a = Some k" using c(1) by auto
    have "k \<in> set (List.map_filter Tag_category_id tags)"
      using mem [OF a wa] k by (auto simp: List.map_filter_def image_iff intro!: bexI [of _ a])
    from single [OF this] have "a = b"
      using two_members [of a "filter (\<lambda>t. Tag_category_id t = Some k) tags" b]
        mem [OF a wa] mem [OF b wb] k c(2) by auto
    then show ?thesis by simp
  qed
qed

lemma set_vm_tags_ok:
  assumes "set_vm_tags v tids db = Inr db'" and "catalog_ok db"
  shows "catalog_ok db'"
proof -
  let ?tags = "filter (\<lambda>t. Tag_id t \<in> set tids) (db_tags db)"
  have db': "db' = db\<lparr>db_vm_tags := filter (\<lambda>p. fst p \<noteq> Vm_id v) (db_vm_tags db)
        @ map (\<lambda>t. (Vm_id v, Tag_id t)) ?tags\<rparr>"
    and none: "\<And>c. c \<in> set (List.map_filter Tag_category_id ?tags) \<Longrightarrow>
       \<not> 1 < length (filter (\<lambda>t. Tag_category_id t = Some c) ?tags)"
    using assms(1)
    by (auto simp: set_vm_tags_def Let_def sbind_eq_Inr filter_empty_conv simp del: filter_filter
        split: if_splits list.splits)
  from set_vm_tags_one_per_category [OF _ _ _ none, of "db_tags db" "db_vm_tags db" "Vm_id v"] assms(2)
  show ?thesis unfolding db' by (simp add: catalog_ok_def)
qed

lemma catalog_ok_step:
  assumes "tag_step db db'" and "catalog_ok db"
  shows "catalog_ok db'"
  using assms(1)
proof cases
  case (step_add_category nid eid now sc u nm c)
  then obtain db1 where "create_category nid nm db = Inr (c, db1)"
    "audited eid now u ''tag_category.create'' (TagCategoryTarget c) None db1 = Inr db'"
    by (auto simp: add_tag_category_def sbind_eq_Inr)
  then show ?thesis using create_category_ok assms(2) step_add_category(1) catalog_ok_audited(1) by blast
next
  case (step_patch_category eid now sc u cid nm c)
  then obtain c0 db1 where "rename_category c0 nm db = Inr (c, db1)"
    "\<exists>d. audited_diff eid now u ''tag_category.rename'' (TagCategoryTarget c) d db1 = Inr db'"
    by (auto simp: patch_tag_category_def sbind_eq_Inr)
  then show ?thesis using rename_category_ok assms(2) catalog_ok_audited(2) by blast
next
  case (step_remove_category eid now sc u cid)
  then obtain c db1 where "db' = delete_category c db1"
    "audited eid now u ''tag_category.delete'' (TagCategoryTarget c) None db = Inr db1"
    by (auto simp: remove_tag_category_def sbind_eq_Inr)
  then show ?thesis using delete_category_ok assms(2) catalog_ok_audited(1) by blast
next
  case (step_add_tag nid eid now sc u nm cid clr t)
  then obtain db1 where "create_tag nid nm cid clr db = Inr (t, db1)"
    "\<exists>d. audited eid now u ''tag.create'' (TagTarget t) d db1 = Inr db'"
    by (auto simp: add_tag_def sbind_eq_Inr)
  then show ?thesis using create_tag_ok assms(2) step_add_tag(1,2) catalog_ok_audited(1) by blast
next
  case (step_patch_tag eid now sc u tid nm cid given clr r)
  then obtain t t' db1 where "t \<in> set (db_tags db)" "update_tag t nm cid given clr db = Inr (t', db1)"
    "\<exists>d. audited_diff eid now u ''tag.update'' (TagTarget t') d db1 = Inr db'"
    by (auto simp: patch_tag_def admin_tag_def sbind_eq_Inr dest: tget_Some split: option.splits)
  then show ?thesis using update_tag_ok assms(2) catalog_ok_audited(2) by blast
next
  case (step_remove_tag eid now sc u tid)
  then obtain t db1 where "db' = delete_tag t db1"
    "audited eid now u ''tag.delete'' (TagTarget t) None db = Inr db1"
    by (auto simp: remove_tag_def sbind_eq_Inr)
  then show ?thesis using drop_tags_ok assms(2) catalog_ok_audited(1) unfolding delete_tag_def by blast
next
  case (step_set_vm_tags v tids)
  then show ?thesis using set_vm_tags_ok assms(2) by blast
qed

lemma map_of_counts:
  "(case map_of (map (\<lambda>i. (i, length (filter (\<lambda>p. snd p = i) ps))) (remdups (map snd ps))) k of
      None \<Rightarrow> 0 | Some n \<Rightarrow> n) = length (filter (\<lambda>p. snd p = k) ps)"
proof (cases "k \<in> snd ` set ps")
  case True
  then show ?thesis by (simp add: map_of_map_restrict)
next
  case False
  then have "filter (\<lambda>p. snd p = k) ps = []" by (force simp: filter_empty_conv)
  with False show ?thesis by (simp add: map_of_map_restrict)
qed

lemma tag_vm_count_card:
  assumes "distinct (db_vm_tags db)" and "pk_unique Vm_id (db_vms db)"
  shows "tag_vm_count db sc tid =
    card {v \<in> set (db_vms db). vm_visible sc v \<and> (Vm_id v, tid) \<in> set (db_vm_tags db)}" (is "_ = card ?V")
proof -
  let ?ps = "filter (\<lambda>p. snd p = tid) (visible_assignments db sc)"
  have "bij_betw (\<lambda>v. (Vm_id v, tid)) ?V (set ?ps)"
  proof (rule bij_betw_imageI)
    show "inj_on (\<lambda>v. (Vm_id v, tid)) ?V"
      using pk_uniqueD [OF assms(2)] by (auto simp: inj_on_def)
    show "(\<lambda>v. (Vm_id v, tid)) ` ?V = set ?ps"
      by (auto simp: visible_assignments_def vm_visible_clause_True list_ex_iff)
  qed
  then have "card ?V = card (set ?ps)" by (rule bij_betw_same_card)
  also have "\<dots> = length ?ps" using assms(1) by (intro distinct_card) (simp add: visible_assignments_def)
  finally show ?thesis by (simp add: tag_vm_count_def)
qed

section \<open>Properties\<close>

text \<open>C38: In every state the tag requests reach from an empty catalog, category names are unique,
  tag names are unique within their category (and among the standalone tags), both ignoring case,
  and no VM carries two tags of one category.\<close>

theorem catalog_reachable:
  assumes "tag_step\<^sup>*\<^sup>* db db'" and "db_tags db = []" and "db_tag_categories db = []"
  shows "pk_unique category_key (db_tag_categories db') \<and> pk_unique tag_key (db_tags db')
     \<and> one_per_category (db_tags db') (db_vm_tags db')"
proof -
  have "catalog_ok db" using assms(2,3) by (simp add: catalog_ok_def pk_unique_def one_per_category_def)
  with assms(1) have "catalog_ok db'" by (induction) (auto intro: catalog_ok_step)
  then show ?thesis by (simp add: catalog_ok_def)
qed

definition admin_scope :: visible_scope where
  "admin_scope = empty_scope\<lparr>Scope_all := True\<rparr>"

definition operator :: user where
  "operator = \<lparr>User_id = ''u'', User_email = ''op@ovc'', User_display_name = None, User_is_active = True,
     User_roles = None\<rparr>"

theorem catalog_reachable_witness:
  "\<exists>c db'. add_tag_category ''e'' 0 ''c1'' admin_scope operator '' Env '' empty_db = Inr (c, db')
     \<and> TagCategory_name c = ''Env'' \<and> pk_unique category_key (db_tag_categories db')"
proof -
  have name: "check_tag_name '' Env '' = Inr ''Env''"
    by (simp add: check_tag_name_def py_strip_def lstrip_by_def rstrip_by_def is_space_def
        is_name_char_def TAG_NAME_MAX_LENGTH_def)
  obtain c db' where r: "add_tag_category ''e'' 0 ''c1'' admin_scope operator '' Env '' empty_db = Inr (c, db')"
    and c: "TagCategory_name c = ''Env''"
    by (simp add: add_tag_category_def require_admin_def admin_scope_def create_category_def name
        require_unique_category_def category_taken_def empty_db_def audited_def record_event_def
        record_ref_def Let_def)
  have "tag_step\<^sup>*\<^sup>* empty_db db'"
    by (rule r_into_rtranclp, rule step_add_category [OF _ r]) (simp add: empty_db_def)
  from catalog_reachable [OF this] r c show ?thesis by (auto simp: empty_db_def)
qed

text \<open>The count shown beside a tag is the number of VMs that carry it among the VMs the caller may
  see, for every tag of the catalog, and it is the count \<^verbatim>\<open>tag_vm_count\<close> gives for that tag.\<close>

theorem list_tags_counts:
  assumes "distinct (db_vm_tags db)" and "pk_unique Vm_id (db_vms db)"
  shows "set (map fst (list_tags db sc)) = set (db_tags db)
    \<and> (\<forall>(t, n) \<in> set (list_tags db sc). n = tag_vm_count db sc (Tag_id t)
         \<and> n = card {v \<in> set (db_vms db). vm_visible sc v \<and> (Vm_id v, Tag_id t) \<in> set (db_vm_tags db)})"
proof -
  have "list_tags db sc = map (\<lambda>t. (t, tag_vm_count db sc (Tag_id t))) (sort_key (tag_order db) (db_tags db))"
    by (simp only: list_tags_def Let_def map_of_counts tag_vm_count_def)
  then show ?thesis using tag_vm_count_card [OF assms] by (auto simp: image_image)
qed

definition tagged_db :: database where
  "tagged_db = empty_db\<lparr>db_vms := [sample_vm ''v1'' ''h1'', sample_vm ''v2'' ''h2''],
     db_tags := [sample_tag ''t1'' None ''web''], db_vm_tags := [(''v1'', ''t1''), (''v2'', ''t1'')]\<rparr>"

theorem list_tags_counts_witness:
  "\<exists>n. list_tags tagged_db (empty_scope\<lparr>Scope_host_ids := {''h2''}\<rparr>) = [(sample_tag ''t1'' None ''web'', n)] \<and> n = 1"
proof -
  let ?sc = "empty_scope\<lparr>Scope_host_ids := {''h2''}\<rparr>"
  have l: "list_tags tagged_db ?sc
      = [(sample_tag ''t1'' None ''web'', tag_vm_count tagged_db ?sc ''t1'')]"
    by (simp only: list_tags_def Let_def map_of_counts tag_vm_count_def)
      (simp add: tagged_db_def empty_db_def sample_tag_def)
  have "{v \<in> set (db_vms tagged_db). vm_visible ?sc v \<and> (Vm_id v, ''t1'') \<in> set (db_vm_tags tagged_db)}
      = {sample_vm ''v2'' ''h2''}"
    by (auto simp: tagged_db_def empty_db_def sample_vm_def vm_visible_def sees_host_def sees_folder_def
        empty_scope_def)
  then show ?thesis
    using list_tags_counts [of tagged_db ?sc] l
    by (simp add: tagged_db_def empty_db_def pk_unique_def sample_vm_def sample_tag_def)
qed

end
