(* ===== verification/Organization.thy ===== *)
theory Organization
  imports Tags
begin

text \<open>
  \<^verbatim>\<open>app/services/organization.py\<close> with the routes of \<^verbatim>\<open>clusters.py\<close> and \<^verbatim>\<open>folders.py\<close>: clusters,
  the membership of hosts, folders, and the placement of VMs in folders. Tearing down the messaging
  of a deleted host is in the theory of the hosts; here \<open>delete_host_row\<close> is its database part.
\<close>

section \<open>Clusters\<close>

definition create_cluster :: "ident \<Rightarrow> string \<Rightarrow> string \<Rightarrow> database \<Rightarrow> cluster \<times> database" where
  "create_cluster nid nm hypervisor db =
     (let c = \<lparr>Cluster_id = nid, Cluster_name = py_strip nm, Cluster_hypervisor = hypervisor\<rparr>
      in (c, db\<lparr>db_clusters := db_clusters db @ [c]\<rparr>))"

definition rename_cluster :: "cluster \<Rightarrow> string \<Rightarrow> database \<Rightarrow> cluster \<times> database" where
  "rename_cluster c nm db =
     (let upd = (\<lambda>r. r\<lparr>Cluster_name := py_strip nm\<rparr>)
      in (upd c, db\<lparr>db_clusters := tupd Cluster_id (Cluster_id c) upd (db_clusters db)\<rparr>))"

definition cluster_host_ids :: "database \<Rightarrow> ident \<Rightarrow> ident list" where
  "cluster_host_ids db cid = map Host_id (filter (\<lambda>h. Host_cluster_id h = Some cid) (db_hosts db))"

definition delete_cluster :: "cluster \<Rightarrow> database \<Rightarrow> database res" where
  "delete_cluster c db =
     (if 0 < length (filter (\<lambda>h. Host_cluster_id h = Some (Cluster_id c)) (db_hosts db)) then Inl invalid
      else Inr (drop_cluster (Cluster_id c) db))"

section \<open>Hosts\<close>

text \<open>The partial unique indexes on the VM GUID, per cluster or per standalone host.\<close>

definition vm_uuid_key :: "vm \<Rightarrow> ((ident + ident) \<times> string) option" where
  "vm_uuid_key v = (case Vm_vm_uuid v of None \<Rightarrow> None
     | Some g \<Rightarrow> Some (case Vm_cluster_id v of Some c \<Rightarrow> Inl c | None \<Rightarrow> Inr (Vm_host_id v), g))"

definition vm_uuids_ok :: "vm list \<Rightarrow> bool" where
  "vm_uuids_ok vms = distinct (List.map_filter vm_uuid_key vms)"

definition move_host :: "host \<Rightarrow> ident option \<Rightarrow> database \<Rightarrow> (host \<times> database) res" where
  "move_host h cid db =
     (let target = Option.bind cid (tget Cluster_id (db_clusters db)) in
      if cid \<noteq> None \<and> target = None then Inl not_found
      else if (case target of None \<Rightarrow> False | Some c \<Rightarrow> Cluster_hypervisor c \<noteq> Host_hypervisor h) then Inl invalid
      else if Host_cluster_id h = cid then Inr (h, db)
      else
        let vms = tupd_where (\<lambda>v. Vm_host_id v = Host_id h)
                    (\<lambda>v. v\<lparr>Vm_cluster_id := cid, Vm_folder_id := None\<rparr>) (db_vms db);
            db1 = db\<lparr>db_hosts := tupd Host_id (Host_id h) (\<lambda>r. r\<lparr>Host_cluster_id := cid\<rparr>) (db_hosts db),
                     db_vms := vms\<rparr>
        in if \<not> vm_uuids_ok vms then Inl IntegrityError
           else Inr (h\<lparr>Host_cluster_id := cid\<rparr>, drop_folders (\<lambda>f. Folder_host_id f = Some (Host_id h)) db1))"

definition delete_host_row :: "host \<Rightarrow> database \<Rightarrow> database" where
  "delete_host_row h db = drop_host (Host_id h) db"

section \<open>Folders\<close>

text \<open>Exactly one scope, it exists, and a host scope only for a standalone host (folders and VLANs
  check the same).\<close>

definition check_scope :: "ident option \<Rightarrow> ident option \<Rightarrow> database \<Rightarrow> unit res" where
  "check_scope cid hid db =
     (if opt_truthy cid = opt_truthy hid then Inl invalid
      else case cid of
        Some c \<Rightarrow> (case tget Cluster_id (db_clusters db) c of None \<Rightarrow> Inl not_found | Some _ \<Rightarrow> Inr ())
      | None \<Rightarrow>
          (case Option.bind hid (tget Host_id (db_hosts db)) of
             None \<Rightarrow> Inl not_found
           | Some h \<Rightarrow> if Host_cluster_id h \<noteq> None then Inl invalid else Inr ()))"

definition create_folder ::
  "ident \<Rightarrow> string \<Rightarrow> ident option \<Rightarrow> ident option \<Rightarrow> database \<Rightarrow> (folder \<times> database) res"
where
  "create_folder nid nm cid hid db =
     sbind (check_scope cid hid db) (\<lambda>_.
       let f = \<lparr>Folder_id = nid, Folder_cluster_id = cid, Folder_host_id = hid, Folder_name = py_strip nm\<rparr>
       in Inr (f, db\<lparr>db_folders := db_folders db @ [f]\<rparr>))"

definition rename_folder :: "folder \<Rightarrow> string \<Rightarrow> database \<Rightarrow> folder \<times> database" where
  "rename_folder f nm db =
     (let upd = (\<lambda>r. r\<lparr>Folder_name := py_strip nm\<rparr>)
      in (upd f, db\<lparr>db_folders := tupd Folder_id (Folder_id f) upd (db_folders db)\<rparr>))"

definition delete_folder :: "folder \<Rightarrow> database \<Rightarrow> nat \<times> database" where
  "delete_folder f db =
     (let inside = (\<lambda>v. Vm_folder_id v = Some (Folder_id f));
          db1 = db\<lparr>db_vms := tupd_where inside (\<lambda>v. v\<lparr>Vm_folder_id := None\<rparr>) (db_vms db)\<rparr>
      in (length (filter inside (db_vms db)), drop_folders (\<lambda>r. Folder_id r = Folder_id f) db1))"

definition move_vm_to_folder :: "vm \<Rightarrow> ident option \<Rightarrow> database \<Rightarrow> (vm \<times> database) res" where
  "move_vm_to_folder v fid db =
     (let put = (\<lambda>x. Inr (v\<lparr>Vm_folder_id := x\<rparr>,
                  db\<lparr>db_vms := tupd Vm_id (Vm_id v) (\<lambda>r. r\<lparr>Vm_folder_id := x\<rparr>) (db_vms db)\<rparr>)) in
      case fid of None \<Rightarrow> put None
      | Some i \<Rightarrow>
        (case tget Folder_id (db_folders db) i of None \<Rightarrow> Inl not_found
         | Some f \<Rightarrow>
           (case tget Host_id (db_hosts db) (Vm_host_id v) of None \<Rightarrow> Inl AssertionError
            | Some h \<Rightarrow>
              if Folder_cluster_id f \<noteq> None then
                (if Host_cluster_id h \<noteq> Folder_cluster_id f then Inl invalid else put (Some (Folder_id f)))
              else if Host_cluster_id h \<noteq> None \<or> Folder_host_id f \<noteq> Some (Host_id h) then Inl invalid
              else put (Some (Folder_id f)))))"

section \<open>Routes\<close>

definition cluster_counts :: "database \<Rightarrow> ident \<Rightarrow> nat \<times> nat" where
  "cluster_counts db cid =
     (let hs = remdups (cluster_host_ids db cid) in
      (length hs, length (remdups (map Vm_id (filter (\<lambda>v. Vm_host_id v \<in> set hs) (db_vms db))))))"

definition list_clusters :: "database \<Rightarrow> visible_scope \<Rightarrow> (cluster \<times> nat \<times> nat) list" where
  "list_clusters db sc =
     map (\<lambda>c. (c, cluster_counts db (Cluster_id c)))
       (filter (\<lambda>c. sees_cluster sc (Some (Cluster_id c))) (sort_key Cluster_name (db_clusters db)))"

definition add_cluster ::
  "ident \<Rightarrow> instant \<Rightarrow> ident \<Rightarrow> visible_scope \<Rightarrow> user \<Rightarrow> string \<Rightarrow> string \<Rightarrow> database \<Rightarrow> (cluster \<times> database) res"
where
  "add_cluster eid now nid sc u nm hv db =
     (if \<not> Scope_all sc then Inl forbidden
      else let (c, db1) = create_cluster nid nm hv db in
        sbind (audited eid now u ''cluster.create'' (ClusterTarget c)
                (Some [(''hypervisor'', JStr (Cluster_hypervisor c))]) db1) (\<lambda>db2. Inr (c, db2)))"

definition get_cluster :: "database \<Rightarrow> visible_scope \<Rightarrow> ident \<Rightarrow> (cluster \<times> nat \<times> nat) res" where
  "get_cluster db sc cid =
     sbind (get_visible Cluster_id (\<lambda>sc c. sees_cluster sc (Some (Cluster_id c))) (db_clusters db) sc cid)
       (\<lambda>c. Inr (c, cluster_counts db (Cluster_id c)))"

definition admin_cluster :: "database \<Rightarrow> visible_scope \<Rightarrow> ident \<Rightarrow> cluster res" where
  "admin_cluster db sc cid =
     (if \<not> Scope_all sc then Inl forbidden
      else case tget Cluster_id (db_clusters db) cid of None \<Rightarrow> Inl not_found | Some c \<Rightarrow> Inr c)"

definition edit_cluster ::
  "ident \<Rightarrow> instant \<Rightarrow> visible_scope \<Rightarrow> user \<Rightarrow> ident \<Rightarrow> string \<Rightarrow> database \<Rightarrow> (cluster \<times> database) res"
where
  "edit_cluster eid now sc u cid nm db =
     sbind (admin_cluster db sc cid) (\<lambda>c.
       let (c', db1) = rename_cluster c nm db in
       sbind (audited_diff eid now u ''cluster.rename'' (ClusterTarget c')
               (changes [(''name'', JStr (Cluster_name c))] [(''name'', JStr (Cluster_name c'))]) db1)
         (\<lambda>db2. Inr (c', db2)))"

definition remove_cluster ::
  "ident \<Rightarrow> instant \<Rightarrow> visible_scope \<Rightarrow> user \<Rightarrow> ident \<Rightarrow> database \<Rightarrow> database res"
where
  "remove_cluster eid now sc u cid db =
     sbind (admin_cluster db sc cid) (\<lambda>c.
     sbind (audited eid now u ''cluster.delete'' (ClusterTarget c) None db) (delete_cluster c))"

definition list_folders :: "database \<Rightarrow> visible_scope \<Rightarrow> ident option \<Rightarrow> ident option \<Rightarrow> folder list" where
  "list_folders db sc hid cid =
     filter (folder_visible sc) (sort_key Folder_name (filter (\<lambda>f.
       (hid \<noteq> None \<longrightarrow> Folder_host_id f = hid) \<and> (cid \<noteq> None \<longrightarrow> Folder_cluster_id f = cid)) (db_folders db)))"

text \<open>The scope test of the two create routes (folders, VLANs).\<close>

definition may_create_in :: "visible_scope \<Rightarrow> ident option \<Rightarrow> ident option \<Rightarrow> bool" where
  "may_create_in sc cid hid \<longleftrightarrow> Scope_all sc \<or> (opt_truthy cid \<and> sees_cluster sc cid)
     \<or> (opt_truthy hid \<and> sees_host sc (or_empty hid))"

definition add_folder ::
  "ident \<Rightarrow> instant \<Rightarrow> ident \<Rightarrow> visible_scope \<Rightarrow> user \<Rightarrow> string \<Rightarrow> ident option \<Rightarrow> ident option \<Rightarrow> database
    \<Rightarrow> (folder \<times> database) res"
where
  "add_folder eid now nid sc u nm cid hid db =
     (if opt_truthy cid = opt_truthy hid then Inl validation_error
      else if \<not> may_create_in sc cid hid then Inl forbidden
      else sbind (create_folder nid nm cid hid db) (\<lambda>(f, db1).
           sbind (audited eid now u ''folder.create'' (FolderTarget f) None db1) (\<lambda>db2. Inr (f, db2))))"

definition patch_folder ::
  "ident \<Rightarrow> instant \<Rightarrow> visible_scope \<Rightarrow> user \<Rightarrow> ident \<Rightarrow> string \<Rightarrow> database \<Rightarrow> (folder \<times> database) res"
where
  "patch_folder eid now sc u fid nm db =
     sbind (get_visible_folder db sc fid) (\<lambda>f.
       let (f', db1) = rename_folder f nm db in
       sbind (audited_diff eid now u ''folder.rename'' (FolderTarget f')
               (changes [(''name'', JStr (Folder_name f))] [(''name'', JStr (Folder_name f'))]) db1)
         (\<lambda>db2. Inr (f', db2)))"

text \<open>The event is recorded first and gets the number of detached VMs afterwards.\<close>

definition remove_folder ::
  "ident \<Rightarrow> instant \<Rightarrow> visible_scope \<Rightarrow> user \<Rightarrow> ident \<Rightarrow> database \<Rightarrow> database res"
where
  "remove_folder eid now sc u fid db =
     sbind (get_visible_folder db sc fid) (\<lambda>f.
     sbind (record_event eid now (Some u) ''folder.delete'' (Some (FolderTarget f)) None None None db) (\<lambda>(ev, db1).
       let (n, db2) = delete_folder f db1 in
       Inr (db2\<lparr>db_audit_events := tupd AuditEvent_id (AuditEvent_id ev)
              (\<lambda>e. e\<lparr>AuditEvent_details := Some (JObj [(''vmsDetached'', JInt (int n))])\<rparr>) (db_audit_events db2)\<rparr>)))"

section \<open>The placement invariant\<close>

text \<open>A folder fits a host when it belongs to the host's cluster, or to the host itself and the host is
  standalone. A VM is well placed when its denormalised cluster is that of its host and its folder,
  if any, exists and fits the host.\<close>

definition folder_fits :: "host \<Rightarrow> folder \<Rightarrow> bool" where
  "folder_fits h f \<longleftrightarrow> (if Folder_cluster_id f \<noteq> None then Host_cluster_id h = Folder_cluster_id f
     else Host_cluster_id h = None \<and> Folder_host_id f = Some (Host_id h))"

definition well_placed :: "host list \<Rightarrow> folder list \<Rightarrow> vm \<Rightarrow> bool" where
  "well_placed hs fs v \<longleftrightarrow> (\<exists>h \<in> set hs. Host_id h = Vm_host_id v \<and> Vm_cluster_id v = Host_cluster_id h
     \<and> (Vm_folder_id v = None \<or> (\<exists>f \<in> set fs. Vm_folder_id v = Some (Folder_id f) \<and> folder_fits h f)))"

text \<open>The scopes of the folders: one each, and a host scope only on a standalone host.\<close>

definition folder_scoped :: "host list \<Rightarrow> folder \<Rightarrow> bool" where
  "folder_scoped hs f \<longleftrightarrow> (Folder_cluster_id f = None) \<noteq> (Folder_host_id f = None)
     \<and> (\<forall>h \<in> set hs. Folder_host_id f = Some (Host_id h) \<longrightarrow> Host_cluster_id h = None)"

definition placement_ok :: "database \<Rightarrow> bool" where
  "placement_ok db \<longleftrightarrow> pk_unique Host_id (db_hosts db) \<and> pk_unique Folder_id (db_folders db)
     \<and> (\<forall>v \<in> set (db_vms db). well_placed (db_hosts db) (db_folders db) v)
     \<and> (\<forall>f \<in> set (db_folders db). folder_scoped (db_hosts db) f)"

text \<open>One operation on the tree of clusters, hosts and folders (service calls, on loaded rows).\<close>

inductive org_step :: "database \<Rightarrow> database \<Rightarrow> bool" where
  org_create_cluster: "org_step db (snd (create_cluster nid nm hv db))"
| org_rename_cluster: "org_step db (snd (rename_cluster c nm db))"
| org_delete_cluster: "delete_cluster c db = Inr db' \<Longrightarrow> org_step db db'"
| org_move_host: "h \<in> set (db_hosts db) \<Longrightarrow> move_host h cid db = Inr (h', db') \<Longrightarrow> org_step db db'"
| org_delete_host: "org_step db (delete_host_row h db)"
| org_create_folder: "nid \<notin> Folder_id ` set (db_folders db) \<Longrightarrow> \<not> (cid = Some [] \<or> hid = Some []) \<Longrightarrow>
     create_folder nid nm cid hid db = Inr (f, db') \<Longrightarrow> org_step db db'"
| org_rename_folder: "org_step db (snd (rename_folder f nm db))"
| org_delete_folder: "org_step db (snd (delete_folder f db))"
| org_move_vm: "v \<in> set (db_vms db) \<Longrightarrow> pk_unique Vm_id (db_vms db) \<Longrightarrow>
     move_vm_to_folder v fid db = Inr (v', db') \<Longrightarrow> org_step db db'"

section \<open>Lemmas\<close>

lemma well_placedI:
  "h \<in> set hs \<Longrightarrow> Host_id h = Vm_host_id v \<Longrightarrow> Vm_cluster_id v = Host_cluster_id h \<Longrightarrow> Vm_folder_id v = None
    \<Longrightarrow> well_placed hs fs v"
  by (auto simp: well_placed_def)

lemma well_placed_unfolder: "well_placed hs fs v \<Longrightarrow> well_placed hs fs' (v\<lparr>Vm_folder_id := None\<rparr>)"
  by (auto simp: well_placed_def)

text \<open>Dropping folders: a VM keeps its folder only if the folder is kept.\<close>

lemma well_placed_drop_folders:
  assumes "well_placed hs fs v"
  shows "well_placed hs (filter (\<lambda>f. \<not> P f) fs)
    (if Vm_folder_id v \<in> Some ` Folder_id ` set (filter P fs) then v\<lparr>Vm_folder_id := None\<rparr> else v)"
proof (cases "Vm_folder_id v \<in> Some ` Folder_id ` set (filter P fs)")
  case True
  then show ?thesis using well_placed_unfolder [OF assms] by simp
next
  case False
  obtain h where h: "h \<in> set hs" "Host_id h = Vm_host_id v" "Vm_cluster_id v = Host_cluster_id h"
    and f: "Vm_folder_id v = None \<or> (\<exists>f \<in> set fs. Vm_folder_id v = Some (Folder_id f) \<and> folder_fits h f)"
    using assms by (auto simp: well_placed_def)
  from f False have "Vm_folder_id v = None
      \<or> (\<exists>f \<in> set (filter (\<lambda>f. \<not> P f) fs). Vm_folder_id v = Some (Folder_id f) \<and> folder_fits h f)"
    by auto
  with h False show ?thesis unfolding well_placed_def by auto
qed

lemma set_drop_folders_vms:
  "set (db_vms (drop_folders P db)) = (\<lambda>v. if Vm_folder_id v \<in> Some ` Folder_id ` set (filter P (db_folders db))
     then v\<lparr>Vm_folder_id := None\<rparr> else v) ` set (db_vms db)"
  unfolding drop_folders_def Let_def by (simp add: set_tupd_where image_image del: set_filter)

lemma drop_folders_tables [simp]:
  "db_hosts (drop_folders P db) = db_hosts db" "db_folders (drop_folders P db) = filter (\<lambda>f. \<not> P f) (db_folders db)"
  "db_clusters (drop_folders P db) = db_clusters db"
  by (simp_all add: drop_folders_def Let_def)

lemma drop_folders_placement:
  assumes "placement_ok db" shows "placement_ok (drop_folders P db)"
proof -
  have "well_placed (db_hosts db) (filter (\<lambda>f. \<not> P f) (db_folders db)) v" if "v \<in> set (db_vms (drop_folders P db))" for v
  proof -
    obtain w where
      "v = (if Vm_folder_id w \<in> Some ` Folder_id ` set (filter P (db_folders db)) then w\<lparr>Vm_folder_id := None\<rparr> else w)"
      "w \<in> set (db_vms db)"
      using \<open>v \<in> set (db_vms (drop_folders P db))\<close> unfolding set_drop_folders_vms by (rule imageE)
    then show ?thesis using assms well_placed_drop_folders by (simp add: placement_ok_def del: set_filter)
  qed
  then show ?thesis using assms by (simp add: placement_ok_def)
qed

lemma drop_vms_placement:
  assumes "placement_ok db" shows "placement_ok (drop_vms P db)"
  using assms by (auto simp: placement_ok_def drop_vms_def Let_def)

lemma create_folder_placement:
  assumes "create_folder nid nm cid hid db = Inr (f, db')" and "placement_ok db"
    and "nid \<notin> Folder_id ` set (db_folders db)" and "\<not> (cid = Some [] \<or> hid = Some [])"
  shows "placement_ok db'"
proof -
  have f: "Folder_id f = nid" "Folder_cluster_id f = cid" "Folder_host_id f = hid"
    and db': "db' = db\<lparr>db_folders := db_folders db @ [f]\<rparr>" and sc: "check_scope cid hid db = Inr ()"
    using assms(1) by (auto simp: create_folder_def sbind_eq_Inr Let_def)
  have uniq: "pk_unique Host_id (db_hosts db)" using assms(2) by (simp add: placement_ok_def)
  have "folder_scoped (db_hosts db) f"
    using sc assms(4) tget_unique [OF uniq] pk_uniqueD [OF uniq]
    by (cases cid; cases hid) (force simp: check_scope_def folder_scoped_def f split: if_splits option.splits)+
  moreover have "well_placed (db_hosts db) (db_folders db @ [f]) v" if "v \<in> set (db_vms db)" for v
    using that assms(2) by (fastforce simp: placement_ok_def well_placed_def)
  ultimately show ?thesis using assms(2,3) f(1) by (auto simp: placement_ok_def db')
qed

lemma folder_fits_name [simp]: "folder_fits h (f\<lparr>Folder_name := n\<rparr>) = folder_fits h f"
  by (simp add: folder_fits_def)

lemma rename_folder_placement:
  assumes "placement_ok db" shows "placement_ok (snd (rename_folder f nm db))"
proof -
  let ?upd = "\<lambda>r. if Folder_id r = Folder_id f then r\<lparr>Folder_name := py_strip nm\<rparr> else r"
  have fits: "folder_fits h (?upd r) = folder_fits h r" and fid: "Folder_id (?upd r) = Folder_id r" for h r by simp_all
  have "well_placed (db_hosts db) (map ?upd (db_folders db)) v = well_placed (db_hosts db) (db_folders db) v" for v
    by (simp only: well_placed_def set_map bex_simps fits fid)
  moreover have "\<forall>r \<in> set (map ?upd (db_folders db)). folder_scoped (db_hosts db) r"
    using assms by (auto simp: placement_ok_def folder_scoped_def)
  moreover have "pk_unique Folder_id (map ?upd (db_folders db)) = pk_unique Folder_id (db_folders db)"
    by (simp only: pk_unique_def map_map comp_def fid)
  ultimately show ?thesis using assms by (simp add: placement_ok_def rename_folder_def Let_def tupd_def)
qed

lemma delete_folder_placement:
  assumes "placement_ok db" shows "placement_ok (snd (delete_folder f db))"
proof -
  have "placement_ok (db\<lparr>db_vms := tupd_where P (\<lambda>v. v\<lparr>Vm_folder_id := None\<rparr>) (db_vms db)\<rparr>)" for P
    using assms well_placed_unfolder by (auto simp: placement_ok_def set_tupd_where)
  then show ?thesis by (simp add: delete_folder_def Let_def drop_folders_placement)
qed

lemma well_placed_host:
  assumes "well_placed hs fs v" and "pk_unique Host_id hs" and "h \<in> set hs" and "Host_id h = Vm_host_id v"
  shows "Vm_cluster_id v = Host_cluster_id h"
    and "Vm_folder_id v = None \<or> (\<exists>f \<in> set fs. Vm_folder_id v = Some (Folder_id f) \<and> folder_fits h f)"
proof -
  obtain h' where h': "h' \<in> set hs" "Host_id h' = Vm_host_id v" "Vm_cluster_id v = Host_cluster_id h'"
    "Vm_folder_id v = None \<or> (\<exists>f \<in> set fs. Vm_folder_id v = Some (Folder_id f) \<and> folder_fits h' f)"
    using assms(1) unfolding well_placed_def by blast
  have "h' = h" using pk_uniqueD [OF assms(2) h'(1) assms(3)] h'(2) assms(4) by simp
  with h' show "Vm_cluster_id v = Host_cluster_id h"
    "Vm_folder_id v = None \<or> (\<exists>f \<in> set fs. Vm_folder_id v = Some (Folder_id f) \<and> folder_fits h f)" by simp_all
qed

text \<open>Reassigning a host: the VMs of other hosts keep their host row.\<close>

lemma well_placed_other_host:
  assumes "well_placed hs fs v" and "Vm_host_id v \<noteq> i"
  shows "well_placed (tupd Host_id i g hs) fs v"
proof -
  obtain h where h: "h \<in> set hs" "Host_id h = Vm_host_id v" "Vm_cluster_id v = Host_cluster_id h"
    "Vm_folder_id v = None \<or> (\<exists>f \<in> set fs. Vm_folder_id v = Some (Folder_id f) \<and> folder_fits h f)"
    using assms(1) unfolding well_placed_def by blast
  have "h \<in> set (tupd Host_id i g hs)" using h(1,2) assms(2) by (auto simp: tupd_def)
  with h show ?thesis unfolding well_placed_def by blast
qed

lemma move_host_placement:
  assumes "move_host h cid db = Inr (h', db')" and ok: "placement_ok db" and "h \<in> set (db_hosts db)"
  shows "placement_ok db'"
proof (cases "Host_cluster_id h = cid")
  case True
  then show ?thesis using assms(1,2) by (auto simp: move_host_def Let_def split: if_splits)
next
  case False
  let ?g = "\<lambda>r. r\<lparr>Host_cluster_id := cid\<rparr>"
  let ?hs = "tupd Host_id (Host_id h) ?g (db_hosts db)"
  let ?vms = "tupd_where (\<lambda>v. Vm_host_id v = Host_id h) (\<lambda>v. v\<lparr>Vm_cluster_id := cid, Vm_folder_id := None\<rparr>) (db_vms db)"
  let ?P = "\<lambda>f. Folder_host_id f = Some (Host_id h)"
  let ?db1 = "db\<lparr>db_hosts := ?hs, db_vms := ?vms\<rparr>"
  have db': "db' = drop_folders ?P ?db1"
    using assms(1) False by (auto simp: move_host_def Let_def split: if_splits)
  have vms: "well_placed ?hs (db_folders db) v" if v: "v \<in> set ?vms" for v
  proof -
    obtain w where w: "w \<in> set (db_vms db)" "v = (if Vm_host_id w = Host_id h
        then w\<lparr>Vm_cluster_id := cid, Vm_folder_id := None\<rparr> else w)"
      using v unfolding tupd_where_def set_map by blast
    have wp: "well_placed (db_hosts db) (db_folders db) w" using ok w(1) by (simp add: placement_ok_def)
    show ?thesis
    proof (cases "Vm_host_id w = Host_id h")
      case True
      have "?g h \<in> set ?hs" using assms(3) by (auto simp: tupd_def image_iff intro!: bexI [of _ h])
      then show ?thesis using True w(2) by (intro well_placedI [of "?g h"]) simp_all
    next
      case False
      then show ?thesis using well_placed_other_host [OF wp] w(2) by simp
    qed
  qed
  have uniq: "pk_unique Host_id ?hs" using ok by (simp add: placement_ok_def)
  have drop: "well_placed ?hs (filter (\<lambda>f. \<not> ?P f) (db_folders db)) v" if "v \<in> set (db_vms (drop_folders ?P ?db1))" for v
  proof -
    obtain w where "v = (if Vm_folder_id w \<in> Some ` Folder_id ` set (filter ?P (db_folders ?db1))
        then w\<lparr>Vm_folder_id := None\<rparr> else w)" "w \<in> set (db_vms ?db1)"
      using \<open>v \<in> set (db_vms (drop_folders ?P ?db1))\<close> unfolding set_drop_folders_vms by (rule imageE)
    then show ?thesis using well_placed_drop_folders [OF vms [of w]] by (simp del: set_filter)
  qed
  have "folder_scoped ?hs f" if f: "f \<in> set (db_folders db)" "\<not> ?P f" for f
  proof -
    have "folder_scoped (db_hosts db) f" using f(1) ok by (simp add: placement_ok_def)
    with f(2) show ?thesis by (auto simp: folder_scoped_def tupd_def)
  qed
  with uniq drop ok show ?thesis by (simp add: placement_ok_def db')
qed

lemma delete_cluster_placement:
  assumes "delete_cluster c db = Inr db'" and ok: "placement_ok db"
  shows "placement_ok db'"
proof -
  let ?c = "Cluster_id c"
  let ?P = "\<lambda>f. Folder_cluster_id f = Some ?c"
  have none: "Host_cluster_id h \<noteq> Some ?c" if "h \<in> set (db_hosts db)" for h
    using assms(1) that by (auto simp: delete_cluster_def filter_empty_conv split: if_splits)
  let ?db1 = "drop_folders ?P db"
  have ok1: "placement_ok ?db1" using ok by (rule drop_folders_placement)
  have hosts: "tupd_where (\<lambda>h. Host_cluster_id h = Some ?c) g (db_hosts db) = db_hosts db" for g
    unfolding tupd_where_def by (rule map_idI) (simp add: none)
  have vms: "tupd_where (\<lambda>v. Vm_cluster_id v = Some ?c) g (db_vms ?db1) = db_vms ?db1" for g
    unfolding tupd_where_def
  proof (rule map_idI)
    fix v assume "v \<in> set (db_vms ?db1)"
    then have "well_placed (db_hosts db) (db_folders ?db1) v" using ok1 by (simp add: placement_ok_def)
    then obtain h where "h \<in> set (db_hosts db)" "Vm_cluster_id v = Host_cluster_id h" unfolding well_placed_def by blast
    then have "Vm_cluster_id v \<noteq> Some ?c" using none by simp
    then show "(if Vm_cluster_id v = Some ?c then g v else v) = v" by simp
  qed
  have "db' = drop_cluster ?c db" using assms(1) by (simp add: delete_cluster_def split: if_splits)
  then show ?thesis using ok1 by (simp add: drop_cluster_def Let_def hosts vms placement_ok_def)
qed

lemma delete_host_placement:
  assumes ok: "placement_ok db" shows "placement_ok (delete_host_row h db)"
proof -
  let ?h = "Host_id h"
  let ?db1 = "drop_folders (\<lambda>f. Folder_host_id f = Some ?h) (drop_vms (\<lambda>v. Vm_host_id v = ?h) db)"
  have ok1: "placement_ok ?db1" using ok by (intro drop_folders_placement drop_vms_placement)
  have host: "Vm_host_id v \<noteq> ?h" if "v \<in> set (db_vms ?db1)" for v
    using that unfolding set_drop_folders_vms by (auto simp: drop_vms_def Let_def split: if_splits)
  have "well_placed (tdel Host_id ?h (db_hosts ?db1)) (db_folders ?db1) v" if v: "v \<in> set (db_vms ?db1)" for v
  proof -
    have "well_placed (db_hosts ?db1) (db_folders ?db1) v" using ok1 v by (simp add: placement_ok_def)
    with host [OF v] show ?thesis unfolding well_placed_def set_tdel by fastforce
  qed
  moreover have "folder_scoped (tdel Host_id ?h (db_hosts ?db1)) f" if "f \<in> set (db_folders ?db1)" for f
    using ok1 that by (simp add: placement_ok_def folder_scoped_def)
  moreover have "pk_unique Host_id (tdel Host_id ?h (db_hosts ?db1))" using ok1 by (simp add: placement_ok_def)
  ultimately show ?thesis using ok1
    by (simp add: delete_host_row_def drop_host_def Let_def placement_ok_def)
qed

lemma move_vm_cases:
  assumes "move_vm_to_folder v fid db = Inr (v', db')"
  shows "db' = db\<lparr>db_vms := tupd Vm_id (Vm_id v) (\<lambda>r. r\<lparr>Vm_folder_id := fid\<rparr>) (db_vms db)\<rparr>"
    and "fid = None \<or> (\<exists>f h. f \<in> set (db_folders db) \<and> fid = Some (Folder_id f)
        \<and> tget Host_id (db_hosts db) (Vm_host_id v) = Some h \<and> folder_fits h f)"
proof -
  have "db' = db\<lparr>db_vms := tupd Vm_id (Vm_id v) (\<lambda>r. r\<lparr>Vm_folder_id := fid\<rparr>) (db_vms db)\<rparr>
    \<and> (fid = None \<or> (\<exists>f h. f \<in> set (db_folders db) \<and> fid = Some (Folder_id f)
        \<and> tget Host_id (db_hosts db) (Vm_host_id v) = Some h \<and> folder_fits h f))"
  proof (cases fid)
    case None
    then show ?thesis using assms by (simp add: move_vm_to_folder_def)
  next
    case (Some i)
    then obtain f h where f: "tget Folder_id (db_folders db) i = Some f"
      and h: "tget Host_id (db_hosts db) (Vm_host_id v) = Some h"
      using assms by (auto simp: move_vm_to_folder_def split: option.splits)
    have "folder_fits h f"
      and "db' = db\<lparr>db_vms := tupd Vm_id (Vm_id v) (\<lambda>r. r\<lparr>Vm_folder_id := Some (Folder_id f)\<rparr>) (db_vms db)\<rparr>"
      using assms by (auto simp: move_vm_to_folder_def Some f h folder_fits_def split: if_splits)
    then show ?thesis using Some h tget_Some [OF f] by auto
  qed
  then show "db' = db\<lparr>db_vms := tupd Vm_id (Vm_id v) (\<lambda>r. r\<lparr>Vm_folder_id := fid\<rparr>) (db_vms db)\<rparr>"
    "fid = None \<or> (\<exists>f h. f \<in> set (db_folders db) \<and> fid = Some (Folder_id f)
        \<and> tget Host_id (db_hosts db) (Vm_host_id v) = Some h \<and> folder_fits h f)" by blast+
qed

lemma move_vm_placement:
  assumes "move_vm_to_folder v fid db = Inr (v', db')" and ok: "placement_ok db"
    and v: "v \<in> set (db_vms db)" and uniq: "pk_unique Vm_id (db_vms db)"
  shows "placement_ok db'"
proof -
  note db' = move_vm_cases(1) [OF assms(1)] and x = move_vm_cases(2) [OF assms(1)]
  have "well_placed (db_hosts db) (db_folders db) w" if w: "w \<in> set (db_vms db')" for w
  proof -
    obtain w0 where w0: "w0 \<in> set (db_vms db)" "w = (if Vm_id w0 = Vm_id v then w0\<lparr>Vm_folder_id := fid\<rparr> else w0)"
      using w unfolding db' by (auto simp: tupd_def)
    have wp: "well_placed (db_hosts db) (db_folders db) w0" using ok w0(1) by (simp add: placement_ok_def)
    show ?thesis
    proof (cases "Vm_id w0 = Vm_id v")
      case True
      then have [simp]: "w0 = v" using pk_uniqueD [OF uniq w0(1) v] by simp
      from wp obtain h where h: "h \<in> set (db_hosts db)" "Host_id h = Vm_host_id v" "Vm_cluster_id v = Host_cluster_id h"
        by (auto simp: well_placed_def)
      have "tget Host_id (db_hosts db) (Vm_host_id v) = Some h"
        using h ok by (simp add: tget_unique placement_ok_def)
      with x h show ?thesis unfolding well_placed_def w0(2) by auto
    qed (use wp w0(2) in simp)
  qed
  then show ?thesis using ok by (simp add: placement_ok_def db')
qed

lemma placement_step:
  assumes "org_step db db'" and "placement_ok db" shows "placement_ok db'"
  using assms
proof cases
  case org_create_cluster
  then show ?thesis using assms(2) by (simp add: create_cluster_def placement_ok_def Let_def)
next
  case org_rename_cluster
  then show ?thesis using assms(2) by (simp add: rename_cluster_def placement_ok_def Let_def)
qed (use assms(2) in \<open>auto intro: delete_cluster_placement move_host_placement delete_host_placement
       create_folder_placement rename_folder_placement delete_folder_placement move_vm_placement\<close>)

section \<open>Properties\<close>

text \<open>C39: Whatever sequence of cluster, host, folder and VM-placement operations runs, every VM's
  denormalised cluster stays the cluster of its host, and its folder stays one of that cluster, or of
  its standalone host: no operation leaves a VM in a folder of another cluster or host.\<close>

theorem placement_reachable:
  assumes "org_step\<^sup>*\<^sup>* db db'" and "placement_ok db" and "v \<in> set (db_vms db')"
  shows "well_placed (db_hosts db') (db_folders db') v"
proof -
  from assms(1,2) have "placement_ok db'" by (induction) (auto intro: placement_step)
  with assms(3) show ?thesis by (simp add: placement_ok_def)
qed

definition placed_db :: database where
  "placed_db = empty_db\<lparr>db_clusters := [sample_cluster], db_hosts := [sample_host ''h1'' None],
     db_folders := [\<lparr>Folder_id = ''f1'', Folder_cluster_id = None, Folder_host_id = Some ''h1'', Folder_name = ''prod''\<rparr>],
     db_vms := [(sample_vm ''v1'' ''h1'')\<lparr>Vm_folder_id := Some ''f1''\<rparr>]\<rparr>"

lemma placed_db_ok: "placement_ok placed_db"
  by (simp add: placed_db_def empty_db_def placement_ok_def pk_unique_def well_placed_def folder_fits_def
      folder_scoped_def sample_host_def sample_vm_def)

theorem placement_reachable_witness:
  "\<exists>h db'. move_host (sample_host ''h1'' None) (Some ''c1'') placed_db = Inr (h, db') \<and> db_folders db' = []
     \<and> (\<forall>v \<in> set (db_vms db'). Vm_cluster_id v = Some ''c1'' \<and> Vm_folder_id v = None)
     \<and> list_all (well_placed (db_hosts db') (db_folders db')) (db_vms db')"
proof -
  obtain h db' where r: "move_host (sample_host ''h1'' None) (Some ''c1'') placed_db = Inr (h, db')"
    and f: "db_folders db' = []" and v: "\<forall>v \<in> set (db_vms db'). Vm_cluster_id v = Some ''c1'' \<and> Vm_folder_id v = None"
    by (simp add: move_host_def placed_db_def empty_db_def sample_cluster_def sample_host_def sample_vm_def
        tupd_def tupd_where_def vm_uuids_ok_def vm_uuid_key_def List.map_filter_def drop_folders_def Let_def)
  have "org_step\<^sup>*\<^sup>* placed_db db'"
    by (rule r_into_rtranclp, rule org_move_host [OF _ r]) (simp add: placed_db_def empty_db_def)
  from placement_reachable [OF this placed_db_ok] r f v show ?thesis by (auto simp: list_all_iff)
qed

text \<open>Moving a standalone host into a cluster fails with an integrity error, which reaches the client
  as an internal error, when the cluster already has a VM with the GUID of one of the host's VMs: the
  partial unique index is per cluster, and nothing checks it before the update.\<close>

theorem move_host_guid_collision:
  "\<exists>h db. placement_ok db \<and> vm_uuids_ok (db_vms db) \<and> h \<in> set (db_hosts db)
     \<and> move_host h (Some ''c1'') db = Inl IntegrityError"
proof -
  let ?h1 = "sample_host ''h1'' None" and ?h2 = "sample_host ''h2'' (Some ''c1'')"
  let ?v1 = "sample_vm ''v1'' ''h1''"
  let ?v2 = "(sample_vm ''v1'' ''h2'')\<lparr>Vm_id := ''v2'', Vm_cluster_id := Some ''c1''\<rparr>"
  let ?db = "empty_db\<lparr>db_clusters := [sample_cluster], db_hosts := [?h1, ?h2], db_vms := [?v1, ?v2]\<rparr>"
  have "placement_ok ?db"
    by (simp add: empty_db_def placement_ok_def pk_unique_def well_placed_def sample_host_def sample_vm_def)
  moreover have "vm_uuids_ok (db_vms ?db)"
    by (simp add: vm_uuids_ok_def vm_uuid_key_def List.map_filter_def sample_vm_def)
  moreover have "move_host ?h1 (Some ''c1'') ?db = Inl IntegrityError"
    by (simp add: move_host_def empty_db_def sample_cluster_def sample_host_def sample_vm_def tupd_where_def
        vm_uuids_ok_def vm_uuid_key_def List.map_filter_def)
  ultimately show ?thesis by (intro exI [of _ ?h1] exI [of _ ?db]) simp
qed

end
