(* ===== verification/Networking.thy ===== *)
theory Networking
  imports Organization
begin

text \<open>
  \<^verbatim>\<open>app/services/networking.py\<close> and \<^verbatim>\<open>app/api/routes/vlans.py\<close>: the VLANs of a cluster or of a
  standalone host, at most one of a tag and at most one default in each scope.
\<close>

section \<open>Definitions\<close>

definition list_vlans :: "database \<Rightarrow> ident option \<Rightarrow> ident option \<Rightarrow> vlan list res" where
  "list_vlans db hid cid =
     (let sorted = (\<lambda>P. sort_key Vlan_vlan_id (filter P (db_vlans db))) in
      case hid of
        Some i \<Rightarrow>
          (case tget Host_id (db_hosts db) i of None \<Rightarrow> Inl not_found
           | Some h \<Rightarrow>
             if Host_cluster_id h \<noteq> None
             then Inr (sorted (\<lambda>v. Vlan_host_id v = hid \<or> Vlan_cluster_id v = Host_cluster_id h))
             else Inr (sorted (\<lambda>v. Vlan_host_id v = hid)))
      | None \<Rightarrow> if cid \<noteq> None then Inr (sorted (\<lambda>v. Vlan_cluster_id v = cid)) else Inr (sorted (\<lambda>_. True)))"

text \<open>\<^verbatim>\<open>Vlan.cluster_id == cluster_id if cluster_id else Vlan.host_id == host_id\<close>.\<close>

definition in_vlan_scope :: "ident option \<times> ident option \<Rightarrow> vlan \<Rightarrow> bool" where
  "in_vlan_scope sc v = (if opt_truthy (fst sc) then Vlan_cluster_id v = fst sc
     else snd sc \<noteq> None \<and> Vlan_host_id v = snd sc)"

definition put_default :: "bool \<Rightarrow> vlan \<Rightarrow> vlan" where
  "put_default b v = v\<lparr>Vlan_is_default := b\<rparr>"

definition clear_default :: "ident option \<Rightarrow> ident option \<Rightarrow> vlan list \<Rightarrow> vlan list" where
  "clear_default cid hid vs = tupd_where (in_vlan_scope (cid, hid)) (put_default False) vs"

definition create_vlan ::
  "ident \<Rightarrow> string \<Rightarrow> int \<Rightarrow> string option \<Rightarrow> bool \<Rightarrow> ident option \<Rightarrow> ident option \<Rightarrow> database
    \<Rightarrow> (vlan \<times> database) res"
where
  "create_vlan nid nm tg descr dflt cid hid db =
     sbind (check_scope cid hid db) (\<lambda>_.
       if list_ex (\<lambda>v. Vlan_vlan_id v = tg \<and> in_vlan_scope (cid, hid) v) (db_vlans db) then Inl invalid
       else let vs = (if dflt then clear_default cid hid (db_vlans db) else db_vlans db);
                v = \<lparr>Vlan_id = nid, Vlan_cluster_id = cid, Vlan_host_id = hid, Vlan_name = py_strip nm,
                     Vlan_vlan_id = tg, Vlan_description = none_if_empty (py_strip (or_empty descr)),
                     Vlan_is_default = dflt\<rparr>
            in Inr (v, db\<lparr>db_vlans := vs @ [v]\<rparr>))"

definition update_vlan ::
  "vlan \<Rightarrow> string option \<Rightarrow> string option \<Rightarrow> bool option \<Rightarrow> database \<Rightarrow> vlan \<times> database"
where
  "update_vlan v nm descr dflt db =
     (let upd = (\<lambda>r. r\<lparr>
          Vlan_name := (case nm of None \<Rightarrow> Vlan_name r | Some n \<Rightarrow> py_strip n),
          Vlan_description := (case descr of None \<Rightarrow> Vlan_description r | Some d \<Rightarrow> none_if_empty (py_strip d)),
          Vlan_is_default := (case dflt of None \<Rightarrow> Vlan_is_default r | Some b \<Rightarrow> b)\<rparr>);
          vs = (if dflt = Some True then clear_default (Vlan_cluster_id v) (Vlan_host_id v) (db_vlans db)
                else db_vlans db)
      in (upd v, db\<lparr>db_vlans := tupd Vlan_id (Vlan_id v) upd vs\<rparr>))"

definition delete_vlan :: "vlan \<Rightarrow> database \<Rightarrow> database" where
  "delete_vlan v db = db\<lparr>db_vlans := tdel Vlan_id (Vlan_id v) (db_vlans db)\<rparr>"

definition resolve_host_vlan :: "database \<Rightarrow> host \<Rightarrow> int \<Rightarrow> vlan res" where
  "resolve_host_vlan db h tg =
     (case List.find (\<lambda>v. Vlan_vlan_id v = tg
          \<and> (Vlan_host_id v = Some (Host_id h)
             \<or> (Host_cluster_id h \<noteq> None \<and> Vlan_cluster_id v = Host_cluster_id h))) (db_vlans db) of
        None \<Rightarrow> Inl invalid | Some v \<Rightarrow> Inr v)"

section \<open>Routes\<close>

definition get_vlans :: "database \<Rightarrow> visible_scope \<Rightarrow> ident option \<Rightarrow> ident option \<Rightarrow> vlan list res" where
  "get_vlans db sc hid cid = sbind (list_vlans db hid cid) (\<lambda>vs. Inr (filter (vlan_visible sc) vs))"

definition vlan_fields :: "vlan \<Rightarrow> jobj" where
  "vlan_fields v = [(''name'', JStr (Vlan_name v)), (''vlanId'', JInt (Vlan_vlan_id v)),
     (''description'', opt_str (Vlan_description v)), (''isDefault'', JBool (Vlan_is_default v))]"

text \<open>The request model: a name of 1 to 255 characters, a tag in 1..4094, exactly one scope.\<close>

definition vlan_create_valid :: "string \<Rightarrow> int \<Rightarrow> ident option \<Rightarrow> ident option \<Rightarrow> bool" where
  "vlan_create_valid nm tg cid hid \<longleftrightarrow> 1 \<le> length nm \<and> length nm \<le> 255 \<and> 1 \<le> tg \<and> tg \<le> 4094
     \<and> opt_truthy cid \<noteq> opt_truthy hid"

definition add_vlan ::
  "ident \<Rightarrow> instant \<Rightarrow> ident \<Rightarrow> visible_scope \<Rightarrow> user \<Rightarrow> string \<Rightarrow> int \<Rightarrow> string option \<Rightarrow> bool
    \<Rightarrow> ident option \<Rightarrow> ident option \<Rightarrow> database \<Rightarrow> (vlan \<times> database) res"
where
  "add_vlan eid now nid sc u nm tg descr dflt cid hid db =
     (if \<not> vlan_create_valid nm tg cid hid then Inl validation_error
      else if \<not> may_create_in sc cid hid then Inl forbidden
      else sbind (create_vlan nid nm tg descr dflt cid hid db) (\<lambda>(v, db1).
           sbind (audited eid now u ''vlan.create'' (VlanTarget v) (Some (vlan_fields v)) db1) (\<lambda>db2. Inr (v, db2))))"

definition patch_vlan ::
  "ident \<Rightarrow> instant \<Rightarrow> visible_scope \<Rightarrow> user \<Rightarrow> ident \<Rightarrow> string option \<Rightarrow> string option \<Rightarrow> bool option
    \<Rightarrow> database \<Rightarrow> (vlan \<times> database) res"
where
  "patch_vlan eid now sc u vid nm descr dflt db =
     (if (case nm of None \<Rightarrow> False | Some n \<Rightarrow> n = [] \<or> 255 < length n) then Inl validation_error
      else sbind (get_visible_vlan db sc vid) (\<lambda>v.
        let (v', db1) = update_vlan v nm descr dflt db in
        sbind (audited_diff eid now u ''vlan.update'' (VlanTarget v') (changes (vlan_fields v) (vlan_fields v')) db1)
          (\<lambda>db2. Inr (v', db2))))"

definition remove_vlan ::
  "ident \<Rightarrow> instant \<Rightarrow> visible_scope \<Rightarrow> user \<Rightarrow> ident \<Rightarrow> database \<Rightarrow> database res"
where
  "remove_vlan eid now sc u vid db =
     sbind (get_visible_vlan db sc vid) (\<lambda>v.
     sbind (audited eid now u ''vlan.delete'' (VlanTarget v) (Some [(''vlanId'', JInt (Vlan_vlan_id v))]) db)
       (\<lambda>db1. Inr (delete_vlan v db1)))"

section \<open>The VLAN invariant\<close>

definition vlan_scope :: "vlan \<Rightarrow> ident option \<times> ident option" where
  "vlan_scope v = (Vlan_cluster_id v, Vlan_host_id v)"

definition vlan_key :: "vlan \<Rightarrow> (ident option \<times> ident option) \<times> int" where
  "vlan_key v = (vlan_scope v, Vlan_vlan_id v)"

text \<open>A row has one non-empty scope id and a legal tag.\<close>

definition vlan_scoped :: "vlan \<Rightarrow> bool" where
  "vlan_scoped v \<longleftrightarrow> (opt_truthy (Vlan_cluster_id v) \<and> Vlan_host_id v = None)
     \<or> (Vlan_cluster_id v = None \<and> opt_truthy (Vlan_host_id v))"

definition vlans_ok :: "vlan list \<Rightarrow> bool" where
  "vlans_ok vs \<longleftrightarrow> pk_unique Vlan_id vs \<and> pk_unique vlan_key vs
     \<and> (\<forall>v \<in> set vs. vlan_scoped v \<and> 1 \<le> Vlan_vlan_id v \<and> Vlan_vlan_id v \<le> 4094)
     \<and> one_flagged Vlan_id vlan_scope Vlan_is_default vs"

inductive vlan_step :: "database \<Rightarrow> database \<Rightarrow> bool" where
  vlan_add: "nid \<notin> Vlan_id ` set (db_vlans db) \<Longrightarrow> \<not> (cid = Some [] \<or> hid = Some []) \<Longrightarrow>
     add_vlan eid now nid sc u nm tg descr dflt cid hid db = Inr (v, db') \<Longrightarrow> vlan_step db db'"
| vlan_patch: "patch_vlan eid now sc u vid nm' descr' dflt' db = Inr (v, db') \<Longrightarrow> vlan_step db db'"
| vlan_remove: "remove_vlan eid now sc u vid db = Inr db' \<Longrightarrow> vlan_step db db'"

section \<open>Lemmas\<close>

text \<open>Within the scope of a VLAN row, the row filter is equality of scopes.\<close>

lemma in_vlan_scope_iff:
  assumes "vlan_scoped v" and "(opt_truthy (fst g) \<and> snd g = None) \<or> (fst g = None \<and> opt_truthy (snd g))"
  shows "in_vlan_scope g v \<longleftrightarrow> vlan_scope v = g"
  using assms by (cases g) (auto simp: vlan_scoped_def in_vlan_scope_def vlan_scope_def elim: opt_truthyE)

text \<open>The group test of the interface is defined on scopes that are not well formed too.\<close>

definition same_scope :: "ident option \<times> ident option \<Rightarrow> vlan \<Rightarrow> bool" where
  "same_scope g v = (vlan_scope v = g)"

interpretation default_vlan: exclusive_flag Vlan_id vlan_scope Vlan_is_default put_default same_scope vlan_scoped
  by unfold_locales (simp_all add: put_default_def vlan_scope_def same_scope_def vlan_scoped_def)

definition vlan_taken :: "(ident option \<times> ident option) \<times> int \<Rightarrow> ident option \<Rightarrow> vlan list \<Rightarrow> bool" where
  "vlan_taken k exclude vs = list_ex (\<lambda>v. vlan_key v = k \<and> exclude \<noteq> Some (Vlan_id v)) vs"

interpretation vlan_names: unique_names Vlan_id vlan_key vlan_taken
  by unfold_locales (auto simp: vlan_taken_def list_ex_iff)

lemma clear_default_scope:
  assumes "\<forall>v \<in> set vs. vlan_scoped v" and "(opt_truthy cid \<and> hid = None) \<or> (cid = None \<and> opt_truthy hid)"
  shows "clear_default cid hid vs = tupd_where (same_scope (cid, hid)) (put_default False) vs"
  unfolding clear_default_def tupd_where_def
  using assms by (intro map_cong) (simp_all add: in_vlan_scope_iff same_scope_def)

lemma clear_default_ok:
  assumes "vlans_ok vs" and "(opt_truthy cid \<and> hid = None) \<or> (cid = None \<and> opt_truthy hid)"
  shows "vlans_ok (clear_default cid hid vs)"
    and "\<And>v. v \<in> set (clear_default cid hid vs) \<Longrightarrow> vlan_scope v = (cid, hid) \<Longrightarrow> \<not> Vlan_is_default v"
proof -
  have sc: "\<forall>v \<in> set vs. vlan_scoped v" using assms(1) by (simp add: vlans_ok_def)
  note eq = clear_default_scope [OF sc assms(2)]
  have "pk_unique Vlan_id (clear_default cid hid vs)" "pk_unique vlan_key (clear_default cid hid vs)"
    using assms(1) by (simp_all add: vlans_ok_def clear_default_def put_default_def vlan_key_def vlan_scope_def)
  moreover have "one_flagged Vlan_id vlan_scope Vlan_is_default (clear_default cid hid vs)"
    unfolding eq using assms(1) by (intro default_vlan.clear_group) (simp add: vlans_ok_def)
  moreover have "vlan_scoped v \<and> 1 \<le> Vlan_vlan_id v \<and> Vlan_vlan_id v \<le> 4094" if "v \<in> set (clear_default cid hid vs)" for v
    using that assms(1)
    by (auto simp: vlans_ok_def clear_default_def tupd_where_def put_default_def vlan_scoped_def)
  ultimately show "vlans_ok (clear_default cid hid vs)" by (simp add: vlans_ok_def)
  show "\<not> Vlan_is_default v" if "v \<in> set (clear_default cid hid vs)" "vlan_scope v = (cid, hid)" for v
    using that default_vlan.group_cleared [OF sc] unfolding eq by blast
qed

lemma vlans_ok_add:
  assumes "vlans_ok vs" and "Vlan_id v \<notin> Vlan_id ` set vs" and "\<not> vlan_taken (vlan_key v) None vs"
    and "vlan_scoped v" and "1 \<le> Vlan_vlan_id v" "Vlan_vlan_id v \<le> 4094"
    and "Vlan_is_default v \<Longrightarrow> \<forall>r \<in> set vs. vlan_scope r = vlan_scope v \<longrightarrow> \<not> Vlan_is_default r"
  shows "vlans_ok (vs @ [v])"
proof -
  have "pk_unique vlan_key (vs @ [v])"
    using assms(1,3) by (intro vlan_names.add_row) (simp_all add: vlans_ok_def)
  moreover have "one_flagged Vlan_id vlan_scope Vlan_is_default (vs @ [v])"
    using assms(1,7) by (intro default_vlan.add_row) (simp_all add: vlans_ok_def)
  ultimately show ?thesis using assms(1,2,4-6) by (simp add: vlans_ok_def)
qed

lemma create_vlan_ok:
  assumes "create_vlan nid nm tg descr dflt cid hid db = Inr (v, db')" and ok: "vlans_ok (db_vlans db)"
    and "nid \<notin> Vlan_id ` set (db_vlans db)" and sc: "(opt_truthy cid \<and> hid = None) \<or> (cid = None \<and> opt_truthy hid)"
    and "1 \<le> tg" "tg \<le> 4094"
  shows "vlans_ok (db_vlans db')"
proof -
  let ?vs = "if dflt then clear_default cid hid (db_vlans db) else db_vlans db"
  have v: "Vlan_id v = nid" "vlan_scope v = (cid, hid)" "Vlan_vlan_id v = tg" "Vlan_is_default v = dflt" "vlan_scoped v"
    and db': "db_vlans db' = ?vs @ [v]"
    and free: "\<not> list_ex (\<lambda>v. Vlan_vlan_id v = tg \<and> in_vlan_scope (cid, hid) v) (db_vlans db)"
    using assms(1) sc by (auto simp: create_vlan_def sbind_eq_Inr Let_def vlan_scope_def vlan_scoped_def split: if_splits)
  have keys: "map vlan_key ?vs = map vlan_key (db_vlans db)" "map Vlan_id ?vs = map Vlan_id (db_vlans db)"
    by (simp_all add: clear_default_def put_default_def vlan_key_def vlan_scope_def)
  have "vlan_key v \<notin> vlan_key ` set (db_vlans db)"
  proof
    assume "vlan_key v \<in> vlan_key ` set (db_vlans db)"
    then obtain r where "r \<in> set (db_vlans db)" "vlan_scope r = (cid, hid)" "Vlan_vlan_id r = tg"
      using v by (auto simp: vlan_key_def)
    moreover have "in_vlan_scope (cid, hid) r"
      using calculation ok sc by (subst in_vlan_scope_iff) (auto simp: vlans_ok_def)
    ultimately show False using free by (auto simp: list_ex_iff)
  qed
  then have "vlan_key v \<notin> vlan_key ` set ?vs" by (metis keys(1) list.set_map)
  then have taken: "\<not> vlan_taken (vlan_key v) None ?vs" unfolding vlan_names.taken_iff by (metis imageI)
  have "Vlan_id v \<notin> Vlan_id ` set ?vs" using assms(3) v(1) by (metis keys(2) list.set_map)
  moreover have "vlans_ok ?vs" using clear_default_ok(1) [OF ok sc] ok by simp
  ultimately show ?thesis
    unfolding db' using taken v assms(5,6) clear_default_ok(2) [OF ok sc] by (intro vlans_ok_add) auto
qed

lemma vlans_ok_edit:
  assumes "vlans_ok vs"
    and f: "\<And>r. Vlan_id (f r) = Vlan_id r \<and> vlan_key (f r) = vlan_key r"
    and "one_flagged Vlan_id vlan_scope Vlan_is_default (tupd Vlan_id i f vs)"
  shows "vlans_ok (tupd Vlan_id i f vs)"
proof -
  have "vlan_scoped (f r) = vlan_scoped r" "Vlan_vlan_id (f r) = Vlan_vlan_id r" for r
    using f [of r] by (simp_all add: vlan_key_def vlan_scope_def vlan_scoped_def)
  with assms show ?thesis by (auto simp: vlans_ok_def set_tupd)
qed

lemma update_vlan_ok:
  assumes "update_vlan v nm descr dflt db = (v', db')" and ok: "vlans_ok (db_vlans db)" and v: "v \<in> set (db_vlans db)"
  shows "vlans_ok (db_vlans db')"
proof -
  let ?f = "\<lambda>r. r\<lparr>Vlan_name := (case nm of None \<Rightarrow> Vlan_name r | Some n \<Rightarrow> py_strip n),
      Vlan_description := (case descr of None \<Rightarrow> Vlan_description r | Some d \<Rightarrow> none_if_empty (py_strip d)),
      Vlan_is_default := (case dflt of None \<Rightarrow> Vlan_is_default r | Some b \<Rightarrow> b)\<rparr>"
  let ?vs = "if dflt = Some True then clear_default (Vlan_cluster_id v) (Vlan_host_id v) (db_vlans db) else db_vlans db"
  have db': "db_vlans db' = tupd Vlan_id (Vlan_id v) ?f ?vs"
    using assms(1) by (auto simp: update_vlan_def Let_def)
  have f: "Vlan_id (?f r) = Vlan_id r \<and> vlan_key (?f r) = vlan_key r" "vlan_scope (?f r) = vlan_scope r" for r
    by (simp_all add: vlan_key_def vlan_scope_def)
  have sc: "(opt_truthy (Vlan_cluster_id v) \<and> Vlan_host_id v = None) \<or> (Vlan_cluster_id v = None \<and> opt_truthy (Vlan_host_id v))"
    using ok v by (auto simp: vlans_ok_def vlan_scoped_def)
  have vs: "vlans_ok ?vs" using clear_default_ok(1) [OF ok sc] ok by simp
  have "one_flagged Vlan_id vlan_scope Vlan_is_default (tupd Vlan_id (Vlan_id v) ?f ?vs)"
  proof (cases "dflt = Some True")
    case True
    have "vlan_scope r = vlan_scope v" if r: "r \<in> set ?vs" "Vlan_id r = Vlan_id v" for r
    proof -
      obtain r0 where "r0 \<in> set (db_vlans db)" "Vlan_id r0 = Vlan_id r" "vlan_scope r0 = vlan_scope r"
        using r(1) True by (auto simp: clear_default_def tupd_where_def put_default_def vlan_scope_def)
      then show ?thesis using pk_uniqueD [of Vlan_id "db_vlans db" r0 v] ok v r(2) by (auto simp: vlans_ok_def)
    qed
    moreover have "one_flagged Vlan_id vlan_scope Vlan_is_default ?vs" using vs by (simp only: vlans_ok_def)
    moreover have "\<forall>r \<in> set ?vs. vlan_scope r = vlan_scope v \<longrightarrow> \<not> Vlan_is_default r"
      using clear_default_ok(2) [OF ok sc] True by (simp add: vlan_scope_def)
    ultimately show ?thesis using f by (intro default_vlan.set_flag) blast+
  next
    case False
    then show ?thesis using vs f
      by (intro default_vlan.clear_one) (auto simp: vlans_ok_def split: option.splits)
  qed
  with vs f show ?thesis unfolding db' by (intro vlans_ok_edit) auto
qed

lemma vlans_ok_step:
  assumes "vlan_step db db'" and ok: "vlans_ok (db_vlans db)" shows "vlans_ok (db_vlans db')"
  using assms(1)
proof cases
  case (vlan_add nid cid hid eid now sc u nm tg descr dflt v)
  then obtain db1 where c: "create_vlan nid nm tg descr dflt cid hid db = Inr (v, db1)"
    and a: "audited eid now u ''vlan.create'' (VlanTarget v) (Some (vlan_fields v)) db1 = Inr db'"
    and valid: "vlan_create_valid nm tg cid hid"
    by (auto simp: add_vlan_def sbind_eq_Inr split: if_splits)
  have "(opt_truthy cid \<and> hid = None) \<or> (cid = None \<and> opt_truthy hid)"
    using valid vlan_add(2) by (cases cid; cases hid) (auto simp: vlan_create_valid_def)
  then have "vlans_ok (db_vlans db1)"
    using create_vlan_ok [OF c ok vlan_add(1)] valid by (simp add: vlan_create_valid_def)
  then show ?thesis using audited_frame [OF a] by auto
next
  case (vlan_patch eid now sc u vid nm descr dflt v)
  then obtain r where r1: "get_visible_vlan db sc vid = Inr r"
    and rest: "(let (v', db1) = update_vlan r nm descr dflt db in
      sbind (audited_diff eid now u ''vlan.update'' (VlanTarget v') (changes (vlan_fields r) (vlan_fields v')) db1)
        (\<lambda>db2. Inr (v', db2))) = Inr (v, db')"
    unfolding patch_vlan_def by (auto simp only: sbind_eq_Inr sum.distinct split: if_split_asm)
  obtain v1 db1 where u: "update_vlan r nm descr dflt db = (v1, db1)" by (rule prod.exhaust)
  have r: "get_visible_vlan db sc vid = Inr r" "update_vlan r nm descr dflt db = (v, db1)"
    and a: "audited_diff eid now u ''vlan.update'' (VlanTarget v) (changes (vlan_fields r) (vlan_fields v)) db1 = Inr db'"
    using r1 rest u by (auto simp: sbind_eq_Inr)
  have "r \<in> set (db_vlans db)" using r(1) by (auto simp: get_visible_vlan_def vlan_vis.lookup_Inr dest: tget_Some)
  then show ?thesis using update_vlan_ok [OF r(2) ok] audited_diff_frame [OF a] by auto
next
  case (vlan_remove eid now sc u vid)
  then obtain v db1 where "db' = delete_vlan v db1"
    and a: "audited eid now u ''vlan.delete'' (VlanTarget v) (Some [(''vlanId'', JInt (Vlan_vlan_id v))]) db = Inr db1"
    by (auto simp: remove_vlan_def sbind_eq_Inr)
  then have "db_vlans db' = tdel Vlan_id (Vlan_id v) (db_vlans db)" using audited_frame [OF a] by (auto simp: delete_vlan_def)
  then show ?thesis using ok by (auto simp: vlans_ok_def one_flagged_def)
qed

section \<open>Properties\<close>

text \<open>C40: In every state the VLAN requests reach from an empty table, each scope (cluster or standalone
  host) has at most one VLAN of a tag and at most one default VLAN, every VLAN has exactly one scope,
  and every tag is in 1..4094.\<close>

theorem vlans_reachable:
  assumes "vlan_step\<^sup>*\<^sup>* db db'" and "db_vlans db = []"
  shows "vlans_ok (db_vlans db')"
proof -
  have "vlans_ok (db_vlans db)" using assms(2) by (simp add: vlans_ok_def pk_unique_def one_flagged_def)
  with assms(1) show ?thesis by (induction) (auto intro: vlans_ok_step)
qed

theorem vlans_reachable_witness:
  "\<exists>v db'. add_vlan ''e'' 0 ''n1'' admin_scope operator ''dmz'' 20 None True (Some ''c1'') None placed_db = Inr (v, db')
     \<and> Vlan_is_default v \<and> vlans_ok (db_vlans db')"
proof -
  obtain v db' where r: "add_vlan ''e'' 0 ''n1'' admin_scope operator ''dmz'' 20 None True (Some ''c1'') None placed_db = Inr (v, db')"
    and d: "Vlan_is_default v"
    by (simp add: add_vlan_def vlan_create_valid_def may_create_in_def admin_scope_def create_vlan_def
        check_scope_def placed_db_def empty_db_def sample_cluster_def clear_default_def tupd_where_def
        audited_def record_event_def record_ref_def Let_def)
  have "vlan_step\<^sup>*\<^sup>* placed_db db'"
    by (rule r_into_rtranclp, rule vlan_add [OF _ _ r]) (simp_all add: placed_db_def empty_db_def)
  from vlans_reachable [OF this] r d show ?thesis by (simp add: placed_db_def empty_db_def)
qed

end
