(* ===== verification/Cache.thy ===== *)
theory Cache
  imports Models Settings
begin

text \<open>
  \<^verbatim>\<open>app/cache.py\<close>: the Valkey store, with its keys and expiry times. The store is an association list
  from keys to entries; an entry past its expiry is not found. Values are kept decoded: the text of
  a VM state, the fields of a lock (JSON on the wire), a time stamp, or a JSON value. The current
  time is an argument. On top of the store: the VM-state overlay, the VM locks, and the tombstones of
  recently deleted VMs.
\<close>

section \<open>The store\<close>

record lock_info =
  lock_task_id :: ident
  lock_kind :: string
  lock_requested_by :: string
  lock_acquired_at :: instant

datatype cache_val = CText string | CLock lock_info | CStamp instant | CJson json

record entry =
  entry_val :: cache_val
  entry_expires :: "instant option"

type_synonym store = "(string \<times> entry) list"

definition live :: "instant \<Rightarrow> entry \<Rightarrow> bool" where
  "live now e \<longleftrightarrow> (case entry_expires e of None \<Rightarrow> True | Some t \<Rightarrow> now < t)"

definition cache_get :: "instant \<Rightarrow> store \<Rightarrow> string \<Rightarrow> cache_val option" where
  "cache_get now s k = (case map_of s k of None \<Rightarrow> None | Some e \<Rightarrow> if live now e then Some (entry_val e) else None)"

text \<open>\<^verbatim>\<open>SET k v EX ttl\<close> (no expiry without a ttl) and \<^verbatim>\<open>DEL k\<close> with its count.\<close>

definition cache_set :: "instant \<Rightarrow> string \<Rightarrow> cache_val \<Rightarrow> int option \<Rightarrow> store \<Rightarrow> store" where
  "cache_set now k v ttl s =
     (k, \<lparr>entry_val = v, entry_expires = map_option (\<lambda>n. now + seconds n) ttl\<rparr>) # filter (\<lambda>kv. fst kv \<noteq> k) s"

definition cache_del :: "instant \<Rightarrow> string \<Rightarrow> store \<Rightarrow> bool \<times> store" where
  "cache_del now k s = (cache_get now s k \<noteq> None, filter (\<lambda>kv. fst kv \<noteq> k) s)"

text \<open>\<^verbatim>\<open>SCAN\<close> with a prefix pattern: the live keys that start with it.\<close>

definition cache_scan :: "instant \<Rightarrow> string \<Rightarrow> store \<Rightarrow> string list" where
  "cache_scan now prefix s =
     remdups (filter (\<lambda>k. py_startswith k prefix \<and> cache_get now s k \<noteq> None) (map fst s))"

section \<open>VM state overlay\<close>

definition vm_state_key :: "ident \<Rightarrow> string" where
  "vm_state_key vm_id = ''vm:state:'' @ vm_id"

definition set_vm_state :: "settings \<Rightarrow> instant \<Rightarrow> ident \<Rightarrow> string \<Rightarrow> store \<Rightarrow> store" where
  "set_vm_state st now vm_id state s =
     cache_set now (vm_state_key vm_id) (CText state) (Some (vm_state_ttl_seconds st)) s"

fun text_of :: "cache_val option \<Rightarrow> string option" where
  "text_of (Some (CText t)) = Some t"
| "text_of _ = None"

definition get_vm_state :: "instant \<Rightarrow> store \<Rightarrow> ident \<Rightarrow> string option" where
  "get_vm_state now s vm_id = text_of (cache_get now s (vm_state_key vm_id))"

text \<open>Only ids with a non-empty state are in the result.\<close>

definition get_vm_states :: "instant \<Rightarrow> store \<Rightarrow> ident list \<Rightarrow> (ident \<times> string) list" where
  "get_vm_states now s ids =
     List.map_filter (\<lambda>i. let v = get_vm_state now s i in if opt_truthy v then Some (i, or_empty v) else None) ids"

definition clear_vm_state :: "instant \<Rightarrow> ident \<Rightarrow> store \<Rightarrow> store" where
  "clear_vm_state now vm_id s = snd (cache_del now (vm_state_key vm_id) s)"

section \<open>VM locks\<close>

definition vm_lock_key :: "ident \<Rightarrow> string" where
  "vm_lock_key vm_id = ''vm:lock:'' @ vm_id"

definition lock_ttl :: "settings \<Rightarrow> string option \<Rightarrow> int" where
  "lock_ttl st kind = task_timeout_seconds st kind + 60"

fun lock_of :: "cache_val option \<Rightarrow> lock_info option" where
  "lock_of (Some (CLock l)) = Some l"
| "lock_of _ = None"

definition get_vm_lock :: "instant \<Rightarrow> store \<Rightarrow> ident \<Rightarrow> lock_info option" where
  "get_vm_lock now s vm_id = lock_of (cache_get now s (vm_lock_key vm_id))"

text \<open>\<^verbatim>\<open>SET ... NX\<close>.\<close>

definition acquire_vm_lock ::
  "settings \<Rightarrow> instant \<Rightarrow> ident \<Rightarrow> ident \<Rightarrow> string \<Rightarrow> string \<Rightarrow> store \<Rightarrow> bool \<times> store"
where
  "acquire_vm_lock st now vm_id task_id kind requested_by s =
     (if cache_get now s (vm_lock_key vm_id) \<noteq> None then (False, s)
      else (True, cache_set now (vm_lock_key vm_id)
              (CLock \<lparr>lock_task_id = task_id, lock_kind = kind, lock_requested_by = requested_by,
                      lock_acquired_at = now\<rparr>) (Some (lock_ttl st (Some kind))) s))"

text \<open>Without a task id unconditionally, otherwise the compare-and-delete script.\<close>

definition release_vm_lock :: "instant \<Rightarrow> ident \<Rightarrow> ident option \<Rightarrow> store \<Rightarrow> bool \<times> store" where
  "release_vm_lock now vm_id task_id s =
     (case task_id of
        None \<Rightarrow> cache_del now (vm_lock_key vm_id) s
      | Some t \<Rightarrow>
          (case get_vm_lock now s vm_id of
             None \<Rightarrow> (False, s)
           | Some l \<Rightarrow> if lock_task_id l = t then cache_del now (vm_lock_key vm_id) s else (False, s)))"

definition get_vm_locks :: "instant \<Rightarrow> store \<Rightarrow> ident list \<Rightarrow> (ident \<times> lock_info) list" where
  "get_vm_locks now s ids = List.map_filter (\<lambda>i. map_option (Pair i) (get_vm_lock now s i)) ids"

text \<open>Each lock with its VM id and the remaining seconds (\<^verbatim>\<open>TTL\<close> rounds to the nearest).\<close>

definition remaining :: "instant \<Rightarrow> store \<Rightarrow> string \<Rightarrow> int" where
  "remaining now s k = (case map_of s k of None \<Rightarrow> -2
     | Some e \<Rightarrow> (case entry_expires e of None \<Rightarrow> -1 | Some t \<Rightarrow> (t - now + 500000) div 1000000))"

definition list_vm_locks :: "instant \<Rightarrow> store \<Rightarrow> (ident \<times> lock_info \<times> int) list" where
  "list_vm_locks now s =
     List.map_filter (\<lambda>k. map_option (\<lambda>l. (drop (length ''vm:lock:'') k, l, remaining now s k)) (lock_of (cache_get now s k)))
       (cache_scan now ''vm:lock:'' s)"

definition release_all_vm_locks :: "instant \<Rightarrow> store \<Rightarrow> nat \<times> store" where
  "release_all_vm_locks now s =
     (let keys = cache_scan now ''vm:lock:'' s in (length keys, filter (\<lambda>kv. fst kv \<notin> set keys) s))"

section \<open>Tombstones\<close>

definition VM_TOMBSTONE_TTL :: int where
  "VM_TOMBSTONE_TTL = 900"

definition vm_tombstone_key :: "ident \<Rightarrow> string \<Rightarrow> string" where
  "vm_tombstone_key host_id vm_uuid = ''vm:deleted:'' @ host_id @ '':'' @ vm_uuid"

definition mark_vm_deleted :: "instant \<Rightarrow> ident \<Rightarrow> string \<Rightarrow> store \<Rightarrow> store" where
  "mark_vm_deleted now host_id vm_uuid s =
     (if vm_uuid = [] then s
      else cache_set now (vm_tombstone_key host_id vm_uuid) (CStamp now) (Some VM_TOMBSTONE_TTL) s)"

definition is_vm_deleted :: "instant \<Rightarrow> store \<Rightarrow> ident \<Rightarrow> string \<Rightarrow> bool" where
  "is_vm_deleted now s host_id vm_uuid \<longleftrightarrow> cache_get now s (vm_tombstone_key host_id vm_uuid) \<noteq> None"

definition clear_vm_deleted :: "instant \<Rightarrow> ident \<Rightarrow> string \<Rightarrow> store \<Rightarrow> store" where
  "clear_vm_deleted now host_id vm_uuid s = snd (cache_del now (vm_tombstone_key host_id vm_uuid) s)"

definition list_deleted_vm_uuids :: "instant \<Rightarrow> store \<Rightarrow> ident \<Rightarrow> string list" where
  "list_deleted_vm_uuids now s host_id =
     (let prefix = ''vm:deleted:'' @ host_id @ '':'' in
      map (\<lambda>k. drop (length prefix) k) (cache_scan now prefix s))"

section \<open>JSON values\<close>

definition put_json :: "instant \<Rightarrow> string \<Rightarrow> json \<Rightarrow> int option \<Rightarrow> store \<Rightarrow> store" where
  "put_json now k v ttl s = cache_set now k (CJson v) ttl s"

definition get_json :: "instant \<Rightarrow> store \<Rightarrow> string \<Rightarrow> json option" where
  "get_json now s k = (case cache_get now s k of Some (CJson v) \<Rightarrow> Some v | _ \<Rightarrow> None)"

section \<open>Store laws\<close>

lemma cache_get_set:
  "cache_get t (cache_set now k v ttl s) j =
     (if j = k then (case ttl of None \<Rightarrow> Some v | Some n \<Rightarrow> if t < now + seconds n then Some v else None)
      else cache_get t s j)"
proof -
  have "map_of (filter (\<lambda>kv. fst kv \<noteq> k) s) j = map_of s j" if "j \<noteq> k"
    using that by (induction s) auto
  then show ?thesis by (auto simp: cache_get_def cache_set_def live_def split: option.splits)
qed

lemma cache_get_del:
  "cache_get t (snd (cache_del now k s)) j = (if j = k then None else cache_get t s j)"
proof -
  have "map_of (filter (\<lambda>kv. fst kv \<noteq> k) s) j = (if j = k then None else map_of s j)"
    by (induction s) auto
  then show ?thesis by (simp add: cache_get_def cache_del_def)
qed

text \<open>Entries only disappear as time passes.\<close>

lemma cache_get_mono: "cache_get t s k = Some v \<Longrightarrow> t' \<le> t \<Longrightarrow> cache_get t' s k = Some v"
  by (auto simp: cache_get_def live_def split: option.splits if_splits)

lemma set_cache_scan: "set (cache_scan now p s) = {k. py_startswith k p \<and> cache_get now s k \<noteq> None}"
proof -
  have "k \<in> fst ` set s" if "cache_get now s k \<noteq> None" for k
    using that by (cases "map_of s k") (auto simp: cache_get_def dest!: map_of_SomeD intro: rev_image_eqI)
  then show ?thesis by (auto simp: cache_scan_def)
qed

lemma cache_keys_distinct [simp]:
  "vm_lock_key a = vm_lock_key b \<longleftrightarrow> a = b" "vm_state_key a = vm_state_key b \<longleftrightarrow> a = b"
  "vm_lock_key a \<noteq> vm_state_key b" "vm_state_key b \<noteq> vm_lock_key a"
  "vm_lock_key a \<noteq> vm_tombstone_key h u" "vm_tombstone_key h u \<noteq> vm_lock_key a"
  "vm_state_key a \<noteq> vm_tombstone_key h u" "vm_tombstone_key h u \<noteq> vm_state_key a"
  by (simp_all add: vm_lock_key_def vm_state_key_def vm_tombstone_key_def)

text \<open>A store with expiry: what a lookup gives after a write, a delete, and as time passes.\<close>

locale expiring_store =
  fixes get :: "instant \<Rightarrow> 's \<Rightarrow> string \<Rightarrow> 'v option"
    and put :: "instant \<Rightarrow> string \<Rightarrow> 'v \<Rightarrow> int option \<Rightarrow> 's \<Rightarrow> 's"
    and del :: "instant \<Rightarrow> string \<Rightarrow> 's \<Rightarrow> bool \<times> 's"
  assumes get_put: "get t (put now k v ttl s) j =
     (if j = k then (case ttl of None \<Rightarrow> Some v | Some n \<Rightarrow> if t < now + seconds n then Some v else None) else get t s j)"
    and get_del: "get t (snd (del now k s)) j = (if j = k then None else get t s j)"
    and get_mono: "get t s k = Some v \<Longrightarrow> t' \<le> t \<Longrightarrow> get t' s k = Some v"
begin

lemma put_visible: "t < now + seconds n \<Longrightarrow> get t (put now k v (Some n) s) k = Some v"
  by (simp add: get_put)

lemma put_expires: "now + seconds n \<le> t \<Longrightarrow> get t (put now k v (Some n) s) k = None"
  by (simp add: get_put)

lemma absent_stays: "get t s k = None \<Longrightarrow> t \<le> t' \<Longrightarrow> get t' s k = None"
proof (rule ccontr)
  assume "get t s k = None" "t \<le> t'" "get t' s k \<noteq> None"
  then obtain v where "get t' s k = Some v" by blast
  from get_mono [OF this \<open>t \<le> t'\<close>] \<open>get t s k = None\<close> show False by simp
qed

end

interpretation valkey: expiring_store cache_get cache_set cache_del
  by unfold_locales (fact cache_get_set, fact cache_get_del, fact cache_get_mono)

section \<open>Locks as an interface\<close>

text \<open>
  What the services rely on: \<open>holder now s vm\<close> is the task that holds the lock of a VM, acquiring
  succeeds exactly on a free lock and then holds it for the time to live, releasing with a task id
  frees the lock exactly when that task holds it, and no operation on one VM touches another's lock.
\<close>

locale vm_mutex =
  fixes holder :: "instant \<Rightarrow> 's \<Rightarrow> ident \<Rightarrow> ident option"
    and acquire :: "instant \<Rightarrow> ident \<Rightarrow> ident \<Rightarrow> string \<Rightarrow> string \<Rightarrow> 's \<Rightarrow> bool \<times> 's"
    and release :: "instant \<Rightarrow> ident \<Rightarrow> ident option \<Rightarrow> 's \<Rightarrow> bool \<times> 's"
    and ttl :: "string \<Rightarrow> int"
    and wf :: "'s \<Rightarrow> bool"
  assumes acquire_result: "wf s \<Longrightarrow> fst (acquire now vm t kind by s) \<longleftrightarrow> holder now s vm = None"
    and acquire_holder: "wf s \<Longrightarrow> holder now s vm = None \<Longrightarrow>
      holder t' (snd (acquire now vm t kind by s)) v =
        (if v = vm then (if t' < now + seconds (ttl kind) then Some t else None) else holder t' s v)"
    and acquire_fails: "wf s \<Longrightarrow> holder now s vm \<noteq> None \<Longrightarrow> snd (acquire now vm t kind by s) = s"
    and release_holder: "wf s \<Longrightarrow> holder now s vm = Some t \<Longrightarrow>
      holder t' (snd (release now vm (Some t) s)) v = (if v = vm then None else holder t' s v)"
    and release_other: "wf s \<Longrightarrow> holder now s vm \<noteq> Some t \<Longrightarrow> snd (release now vm (Some t) s) = s"
    and wf_acquire: "wf s \<Longrightarrow> wf (snd (acquire now vm t kind by s))"
    and wf_release: "wf s \<Longrightarrow> wf (snd (release now vm r s))"
    and holder_mono: "holder n s vm = Some x \<Longrightarrow> n' \<le> n \<Longrightarrow> holder n' s vm = Some x"
begin

lemma held_excludes: "wf s \<Longrightarrow> holder now s vm = Some t \<Longrightarrow> \<not> fst (acquire now vm t' kind by s)"
  by (simp add: acquire_result)

text \<open>A lock that lives until \<open>T\<close> survives any operation of another task before \<open>T\<close>.\<close>

lemma foreign_acquire:
  assumes "wf s" and "holder T s vm = Some t" and "now \<le> T"
  shows "holder T (snd (acquire now v' t' kind by s)) vm = Some t"
proof (cases "holder now s v' = None")
  case True
  have "holder now s vm = Some t" using assms(2,3) holder_mono by blast
  then have "vm \<noteq> v'" using True by auto
  with acquire_holder [OF assms(1) True] assms(2) show ?thesis by simp
next
  case False
  then show ?thesis using acquire_fails [OF assms(1)] assms(2) by simp
qed

lemma foreign_release:
  assumes "wf s" and "holder T s vm = Some t" and "now \<le> T" and "t' \<noteq> t"
  shows "holder T (snd (release now v' (Some t') s)) vm = Some t"
proof (cases "holder now s v' = Some t'")
  case True
  have "holder now s vm = Some t" using assms(2,3) holder_mono by blast
  then have "vm \<noteq> v'" using True assms(4) by auto
  with release_holder [OF assms(1) True] assms(2) show ?thesis by simp
next
  case False
  then show ?thesis using release_other [OF assms(1)] assms(2) by simp
qed

end

text \<open>Lock entries hold locks: what the code writes under the lock keys.\<close>

definition locks_wf :: "store \<Rightarrow> bool" where
  "locks_wf s \<longleftrightarrow> (\<forall>vm e. map_of s (vm_lock_key vm) = Some e \<longrightarrow> (\<exists>l. entry_val e = CLock l))"

definition lock_holder :: "instant \<Rightarrow> store \<Rightarrow> ident \<Rightarrow> ident option" where
  "lock_holder now s vm = map_option lock_task_id (get_vm_lock now s vm)"

lemma locks_wf_get: "locks_wf s \<Longrightarrow> cache_get now s (vm_lock_key vm) = Some v \<Longrightarrow> \<exists>l. v = CLock l"
  by (auto simp: locks_wf_def cache_get_def split: option.splits if_splits)

lemma lock_holder_None:
  assumes "locks_wf s" shows "lock_holder now s vm = None \<longleftrightarrow> cache_get now s (vm_lock_key vm) = None"
proof (cases "cache_get now s (vm_lock_key vm)")
  case (Some v)
  then obtain l where "v = CLock l" using locks_wf_get [OF assms] by blast
  with Some show ?thesis by (simp add: lock_holder_def get_vm_lock_def)
qed (simp add: lock_holder_def get_vm_lock_def)

lemma map_of_cache_set:
  "map_of (cache_set now k v ttl s) j =
     (if j = k then Some \<lparr>entry_val = v, entry_expires = map_option (\<lambda>n. now + seconds n) ttl\<rparr> else map_of s j)"
  by (induction s) (auto simp: cache_set_def)

lemma map_of_cache_del: "map_of (snd (cache_del now k s)) j = (if j = k then None else map_of s j)"
  by (induction s) (auto simp: cache_del_def)

lemma locks_wf_set:
  "locks_wf s \<Longrightarrow> (\<And>vm. k = vm_lock_key vm \<Longrightarrow> \<exists>l. v = CLock l) \<Longrightarrow> locks_wf (cache_set now k v ttl s)"
  by (auto simp: locks_wf_def map_of_cache_set)

lemma locks_wf_del: "locks_wf s \<Longrightarrow> locks_wf (snd (cache_del now k s))"
  by (auto simp: locks_wf_def map_of_cache_del)

lemma locks_wf_empty [simp]: "locks_wf []"
  by (simp add: locks_wf_def)

lemma lock_holder_cong:
  "cache_get t s (vm_lock_key vm) = cache_get t' s' (vm_lock_key vm) \<Longrightarrow> lock_holder t s vm = lock_holder t' s' vm"
  by (simp add: lock_holder_def get_vm_lock_def)

interpretation vm_locks: vm_mutex lock_holder "\<lambda>now vm t kind by. acquire_vm_lock st now vm t kind by"
  release_vm_lock "\<lambda>kind. lock_ttl st (Some kind)" locks_wf for st
proof (unfold_locales, goal_cases)
  case (1 s now vm t kind requester)
  then show ?case by (simp add: acquire_vm_lock_def lock_holder_None)
next
  case (2 s now vm t' t kind requester v)
  then have "cache_get now s (vm_lock_key vm) = None" by (simp add: lock_holder_None)
  then show ?case
    by (auto simp: acquire_vm_lock_def lock_holder_def get_vm_lock_def cache_get_set)
next
  case (3 s now vm t kind requester)
  then show ?case by (simp add: acquire_vm_lock_def lock_holder_None)
next
  case (4 s now vm t t' v)
  then obtain l where "get_vm_lock now s vm = Some l" "lock_task_id l = t" by (auto simp: lock_holder_def)
  then show ?case by (simp add: release_vm_lock_def lock_holder_def get_vm_lock_def cache_get_del)
next
  case (5 s now vm t)
  then show ?case by (auto simp: release_vm_lock_def lock_holder_def split: option.splits)
next
  case (6 s now vm t kind requester)
  then show ?case by (auto simp: acquire_vm_lock_def intro: locks_wf_set)
next
  case (7 s now vm r)
  then show ?case by (auto simp: release_vm_lock_def intro: locks_wf_del split: option.splits)
next
  case (8 t s vm x t')
  then have "cache_get t s (vm_lock_key vm) \<noteq> None"
    by (cases "cache_get t s (vm_lock_key vm)") (simp_all add: lock_holder_def get_vm_lock_def)
  then obtain v where v: "cache_get t s (vm_lock_key vm) = Some v" by blast
  have "cache_get t' s (vm_lock_key vm) = cache_get t s (vm_lock_key vm)"
    using cache_get_mono [OF v 8(2)] v by simp
  from lock_holder_cong [OF this] show ?case using 8(1) by simp
qed

section \<open>Sequences of lock operations\<close>

text \<open>The lock operations of the services and the worker, with the time at which each runs. A forced
  release (without a task id) is not among them.\<close>

datatype lock_op =
    TryAcquire instant ident ident string string
  | ReleaseOwn instant ident ident

fun op_time :: "lock_op \<Rightarrow> instant" where
  "op_time (TryAcquire now vm t kind requester) = now"
| "op_time (ReleaseOwn now vm t) = now"

fun lock_run :: "settings \<Rightarrow> lock_op list \<Rightarrow> store \<Rightarrow> store" where
  "lock_run st [] s = s"
| "lock_run st (TryAcquire now vm t kind requester # ops) s =
     lock_run st ops (snd (acquire_vm_lock st now vm t kind requester s))"
| "lock_run st (ReleaseOwn now vm t # ops) s = lock_run st ops (snd (release_vm_lock now vm (Some t) s))"

lemma lock_run_foreign:
  assumes "locks_wf s" and "lock_holder T s vm = Some t"
    and "\<forall>p \<in> set ops. op_time p \<le> T \<and> (\<forall>n v t'. p = ReleaseOwn n v t' \<longrightarrow> t' \<noteq> t)"
  shows "locks_wf (lock_run st ops s) \<and> lock_holder T (lock_run st ops s) vm = Some t"
  using assms
proof (induction ops arbitrary: s)
  case (Cons p ops)
  have rest: "\<forall>q \<in> set ops. op_time q \<le> T \<and> (\<forall>n v t'. q = ReleaseOwn n v t' \<longrightarrow> t' \<noteq> t)"
    using Cons.prems(3) by simp
  show ?case
  proof (cases p)
    case (TryAcquire now v t' kind requester)
    have "now \<le> T" using Cons.prems(3) TryAcquire by simp
    from Cons.IH [OF vm_locks.wf_acquire [OF Cons.prems(1)]
        vm_locks.foreign_acquire [OF Cons.prems(1,2) this] rest]
    show ?thesis by (simp add: TryAcquire)
  next
    case (ReleaseOwn now v t')
    have "now \<le> T" "t' \<noteq> t" using Cons.prems(3) ReleaseOwn by simp_all
    from Cons.IH [OF vm_locks.wf_release [OF Cons.prems(1)]
        vm_locks.foreign_release [OF Cons.prems(1,2) this] rest]
    show ?thesis by (simp add: ReleaseOwn)
  qed
qed simp

lemma acquired_until:
  assumes "locks_wf s" and "fst (acquire_vm_lock st now vm t kind requester s)"
    and "T < now + seconds (task_timeout_seconds st (Some kind) + 60)"
  shows "lock_holder T (snd (acquire_vm_lock st now vm t kind requester s)) vm = Some t"
  using assms vm_locks.acquire_holder [OF assms(1), of now vm T st t kind requester vm]
  by (simp add: vm_locks.acquire_result lock_ttl_def)

subsection \<open>Tombstones\<close>

lemma cache_scan_tombstones:
  "u \<in> set (list_deleted_vm_uuids now s h) \<longleftrightarrow> is_vm_deleted now s h u"
proof -
  define p where "p = ''vm:deleted:'' @ h @ '':''"
  have key: "vm_tombstone_key h u = p @ u" for u by (simp add: vm_tombstone_key_def p_def)
  have "set (list_deleted_vm_uuids now s h) = drop (length p) ` {k. py_startswith k p \<and> cache_get now s k \<noteq> None}"
    by (simp only: list_deleted_vm_uuids_def Let_def set_map set_cache_scan p_def)
  also have "{k. py_startswith k p \<and> cache_get now s k \<noteq> None} = append p ` {u. cache_get now s (p @ u) \<noteq> None}"
    unfolding py_startswith_iff by blast
  also have "drop (length p) ` append p ` {u. cache_get now s (p @ u) \<noteq> None} = {u. cache_get now s (p @ u) \<noteq> None}"
    by (simp add: image_image)
  finally show ?thesis by (simp only: is_vm_deleted_def key mem_Collect_eq)
qed

lemma separator_inj:
  assumes "c \<notin> set a" "c \<notin> set a'" "a @ c # b = a' @ c # b'"
  shows "a = a' \<and> b = b'"
  using assms
proof (induction a arbitrary: a')
  case Nil
  then show ?case by (cases a') auto
next
  case (Cons x a)
  then show ?case by (cases a') auto
qed

lemma lock_of_Some: "lock_of x = Some l \<Longrightarrow> x = Some (CLock l)"
  by (cases x rule: lock_of.cases) simp_all

lemma tombstone_key_inj:
  assumes "CHR '':'' \<notin> set h" "CHR '':'' \<notin> set h'"
  shows "vm_tombstone_key h u = vm_tombstone_key h' u' \<longleftrightarrow> h = h' \<and> u = u'"
proof
  assume "vm_tombstone_key h u = vm_tombstone_key h' u'"
  then have "h @ CHR '':'' # u = h' @ CHR '':'' # u'" by (simp add: vm_tombstone_key_def)
  then show "h = h' \<and> u = u'"
    using separator_inj [OF assms] by blast
qed simp

section \<open>Properties\<close>

text \<open>C5: Mutual exclusion. Once a task has acquired the lock of a VM, no sequence of acquisitions and
  releases by other tasks, at any times up to \<open>T\<close>, takes it away or lets another acquisition succeed,
  for every \<open>T\<close> before the deadline of the task's kind plus a minute: the lock outlives its task.\<close>

theorem vm_lock_exclusive:
  assumes "locks_wf s" and "acquire_vm_lock st now vm t kind requester s = (True, s')"
    and "T < now + seconds (task_timeout_seconds st (Some kind) + 60)"
    and "\<forall>p \<in> set ops. op_time p \<le> T \<and> (\<forall>n v t'. p = ReleaseOwn n v t' \<longrightarrow> t' \<noteq> t)"
  shows "lock_holder T (lock_run st ops s') vm = Some t
    \<and> \<not> fst (acquire_vm_lock st T vm t2 kind2 requester2 (lock_run st ops s'))"
proof -
  have "lock_holder T s' vm = Some t" using acquired_until [OF assms(1) _ assms(3)] assms(2) by (metis fst_conv snd_conv)
  moreover have "locks_wf s'" using vm_locks.wf_acquire [OF assms(1)] assms(2) by (metis snd_conv)
  ultimately have r: "locks_wf (lock_run st ops s')" "lock_holder T (lock_run st ops s') vm = Some t"
    using lock_run_foreign assms(4) by blast+
  then show ?thesis using vm_locks.held_excludes by blast
qed

theorem vm_lock_exclusive_witness:
  "lock_holder 5 (lock_run default_settings [TryAcquire 2 ''v'' ''t2'' ''vm_stop'' ''b'', ReleaseOwn 3 ''v'' ''t2'']
      (snd (acquire_vm_lock default_settings 1 ''v'' ''t1'' ''vm_start'' ''a'' []))) ''v'' = Some ''t1''"
proof -
  obtain s' where s': "acquire_vm_lock default_settings 1 ''v'' ''t1'' ''vm_start'' ''a'' [] = (True, s')"
    by (simp add: acquire_vm_lock_def cache_get_def)
  have d: "5 < 1 + seconds (task_timeout_seconds default_settings (Some ''vm_start'') + 60)"
    using task_timeout_ge_default [of default_settings "Some ''vm_start''"]
    by (simp add: seconds_def default_settings_def)
  show ?thesis
    using vm_lock_exclusive [OF locks_wf_empty s' d, of
        "[TryAcquire 2 ''v'' ''t2'' ''vm_stop'' ''b'', ReleaseOwn 3 ''v'' ''t2'']"] by (simp add: s')
qed

text \<open>Only the holder's release frees a lock: a release by any other task, including a task whose lock
  has expired, changes nothing, and after the holder's release the VM is free and every other lock is as
  before.\<close>

theorem release_only_by_holder:
  assumes "locks_wf s"
  shows "(lock_holder now s vm \<noteq> Some t \<longrightarrow> release_vm_lock now vm (Some t) s = (False, s))
    \<and> (lock_holder now s vm = Some t \<longrightarrow> fst (release_vm_lock now vm (Some t) s)
         \<and> lock_holder T (snd (release_vm_lock now vm (Some t) s)) vm = None)
    \<and> (v \<noteq> vm \<longrightarrow> lock_holder T (snd (release_vm_lock now vm (Some t) s)) v = lock_holder T s v)"
proof -
  have "release_vm_lock now vm (Some t) s = (False, s)" if "lock_holder now s vm \<noteq> Some t"
    using that by (auto simp: release_vm_lock_def lock_holder_def split: option.splits)
  moreover have "fst (release_vm_lock now vm (Some t) s)" if "lock_holder now s vm = Some t"
    using that by (auto simp: release_vm_lock_def lock_holder_def get_vm_lock_def cache_del_def dest: lock_of_Some)
  moreover have "lock_holder T (snd (release_vm_lock now vm (Some t) s)) v = (if v = vm then None else lock_holder T s v)"
    if "lock_holder now s vm = Some t" for v
    using vm_locks.release_holder [OF assms that] .
  ultimately show ?thesis by (cases "lock_holder now s vm = Some t") simp_all
qed

theorem release_only_by_holder_witness:
  "release_vm_lock 2 ''v'' (Some ''t2'') (snd (acquire_vm_lock default_settings 1 ''v'' ''t1'' ''vm_start'' ''a'' []))
     = (False, snd (acquire_vm_lock default_settings 1 ''v'' ''t1'' ''vm_start'' ''a'' []))"
proof -
  let ?s = "snd (acquire_vm_lock default_settings 1 ''v'' ''t1'' ''vm_start'' ''a'' [])"
  have d: "2 < 1 + seconds (task_timeout_seconds default_settings (Some ''vm_start'') + 60)"
    using task_timeout_ge_default [of default_settings "Some ''vm_start''"]
    by (simp add: seconds_def default_settings_def)
  have "lock_holder 2 ?s ''v'' = Some ''t1''"
    by (rule acquired_until [OF locks_wf_empty _ d]) (simp add: acquire_vm_lock_def cache_get_def)
  with release_only_by_holder [of ?s 2 "''v''" "''t2''"] vm_locks.wf_acquire [OF locks_wf_empty] show ?thesis by simp
qed

text \<open>A tombstone hides exactly the deleted GUID, on exactly its host, for exactly 900 seconds: after
  marking, the listing of a host contains a GUID iff it was listed before or is the marked one and the
  window is still open (ids contain no colon).\<close>

theorem tombstone_window:
  assumes "u \<noteq> []" and "CHR '':'' \<notin> set h" and "CHR '':'' \<notin> set h'"
  shows "u' \<in> set (list_deleted_vm_uuids T (mark_vm_deleted now h u s) h') \<longleftrightarrow>
     (if h' = h \<and> u' = u then T < now + seconds 900 else u' \<in> set (list_deleted_vm_uuids T s h'))"
  using assms tombstone_key_inj [OF assms(3,2), of u' u]
  by (auto simp: cache_scan_tombstones is_vm_deleted_def mark_vm_deleted_def cache_get_set VM_TOMBSTONE_TTL_def)

theorem tombstone_window_witness:
  "''g'' \<in> set (list_deleted_vm_uuids 5 (mark_vm_deleted 0 ''h1'' ''g'' []) ''h1'')
   \<and> ''g'' \<notin> set (list_deleted_vm_uuids 900000000 (mark_vm_deleted 0 ''h1'' ''g'' []) ''h1'')
   \<and> ''g'' \<notin> set (list_deleted_vm_uuids 5 (mark_vm_deleted 0 ''h1'' ''g'' []) ''h2'')"
  using tombstone_window [of "''g''" "''h1''" "''h1''" "''g''" _ 0 "[]"]
    tombstone_window [of "''g''" "''h1''" "''h2''" "''g''" 5 0 "[]"]
  by (simp add: seconds_def cache_scan_tombstones is_vm_deleted_def cache_get_def)

end
