(* ===== verification/Messaging.thy ===== *)
theory Messaging
  imports Cache
begin

text \<open>
  \<^verbatim>\<open>app/messaging\<close>: the queues of a host, the permissions of its agent user, the request the backend
  publishes and the response it consumes, and the state of the world the services act on: the
  database, the cache, the broker's queues and users. A connection that is down is a flag of the
  world; every operation over it then raises.
\<close>

section \<open>Queues\<close>

datatype queue_kind =
    REQUEST | RESPONSE | AGENT_STATUS | VM_INVENTORY | HOST_INVENTORY | TEMPLATE_INVENTORY
  | ISO_INVENTORY | VM_METRICS | HOST_METRICS

fun kind_value :: "queue_kind \<Rightarrow> string" where
  "kind_value REQUEST = ''request''"
| "kind_value RESPONSE = ''response''"
| "kind_value AGENT_STATUS = ''agent_status''"
| "kind_value VM_INVENTORY = ''vm_inventory''"
| "kind_value HOST_INVENTORY = ''host_inventory''"
| "kind_value TEMPLATE_INVENTORY = ''template_inventory''"
| "kind_value ISO_INVENTORY = ''iso_inventory''"
| "kind_value VM_METRICS = ''vm_metrics''"
| "kind_value HOST_METRICS = ''host_metrics''"

definition CONSUMED_KINDS :: "queue_kind list" where
  "CONSUMED_KINDS = [RESPONSE, AGENT_STATUS, VM_INVENTORY, HOST_INVENTORY, TEMPLATE_INVENTORY, ISO_INVENTORY,
     VM_METRICS, HOST_METRICS]"

definition LAST_VALUE_KINDS :: "queue_kind list" where
  "LAST_VALUE_KINDS = [AGENT_STATUS, VM_INVENTORY, HOST_INVENTORY, TEMPLATE_INVENTORY, ISO_INVENTORY]"

definition ALL_KINDS :: "queue_kind list" where
  "ALL_KINDS = [REQUEST, RESPONSE, AGENT_STATUS, VM_INVENTORY, HOST_INVENTORY, TEMPLATE_INVENTORY, ISO_INVENTORY,
     VM_METRICS, HOST_METRICS]"

definition queue_name :: "string \<Rightarrow> queue_kind \<Rightarrow> string" where
  "queue_name host_ref kind = host_ref @ ''.'' @ kind_value kind"

text \<open>The arguments of a declaration: for a last-value queue its maximal length, with drop-head.\<close>

definition queue_args :: "settings \<Rightarrow> queue_kind \<Rightarrow> (int \<times> string) option" where
  "queue_args st kind =
     (if kind \<in> set LAST_VALUE_KINDS then Some (inventory_queue_max_length st, ''drop-head'') else None)"

section \<open>Permissions\<close>

text \<open>The patterns use literals, alternatives and \<^verbatim>\<open>.*\<close>, anchored at both ends. \<open>rx_rest\<close> gives the
  remainders after a match of a prefix; the empty remainder is a full match.\<close>

datatype rx = RLit string | RDotStar | RSeq rx rx | RAlt rx rx

fun rx_rest :: "rx \<Rightarrow> string \<Rightarrow> string list" where
  "rx_rest (RLit l) s = (if py_startswith s l then [drop (length l) s] else [])"
| "rx_rest RDotStar s =
     map (\<lambda>n. drop n s) [0..<Suc (length (takeWhile (\<lambda>c. c \<noteq> CHR 0x0A) s))]"
| "rx_rest (RSeq a b) s = concat (map (rx_rest b) (rx_rest a s))"
| "rx_rest (RAlt a b) s = rx_rest a s @ rx_rest b s"

definition rx_matches :: "rx \<Rightarrow> string \<Rightarrow> bool" where
  "rx_matches r s \<longleftrightarrow> [] \<in> set (rx_rest r s)"

definition QUEUE_BODY :: rx where
  "QUEUE_BODY = RAlt (RLit ''request'') (RAlt (RLit ''response'') (RAlt (RLit ''agent_status'')
     (RAlt (RSeq RDotStar (RLit ''_inventory'')) (RSeq RDotStar (RLit ''_metrics'')))))"

text \<open>The host reference is hexadecimal, so it is a literal in the pattern.\<close>

definition agent_permission_pattern :: "string \<Rightarrow> rx" where
  "agent_permission_pattern host_ref = RSeq (RLit (host_ref @ ''.'')) QUEUE_BODY"

definition agent_write_pattern :: "string \<Rightarrow> rx" where
  "agent_write_pattern host_ref =
     RAlt (RSeq (RLit (host_ref @ ''.'')) QUEUE_BODY) (RAlt (RLit ''amq.default'') (RLit []))"

section \<open>Messages\<close>

record agent_request =
  Request_id :: ident
  Request_function :: string
  Request_params :: jobj
  Request_requested_by :: string
  Request_issued_at :: instant

text \<open>\<open>Response_result\<close> is a JSON object, a text or absent.\<close>

record agent_response =
  Response_id :: ident
  Response_function :: string
  Response_status :: string
  Response_progress :: "int option"
  Response_progress_message :: "string option"
  Response_result :: "json option"
  Response_error :: "string option"
  Response_vm_id :: "ident option"
  Response_vm_state :: "string option"
  Response_vm_status :: "jobj option"
  Response_template :: "jobj option"
  Response_finished_at :: "string option"

section \<open>The world\<close>

text \<open>\<open>w_files\<close> is what the agent storage (a directory or a bucket) holds; \<open>w_store_up\<close> says whether it accepts
  operations.\<close>

record rmq_user =
  rmq_password :: string
  rmq_configure :: "rx option"
  rmq_write :: "rx option"
  rmq_read :: "rx option"

record world =
  w_db :: database
  w_cache :: store
  w_now :: instant
  w_queues :: "(string \<times> agent_request list) list"
  w_users :: "(string \<times> rmq_user) list"
  w_broker_up :: bool
  w_cache_up :: bool
  w_mgmt_up :: bool
  w_files :: "(string \<times> string) list"
  w_store_up :: bool

text \<open>A computation on the world returns a result or an exception, with the world as it left it.\<close>

type_synonym 'a act = "world \<Rightarrow> 'a res \<times> world"

definition ret :: "'a \<Rightarrow> 'a act" where
  "ret x w = (Inr x, w)"

definition raise :: "exn \<Rightarrow> 'a act" where
  "raise e w = (Inl e, w)"

definition bind_act :: "'a act \<Rightarrow> ('a \<Rightarrow> 'b act) \<Rightarrow> 'b act" where
  "bind_act m f w = (case m w of (Inl e, w') \<Rightarrow> (Inl e, w') | (Inr x, w') \<Rightarrow> f x w')"

definition lift_res :: "(database \<Rightarrow> ('a \<times> database) res) \<Rightarrow> 'a act" where
  "lift_res f w = (case f (w_db w) of Inl e \<Rightarrow> (Inl e, w) | Inr (x, db) \<Rightarrow> (Inr x, w\<lparr>w_db := db\<rparr>))"

definition read_db :: "(database \<Rightarrow> 'a res) \<Rightarrow> 'a act" where
  "read_db f w = (f (w_db w), w)"

definition write_db :: "(database \<Rightarrow> database) \<Rightarrow> unit act" where
  "write_db f w = (Inr (), w\<lparr>w_db := f (w_db w)\<rparr>)"

definition cache_act :: "(instant \<Rightarrow> store \<Rightarrow> 'a \<times> store) \<Rightarrow> 'a act" where
  "cache_act f w = (if w_cache_up w then let (x, s) = f (w_now w) (w_cache w) in (Inr x, w\<lparr>w_cache := s\<rparr>)
     else (Inl CacheError, w))"

text \<open>\<^verbatim>\<open>session_scope\<close> and the request session: an exception rolls the database back; the cache and
  the broker keep what was done.\<close>

definition session_scope :: "'a act \<Rightarrow> 'a act" where
  "session_scope m w = (case m w of (Inl e, w') \<Rightarrow> (Inl e, w'\<lparr>w_db := w_db w\<rparr>) | r \<Rightarrow> r)"

text \<open>\<^verbatim>\<open>publish_request\<close>: the request queue is declared if need be, and the message appended.\<close>

definition publish_request :: "string \<Rightarrow> agent_request \<Rightarrow> unit act" where
  "publish_request host_ref req w =
     (if \<not> w_broker_up w then (Inl BrokerError, w)
      else let q = queue_name host_ref REQUEST in
           (Inr (), w\<lparr>w_queues := AList.update q
              (case map_of (w_queues w) q of None \<Rightarrow> [req] | Some ms \<Rightarrow> ms @ [req]) (w_queues w)\<rparr>))"

definition declare_host_queues :: "string \<Rightarrow> unit act" where
  "declare_host_queues host_ref w =
     (if \<not> w_broker_up w then (Inl BrokerError, w)
      else (Inr (), w\<lparr>w_queues := foldl (\<lambda>qs k. case map_of qs (queue_name host_ref k) of
              None \<Rightarrow> AList.update (queue_name host_ref k) [] qs | Some _ \<Rightarrow> qs) (w_queues w) ALL_KINDS\<rparr>))"

definition delete_host_queues :: "string \<Rightarrow> unit act" where
  "delete_host_queues host_ref w =
     (if \<not> w_broker_up w then (Inl BrokerError, w)
      else (Inr (), w\<lparr>w_queues := filter (\<lambda>q. fst q \<notin> queue_name host_ref ` set ALL_KINDS) (w_queues w)\<rparr>))"

text \<open>The management API: users and permissions; a user that is already gone is not an error.\<close>

definition upsert_user :: "string \<Rightarrow> string \<Rightarrow> unit act" where
  "upsert_user name password w =
     (if \<not> w_mgmt_up w then (Inl RuntimeError, w)
      else (Inr (), w\<lparr>w_users := AList.update name
              (case map_of (w_users w) name of
                 None \<Rightarrow> \<lparr>rmq_password = password, rmq_configure = None, rmq_write = None, rmq_read = None\<rparr>
               | Some u \<Rightarrow> u\<lparr>rmq_password := password\<rparr>) (w_users w)\<rparr>))"

definition set_permissions :: "string \<Rightarrow> rx \<Rightarrow> rx \<Rightarrow> rx \<Rightarrow> unit act" where
  "set_permissions name configure write read w =
     (if \<not> w_mgmt_up w then (Inl RuntimeError, w)
      else case map_of (w_users w) name of
        None \<Rightarrow> (Inl RuntimeError, w)
      | Some u \<Rightarrow> (Inr (), w\<lparr>w_users := AList.update name
           (u\<lparr>rmq_configure := Some configure, rmq_write := Some write, rmq_read := Some read\<rparr>) (w_users w)\<rparr>))"

definition delete_user :: "string \<Rightarrow> unit act" where
  "delete_user name w =
     (if \<not> w_mgmt_up w then (Inl RuntimeError, w)
      else (Inr (), w\<lparr>w_users := filter (\<lambda>u. fst u \<noteq> name) (w_users w)\<rparr>))"

section \<open>Lemmas\<close>

named_theorems act_simps

lemma act_basic [simp, act_simps]:
  "bind_act (ret x) f = f x" "bind_act (raise e) g = raise e"
  by (simp_all add: bind_act_def ret_def raise_def fun_eq_iff)

lemma bind_act_Inr:
  "bind_act m f w = (Inr y, w') \<longleftrightarrow> (\<exists>x w1. m w = (Inr x, w1) \<and> f x w1 = (Inr y, w'))"
  by (auto simp: bind_act_def split: prod.splits sum.splits)

lemma bind_act_Inl:
  "bind_act m f w = (Inl e, w') \<longleftrightarrow> m w = (Inl e, w') \<or> (\<exists>x w1. m w = (Inr x, w1) \<and> f x w1 = (Inl e, w'))"
  by (auto simp: bind_act_def split: prod.splits sum.splits)

lemma session_scope_Inl: "session_scope m w = (Inl e, w') \<Longrightarrow> w_db w' = w_db w"
  by (auto simp: session_scope_def split: prod.splits sum.splits)

lemma session_scope_Inr: "session_scope m w = (Inr x, w') \<longleftrightarrow> m w = (Inr x, w')"
  by (auto simp: session_scope_def split: prod.splits sum.splits)

lemma set_rx_lit: "r \<in> set (rx_rest (RLit l) s) \<longleftrightarrow> s = l @ r"
  by (auto simp: py_startswith_iff py_startswith_def append_eq_conv_conj)

lemma kind_value_no_dot: "CHR ''.'' \<notin> set (kind_value k)"
  by (cases k) simp_all

lemma set_rx_star: "r \<in> set (rx_rest RDotStar s) \<longleftrightarrow> (\<exists>p. s = p @ r \<and> CHR 0x0A \<notin> set p)"
proof
  let ?t = "takeWhile (\<lambda>c. c \<noteq> CHR 0x0A) s"
  assume "r \<in> set (rx_rest RDotStar s)"
  then obtain n where n0: "n \<in> set [0..<Suc (length ?t)]" and r: "r = drop n s"
    unfolding rx_rest.simps set_map by blast
  from n0 r have n: "n \<le> length ?t" "r = drop n s" by auto
  have "take n s = take n ?t" using n(1) by (metis append_take_drop_id take_append takeWhile_eq_take diff_is_0_eq take_0 append_Nil2)
  then have "CHR 0x0A \<notin> set (take n s)" by (metis in_set_takeD set_takeWhileD)
  with n(2) show "\<exists>p. s = p @ r \<and> CHR 0x0A \<notin> set p" by (metis append_take_drop_id)
next
  assume "\<exists>p. s = p @ r \<and> CHR 0x0A \<notin> set p"
  then obtain p where p: "s = p @ r" "CHR 0x0A \<notin> set p" by blast
  then have "takeWhile (\<lambda>c. c \<noteq> CHR 0x0A) s = p @ takeWhile (\<lambda>c. c \<noteq> CHR 0x0A) r"
    by (auto intro!: takeWhile_append2)
  then have "length p \<in> set [0..<Suc (length (takeWhile (\<lambda>c. c \<noteq> CHR 0x0A) s))]" by simp
  moreover have "r = drop (length p) s" using p(1) by simp
  ultimately show "r \<in> set (rx_rest RDotStar s)" by (simp only: rx_rest.simps set_map) blast
qed

lemma rx_matches_seq_lit: "rx_matches (RSeq (RLit l) r) s \<longleftrightarrow> (\<exists>t. s = l @ t \<and> rx_matches r t)"
  by (auto simp: rx_matches_def set_rx_lit simp del: rx_rest.simps(1))

lemma rx_matches_alt: "rx_matches (RAlt a b) s \<longleftrightarrow> rx_matches a s \<or> rx_matches b s"
  by (simp add: rx_matches_def)

lemma rx_matches_lit: "rx_matches (RLit l) s \<longleftrightarrow> s = l"
  by (simp only: rx_matches_def set_rx_lit append_Nil2)

lemma rx_matches_star_lit: "rx_matches (RSeq RDotStar (RLit l)) s \<longleftrightarrow> (\<exists>p. s = p @ l \<and> CHR 0x0A \<notin> set p)"
proof -
  have "rx_matches (RSeq RDotStar (RLit l)) s \<longleftrightarrow> (\<exists>t \<in> set (rx_rest RDotStar s). rx_matches (RLit l) t)"
    unfolding rx_matches_def rx_rest.simps(3) set_concat set_map by blast
  then show ?thesis by (auto simp: rx_matches_lit set_rx_star simp del: rx_rest.simps)
qed

lemma queue_body_kind: "rx_matches QUEUE_BODY (kind_value k)"
proof -
  have inv: "kind_value VM_INVENTORY = ''vm'' @ ''_inventory''" "kind_value HOST_INVENTORY = ''host'' @ ''_inventory''"
    "kind_value TEMPLATE_INVENTORY = ''template'' @ ''_inventory''" "kind_value ISO_INVENTORY = ''iso'' @ ''_inventory''"
    "kind_value VM_METRICS = ''vm'' @ ''_metrics''" "kind_value HOST_METRICS = ''host'' @ ''_metrics''" by simp_all
  have star: "rx_matches (RSeq RDotStar (RLit l)) (p @ l)" if "CHR 0x0A \<notin> set p" for p l
    using that unfolding rx_matches_star_lit by blast
  show ?thesis
    unfolding QUEUE_BODY_def rx_matches_alt rx_matches_lit
    by (cases k) (simp_all only: inv, auto intro!: star simp del: append.simps)
qed

lemma queue_name_inj:
  assumes "CHR ''.'' \<notin> set a" "CHR ''.'' \<notin> set b" "a @ ''.'' @ s = b @ ''.'' @ t"
  shows "a = b \<and> s = t"
  using separator_inj [OF assms(1,2), of s t] assms(3) by simp

lemma own_pattern:
  assumes "CHR ''.'' \<notin> set r" "CHR ''.'' \<notin> set r'"
  shows "rx_matches (agent_permission_pattern r) (queue_name r' k) \<longleftrightarrow> r = r'"
proof
  assume "rx_matches (agent_permission_pattern r) (queue_name r' k)"
  then obtain t where "queue_name r' k = (r @ ''.'') @ t"
    unfolding agent_permission_pattern_def rx_matches_seq_lit by blast
  then show "r = r'" using queue_name_inj [OF assms(2,1), of "kind_value k" t] by (simp add: queue_name_def)
next
  assume "r = r'"
  then show "rx_matches (agent_permission_pattern r) (queue_name r' k)"
    unfolding agent_permission_pattern_def rx_matches_seq_lit using queue_body_kind [of k]
    by (auto simp: queue_name_def)
qed

section \<open>Properties\<close>

text \<open>C17: The broker permissions isolate agents: the configure/read pattern and the write pattern of a
  host match each queue of that host and no queue of any other host, and the write pattern also admits
  the default exchange (by name and by the empty name), over which the agent publishes.\<close>

theorem agent_permissions_isolate:
  assumes "CHR ''.'' \<notin> set r" and "CHR ''.'' \<notin> set r'"
  shows "(rx_matches (agent_permission_pattern r) (queue_name r' k) \<longleftrightarrow> r = r')
    \<and> (rx_matches (agent_write_pattern r) (queue_name r' k) \<longleftrightarrow> r = r')
    \<and> rx_matches (agent_write_pattern r) ''amq.default'' \<and> rx_matches (agent_write_pattern r) []"
proof -
  have "queue_name r' k \<noteq> ''amq.default''"
    using queue_name_inj [of r' "''amq''" "kind_value k" "''default''"] assms(2)
    by (cases k) (auto simp: queue_name_def)
  moreover have "queue_name r' k \<noteq> []" by (simp add: queue_name_def)
  moreover have "rx_matches (agent_write_pattern r) s \<longleftrightarrow>
      rx_matches (agent_permission_pattern r) s \<or> s = ''amq.default'' \<or> s = []" for s
    by (simp only: agent_write_pattern_def agent_permission_pattern_def rx_matches_alt rx_matches_lit)
  ultimately show ?thesis using own_pattern [OF assms] by blast
qed

theorem agent_permissions_isolate_witness:
  "rx_matches (agent_permission_pattern ''ab12'') (queue_name ''ab12'' VM_METRICS)
   \<and> \<not> rx_matches (agent_permission_pattern ''ab12'') (queue_name ''b12'' REQUEST)"
  using agent_permissions_isolate [of "''ab12''" "''ab12''" VM_METRICS]
    agent_permissions_isolate [of "''ab12''" "''b12''" REQUEST] by simp

end
