(* ===== verification/Serializers.thy ===== *)
theory Serializers
  imports Messaging Rbac "HOL-Library.Char_ord" "HOL-Library.List_Lexorder"
begin

text \<open>
  \<^verbatim>\<open>app/services/serializers.py\<close>: when a host counts as connected, and the view of a VM with its
  state overlay and lock. The views of hosts, folders, VLANs, images and tasks copy their rows, so the
  rows stand for them.
\<close>

section \<open>Definitions\<close>

definition agent_connected :: "settings \<Rightarrow> instant \<Rightarrow> host \<Rightarrow> bool" where
  "agent_connected st now h = (case Host_agent_last_seen h of None \<Rightarrow> False
     | Some last_seen \<Rightarrow> now - seconds (agent_offline_after_seconds st) \<le> last_seen)"

record host_agent_status =
  Agent_version :: "string option"
  Agent_last_seen :: "instant option"
  Agent_connected :: bool
  Agent_refresh_intervals :: "(int \<times> int) option"

definition agent_status :: "settings \<Rightarrow> instant \<Rightarrow> host \<Rightarrow> host_agent_status" where
  "agent_status st now h = \<lparr>Agent_version = Host_agent_version h, Agent_last_seen = Host_agent_last_seen h,
     Agent_connected = agent_connected st now h,
     Agent_refresh_intervals = (case (Host_agent_refresh_vm h, Host_agent_refresh_host h) of
        (Some a, Some b) \<Rightarrow> Some (a, b) | _ \<Rightarrow> None)\<rparr>"

record host_view =
  HostOut_id :: ident
  HostOut_short_id :: string
  HostOut_cluster_id :: "ident option"
  HostOut_name :: string
  HostOut_fqdn :: "string option"
  HostOut_ip_address :: "string option"
  HostOut_hypervisor :: string
  HostOut_online :: bool
  HostOut_agent :: host_agent_status
  HostOut_vm_count :: nat

definition host_out :: "settings \<Rightarrow> instant \<Rightarrow> host \<Rightarrow> nat \<Rightarrow> host_view" where
  "host_out st now h n = \<lparr>HostOut_id = Host_id h, HostOut_short_id = Host_short_id h,
     HostOut_cluster_id = Host_cluster_id h, HostOut_name = Host_name h, HostOut_fqdn = Host_fqdn h,
     HostOut_ip_address = Host_ip_address h, HostOut_hypervisor = Host_hypervisor h,
     HostOut_online = agent_connected st now h, HostOut_agent = agent_status st now h, HostOut_vm_count = n\<rparr>"

record disk_view =
  DiskOut_id :: string
  DiskOut_path :: string
  DiskOut_controller :: string
  DiskOut_size_bytes :: int
  DiskOut_used_bytes :: "int option"
  DiskOut_type :: string
  DiskOut_format :: string

definition disk_out :: "vm_disk \<Rightarrow> disk_view" where
  "disk_out d = \<lparr>DiskOut_id = or_empty (VmDisk_disk_id d), DiskOut_path = or_empty (VmDisk_path d),
     DiskOut_controller = or_empty (VmDisk_controller d),
     DiskOut_size_bytes = (case VmDisk_size_bytes d of None \<Rightarrow> 0 | Some n \<Rightarrow> n),
     DiskOut_used_bytes = VmDisk_used_bytes d, DiskOut_type = or_empty (VmDisk_type d),
     DiskOut_format = or_empty (VmDisk_format d)\<rparr>"

record nic_view =
  NicOut_id :: string
  NicOut_name :: string
  NicOut_switch_name :: string
  NicOut_vlan_id :: "int option"
  NicOut_mac_address :: string
  NicOut_ip_addresses :: "string list"
  NicOut_connected :: bool

definition nic_out :: "vm_nic \<Rightarrow> nic_view" where
  "nic_out n = \<lparr>NicOut_id = or_empty (VmNic_nic_id n), NicOut_name = VmNic_name n,
     NicOut_switch_name = or_empty (VmNic_switch_name n), NicOut_vlan_id = VmNic_vlan_id n,
     NicOut_mac_address = or_empty (VmNic_mac_address n), NicOut_ip_addresses = VmNic_ip_addresses n,
     NicOut_connected = VmNic_connected n\<rparr>"

text \<open>\<open>VmOut_columns\<close> stands for the columns the view copies unchanged (name, ids, sizes, flags, dates).\<close>

record vm_view =
  VmOut_columns :: vm
  VmOut_state :: string
  VmOut_firmware :: string
  VmOut_disks :: "disk_view list"
  VmOut_nics :: "nic_view list"
  VmOut_tag_ids :: "ident list"
  VmOut_lock :: "lock_info option"

definition vm_tag_ids :: "database \<Rightarrow> ident \<Rightarrow> ident list" where
  "vm_tag_ids db i = sort (map snd (filter (\<lambda>p. fst p = i) (db_vm_tags db)))"

definition vm_out ::
  "database \<Rightarrow> vm \<Rightarrow> string option \<Rightarrow> lock_info option \<Rightarrow> bool \<Rightarrow> vm_view"
where
  "vm_out db v override lock host_offline =
     \<lparr>VmOut_columns = v,
      VmOut_state = (if host_offline then ''Unknown''
        else if opt_truthy override then or_empty override else Vm_state v),
      VmOut_firmware = (if Vm_firmware v = [] then ''UEFI'' else Vm_firmware v),
      VmOut_disks = map disk_out (Vm_disks v), VmOut_nics = map nic_out (Vm_nics v),
      VmOut_tag_ids = vm_tag_ids db (Vm_id v), VmOut_lock = lock\<rparr>"

end
