(* ===== verification/Vm_Rows.thy ===== *)
theory Vm_Rows
  imports Models Base64
begin

text \<open>
  The first half of \<^verbatim>\<open>app/services/inventory.py\<close>: an agent's report of one VM, from JSON to the row.
  \<open>normalize_vm\<close> maps the report to the canonical shape, \<open>write_vm_row\<close> copies that onto a row (all of
  it, or only what the report contains), \<open>pop_thumbnail\<close> takes the console image out of the report. A
  value of the wrong type for its column is refused by the driver when the session is flushed; here
  it is the exception of the write.
\<close>

section \<open>JSON access\<close>

definition opt_int :: "int option \<Rightarrow> json" where
  "opt_int x = (case x of None \<Rightarrow> JNull | Some n \<Rightarrow> JInt n)"

definition opt_float :: "pyfloat option \<Rightarrow> json" where
  "opt_float x = (case x of None \<Rightarrow> JNull | Some f \<Rightarrow> JFloat f)"

text \<open>\<^verbatim>\<open>for x in v\<close>: a list's elements, an object's keys, a text's characters.\<close>

fun iter_json :: "json \<Rightarrow> json list res" where
  "iter_json (JList xs) = Inr xs"
| "iter_json (JObj d) = Inr (map (\<lambda>kv. JStr (fst kv)) d)"
| "iter_json (JStr s) = Inr (map (\<lambda>c. JStr [c]) s)"
| "iter_json _ = Inl TypeError"

text \<open>\<^verbatim>\<open>[... for x in v if isinstance(x, dict)]\<close>.\<close>

definition iter_dicts :: "json \<Rightarrow> jobj list res" where
  "iter_dicts v = sbind (iter_json v) (\<lambda>xs. Inr (List.map_filter as_dict xs))"

text \<open>\<^verbatim>\<open>x.get\<close> of something that must be an object.\<close>

definition need_dict :: "json \<Rightarrow> jobj res" where
  "need_dict v = (case as_dict v of None \<Rightarrow> Inl AttributeError | Some d \<Rightarrow> Inr d)"

text \<open>\<^verbatim>\<open>(v or "").upper()\<close>.\<close>

definition upper_of :: "json \<Rightarrow> string res" where
  "upper_of v = (if \<not> truthy v then Inr [] else case v of JStr s \<Rightarrow> Inr (py_upper s) | _ \<Rightarrow> Inl AttributeError)"

text \<open>\<^verbatim>\<open>int(v)\<close>: texts are an optional sign and groups of digits joined by underscores.\<close>

definition is_digit :: "char \<Rightarrow> bool" where
  "is_digit c \<longleftrightarrow> 48 \<le> (of_char c :: nat) \<and> (of_char c :: nat) \<le> 57"

definition digits_value :: "string \<Rightarrow> int" where
  "digits_value ds = foldl (\<lambda>n c. n * 10 + int (of_char c - 48 :: nat)) 0 ds"

definition nat_of_str :: "string \<Rightarrow> int option" where
  "nat_of_str s = (let parts = py_split (CHR ''_'') s in
     if list_all (\<lambda>p. p \<noteq> [] \<and> list_all is_digit p) parts then Some (digits_value (concat parts)) else None)"

definition int_of_str :: "string \<Rightarrow> int option" where
  "int_of_str s = (case py_strip s of
     [] \<Rightarrow> None
   | c # t \<Rightarrow> if c = CHR ''-'' then map_option uminus (nat_of_str t)
       else if c = CHR ''+'' then nat_of_str t else nat_of_str (c # t))"

fun py_int :: "json \<Rightarrow> int res" where
  "py_int (JInt n) = Inr n"
| "py_int (JBool b) = Inr (if b then 1 else 0)"
| "py_int (JFloat (Fin q)) = Inr (if 0 \<le> q then \<lfloor>q\<rfloor> else \<lceil>q\<rceil>)"
| "py_int (JFloat NaN) = Inl ValueError"
| "py_int (JFloat _) = Inl OverflowError"
| "py_int (JStr s) = (case int_of_str s of None \<Rightarrow> Inl ValueError | Some n \<Rightarrow> Inr n)"
| "py_int _ = Inl TypeError"

subsection \<open>Columns\<close>

fun str_col :: "json \<Rightarrow> string option res" where
  "str_col JNull = Inr None"
| "str_col (JStr s) = Inr (Some s)"
| "str_col _ = Inl DBAPIError"

fun int_col :: "json \<Rightarrow> int option res" where
  "int_col JNull = Inr None"
| "int_col (JInt n) = Inr (Some n)"
| "int_col (JBool b) = Inr (Some (if b then 1 else 0))"
| "int_col _ = Inl DBAPIError"

fun float_col :: "json \<Rightarrow> pyfloat option res" where
  "float_col JNull = Inr None"
| "float_col (JFloat f) = Inr (Some f)"
| "float_col (JInt n) = sbind (float_of_int n) (\<lambda>f. Inr (Some f))"
| "float_col (JBool b) = Inr (Some (Fin (if b then 1 else 0)))"
| "float_col _ = Inl DBAPIError"

fun bool_col :: "json \<Rightarrow> bool option res" where
  "bool_col JNull = Inr None"
| "bool_col (JBool b) = Inr (Some b)"
| "bool_col (JInt n) = (if n = 0 then Inr (Some False) else if n = 1 then Inr (Some True) else Inl DBAPIError)"
| "bool_col _ = Inl DBAPIError"

text \<open>A column that is not nullable, and \<^verbatim>\<open>v or None\<close>, \<^verbatim>\<open>v or ""\<close>.\<close>

definition req_str_col :: "json \<Rightarrow> string res" where
  "req_str_col v = sbind (str_col v) (\<lambda>x. case x of None \<Rightarrow> Inl IntegrityError | Some s \<Rightarrow> Inr s)"

definition or_none :: "json \<Rightarrow> json" where
  "or_none v = (if truthy v then v else JNull)"

definition or_blank :: "json \<Rightarrow> json" where
  "or_blank v = (if truthy v then v else JStr [])"

section \<open>Thumbnails\<close>

definition MAX_THUMBNAIL_BYTES :: nat where
  "MAX_THUMBNAIL_BYTES = 262144"

definition JPEG_MAGIC :: string where
  "JPEG_MAGIC = [CHR 0xFF, CHR 0xD8, CHR 0xFF]"

definition thumbnail_of :: "json \<Rightarrow> string option" where
  "thumbnail_of v = (case v of
     JStr s \<Rightarrow> if s = [] then None
       else (case b64decode_strict s of None \<Rightarrow> None
         | Some img \<Rightarrow> if MAX_THUMBNAIL_BYTES < length img \<or> \<not> py_startswith img JPEG_MAGIC
             then None else Some img)
   | _ \<Rightarrow> None)"

definition pop_thumbnail :: "jobj \<Rightarrow> string option \<times> jobj" where
  "pop_thumbnail raw = (thumbnail_of (jget raw ''thumbnail''), jpop raw ''thumbnail'')"

text \<open>Insert, or replace on a conflict on the VM id.\<close>

definition upsert_thumbnail :: "instant \<Rightarrow> ident \<times> string \<Rightarrow> vm_thumbnail list \<Rightarrow> vm_thumbnail list" where
  "upsert_thumbnail captured p t =
     (let row = \<lparr>VmThumbnail_vm_id = fst p, VmThumbnail_image = snd p, VmThumbnail_content_type = ''image/jpeg'',
                 VmThumbnail_captured_at = captured\<rparr>
      in if fst p \<in> VmThumbnail_vm_id ` set t then tupd VmThumbnail_vm_id (fst p) (\<lambda>_. row) t else t @ [row])"

definition upsert_thumbnails :: "(ident \<times> string) list \<Rightarrow> instant \<Rightarrow> database \<Rightarrow> database" where
  "upsert_thumbnails images captured db =
     db\<lparr>db_vm_thumbnails := fold (upsert_thumbnail captured) images (db_vm_thumbnails db)\<rparr>"

section \<open>Normalization\<close>

definition firmware_of :: "pyenv \<Rightarrow> jobj \<Rightarrow> string" where
  "firmware_of env item =
     (let fw = py_upper (py_str env (or_blank (jget item ''firmware''))) in
      if fw = ''BIOS'' \<or> fw = ''UEFI'' then fw
      else if eq_int (jget item ''generation'') 1 then ''BIOS'' else ''UEFI'')"

definition vhd_disk :: "pyenv \<Rightarrow> jobj \<Rightarrow> json res" where
  "vhd_disk env v =
     sbind (py_float env (jor (jget v ''sizeGb'') (JInt 0))) (\<lambda>gb.
     sbind (py_round (float_scale 30 gb)) (\<lambda>size.
     sbind (as_int env (jget v ''usedBytes'')) (\<lambda>used.
     sbind (upper_of (jget v ''format'')) (\<lambda>fmt.
       Inr (JObj [(''id'', or_blank (jor (jget v ''diskId'') (jget v ''id''))),
                  (''path'', jget_default v ''path'' (JStr [])),
                  (''controller'', jget_default v ''controller'' (JStr [])),
                  (''sizeBytes'', JInt size), (''usedBytes'', opt_int used),
                  (''type'', or_blank (jget v ''type'')), (''format'', JStr fmt)])))))"

definition norm_disks :: "pyenv \<Rightarrow> jobj \<Rightarrow> json res" where
  "norm_disks env item =
     (if jget item ''disks'' \<noteq> JNull then Inr (jget item ''disks'')
      else sbind (iter_dicts (jor (jget item ''vhds'') (JList []))) (\<lambda>vs.
           sbind (mapM (vhd_disk env) vs) (\<lambda>ds. Inr (JList ds))))"

definition agent_nic :: "pyenv \<Rightarrow> jobj \<Rightarrow> json" where
  "agent_nic env n = JObj
     [(''id'', jget_default n ''id'' (JStr [])), (''name'', jget_default n ''name'' (JStr [])),
      (''switchName'', or_blank (jor (jget n ''switchName'') (jget n ''networkId''))),
      (''vlanId'', jget n ''vlanId''), (''macAddress'', jget_default n ''macAddress'' (JStr [])),
      (''ipAddresses'', JList (map JStr (split_ips env (jget n ''ipAddresses'')))),
      (''connected'', JBool (truthy (jget_default n ''connected'' (JBool True))))]"

text \<open>\<^verbatim>\<open>nics[0]\<close> of a value that is not a list: an object has no key 0, a text has characters.\<close>

definition norm_nics :: "pyenv \<Rightarrow> jobj \<Rightarrow> json res" where
  "norm_nics env item =
     (let nics = jor (jget item ''nics'') (JList []) in
      if \<not> truthy nics then Inr nics
      else case nics of
        JList (n # ns) \<Rightarrow>
          (case as_dict n of None \<Rightarrow> Inr nics
           | Some d \<Rightarrow> if jhas d ''switchName'' then Inr nics
               else Inr (JList (map (agent_nic env) (List.map_filter as_dict (n # ns)))))
      | JStr _ \<Rightarrow> Inr nics
      | JObj _ \<Rightarrow> Inl KeyError
      | _ \<Rightarrow> Inl TypeError)"

definition norm_snapshot :: "jobj \<Rightarrow> json" where
  "norm_snapshot s = JObj
     [(''id'', or_blank (jor (jget s ''id'') (jget s ''snapshotId''))), (''name'', jget_default s ''name'' (JStr [])),
      (''parentId'', jor (jget s ''parentId'') (jget s ''parentSnapshotId'')),
      (''type'', or_none (jor (jget s ''type'') (jget s ''snapshotType''))),
      (''createdAt'', jor (jget s ''createdAt'') (jget s ''creationTime''))]"

definition norm_snapshots :: "jobj \<Rightarrow> json res" where
  "norm_snapshots item =
     (if jget item ''snapshots'' = JNull then Inr (JList [])
      else sbind (iter_dicts (jget item ''snapshots'')) (\<lambda>ss. Inr (JList (map norm_snapshot ss))))"

definition mem_obj :: "jobj \<Rightarrow> jobj" where
  "mem_obj item = (case as_dict (jget item ''memory'') of None \<Rightarrow> [] | Some d \<Rightarrow> d)"

definition norm_vcpu :: "jobj \<Rightarrow> json" where
  "norm_vcpu item = (if jget item ''vcpu'' \<noteq> JNull then jget item ''vcpu''
     else case as_dict (jget item ''cpu'') of None \<Rightarrow> JNull | Some d \<Rightarrow> jget d ''vcpus'')"

text \<open>Memory: bytes when reported, else MiB; \<^verbatim>\<open>... or 0\<close>.\<close>

definition norm_memory :: "pyenv \<Rightarrow> jobj \<Rightarrow> json res" where
  "norm_memory env item =
     (let bytes = jor (jget item ''memoryBytes'') (jget (mem_obj item) ''assignedBytes'') in
      if bytes \<noteq> JNull then Inr bytes
      else sbind (mib_to_bytes env (first_of item [''memoryMb'', ''memoryMB''])) (\<lambda>n.
             Inr (jor (opt_int n) (JInt 0))))"

definition norm_demand :: "pyenv \<Rightarrow> jobj \<Rightarrow> json res" where
  "norm_demand env item =
     (if jget item ''memoryDemandBytes'' \<noteq> JNull then Inr (jget item ''memoryDemandBytes'')
      else sbind (mib_to_bytes env (jget item ''memoryConsumedMb'')) (\<lambda>n. Inr (opt_int n)))"

definition int_or_zero :: "int option \<Rightarrow> json" where
  "int_or_zero x = JInt (case x of None \<Rightarrow> 0 | Some n \<Rightarrow> n)"

definition normalize_vm :: "pyenv \<Rightarrow> jobj \<Rightarrow> jobj res" where
  "normalize_vm env item =
     sbind (norm_memory env item) (\<lambda>memory.
     sbind (norm_demand env item) (\<lambda>demand.
     sbind (norm_disks env item) (\<lambda>disks.
     sbind (norm_nics env item) (\<lambda>nics.
     sbind (norm_snapshots item) (\<lambda>snapshots.
     sbind (as_int env memory) (\<lambda>memory_bytes.
     sbind (as_int env (jor (jget item ''memoryMinBytes'') (jget (mem_obj item) ''minBytes''))) (\<lambda>memory_min.
     sbind (as_int env (jor (jget item ''memoryMaxBytes'') (jget (mem_obj item) ''maxBytes''))) (\<lambda>memory_max.
     sbind (as_int env demand) (\<lambda>memory_demand.
     sbind (as_float env (first_of item [''cpuUsagePercent'', ''cpuUsagePct''])) (\<lambda>cpu_usage.
     sbind (as_int env (first_of item [''autoStartDelaySec'', ''automaticStartDelay''])) (\<lambda>delay.
       Inr [(''vmUuid'', jor (jget item ''id'') (jget item ''vmId'')),
            (''name'', jget item ''name''),
            (''state'', jget_default item ''state'' (JStr ''Unknown'')),
            (''metricsEnabled'', jget item ''metricsEnabled''),
            (''firmware'', JStr (firmware_of env item)),
            (''guestOs'', jget item ''guestOs''),
            (''uptimeSec'', jget item ''uptimeSec''),
            (''vcpu'', norm_vcpu item),
            (''memoryBytes'', int_or_zero memory_bytes),
            (''memoryMinBytes'', opt_int memory_min),
            (''memoryMaxBytes'', opt_int memory_max),
            (''memoryDynamic'', JBool (truthy (jor (jget item ''memoryDynamic'') (jget (mem_obj item) ''dynamic'')))),
            (''memoryDemandBytes'', opt_int memory_demand),
            (''cpuUsagePercent'', opt_float cpu_usage),
            (''secureBoot'', jget item ''secureBoot''),
            (''secureBootTemplate'', or_none (jget item ''secureBootTemplate'')),
            (''nestedVirtualization'', JBool (truthy (first_of item [''nestedVirtualization'', ''nested'']))),
            (''autoStartAction'', first_of item [''autoStartAction'', ''automaticStart'']),
            (''autoStartDelaySec'', opt_int delay),
            (''autoStopAction'', first_of item [''autoStopAction'', ''automaticStop'']),
            (''configPath'', first_of item [''configPath'', ''path'']),
            (''dvdPath'', first_of item [''dvdPath'', ''dvd'']),
            (''highlyAvailable'', JBool (truthy (first_of item [''highlyAvailable'', ''ha'']))),
            (''disks'', disks), (''nics'', nics), (''snapshots'', snapshots),
            (''notes'', jget item ''notes''),
            (''createdAt'', jor (jget item ''createdAt'') (jget item ''creationTime''))])))))))))))"

section \<open>Rows\<close>

definition disk_row :: "pyenv \<Rightarrow> json \<Rightarrow> vm_disk res" where
  "disk_row env j =
     sbind (need_dict j) (\<lambda>d.
     sbind (as_int env (jget d ''sizeBytes'')) (\<lambda>size.
     sbind (as_int env (jget d ''usedBytes'')) (\<lambda>used.
     sbind (str_col (or_none (jget d ''id''))) (\<lambda>i.
     sbind (str_col (or_none (jget d ''path''))) (\<lambda>path.
     sbind (str_col (or_none (jget d ''controller''))) (\<lambda>ctl.
     sbind (str_col (or_none (jget d ''type''))) (\<lambda>ty.
     sbind (str_col (or_none (jget d ''format''))) (\<lambda>fmt.
       Inr \<lparr>VmDisk_disk_id = i, VmDisk_path = path, VmDisk_controller = ctl, VmDisk_size_bytes = size,
            VmDisk_used_bytes = used, VmDisk_type = ty, VmDisk_format = fmt\<rparr>))))))))"

definition sync_disks :: "pyenv \<Rightarrow> json \<Rightarrow> vm \<Rightarrow> vm res" where
  "sync_disks env disks v =
     sbind (iter_json disks) (\<lambda>ds. sbind (mapM (disk_row env) ds) (\<lambda>rows. Inr (v\<lparr>Vm_disks := rows\<rparr>)))"

text \<open>\<^verbatim>\<open>list(n.get("ipAddresses") or [])\<close> into a text array.\<close>

definition ip_column :: "json \<Rightarrow> string list res" where
  "ip_column v = (if \<not> truthy v then Inr []
     else sbind (iter_json v) (mapM (\<lambda>x. case x of JStr s \<Rightarrow> Inr s | _ \<Rightarrow> Inl DBAPIError)))"

definition nic_row :: "json \<Rightarrow> vm_nic res" where
  "nic_row j =
     sbind (need_dict j) (\<lambda>n.
     sbind (ip_column (jget n ''ipAddresses'')) (\<lambda>ips.
     sbind (str_col (or_none (jget n ''id''))) (\<lambda>i.
     sbind (req_str_col (or_blank (jget n ''name''))) (\<lambda>nm.
     sbind (str_col (or_none (jget n ''switchName''))) (\<lambda>sw.
     sbind (str_col (or_none (jget n ''macAddress''))) (\<lambda>mac.
       Inr \<lparr>VmNic_nic_id = i, VmNic_name = nm, VmNic_switch_name = sw,
            VmNic_vlan_id = access_vlan (jget n ''vlanId''), VmNic_mac_address = mac, VmNic_ip_addresses = ips,
            VmNic_connected = truthy (jget_default n ''connected'' (JBool True))\<rparr>))))))"

definition sync_nics :: "json \<Rightarrow> vm \<Rightarrow> vm res" where
  "sync_nics nics v =
     sbind (iter_json nics) (\<lambda>ns. sbind (mapM nic_row ns) (\<lambda>rows. Inr (v\<lparr>Vm_nics := rows\<rparr>)))"

definition snapshot_row :: "pyenv \<Rightarrow> json \<Rightarrow> vm_snapshot res" where
  "snapshot_row env j =
     sbind (need_dict j) (\<lambda>s.
     sbind (req_str_col (or_blank (jget s ''id''))) (\<lambda>i.
     sbind (req_str_col (or_blank (jget s ''name''))) (\<lambda>nm.
     sbind (str_col (or_none (jget s ''parentId''))) (\<lambda>parent.
     sbind (str_col (or_none (jget s ''type''))) (\<lambda>ty.
       Inr \<lparr>VmSnapshot_snapshot_id = i, VmSnapshot_name = nm, VmSnapshot_parent_snapshot_id = parent,
            VmSnapshot_snapshot_type = ty,
            VmSnapshot_snapshot_created_at = map_option as_utc (parse_dt env (jget s ''createdAt''))\<rparr>)))))"

definition sync_snapshots :: "pyenv \<Rightarrow> json \<Rightarrow> vm \<Rightarrow> vm res" where
  "sync_snapshots env snapshots v =
     sbind (iter_json snapshots) (\<lambda>ss. sbind (mapM (snapshot_row env) ss) (\<lambda>rows. Inr (v\<lparr>Vm_snapshots := rows\<rparr>)))"

text \<open>The scalar columns: key of the normalized item, keys of the report that say it was reported, and
  the assignment.\<close>

definition VM_SCALAR_FIELDS :: "(string \<times> string list \<times> (json \<Rightarrow> vm \<Rightarrow> vm res)) list" where
  "VM_SCALAR_FIELDS =
    [(''uptimeSec'', [''uptimeSec''], \<lambda>j v. sbind (int_col j) (\<lambda>x. Inr (v\<lparr>Vm_uptime_sec := x\<rparr>))),
     (''memoryBytes'', [''memoryBytes'', ''memoryMb'', ''memoryMB'', ''memory''],
        \<lambda>j v. sbind (int_col j) (\<lambda>x. case x of None \<Rightarrow> Inl IntegrityError | Some n \<Rightarrow> Inr (v\<lparr>Vm_memory_bytes := n\<rparr>))),
     (''memoryMinBytes'', [''memoryMinBytes'', ''memory''], \<lambda>j v. sbind (int_col j) (\<lambda>x. Inr (v\<lparr>Vm_memory_min_bytes := x\<rparr>))),
     (''memoryMaxBytes'', [''memoryMaxBytes'', ''memory''], \<lambda>j v. sbind (int_col j) (\<lambda>x. Inr (v\<lparr>Vm_memory_max_bytes := x\<rparr>))),
     (''memoryDemandBytes'', [''memoryDemandBytes'', ''memoryConsumedMb''],
        \<lambda>j v. sbind (int_col j) (\<lambda>x. Inr (v\<lparr>Vm_memory_demand_bytes := x\<rparr>))),
     (''cpuUsagePercent'', [''cpuUsagePercent'', ''cpuUsagePct''],
        \<lambda>j v. sbind (float_col j) (\<lambda>x. Inr (v\<lparr>Vm_cpu_usage_percent := x\<rparr>))),
     (''secureBoot'', [''secureBoot''], \<lambda>j v. sbind (bool_col j) (\<lambda>x. Inr (v\<lparr>Vm_secure_boot := x\<rparr>))),
     (''secureBootTemplate'', [''secureBootTemplate''], \<lambda>j v. sbind (str_col j) (\<lambda>x. Inr (v\<lparr>Vm_secure_boot_template := x\<rparr>))),
     (''autoStartAction'', [''autoStartAction'', ''automaticStart''], \<lambda>j v. sbind (str_col j) (\<lambda>x. Inr (v\<lparr>Vm_auto_start_action := x\<rparr>))),
     (''autoStartDelaySec'', [''autoStartDelaySec'', ''automaticStartDelay''],
        \<lambda>j v. sbind (int_col j) (\<lambda>x. Inr (v\<lparr>Vm_auto_start_delay_sec := x\<rparr>))),
     (''autoStopAction'', [''autoStopAction'', ''automaticStop''], \<lambda>j v. sbind (str_col j) (\<lambda>x. Inr (v\<lparr>Vm_auto_stop_action := x\<rparr>))),
     (''configPath'', [''configPath'', ''path''], \<lambda>j v. sbind (str_col j) (\<lambda>x. Inr (v\<lparr>Vm_config_path := x\<rparr>))),
     (''dvdPath'', [''dvdPath'', ''dvd''], \<lambda>j v. sbind (str_col j) (\<lambda>x. Inr (v\<lparr>Vm_dvd_path := x\<rparr>))),
     (''notes'', [''notes''], \<lambda>j v. sbind (str_col j) (\<lambda>x. Inr (v\<lparr>Vm_notes := x\<rparr>)))]"

text \<open>\<^verbatim>\<open>has(*keys)\<close>, and an assignment made only under a condition.\<close>

definition reported :: "bool \<Rightarrow> jobj \<Rightarrow> string list \<Rightarrow> bool" where
  "reported partial raw ks \<longleftrightarrow> \<not> partial \<or> list_ex (jhas raw) ks"

definition when_ok :: "bool \<Rightarrow> (vm \<Rightarrow> vm res) \<Rightarrow> vm \<Rightarrow> vm res" where
  "when_ok b f v = (if b then f v else Inr v)"

definition write_name :: "bool \<Rightarrow> jobj \<Rightarrow> jobj \<Rightarrow> vm \<Rightarrow> vm res" where
  "write_name partial raw item v =
     (if reported partial raw [''name''] \<and> truthy (jget item ''name'')
      then sbind (req_str_col (jget item ''name'')) (\<lambda>s. Inr (v\<lparr>Vm_name := s\<rparr>))
      else if \<not> partial then Inr (v\<lparr>Vm_name := (if Vm_name v = [] then or_empty (Vm_vm_uuid v) else Vm_name v)\<rparr>)
      else Inr v)"

definition write_state :: "bool \<Rightarrow> jobj \<Rightarrow> vm \<Rightarrow> vm res" where
  "write_state partial item v =
     (if truthy (jget item ''state'') then sbind (req_str_col (jget item ''state'')) (\<lambda>s. Inr (v\<lparr>Vm_state := s\<rparr>))
      else Inr (if partial then v else v\<lparr>Vm_state := ''Unknown''\<rparr>))"

definition write_guest_os :: "jobj \<Rightarrow> vm \<Rightarrow> vm" where
  "write_guest_os item v = (case jget item ''guestOs'' of
     JStr s \<Rightarrow> if py_strip s = [] then v else v\<lparr>Vm_guest_os := Some (take 255 (py_strip s))\<rparr>
   | _ \<Rightarrow> v)"

definition write_vcpu :: "bool \<Rightarrow> jobj \<Rightarrow> vm \<Rightarrow> vm res" where
  "write_vcpu partial item v =
     sbind (py_int (jor (jget item ''vcpu'') (jor (JInt (if partial then Vm_vcpu v else 1)) (JInt 1))))
       (\<lambda>n. Inr (v\<lparr>Vm_vcpu := n\<rparr>))"

definition write_scalars :: "bool \<Rightarrow> jobj \<Rightarrow> jobj \<Rightarrow> vm \<Rightarrow> vm res" where
  "write_scalars partial raw item v =
     foldM (\<lambda>(k, raw_keys, put). when_ok (reported partial raw raw_keys) (put (jget item k))) VM_SCALAR_FIELDS v"

definition write_vm_row ::
  "pyenv \<Rightarrow> instant \<Rightarrow> jobj \<Rightarrow> jobj \<Rightarrow> ident \<Rightarrow> ident option \<Rightarrow> bool \<Rightarrow> vm \<Rightarrow> vm res"
where
  "write_vm_row env now raw item host_id cluster_id partial v =
     (let has = reported partial raw in
      sbind (write_name partial raw item (v\<lparr>Vm_host_id := host_id, Vm_cluster_id := cluster_id\<rparr>)) (\<lambda>v.
      sbind (when_ok (has [''state'', ''powerState'']) (write_state partial item) v) (\<lambda>v.
      sbind (Inr (write_guest_os item
               (if jget raw ''metricsEnabled'' = JNull then v
                else v\<lparr>Vm_metrics_enabled := truthy (jget item ''metricsEnabled'')\<rparr>))) (\<lambda>v.
      sbind (when_ok (has [''firmware'', ''generation''])
               (\<lambda>v. sbind (req_str_col (jget item ''firmware'')) (\<lambda>s. Inr (v\<lparr>Vm_firmware := s\<rparr>))) v) (\<lambda>v.
      sbind (when_ok (has [''vcpu'', ''cpu'']) (write_vcpu partial item) v) (\<lambda>v.
      sbind (when_ok (has [''memoryDynamic'', ''memory''])
               (\<lambda>v. Inr (v\<lparr>Vm_memory_dynamic := truthy (jget item ''memoryDynamic'')\<rparr>)) v) (\<lambda>v.
      sbind (when_ok (has [''nestedVirtualization'', ''nested''])
               (\<lambda>v. Inr (v\<lparr>Vm_nested_virtualization := truthy (jget item ''nestedVirtualization'')\<rparr>)) v) (\<lambda>v.
      sbind (when_ok (has [''highlyAvailable'', ''ha''])
               (\<lambda>v. Inr (v\<lparr>Vm_highly_available := truthy (jget item ''highlyAvailable'')\<rparr>)) v) (\<lambda>v.
      sbind (write_scalars partial raw item v) (\<lambda>v.
      sbind (when_ok (has [''createdAt'', ''creationTime''] \<and> truthy (jget item ''createdAt''))
               (\<lambda>v. Inr (v\<lparr>Vm_vm_created_at := map_option as_utc (parse_dt env (jget item ''createdAt''))\<rparr>)) v) (\<lambda>v.
      sbind (when_ok (has [''disks'', ''vhds'']) (sync_disks env (jget item ''disks'')) v) (\<lambda>v.
      sbind (when_ok (has [''nics'']) (sync_nics (jget item ''nics'')) v) (\<lambda>v.
      sbind (when_ok (has [''snapshots'']) (sync_snapshots env (jget item ''snapshots'')) v) (\<lambda>v.
        Inr (v\<lparr>Vm_last_inventory_at := Some now\<rparr>)))))))))))))))"

end
