(* ===== verification/Vms.thy ===== *)
theory Vms
  imports Serializers Organization Vm_Rows
begin

text \<open>
  \<^verbatim>\<open>app/services/vms.py\<close>: what may be asked of a VM. A mutating request takes the VM's lock, inserts
  a queued task, shows a transitional state and publishes a request to the host's agent; creating and
  cloning insert a placeholder row first. The services run on the world; ids of new rows are arguments,
  and the body records are the request models after validation.
\<close>

section \<open>Storage policy\<close>

text \<open>\<^verbatim>\<open>(path or "").strip().replace("/", "\\").rstrip("\\")\<close>.\<close>

definition norm_path :: "string \<Rightarrow> string" where
  "norm_path p = rstrip_by (\<lambda>c. c = CHR 0x5C) (py_replace_char (CHR ''/'') [CHR 0x5C] (py_strip p))"

definition is_letter :: "char \<Rightarrow> bool" where
  "is_letter c \<longleftrightarrow> 97 \<le> (of_char (lower_char c) :: nat) \<and> (of_char (lower_char c) :: nat) \<le> 122"

definition csv_prefix :: string where
  "csv_prefix = '':'' @ [CHR 0x5C] @ ''clusterstorage'' @ [CHR 0x5C]"

text \<open>\<^verbatim>\<open>^[a-z]:\\clusterstorage\\[^\\]+\<close>, ignoring case.\<close>

definition is_csv_path :: "string \<Rightarrow> bool" where
  "is_csv_path path \<longleftrightarrow> (case path of [] \<Rightarrow> False
     | c # rest \<Rightarrow> is_letter c \<and> py_startswith (py_lower rest) csv_prefix
         \<and> (case drop (length csv_prefix) rest of [] \<Rightarrow> False | d # _ \<Rightarrow> d \<noteq> CHR 0x5C))"

definition is_system_drive :: "string \<Rightarrow> bool" where
  "is_system_drive path \<longleftrightarrow> py_lower (take 2 path) = ''c:'' \<and> \<not> is_csv_path path"

text \<open>\<^verbatim>\<open>(d or {}).get(k)\<close> of a value that should be an object.\<close>

definition sub_get :: "json \<Rightarrow> string \<Rightarrow> json res" where
  "sub_get j k = (if \<not> truthy j then Inr JNull
     else case as_dict j of None \<Rightarrow> Inl AttributeError | Some d \<Rightarrow> Inr (jget d k))"

definition hardware_get :: "host \<Rightarrow> string \<Rightarrow> json" where
  "hardware_get h k = (case Host_hardware h of None \<Rightarrow> JNull | Some d \<Rightarrow> jget d k)"

definition host_is_clustered :: "host \<Rightarrow> bool res" where
  "host_is_clustered h =
     sbind (sub_get (hardware_get h ''cluster'') ''clustered'') (\<lambda>reported.
       Inr (Host_cluster_id h \<noteq> None \<or> truthy reported))"

definition norm_json_path :: "json \<Rightarrow> string res" where
  "norm_json_path j = (if \<not> truthy j then Inr []
     else case j of JStr s \<Rightarrow> Inr (norm_path s) | _ \<Rightarrow> Inl AttributeError)"

definition storage_not_allowed :: exn where
  "storage_not_allowed = ApiError ''STORAGE_NOT_ALLOWED'' 400"

definition storage_allowed :: "bool \<Rightarrow> string \<Rightarrow> string \<Rightarrow> bool" where
  "storage_allowed clustered default_path destination =
     (let dest = (if norm_path destination = [] then default_path else norm_path destination) in
      if clustered then is_csv_path dest
      else \<not> (dest \<noteq> [] \<and> is_system_drive dest \<and> \<not> is_system_drive default_path))"

definition require_vm_storage_allowed :: "host \<Rightarrow> string option \<Rightarrow> unit res" where
  "require_vm_storage_allowed h destination =
     sbind (host_is_clustered h) (\<lambda>clustered.
     sbind (sub_get (hardware_get h ''hyperv'') ''defaultVmPath'') (\<lambda>dp.
     sbind (norm_json_path dp) (\<lambda>default_path.
       if storage_allowed clustered default_path (or_empty destination) then Inr ()
       else Inl storage_not_allowed)))"

section \<open>Queueing a task\<close>

definition host_offline :: exn where
  "host_offline = ApiError ''HOST_OFFLINE'' 409"

definition vm_not_ready :: exn where
  "vm_not_ready = ApiError ''VM_NOT_READY'' 409"

definition vm_locked :: exn where
  "vm_locked = ApiError ''VM_LOCKED'' 409"

definition require_host_online :: "settings \<Rightarrow> host \<Rightarrow> unit act" where
  "require_host_online st h w =
     (if agent_connected st (w_now w) h then (Inr (), w) else (Inl host_offline, w))"

text \<open>The action table: agent function and transitional state.\<close>

definition ACTION_MAP :: "(string \<times> string \<times> string option) list" where
  "ACTION_MAP =
    [(''start'', ''vm_start'', Some ''Starting''), (''stop'', ''vm_stop'', Some ''Stopping''),
     (''shutdown'', ''vm_shutdown'', Some ''Stopping''), (''restart'', ''vm_restart'', Some ''Restarting''),
     (''pause'', ''vm_pause'', Some ''Pausing''), (''delete'', ''vm_delete'', Some ''Deleting''),
     (''enable_metrics'', ''vm_enable_metrics'', None), (''disable_metrics'', ''vm_disable_metrics'', None),
     (''rename'', ''vm_rename'', None), (''edit'', ''vm_edit'', None), (''migrate'', ''vm_migrate'', None),
     (''move_storage'', ''vm_move'', None), (''startup_change'', ''vm_startup_change'', None),
     (''mount_dvd'', ''mount_dvd'', None), (''eject_dvd'', ''eject_dvd'', None),
     (''enable_ha'', ''enable_ha'', None), (''disable_ha'', ''disable_ha'', None),
     (''export_template'', ''vm_export_template'', None), (''notes_edit'', ''notes_edit'', None),
     (''snapshot_create'', ''snapshot_create'', None), (''snapshot_remove'', ''snapshot_remove'', None),
     (''snapshot_restore'', ''snapshot_restore'', None), (''refresh'', ''refresh_status'', None)]"

definition READ_ONLY_VM_ACTIONS :: "string list" where
  "READ_ONLY_VM_ACTIONS = [''refresh'']"

definition count_host_vms :: "database \<Rightarrow> ident \<Rightarrow> nat" where
  "count_host_vms db i = length (filter (\<lambda>v. Vm_host_id v = i) (db_vms db))"

text \<open>\<^verbatim>\<open>{**d, k: v}\<close>.\<close>

definition jset :: "jobj \<Rightarrow> string \<Rightarrow> json \<Rightarrow> jobj" where
  "jset d k v = (if jhas d k then map (\<lambda>kv. if fst kv = k then (k, v) else kv) d else d @ [(k, v)])"

definition request_json :: "pyenv \<Rightarrow> agent_request \<Rightarrow> json" where
  "request_json env r = JObj [(''id'', JStr (Request_id r)), (''function'', JStr (Request_function r)),
     (''params'', JObj (Request_params r)), (''requested_by'', JStr (Request_requested_by r)),
     (''issued_at'', JStr (isoformat env (Request_issued_at r)))]"

text \<open>A queued task; its correlation id is its own id.\<close>

definition queued_task ::
  "ident \<Rightarrow> string \<Rightarrow> string \<Rightarrow> ident \<Rightarrow> string \<Rightarrow> ident \<Rightarrow> string \<Rightarrow> instant \<Rightarrow> task"
where
  "queued_task tid kind ttype target name host_id requester now =
     \<lparr>Task_id = tid, Task_kind = kind, Task_status = ''queued'', Task_target_type = ttype,
      Task_target_id = target, Task_target_name = Some name, Task_host_id = host_id,
      Task_requested_by = requester, Task_progress = Some 0, Task_progress_message = None,
      Task_created_at = now, Task_started_at = None, Task_finished_at = None, Task_result = None,
      Task_error = None, Task_request_payload = None, Task_response_payload = None,
      Task_correlation_id = Some tid\<rparr>"

definition add_task :: "task \<Rightarrow> database \<Rightarrow> database" where
  "add_task t db = db\<lparr>db_tasks := db_tasks db @ [t]\<rparr>"

definition set_request_payload :: "ident \<Rightarrow> json \<Rightarrow> database \<Rightarrow> database" where
  "set_request_payload tid j db =
     db\<lparr>db_tasks := tupd Task_id tid (\<lambda>t. t\<lparr>Task_request_payload := Some j\<rparr>) (db_tasks db)\<rparr>"

text \<open>\<^verbatim>\<open>try: m except Exception: c; raise\<close>.\<close>

definition on_error :: "'a act \<Rightarrow> unit act \<Rightarrow> 'a act" where
  "on_error m c w = (case m w of
     (Inl e, w') \<Rightarrow> (case c w' of (Inl e2, w2) \<Rightarrow> (Inl e2, w2) | (Inr _, w2) \<Rightarrow> (Inl e, w2))
   | r \<Rightarrow> r)"

definition load_vm_host :: "vm \<Rightarrow> host act" where
  "load_vm_host v = read_db (\<lambda>db. case tget Host_id (db_hosts db) (Vm_host_id v) of
     None \<Rightarrow> Inl AssertionError | Some h \<Rightarrow> Inr h)"

definition set_state_act :: "settings \<Rightarrow> ident \<Rightarrow> string option \<Rightarrow> unit act" where
  "set_state_act st vm_id transitional =
     (if opt_truthy transitional
      then cache_act (\<lambda>now s. ((), set_vm_state st now vm_id (or_empty transitional) s)) else ret ())"

definition insert_and_publish ::
  "pyenv \<Rightarrow> settings \<Rightarrow> ident \<Rightarrow> vm \<Rightarrow> host \<Rightarrow> string \<Rightarrow> jobj \<Rightarrow> string \<Rightarrow> string option \<Rightarrow> task act"
where
  "insert_and_publish env st tid v h fn params requester transitional w =
     (let t = queued_task tid fn ''vm'' (Vm_id v) (Vm_name v) (Vm_host_id v) requester (w_now w);
          req = \<lparr>Request_id = tid, Request_function = fn,
                 Request_params = jset params ''vm_id'' (opt_str (Vm_vm_uuid v)),
                 Request_requested_by = requester, Request_issued_at = w_now w\<rparr>
      in (bind_act (write_db (\<lambda>db. (add_task t db)\<lparr>db_vms :=
              (if opt_truthy transitional
               then tupd Vm_id (Vm_id v) (\<lambda>r. r\<lparr>Vm_state := or_empty transitional\<rparr>) (db_vms db) else db_vms db)\<rparr>)) (\<lambda>_.
          bind_act (set_state_act st (Vm_id v) transitional) (\<lambda>_.
          bind_act (write_db (set_request_payload tid (request_json env req))) (\<lambda>_.
          bind_act (publish_request (Host_short_id h) req) (\<lambda>_.
            ret (t\<lparr>Task_request_payload := Some (request_json env req)\<rparr>)))))) w)"

definition queue_vm_task ::
  "pyenv \<Rightarrow> settings \<Rightarrow> ident \<Rightarrow> vm \<Rightarrow> string \<Rightarrow> jobj \<Rightarrow> string \<Rightarrow> string option \<Rightarrow> bool \<Rightarrow> task act"
where
  "queue_vm_task env st tid v fn params requester transitional lock =
     (if \<not> opt_truthy (Vm_vm_uuid v) then raise vm_not_ready
      else bind_act (load_vm_host v) (\<lambda>h.
           bind_act (require_host_online st h) (\<lambda>_.
           bind_act (if lock then cache_act (\<lambda>now s. acquire_vm_lock st now (Vm_id v) tid fn requester s)
                     else ret True) (\<lambda>got.
             if \<not> got then raise vm_locked
             else on_error (insert_and_publish env st tid v h fn params requester transitional)
                    (if lock then bind_act (cache_act (\<lambda>now s. release_vm_lock now (Vm_id v) (Some tid) s)) (\<lambda>_. ret ())
                     else ret ())))))"

section \<open>Requests\<close>

definition request_vm_action ::
  "pyenv \<Rightarrow> settings \<Rightarrow> ident \<Rightarrow> vm \<Rightarrow> string \<Rightarrow> string \<Rightarrow> jobj option \<Rightarrow> task act"
where
  "request_vm_action env st tid v action requester params =
     (case map_of ACTION_MAP action of
        None \<Rightarrow> raise KeyError
      | Some (fn, transitional) \<Rightarrow>
          let ps = (case params of None \<Rightarrow> [] | Some d \<Rightarrow> d);
              queue = queue_vm_task env st tid v fn ps requester transitional (action \<notin> set READ_ONLY_VM_ACTIONS)
          in if action = ''migrate'' \<and> \<not> Vm_highly_available v then raise (ApiError ''HA_REQUIRED'' 409)
             else if action = ''move_storage'' then
               bind_act (read_db (\<lambda>_. norm_json_path (jget ps ''destination_storage''))) (\<lambda>dest.
                 if dest = [] then raise (ApiError ''VALIDATION_ERROR'' 400)
                 else bind_act (load_vm_host v) (\<lambda>h.
                      bind_act (read_db (\<lambda>_. require_vm_storage_allowed h (Some dest))) (\<lambda>_. queue)))
             else queue)"

record vm_disk_spec =
  spec_name :: string
  spec_type :: string
  spec_size_gb :: int

record vm_create_body =
  create_name :: string
  create_host_id :: ident
  create_os :: string
  create_firmware :: string
  create_cpu_count :: int
  create_memory_mb :: int
  create_memory_dynamic :: bool
  create_memory_min_mb :: "int option"
  create_memory_max_mb :: "int option"
  create_destination_storage :: "string option"
  create_notes :: "string option"
  create_vlan_id :: "int option"
  create_switch_name :: "string option"
  create_nested_virtualization :: bool
  create_ha_enabled :: bool
  create_dvd :: "string option"
  create_start_now :: bool
  create_disks :: "vm_disk_spec list"

text \<open>The check of the dynamic-memory bounds in the request model.\<close>

definition memory_bounds_ok :: "vm_create_body \<Rightarrow> bool" where
  "memory_bounds_ok b \<longleftrightarrow> \<not> create_memory_dynamic b
     \<or> ((case create_memory_min_mb b of None \<Rightarrow> True | Some lo \<Rightarrow> lo \<le> create_memory_mb b)
      \<and> (case create_memory_max_mb b of None \<Rightarrow> True | Some hi \<Rightarrow> create_memory_mb b \<le> hi)
      \<and> (case (create_memory_min_mb b, create_memory_max_mb b) of (Some lo, Some hi) \<Rightarrow> lo \<le> hi | _ \<Rightarrow> True))"

text \<open>A placeholder row: no GUID yet, state Unknown, and one adapter when a VLAN is chosen.\<close>

definition placeholder_vm ::
  "ident \<Rightarrow> host \<Rightarrow> string \<Rightarrow> string \<Rightarrow> int \<Rightarrow> int \<Rightarrow> bool \<Rightarrow> bool \<Rightarrow> bool \<Rightarrow> string option \<Rightarrow> int option \<Rightarrow> vm"
where
  "placeholder_vm vid h name firmware vcpu memory_bytes dynamic nested ha notes vlan_id =
     \<lparr>Vm_id = vid, Vm_vm_uuid = None, Vm_host_id = Host_id h, Vm_cluster_id = Host_cluster_id h,
      Vm_folder_id = None, Vm_name = name, Vm_state = ''Unknown'', Vm_firmware = firmware, Vm_guest_os = None,
      Vm_uptime_sec = None, Vm_vcpu = vcpu, Vm_memory_bytes = memory_bytes, Vm_memory_min_bytes = None,
      Vm_memory_max_bytes = None, Vm_memory_dynamic = dynamic, Vm_cpu_usage_percent = None,
      Vm_memory_demand_bytes = None, Vm_secure_boot = None, Vm_secure_boot_template = None,
      Vm_nested_virtualization = nested, Vm_auto_start_action = None, Vm_auto_start_delay_sec = None,
      Vm_auto_stop_action = None, Vm_config_path = None, Vm_dvd_path = None, Vm_highly_available = ha,
      Vm_metrics_enabled = False, Vm_notes = notes, Vm_vm_created_at = None, Vm_last_inventory_at = None,
      Vm_disks = [],
      Vm_nics = (case vlan_id of None \<Rightarrow> []
        | Some g \<Rightarrow> [\<lparr>VmNic_nic_id = None, VmNic_name = ''Network Adapter'', VmNic_switch_name = None,
             VmNic_vlan_id = Some g, VmNic_mac_address = None, VmNic_ip_addresses = [], VmNic_connected = True\<rparr>]),
      Vm_snapshots = []\<rparr>"

definition truthy_str :: "string option \<Rightarrow> json" where
  "truthy_str x = (if opt_truthy x then JStr (or_empty x) else JNull)"

definition disk_spec_json :: "vm_disk_spec \<Rightarrow> json" where
  "disk_spec_json d = JObj [(''name'', JStr (spec_name d)), (''type'', JStr (spec_type d)),
     (''size_gb'', JInt (spec_size_gb d))]"

definition create_params :: "vm_create_body \<Rightarrow> host \<Rightarrow> string \<Rightarrow> string option \<Rightarrow> jobj" where
  "create_params b h destination notes =
     [(''name'', JStr (create_name b)), (''destination_storage'', JStr destination), (''os'', JStr (create_os b)),
      (''notes'', JStr (or_empty notes)), (''firmware'', JStr (create_firmware b)),
      (''cpu_count'', JInt (create_cpu_count b)), (''memory_mb'', JInt (create_memory_mb b)),
      (''memory_dynamic'', JBool (create_memory_dynamic b)), (''memory_min_mb'', opt_int (create_memory_min_mb b)),
      (''memory_max_mb'', opt_int (create_memory_max_mb b)),
      (''nested_virtualization'', JBool (create_nested_virtualization b)),
      (''vlan_id'', opt_int (create_vlan_id b)), (''switch_name'', truthy_str (create_switch_name b)),
      (''dvd'', truthy_str (create_dvd b)),
      (''ha_enabled'', JBool (create_ha_enabled b \<and> Host_cluster_id h \<noteq> None)),
      (''cluster'', if create_ha_enabled b then opt_str (Host_cluster_id h) else JNull),
      (''start_now'', JBool (create_start_now b)), (''disks'', JList (map disk_spec_json (create_disks b)))]"

text \<open>The common tail of create and clone: insert the placeholder, take its lock (the result is not
  looked at), insert the task, publish.\<close>

definition provision ::
  "pyenv \<Rightarrow> settings \<Rightarrow> ident \<Rightarrow> vm \<Rightarrow> host \<Rightarrow> string \<Rightarrow> jobj \<Rightarrow> string \<Rightarrow> (vm \<times> task) act"
where
  "provision env st tid v h fn params requester w =
     (let t = queued_task tid fn ''vm'' (Vm_id v) (Vm_name v) (Host_id h) requester (w_now w);
          req = \<lparr>Request_id = tid, Request_function = fn, Request_params = params,
                 Request_requested_by = requester, Request_issued_at = w_now w\<rparr>
      in (bind_act (write_db (\<lambda>db. db\<lparr>db_vms := db_vms db @ [v]\<rparr>)) (\<lambda>_.
          bind_act (cache_act (\<lambda>now s. acquire_vm_lock st now (Vm_id v) tid fn requester s)) (\<lambda>_.
          bind_act (write_db (\<lambda>db. set_request_payload tid (request_json env req) (add_task t db))) (\<lambda>_.
          bind_act (publish_request (Host_short_id h) req) (\<lambda>_.
            ret (v, t\<lparr>Task_request_payload := Some (request_json env req)\<rparr>)))))) w)"

definition request_vm_create ::
  "pyenv \<Rightarrow> settings \<Rightarrow> ident \<Rightarrow> ident \<Rightarrow> host \<Rightarrow> vm_create_body \<Rightarrow> string \<Rightarrow> (vm \<times> task) act"
where
  "request_vm_create env st vid tid h b requester =
     bind_act (require_host_online st h) (\<lambda>_.
       let destination = py_strip (or_empty (create_destination_storage b));
           notes = none_if_empty (py_strip (or_empty (create_notes b)));
           v = placeholder_vm vid h (create_name b) (create_firmware b) (create_cpu_count b)
                 (create_memory_mb b * 1024 * 1024) (create_memory_dynamic b) (create_nested_virtualization b)
                 (create_ha_enabled b) notes (create_vlan_id b)
       in bind_act (read_db (\<lambda>_. require_vm_storage_allowed h (Some destination))) (\<lambda>_.
            provision env st tid v h ''vm_create'' (create_params b h destination notes) requester))"

record vm_clone_body =
  clone_name :: string
  clone_host_id :: ident
  clone_source :: string
  clone_source_vm_id :: "ident option"
  clone_template_id :: "ident option"
  clone_cpu_count :: "int option"
  clone_memory_mb :: "int option"
  clone_destination_storage :: "string option"
  clone_notes :: "string option"
  clone_vlan_id :: "int option"
  clone_nested_virtualization :: bool
  clone_ha_enabled :: bool
  clone_start_now :: bool
  clone_expand_disks :: bool

text \<open>What the source contributes: firmware, CPUs, memory (MiB), VLAN, notes and agent parameters.\<close>

record clone_plan =
  plan_firmware :: string
  plan_cpu :: "int option"
  plan_memory_mb :: "int option"
  plan_vlan_id :: "int option"
  plan_notes :: "string option"
  plan_params :: jobj

text \<open>\<^verbatim>\<open>x or n\<close> for an optional integer.\<close>

definition int_or :: "int option \<Rightarrow> int \<Rightarrow> int" where
  "int_or x n = (case x of None \<Rightarrow> n | Some m \<Rightarrow> if m = 0 then n else m)"

definition clone_from_vm :: "host \<Rightarrow> vm_clone_body \<Rightarrow> string option \<Rightarrow> database \<Rightarrow> clone_plan res" where
  "clone_from_vm h b notes db =
     (case Option.bind (clone_source_vm_id b) (tget Vm_id (db_vms db)) of
        None \<Rightarrow> Inl not_found
      | Some src \<Rightarrow>
          if Vm_host_id src \<noteq> Host_id h then Inl (ApiError ''CROSS_HOST_CLONE'' 409)
          else if Vm_state src \<noteq> ''Off'' then Inl (ApiError ''SOURCE_NOT_OFF'' 409)
          else if \<not> opt_truthy (Vm_vm_uuid src) then Inl vm_not_ready
          else Inr \<lparr>plan_firmware = (if Vm_firmware src = [] then ''UEFI'' else Vm_firmware src),
                    plan_cpu = Some (int_or (clone_cpu_count b) (Vm_vcpu src)),
                    plan_memory_mb = Some (int_or (clone_memory_mb b) (Vm_memory_bytes src div (1024 * 1024))),
                    plan_vlan_id = (case (clone_vlan_id b, Vm_nics src) of
                       (None, n # _) \<Rightarrow> VmNic_vlan_id n | (g, _) \<Rightarrow> g),
                    plan_notes = (if notes = None then Vm_notes src else notes),
                    plan_params = [(''clone_type'', JStr ''imported''), (''source_vm_name'', JStr (Vm_name src))]\<rparr>)"

definition clone_from_template :: "host \<Rightarrow> vm_clone_body \<Rightarrow> string option \<Rightarrow> database \<Rightarrow> clone_plan res" where
  "clone_from_template h b notes db =
     (case Option.bind (clone_template_id b) (tget Template_id (db_templates db)) of
        None \<Rightarrow> Inl not_found
      | Some tpl \<Rightarrow>
          let same_cluster = (case tget Host_id (db_hosts db) (Template_host_id tpl) of
                None \<Rightarrow> False
              | Some th \<Rightarrow> Host_cluster_id h \<noteq> None \<and> Host_cluster_id th = Host_cluster_id h)
          in if Template_host_id tpl \<noteq> Host_id h \<and> \<not> same_cluster then Inl (ApiError ''TEMPLATE_UNREACHABLE'' 409)
             else Inr \<lparr>plan_firmware = ''UEFI'',
                       plan_cpu = Some (int_or (clone_cpu_count b) (int_or (Some (Template_cpu_count tpl)) 2)),
                       plan_memory_mb = Some (int_or (clone_memory_mb b) (int_or (Some (Template_memory_mb tpl)) 4096)),
                       plan_vlan_id = clone_vlan_id b,
                       plan_notes = (if notes = None then Template_notes tpl else notes),
                       plan_params = [(''clone_type'', JStr ''exported''), (''source_export_path'', JStr (Template_path tpl)),
                                      (''expand_disks'', JBool (clone_expand_disks b))]\<rparr>)"

text \<open>The later keys of \<^verbatim>\<open>{**clone_params, ...}\<close> are new, so they follow in order.\<close>

definition clone_params :: "vm_clone_body \<Rightarrow> host \<Rightarrow> clone_plan \<Rightarrow> jobj" where
  "clone_params b h p = plan_params p @
     [(''name'', JStr (clone_name b)),
      (''destination_storage'', JStr (py_strip (or_empty (clone_destination_storage b)))),
      (''cpu_count'', JInt (int_or (plan_cpu p) 2)), (''memory_mb'', JInt (int_or (plan_memory_mb p) 4096)),
      (''notes'', JStr (or_empty (plan_notes p))), (''vlan_id'', opt_int (plan_vlan_id p)),
      (''nested_virtualization'', JBool (clone_nested_virtualization b)),
      (''ha_enabled'', JBool (clone_ha_enabled b \<and> Host_cluster_id h \<noteq> None)),
      (''start_now'', JBool (clone_start_now b))]"

definition request_vm_clone ::
  "pyenv \<Rightarrow> settings \<Rightarrow> ident \<Rightarrow> ident \<Rightarrow> vm_clone_body \<Rightarrow> host \<Rightarrow> string \<Rightarrow> (vm \<times> task) act"
where
  "request_vm_clone env st vid tid b h requester =
     bind_act (require_host_online st h) (\<lambda>_.
     bind_act (read_db (\<lambda>_. require_vm_storage_allowed h (clone_destination_storage b))) (\<lambda>_.
     bind_act (read_db (let notes = none_if_empty (py_strip (or_empty (clone_notes b))) in
                if clone_source b = ''vm'' then clone_from_vm h b notes else clone_from_template h b notes)) (\<lambda>p.
       let v = placeholder_vm vid h (clone_name b) (plan_firmware p) (int_or (plan_cpu p) 2)
                 (int_or (plan_memory_mb p) 4096 * 1024 * 1024) False (clone_nested_virtualization b)
                 (clone_ha_enabled b \<and> Host_cluster_id h \<noteq> None) (plan_notes p) (plan_vlan_id p)
       in provision env st tid v h ''vm_clone'' (clone_params b h p) requester)))"

definition forget_row :: "vm \<Rightarrow> unit act" where
  "forget_row v =
     bind_act (cache_act (\<lambda>now s. release_vm_lock now (Vm_id v) None s)) (\<lambda>_.
     bind_act (cache_act (\<lambda>now s. ((), clear_vm_state now (Vm_id v) s))) (\<lambda>_.
       write_db (drop_vms (\<lambda>r. Vm_id r = Vm_id v))))"

definition remove_vm_from_inventory :: "settings \<Rightarrow> vm \<Rightarrow> unit act" where
  "remove_vm_from_inventory st v w =
     (case tget Host_id (db_hosts (w_db w)) (Vm_host_id v) of
        Some h \<Rightarrow>
          if Vm_vm_uuid v \<noteq> None \<and> agent_connected st (w_now w) h then (Inl (ApiError ''HOST_ONLINE'' 409), w)
          else forget_row v w
      | None \<Rightarrow> forget_row v w)"

section \<open>Lemmas\<close>

lemmas act_defs = bind_act_def ret_def raise_def write_db_def read_db_def cache_act_def publish_request_def

text \<open>The request and the rows of a queued VM task, and what the body of the try block does.\<close>

definition vm_request :: "ident \<Rightarrow> vm \<Rightarrow> string \<Rightarrow> jobj \<Rightarrow> string \<Rightarrow> instant \<Rightarrow> agent_request" where
  "vm_request tid v fn params requester now =
     \<lparr>Request_id = tid, Request_function = fn, Request_params = jset params ''vm_id'' (opt_str (Vm_vm_uuid v)),
      Request_requested_by = requester, Request_issued_at = now\<rparr>"

definition vm_task :: "ident \<Rightarrow> vm \<Rightarrow> string \<Rightarrow> string \<Rightarrow> instant \<Rightarrow> task" where
  "vm_task tid v fn requester now =
     queued_task tid fn ''vm'' (Vm_id v) (Vm_name v) (Vm_host_id v) requester now"

definition with_task :: "ident \<Rightarrow> vm \<Rightarrow> string \<Rightarrow> string \<Rightarrow> string option \<Rightarrow> instant \<Rightarrow> database \<Rightarrow> database" where
  "with_task tid v fn requester transitional now db =
     (add_task (vm_task tid v fn requester now) db)\<lparr>db_vms :=
        (if opt_truthy transitional then tupd Vm_id (Vm_id v) (\<lambda>r. r\<lparr>Vm_state := or_empty transitional\<rparr>) (db_vms db)
         else db_vms db)\<rparr>"

definition with_state :: "settings \<Rightarrow> instant \<Rightarrow> vm \<Rightarrow> string option \<Rightarrow> store \<Rightarrow> store" where
  "with_state st now v transitional s =
     (if opt_truthy transitional then set_vm_state st now (Vm_id v) (or_empty transitional) s else s)"

definition enqueue :: "string \<Rightarrow> agent_request \<Rightarrow> (string \<times> agent_request list) list \<Rightarrow> (string \<times> agent_request list) list" where
  "enqueue host_ref req qs = AList.update (queue_name host_ref REQUEST)
     (case map_of qs (queue_name host_ref REQUEST) of None \<Rightarrow> [req] | Some ms \<Rightarrow> ms @ [req]) qs"

lemma insert_and_publish_eq:
  "insert_and_publish env st tid v h fn params requester transitional w =
    (let req = vm_request tid v fn params requester (w_now w);
         db1 = with_task tid v fn requester transitional (w_now w) (w_db w);
         db2 = set_request_payload tid (request_json env req) db1;
         s1 = with_state st (w_now w) v transitional (w_cache w)
     in if opt_truthy transitional \<and> \<not> w_cache_up w then (Inl CacheError, w\<lparr>w_db := db1\<rparr>)
        else if \<not> w_broker_up w then (Inl BrokerError, w\<lparr>w_db := db2, w_cache := s1\<rparr>)
        else (Inr ((vm_task tid v fn requester (w_now w))\<lparr>Task_request_payload := Some (request_json env req)\<rparr>),
              w\<lparr>w_db := db2, w_cache := s1, w_queues := enqueue (Host_short_id h) req (w_queues w)\<rparr>))"
  by (simp add: insert_and_publish_def set_state_act_def act_defs Let_def vm_request_def vm_task_def
      with_task_def with_state_def enqueue_def)

text \<open>Once the guards pass, the whole operation.\<close>

definition acquired :: "settings \<Rightarrow> ident \<Rightarrow> vm \<Rightarrow> string \<Rightarrow> string \<Rightarrow> bool \<Rightarrow> world \<Rightarrow> store" where
  "acquired st tid v fn requester lock w =
     (if lock then snd (acquire_vm_lock st (w_now w) (Vm_id v) tid fn requester (w_cache w)) else w_cache w)"

lemma queue_vm_task_cases:
  obtains (refused) e where "queue_vm_task env st tid v fn params requester transitional lock w = (Inl e, w)"
  | (failed) e db s where
      "queue_vm_task env st tid v fn params requester transitional lock w =
         (Inl e, w\<lparr>w_db := db, w_cache := (if lock then snd (release_vm_lock (w_now w) (Vm_id v) (Some tid) s) else s)\<rparr>)"
      "s = acquired st tid v fn requester lock w
        \<or> s = with_state st (w_now w) v transitional (acquired st tid v fn requester lock w)"
      "lock \<Longrightarrow> fst (acquire_vm_lock st (w_now w) (Vm_id v) tid fn requester (w_cache w))"
  | (queued) h where
      "Vm_vm_uuid v \<noteq> None" "tget Host_id (db_hosts (w_db w)) (Vm_host_id v) = Some h"
      "agent_connected st (w_now w) h" "w_broker_up w" "opt_truthy transitional \<or> lock \<Longrightarrow> w_cache_up w"
      "lock \<Longrightarrow> fst (acquire_vm_lock st (w_now w) (Vm_id v) tid fn requester (w_cache w))"
      "queue_vm_task env st tid v fn params requester transitional lock w =
        (Inr ((vm_task tid v fn requester (w_now w))\<lparr>Task_request_payload :=
              Some (request_json env (vm_request tid v fn params requester (w_now w)))\<rparr>),
         w\<lparr>w_db := set_request_payload tid (request_json env (vm_request tid v fn params requester (w_now w)))
              (with_task tid v fn requester transitional (w_now w) (w_db w)),
           w_cache := with_state st (w_now w) v transitional (acquired st tid v fn requester lock w),
           w_queues := enqueue (Host_short_id h) (vm_request tid v fn params requester (w_now w)) (w_queues w)\<rparr>)"
proof (cases "opt_truthy (Vm_vm_uuid v)")
  case False
  then show ?thesis using refused by (simp add: queue_vm_task_def raise_def)
next
  case uuid: True
  show ?thesis
  proof (cases "tget Host_id (db_hosts (w_db w)) (Vm_host_id v)")
    case None
    then show ?thesis using refused uuid by (simp add: queue_vm_task_def load_vm_host_def act_defs)
  next
    case (Some h)
    note host = this
    show ?thesis
    proof (cases "agent_connected st (w_now w) h")
      case False
      then show ?thesis using refused uuid host
        by (simp add: queue_vm_task_def load_vm_host_def require_host_online_def act_defs)
    next
      case online: True
      let ?body = "insert_and_publish env st tid v h fn params requester transitional"
      have unlocked: "queue_vm_task env st tid v fn params requester transitional False w = on_error ?body (ret ()) w"
        using uuid host online
        by (simp add: queue_vm_task_def load_vm_host_def require_host_online_def act_defs)
      let ?rel = "bind_act (cache_act (\<lambda>now s. release_vm_lock now (Vm_id v) (Some tid) s)) (\<lambda>_. ret ())"
      have locked: "queue_vm_task env st tid v fn params requester transitional True w =
          (if \<not> w_cache_up w then (Inl CacheError, w)
           else if fst (acquire_vm_lock st (w_now w) (Vm_id v) tid fn requester (w_cache w))
             then on_error ?body ?rel (w\<lparr>w_cache := snd (acquire_vm_lock st (w_now w) (Vm_id v) tid fn requester (w_cache w))\<rparr>)
             else (Inl vm_locked, w\<lparr>w_cache := snd (acquire_vm_lock st (w_now w) (Vm_id v) tid fn requester (w_cache w))\<rparr>))"
        using uuid host online
        by (simp add: queue_vm_task_def load_vm_host_def require_host_online_def act_defs split: prod.split)
      obtain g where some: "Vm_vm_uuid v = Some g" using uuid by (auto elim: opt_truthyE)
      show ?thesis
      proof (cases lock)
        case False
        have acq: "acquired st tid v fn requester lock w = w_cache w" using False by (simp add: acquired_def)
        consider "opt_truthy transitional" "\<not> w_cache_up w" | "\<not> (opt_truthy transitional \<and> \<not> w_cache_up w)" "\<not> w_broker_up w"
          | "\<not> (opt_truthy transitional \<and> \<not> w_cache_up w)" "w_broker_up w" by blast
        then show ?thesis
        proof cases
          case 1
          then show ?thesis
            by (intro failed [where s = "w_cache w" and e = CacheError])
              (simp_all add: False unlocked on_error_def insert_and_publish_eq acquired_def act_defs Let_def)
        next
          case 2
          then show ?thesis
            by (intro failed [where s = "with_state st (w_now w) v transitional (w_cache w)" and e = BrokerError])
              (simp_all add: False unlocked on_error_def insert_and_publish_eq acquired_def act_defs Let_def)
        next
          case 3
          then show ?thesis using some host online
            by (intro queued [of h])
              (auto simp: False unlocked on_error_def insert_and_publish_eq acquired_def act_defs Let_def)
        qed
      next
        case True
        let ?a = "acquire_vm_lock st (w_now w) (Vm_id v) tid fn requester (w_cache w)"
        have acq: "acquired st tid v fn requester lock w = snd ?a" using True by (simp add: acquired_def)
        consider "\<not> w_cache_up w" | "w_cache_up w" "\<not> fst ?a" | "w_cache_up w" "fst ?a" "\<not> w_broker_up w"
          | "w_cache_up w" "fst ?a" "w_broker_up w" by blast
        then show ?thesis
        proof cases
          case 1
          then show ?thesis using refused by (simp add: True locked)
        next
          case 2
          then have "snd ?a = w_cache w" by (auto simp: acquire_vm_lock_def split: if_splits)
          with 2 show ?thesis using refused by (simp add: True locked)
        next
          case 3
          then show ?thesis
            by (intro failed [where s = "with_state st (w_now w) v transitional (snd ?a)" and e = BrokerError])
              (simp_all add: True locked on_error_def insert_and_publish_eq acquired_def act_defs Let_def
                case_prod_beta)
        next
          case 4
          then show ?thesis using some host online
            by (intro queued [of h])
              (auto simp: True locked on_error_def insert_and_publish_eq acquired_def Let_def)
        qed
      qed
    qed
  qed
qed

lemma jget_jset: "jget (jset d k v) j = (if j = k then v else jget d j)"
proof (cases "jhas d k")
  case True
  have "map_of (map (\<lambda>kv. if fst kv = k then (k, v) else kv) d) j
      = (if j = k then (if jhas d k then Some v else None) else map_of d j)"
    by (induction d) (auto simp: jhas_def, metis fst_conv image_eqI)
  with True show ?thesis by (simp add: jset_def jget_def)
next
  case False
  then have "map_of d k = None" by (simp add: jhas_def map_of_eq_None_iff)
  with False show ?thesis by (simp add: jset_def jget_def map_add_def split: option.split)
qed

lemma lock_holder_with_state [simp]:
  "lock_holder T (with_state st now v transitional s) vm = lock_holder T s vm"
  by (simp add: with_state_def set_vm_state_def lock_holder_def get_vm_lock_def cache_get_set)

lemma locks_wf_with_state: "locks_wf s \<Longrightarrow> locks_wf (with_state st now v transitional s)"
  by (auto simp: with_state_def set_vm_state_def intro: locks_wf_set)

text \<open>Acquiring a free lock and releasing it again: every lock is as before from then on.\<close>

lemma acquire_release_locks:
  assumes "locks_wf s" and "fst (acquire_vm_lock st now vm t kind requester s)" and "now \<le> T"
  shows "lock_holder T (snd (release_vm_lock now vm (Some t)
      (with_state st now v transitional (snd (acquire_vm_lock st now vm t kind requester s))))) u = lock_holder T s u"
    and "lock_holder T (snd (release_vm_lock now vm (Some t) (snd (acquire_vm_lock st now vm t kind requester s)))) u
      = lock_holder T s u"
proof -
  let ?a = "snd (acquire_vm_lock st now vm t kind requester s)"
  have free: "lock_holder now s vm = None" using assms(1,2) by (simp add: vm_locks.acquire_result)
  have freeT: "lock_holder T s vm = None"
  proof (rule ccontr)
    assume "lock_holder T s vm \<noteq> None"
    then obtain x where "lock_holder T s vm = Some x" by blast
    from vm_locks.holder_mono [OF this assms(3)] free show False by simp
  qed
  have wf: "locks_wf ?a" using assms(1) by (rule vm_locks.wf_acquire)
  have H: "lock_holder t' ?a v = (if v = vm then (if t' < now + seconds (lock_ttl st (Some kind)) then Some t else None)
      else lock_holder t' s v)" for t' v
    using vm_locks.acquire_holder [OF assms(1) free] .
  have R: "lock_holder T (snd (release_vm_lock now vm (Some t) x)) u = lock_holder T s u"
    if "locks_wf x" "\<And>t' v. lock_holder t' x v = lock_holder t' ?a v" for x
  proof (cases "lock_holder now x vm = Some t")
    case True
    show ?thesis using vm_locks.release_holder [OF that(1) True] that(2) H freeT by auto
  next
    case False
    then have "\<not> now < now + seconds (lock_ttl st (Some kind))" using that(2) H by auto
    then have "\<not> T < now + seconds (lock_ttl st (Some kind))" using assms(3) by simp
    then show ?thesis using vm_locks.release_other [OF that(1) False] that(2) H freeT by auto
  qed
  show "lock_holder T (snd (release_vm_lock now vm (Some t) (with_state st now v transitional ?a))) u = lock_holder T s u"
    by (rule R) (simp_all add: locks_wf_with_state wf)
  show "lock_holder T (snd (release_vm_lock now vm (Some t) ?a)) u = lock_holder T s u"
    by (rule R) (simp_all add: wf)
qed

lemma lookup_enqueue:
  "map_of (enqueue ref req qs) q = (if q = queue_name ref REQUEST
     then Some ((case map_of qs q of None \<Rightarrow> [] | Some ms \<Rightarrow> ms) @ [req]) else map_of qs q)"
  by (auto simp: enqueue_def update_conv split: option.splits)

section \<open>Properties\<close>

text \<open>C9: A VM request that succeeds leaves everything the operation promises: a queued task under its id,
  the transitional state both in the row and in the overlay, the request as the last message of the
  host's request queue and addressed by the VM's GUID even when the caller's parameters contain
  \<^verbatim>\<open>vm_id\<close>, and, for a mutating action, the VM's lock, which was free, now held by the task.\<close>

theorem queue_vm_task_effects:
  assumes "queue_vm_task env st tid v fn params requester transitional lock w = (Inr t, w')"
    and "tid \<notin> Task_id ` set (db_tasks (w_db w))" and "locks_wf (w_cache w)"
    and "0 \<le> task_timeout_seconds_default st" and "0 < vm_state_ttl_seconds st"
  shows "tget Task_id (db_tasks (w_db w')) tid = Some t \<and> Task_status t = ''queued'' \<and> Task_kind t = fn
      \<and> Task_target_id t = Vm_id v
    \<and> (\<exists>h g ms req. tget Host_id (db_hosts (w_db w)) (Vm_host_id v) = Some h \<and> agent_connected st (w_now w) h
         \<and> Vm_vm_uuid v = Some g
         \<and> map_of (w_queues w') (queue_name (Host_short_id h) REQUEST) = Some (ms @ [req])
         \<and> Request_id req = tid \<and> jget (Request_params req) ''vm_id'' = JStr g)
    \<and> (opt_truthy transitional \<longrightarrow> get_vm_state (w_now w) (w_cache w') (Vm_id v) = transitional
         \<and> (\<forall>r \<in> set (db_vms (w_db w')). Vm_id r = Vm_id v \<longrightarrow> Some (Vm_state r) = transitional))
    \<and> (lock \<longrightarrow> lock_holder (w_now w) (w_cache w) (Vm_id v) = None
         \<and> lock_holder (w_now w) (w_cache w') (Vm_id v) = Some tid)"
proof (rule queue_vm_task_cases [of env st tid v fn params requester transitional lock w], goal_cases)
  case (3 h)
  let ?now = "w_now w" and ?req = "vm_request tid v fn params requester (w_now w)"
  have t: "t = (vm_task tid v fn requester ?now)\<lparr>Task_request_payload := Some (request_json env ?req)\<rparr>"
    and w': "w' = w\<lparr>w_db := set_request_payload tid (request_json env ?req) (with_task tid v fn requester transitional ?now (w_db w)),
        w_cache := with_state st ?now v transitional (acquired st tid v fn requester lock w),
        w_queues := enqueue (Host_short_id h) ?req (w_queues w)\<rparr>"
    using 3(7) assms(1) by simp_all
  have "tget Task_id (db_tasks (w_db w)) tid = None" using assms(2) by (simp add: tget_None_iff)
  then have "tget Task_id (db_tasks (w_db w')) tid = Some t"
    by (simp add: w' t set_request_payload_def with_task_def add_task_def vm_task_def queued_task_def
        tget_tupd tget_append)
  moreover have "Task_status t = ''queued'' \<and> Task_kind t = fn \<and> Task_target_id t = Vm_id v"
    by (simp add: t vm_task_def queued_task_def)
  moreover have "\<exists>ms. map_of (w_queues w') (queue_name (Host_short_id h) REQUEST) = Some (ms @ [?req])"
    by (simp add: w' lookup_enqueue)
  moreover obtain g where "Vm_vm_uuid v = Some g" using 3(1) by auto
  moreover have "Request_id ?req = tid" "jget (Request_params ?req) ''vm_id'' = opt_str (Vm_vm_uuid v)"
    by (simp_all add: vm_request_def jget_jset)
  moreover have "get_vm_state ?now (w_cache w') (Vm_id v) = transitional
      \<and> (\<forall>r \<in> set (db_vms (w_db w')). Vm_id r = Vm_id v \<longrightarrow> Some (Vm_state r) = transitional)" if "opt_truthy transitional"
    using that assms(5)
    by (auto simp: w' with_state_def set_vm_state_def get_vm_state_def cache_get_set seconds_def
        set_request_payload_def with_task_def add_task_def tupd_def elim: opt_truthyE)
  moreover have "lock_holder ?now (w_cache w) (Vm_id v) = None \<and> lock_holder ?now (w_cache w') (Vm_id v) = Some tid" if lock
  proof -
    have "?now < ?now + seconds (task_timeout_seconds st (Some fn) + 60)"
      using task_timeout_ge_default [of st "Some fn"] assms(4) by (simp add: seconds_def)
    then show ?thesis
      using that 3(6) assms(3) acquired_until [OF assms(3), of st ?now "Vm_id v" tid fn requester ?now]
      by (simp add: w' acquired_def vm_locks.acquire_result)
  qed
  ultimately show ?case using 3(2,3) by (fastforce simp: opt_str_def)
qed (use assms(1) in auto)

definition ready_world :: world where
  "ready_world = \<lparr>w_db = empty_db\<lparr>db_hosts := [(sample_host ''h1'' None)\<lparr>Host_agent_last_seen := Some 0\<rparr>],
       db_vms := [sample_vm ''v1'' ''h1'']\<rparr>, w_cache = [], w_now = 1, w_queues = [], w_users = [],
     w_broker_up = True, w_cache_up = True, w_mgmt_up = True, w_files = [], w_store_up = True\<rparr>"

lemma ready_world_simps [simp]:
  "w_cache ready_world = []" "w_now ready_world = 1" "w_broker_up ready_world" "w_cache_up ready_world"
  "db_tasks (w_db ready_world) = []" "db_vms (w_db ready_world) = [sample_vm ''v1'' ''h1'']"
  "tget Host_id (db_hosts (w_db ready_world)) ''h1'' = Some ((sample_host ''h1'' None)\<lparr>Host_agent_last_seen := Some 0\<rparr>)"
  "agent_connected default_settings 1 ((sample_host ''h1'' None)\<lparr>Host_agent_last_seen := Some 0\<rparr>)"
  by (simp_all add: ready_world_def empty_db_def sample_host_def agent_connected_def default_settings_def seconds_def)

lemma default_settings_ttl [simp]: "task_timeout_seconds_default default_settings = 300"
  "vm_state_ttl_seconds default_settings = 3600"
  by (simp_all add: default_settings_def)

lemma sample_vm_simps [simp]: "Vm_id (sample_vm i h) = i" "Vm_host_id (sample_vm i h) = h"
  "Vm_vm_uuid (sample_vm i h) = Some (''guid-'' @ i)" "Vm_state (sample_vm i h) = ''Off''"
  by (simp_all add: sample_vm_def)

theorem queue_vm_task_effects_witness:
  "\<exists>t w'. queue_vm_task cursor_env default_settings ''t1'' (sample_vm ''v1'' ''h1'') ''vm_start'' [(''vm_id'', JStr ''x'')]
      ''op@ovc'' (Some ''Starting'') True ready_world = (Inr t, w')
    \<and> get_vm_state 1 (w_cache w') ''v1'' = Some ''Starting'' \<and> lock_holder 1 (w_cache w') ''v1'' = Some ''t1''"
proof -
  let ?q = "queue_vm_task cursor_env default_settings ''t1'' (sample_vm ''v1'' ''h1'') ''vm_start'' [(''vm_id'', JStr ''x'')]
      ''op@ovc'' (Some ''Starting'') True ready_world"
  have acq: "fst (acquire_vm_lock default_settings 1 ''v1'' ''t1'' ''vm_start'' ''op@ovc'' [])"
    by (simp add: acquire_vm_lock_def cache_get_def)
  obtain t w' where r: "?q = (Inr t, w')"
    using acq
    by (simp add: queue_vm_task_def load_vm_host_def require_host_online_def act_defs on_error_def
        insert_and_publish_eq acquire_vm_lock_def cache_get_def Let_def)
  show ?thesis using r queue_vm_task_effects [OF r] by simp
qed


lemma failed_start:
  "session_scope (queue_vm_task cursor_env default_settings ''t1'' (sample_vm ''v1'' ''h1'') ''vm_start'' []
      ''op@ovc'' (Some ''Starting'') True) (ready_world\<lparr>w_broker_up := False\<rparr>)
   = (Inl BrokerError, ready_world\<lparr>w_broker_up := False,
       w_cache := set_vm_state default_settings 1 ''v1'' ''Starting'' []\<rparr>)"
proof -
  let ?a = "snd (acquire_vm_lock default_settings 1 ''v1'' ''t1'' ''vm_start'' ''op@ovc'' [])"
  have acq: "fst (acquire_vm_lock default_settings 1 ''v1'' ''t1'' ''vm_start'' ''op@ovc'' [])"
    by (simp add: acquire_vm_lock_def cache_get_def)
  have ttl: "0 < seconds (lock_ttl default_settings (Some ''vm_start''))"
    using task_timeout_ge_default [of default_settings "Some ''vm_start''"] by (simp add: lock_ttl_def seconds_def)
  have rel: "snd (release_vm_lock 1 ''v1'' (Some ''t1'') (set_vm_state default_settings 1 ''v1'' ''Starting'' ?a))
      = set_vm_state default_settings 1 ''v1'' ''Starting'' []"
    using ttl by (simp add: release_vm_lock_def get_vm_lock_def acquire_vm_lock_def set_vm_state_def cache_get_set
        cache_get_def cache_set_def cache_del_def live_def vm_state_key_def vm_lock_key_def)
  show ?thesis
    using acq rel
    by (simp add: session_scope_def queue_vm_task_def load_vm_host_def require_host_online_def bind_act_def ret_def
        raise_def read_db_def cache_act_def on_error_def insert_and_publish_eq with_state_def Let_def case_prod_beta)
qed


text \<open>The overlay is not part of that roll-back: when publishing fails, the cache keeps the
  transitional state for its time to live, so a VM that nothing was asked of reads as Starting.\<close>

theorem failed_publish_leaves_overlay:
  "\<exists>w'. session_scope (queue_vm_task cursor_env default_settings ''t1'' (sample_vm ''v1'' ''h1'') ''vm_start'' []
      ''op@ovc'' (Some ''Starting'') True) (ready_world\<lparr>w_broker_up := False\<rparr>) = (Inl BrokerError, w')
    \<and> db_tasks (w_db w') = [] \<and> db_vms (w_db w') = [sample_vm ''v1'' ''h1'']
    \<and> VmOut_state (vm_out (w_db w') (sample_vm ''v1'' ''h1'') (get_vm_state 3000000000 (w_cache w') ''v1'') None False)
        = ''Starting''"
  using failed_start
  by (simp add: get_vm_state_def set_vm_state_def cache_get_set seconds_def vm_out_def)

end
