(* ===== verification/Vm_Frame.thy ===== *)
theory Vm_Frame
  imports Vms
begin

text \<open>
  What a write of a VM row leaves alone: \<open>write_vm_row\<close> is taken apart into its thirteen assignments,
  each of which changes its own columns only, and put together again as a frame lemma for full and
  partial reports. The scalar columns are read through \<open>vm_scalars\<close> by the key that writes them.
\<close>

section \<open>Lemmas\<close>

lemma sbind_InrE: "sbind m f = Inr y \<Longrightarrow> (\<And>x. m = Inr x \<Longrightarrow> f x = Inr y \<Longrightarrow> P) \<Longrightarrow> P"
  by (auto simp: sbind_eq_Inr)

lemma when_ok_cases:
  assumes "when_ok b f v = Inr v'"
  obtains "b" "f v = Inr v'" | "\<not> b" "v' = v"
  using assms by (auto simp: when_ok_def split: if_splits)

lemma write_name_frame:
  "write_name partial raw item v = Inr v' \<Longrightarrow>
     v' = v\<lparr>Vm_name := Vm_name v'\<rparr> \<and> (\<not> reported partial raw [''name''] \<longrightarrow> Vm_name v' = Vm_name v)"
  by (auto simp: write_name_def sbind_eq_Inr reported_def split: if_splits)

lemma write_state_frame:
  "when_ok b (write_state partial item) v = Inr v' \<Longrightarrow>
     v' = v\<lparr>Vm_state := Vm_state v'\<rparr> \<and> (\<not> b \<longrightarrow> Vm_state v' = Vm_state v)"
  by (erule when_ok_cases) (auto simp: write_state_def sbind_eq_Inr split: if_splits)

lemma write_guest_os_frame:
  "write_guest_os item v = v\<lparr>Vm_guest_os := Vm_guest_os (write_guest_os item v)\<rparr>
     \<and> (\<not> truthy (jget item ''guestOs'') \<longrightarrow> Vm_guest_os (write_guest_os item v) = Vm_guest_os v)"
  by (auto simp: write_guest_os_def py_strip_def rstrip_by_def lstrip_by_def split: json.splits)

lemma firmware_frame:
  "when_ok b (\<lambda>v. sbind m (\<lambda>s. Inr (v\<lparr>Vm_firmware := s\<rparr>))) v = Inr v' \<Longrightarrow>
     v' = v\<lparr>Vm_firmware := Vm_firmware v'\<rparr> \<and> (\<not> b \<longrightarrow> Vm_firmware v' = Vm_firmware v)"
  by (erule when_ok_cases) (auto simp: sbind_eq_Inr)

lemma vcpu_frame:
  "when_ok b (write_vcpu partial item) v = Inr v' \<Longrightarrow>
     v' = v\<lparr>Vm_vcpu := Vm_vcpu v'\<rparr> \<and> (\<not> b \<longrightarrow> Vm_vcpu v' = Vm_vcpu v)"
  by (erule when_ok_cases) (auto simp: write_vcpu_def sbind_eq_Inr)

lemma flag_frames:
  "when_ok b (\<lambda>v. Inr (v\<lparr>Vm_memory_dynamic := x\<rparr>)) v = Inr v' \<Longrightarrow>
     v' = v\<lparr>Vm_memory_dynamic := if b then x else Vm_memory_dynamic v\<rparr>"
  "when_ok b (\<lambda>v. Inr (v\<lparr>Vm_nested_virtualization := x\<rparr>)) v = Inr v' \<Longrightarrow>
     v' = v\<lparr>Vm_nested_virtualization := if b then x else Vm_nested_virtualization v\<rparr>"
  "when_ok b (\<lambda>v. Inr (v\<lparr>Vm_highly_available := x\<rparr>)) v = Inr v' \<Longrightarrow>
     v' = v\<lparr>Vm_highly_available := if b then x else Vm_highly_available v\<rparr>"
  "when_ok b (\<lambda>v. Inr (v\<lparr>Vm_vm_created_at := d\<rparr>)) v = Inr v' \<Longrightarrow>
     v' = v\<lparr>Vm_vm_created_at := if b then d else Vm_vm_created_at v\<rparr>"
  by (erule when_ok_cases; simp)+

lemma child_frames:
  "when_ok b (sync_disks env j) v = Inr v' \<Longrightarrow> v' = v\<lparr>Vm_disks := Vm_disks v'\<rparr> \<and> (\<not> b \<longrightarrow> Vm_disks v' = Vm_disks v)"
  "when_ok b (sync_nics j) v = Inr v' \<Longrightarrow> v' = v\<lparr>Vm_nics := Vm_nics v'\<rparr> \<and> (\<not> b \<longrightarrow> Vm_nics v' = Vm_nics v)"
  "when_ok b (sync_snapshots env j) v = Inr v' \<Longrightarrow>
     v' = v\<lparr>Vm_snapshots := Vm_snapshots v'\<rparr> \<and> (\<not> b \<longrightarrow> Vm_snapshots v' = Vm_snapshots v)"
  by (erule when_ok_cases, auto simp: sync_disks_def sync_nics_def sync_snapshots_def sbind_eq_Inr)+

text \<open>The scalar columns, read by their key; an entry of the table writes its own column and nothing else.\<close>

definition vm_scalars :: "vm \<Rightarrow> (string \<times> json) list" where
  "vm_scalars v = [(''uptimeSec'', opt_int (Vm_uptime_sec v)), (''memoryBytes'', JInt (Vm_memory_bytes v)),
     (''memoryMinBytes'', opt_int (Vm_memory_min_bytes v)), (''memoryMaxBytes'', opt_int (Vm_memory_max_bytes v)),
     (''memoryDemandBytes'', opt_int (Vm_memory_demand_bytes v)),
     (''cpuUsagePercent'', opt_float (Vm_cpu_usage_percent v)),
     (''secureBoot'', case Vm_secure_boot v of None \<Rightarrow> JNull | Some b \<Rightarrow> JBool b),
     (''secureBootTemplate'', opt_str (Vm_secure_boot_template v)), (''autoStartAction'', opt_str (Vm_auto_start_action v)),
     (''autoStartDelaySec'', opt_int (Vm_auto_start_delay_sec v)), (''autoStopAction'', opt_str (Vm_auto_stop_action v)),
     (''configPath'', opt_str (Vm_config_path v)), (''dvdPath'', opt_str (Vm_dvd_path v)), (''notes'', opt_str (Vm_notes v))]"

definition erase_scalars :: "vm \<Rightarrow> vm" where
  "erase_scalars v = v\<lparr>Vm_uptime_sec := None, Vm_memory_bytes := 0, Vm_memory_min_bytes := None,
     Vm_memory_max_bytes := None, Vm_memory_demand_bytes := None, Vm_cpu_usage_percent := None,
     Vm_secure_boot := None, Vm_secure_boot_template := None, Vm_auto_start_action := None,
     Vm_auto_start_delay_sec := None, Vm_auto_stop_action := None, Vm_config_path := None, Vm_dvd_path := None,
     Vm_notes := None\<rparr>"

lemma scalar_put_frame:
  "list_all (\<lambda>(k, ks, put). \<forall>j x y. put j x = Inr y \<longrightarrow> erase_scalars y = erase_scalars x
      \<and> list_all2 (\<lambda>p q. fst p = k \<or> p = q) (vm_scalars x) (vm_scalars y)) VM_SCALAR_FIELDS"
  unfolding VM_SCALAR_FIELDS_def list.pred_inject prod.case
  by (intro conjI TrueI allI impI; (elim sbind_InrE)?; (simp add: erase_scalars_def vm_scalars_def split: option.splits)?; clarsimp)

lemma write_scalars_frame:
  assumes "write_scalars partial raw item v = Inr v'"
  shows "erase_scalars v' = erase_scalars v"
proof (rule foldM_invariant [OF assms [unfolded write_scalars_def], of "\<lambda>x. erase_scalars x = erase_scalars v"], goal_cases)
  case (2 e s s')
  obtain k ks put where e: "e = (k, ks, put)" by (cases e)
  have "erase_scalars y = erase_scalars x" if "put j x = Inr y" for j x y
    using scalar_put_frame 2(1) that unfolding e list_all_iff by fastforce
  then show ?case using 2(2,3) unfolding e prod.case by (metis when_ok_cases)
qed simp

lemma scalar_keys_distinct: "distinct (map fst VM_SCALAR_FIELDS)"
  by (simp add: VM_SCALAR_FIELDS_def)

lemma map_of_list_all2:
  "list_all2 (\<lambda>p q. fst p = k' \<or> p = q) xs ys \<Longrightarrow> map fst xs = map fst ys \<Longrightarrow> k \<noteq> k' \<Longrightarrow> map_of xs k = map_of ys k"
  by (induction rule: list_all2_induct) auto

lemma scalar_put_key:
  assumes "(k', ks, put) \<in> set VM_SCALAR_FIELDS" and "put j x = Inr y" and "k \<noteq> k'"
  shows "map_of (vm_scalars y) k = map_of (vm_scalars x) k"
proof (rule sym, rule map_of_list_all2 [OF _ _ assms(3)])
  show "list_all2 (\<lambda>p q. fst p = k' \<or> p = q) (vm_scalars x) (vm_scalars y)"
    using scalar_put_frame assms(1,2) unfolding list_all_iff by fastforce
qed (simp add: vm_scalars_def)

lemma write_scalars_key:
  assumes "write_scalars partial raw item v = Inr v'"
    and "(k, ks, put) \<in> set VM_SCALAR_FIELDS" and "\<not> reported partial raw ks"
  shows "map_of (vm_scalars v') k = map_of (vm_scalars v) k"
proof (rule foldM_invariant [OF assms(1) [unfolded write_scalars_def],
    of "\<lambda>x. map_of (vm_scalars x) k = map_of (vm_scalars v) k"], goal_cases)
  case (2 e s s')
  obtain k' ks' put' where e: "e = (k', ks', put')" by (cases e)
  have "ks' = ks" if "k' = k"
    using eq_key_imp_eq_value [OF scalar_keys_distinct] assms(2) 2(1) that unfolding e by fastforce
  then have "k' \<noteq> k" if "reported partial raw ks'" using that assms(3) by blast
  then show ?case
    using 2 scalar_put_key [of k' ks' put'] unfolding e prod.case by (metis when_ok_cases)
qed simp

lemma erase_scalarsD:
  assumes "erase_scalars y = erase_scalars x"
  shows "Vm_id y = Vm_id x \<and> Vm_vm_uuid y = Vm_vm_uuid x \<and> Vm_host_id y = Vm_host_id x
    \<and> Vm_cluster_id y = Vm_cluster_id x \<and> Vm_folder_id y = Vm_folder_id x \<and> Vm_name y = Vm_name x
    \<and> Vm_state y = Vm_state x \<and> Vm_firmware y = Vm_firmware x \<and> Vm_guest_os y = Vm_guest_os x
    \<and> Vm_vcpu y = Vm_vcpu x \<and> Vm_metrics_enabled y = Vm_metrics_enabled x
    \<and> Vm_disks y = Vm_disks x \<and> Vm_nics y = Vm_nics x \<and> Vm_snapshots y = Vm_snapshots x"
  using assms by (cases x; cases y) (simp add: erase_scalars_def)

lemma field_step:
  "(v' = put x v \<and> Q x) \<Longrightarrow> (\<And>x. v' = put x v \<Longrightarrow> Q x \<Longrightarrow> P) \<Longrightarrow> P"
  by blast

lemma write_vm_row_steps:
  assumes "write_vm_row env now raw item host_id cluster_id partial v = Inr v'"
  obtains v1 v2 v3 v4 v5 v6 v7 v8 v9 v10 v11 v12 v13 where
    "write_name partial raw item (v\<lparr>Vm_host_id := host_id, Vm_cluster_id := cluster_id\<rparr>) = Inr v1"
    "when_ok (reported partial raw [''state'', ''powerState'']) (write_state partial item) v1 = Inr v2"
    "Inr (write_guest_os item (if jget raw ''metricsEnabled'' = JNull then v2
        else v2\<lparr>Vm_metrics_enabled := truthy (jget item ''metricsEnabled'')\<rparr>)) = (Inr v3 :: vm res)"
    "when_ok (reported partial raw [''firmware'', ''generation''])
       (\<lambda>v. sbind (req_str_col (jget item ''firmware'')) (\<lambda>s. Inr (v\<lparr>Vm_firmware := s\<rparr>))) v3 = Inr v4"
    "when_ok (reported partial raw [''vcpu'', ''cpu'']) (write_vcpu partial item) v4 = Inr v5"
    "when_ok (reported partial raw [''memoryDynamic'', ''memory''])
       (\<lambda>v. Inr (v\<lparr>Vm_memory_dynamic := truthy (jget item ''memoryDynamic'')\<rparr>)) v5 = Inr v6"
    "when_ok (reported partial raw [''nestedVirtualization'', ''nested''])
       (\<lambda>v. Inr (v\<lparr>Vm_nested_virtualization := truthy (jget item ''nestedVirtualization'')\<rparr>)) v6 = Inr v7"
    "when_ok (reported partial raw [''highlyAvailable'', ''ha''])
       (\<lambda>v. Inr (v\<lparr>Vm_highly_available := truthy (jget item ''highlyAvailable'')\<rparr>)) v7 = Inr v8"
    "write_scalars partial raw item v8 = Inr v9"
    "when_ok (reported partial raw [''createdAt'', ''creationTime''] \<and> truthy (jget item ''createdAt''))
       (\<lambda>v. Inr (v\<lparr>Vm_vm_created_at := map_option as_utc (parse_dt env (jget item ''createdAt''))\<rparr>)) v9 = Inr v10"
    "when_ok (reported partial raw [''disks'', ''vhds'']) (sync_disks env (jget item ''disks'')) v10 = Inr v11"
    "when_ok (reported partial raw [''nics'']) (sync_nics (jget item ''nics'')) v11 = Inr v12"
    "when_ok (reported partial raw [''snapshots'']) (sync_snapshots env (jget item ''snapshots'')) v12 = Inr v13"
    "Inr (v13\<lparr>Vm_last_inventory_at := Some now\<rparr>) = (Inr v' :: vm res)"
  using assms unfolding write_vm_row_def Let_def
  by (elim sbind_InrE) (rule that; assumption)

text \<open>What one write of a row leaves alone, whatever the report: its key, its GUID and its folder; and
  each group of columns none of whose keys a partial report has.\<close>

lemma write_vm_row_frame:
  assumes "write_vm_row env now raw item host_id cluster_id partial v = Inr v'"
  shows "Vm_id v' = Vm_id v \<and> Vm_vm_uuid v' = Vm_vm_uuid v \<and> Vm_folder_id v' = Vm_folder_id v
    \<and> Vm_host_id v' = host_id \<and> Vm_cluster_id v' = cluster_id
    \<and> (\<not> reported partial raw [''name''] \<longrightarrow> Vm_name v' = Vm_name v)
    \<and> (\<not> reported partial raw [''state'', ''powerState''] \<longrightarrow> Vm_state v' = Vm_state v)
    \<and> (\<not> reported partial raw [''firmware'', ''generation''] \<longrightarrow> Vm_firmware v' = Vm_firmware v)
    \<and> (\<not> reported partial raw [''vcpu'', ''cpu''] \<longrightarrow> Vm_vcpu v' = Vm_vcpu v)
    \<and> (\<not> truthy (jget item ''guestOs'') \<longrightarrow> Vm_guest_os v' = Vm_guest_os v)
    \<and> (jget raw ''metricsEnabled'' = JNull \<longrightarrow> Vm_metrics_enabled v' = Vm_metrics_enabled v)
    \<and> (\<not> reported partial raw [''disks'', ''vhds''] \<longrightarrow> Vm_disks v' = Vm_disks v)
    \<and> (\<not> reported partial raw [''nics''] \<longrightarrow> Vm_nics v' = Vm_nics v)
    \<and> (\<not> reported partial raw [''snapshots''] \<longrightarrow> Vm_snapshots v' = Vm_snapshots v)
    \<and> Vm_last_inventory_at v' = Some now
    \<and> (\<forall>(k, ks, put) \<in> set VM_SCALAR_FIELDS. \<not> reported partial raw ks
         \<longrightarrow> map_of (vm_scalars v') k = map_of (vm_scalars v) k)"
proof (rule write_vm_row_steps [OF assms], goal_cases)
  case (1 v1 v2 v3 v4 v5 v6 v7 v8 v9 v10 v11 v12 v13)
  note steps = write_name_frame [OF 1(1)] write_state_frame [OF 1(2)] firmware_frame [OF 1(4)] vcpu_frame [OF 1(5)]
    flag_frames(1) [OF 1(6)] flag_frames(2) [OF 1(7)] flag_frames(3) [OF 1(8)] erase_scalarsD [OF write_scalars_frame [OF 1(9)]]
    flag_frames(4) [OF 1(10)] child_frames(1) [OF 1(11)] child_frames(2) [OF 1(12)] child_frames(3) [OF 1(13)]
  let ?v0 = "v\<lparr>Vm_host_id := host_id, Vm_cluster_id := cluster_id\<rparr>"
  obtain x1 where v1: "v1 = ?v0\<lparr>Vm_name := x1\<rparr>" "\<not> reported partial raw [''name''] \<longrightarrow> x1 = Vm_name v"
    using steps(1) by (elim field_step) simp
  obtain x2 where v2: "v2 = v1\<lparr>Vm_state := x2\<rparr>" "\<not> reported partial raw [''state'', ''powerState''] \<longrightarrow> x2 = Vm_state v1"
    using steps(2) by (elim field_step) simp
  let ?m = "if jget raw ''metricsEnabled'' = JNull then Vm_metrics_enabled v2 else truthy (jget item ''metricsEnabled'')"
  have "v3 = write_guest_os item (v2\<lparr>Vm_metrics_enabled := ?m\<rparr>)" using 1(3) by (simp split: if_splits)
  moreover have "\<exists>x. write_guest_os item r = r\<lparr>Vm_guest_os := x\<rparr>
      \<and> (\<not> truthy (jget item ''guestOs'') \<longrightarrow> x = Vm_guest_os r)" for r
    using write_guest_os_frame [of item r] by blast
  ultimately obtain x3 where "v3 = v2\<lparr>Vm_metrics_enabled := ?m\<rparr>\<lparr>Vm_guest_os := x3\<rparr>"
    and "\<not> truthy (jget item ''guestOs'') \<longrightarrow> x3 = Vm_guest_os (v2\<lparr>Vm_metrics_enabled := ?m\<rparr>)" by metis
  then have v3: "v3 = v2\<lparr>Vm_metrics_enabled := ?m, Vm_guest_os := x3\<rparr>"
    "\<not> truthy (jget item ''guestOs'') \<longrightarrow> x3 = Vm_guest_os v2" by simp_all
  obtain x4 where v4: "v4 = v3\<lparr>Vm_firmware := x4\<rparr>" "\<not> reported partial raw [''firmware'', ''generation''] \<longrightarrow> x4 = Vm_firmware v3"
    using steps(3) by (elim field_step) simp
  obtain x5 where v5: "v5 = v4\<lparr>Vm_vcpu := x5\<rparr>" "\<not> reported partial raw [''vcpu'', ''cpu''] \<longrightarrow> x5 = Vm_vcpu v4"
    using steps(4) by (elim field_step) simp
  obtain x11 where v11: "v11 = v10\<lparr>Vm_disks := x11\<rparr>" "\<not> reported partial raw [''disks'', ''vhds''] \<longrightarrow> x11 = Vm_disks v10"
    using steps(10) by (elim field_step) simp
  obtain x12 where v12: "v12 = v11\<lparr>Vm_nics := x12\<rparr>" "\<not> reported partial raw [''nics''] \<longrightarrow> x12 = Vm_nics v11"
    using steps(11) by (elim field_step) simp
  obtain x13 where v13: "v13 = v12\<lparr>Vm_snapshots := x13\<rparr>" "\<not> reported partial raw [''snapshots''] \<longrightarrow> x13 = Vm_snapshots v12"
    using steps(12) by (elim field_step) simp
  have v8: "v8 = v5\<lparr>Vm_memory_dynamic := Vm_memory_dynamic v8, Vm_nested_virtualization := Vm_nested_virtualization v8,
      Vm_highly_available := Vm_highly_available v8\<rparr>"
    unfolding steps(5-7) by simp
  obtain d n h where v8: "v8 = v5\<lparr>Vm_memory_dynamic := d, Vm_nested_virtualization := n, Vm_highly_available := h\<rparr>"
    using v8 by blast
  have v10: "\<exists>c. v10 = v9\<lparr>Vm_vm_created_at := c\<rparr>" using steps(9) by blast
  then obtain c where v10: "v10 = v9\<lparr>Vm_vm_created_at := c\<rparr>" by blast
  have v9: "Vm_id v9 = Vm_id v \<and> Vm_vm_uuid v9 = Vm_vm_uuid v \<and> Vm_host_id v9 = host_id
    \<and> Vm_cluster_id v9 = cluster_id \<and> Vm_folder_id v9 = Vm_folder_id v \<and> Vm_name v9 = x1
    \<and> Vm_state v9 = x2 \<and> Vm_firmware v9 = x4 \<and> Vm_guest_os v9 = x3
    \<and> Vm_vcpu v9 = x5 \<and> Vm_metrics_enabled v9 = ?m
    \<and> Vm_disks v9 = Vm_disks v \<and> Vm_nics v9 = Vm_nics v \<and> Vm_snapshots v9 = Vm_snapshots v"
    using steps(8) by (simp add: v8 v5(1) v4(1) v3(1) v2(1) v1(1))
  have m2: "Vm_metrics_enabled v2 = Vm_metrics_enabled v" by (simp add: v2(1) v1(1))
  have v': "v' = v13\<lparr>Vm_last_inventory_at := Some now\<rparr>" using 1(14) by simp
  have "vm_scalars v8 = vm_scalars v"
    by (simp add: vm_scalars_def v8 v5(1) v4(1) v3(1) v2(1) v1(1))
  moreover have "vm_scalars v' = vm_scalars v9"
    by (simp add: vm_scalars_def v' v13(1) v12(1) v11(1) v10)
  ultimately have sc: "\<forall>(k, ks, put) \<in> set VM_SCALAR_FIELDS. \<not> reported partial raw ks
      \<longrightarrow> map_of (vm_scalars v') k = map_of (vm_scalars v) k"
    using write_scalars_key [OF 1(9)] by fastforce
  show ?case
    using v1(2) v2(2) v3(2) v4(2) v5(2) v11(2) v12(2) v13(2) v9 m2 sc
    by (simp add: v' v13(1) v12(1) v11(1) v10 v5(1) v4(1) v3(1) v2(1) v1(1))
qed

lemma pop_thumbnail_keeps: "k \<noteq> ''thumbnail'' \<Longrightarrow> jget (snd (pop_thumbnail raw)) k = jget raw k"
  by (simp add: pop_thumbnail_def)

section \<open>Properties\<close>

text \<open>A partial report (the VM object an agent attaches to a task response) never erases what it
  does not mention: a column none of whose keys is in the report keeps its value, and the key, the
  GUID and the folder of the row are kept in any case.\<close>

theorem partial_report_keeps_rest:
  assumes "write_vm_row env now raw item host_id cluster_id True v = Inr v'"
  shows "Vm_id v' = Vm_id v \<and> Vm_vm_uuid v' = Vm_vm_uuid v \<and> Vm_folder_id v' = Vm_folder_id v
    \<and> (\<not> jhas raw ''name'' \<longrightarrow> Vm_name v' = Vm_name v)
    \<and> (\<not> jhas raw ''state'' \<and> \<not> jhas raw ''powerState'' \<longrightarrow> Vm_state v' = Vm_state v)
    \<and> (\<not> jhas raw ''firmware'' \<and> \<not> jhas raw ''generation'' \<longrightarrow> Vm_firmware v' = Vm_firmware v)
    \<and> (\<not> jhas raw ''vcpu'' \<and> \<not> jhas raw ''cpu'' \<longrightarrow> Vm_vcpu v' = Vm_vcpu v)
    \<and> (\<not> jhas raw ''disks'' \<and> \<not> jhas raw ''vhds'' \<longrightarrow> Vm_disks v' = Vm_disks v)
    \<and> (\<not> jhas raw ''nics'' \<longrightarrow> Vm_nics v' = Vm_nics v)
    \<and> (\<not> jhas raw ''snapshots'' \<longrightarrow> Vm_snapshots v' = Vm_snapshots v)
    \<and> (\<forall>(k, ks, put) \<in> set VM_SCALAR_FIELDS. \<not> list_ex (jhas raw) ks
         \<longrightarrow> map_of (vm_scalars v') k = map_of (vm_scalars v) k)"
  using write_vm_row_frame [OF assms] by (simp add: reported_def)

text \<open>A report of the state only.\<close>

definition state_report :: jobj where
  "state_report = [(''id'', JStr ''guid-v1''), (''state'', JStr ''Running'')]"

lemma write_state_report:
  "write_vm_row cursor_env 5 state_report [(''state'', JStr ''Running'')] ''h1'' None True
     ((sample_vm ''v1'' ''h1'')\<lparr>Vm_notes := Some ''keep''\<rparr>)
   = Inr ((sample_vm ''v1'' ''h1'')\<lparr>Vm_notes := Some ''keep'', Vm_state := ''Running'', Vm_last_inventory_at := Some 5\<rparr>)"
  by (simp add: write_vm_row_def state_report_def reported_def when_ok_def write_name_def write_state_def
      write_guest_os_def write_scalars_def VM_SCALAR_FIELDS_def req_str_col_def sample_vm_def Let_def)

theorem partial_report_keeps_rest_witness:
  "\<exists>v'. write_vm_row cursor_env 5 state_report [(''state'', JStr ''Running'')] ''h1'' None True
     ((sample_vm ''v1'' ''h1'')\<lparr>Vm_notes := Some ''keep''\<rparr>) = Inr v'
   \<and> Vm_state v' = ''Running'' \<and> map_of (vm_scalars v') ''notes'' = Some (JStr ''keep'') \<and> Vm_name v' = ''web''"
  using partial_report_keeps_rest [OF write_state_report] write_state_report
  by (auto simp: state_report_def vm_scalars_def opt_str_def sample_vm_def)


definition tiny_jpeg :: string where
  "tiny_jpeg = [CHR 0xFF, CHR 0xD8, CHR 0xFF, CHR 0x00]"


end
