(* ===== verification/Host_Actions.thy ===== *)
theory Host_Actions
  imports Vms
begin

text \<open>
  \<^verbatim>\<open>app/services/host_actions.py\<close>: maintenance of a cluster node, the reboot of a host and forced
  refreshes, queued on the host's agent; and what a successful pause or resume changes in the stored
  hardware. \<open>host_is_clustered\<close> is in the theory of the VM requests, which also uses it.
\<close>

section \<open>Definitions\<close>

definition NON_TERMINAL :: "string list" where
  "NON_TERMINAL = [''queued'', ''running'']"

definition CLUSTER_NODE_ACTIONS :: "string list" where
  "CLUSTER_NODE_ACTIONS = [''suspend'', ''suspend_drain'', ''resume'', ''resume_fallback'']"

definition DISRUPTIVE_HOST_ACTIONS :: "string list" where
  "DISRUPTIVE_HOST_ACTIONS = CLUSTER_NODE_ACTIONS @ [''restart'']"

definition READ_ONLY_HOST_ACTIONS :: "string list" where
  "READ_ONLY_HOST_ACTIONS = [''refresh_hardware'', ''refresh_inventory'']"

definition HOST_ACTIONS :: "string list" where
  "HOST_ACTIONS = DISRUPTIVE_HOST_ACTIONS @ READ_ONLY_HOST_ACTIONS"

definition disruptive_active :: "ident \<Rightarrow> task \<Rightarrow> bool" where
  "disruptive_active host_id t \<longleftrightarrow> Task_host_id t = host_id \<and> Task_target_type t = ''host''
     \<and> Task_kind t \<in> set DISRUPTIVE_HOST_ACTIONS \<and> Task_status t \<in> set NON_TERMINAL"

definition host_action_in_progress :: exn where
  "host_action_in_progress = ApiError ''HOST_ACTION_IN_PROGRESS'' 409"

definition request_host_action ::
  "pyenv \<Rightarrow> settings \<Rightarrow> ident \<Rightarrow> host \<Rightarrow> string \<Rightarrow> string \<Rightarrow> task act"
where
  "request_host_action env st tid h action requester w =
     (if action \<notin> set HOST_ACTIONS then (Inl (ApiError ''UNKNOWN_ACTION'' 404), w)
      else if \<not> agent_connected st (w_now w) h then (Inl host_offline, w)
      else bind_act (if action \<in> set CLUSTER_NODE_ACTIONS then read_db (\<lambda>_. host_is_clustered h) else ret True) (\<lambda>ok.
             if \<not> ok then raise (ApiError ''NOT_CLUSTERED'' 409)
             else bind_act (read_db (\<lambda>db. Inr (db_tasks db))) (\<lambda>tasks.
               if action \<in> set DISRUPTIVE_HOST_ACTIONS \<and> list_ex (disruptive_active (Host_id h)) tasks
               then raise host_action_in_progress
               else let req = \<lparr>Request_id = tid, Request_function = action, Request_params = [],
                               Request_requested_by = requester, Request_issued_at = w_now w\<rparr>;
                        t = (queued_task tid action ''host'' (Host_id h) (Host_name h) (Host_id h) requester (w_now w))
                              \<lparr>Task_request_payload := Some (request_json env req)\<rparr>
                    in bind_act (write_db (add_task t)) (\<lambda>_.
                       bind_act (publish_request (Host_short_id h) req) (\<lambda>_. ret t)))) w)"

text \<open>\<^verbatim>\<open>dict(v or {})\<close>; a value that is not an object is refused.\<close>

definition dict_or_empty :: "json \<Rightarrow> jobj res" where
  "dict_or_empty v = (if \<not> truthy v then Inr [] else case as_dict v of None \<Rightarrow> Inl TypeError | Some d \<Rightarrow> Inr d)"

definition result_get :: "json option \<Rightarrow> string \<Rightarrow> json" where
  "result_get r k = (case r of Some (JObj d) \<Rightarrow> jget d k | _ \<Rightarrow> JNull)"

definition apply_host_action_response ::
  "pyenv \<Rightarrow> task \<Rightarrow> agent_response \<Rightarrow> database \<Rightarrow> (unit \<times> database) res"
where
  "apply_host_action_response env t resp db =
     (if Task_kind t \<notin> set CLUSTER_NODE_ACTIONS \<or> Task_status t \<noteq> ''succeeded'' then Inr ((), db)
      else let state = result_get (Response_result resp) ''status'' in
        if \<not> truthy state then Inr ((), db)
        else case tget Host_id (db_hosts db) (Task_target_id t) of
          None \<Rightarrow> Inr ((), db)
        | Some h \<Rightarrow>
            (case Host_hardware h of
               None \<Rightarrow> Inr ((), db)
             | Some hardware \<Rightarrow>
                 if hardware = [] then Inr ((), db)
                 else sbind (dict_or_empty (jget hardware ''cluster'')) (\<lambda>cluster.
                   let hw = jset hardware ''cluster'' (JObj (jset cluster ''state'' (JStr (py_str env state))))
                   in Inr ((), db\<lparr>db_hosts := tupd Host_id (Host_id h) (\<lambda>r. r\<lparr>Host_hardware := Some hw\<rparr>) (db_hosts db)\<rparr>))))"

section \<open>Lemmas\<close>

text \<open>A successful request: the guards held, and one queued task was added.\<close>

lemma request_host_action_Inr:
  assumes "request_host_action env st tid h action requester w = (Inr t, w')"
  shows "action \<in> set HOST_ACTIONS \<and> agent_connected st (w_now w) h
    \<and> (action \<in> set DISRUPTIVE_HOST_ACTIONS \<longrightarrow> \<not> list_ex (disruptive_active (Host_id h)) (db_tasks (w_db w)))
    \<and> w_db w' = add_task t (w_db w) \<and> Task_id t = tid \<and> Task_kind t = action \<and> Task_status t = ''queued''
    \<and> Task_host_id t = Host_id h \<and> Task_target_type t = ''host''"
  using assms
  by (auto simp: request_host_action_def bind_act_Inr read_db_def write_db_def publish_request_def ret_def raise_def
      queued_task_def Let_def split: if_splits)

section \<open>Properties\<close>

definition no_stacked_operations :: "database \<Rightarrow> bool" where
  "no_stacked_operations db \<longleftrightarrow> list_all (\<lambda>h. length (filter (disruptive_active (Host_id h)) (db_tasks db)) \<le> 1) (db_hosts db)"

text \<open>C13: Disruptive operations never stack: a host has at most one node operation or reboot that is
  queued or running, and an accepted request keeps it so, whatever the action and the host.\<close>

theorem host_actions_never_stack:
  assumes "request_host_action env st tid h action requester w = (Inr t, w')"
    and "no_stacked_operations (w_db w)"
  shows "no_stacked_operations (w_db w')
    \<and> (action \<in> set DISRUPTIVE_HOST_ACTIONS \<longrightarrow> filter (disruptive_active (Host_id h)) (db_tasks (w_db w')) = [t])
    \<and> (action \<notin> set DISRUPTIVE_HOST_ACTIONS \<longrightarrow>
         filter (disruptive_active (Host_id h)) (db_tasks (w_db w')) = filter (disruptive_active (Host_id h)) (db_tasks (w_db w)))"
proof -
  note r = request_host_action_Inr [OF assms(1)]
  have tasks: "db_tasks (w_db w') = db_tasks (w_db w) @ [t]" "db_hosts (w_db w') = db_hosts (w_db w)"
    using r by (simp_all add: add_task_def)
  have t: "disruptive_active i t \<longleftrightarrow> i = Host_id h \<and> action \<in> set DISRUPTIVE_HOST_ACTIONS" for i
    using r by (auto simp: disruptive_active_def NON_TERMINAL_def)
  have free: "filter (disruptive_active (Host_id h)) (db_tasks (w_db w)) = []" if "action \<in> set DISRUPTIVE_HOST_ACTIONS"
    using r that by (auto simp: list_ex_iff filter_empty_conv)
  have "length (filter (disruptive_active (Host_id x)) (db_tasks (w_db w'))) \<le> 1" if "x \<in> set (db_hosts (w_db w))" for x
    using assms(2) that free t by (cases "disruptive_active (Host_id x) t") (auto simp: no_stacked_operations_def list_all_iff tasks)
  then show ?thesis using free t by (auto simp: no_stacked_operations_def list_all_iff tasks)
qed

theorem host_actions_never_stack_witness:
  "\<exists>t w'. request_host_action cursor_env default_settings ''t1'' ((sample_host ''h1'' None)\<lparr>Host_agent_last_seen := Some 0\<rparr>)
      ''restart'' ''op@ovc'' ready_world = (Inr t, w')
    \<and> filter (disruptive_active ''h1'') (db_tasks (w_db w')) = [t] \<and> no_stacked_operations (w_db w')
    \<and> fst (request_host_action cursor_env default_settings ''t2'' ((sample_host ''h1'' None)\<lparr>Host_agent_last_seen := Some 0\<rparr>)
        ''suspend_drain'' ''op@ovc'' (w'\<lparr>w_db := (w_db w')\<lparr>db_clusters := [sample_cluster]\<rparr>\<rparr>)) = Inl (ApiError ''NOT_CLUSTERED'' 409)"
proof -
  let ?h = "(sample_host ''h1'' None)\<lparr>Host_agent_last_seen := Some 0\<rparr>"
  obtain t w' where r: "request_host_action cursor_env default_settings ''t1'' ?h ''restart'' ''op@ovc'' ready_world = (Inr t, w')"
    and now: "w_now w' = 1"
    by (simp add: request_host_action_def HOST_ACTIONS_def DISRUPTIVE_HOST_ACTIONS_def CLUSTER_NODE_ACTIONS_def
        act_defs Let_def)
  have "no_stacked_operations (w_db ready_world)" by (simp add: no_stacked_operations_def list_all_iff)
  moreover have "fst (request_host_action cursor_env default_settings ''t2'' ?h ''suspend_drain'' ''op@ovc'' w2)
      = Inl (ApiError ''NOT_CLUSTERED'' 409)" if "w_now w2 = 1" for w2
    using that by (simp add: request_host_action_def HOST_ACTIONS_def DISRUPTIVE_HOST_ACTIONS_def CLUSTER_NODE_ACTIONS_def
        bind_act_def read_db_def raise_def host_is_clustered_def sub_get_def hardware_get_def)
      (simp add: sample_host_def)
  ultimately show ?thesis
    using host_actions_never_stack [OF r] r now
    by (intro exI [of _ t] exI [of _ w']) (simp add: DISRUPTIVE_HOST_ACTIONS_def sample_host_def)
qed

end
