(* ===== verification/Inventory.thy ===== *)
theory Inventory
  imports Vm_Frame
begin

text \<open>
  The second half of \<^verbatim>\<open>app/services/inventory.py\<close>: what the worker does with the heartbeat of an agent
  and with its VM inventory. \<open>apply_vm_inventory\<close> reconciles the rows of the reporting host with the
  snapshot: rows are matched by Hyper-V GUID across the cluster, unknown GUIDs are inserted unless
  they were deleted a moment ago, and rows the host no longer reports are removed and audited.

  The loop works on the loaded objects (\<open>inv_existing\<close>, the dictionary by GUID); they reach the
  database when the session is flushed, at the first query after the loop or at the commit. Ids drawn
  for new rows and audit events are given as functions of the position in the payload and of the
  removed row.
\<close>

section \<open>Sequences of effects\<close>

fun foldA :: "('a \<Rightarrow> 's \<Rightarrow> 's act) \<Rightarrow> 'a list \<Rightarrow> 's \<Rightarrow> 's act" where
  "foldA f [] s = ret s"
| "foldA f (x # xs) s = bind_act (f x s) (foldA f xs)"

definition forA :: "'a list \<Rightarrow> ('a \<Rightarrow> unit act) \<Rightarrow> unit act" where
  "forA xs f = foldA (\<lambda>x _. f x) xs ()"

definition with_now :: "(instant \<Rightarrow> 'a act) \<Rightarrow> 'a act" where
  "with_now f w = f (w_now w) w"

definition pure_act :: "'a res \<Rightarrow> 'a act" where
  "pure_act r w = (r, w)"

section \<open>Agent status\<close>

text \<open>\<^verbatim>\<open>a or b\<close>, then \<^verbatim>\<open>if x: host.column = x\<close>.\<close>

definition put_truthy_str :: "json \<Rightarrow> (string \<Rightarrow> host \<Rightarrow> host) \<Rightarrow> host \<Rightarrow> host res" where
  "put_truthy_str j put h = (if truthy j then sbind (req_str_col j) (\<lambda>s. Inr (put s h)) else Inr h)"

definition status_row :: "pyenv \<Rightarrow> instant \<Rightarrow> jobj \<Rightarrow> host \<Rightarrow> host res" where
  "status_row env now p h =
     sbind (str_col (jget p ''version'')) (\<lambda>version.
     sbind (int_col (jor (jget p ''vm_refresh_interval'') (jget p ''vmRefreshInterval''))) (\<lambda>refresh_vm.
     sbind (int_col (jor (jget p ''host_refresh_interval'') (jget p ''hostRefreshInterval''))) (\<lambda>refresh_host.
     sbind (put_truthy_str (jget p ''hypervisor'') (\<lambda>s h. h\<lparr>Host_hypervisor := s\<rparr>)
             (h\<lparr>Host_agent_version := version, Host_agent_refresh_vm := refresh_vm,
                Host_agent_refresh_host := refresh_host\<rparr>)) (\<lambda>h.
     sbind (put_truthy_str (jor (jget p ''fqdn'') (jget p ''hostname'')) (\<lambda>s h. h\<lparr>Host_fqdn := Some s\<rparr>) h) (\<lambda>h.
     sbind (put_truthy_str (jor (jget p ''ip'') (jor (jget p ''ipAddress'') (jget p ''primaryIp'')))
             (\<lambda>s h. h\<lparr>Host_ip_address := Some s\<rparr>) h) (\<lambda>h.
       Inr (h\<lparr>Host_agent_last_seen := Some (case parse_dt env (jget p ''reported_at'') of
              None \<Rightarrow> now | Some d \<Rightarrow> as_utc d)\<rparr>)))))))"

definition put_host :: "host \<Rightarrow> database \<Rightarrow> database" where
  "put_host h db = db\<lparr>db_hosts := tupd Host_id (Host_id h) (\<lambda>_. h) (db_hosts db)\<rparr>"

definition apply_agent_status :: "pyenv \<Rightarrow> instant \<Rightarrow> ident \<Rightarrow> json \<Rightarrow> database \<Rightarrow> (unit \<times> database) res" where
  "apply_agent_status env now host_id payload db =
     (case tget Host_id (db_hosts db) host_id of
        None \<Rightarrow> Inr ((), db)
      | Some h \<Rightarrow> sbind (need_dict payload) (\<lambda>p. sbind (status_row env now p h) (\<lambda>h'. Inr ((), put_host h' db))))"

section \<open>VM inventory\<close>

definition inventory_scope_host_ids :: "database \<Rightarrow> host \<Rightarrow> ident list" where
  "inventory_scope_host_ids db h = (case Host_cluster_id h of None \<Rightarrow> [Host_id h]
     | Some c \<Rightarrow> map Host_id (filter (\<lambda>x. Host_cluster_id x = Some c) (db_hosts db)))"

definition delete_in_flight :: "database \<Rightarrow> ident \<Rightarrow> bool" where
  "delete_in_flight db vm_id \<longleftrightarrow>
     list_ex (\<lambda>t. Task_target_id t = vm_id \<and> Task_kind t = ''vm_delete''
       \<and> Task_status t \<in> set [''queued'', ''running'']) (db_tasks db)"

text \<open>\<^verbatim>\<open>{vm.vm_uuid: vm for vm in ...}\<close>.\<close>

definition existing_vms :: "database \<Rightarrow> ident list \<Rightarrow> (string \<times> vm) list" where
  "existing_vms db scope_ids =
     foldl (\<lambda>d v. AList.update (or_empty (Vm_vm_uuid v)) v d) []
       (filter (\<lambda>v. Vm_host_id v \<in> set scope_ids \<and> Vm_vm_uuid v \<noteq> None) (db_vms db))"

text \<open>A new ORM object: everything not given is its default.\<close>

definition blank_vm :: "ident \<Rightarrow> ident \<Rightarrow> string \<Rightarrow> vm" where
  "blank_vm vid host_id vm_uuid =
     \<lparr>Vm_id = vid, Vm_vm_uuid = Some vm_uuid, Vm_host_id = host_id, Vm_cluster_id = None, Vm_folder_id = None,
      Vm_name = [], Vm_state = [], Vm_firmware = [], Vm_guest_os = None, Vm_uptime_sec = None, Vm_vcpu = 1,
      Vm_memory_bytes = 0, Vm_memory_min_bytes = None, Vm_memory_max_bytes = None, Vm_memory_dynamic = False,
      Vm_cpu_usage_percent = None, Vm_memory_demand_bytes = None, Vm_secure_boot = None,
      Vm_secure_boot_template = None, Vm_nested_virtualization = False, Vm_auto_start_action = None,
      Vm_auto_start_delay_sec = None, Vm_auto_stop_action = None, Vm_config_path = None, Vm_dvd_path = None,
      Vm_highly_available = False, Vm_metrics_enabled = False, Vm_notes = None, Vm_vm_created_at = None,
      Vm_last_inventory_at = None, Vm_disks = [], Vm_nics = [], Vm_snapshots = []\<rparr>"

text \<open>The loop's variables: the rows by GUID, the GUIDs seen, the images by VM id.\<close>

record inv_state =
  inv_existing :: "(string \<times> vm) list"
  inv_seen :: "string list"
  inv_thumbs :: "(ident \<times> string) list"

text \<open>\<^verbatim>\<open>raw.pop\<close> needs an object (a list's \<^verbatim>\<open>pop\<close> takes no default); a GUID that is not text is
  unhashable or refused by its column.\<close>

fun pop_item :: "json \<Rightarrow> (string option \<times> jobj) res" where
  "pop_item (JObj d) = Inr (pop_thumbnail d)"
| "pop_item (JList _) = Inl TypeError"
| "pop_item _ = Inl AttributeError"

fun guid_key :: "json \<Rightarrow> string res" where
  "guid_key (JStr s) = Inr s"
| "guid_key (JList _) = Inl TypeError"
| "guid_key (JObj _) = Inl TypeError"
| "guid_key _ = Inl DBAPIError"

definition write_item ::
  "pyenv \<Rightarrow> settings \<Rightarrow> host \<Rightarrow> jobj \<Rightarrow> jobj \<Rightarrow> string option \<Rightarrow> string \<Rightarrow> vm \<Rightarrow> inv_state \<Rightarrow> inv_state act"
where
  "write_item env st h raw item thumbnail g v s =
     with_now (\<lambda>now.
     bind_act (pure_act (write_vm_row env now raw item (Host_id h) (Host_cluster_id h) False v)) (\<lambda>v'.
     bind_act (cache_act (\<lambda>now c. ((), set_vm_state st now (Vm_id v') (Vm_state v') c))) (\<lambda>_.
       ret \<lparr>inv_existing = AList.update g v' (inv_existing s), inv_seen = List.insert g (inv_seen s),
            inv_thumbs = (case thumbnail of None \<Rightarrow> inv_thumbs s
              | Some img \<Rightarrow> AList.update (Vm_id v') img (inv_thumbs s))\<rparr>)))"

definition inventory_item ::
  "pyenv \<Rightarrow> settings \<Rightarrow> host \<Rightarrow> string list \<Rightarrow> json \<times> ident \<Rightarrow> inv_state \<Rightarrow> inv_state act"
where
  "inventory_item env st h tombstoned p s =
     bind_act (pure_act (pop_item (fst p))) (\<lambda>(thumbnail, raw).
     bind_act (pure_act (normalize_vm env raw)) (\<lambda>item.
       if \<not> truthy (jget item ''vmUuid'') then ret s
       else bind_act (pure_act (guid_key (jget item ''vmUuid''))) (\<lambda>g.
         case map_of (inv_existing s) g of
           None \<Rightarrow> if g \<in> set tombstoned then ret s
             else write_item env st h raw item thumbnail g (blank_vm (snd p) (Host_id h) g) s
         | Some v \<Rightarrow> write_item env st h raw item thumbnail g v s)))"

text \<open>The flush: new objects are inserted, loaded ones updated, and the unique indexes checked.\<close>

definition save_vm :: "vm \<Rightarrow> vm list \<Rightarrow> vm list" where
  "save_vm v t = (if Vm_id v \<in> Vm_id ` set t then tupd Vm_id (Vm_id v) (\<lambda>_. v) t else t @ [v])"

definition flush_vms :: "vm list \<Rightarrow> unit act" where
  "flush_vms rows =
     lift_res (\<lambda>db. let vms = fold save_vm rows (db_vms db) in
       if vm_uuids_ok vms then Inr ((), db\<lparr>db_vms := vms\<rparr>) else Inl IntegrityError)"

definition remove_unreported :: "(ident \<Rightarrow> ident) \<Rightarrow> vm \<Rightarrow> unit act" where
  "remove_unreported event_id v =
     bind_act (read_db (\<lambda>db. Inr (delete_in_flight db (Vm_id v)))) (\<lambda>in_flight.
     bind_act (if in_flight then ret ()
       else bind_act (with_now (\<lambda>now. lift_res (record_event (event_id (Vm_id v)) now None ''vm.inventory_remove''
              (Some (VmTarget v)) None None
              (Some [(''reason'', JStr ''no longer reported by its host agent'')])))) (\<lambda>_. ret ())) (\<lambda>_.
     bind_act (cache_act (\<lambda>now c. ((), clear_vm_state now (Vm_id v) c))) (\<lambda>_.
       write_db (drop_vms (\<lambda>r. Vm_id r = Vm_id v)))))"

definition payload_list :: "string \<Rightarrow> json \<Rightarrow> json list res" where
  "payload_list key payload = sbind (need_dict payload) (\<lambda>p. iter_json (jget_default p key (JList [])))"

definition unreported :: "host \<Rightarrow> inv_state \<Rightarrow> vm list" where
  "unreported h s = map snd (filter (\<lambda>p. Vm_host_id (snd p) = Host_id h \<and> fst p \<notin> set (inv_seen s)) (inv_existing s))"

definition store_thumbnails :: "pyenv \<Rightarrow> json \<Rightarrow> (ident \<times> string) list \<Rightarrow> unit act" where
  "store_thumbnails env payload thumbs =
     (if thumbs = [] then ret ()
      else with_now (\<lambda>now. bind_act (pure_act (need_dict payload)) (\<lambda>p.
        write_db (upsert_thumbnails thumbs (case parse_dt env (jget p ''reported_at'') of
          None \<Rightarrow> now | Some d \<Rightarrow> as_utc d)))))"

definition apply_vm_inventory ::
  "pyenv \<Rightarrow> settings \<Rightarrow> (nat \<Rightarrow> ident) \<Rightarrow> (ident \<Rightarrow> ident) \<Rightarrow> ident \<Rightarrow> json \<Rightarrow> unit act"
where
  "apply_vm_inventory env st fresh event_id host_id payload =
     bind_act (read_db (\<lambda>db. Inr db)) (\<lambda>db.
     case tget Host_id (db_hosts db) host_id of
       None \<Rightarrow> ret ()
     | Some h \<Rightarrow>
       bind_act (pure_act (payload_list ''vms'' payload)) (\<lambda>items.
       bind_act (cache_act (\<lambda>now c. (list_deleted_vm_uuids now c host_id, c))) (\<lambda>tombstoned.
       bind_act (foldA (inventory_item env st h tombstoned) (zip items (map fresh [0..<length items]))
                  \<lparr>inv_existing = existing_vms db (inventory_scope_host_ids db h), inv_seen = [], inv_thumbs = []\<rparr>) (\<lambda>s.
       let gone = unreported h s; rows = map snd (inv_existing s) in
       bind_act (if gone = [] then ret () else flush_vms rows) (\<lambda>_.
       bind_act (forA gone (remove_unreported event_id)) (\<lambda>_.
       bind_act (forA (filter (\<lambda>g. g \<notin> set (inv_seen s)) tombstoned)
                  (\<lambda>g. cache_act (\<lambda>now c. ((), clear_vm_deleted now host_id g c)))) (\<lambda>_.
       bind_act (if gone = [] then flush_vms rows else ret ()) (\<lambda>_.
         store_thumbnails env payload (inv_thumbs s)))))))))"

section \<open>Lemmas\<close>

subsection \<open>Loops of effects\<close>

lemma foldA_suffix:
  assumes "foldA f zs s w = (Inr s', w')" and "P ys s w" and "ys @ zs = xs"
    and "\<And>ys x zs s w s' w'. ys @ x # zs = xs \<Longrightarrow> P ys s w \<Longrightarrow> f x s w = (Inr s', w') \<Longrightarrow> P (ys @ [x]) s' w'"
  shows "P xs s' w'"
  using assms(1-3)
proof (induction zs arbitrary: ys s w)
  case Nil
  then show ?case by (simp add: ret_def)
next
  case (Cons x zs)
  from Cons.prems(1) obtain s1 w1 where s1: "f x s w = (Inr s1, w1)" "foldA f zs s1 w1 = (Inr s', w')"
    by (auto simp: bind_act_Inr)
  have "P (ys @ [x]) s1 w1" using assms(4) Cons.prems(2,3) s1(1) by blast
  then show ?case using Cons.IH s1(2) Cons.prems(3) by simp
qed

lemma forA_Cons: "forA (x # xs) f = bind_act (f x) (\<lambda>_. forA xs f)"
  by (simp add: forA_def fun_eq_iff bind_act_def split: prod.split sum.split)

lemma forA_Nil [simp]: "forA [] f = ret ()"
  by (simp add: forA_def)

lemma forA_invariant:
  assumes "forA xs f w = (Inr u, w')" and "P w" and "\<And>x w w'. x \<in> set xs \<Longrightarrow> P w \<Longrightarrow> f x w = (Inr (), w') \<Longrightarrow> P w'"
  shows "P w'"
  using assms
proof (induction xs arbitrary: w)
  case (Cons x xs)
  then obtain w1 where "f x w = (Inr (), w1)" "forA xs f w1 = (Inr u, w')"
    by (auto simp: forA_Cons bind_act_Inr)
  with Cons show ?case by (metis list.set_intros)
qed (simp add: ret_def)

subsection \<open>One item\<close>

text \<open>The GUID of an item of the payload.\<close>

definition item_guid :: "json \<Rightarrow> string option" where
  "item_guid raw = (case as_dict raw of None \<Rightarrow> None
     | Some d \<Rightarrow> (case jor (jget d ''id'') (jget d ''vmId'') of JStr s \<Rightarrow> none_if_empty s | _ \<Rightarrow> None))"

lemma normalize_guid:
  "normalize_vm env d = Inr item \<Longrightarrow> jget item ''vmUuid'' = jor (jget d ''id'') (jget d ''vmId'')"
  unfolding normalize_vm_def by (elim sbind_InrE) auto

lemma guid_key_Inr: "guid_key j = Inr g \<longleftrightarrow> j = JStr g"
  by (cases j) auto

lemma write_item_Inr:
  assumes "write_item env st h raw item th g v s w = (Inr s', w')"
  obtains v' where "write_vm_row env (w_now w) raw item (Host_id h) (Host_cluster_id h) False v = Inr v'"
    "inv_existing s' = AList.update g v' (inv_existing s)" "set (inv_seen s') = insert g (set (inv_seen s))"
    "w' = w\<lparr>w_cache := set_vm_state st (w_now w) (Vm_id v') (Vm_state v') (w_cache w)\<rparr>"
  using assms
  by (auto simp: write_item_def with_now_def bind_act_Inr pure_act_def cache_act_def ret_def split: if_splits)

lemma inventory_item_cases:
  assumes run: "inventory_item env st h T p s w = (Inr s', w')"
  obtains (skipped) "s' = s" "w' = w"
      "item_guid (fst p) = None \<or> (\<exists>g \<in> set T. item_guid (fst p) = Some g \<and> map_of (inv_existing s) g = None)"
  | (written) g v v' raw item where "item_guid (fst p) = Some g"
      "v = (case map_of (inv_existing s) g of Some v \<Rightarrow> v | None \<Rightarrow> blank_vm (snd p) (Host_id h) g)"
      "map_of (inv_existing s) g = None \<Longrightarrow> g \<notin> set T"
      "write_vm_row env (w_now w) raw item (Host_id h) (Host_cluster_id h) False v = Inr v'"
      "inv_existing s' = AList.update g v' (inv_existing s)" "set (inv_seen s') = insert g (set (inv_seen s))"
      "w' = w\<lparr>w_cache := set_vm_state st (w_now w) (Vm_id v') (Vm_state v') (w_cache w)\<rparr>"
proof -
  from run obtain th raw item where p: "pop_item (fst p) = Inr (th, raw)" and n: "normalize_vm env raw = Inr item"
    and rest: "(if \<not> truthy (jget item ''vmUuid'') then ret s
       else bind_act (pure_act (guid_key (jget item ''vmUuid''))) (\<lambda>g.
         case map_of (inv_existing s) g of
           None \<Rightarrow> if g \<in> set T then ret s
             else write_item env st h raw item th g (blank_vm (snd p) (Host_id h) g) s
         | Some v \<Rightarrow> write_item env st h raw item th g v s)) w = (Inr s', w')"
    by (auto simp: inventory_item_def bind_act_Inr pure_act_def)
  obtain d where d: "fst p = JObj d" "raw = jpop d ''thumbnail''"
    using p by (cases "fst p") (auto simp: pop_thumbnail_def)
  have u: "jget item ''vmUuid'' = jor (jget d ''id'') (jget d ''vmId'')"
    using normalize_guid [OF n] by (simp add: d)
  show thesis
  proof (cases "truthy (jget item ''vmUuid'')")
    case False
    then have "item_guid (fst p) = None" using u by (auto simp: item_guid_def d none_if_empty_def split: json.splits)
    then show thesis using skipped rest False by (simp add: ret_def)
  next
    case True
    with rest obtain g where g: "jget item ''vmUuid'' = JStr g"
      and w: "(case map_of (inv_existing s) g of
           None \<Rightarrow> if g \<in> set T then ret s
             else write_item env st h raw item th g (blank_vm (snd p) (Host_id h) g) s
         | Some v \<Rightarrow> write_item env st h raw item th g v s) w = (Inr s', w')"
      by (auto simp: bind_act_Inr pure_act_def guid_key_Inr)
    have "jor (jget d ''id'') (jget d ''vmId'') = JStr g" using u by (simp add: g)
    moreover have "g \<noteq> []" using True unfolding g by simp
    ultimately have ig: "item_guid (fst p) = Some g" by (simp add: item_guid_def d)
    show thesis
    proof (cases "map_of (inv_existing s) g = None \<and> g \<in> set T")
      case True
      then show thesis using skipped w ig by (simp add: ret_def)
    next
      case False
      define v where "v = (case map_of (inv_existing s) g of Some v \<Rightarrow> v | None \<Rightarrow> blank_vm (snd p) (Host_id h) g)"
      have "write_item env st h raw item th g v s w = (Inr s', w')"
        using w False by (auto simp: v_def split: option.splits)
      from write_item_Inr [OF this] show thesis using written [OF ig v_def] False by blast
    qed
  qed
qed

subsection \<open>The loop\<close>

text \<open>What holds after the items \<open>ys\<close>, relative to the dictionary \<open>ex0\<close> the loop started with.\<close>

definition loop_keys :: "(string \<times> vm) list \<Rightarrow> (json \<times> ident) list \<Rightarrow> (string \<times> vm) list \<Rightarrow> bool" where
  "loop_keys ex0 ys ex \<longleftrightarrow> distinct (map fst ex)
   \<and> (\<forall>g v. map_of ex g = Some v \<longrightarrow> Vm_vm_uuid v = Some g
        \<and> Vm_id v \<in> Vm_id ` snd ` set ex0 \<union> snd ` set ys)
   \<and> (\<forall>g v g' v'. map_of ex g = Some v \<longrightarrow> map_of ex g' = Some v' \<longrightarrow> Vm_id v = Vm_id v' \<longrightarrow> g = g')"

definition loop_rows :: "host \<Rightarrow> (string \<times> vm) list \<Rightarrow> inv_state \<Rightarrow> bool" where
  "loop_rows h ex0 s \<longleftrightarrow>
     (\<forall>g. g \<notin> set (inv_seen s) \<longrightarrow> map_of (inv_existing s) g = map_of ex0 g)
   \<and> (\<forall>g v0. map_of ex0 g = Some v0 \<longrightarrow> (\<exists>v. map_of (inv_existing s) g = Some v
        \<and> Vm_id v = Vm_id v0 \<and> Vm_folder_id v = Vm_folder_id v0))
   \<and> (\<forall>g v. map_of ex0 g = None \<longrightarrow> map_of (inv_existing s) g = Some v \<longrightarrow> Vm_folder_id v = None)"

definition loop_seen :: "string list \<Rightarrow> host \<Rightarrow> (string \<times> vm) list \<Rightarrow> (json \<times> ident) list \<Rightarrow> inv_state \<Rightarrow> bool" where
  "loop_seen T h ex0 ys s \<longleftrightarrow>
     set (inv_seen s) = {g. g \<in> set (List.map_filter item_guid (map fst ys)) \<and> (map_of ex0 g \<noteq> None \<or> g \<notin> set T)}
   \<and> (\<forall>g \<in> set (inv_seen s). \<exists>v. map_of (inv_existing s) g = Some v \<and> Vm_host_id v = Host_id h
        \<and> Vm_cluster_id v = Host_cluster_id h)"

definition overlay_synced :: "inv_state \<Rightarrow> world \<Rightarrow> bool" where
  "overlay_synced s w \<longleftrightarrow> (\<forall>g \<in> set (inv_seen s). \<forall>v. map_of (inv_existing s) g = Some v
     \<longrightarrow> get_vm_state (w_now w) (w_cache w) (Vm_id v) = Some (Vm_state v))"

definition only_cache :: "world \<Rightarrow> world \<Rightarrow> bool" where
  "only_cache w w' \<longleftrightarrow> (\<exists>c. w' = w\<lparr>w_cache := c\<rparr>)"

definition loop_inv ::
  "string list \<Rightarrow> host \<Rightarrow> (string \<times> vm) list \<Rightarrow> world \<Rightarrow> (json \<times> ident) list \<Rightarrow> inv_state \<Rightarrow> world \<Rightarrow> bool"
where
  "loop_inv T h ex0 w0 ys s w \<longleftrightarrow> only_cache w0 w \<and> loop_keys ex0 ys (inv_existing s) \<and> loop_rows h ex0 s
     \<and> loop_seen T h ex0 ys s \<and> overlay_synced s w"

lemma loop_keysD:
  assumes "loop_keys ex0 ys ex" and "map_of ex g = Some v"
  shows "Vm_vm_uuid v = Some g" and "Vm_id v \<in> Vm_id ` snd ` set ex0 \<union> snd ` set ys"
    and "map_of ex g' = Some v' \<Longrightarrow> Vm_id v = Vm_id v' \<Longrightarrow> g = g'"
  using assms by (simp_all add: loop_keys_def)

lemma loop_rowsD:
  assumes "loop_rows h ex0 s"
  shows "g \<notin> set (inv_seen s) \<Longrightarrow> map_of (inv_existing s) g = map_of ex0 g"
    and "map_of ex0 g = Some v0 \<Longrightarrow> \<exists>v. map_of (inv_existing s) g = Some v
      \<and> Vm_id v = Vm_id v0 \<and> Vm_folder_id v = Vm_folder_id v0"
    and "map_of ex0 g = None \<Longrightarrow> map_of (inv_existing s) g = Some v \<Longrightarrow> Vm_folder_id v = None"
  using assms by (simp_all add: loop_rows_def)

lemma set_map_filter_append:
  "set (List.map_filter f (xs @ [x])) = set (List.map_filter f xs) \<union> set_option (f x)"
  by (auto simp: List.map_filter_def split: option.splits)

lemma get_vm_state_set:
  "0 < vm_state_ttl_seconds st \<Longrightarrow>
     get_vm_state now (set_vm_state st now i x c) j = (if j = i then Some x else get_vm_state now c j)"
  by (simp add: get_vm_state_def set_vm_state_def cache_get_set seconds_def)

lemma loop_step_written:
  assumes inv: "loop_inv T h ex0 w0 ys s w" and ttl: "0 < vm_state_ttl_seconds st"
    and fresh: "snd p \<notin> Vm_id ` snd ` set ex0" "snd p \<notin> snd ` set ys"
    and g: "item_guid (fst p) = Some g"
    and v: "v = (case map_of (inv_existing s) g of Some v \<Rightarrow> v | None \<Rightarrow> blank_vm (snd p) (Host_id h) g)"
    and T: "map_of (inv_existing s) g = None \<Longrightarrow> g \<notin> set T"
    and row: "write_vm_row env now raw item (Host_id h) (Host_cluster_id h) False v = Inr v'"
    and s': "inv_existing s' = AList.update g v' (inv_existing s)" "set (inv_seen s') = insert g (set (inv_seen s))"
  shows "loop_inv T h ex0 w0 (ys @ [p]) s'
    (w\<lparr>w_cache := set_vm_state st (w_now w) (Vm_id v') (Vm_state v') (w_cache w)\<rparr>)"
proof -
  note frame = write_vm_row_frame [OF row]
  have keys: "loop_keys ex0 ys (inv_existing s)" and rows: "loop_rows h ex0 s" and seen: "loop_seen T h ex0 ys s"
    and ov: "overlay_synced s w" and oc: "only_cache w0 w"
    using inv by (simp_all add: loop_inv_def)
  have m: "map_of (inv_existing s') k = (if k = g then Some v' else map_of (inv_existing s) k)" for k
    by (simp add: s' update_conv')
  have uuid: "Vm_vm_uuid v' = Some g" "Vm_folder_id v' = Vm_folder_id v" "Vm_id v' = Vm_id v"
    "Vm_host_id v' = Host_id h" "Vm_cluster_id v' = Host_cluster_id h"
    using frame keys by (auto simp: v loop_keys_def blank_vm_def split: option.splits)
  have other: "Vm_id u \<noteq> Vm_id v'" if "map_of (inv_existing s) k = Some u" "k \<noteq> g" for k u
  proof (cases "map_of (inv_existing s) g")
    case None
    have "Vm_id u \<noteq> snd p" using loop_keysD(2) [OF keys that(1)] fresh by (metis Un_iff)
    then show ?thesis using None by (simp add: uuid v blank_vm_def)
  next
    case (Some x)
    then show ?thesis using loop_keysD(3) [OF keys that(1) Some] that(2) by (auto simp: uuid v)
  qed
  have "loop_keys ex0 (ys @ [p]) (inv_existing s')"
  proof -
    have "distinct (map fst (inv_existing s'))" using keys by (simp add: s' loop_keys_def distinct_update)
    moreover have "Vm_id v' \<in> Vm_id ` snd ` set ex0 \<union> snd ` set (ys @ [p])"
      using keys by (auto simp: uuid v loop_keys_def blank_vm_def split: option.splits)
    moreover have "Vm_vm_uuid u = Some k \<and> Vm_id u \<in> Vm_id ` snd ` set ex0 \<union> snd ` set (ys @ [p])"
      if "map_of (inv_existing s') k = Some u" for k u
    proof (cases "k = g")
      case True
      then show ?thesis using that calculation(2) uuid(1) by (simp add: m)
    next
      case False
      then have "map_of (inv_existing s) k = Some u" using that by (simp add: m)
      from loop_keysD(1,2) [OF keys this] show ?thesis unfolding set_append image_Un by blast
    qed
    moreover have "k = k'" if "map_of (inv_existing s') k = Some u" "map_of (inv_existing s') k' = Some u'" "Vm_id u = Vm_id u'"
      for k u k' u'
    proof (cases "k = g \<or> k' = g")
      case True
      then show ?thesis using that other [of k u] other [of k' u'] by (auto simp: m split: if_splits)
    next
      case False
      then show ?thesis using that loop_keysD(3) [OF keys, of k u k' u'] by (simp add: m)
    qed
    ultimately show ?thesis unfolding loop_keys_def by blast
  qed
  moreover have "loop_rows h ex0 s'"
  proof (unfold loop_rows_def, intro conjI allI impI)
    fix k assume "k \<notin> set (inv_seen s')"
    then show "map_of (inv_existing s') k = map_of ex0 k" using loop_rowsD(1) [OF rows] by (simp add: s'(2) m)
  next
    fix k v0 assume k: "map_of ex0 k = Some v0"
    obtain u where "map_of (inv_existing s) k = Some u" "Vm_id u = Vm_id v0" "Vm_folder_id u = Vm_folder_id v0"
      using loop_rowsD(2) [OF rows k] by blast
    then show "\<exists>u. map_of (inv_existing s') k = Some u \<and> Vm_id u = Vm_id v0 \<and> Vm_folder_id u = Vm_folder_id v0"
      by (cases "k = g") (simp_all add: m uuid v)
  next
    fix k u assume k: "map_of ex0 k = None" "map_of (inv_existing s') k = Some u"
    show "Vm_folder_id u = None"
    proof (cases "k = g")
      case True
      then have u: "u = v'" using k(2) by (simp add: m)
      have "Vm_folder_id v = None" using loop_rowsD(3) [OF rows k(1)] True
        by (cases "map_of (inv_existing s) k") (simp_all add: v blank_vm_def)
      then show ?thesis unfolding u uuid(2) .
    next
      case False
      then show ?thesis using k loop_rowsD(3) [OF rows k(1)] by (simp add: m)
    qed
  qed
  moreover have "loop_seen T h ex0 (ys @ [p]) s'"
  proof (unfold loop_seen_def, rule conjI)
    have "map_of ex0 g \<noteq> None \<or> g \<notin> set T"
    proof (cases "g \<in> set (inv_seen s)")
      case True
      then show ?thesis using seen by (simp add: loop_seen_def)
    next
      case False
      then show ?thesis using T loop_rowsD(1) [OF rows] by auto
    qed
    then show "set (inv_seen s') = {k. k \<in> set (List.map_filter item_guid (map fst (ys @ [p])))
        \<and> (map_of ex0 k \<noteq> None \<or> k \<notin> set T)}"
      using seen unfolding loop_seen_def map_append list.map set_map_filter_append s'(2) g option.set by blast
    show "\<forall>k \<in> set (inv_seen s'). \<exists>u. map_of (inv_existing s') k = Some u \<and> Vm_host_id u = Host_id h
        \<and> Vm_cluster_id u = Host_cluster_id h"
      using seen uuid(4,5) by (simp add: loop_seen_def s'(2) m)
  qed
  moreover have "overlay_synced s' (w\<lparr>w_cache := set_vm_state st (w_now w) (Vm_id v') (Vm_state v') (w_cache w)\<rparr>)"
  proof (unfold overlay_synced_def, intro ballI allI impI)
    fix k u assume "k \<in> set (inv_seen s')" and k: "map_of (inv_existing s') k = Some u"
    then have "k = g \<or> k \<in> set (inv_seen s)" by (simp add: s'(2))
    then show "get_vm_state (w_now (w\<lparr>w_cache := set_vm_state st (w_now w) (Vm_id v') (Vm_state v') (w_cache w)\<rparr>))
        (w_cache (w\<lparr>w_cache := set_vm_state st (w_now w) (Vm_id v') (Vm_state v') (w_cache w)\<rparr>)) (Vm_id u)
      = Some (Vm_state u)"
      using k ov other [of k u] by (cases "k = g") (simp_all add: m get_vm_state_set [OF ttl] overlay_synced_def)
  qed
  moreover have "only_cache w0 (w\<lparr>w_cache := set_vm_state st (w_now w) (Vm_id v') (Vm_state v') (w_cache w)\<rparr>)"
    using oc by (auto simp: only_cache_def)
  ultimately show ?thesis by (simp add: loop_inv_def)
qed

lemma seen_extend: "S = {g. g \<in> A \<and> P g} \<Longrightarrow> B \<subseteq> {g. \<not> P g} \<Longrightarrow> S = {g. g \<in> A \<union> B \<and> P g}"
  by auto

lemma loop_step:
  assumes "loop_inv T h ex0 w0 ys s w" and "0 < vm_state_ttl_seconds st"
    and "snd p \<notin> Vm_id ` snd ` set ex0" "snd p \<notin> snd ` set ys"
    and "inventory_item env st h T p s w = (Inr s', w')"
  shows "loop_inv T h ex0 w0 (ys @ [p]) s' w'"
proof (rule inventory_item_cases [OF assms(5)], goal_cases)
  case 1
  have "loop_keys ex0 (ys @ [p]) (inv_existing s)"
    using assms(1) unfolding loop_inv_def loop_keys_def set_append image_Un by blast
  moreover have "loop_seen T h ex0 (ys @ [p]) s"
  proof -
    have "\<exists>g \<in> set T. item_guid (fst p) = Some g \<and> map_of ex0 g = None" if some: "item_guid (fst p) \<noteq> None"
    proof -
      obtain g where g: "g \<in> set T" "item_guid (fst p) = Some g" "map_of (inv_existing s) g = None"
        using 1(3) some by auto
      have "map_of ex0 g = None"
        using assms(1) g(3) loop_rowsD(2) [of h ex0 s g] by (cases "map_of ex0 g") (auto simp: loop_inv_def)
      then show ?thesis using g by blast
    qed
    then have skipped: "set_option (item_guid (fst p)) \<subseteq> {g. \<not> (map_of ex0 g \<noteq> None \<or> g \<notin> set T)}"
      by (cases "item_guid (fst p)") auto
    have seen: "loop_seen T h ex0 ys s" using assms(1) by (simp add: loop_inv_def)
    show ?thesis
      using seen_extend [OF conjunct1 [OF seen [unfolded loop_seen_def]] skipped] conjunct2 [OF seen [unfolded loop_seen_def]]
      unfolding loop_seen_def map_append list.map set_map_filter_append by (rule conjI)
  qed
  ultimately show ?case using assms(1) 1(1,2) by (simp add: loop_inv_def)
next
  case (2 g v v' raw item)
  show ?case unfolding 2(7)
    by (rule loop_step_written [OF assms(1-4) 2(1-6)])
qed

text \<open>The dictionary the loop starts with, when GUIDs are unique across the scope.\<close>

definition scope_vms :: "database \<Rightarrow> host \<Rightarrow> vm list" where
  "scope_vms db h = filter (\<lambda>v. Vm_host_id v \<in> set (inventory_scope_host_ids db h) \<and> Vm_vm_uuid v \<noteq> None) (db_vms db)"

lemma update_fresh: "k \<notin> fst ` set d \<Longrightarrow> AList.update k v d = d @ [(k, v)]"
  by (induction d) auto

lemma scope_guid_inj:
  assumes "distinct (map Vm_vm_uuid (scope_vms db h))"
  shows "inj_on (\<lambda>v. or_empty (Vm_vm_uuid v)) (set (scope_vms db h))"
proof (rule inj_onI)
  fix u v assume uv: "u \<in> set (scope_vms db h)" "v \<in> set (scope_vms db h)"
    and eq: "or_empty (Vm_vm_uuid u) = or_empty (Vm_vm_uuid v)"
  obtain a b where "Vm_vm_uuid u = Some a" "Vm_vm_uuid v = Some b" using uv by (auto simp: scope_vms_def)
  with eq have "Vm_vm_uuid u = Vm_vm_uuid v" by simp
  with assms uv show "u = v" unfolding distinct_map inj_on_def by blast
qed

lemma existing_vms_eq:
  assumes "distinct (map Vm_vm_uuid (scope_vms db h))"
  shows "existing_vms db (inventory_scope_host_ids db h) = map (\<lambda>v. (or_empty (Vm_vm_uuid v), v)) (scope_vms db h)"
proof -
  have build: "foldl (\<lambda>d v. AList.update (k v) v d) (map (\<lambda>v. (k v, v)) us) vs = map (\<lambda>v. (k v, v)) (us @ vs)"
    if "distinct (map k (us @ vs))" for k :: "vm \<Rightarrow> string" and us vs
    using that
  proof (induction vs arbitrary: us)
    case (Cons v vs)
    have "AList.update (k v) v (map (\<lambda>v. (k v, v)) us) = map (\<lambda>v. (k v, v)) (us @ [v])"
      using Cons.prems by (subst update_fresh) (auto simp: image_image)
    then show ?case using Cons.IH [of "us @ [v]"] Cons.prems by simp
  qed simp
  have "distinct (map (\<lambda>v. or_empty (Vm_vm_uuid v)) (scope_vms db h))"
    using scope_guid_inj [OF assms] assms by (simp add: distinct_map)
  then show ?thesis
    unfolding existing_vms_def scope_vms_def [symmetric]
    using build [of "\<lambda>v. or_empty (Vm_vm_uuid v)" "[]" "scope_vms db h"] by simp
qed

lemma loop_start:
  assumes "distinct (map Vm_vm_uuid (scope_vms db h))" and "pk_unique Vm_id (db_vms db)"
  shows "loop_inv T h (existing_vms db (inventory_scope_host_ids db h)) w []
    \<lparr>inv_existing = existing_vms db (inventory_scope_host_ids db h), inv_seen = [], inv_thumbs = []\<rparr> w"
proof -
  let ?ex = "existing_vms db (inventory_scope_host_ids db h)"
  have sub: "set (scope_vms db h) \<subseteq> set (db_vms db)" and some: "\<And>v. v \<in> set (scope_vms db h) \<Longrightarrow> Vm_vm_uuid v \<noteq> None"
    by (auto simp: scope_vms_def)
  have ex: "set ?ex = (\<lambda>v. (or_empty (Vm_vm_uuid v), v)) ` set (scope_vms db h)"
    using existing_vms_eq [OF assms(1)] by simp
  have dist: "distinct (map fst ?ex)"
    using scope_guid_inj [OF assms(1)] assms(1) by (simp add: existing_vms_eq [OF assms(1)] distinct_map comp_def)
  have val: "v \<in> set (scope_vms db h) \<and> Vm_vm_uuid v = Some g" if "map_of ?ex g = Some v" for g v
  proof -
    have "v \<in> set (scope_vms db h)" "g = or_empty (Vm_vm_uuid v)" using map_of_SomeD [OF that] unfolding ex by auto
    then show ?thesis using some [of v] by auto
  qed
  have "loop_keys ?ex [] ?ex"
  proof (unfold loop_keys_def, intro conjI allI impI)
    fix g v assume "map_of ?ex g = Some v"
    then show "Vm_vm_uuid v = Some g" "Vm_id v \<in> Vm_id ` snd ` set ?ex \<union> snd ` set []"
      using val by (blast, force dest: map_of_SomeD)
  next
    fix g v g' v' assume "map_of ?ex g = Some v" "map_of ?ex g' = Some v'" "Vm_id v = Vm_id v'"
    then show "g = g'" using val pk_uniqueD [OF assms(2)] sub by (metis option.inject subsetD)
  qed (rule dist)
  moreover have "only_cache w w" unfolding only_cache_def by (rule exI [of _ "w_cache w"]) simp
  ultimately show ?thesis
    by (simp add: loop_inv_def loop_rows_def loop_seen_def overlay_synced_def List.map_filter_def)
qed

subsection \<open>Flush, removal, tombstones\<close>

lemma set_save_vm: "set (save_vm v t) = insert v {u \<in> set t. Vm_id u \<noteq> Vm_id v}"
  by (auto simp: save_vm_def set_tupd image_iff)

lemma pk_unique_save_vm: "pk_unique Vm_id t \<Longrightarrow> pk_unique Vm_id (save_vm v t)"
proof -
  assume pk: "pk_unique Vm_id t"
  have "map Vm_id (tupd Vm_id (Vm_id v) (\<lambda>_. v) t) = map Vm_id t" by (auto simp: tupd_def)
  with pk show ?thesis by (auto simp: save_vm_def pk_unique_def)
qed

lemma fold_save_vm:
  assumes "pk_unique Vm_id t" and "distinct (map Vm_id rows)"
  shows "pk_unique Vm_id (fold save_vm rows t)
    \<and> set (fold save_vm rows t) = set rows \<union> {v \<in> set t. Vm_id v \<notin> Vm_id ` set rows}"
  using assms
proof (induction rows arbitrary: t)
  case (Cons v rows)
  from Cons.IH [OF pk_unique_save_vm [OF Cons.prems(1)], of v] Cons.prems(2)
  show ?case by (auto simp: set_save_vm)
qed simp

lemma flush_vms_Inr:
  "flush_vms rows w = (Inr u, w') \<longleftrightarrow> vm_uuids_ok (fold save_vm rows (db_vms (w_db w)))
     \<and> w' = w\<lparr>w_db := (w_db w)\<lparr>db_vms := fold save_vm rows (db_vms (w_db w))\<rparr>\<rparr>"
  by (auto simp: flush_vms_def lift_res_def Let_def)

lemma get_vm_state_clear: "get_vm_state now (clear_vm_state now' i c) j = (if j = i then None else get_vm_state now c j)"
  by (simp add: get_vm_state_def clear_vm_state_def cache_get_del)

lemma get_vm_state_clear_deleted: "get_vm_state now (clear_vm_deleted now' h g c) j = get_vm_state now c j"
  by (simp add: get_vm_state_def clear_vm_deleted_def cache_get_del)

definition removal_event :: "ident \<Rightarrow> audit_event \<Rightarrow> bool" where
  "removal_event i e \<longleftrightarrow> AuditEvent_action e = ''vm.inventory_remove'' \<and> AuditEvent_target_id e = Some i
     \<and> AuditEvent_actor_type e = ''system''"

text \<open>What removing the rows \<open>gone\<close> does to the world.\<close>

definition removed :: "vm list \<Rightarrow> world \<Rightarrow> world \<Rightarrow> bool" where
  "removed gone w w' \<longleftrightarrow> db_vms (w_db w') = filter (\<lambda>r. Vm_id r \<notin> Vm_id ` set gone) (db_vms (w_db w))
     \<and> db_hosts (w_db w') = db_hosts (w_db w) \<and> db_folders (w_db w') = db_folders (w_db w)
     \<and> db_tasks (w_db w') = db_tasks (w_db w) \<and> w_now w' = w_now w
     \<and> (\<forall>j. j \<notin> Vm_id ` set gone \<longrightarrow> get_vm_state (w_now w) (w_cache w') j = get_vm_state (w_now w) (w_cache w) j)
     \<and> set (db_audit_events (w_db w)) \<subseteq> set (db_audit_events (w_db w'))
     \<and> (\<forall>v \<in> set gone. \<not> delete_in_flight (w_db w) (Vm_id v)
          \<longrightarrow> (\<exists>e \<in> set (db_audit_events (w_db w')). removal_event (Vm_id v) e))"

lemma remove_unreported_removed:
  assumes "remove_unreported event_id v w = (Inr u, w')"
  shows "removed [v] w w'"
proof (cases "delete_in_flight (w_db w) (Vm_id v)")
  case True
  then show ?thesis
    using assms
    by (auto simp: remove_unreported_def bind_act_Inr read_db_def cache_act_def write_db_def ret_def removed_def
        drop_vms_def Let_def get_vm_state_clear split: if_splits)
next
  case False
  then show ?thesis
    using assms
    by (auto simp: remove_unreported_def bind_act_Inr read_db_def cache_act_def write_db_def ret_def removed_def with_now_def
        lift_res_def record_event_def record_ref_def drop_vms_def Let_def get_vm_state_clear removal_event_def split: if_splits)
qed

lemma removed_trans:
  assumes "removed [v] w w1" and "removed gone w1 w'"
  shows "removed (v # gone) w w'"
proof -
  have "delete_in_flight (w_db w1) i = delete_in_flight (w_db w) i" for i
    using assms(1) by (simp add: removed_def delete_in_flight_def)
  then show ?thesis using assms unfolding removed_def by (auto simp: filter_filter intro: filter_cong)
qed

lemma forA_removed: "forA gone (remove_unreported event_id) w = (Inr u, w') \<Longrightarrow> removed gone w w'"
proof (induction gone arbitrary: w)
  case Nil
  then show ?case by (simp add: ret_def removed_def)
next
  case (Cons v gone)
  then obtain w1 where "remove_unreported event_id v w = (Inr (), w1)" "forA gone (remove_unreported event_id) w1 = (Inr u, w')"
    by (auto simp: forA_Cons bind_act_Inr)
  then show ?case using removed_trans [OF remove_unreported_removed Cons.IH] by blast
qed

lemma forA_clear_tombstones:
  assumes "forA gs (\<lambda>g. cache_act (\<lambda>now c. ((), clear_vm_deleted now h g c))) w = (Inr u, w')"
  shows "w_db w' = w_db w \<and> w_now w' = w_now w \<and> get_vm_state (w_now w) (w_cache w') j = get_vm_state (w_now w) (w_cache w) j"
  by (rule forA_invariant [OF assms])
    (auto simp: cache_act_def get_vm_state_clear_deleted split: if_splits)

lemma store_thumbnails_frame:
  assumes "store_thumbnails env payload thumbs w = (Inr u, w')"
  shows "w_cache w' = w_cache w \<and> w_now w' = w_now w \<and> (\<exists>t. w_db w' = (w_db w)\<lparr>db_vm_thumbnails := t\<rparr>)"
proof (cases "thumbs = []")
  case True
  then have "w' = w" using assms by (simp add: store_thumbnails_def ret_def)
  then show ?thesis by (auto intro: exI [of _ "db_vm_thumbnails (w_db w)"])
next
  case False
  then show ?thesis
    using assms by (auto simp: store_thumbnails_def with_now_def bind_act_Inr pure_act_def write_db_def upsert_thumbnails_def)
qed

subsection \<open>The whole pass\<close>

definition inventory_start :: "database \<Rightarrow> host \<Rightarrow> (string \<times> vm) list" where
  "inventory_start db h = existing_vms db (inventory_scope_host_ids db h)"

text \<open>A successful pass: the loop, and what the flush and the removals leave.\<close>

definition pass_result :: "host \<Rightarrow> world \<Rightarrow> inv_state \<Rightarrow> world \<Rightarrow> world \<Rightarrow> bool" where
  "pass_result h w s w1 w' \<longleftrightarrow>
     (let rows = map snd (inv_existing s); gone = unreported h s; vms = fold save_vm rows (db_vms (w_db w)) in
        vm_uuids_ok vms \<and> db_vms (w_db w') = filter (\<lambda>r. Vm_id r \<notin> Vm_id ` set gone) vms
      \<and> db_hosts (w_db w') = db_hosts (w_db w) \<and> db_folders (w_db w') = db_folders (w_db w) \<and> w_now w' = w_now w
      \<and> (\<forall>j. j \<notin> Vm_id ` set gone \<longrightarrow> get_vm_state (w_now w) (w_cache w') j = get_vm_state (w_now w) (w_cache w1) j)
      \<and> (\<forall>v \<in> set gone. \<not> delete_in_flight (w_db w) (Vm_id v)
           \<longrightarrow> (\<exists>e \<in> set (db_audit_events (w_db w')). removal_event (Vm_id v) e)))"

lemma apply_vm_inventory_Inr:
  assumes "apply_vm_inventory env st fresh event_id hid payload w = (Inr u, w')"
    and "tget Host_id (db_hosts (w_db w)) hid = Some h"
  obtains items s w1 where "payload_list ''vms'' payload = Inr items"
    "foldA (inventory_item env st h (list_deleted_vm_uuids (w_now w) (w_cache w) hid))
       (zip items (map fresh [0..<length items]))
       \<lparr>inv_existing = inventory_start (w_db w) h, inv_seen = [], inv_thumbs = []\<rparr> w = (Inr s, w1)"
    "only_cache w w1 \<Longrightarrow> pass_result h w s w1 w'"
proof -
  obtain items s w1 w2 w3 w4 w5 where items: "payload_list ''vms'' payload = Inr items"
    and loop: "foldA (inventory_item env st h (list_deleted_vm_uuids (w_now w) (w_cache w) hid))
       (zip items (map fresh [0..<length items]))
       \<lparr>inv_existing = inventory_start (w_db w) h, inv_seen = [], inv_thumbs = []\<rparr> w = (Inr s, w1)"
    and f1: "(if unreported h s = [] then ret () else flush_vms (map snd (inv_existing s))) w1 = (Inr (), w2)"
    and rm: "forA (unreported h s) (remove_unreported event_id) w2 = (Inr (), w3)"
    and tb: "forA (filter (\<lambda>g. g \<notin> set (inv_seen s)) (list_deleted_vm_uuids (w_now w) (w_cache w) hid))
        (\<lambda>g. cache_act (\<lambda>now c. ((), clear_vm_deleted now hid g c))) w3 = (Inr (), w4)"
    and f2: "(if unreported h s = [] then flush_vms (map snd (inv_existing s)) else ret ()) w4 = (Inr (), w5)"
    and th: "store_thumbnails env payload (inv_thumbs s) w5 = (Inr u, w')"
    using assms
    by (auto simp: apply_vm_inventory_def bind_act_Inr read_db_def pure_act_def cache_act_def inventory_start_def Let_def
        split: if_splits)
  show thesis
  proof (rule that [OF items loop])
    assume "only_cache w w1"
    then have w1: "w_db w1 = w_db w" "w_now w1 = w_now w" by (auto simp: only_cache_def)
    note frames = forA_removed [OF rm, unfolded removed_def] forA_clear_tombstones [OF tb] store_thumbnails_frame [OF th]
    show "pass_result h w s w1 w'"
    proof (cases "unreported h s = []")
      case True
      then show ?thesis
        using f1 f2 frames w1 by (auto simp: pass_result_def flush_vms_Inr ret_def Let_def)
    next
      case False
      then show ?thesis
        using f1 f2 frames w1 by (auto simp: pass_result_def flush_vms_Inr ret_def Let_def delete_in_flight_def)
    qed
  qed
qed

end
