(* ===== verification/Reconcile.thy ===== *)
theory Reconcile
  imports Inventory
begin

text \<open>
  What one successful VM inventory means. The abstract specification is a set equation: the GUIDs of
  the reporting host afterwards are the reported ones, except those deleted a moment ago that no row
  of the scope has. The rows that carry them keep their identity, rows outside the scope and rows of
  other cluster nodes are left alone, and the displayed states are those reported.
\<close>

section \<open>Specification\<close>

definition guids_of :: "(vm \<Rightarrow> bool) \<Rightarrow> vm list \<Rightarrow> string set" where
  "guids_of P vms = {g. \<exists>v \<in> set vms. P v \<and> Vm_vm_uuid v = Some g}"

definition host_guids :: "database \<Rightarrow> ident \<Rightarrow> string set" where
  "host_guids db hid = guids_of (\<lambda>v. Vm_host_id v = hid) (db_vms db)"

definition scope_guids :: "database \<Rightarrow> host \<Rightarrow> string set" where
  "scope_guids db h = guids_of (\<lambda>v. Vm_host_id v \<in> set (inventory_scope_host_ids db h)) (db_vms db)"

definition reported_guids :: "json list \<Rightarrow> string set" where
  "reported_guids items = set (List.map_filter item_guid items)"

text \<open>What is assumed of the world before: keys, no GUID twice in the scope, and ids that are new.\<close>

definition inventory_ready :: "world \<Rightarrow> host \<Rightarrow> (nat \<Rightarrow> ident) \<Rightarrow> bool" where
  "inventory_ready w h fresh \<longleftrightarrow> tget Host_id (db_hosts (w_db w)) (Host_id h) = Some h
     \<and> pk_unique Vm_id (db_vms (w_db w)) \<and> distinct (map Vm_vm_uuid (scope_vms (w_db w) h))
     \<and> inj fresh \<and> range fresh \<inter> Vm_id ` set (db_vms (w_db w)) = {}"

section \<open>Lemmas\<close>

lemma host_in_scope: "h \<in> set (db_hosts db) \<Longrightarrow> Host_id h \<in> set (inventory_scope_host_ids db h)"
  by (auto simp: inventory_scope_host_ids_def split: option.splits)

lemma start_lookup:
  assumes "distinct (map Vm_vm_uuid (scope_vms db h))"
  shows "map_of (inventory_start db h) g = Some v \<longleftrightarrow> v \<in> set (scope_vms db h) \<and> Vm_vm_uuid v = Some g"
proof -
  have dist: "distinct (map fst (inventory_start db h))"
    using scope_guid_inj [OF assms] assms
    by (simp add: inventory_start_def existing_vms_eq [OF assms] distinct_map comp_def)
  have "Vm_vm_uuid v \<noteq> None" if "v \<in> set (scope_vms db h)" using that by (simp add: scope_vms_def)
  then show ?thesis
    unfolding map_of_eq_Some_iff [OF dist] by (auto simp: inventory_start_def existing_vms_eq [OF assms] image_iff)
qed

lemma start_None:
  assumes "distinct (map Vm_vm_uuid (scope_vms db h))"
  shows "map_of (inventory_start db h) g = None \<longleftrightarrow> g \<notin> scope_guids db h"
proof -
  have "map_of (inventory_start db h) g \<noteq> None \<longleftrightarrow> (\<exists>v \<in> set (scope_vms db h). Vm_vm_uuid v = Some g)"
    using start_lookup [OF assms, of g] by auto
  then show ?thesis by (auto simp: scope_guids_def guids_of_def scope_vms_def)
qed

text \<open>The loop invariant at the end of the loop.\<close>

lemma loop_end:
  assumes "inventory_ready w h fresh" and "0 < vm_state_ttl_seconds st"
    and "foldA (inventory_item env st h T) (zip items (map fresh [0..<length items]))
       \<lparr>inv_existing = inventory_start (w_db w) h, inv_seen = [], inv_thumbs = []\<rparr> w = (Inr s, w1)"
  shows "loop_inv T h (inventory_start (w_db w) h) w (zip items (map fresh [0..<length items])) s w1"
proof (rule foldA_suffix [OF assms(3) _ append_Nil])
  show "loop_inv T h (inventory_start (w_db w) h) w []
      \<lparr>inv_existing = inventory_start (w_db w) h, inv_seen = [], inv_thumbs = []\<rparr> w"
    using loop_start assms(1) by (simp add: inventory_start_def inventory_ready_def)
next
  fix ys p zs s w2 s' w'
  assume split: "ys @ p # zs = zip items (map fresh [0..<length items])"
    and inv: "loop_inv T h (inventory_start (w_db w) h) w ys s w2"
    and step: "inventory_item env st h T p s w2 = (Inr s', w')"
  have "distinct (map snd (ys @ p # zs))"
    using assms(1) by (simp add: split inventory_ready_def distinct_map inj_on_def)
  then have "snd p \<notin> snd ` set ys" by auto
  moreover have "snd p \<in> range fresh"
    using arg_cong [OF split, of "\<lambda>xs. set (map snd xs)"] by auto
  moreover have "Vm_id ` snd ` set (inventory_start (w_db w) h) \<subseteq> Vm_id ` set (db_vms (w_db w))"
    using assms(1) by (auto simp: inventory_start_def inventory_ready_def existing_vms_eq scope_vms_def)
  ultimately show "loop_inv T h (inventory_start (w_db w) h) w (ys @ [p]) s' w'"
    using loop_step [OF inv assms(2) _ _ step] assms(1) unfolding inventory_ready_def by blast
qed

text \<open>The end of a loop, taken apart: the dictionary \<open>ex\<close> and what is known of its rows.\<close>

definition loop_over :: "world \<Rightarrow> host \<Rightarrow> (nat \<Rightarrow> ident) \<Rightarrow> string list \<Rightarrow> json list \<Rightarrow> inv_state \<Rightarrow> world \<Rightarrow> bool" where
  "loop_over w h fresh T items s w1 \<longleftrightarrow> inventory_ready w h fresh
     \<and> loop_inv T h (inventory_start (w_db w) h) w (zip items (map fresh [0..<length items])) s w1"

lemma loop_overD:
  assumes "loop_over w h fresh T items s w1"
  shows "distinct (map Vm_vm_uuid (scope_vms (w_db w) h))" and "pk_unique Vm_id (db_vms (w_db w))"
    and "distinct (map fst (inv_existing s))" and "loop_rows h (inventory_start (w_db w) h) s"
    and "loop_keys (inventory_start (w_db w) h) (zip items (map fresh [0..<length items])) (inv_existing s)"
    and "range fresh \<inter> Vm_id ` set (db_vms (w_db w)) = {}"
  using assms by (simp_all add: loop_over_def loop_inv_def inventory_ready_def loop_keys_def)

lemma loop_mem:
  assumes "loop_over w h fresh T items s w1"
  shows "(g, v) \<in> set (inv_existing s) \<longleftrightarrow> map_of (inv_existing s) g = Some v"
  using map_of_eq_Some_iff [OF loop_overD(3) [OF assms]] by simp

lemma loop_ids_inj:
  assumes "loop_over w h fresh T items s w1"
    and "(g, v) \<in> set (inv_existing s)" "(g', v') \<in> set (inv_existing s)" "Vm_id v = Vm_id v'"
  shows "g = g' \<and> v = v'"
proof -
  have "g = g'" using loop_keysD(3) [OF loop_overD(5) [OF assms(1)]] assms(2-4) unfolding loop_mem [OF assms(1)] by blast
  then show ?thesis using assms(2,3) unfolding loop_mem [OF assms(1)] by simp
qed

lemma loop_ids_distinct:
  assumes "loop_over w h fresh T items s w1"
  shows "distinct (map Vm_id (map snd (inv_existing s)))"
proof -
  have "inj_on (\<lambda>p. Vm_id (snd p)) (set (inv_existing s))"
    using loop_ids_inj [OF assms] by (intro inj_onI) (metis prod.collapse)
  then show ?thesis using loop_overD(3) [OF assms] by (simp add: distinct_map comp_def)
qed

text \<open>A row of the database is in the dictionary exactly when it is in the scope.\<close>

lemma loop_ids_scope:
  assumes over: "loop_over w h fresh T items s w1" and v: "v \<in> set (db_vms (w_db w))"
  shows "Vm_id v \<in> Vm_id ` snd ` set (inv_existing s) \<longleftrightarrow> v \<in> set (scope_vms (w_db w) h)"
proof
  assume "v \<in> set (scope_vms (w_db w) h)"
  moreover from this obtain g where "Vm_vm_uuid v = Some g" by (auto simp: scope_vms_def)
  ultimately obtain u where "map_of (inv_existing s) g = Some u" "Vm_id u = Vm_id v"
    using loop_rowsD(2) [OF loop_overD(4) [OF over]] start_lookup [OF loop_overD(1) [OF over], of g v] by blast
  then show "Vm_id v \<in> Vm_id ` snd ` set (inv_existing s)"
    using loop_mem [OF over] by (metis image_eqI snd_conv)
next
  assume "Vm_id v \<in> Vm_id ` snd ` set (inv_existing s)"
  then obtain g u where gu: "(g, u) \<in> set (inv_existing s)" "Vm_id v = Vm_id u" by auto
  then have u: "map_of (inv_existing s) g = Some u" by (simp add: loop_mem [OF over])
  have "snd ` set (zip items (map fresh [0..<length items])) \<subseteq> range fresh"
    by (auto dest!: set_zip_rightD)
  moreover have "Vm_id ` snd ` set (inventory_start (w_db w) h) = Vm_id ` set (scope_vms (w_db w) h)"
    by (simp add: inventory_start_def existing_vms_eq [OF loop_overD(1) [OF over]] image_image)
  ultimately have "Vm_id v \<in> Vm_id ` set (scope_vms (w_db w) h)"
    using loop_keysD(2) [OF loop_overD(5) [OF over] u] loop_overD(6) [OF over] v gu(2) by (auto 4 3)
  then obtain u' where "u' \<in> set (scope_vms (w_db w) h)" "Vm_id v = Vm_id u'" by blast
  then show "v \<in> set (scope_vms (w_db w) h)"
    using pk_uniqueD [OF loop_overD(2) [OF over] v, of u'] by (auto simp: scope_vms_def)
qed

lemma loop_gone:
  assumes over: "loop_over w h fresh T items s w1" and gv: "(g, v) \<in> set (inv_existing s)"
  shows "Vm_id v \<in> Vm_id ` set (unreported h s) \<longleftrightarrow> Vm_host_id v = Host_id h \<and> g \<notin> set (inv_seen s)"
proof
  assume "Vm_id v \<in> Vm_id ` set (unreported h s)"
  then obtain g' v' where "(g', v') \<in> set (inv_existing s)" "Vm_id v = Vm_id v'" "Vm_host_id v' = Host_id h"
    "g' \<notin> set (inv_seen s)" by (auto simp: unreported_def)
  then show "Vm_host_id v = Host_id h \<and> g \<notin> set (inv_seen s)" using loop_ids_inj [OF over gv] by metis
next
  assume "Vm_host_id v = Host_id h \<and> g \<notin> set (inv_seen s)"
  then show "Vm_id v \<in> Vm_id ` set (unreported h s)" using gv by (force simp: unreported_def)
qed

text \<open>The rows after the pass: those of the dictionary that the host reports or other hosts own, and
  everything outside the scope.\<close>

lemma final_rows:
  assumes over: "loop_over w h fresh T items s w1" and res: "pass_result h w s w1 w'"
  shows "set (db_vms (w_db w')) =
    {v. \<exists>g. map_of (inv_existing s) g = Some v \<and> (Vm_host_id v = Host_id h \<longrightarrow> g \<in> set (inv_seen s))}
    \<union> {v \<in> set (db_vms (w_db w)). v \<notin> set (scope_vms (w_db w) h)}"
proof -
  let ?ex = "inv_existing s" and ?db = "w_db w" and ?rows = "map snd (inv_existing s)"
  have vms: "set (fold save_vm ?rows (db_vms ?db)) = snd ` set ?ex \<union> {v \<in> set (db_vms ?db). Vm_id v \<notin> Vm_id ` snd ` set ?ex}"
    using fold_save_vm [OF loop_overD(2) [OF over] loop_ids_distinct [OF over]] by simp
  have sub: "Vm_id ` set (unreported h s) \<subseteq> Vm_id ` snd ` set ?ex" by (auto simp: unreported_def)
  have kept: "v \<in> snd ` set ?ex \<and> Vm_id v \<notin> Vm_id ` set (unreported h s)
      \<longleftrightarrow> (\<exists>g. (g, v) \<in> set ?ex \<and> (Vm_host_id v = Host_id h \<longrightarrow> g \<in> set (inv_seen s)))" for v
    using loop_gone [OF over] by force
  have "set (db_vms (w_db w')) = {v \<in> set (fold save_vm ?rows (db_vms ?db)). Vm_id v \<notin> Vm_id ` set (unreported h s)}"
    using res by (auto simp: pass_result_def Let_def)
  also have "\<dots> = {v. v \<in> snd ` set ?ex \<and> Vm_id v \<notin> Vm_id ` set (unreported h s)}
    \<union> {v \<in> set (db_vms ?db). Vm_id v \<notin> Vm_id ` snd ` set ?ex}"
    using sub unfolding vms by blast
  also have "\<dots> = {v. \<exists>g. (g, v) \<in> set ?ex \<and> (Vm_host_id v = Host_id h \<longrightarrow> g \<in> set (inv_seen s))}
    \<union> {v \<in> set (db_vms ?db). v \<notin> set (scope_vms ?db h)}"
    using loop_ids_scope [OF over] unfolding kept by blast
  finally show ?thesis unfolding loop_mem [OF over] .
qed

lemma run_cases:
  assumes "apply_vm_inventory env st fresh event_id (Host_id h) payload w = (Inr (), w')"
    and "payload_list ''vms'' payload = Inr items"
    and ready: "inventory_ready w h fresh" and ttl: "0 < vm_state_ttl_seconds st"
  obtains s w1 where "loop_over w h fresh (list_deleted_vm_uuids (w_now w) (w_cache w) (Host_id h)) items s w1"
    "pass_result h w s w1 w'" "only_cache w w1" "overlay_synced s w1"
proof -
  have host: "tget Host_id (db_hosts (w_db w)) (Host_id h) = Some h" using ready by (simp add: inventory_ready_def)
  show thesis
  proof (rule apply_vm_inventory_Inr [OF assms(1) host], goal_cases)
    case (1 items' s w1)
    have "items' = items" using 1(1) assms(2) by simp
    with loop_end [OF ready ttl 1(2)] ready 1(3) show ?case
      by (intro that [of s w1]) (simp_all add: loop_over_def loop_inv_def)
  qed
qed

text \<open>What the loop has seen, and the rows that carry it.\<close>

lemma loop_seen_set:
  assumes "loop_over w h fresh T items s w1"
  shows "set (inv_seen s) = {g \<in> reported_guids items. g \<in> scope_guids (w_db w) h \<or> g \<notin> set T}"
    and "g \<in> set (inv_seen s) \<Longrightarrow> \<exists>v. map_of (inv_existing s) g = Some v \<and> Vm_host_id v = Host_id h
        \<and> Vm_cluster_id v = Host_cluster_id h"
proof -
  have "loop_seen T h (inventory_start (w_db w) h) (zip items (map fresh [0..<length items])) s"
    using assms by (simp add: loop_over_def loop_inv_def)
  then show "set (inv_seen s) = {g \<in> reported_guids items. g \<in> scope_guids (w_db w) h \<or> g \<notin> set T}"
    and "g \<in> set (inv_seen s) \<Longrightarrow> \<exists>v. map_of (inv_existing s) g = Some v \<and> Vm_host_id v = Host_id h
        \<and> Vm_cluster_id v = Host_cluster_id h"
    by (simp_all add: loop_seen_def reported_guids_def start_None [OF loop_overD(1) [OF assms]])
qed

lemma host_rows:
  assumes over: "loop_over w h fresh T items s w1" and res: "pass_result h w s w1 w'"
  shows "v \<in> set (db_vms (w_db w')) \<and> Vm_host_id v = Host_id h \<and> Vm_vm_uuid v = Some g
    \<longleftrightarrow> g \<in> set (inv_seen s) \<and> map_of (inv_existing s) g = Some v"
proof -
  have "h \<in> set (db_hosts (w_db w))"
    using over tget_Some by (fastforce simp: loop_over_def inventory_ready_def)
  then have scoped: "u \<in> set (scope_vms (w_db w) h)"
    if "u \<in> set (db_vms (w_db w))" "Vm_host_id u = Host_id h" "Vm_vm_uuid u = Some k" for u k
    using that host_in_scope by (simp add: scope_vms_def)
  have uuid: "Vm_vm_uuid u = Some k" if "map_of (inv_existing s) k = Some u" for k u
    using loop_keysD(1) [OF loop_overD(5) [OF over] that] .
  show ?thesis
  proof
    assume l: "v \<in> set (db_vms (w_db w')) \<and> Vm_host_id v = Host_id h \<and> Vm_vm_uuid v = Some g"
    then obtain k where "map_of (inv_existing s) k = Some v" "k \<in> set (inv_seen s)"
      using scoped unfolding final_rows [OF over res] by blast
    moreover from this have "k = g" using uuid l by fastforce
    ultimately show "g \<in> set (inv_seen s) \<and> map_of (inv_existing s) g = Some v" by simp
  next
    assume r: "g \<in> set (inv_seen s) \<and> map_of (inv_existing s) g = Some v"
    then have "Vm_host_id v = Host_id h" using loop_seen_set(2) [OF over, of g] by auto
    then show "v \<in> set (db_vms (w_db w')) \<and> Vm_host_id v = Host_id h \<and> Vm_vm_uuid v = Some g"
      using r uuid unfolding final_rows [OF over res] by blast
  qed
qed

text \<open>Under the placement invariant and the unique indexes, no GUID is twice in a scope.\<close>

definition scope_key :: "host \<Rightarrow> ident + ident" where
  "scope_key h = (case Host_cluster_id h of Some c \<Rightarrow> Inl c | None \<Rightarrow> Inr (Host_id h))"

lemma scope_host_key:
  assumes "pk_unique Host_id (db_hosts db)" and "h \<in> set (db_hosts db)"
    and x: "x \<in> set (db_hosts db)" "Host_id x \<in> set (inventory_scope_host_ids db h)"
  shows "scope_key x = scope_key h \<and> Host_cluster_id x = Host_cluster_id h"
proof (cases "Host_cluster_id h")
  case None
  then have "x = h" using x pk_uniqueD [OF assms(1) x(1) assms(2)] by (simp add: inventory_scope_host_ids_def)
  then show ?thesis by simp
next
  case (Some c)
  then obtain y where y: "y \<in> set (db_hosts db)" "Host_cluster_id y = Some c" "Host_id x = Host_id y"
    using x(2) by (auto simp: inventory_scope_host_ids_def)
  then have "x = y" using pk_uniqueD [OF assms(1) x(1) y(1)] by simp
  then show ?thesis using y Some by (simp add: scope_key_def)
qed

lemma scope_vm_key:
  assumes "placement_ok db" and "h \<in> set (db_hosts db)" and v: "v \<in> set (scope_vms db h)"
  shows "vm_uuid_key v = Some (scope_key h, the (Vm_vm_uuid v)) \<and> Vm_vm_uuid v \<noteq> None"
proof -
  obtain x g where x: "x \<in> set (db_hosts db)" "Host_id x = Vm_host_id v" "Vm_cluster_id v = Host_cluster_id x"
    and g: "Vm_vm_uuid v = Some g" and s: "Vm_host_id v \<in> set (inventory_scope_host_ids db h)"
    using v assms(1) by (auto simp: scope_vms_def placement_ok_def well_placed_def)
  have "pk_unique Host_id (db_hosts db)" using assms(1) by (simp add: placement_ok_def)
  then have "scope_key x = scope_key h" using scope_host_key [OF _ assms(2) x(1)] s x(2) by simp
  moreover have "vm_uuid_key v = Some (scope_key x, g)"
    using g x(2,3) by (cases "Host_cluster_id x") (simp_all add: vm_uuid_key_def scope_key_def)
  ultimately show ?thesis using g by simp
qed

lemma distinct_map_filter_filter:
  "distinct (List.map_filter f xs) \<Longrightarrow>
     distinct (List.map_filter f (filter P xs)) \<and> set (List.map_filter f (filter P xs)) \<subseteq> set (List.map_filter f xs)"
  by (induction xs) (auto simp: List.map_filter_simps split: option.splits)

lemma scope_guids_distinct:
  assumes "placement_ok db" and "vm_uuids_ok (db_vms db)" and "h \<in> set (db_hosts db)"
  shows "distinct (map Vm_vm_uuid (scope_vms db h))"
proof -
  have eq: "List.map_filter vm_uuid_key vs = map (\<lambda>g. (scope_key h, the g)) (map Vm_vm_uuid vs)"
    if "set vs \<subseteq> set (scope_vms db h)" for vs
    using that scope_vm_key [OF assms(1,3)] by (induction vs) (auto simp: List.map_filter_simps)
  have "distinct (List.map_filter vm_uuid_key (scope_vms db h))"
    using conjunct1 [OF distinct_map_filter_filter] assms(2) unfolding scope_vms_def vm_uuids_ok_def by blast
  then show ?thesis unfolding eq [OF subset_refl] distinct_map by blast
qed

section \<open>A concrete pass\<close>

definition sample_item :: "string \<Rightarrow> jobj" where
  "sample_item g = [(''id'', JStr g), (''name'', JStr ''a''), (''state'', JStr ''Running'')]"

definition sample_report :: "string \<Rightarrow> json" where
  "sample_report g = JObj [(''vms'', JList [JObj (sample_item g)])]"

definition sample_normalized :: "string \<Rightarrow> jobj" where
  "sample_normalized g =
     [(''vmUuid'', JStr g), (''name'', JStr ''a''), (''state'', JStr ''Running''), (''metricsEnabled'', JNull),
      (''firmware'', JStr ''UEFI''), (''guestOs'', JNull), (''uptimeSec'', JNull), (''vcpu'', JNull),
      (''memoryBytes'', JInt 0), (''memoryMinBytes'', JNull), (''memoryMaxBytes'', JNull),
      (''memoryDynamic'', JBool False), (''memoryDemandBytes'', JNull), (''cpuUsagePercent'', JNull),
      (''secureBoot'', JNull), (''secureBootTemplate'', JNull), (''nestedVirtualization'', JBool False),
      (''autoStartAction'', JNull), (''autoStartDelaySec'', JNull), (''autoStopAction'', JNull),
      (''configPath'', JNull), (''dvdPath'', JNull), (''highlyAvailable'', JBool False), (''disks'', JList []),
      (''nics'', JList []), (''snapshots'', JList []), (''notes'', JNull), (''createdAt'', JNull)]"

lemma normalize_sample: "g \<noteq> [] \<Longrightarrow> normalize_vm cursor_env (sample_item g) = Inr (sample_normalized g)"
  using round_half_even_int [of 0]
  by (simp add: sample_item_def sample_normalized_def normalize_vm_def norm_memory_def norm_demand_def norm_disks_def
      norm_nics_def norm_snapshots_def mem_obj_def jget_default_def jor_def first_of_def mib_to_bytes_def opt_int_def
      opt_float_def int_or_zero_def as_float_def iter_dicts_def as_int_def float_of_int_def floorlog_def norm_vcpu_def
      firmware_of_def or_blank_def or_none_def py_upper_def List.map_filter_def catch_value_def)

definition sample_row :: "ident \<Rightarrow> string \<Rightarrow> instant \<Rightarrow> vm" where
  "sample_row vid g now = (blank_vm vid ''h1'' g)\<lparr>Vm_name := ''a'', Vm_state := ''Running'', Vm_firmware := ''UEFI'',
     Vm_last_inventory_at := Some now\<rparr>"

lemma write_sample_row:
  "write_vm_row cursor_env now raw (sample_normalized g) ''h1'' None False (blank_vm vid ''h1'' g) = Inr (sample_row vid g now)"
  by (simp add: write_vm_row_def sample_row_def sample_normalized_def blank_vm_def reported_def when_ok_def write_name_def
      write_state_def write_guest_os_def write_vcpu_def write_scalars_def VM_SCALAR_FIELDS_def req_str_col_def jor_def
      sync_disks_def sync_nics_def sync_snapshots_def Let_def)
definition fresh_id :: "nat \<Rightarrow> ident" where
  "fresh_id n = CHR ''n'' # replicate n CHR ''x''"

lemma fresh_id_inj: "inj fresh_id"
  by (rule injI) (simp add: fresh_id_def replicate_eq_replicate)

text \<open>A report of one unknown GUID that is not tombstoned adds its row and removes the others.\<close>

lemma sample_item_step:
  assumes "g \<noteq> []" and "w_cache_up w" and "map_of (inv_existing s) g = None" and "Host_id h = ''h1''" "Host_cluster_id h = None"
  shows "inventory_item cursor_env st h T (JObj (sample_item g), vid) s w =
    (if g \<in> set T then (Inr s, w)
     else (Inr \<lparr>inv_existing = AList.update g (sample_row vid g (w_now w)) (inv_existing s),
               inv_seen = List.insert g (inv_seen s), inv_thumbs = inv_thumbs s\<rparr>,
           w\<lparr>w_cache := set_vm_state st (w_now w) vid ''Running'' (w_cache w)\<rparr>))"
proof -
  have pop: "pop_thumbnail (sample_item g) = (None, sample_item g)"
    by (simp add: sample_item_def pop_thumbnail_def thumbnail_of_def jpop_def)
  have "jget (sample_normalized g) ''vmUuid'' = JStr g" by (simp add: sample_normalized_def)
  moreover have "Vm_id (sample_row vid g now) = vid" "Vm_state (sample_row vid g now) = ''Running''" for now
    by (simp_all add: sample_row_def blank_vm_def)
  ultimately show ?thesis
    using assms
    by (simp add: inventory_item_def pure_act_def bind_act_def pop normalize_sample write_item_def with_now_def
        cache_act_def write_sample_row ret_def)
qed
definition bare_world :: "vm list \<Rightarrow> store \<Rightarrow> world" where
  "bare_world vms c = \<lparr>w_db = empty_db\<lparr>db_hosts := [sample_host ''h1'' None], db_vms := vms\<rparr>, w_cache = c, w_now = 1,
     w_queues = [], w_users = [], w_broker_up = True, w_cache_up = True, w_mgmt_up = True, w_files = [], w_store_up = True\<rparr>"

lemma bare_world_simps [simp]:
  "w_db (bare_world vms c) = empty_db\<lparr>db_hosts := [sample_host ''h1'' None], db_vms := vms\<rparr>"
  "w_cache (bare_world vms c) = c" "w_now (bare_world vms c) = 1" "w_cache_up (bare_world vms c)"
  by (simp_all add: bare_world_def)

lemma sample_payload: "payload_list ''vms'' (sample_report g) = Inr [JObj (sample_item g)]"
  by (simp add: payload_list_def sample_report_def need_dict_def jget_default_def)

lemma vm_uuids_ok_single: "vm_uuids_ok [v]" "vm_uuids_ok []"
  by (simp_all add: vm_uuids_ok_def List.map_filter_def)

lemma forA_clear_deleted:
  "w_cache_up w \<Longrightarrow> forA gs (\<lambda>g. cache_act (\<lambda>now c. ((), clear_vm_deleted now hid g c))) w
     = (Inr (), w\<lparr>w_cache := fold (clear_vm_deleted (w_now w) hid) gs (w_cache w)\<rparr>)"
  by (induction gs arbitrary: w) (simp_all add: forA_Cons ret_def bind_act_def cache_act_def)

lemmas pass_defs = apply_vm_inventory_def bind_act_def read_db_def pure_act_def sample_payload cache_act_def
  existing_vms_def sample_item_step ret_def unreported_def Let_def fresh_id_def forA_clear_deleted flush_vms_def lift_res_def
  vm_uuids_ok_single store_thumbnails_def

lemma sample_host_simps [simp]: "Host_id (sample_host i cid) = i" "Host_cluster_id (sample_host i cid) = cid"
  by (simp_all add: sample_host_def)

lemma empty_db_fields [simp]: "db_hosts empty_db = []" "db_vms empty_db = []" "db_tasks empty_db = []"
  "db_audit_events empty_db = []"
  by (simp_all add: empty_db_def)

lemma stale_pass:
  assumes "g \<noteq> []" and "list_deleted_vm_uuids 1 c ''h1'' = [g]"
  shows "apply_vm_inventory cursor_env st fresh_id eid ''h1'' (sample_report g) (bare_world [] c)
    = (Inr (), bare_world [] (clear_vm_deleted 1 ''h1'' g c))"
  using assms by (simp add: pass_defs) (simp add: bare_world_def)

lemma new_pass:
  assumes "g \<noteq> []" and "g \<notin> set (list_deleted_vm_uuids 1 c ''h1'')"
  shows "\<exists>w'. apply_vm_inventory cursor_env st fresh_id eid ''h1'' (sample_report g) (bare_world [] c) = (Inr (), w')
    \<and> db_vms (w_db w') = [sample_row ''n'' g 1]"
  using assms by (simp add: pass_defs save_vm_def)

lemma sample_pair_uuids:
  "vm_uuids_ok (save_vm (sample_row ''n'' ''guid-b'' 1) (save_vm (sample_vm ''v1'' ''h1'') [sample_vm ''v1'' ''h1'']))"
  by (simp add: save_vm_def tupd_def vm_uuids_ok_def vm_uuid_key_def List.map_filter_def sample_row_def blank_vm_def sample_vm_def)

text \<open>The report of a new GUID, on a host with one VM that it no longer lists.\<close>

lemma sample_scope: "scope_vms (w_db (bare_world [sample_vm ''v1'' ''h1''] c)) (sample_host ''h1'' None) = [sample_vm ''v1'' ''h1'']"
  by (simp add: scope_vms_def inventory_scope_host_ids_def)

lemma sample_ready: "inventory_ready (bare_world [sample_vm ''v1'' ''h1''] []) (sample_host ''h1'' None) fresh_id"
  using sample_scope fresh_id_inj by (auto simp: inventory_ready_def pk_unique_def fresh_id_def)

lemma no_tombstones: "list_deleted_vm_uuids t [] hid = []"
  by (simp add: list_deleted_vm_uuids_def cache_scan_def)

lemma sample_run:
  "\<exists>w'. apply_vm_inventory cursor_env default_settings fresh_id (\<lambda>i. i) (Host_id (sample_host ''h1'' None))
     (sample_report ''guid-b'') (bare_world [sample_vm ''v1'' ''h1''] []) = (Inr (), w')"
  using sample_pair_uuids
  by (simp add: pass_defs no_tombstones inventory_scope_host_ids_def remove_unreported_def forA_Cons with_now_def
      record_event_def record_ref_def write_db_def delete_in_flight_def)

lemma sample_reported: "reported_guids [JObj (sample_item ''guid-b'')] = {''guid-b''}"
  by (simp add: reported_guids_def List.map_filter_def item_guid_def sample_item_def)

text \<open>A well placed row stays well placed when it moves to a host of the same scope.\<close>

lemma scope_vm_fits:
  assumes pl: "placement_ok db" and h: "h \<in> set (db_hosts db)" and v0: "v0 \<in> set (scope_vms db h)"
    and v: "Vm_host_id v = Host_id h" "Vm_cluster_id v = Host_cluster_id h" "Vm_folder_id v = Vm_folder_id v0"
  shows "well_placed (db_hosts db) (db_folders db) v"
proof -
  have pk: "pk_unique Host_id (db_hosts db)" using pl by (simp add: placement_ok_def)
  obtain x where x: "x \<in> set (db_hosts db)" "Host_id x = Vm_host_id v0"
    and f: "Vm_folder_id v0 = None \<or> (\<exists>f \<in> set (db_folders db). Vm_folder_id v0 = Some (Folder_id f) \<and> folder_fits x f)"
    using pl v0 unfolding scope_vms_def set_filter placement_ok_def well_placed_def by blast
  have "Host_id x \<in> set (inventory_scope_host_ids db h)" using v0 x(2) by (simp add: scope_vms_def)
  then have "Host_cluster_id x = Host_cluster_id h \<and> scope_key x = scope_key h"
    using scope_host_key [OF pk h x(1)] by blast
  then have "folder_fits h f" if "folder_fits x f" for f
    using that by (auto simp: folder_fits_def scope_key_def split: if_splits)
  then show ?thesis using f h v unfolding well_placed_def by metis
qed

section \<open>Properties\<close>

text \<open>C1: A VM inventory reconciles the host with its report. The GUIDs on the host afterwards are
  exactly the reported ones, less those tombstoned that no row of the scope carries; every row outside
  the scope and every placeholder is unchanged; a row of the scope that is reported keeps its id and
  folder and now belongs to the reporting host (a live migration); a row that is not reported stays if
  another node owns it, and otherwise is removed with an audit event unless a delete is in flight.\<close>

theorem inventory_reconciles:
  assumes "apply_vm_inventory env st fresh event_id (Host_id h) payload w = (Inr (), w')"
    and "payload_list ''vms'' payload = Inr items"
    and "inventory_ready w h fresh" and "0 < vm_state_ttl_seconds st"
  shows "host_guids (w_db w') (Host_id h) = {g \<in> reported_guids items. g \<in> scope_guids (w_db w) h
        \<or> g \<notin> set (list_deleted_vm_uuids (w_now w) (w_cache w) (Host_id h))}
    \<and> (\<forall>v \<in> set (db_vms (w_db w)). v \<notin> set (scope_vms (w_db w) h) \<longrightarrow> v \<in> set (db_vms (w_db w')))
    \<and> (\<forall>v \<in> set (scope_vms (w_db w) h). Vm_vm_uuid v \<in> Some ` reported_guids items \<longrightarrow>
         (\<exists>v' \<in> set (db_vms (w_db w')). Vm_id v' = Vm_id v \<and> Vm_vm_uuid v' = Vm_vm_uuid v
            \<and> Vm_folder_id v' = Vm_folder_id v \<and> Vm_host_id v' = Host_id h))
    \<and> (\<forall>v \<in> set (scope_vms (w_db w) h). Vm_vm_uuid v \<notin> Some ` reported_guids items \<longrightarrow>
         (if Vm_host_id v \<noteq> Host_id h then v \<in> set (db_vms (w_db w'))
          else v \<notin> set (db_vms (w_db w')) \<and> (delete_in_flight (w_db w) (Vm_id v)
            \<or> (\<exists>e \<in> set (db_audit_events (w_db w')). removal_event (Vm_id v) e))))"
proof (rule run_cases [OF assms])
  let ?T = "list_deleted_vm_uuids (w_now w) (w_cache w) (Host_id h)"
  fix s w1
  assume over: "loop_over w h fresh ?T items s w1" and res: "pass_result h w s w1 w'"
  note seen = loop_seen_set [OF over] and rows = host_rows [OF over res] and fin = final_rows [OF over res]
  have start: "map_of (inventory_start (w_db w) h) g = Some v \<and> g \<in> scope_guids (w_db w) h"
    if "v \<in> set (scope_vms (w_db w) h)" "Vm_vm_uuid v = Some g" for v g
    using that start_lookup [OF loop_overD(1) [OF over]] by (auto simp: scope_guids_def guids_of_def scope_vms_def)
  have "host_guids (w_db w') (Host_id h) = set (inv_seen s)"
    using rows seen(2) by (fastforce simp: host_guids_def guids_of_def)
  moreover have "v \<in> set (db_vms (w_db w'))" if "v \<in> set (db_vms (w_db w))" "v \<notin> set (scope_vms (w_db w) h)" for v
    using that by (simp add: fin)
  moreover have "\<exists>v' \<in> set (db_vms (w_db w')). Vm_id v' = Vm_id v \<and> Vm_vm_uuid v' = Vm_vm_uuid v
      \<and> Vm_folder_id v' = Vm_folder_id v \<and> Vm_host_id v' = Host_id h"
    if v: "v \<in> set (scope_vms (w_db w) h)" "Vm_vm_uuid v \<in> Some ` reported_guids items" for v
  proof -
    obtain g where g: "Vm_vm_uuid v = Some g" "g \<in> reported_guids items" using v(2) by blast
    with start v(1) have gs: "g \<in> set (inv_seen s)" by (simp add: seen(1))
    obtain v' where v': "map_of (inv_existing s) g = Some v'" "Vm_id v' = Vm_id v" "Vm_folder_id v' = Vm_folder_id v"
      using loop_rowsD(2) [OF loop_overD(4) [OF over]] start [OF v(1) g(1)] by blast
    with rows [of v' g] gs g(1) show ?thesis by metis
  qed
  moreover have "if Vm_host_id v \<noteq> Host_id h then v \<in> set (db_vms (w_db w'))
      else v \<notin> set (db_vms (w_db w')) \<and> (delete_in_flight (w_db w) (Vm_id v)
        \<or> (\<exists>e \<in> set (db_audit_events (w_db w')). removal_event (Vm_id v) e))"
    if v: "v \<in> set (scope_vms (w_db w) h)" "Vm_vm_uuid v \<notin> Some ` reported_guids items" for v
  proof -
    obtain g where g: "Vm_vm_uuid v = Some g" using v(1) by (auto simp: scope_vms_def)
    have gs: "g \<notin> set (inv_seen s)" using v(2) g by (auto simp: seen(1))
    then have m: "map_of (inv_existing s) g = Some v"
      using loop_rowsD(1) [OF loop_overD(4) [OF over] gs] start [OF v(1) g] by simp
    have ev: "\<forall>u \<in> set (unreported h s). \<not> delete_in_flight (w_db w) (Vm_id u)
        \<longrightarrow> (\<exists>e \<in> set (db_audit_events (w_db w')). removal_event (Vm_id u) e)"
      using res by (simp add: pass_result_def Let_def)
    show ?thesis
    proof (cases "Vm_host_id v = Host_id h")
      case True
      have "(g, v) \<in> set (inv_existing s)" using m by (simp add: loop_mem [OF over])
      then have "v \<in> set (unreported h s)" using True gs by (force simp: unreported_def)
      then show ?thesis using True ev rows [of v g] g gs by auto
    next
      case False
      then show ?thesis using m unfolding fin by auto
    qed
  qed
  ultimately show ?thesis unfolding seen(1) [symmetric] by blast
qed

theorem inventory_reconciles_witness:
  "\<exists>w'. apply_vm_inventory cursor_env default_settings fresh_id (\<lambda>i. i) ''h1'' (sample_report ''guid-b'')
        (bare_world [sample_vm ''v1'' ''h1''] []) = (Inr (), w')
     \<and> host_guids (w_db w') ''h1'' = {''guid-b''}
     \<and> (\<exists>e \<in> set (db_audit_events (w_db w')). removal_event ''v1'' e)"
proof -
  obtain w' where r: "apply_vm_inventory cursor_env default_settings fresh_id (\<lambda>i. i) (Host_id (sample_host ''h1'' None))
     (sample_report ''guid-b'') (bare_world [sample_vm ''v1'' ''h1''] []) = (Inr (), w')" using sample_run by blast
  show ?thesis
    using r inventory_reconciles [OF r sample_payload sample_ready] sample_scope sample_reported no_tombstones
    by (auto simp: delete_in_flight_def)
qed

text \<open>After a VM inventory, what the interface shows for every VM of the host is the state its row
  has: the overlay of each is refreshed, so no transitional state survives the report.\<close>

theorem inventory_refreshes_overlay:
  assumes "apply_vm_inventory env st fresh event_id (Host_id h) payload w = (Inr (), w')"
    and "payload_list ''vms'' payload = Inr items"
    and "inventory_ready w h fresh" and "0 < vm_state_ttl_seconds st"
  shows "\<forall>v \<in> set (db_vms (w_db w')). Vm_host_id v = Host_id h \<and> Vm_vm_uuid v \<noteq> None
    \<longrightarrow> VmOut_state (vm_out (w_db w') v (get_vm_state (w_now w) (w_cache w') (Vm_id v)) lk False) = Vm_state v"
proof (rule run_cases [OF assms], intro ballI impI)
  let ?T = "list_deleted_vm_uuids (w_now w) (w_cache w) (Host_id h)"
  fix s w1 v
  assume over: "loop_over w h fresh ?T items s w1" and res: "pass_result h w s w1 w'"
    and oc: "only_cache w w1" and ov: "overlay_synced s w1"
    and v: "v \<in> set (db_vms (w_db w'))" "Vm_host_id v = Host_id h \<and> Vm_vm_uuid v \<noteq> None"
  then obtain g where g: "g \<in> set (inv_seen s)" "map_of (inv_existing s) g = Some v"
    using host_rows [OF over res, of v] by auto
  have "(g, v) \<in> set (inv_existing s)" using g(2) by (simp add: loop_mem [OF over])
  then have "Vm_id v \<notin> Vm_id ` set (unreported h s)" using loop_gone [OF over] g(1) by blast
  then have "get_vm_state (w_now w) (w_cache w') (Vm_id v) = get_vm_state (w_now w) (w_cache w1) (Vm_id v)"
    using res by (simp add: pass_result_def Let_def)
  also have "\<dots> = Some (Vm_state v)" using ov g oc by (auto simp: overlay_synced_def only_cache_def)
  finally show "VmOut_state (vm_out (w_db w') v (get_vm_state (w_now w) (w_cache w') (Vm_id v)) lk False) = Vm_state v"
    by (simp add: vm_out_def)
qed

theorem inventory_refreshes_overlay_witness:
  "\<exists>w'. apply_vm_inventory cursor_env default_settings fresh_id (\<lambda>i. i) ''h1'' (sample_report ''guid-b'')
        (bare_world [sample_vm ''v1'' ''h1''] []) = (Inr (), w')
     \<and> list_all (\<lambda>v. \<not> (Vm_host_id v = ''h1'' \<and> Vm_vm_uuid v \<noteq> None)
          \<or> VmOut_state (vm_out (w_db w') v (get_vm_state 1 (w_cache w') (Vm_id v)) None False) = Vm_state v)
        (db_vms (w_db w'))"
proof -
  obtain w' where r: "apply_vm_inventory cursor_env default_settings fresh_id (\<lambda>i. i) (Host_id (sample_host ''h1'' None))
     (sample_report ''guid-b'') (bare_world [sample_vm ''v1'' ''h1''] []) = (Inr (), w')" using sample_run by blast
  show ?thesis
    using r inventory_refreshes_overlay [OF r sample_payload sample_ready, where lk = None]
    by (simp add: list_all_iff) (metis option.exhaust)
qed

text \<open>C11: The placement invariant of the organization tree (every VM carries its host's cluster and a
  folder that fits its host) and the uniqueness of GUIDs survive a VM inventory, migrations between
  cluster nodes included.\<close>

theorem inventory_keeps_placement:
  assumes "apply_vm_inventory env st fresh event_id (Host_id h) payload w = (Inr (), w')"
    and "payload_list ''vms'' payload = Inr items" and "h \<in> set (db_hosts (w_db w))"
    and "placement_ok (w_db w)" and "vm_uuids_ok (db_vms (w_db w))" and "pk_unique Vm_id (db_vms (w_db w))"
    and "inj fresh" and "range fresh \<inter> Vm_id ` set (db_vms (w_db w)) = {}" and "0 < vm_state_ttl_seconds st"
  shows "placement_ok (w_db w') \<and> vm_uuids_ok (db_vms (w_db w'))"
proof -
  let ?T = "list_deleted_vm_uuids (w_now w) (w_cache w) (Host_id h)"
  have ready: "inventory_ready w h fresh"
    using assms(3-8) scope_guids_distinct [OF assms(4,5,3)]
    by (simp add: inventory_ready_def tget_unique placement_ok_def)
  from run_cases [OF assms(1,2) ready assms(9)] obtain s w1 where
    over: "loop_over w h fresh ?T items s w1" and res: "pass_result h w s w1 w'" by blast
  have tables: "db_hosts (w_db w') = db_hosts (w_db w)" "db_folders (w_db w') = db_folders (w_db w)"
    using res by (simp_all add: pass_result_def Let_def)
  have "well_placed (db_hosts (w_db w)) (db_folders (w_db w)) v" if v: "v \<in> set (db_vms (w_db w'))" for v
  proof (cases "v \<in> set (db_vms (w_db w))")
    case True
    then show ?thesis using assms(4) by (simp add: placement_ok_def)
  next
    case False
    then obtain g where g: "map_of (inv_existing s) g = Some v"
      using v unfolding final_rows [OF over res] by blast
    have seen: "g \<in> set (inv_seen s)"
    proof (rule ccontr)
      assume "g \<notin> set (inv_seen s)"
      then have "map_of (inventory_start (w_db w) h) g = Some v"
        using loop_rowsD(1) [OF loop_overD(4) [OF over]] g by simp
      then show False using False start_lookup [OF loop_overD(1) [OF over]] by (simp add: scope_vms_def)
    qed
    have hv: "Vm_host_id v = Host_id h" "Vm_cluster_id v = Host_cluster_id h"
      using loop_seen_set(2) [OF over seen] g by auto
    show ?thesis
    proof (cases "map_of (inventory_start (w_db w) h) g")
      case None
      then have "Vm_folder_id v = None" using loop_rowsD(3) [OF loop_overD(4) [OF over] _ g] by simp
      then show ?thesis using hv assms(3) by (auto intro: well_placedI)
    next
      case (Some v0)
      then have "Vm_folder_id v = Vm_folder_id v0" using loop_rowsD(2) [OF loop_overD(4) [OF over] Some] g by simp
      moreover have "v0 \<in> set (scope_vms (w_db w) h)" using Some start_lookup [OF loop_overD(1) [OF over]] by simp
      ultimately show ?thesis using scope_vm_fits [OF assms(4,3)] hv by blast
    qed
  qed
  then have "placement_ok (w_db w')" using assms(4) by (simp add: placement_ok_def tables)
  moreover have "vm_uuids_ok (db_vms (w_db w'))"
  proof -
    define vms where "vms = fold save_vm (map snd (inv_existing s)) (db_vms (w_db w))"
    have "vm_uuids_ok vms" and eq: "db_vms (w_db w') = filter (\<lambda>r. Vm_id r \<notin> Vm_id ` set (unreported h s)) vms"
      using res by (simp_all add: pass_result_def vms_def Let_def)
    then show ?thesis unfolding eq vm_uuids_ok_def using conjunct1 [OF distinct_map_filter_filter] by blast
  qed
  ultimately show ?thesis ..
qed

theorem inventory_keeps_placement_witness:
  "\<exists>w'. apply_vm_inventory cursor_env default_settings fresh_id (\<lambda>i. i) ''h1'' (sample_report ''guid-b'')
        (bare_world [sample_vm ''v1'' ''h1''] []) = (Inr (), w')
     \<and> placement_ok (w_db w') \<and> vm_uuids_ok (db_vms (w_db w'))"
proof -
  let ?w = "bare_world [sample_vm ''v1'' ''h1''] []"
  obtain w' where r: "apply_vm_inventory cursor_env default_settings fresh_id (\<lambda>i. i) (Host_id (sample_host ''h1'' None))
     (sample_report ''guid-b'') ?w = (Inr (), w')" using sample_run by blast
  have "placement_ok (w_db ?w)"
    by (simp add: placement_ok_def pk_unique_def well_placed_def) (simp add: empty_db_def sample_vm_def)
  moreover have "pk_unique Vm_id (db_vms (w_db ?w))" "vm_uuids_ok (db_vms (w_db ?w))"
    by (simp_all add: pk_unique_def vm_uuids_ok_single)
  moreover have "range fresh_id \<inter> Vm_id ` set (db_vms (w_db ?w)) = {}" by (auto simp: fresh_id_def)
  ultimately show ?thesis
    using r inventory_keeps_placement [OF r sample_payload _ _ _ _ fresh_id_inj] by simp
qed

text \<open>A tombstone protects against one stale snapshot only. The snapshot that still lists the GUID
  is ignored, but it also clears the tombstone, so that a second one, within the fifteen minutes the
  tombstone was meant to last, brings the deleted VM back.\<close>

theorem second_stale_snapshot_resurrects:
  "\<exists>w1 w2. apply_vm_inventory cursor_env default_settings fresh_id (\<lambda>i. i) ''h1'' (sample_report ''gone'')
        (bare_world [] (mark_vm_deleted 1 ''h1'' ''gone'' [])) = (Inr (), w1)
     \<and> host_guids (w_db w1) ''h1'' = {}
     \<and> apply_vm_inventory cursor_env default_settings fresh_id (\<lambda>i. i) ''h1'' (sample_report ''gone'') w1 = (Inr (), w2)
     \<and> host_guids (w_db w2) ''h1'' = {''gone''}"
proof -
  let ?c = "mark_vm_deleted 1 ''h1'' ''gone'' []"
  have "list_deleted_vm_uuids 1 ?c ''h1'' = [''gone'']" by code_simp
  from stale_pass [OF _ this]
  have r1: "apply_vm_inventory cursor_env default_settings fresh_id (\<lambda>i. i) ''h1'' (sample_report ''gone'') (bare_world [] ?c)
      = (Inr (), bare_world [] (clear_vm_deleted 1 ''h1'' ''gone'' ?c))" by simp
  have "''gone'' \<notin> set (list_deleted_vm_uuids 1 (clear_vm_deleted 1 ''h1'' ''gone'' ?c) ''h1'')"
    by (simp add: cache_scan_tombstones is_vm_deleted_def clear_vm_deleted_def cache_get_del)
  from new_pass [OF _ this, of default_settings "\<lambda>i. i"] obtain w2 where
    "apply_vm_inventory cursor_env default_settings fresh_id (\<lambda>i. i) ''h1'' (sample_report ''gone'')
       (bare_world [] (clear_vm_deleted 1 ''h1'' ''gone'' ?c)) = (Inr (), w2)"
    and vms: "db_vms (w_db w2) = [sample_row ''n'' ''gone'' 1]" by auto
  moreover have "host_guids (w_db w2) ''h1'' = {''gone''}"
    by (simp add: host_guids_def guids_of_def vms) (simp add: sample_row_def blank_vm_def)
  moreover have "host_guids (w_db (bare_world [] c)) ''h1'' = {}" for c by (simp add: host_guids_def guids_of_def)
  ultimately show ?thesis using r1 by blast
qed

end
