(* ===== verification/Agent_Reports.thy ===== *)
theory Agent_Reports
  imports Reconcile
begin

text \<open>
  The other reports of an agent (\<^verbatim>\<open>app/services/inventory.py\<close>): the hardware of the host, the quick
  metrics of the host and of its VMs, and the templates and ISO images it stores. Each runs in one
  database session, so it is a function from the database to a result and the next database.
\<close>

section \<open>Hardware\<close>

definition C_DRIVE :: "string list" where
  "C_DRIVE = [''c:'', ''c:'' @ [CHR 0x5C], ''c:/'']"

text \<open>\<^verbatim>\<open>round(_num(v) * 1024 ** k)\<close> for the exponent in bits, and \<^verbatim>\<open>int(_num(v))\<close>.\<close>

definition round_scaled :: "pyenv \<Rightarrow> nat \<Rightarrow> json \<Rightarrow> int res" where
  "round_scaled env k v = sbind (num env v) (\<lambda>f. py_round (float_scale k f))"

definition int_num :: "pyenv \<Rightarrow> json \<Rightarrow> int res" where
  "int_num env v = sbind (num env v) (\<lambda>f. py_int (JFloat f))"

definition hw_volume :: "pyenv \<Rightarrow> jobj \<Rightarrow> jobj res" where
  "hw_volume env vol =
     sbind (round_scaled env 30 (jget vol ''totalGb'')) (\<lambda>total.
     sbind (round_scaled env 30 (jget vol ''freeGb'')) (\<lambda>free.
       Inr [(''path'', or_blank (jor (jget vol ''path'') (jget vol ''name''))), (''label'', or_none (jget vol ''name'')),
            (''totalBytes'', JInt total), (''freeBytes'', JInt free)]))"

text \<open>\<^verbatim>\<open>any(v["path"].lower() in _C_DRIVE for v in storage)\<close>.\<close>

fun has_c_drive :: "jobj list \<Rightarrow> bool res" where
  "has_c_drive [] = Inr False"
| "has_c_drive (v # vs) = (case jget v ''path'' of
     JStr s \<Rightarrow> if py_lower s \<in> set C_DRIVE then Inr True else has_c_drive vs
   | _ \<Rightarrow> Inl AttributeError)"

definition hw_storage :: "pyenv \<Rightarrow> jobj \<Rightarrow> jobj list res" where
  "hw_storage env raw =
     sbind (iter_dicts (jor (jget raw ''storage'') (JList []))) (\<lambda>vols.
     sbind (mapM (hw_volume env) vols) (\<lambda>storage.
       case as_dict (jget raw ''diskC'') of
         None \<Rightarrow> Inr storage
       | Some disk_c \<Rightarrow>
           sbind (has_c_drive storage) (\<lambda>present.
             if present then Inr storage
             else sbind (round_scaled env 30 (jget disk_c ''totalGb'')) (\<lambda>total.
                  sbind (round_scaled env 30 (jget disk_c ''freeGb'')) (\<lambda>free.
                    Inr ([(''path'', JStr (''C:'' @ [CHR 0x5C])), (''totalBytes'', JInt total),
                          (''freeBytes'', JInt free)] # storage))))))"

definition hw_optional :: "bool \<Rightarrow> string \<Rightarrow> json \<Rightarrow> jobj" where
  "hw_optional b k v = (if b then [(k, v)] else [])"

definition hw_legacy :: "pyenv \<Rightarrow> jobj \<Rightarrow> jobj option res" where
  "hw_legacy env raw =
     sbind (hw_storage env raw) (\<lambda>storage.
     sbind (round_scaled env 20 (jget raw ''memoryCapacityMB'')) (\<lambda>memory_bytes.
       let cpu_model = or_blank (jget raw ''cpuModel''); os_name = or_blank (jget raw ''osName'') in
       if \<not> (truthy cpu_model \<or> truthy os_name \<or> memory_bytes \<noteq> 0 \<or> storage \<noteq> []) then Inr None
       else sbind (int_num env (jget raw ''logicalProcessors'')) (\<lambda>logical.
            sbind (int_num env (jget raw ''cpuSockets'')) (\<lambda>sockets.
            sbind (int_num env (jget raw ''cpuCores'')) (\<lambda>cores.
            sbind (num env (jget raw ''cpuLoadPercent'')) (\<lambda>cpu_load.
            sbind (num env (jget raw ''memoryUsagePercent'')) (\<lambda>memory_load.
              Inr (Some (
                [(''cpu'', JObj [(''model'', cpu_model),
                    (''sockets'', JInt (if sockets \<noteq> 0 then sockets else if logical \<noteq> 0 then 1 else 0)),
                    (''cores'', JInt (if cores \<noteq> 0 then cores else logical)), (''logical'', JInt logical)]),
                 (''memoryBytes'', JInt memory_bytes), (''storage'', JList (map JObj storage)),
                 (''os'', JObj [(''caption'', os_name), (''version'', or_blank (jget raw ''osVersion''))]),
                 (''network'', JList []), (''vSwitches'', JList []),
                 (''load'', JObj [(''cpuPercent'', JFloat cpu_load), (''memoryPercent'', JFloat memory_load)])]
                @ hw_optional (truthy (jor (jget raw ''hwManufacturer'') (jget raw ''hwModel''))) ''system''
                    (JObj [(''manufacturer'', or_blank (jget raw ''hwManufacturer'')), (''model'', or_blank (jget raw ''hwModel''))])
                @ hw_optional (truthy (jget raw ''lastBootTime'')) ''bootTime'' (jget raw ''lastBootTime'')
                @ hw_optional (truthy (jor (jget raw ''clusterState'') (jget raw ''isCluster''))) ''cluster''
                    (JObj [(''clustered'', JBool (truthy (jget raw ''isCluster''))), (''name'', or_none (jget raw ''clusterName'')),
                           (''state'', or_blank (jget raw ''clusterState'')), (''nodes'', jor (jget raw ''clusterNodes'') (JList []))])
                @ hw_optional (truthy (jor (jget raw ''defaultVmPath'') (jget raw ''defaultVhdPath''))) ''hyperv''
                    (JObj [(''defaultVmPath'', or_none (jget raw ''defaultVmPath'')),
                           (''defaultVhdPath'', or_none (jget raw ''defaultVhdPath''))]))))))))))"

definition normalize_hardware :: "pyenv \<Rightarrow> json \<Rightarrow> jobj option res" where
  "normalize_hardware env raw = (case as_dict raw of
     None \<Rightarrow> Inr None
   | Some d \<Rightarrow> if d = [] then Inr None
       else if as_dict (jget d ''cpu'') \<noteq> None then Inr (Some d)
       else hw_legacy env d)"

text \<open>\<^verbatim>\<open>payload["hardware"] if "hardware" in payload else payload\<close>, for any JSON value.\<close>

definition py_contains :: "string \<Rightarrow> string \<Rightarrow> bool" where
  "py_contains s p \<longleftrightarrow> list_ex (\<lambda>n. py_startswith (drop n s) p) [0..<Suc (length s)]"

fun hardware_part :: "json \<Rightarrow> json res" where
  "hardware_part (JObj d) = Inr (if jhas d ''hardware'' then jget d ''hardware'' else JObj d)"
| "hardware_part (JList xs) = (if JStr ''hardware'' \<in> set xs then Inl TypeError else Inr (JList xs))"
| "hardware_part (JStr s) = (if py_contains s ''hardware'' then Inl TypeError else Inr (JStr s))"
| "hardware_part _ = Inl TypeError"

definition apply_host_inventory :: "pyenv \<Rightarrow> ident \<Rightarrow> json \<Rightarrow> database \<Rightarrow> (unit \<times> database) res" where
  "apply_host_inventory env host_id payload db =
     (case tget Host_id (db_hosts db) host_id of
        None \<Rightarrow> Inr ((), db)
      | Some h \<Rightarrow>
          sbind (hardware_part payload) (\<lambda>raw.
          sbind (normalize_hardware env raw) (\<lambda>normalized.
            case normalized of
              None \<Rightarrow> Inr ((), db)
            | Some d \<Rightarrow> Inr ((), put_host (h\<lparr>Host_hardware := Some d\<rparr>) db))))"

section \<open>Metrics\<close>

definition metrics_cutoff :: "settings \<Rightarrow> instant \<Rightarrow> instant" where
  "metrics_cutoff st now = now - seconds (metrics_retention_seconds st)"

definition report_time :: "pyenv \<Rightarrow> instant \<Rightarrow> jobj \<Rightarrow> instant" where
  "report_time env now p = (case parse_dt env (jor (jget p ''reportedAt'') (jget p ''reported_at'')) of
     None \<Rightarrow> now | Some d \<Rightarrow> as_utc d)"

definition host_sample :: "pyenv \<Rightarrow> ident \<Rightarrow> instant \<Rightarrow> jobj \<Rightarrow> host_metric res" where
  "host_sample env host_id ts p =
     sbind (as_float env (jget p ''cpuPercent'')) (\<lambda>cpu.
     sbind (as_float env (jget p ''memPercent'')) (\<lambda>mem.
     sbind (as_float env (jget p ''diskLatencyMs'')) (\<lambda>latency.
     sbind (as_int env (jget p ''netRxBps'')) (\<lambda>rx.
     sbind (as_int env (jget p ''netTxBps'')) (\<lambda>tx.
       Inr \<lparr>HostMetric_host_id = host_id, HostMetric_ts = ts, HostMetric_cpu_percent = cpu,
            HostMetric_mem_percent = mem, HostMetric_disk_latency_ms = latency, HostMetric_net_rx_bps = rx,
            HostMetric_net_tx_bps = tx, HostMetric_detail = Some (JObj p)\<rparr>)))))"

definition apply_host_metrics ::
  "pyenv \<Rightarrow> settings \<Rightarrow> instant \<Rightarrow> ident \<Rightarrow> json \<Rightarrow> database \<Rightarrow> (unit \<times> database) res"
where
  "apply_host_metrics env st now host_id payload db =
     (case tget Host_id (db_hosts db) host_id of
        None \<Rightarrow> Inr ((), db)
      | Some _ \<Rightarrow>
          sbind (need_dict payload) (\<lambda>p.
          sbind (host_sample env host_id (report_time env now p) p) (\<lambda>m.
            Inr ((), db\<lparr>db_host_metrics := filter (\<lambda>x. \<not> (HostMetric_host_id x = host_id
                \<and> HostMetric_ts x < metrics_cutoff st now)) (db_host_metrics db @ [m])\<rparr>))))"

text \<open>\<^verbatim>\<open>by_uuid\<close>: the metered VMs of the host; a later row with the same GUID replaces an earlier.\<close>

definition metered_vms :: "database \<Rightarrow> ident \<Rightarrow> (string \<times> ident) list" where
  "metered_vms db host_id =
     rev (map (\<lambda>v. (or_empty (Vm_vm_uuid v), Vm_id v))
       (filter (\<lambda>v. Vm_host_id v = host_id \<and> Vm_metrics_enabled v \<and> opt_truthy (Vm_vm_uuid v)) (db_vms db)))"

text \<open>\<^verbatim>\<open>by_uuid.get(key)\<close>: a key that is not text is in no row, and a container is unhashable.\<close>

fun lookup_guid :: "(string \<times> ident) list \<Rightarrow> json \<Rightarrow> ident option res" where
  "lookup_guid d (JStr s) = Inr (map_of d s)"
| "lookup_guid d (JList _) = Inl TypeError"
| "lookup_guid d (JObj _) = Inl TypeError"
| "lookup_guid d _ = Inr None"

definition vm_sample :: "pyenv \<Rightarrow> (string \<times> ident) list \<Rightarrow> instant \<Rightarrow> json \<Rightarrow> vm_metric option res" where
  "vm_sample env by_uuid ts j =
     sbind (need_dict j) (\<lambda>item.
     sbind (lookup_guid by_uuid (jor (jget item ''id'') (jget item ''vmId''))) (\<lambda>found.
       case found of
         None \<Rightarrow> Inr None
       | Some vm_id \<Rightarrow>
           sbind (as_float env (jget item ''cpuPercent'')) (\<lambda>cpu.
           sbind (as_int env (jget item ''memBytes'')) (\<lambda>mem.
           sbind (as_int env (jget item ''diskBytes'')) (\<lambda>disk.
           sbind (as_int env (jget item ''netRxBytes'')) (\<lambda>rx.
           sbind (as_int env (jget item ''netTxBytes'')) (\<lambda>tx.
             Inr (Some \<lparr>VmMetric_vm_id = vm_id, VmMetric_ts = ts, VmMetric_cpu_percent = cpu,
                VmMetric_mem_bytes = mem, VmMetric_disk_bytes = disk, VmMetric_net_rx_bytes = rx,
                VmMetric_net_tx_bytes = tx, VmMetric_detail = Some j\<rparr>))))))))"

definition apply_vm_metrics ::
  "pyenv \<Rightarrow> settings \<Rightarrow> instant \<Rightarrow> ident \<Rightarrow> json \<Rightarrow> database \<Rightarrow> (unit \<times> database) res"
where
  "apply_vm_metrics env st now host_id payload db =
     sbind (need_dict payload) (\<lambda>p.
     sbind (iter_json (jget_default p ''vms'' (JList []))) (\<lambda>items.
     sbind (mapM (vm_sample env (metered_vms db host_id) (report_time env now p)) items) (\<lambda>samples.
       let own = map Vm_id (filter (\<lambda>v. Vm_host_id v = host_id) (db_vms db)) in
       Inr ((), db\<lparr>db_vm_metrics := filter (\<lambda>x. \<not> (VmMetric_ts x < metrics_cutoff st now \<and> VmMetric_vm_id x \<in> set own))
              (db_vm_metrics db @ List.map_filter id samples)\<rparr>))))"

section \<open>Images\<close>

definition template_row :: "pyenv \<Rightarrow> ident \<Rightarrow> string \<Rightarrow> jobj \<Rightarrow> template res" where
  "template_row env host_id tid item =
     sbind (py_int (jget_default item ''sizeBytes'' (JInt 0))) (\<lambda>size.
     sbind (py_int (jget_default item ''diskSizeBytes'' (JInt 0))) (\<lambda>disk_size.
     sbind (py_int (jor (jget item ''cpuCount'') (JInt 0))) (\<lambda>cpus.
     sbind (py_int (jor (jget item ''memoryMb'') (JInt 0))) (\<lambda>memory.
     sbind (req_str_col (jget_default item ''name'' (JStr []))) (\<lambda>name.
     sbind (req_str_col (jget_default item ''path'' (JStr []))) (\<lambda>path.
     sbind (str_col (or_none (jget item ''notes''))) (\<lambda>notes.
     sbind (str_col (jget item ''guestOs'')) (\<lambda>guest_os.
       Inr \<lparr>Template_id = tid, Template_host_id = host_id, Template_name = name, Template_path = path,
            Template_size_bytes = size, Template_disk_size_bytes = disk_size, Template_notes = notes,
            Template_cpu_count = cpus, Template_memory_mb = memory, Template_guest_os = guest_os,
            Template_image_created_at = map_option as_utc (parse_dt env (jget item ''createdAt''))\<rparr>))))))))"

text \<open>\<^verbatim>\<open>item.get("id") or new_id()\<close>, with the id that would be drawn.\<close>

definition item_id :: "jobj \<Rightarrow> ident \<Rightarrow> ident res" where
  "item_id item new = (if truthy (jget item ''id'') then req_str_col (jget item ''id'') else Inr new)"

definition upsert_template :: "pyenv \<Rightarrow> ident \<Rightarrow> ident \<Rightarrow> jobj \<Rightarrow> database \<Rightarrow> database res" where
  "upsert_template env host_id new item db =
     sbind (item_id item new) (\<lambda>tid.
     sbind (template_row env host_id tid item) (\<lambda>row.
       Inr (db\<lparr>db_templates := (if tid \<in> Template_id ` set (db_templates db)
              then tupd Template_id tid (\<lambda>_. row) (db_templates db) else db_templates db @ [row])\<rparr>)))"

text \<open>The new rows of a table whose rows of this host were deleted: the key is global, and the host
  must exist.\<close>

definition insert_rows :: "('r \<Rightarrow> ident) \<Rightarrow> bool \<Rightarrow> 'r list \<Rightarrow> 'r list \<Rightarrow> 'r list res" where
  "insert_rows k host_known rows t =
     (if rows \<noteq> [] \<and> \<not> host_known \<or> \<not> distinct (map k (t @ rows)) then Inl IntegrityError else Inr (t @ rows))"

definition host_known :: "database \<Rightarrow> ident \<Rightarrow> bool" where
  "host_known db host_id \<longleftrightarrow> host_id \<in> Host_id ` set (db_hosts db)"

definition apply_template_inventory ::
  "pyenv \<Rightarrow> (nat \<Rightarrow> ident) \<Rightarrow> ident \<Rightarrow> json \<Rightarrow> database \<Rightarrow> (unit \<times> database) res"
where
  "apply_template_inventory env fresh host_id payload db =
     sbind (payload_list ''items'' payload) (\<lambda>items.
     sbind (mapM (\<lambda>(j, new). sbind (need_dict j) (\<lambda>item. sbind (item_id item new) (\<lambda>tid.
              template_row env host_id tid item))) (zip items (map fresh [0..<length items]))) (\<lambda>rows.
     sbind (insert_rows Template_id (host_known db host_id) rows
              (filter (\<lambda>t. Template_host_id t \<noteq> host_id) (db_templates db))) (\<lambda>ts.
       Inr ((), db\<lparr>db_templates := ts\<rparr>))))"

definition iso_row :: "ident \<Rightarrow> ident \<Rightarrow> jobj \<Rightarrow> iso res" where
  "iso_row host_id new item =
     sbind (py_int (jget_default item ''sizeBytes'' (JInt 0))) (\<lambda>size.
     sbind (req_str_col (jget_default item ''name'' (JStr []))) (\<lambda>name.
     sbind (req_str_col (jget_default item ''path'' (JStr []))) (\<lambda>path.
     sbind (str_col (or_none (jget item ''checksum''))) (\<lambda>checksum.
       Inr \<lparr>Iso_id = new, Iso_host_id = host_id, Iso_name = name, Iso_path = path, Iso_size_bytes = size,
            Iso_checksum = checksum\<rparr>))))"

definition apply_iso_inventory ::
  "(nat \<Rightarrow> ident) \<Rightarrow> ident \<Rightarrow> json \<Rightarrow> database \<Rightarrow> (unit \<times> database) res"
where
  "apply_iso_inventory fresh host_id payload db =
     sbind (payload_list ''items'' payload) (\<lambda>items.
     sbind (mapM (\<lambda>(j, new). sbind (need_dict j) (iso_row host_id new)) (zip items (map fresh [0..<length items]))) (\<lambda>rows.
     sbind (insert_rows Iso_id (host_known db host_id) rows
              (filter (\<lambda>i. Iso_host_id i \<noteq> host_id) (db_isos db))) (\<lambda>isos.
       Inr ((), db\<lparr>db_isos := isos\<rparr>))))"

section \<open>Lemmas\<close>

lemma unless_None: "(if b then Inr None else m) = Inr (Some d) \<Longrightarrow> m = Inr (Some d)"
  by (simp split: if_splits)

lemma hw_legacy_cpu: "hw_legacy env raw = Inr (Some d) \<Longrightarrow> d \<noteq> [] \<and> as_dict (jget d ''cpu'') \<noteq> None"
  unfolding hw_legacy_def Let_def by (elim sbind_InrE, drule unless_None, elim sbind_InrE) auto

lemma mapM_in: "mapM f xs = Inr ys \<Longrightarrow> y \<in> set ys \<Longrightarrow> \<exists>x \<in> set xs. f x = Inr y"
  by (induction xs arbitrary: ys) (auto simp: sbind_eq_Inr)

lemma mapM_nth: "mapM f xs = Inr ys \<Longrightarrow> list_all2 (\<lambda>x y. f x = Inr y) xs ys"
  by (induction xs arbitrary: ys) (auto simp: sbind_eq_Inr)

lemma vm_sample_owner:
  assumes "vm_sample env by_uuid ts j = Inr (Some m)"
  shows "VmMetric_vm_id m \<in> snd ` set by_uuid \<and> VmMetric_ts m = ts"
proof -
  obtain item g vm_id where "lookup_guid by_uuid g = Inr (Some vm_id)" "VmMetric_vm_id m = vm_id" "VmMetric_ts m = ts"
    using assms by (auto simp: vm_sample_def sbind_eq_Inr split: option.splits)
  then show ?thesis by (cases g) (auto dest!: map_of_SomeD intro: rev_image_eqI)
qed

lemma iso_row_key: "iso_row host_id new item = Inr r \<Longrightarrow> Iso_id r = new \<and> Iso_host_id r = host_id"
  by (auto simp: iso_row_def sbind_eq_Inr)

lemma iso_rows_keys:
  assumes "mapM (\<lambda>(j, new). sbind (need_dict j) (iso_row host_id new)) ps = Inr rows"
  shows "map Iso_id rows = map snd ps \<and> (\<forall>r \<in> set rows. Iso_host_id r = host_id)"
proof -
  have "list_all2 (\<lambda>p r. Iso_id r = snd p \<and> Iso_host_id r = host_id) ps rows"
    using mapM_nth [OF assms]
    by (rule list_all2_mono) (auto simp: sbind_eq_Inr dest: iso_row_key)
  then show ?thesis by (induction rule: list_all2_induct) auto
qed

section \<open>Properties\<close>

text \<open>Normalizing hardware is idempotent: what a first pass accepts, from a current or a legacy agent,
  a second pass returns unchanged.\<close>

theorem normalize_hardware_idempotent:
  assumes "normalize_hardware env raw = Inr (Some d)"
  shows "normalize_hardware env (JObj d) = Inr (Some d)"
  using assms
  by (auto simp: normalize_hardware_def dest: hw_legacy_cpu split: option.splits if_splits)

text \<open>A payload of the old agents: gigabytes, a separate C drive.\<close>

definition legacy_hardware :: jobj where
  "legacy_hardware = [(''cpuModel'', JStr ''Xeon''), (''logicalProcessors'', JInt 8),
     (''diskC'', JObj [(''totalGb'', JInt 100), (''freeGb'', JInt 40)])]"

theorem normalize_hardware_idempotent_witness:
  "\<exists>d. normalize_hardware cursor_env (JObj legacy_hardware) = Inr (Some d)
     \<and> jget d ''storage'' = JList [JObj [(''path'', JStr (''C:'' @ [CHR 0x5C])), (''totalBytes'', JInt 107374182400),
          (''freeBytes'', JInt 42949672960)]]
     \<and> normalize_hardware cursor_env (JObj d) = Inr (Some d)"
proof -
  have n: "num cursor_env JNull = Inr (Fin 0)" "\<bar>k\<bar> < 2 ^ 53 \<Longrightarrow> num cursor_env (JInt k) = Inr (Fin (of_int k))" for k
    by (simp_all add: num_def float_of_int_small)
  have r: "round_half_even 0 = 0" "round_half_even 107374182400 = 107374182400" "round_half_even 42949672960 = 42949672960"
    using round_half_even_int [of 0] round_half_even_int [of 107374182400] round_half_even_int [of 42949672960] by simp_all
  obtain d where d: "normalize_hardware cursor_env (JObj legacy_hardware) = Inr (Some d)"
    and s: "jget d ''storage'' = JList [JObj [(''path'', JStr (''C:'' @ [CHR 0x5C])), (''totalBytes'', JInt 107374182400),
          (''freeBytes'', JInt 42949672960)]]"
    by (simp add: normalize_hardware_def legacy_hardware_def hw_legacy_def hw_storage_def iter_dicts_def jor_def
        List.map_filter_def round_scaled_def int_num_def n r or_blank_def hw_optional_def Let_def)
  from normalize_hardware_idempotent [OF d] d s show ?thesis by blast
qed

text \<open>A VM metrics report stores samples only for VMs of the reporting host that are metered, keeps
  none of that host's samples older than the retention, and touches no other host's samples.\<close>

theorem vm_metrics_scoped:
  assumes "apply_vm_metrics env st now host_id payload db = Inr ((), db')"
  shows "(\<forall>m \<in> set (db_vm_metrics db'). m \<in> set (db_vm_metrics db)
        \<or> (\<exists>v \<in> set (db_vms db). Vm_id v = VmMetric_vm_id m \<and> Vm_host_id v = host_id \<and> Vm_metrics_enabled v))
    \<and> (\<forall>m \<in> set (db_vm_metrics db'). \<forall>v \<in> set (db_vms db). Vm_host_id v = host_id \<and> VmMetric_vm_id m = Vm_id v
         \<longrightarrow> now - seconds (metrics_retention_seconds st) \<le> VmMetric_ts m)
    \<and> (\<forall>m \<in> set (db_vm_metrics db). VmMetric_vm_id m \<notin> Vm_id ` {v \<in> set (db_vms db). Vm_host_id v = host_id}
         \<longrightarrow> m \<in> set (db_vm_metrics db'))"
proof -
  let ?own = "Vm_id ` {v \<in> set (db_vms db). Vm_host_id v = host_id}"
  obtain p items samples where
    s: "mapM (vm_sample env (metered_vms db host_id) (report_time env now p)) items = Inr samples"
    and db': "db_vm_metrics db' = filter (\<lambda>x. \<not> (VmMetric_ts x < metrics_cutoff st now \<and> VmMetric_vm_id x \<in> ?own))
              (db_vm_metrics db @ List.map_filter id samples)"
    using assms by (auto simp: apply_vm_metrics_def sbind_eq_Inr Let_def)
  have "\<exists>v \<in> set (db_vms db). Vm_id v = VmMetric_vm_id m \<and> Vm_host_id v = host_id \<and> Vm_metrics_enabled v"
    if m: "m \<in> set (List.map_filter id samples)" for m
  proof -
    from m have "Some m \<in> set samples" by (auto simp: List.map_filter_def)
    then obtain j where "vm_sample env (metered_vms db host_id) (report_time env now p) j = Inr (Some m)"
      using mapM_in [OF s] by blast
    from vm_sample_owner [OF this] show ?thesis by (auto simp: metered_vms_def)
  qed
  then show ?thesis unfolding db' by (auto simp: metrics_cutoff_def)
qed

lemma sample_vm_metrics [simp]: "\<not> Vm_metrics_enabled (sample_vm i h)"
  by (simp add: sample_vm_def)

definition metered_db :: database where
  "metered_db = empty_db\<lparr>db_vms := [(sample_vm ''v1'' ''h1'')\<lparr>Vm_metrics_enabled := True\<rparr>, sample_vm ''v2'' ''h1'']\<rparr>"

theorem vm_metrics_scoped_witness:
  "\<exists>db'. apply_vm_metrics cursor_env default_settings 0 ''h1''
       (JObj [(''vms'', JList [JObj [(''id'', JStr ''guid-v1'')], JObj [(''id'', JStr ''guid-v2'')]])]) metered_db = Inr ((), db')
     \<and> map VmMetric_vm_id (db_vm_metrics db') = [''v1'']
     \<and> list_all (\<lambda>m. - 3600000000 \<le> VmMetric_ts m) (db_vm_metrics db')"
proof -
  let ?p = "JObj [(''vms'', JList [JObj [(''id'', JStr ''guid-v1'')], JObj [(''id'', JStr ''guid-v2'')]])]"
  obtain db' where r: "apply_vm_metrics cursor_env default_settings 0 ''h1'' ?p metered_db = Inr ((), db')"
    and m: "map VmMetric_vm_id (db_vm_metrics db') = [''v1'']"
    by (simp add: apply_vm_metrics_def need_dict_def jget_default_def vm_sample_def jor_def metered_vms_def metered_db_def
        as_float_def report_time_def parse_dt_def List.map_filter_def metrics_cutoff_def seconds_def empty_db_def
        default_settings_def Let_def)
  have "VmMetric_vm_id x = ''v1''" if "x \<in> set (db_vm_metrics db')" for x
    using that m by (metis (no_types) image_eqI list.set_map list.simps(15) list.set(1) singletonD)
  then show ?thesis
    using r m vm_metrics_scoped [OF r]
    by (fastforce simp: list_all_iff metered_db_def seconds_def default_settings_def)
qed

text \<open>An ISO inventory whose items are well formed always succeeds and replaces exactly the images of
  the reporting host, in the reported order: with an id drawn for each row, the global key of the
  table cannot collide.\<close>

theorem iso_inventory_replaces:
  assumes "payload_list ''items'' payload = Inr items"
    and rows: "mapM (\<lambda>(j, new). sbind (need_dict j) (iso_row host_id new)) (zip items (map fresh [0..<length items])) = Inr rows"
    and "host_known db host_id" and "pk_unique Iso_id (db_isos db)"
    and "inj fresh" and "range fresh \<inter> Iso_id ` set (db_isos db) = {}"
  shows "apply_iso_inventory fresh host_id payload db
      = Inr ((), db\<lparr>db_isos := filter (\<lambda>i. Iso_host_id i \<noteq> host_id) (db_isos db) @ rows\<rparr>)
    \<and> length rows = length items \<and> list_all (\<lambda>r. Iso_host_id r = host_id) rows"
proof -
  note keys = iso_rows_keys [OF rows]
  have ids: "map Iso_id rows = map fresh [0..<length items]" using keys by simp
  have "distinct (map Iso_id rows)" using assms(5) unfolding ids by (simp add: distinct_map inj_on_def)
  moreover have "set (map Iso_id rows) \<subseteq> range fresh" unfolding ids by auto
  then have "set (map Iso_id rows) \<inter> Iso_id ` set (filter (\<lambda>i. Iso_host_id i \<noteq> host_id) (db_isos db)) = {}"
    using assms(6) by auto
  moreover have "distinct (map Iso_id (filter (\<lambda>i. Iso_host_id i \<noteq> host_id) (db_isos db)))"
    using assms(4) by (simp add: pk_unique_def distinct_map_filter)
  ultimately have "distinct (map Iso_id (filter (\<lambda>i. Iso_host_id i \<noteq> host_id) (db_isos db) @ rows))" by auto
  with assms(3) have "insert_rows Iso_id (host_known db host_id) rows (filter (\<lambda>i. Iso_host_id i \<noteq> host_id) (db_isos db))
      = Inr (filter (\<lambda>i. Iso_host_id i \<noteq> host_id) (db_isos db) @ rows)"
    unfolding insert_rows_def by simp
  moreover have "length rows = length items" using mapM_length [OF rows] by simp
  ultimately show ?thesis
    using assms(1) rows keys by (simp add: apply_iso_inventory_def list_all_iff)
qed

theorem iso_inventory_replaces_witness:
  "\<exists>rows. apply_iso_inventory fresh_id ''h1'' (JObj [(''items'', JList [JObj [(''id'', JStr ''md5''), (''name'', JStr ''a.iso'')]])])
       (empty_db\<lparr>db_hosts := [sample_host ''h1'' None]\<rparr>)
     = Inr ((), empty_db\<lparr>db_hosts := [sample_host ''h1'' None], db_isos := rows\<rparr>) \<and> map Iso_name rows = [''a.iso'']"
proof -
  let ?item = "JObj [(''id'', JStr ''md5''), (''name'', JStr ''a.iso'')]" and ?db = "empty_db\<lparr>db_hosts := [sample_host ''h1'' None]\<rparr>"
  have items: "payload_list ''items'' (JObj [(''items'', JList [?item])]) = Inr [?item]"
    by (simp add: payload_list_def need_dict_def jget_default_def)
  obtain rows where rows: "mapM (\<lambda>(j, new). sbind (need_dict j) (iso_row ''h1'' new))
      (zip [?item] (map fresh_id [0..<length [?item]])) = Inr rows" and nm: "map Iso_name rows = [''a.iso'']"
    by (simp add: need_dict_def iso_row_def jget_default_def req_str_col_def or_none_def)
  have known: "host_known ?db ''h1''" by (simp add: host_known_def)
  have none: "db_isos ?db = []" by (simp add: empty_db_def)
  then have "pk_unique Iso_id (db_isos ?db)" "range fresh_id \<inter> Iso_id ` set (db_isos ?db) = {}"
    by (simp_all add: pk_unique_def)
  note iso_inventory_replaces [OF items rows known this(1) fresh_id_inj this(2)]
  then have "apply_iso_inventory fresh_id ''h1'' (JObj [(''items'', JList [?item])]) ?db
      = Inr ((), ?db\<lparr>db_isos := rows\<rparr>)" by (simp add: none)
  with nm show ?thesis by (intro exI [of _ rows]) simp
qed

text \<open>Templates, whose ids come from the agents, can collide: a host that reports a template id that
  another host already has (a copied template folder) fails its whole inventory with an integrity
  error, and keeps the templates it had before.\<close>

theorem template_inventory_collides:
  "apply_template_inventory cursor_env fresh_id ''h2'' (JObj [(''items'', JList [JObj [(''id'', JStr ''tpl'')]])])
     (empty_db\<lparr>db_hosts := [sample_host ''h1'' None, sample_host ''h2'' None],
        db_templates := [\<lparr>Template_id = ''tpl'', Template_host_id = ''h1'', Template_name = ''base'', Template_path = [],
          Template_size_bytes = 0, Template_disk_size_bytes = 0, Template_notes = None, Template_cpu_count = 0,
          Template_memory_mb = 0, Template_guest_os = None, Template_image_created_at = None\<rparr>]\<rparr>) = Inl IntegrityError"
  by (simp add: apply_template_inventory_def payload_list_def need_dict_def jget_default_def item_id_def req_str_col_def
      template_row_def jor_def or_none_def parse_dt_def insert_rows_def)

end
