(* ===== verification/Frames.thy ===== *)
theory Frames
  imports Inventory
begin

text \<open>
  What a computation leaves alone. \<open>act_keeps R m\<close> says that \<open>m\<close> relates the world before to the
  world after by \<open>R\<close>, whether it returns or raises. For a reflexive and transitive \<open>R\<close> the relation
  passes through every way the services compose their effects; that is the contract \<open>act_frame\<close>,
  interpreted where a component has a relation of its own.
\<close>

definition act_keeps :: "(world \<Rightarrow> world \<Rightarrow> bool) \<Rightarrow> 'a act \<Rightarrow> bool" where
  "act_keeps R m \<longleftrightarrow> (\<forall>w. R w (snd (m w)))"

lemma act_keepsD: "act_keeps R m \<Longrightarrow> m w = (r, w') \<Longrightarrow> R w w'"
  by (metis act_keeps_def snd_conv)

lemma act_keepsI: "(\<And>w r w'. m w = (r, w') \<Longrightarrow> R w w') \<Longrightarrow> act_keeps R m"
  by (metis act_keeps_def prod.collapse)

locale act_frame =
  fixes R :: "world \<Rightarrow> world \<Rightarrow> bool"
  assumes refl: "R w w" and trans: "R w w1 \<Longrightarrow> R w1 w2 \<Longrightarrow> R w w2"
begin

lemma keeps_bind: "act_keeps R m \<Longrightarrow> (\<And>x. act_keeps R (f x)) \<Longrightarrow> act_keeps R (bind_act m f)"
  by (rule act_keepsI) (auto simp: bind_act_def refl split: prod.splits sum.splits dest: act_keepsD intro: trans)

lemma keeps_simple: "act_keeps R (ret x)" "act_keeps R (raise e)" "act_keeps R (pure_act r)" "act_keeps R (read_db f)"
  by (simp_all add: act_keeps_def ret_def raise_def pure_act_def read_db_def refl)

lemma keeps_write: "(\<And>w. R w (w\<lparr>w_db := f (w_db w)\<rparr>)) \<Longrightarrow> act_keeps R (write_db f)"
  by (simp add: act_keeps_def write_db_def)

lemma keeps_cache: "(\<And>w. R w (w\<lparr>w_cache := snd (f (w_now w) (w_cache w))\<rparr>)) \<Longrightarrow> act_keeps R (cache_act f)"
  by (simp add: act_keeps_def cache_act_def refl case_prod_beta)

lemma keeps_lift:
  "(\<And>w x db. f (w_db w) = Inr (x, db) \<Longrightarrow> R w (w\<lparr>w_db := db\<rparr>)) \<Longrightarrow> act_keeps R (lift_res f)"
  by (rule act_keepsI) (auto simp: lift_res_def refl split: sum.splits)

lemma keeps_now: "(\<And>now. act_keeps R (f now)) \<Longrightarrow> act_keeps R (with_now f)"
  by (simp add: act_keeps_def with_now_def)

lemma keeps_if: "(b \<Longrightarrow> act_keeps R m) \<Longrightarrow> (\<not> b \<Longrightarrow> act_keeps R n) \<Longrightarrow> act_keeps R (if b then m else n)"
  by simp

lemma keeps_option: "(x = None \<Longrightarrow> act_keeps R m) \<Longrightarrow> (\<And>v. x = Some v \<Longrightarrow> act_keeps R (f v)) \<Longrightarrow>
    act_keeps R (case x of None \<Rightarrow> m | Some v \<Rightarrow> f v)"
  by (cases x) simp_all

lemma keeps_foldA: "(\<And>x s. x \<in> set xs \<Longrightarrow> act_keeps R (f x s)) \<Longrightarrow> act_keeps R (foldA f xs s)"
proof (induction xs arbitrary: s)
  case (Cons x xs)
  have "act_keeps R (bind_act (f x s) (foldA f xs))" by (rule keeps_bind) (use Cons in auto)
  then show ?case by (simp only: foldA.simps)
qed (simp add: keeps_simple)

lemmas keeps_rules = keeps_simple keeps_bind keeps_now keeps_if keeps_option keeps_foldA

end

end
