(* ===== verification/Responses.thy ===== *)
theory Responses
  imports Host_Actions Agent_Reports Frames
begin

text \<open>
  \<^verbatim>\<open>apply_response\<close> of \<^verbatim>\<open>app/services/inventory.py\<close>: the life cycle of a task as the agent's
  responses drive it. The terminal status is recorded first; what follows (node state, template, VM
  row, lock) is best effort, each part in a savepoint or a \<^verbatim>\<open>try\<close> of its own, so that it can fail
  without losing the status.
\<close>

section \<open>Savepoints\<close>

text \<open>\<^verbatim>\<open>try: async with db.begin_nested(): m except Exception: log\<close>, and a \<^verbatim>\<open>try\<close> without savepoint.
  Leaving the savepoint flushes: the unique indexes of the VM table are checked.\<close>

definition check_vms :: "unit act" where
  "check_vms = read_db (\<lambda>db. if vm_uuids_ok (db_vms db) then Inr () else Inl IntegrityError)"

definition in_savepoint :: "unit act \<Rightarrow> unit act" where
  "in_savepoint m w = (case bind_act m (\<lambda>_. check_vms) w of
     (Inl e, w') \<Rightarrow> (Inr (), w'\<lparr>w_db := w_db w\<rparr>) | (Inr _, w') \<Rightarrow> (Inr (), w'))"

definition swallow :: "'a act \<Rightarrow> unit act" where
  "swallow m w = (Inr (), snd (m w))"

section \<open>The response\<close>

definition TRANSITIONAL_STATE :: "(string \<times> string) list" where
  "TRANSITIONAL_STATE = [(''vm_start'', ''Starting''), (''vm_stop'', ''Stopping''), (''vm_shutdown'', ''Stopping''),
     (''vm_restart'', ''Restarting''), (''vm_pause'', ''Pausing'')]"

definition FAILED_STATE_REVERT :: "(string \<times> string) list" where
  "FAILED_STATE_REVERT = [(''vm_start'', ''Off''), (''vm_stop'', ''Running''), (''vm_shutdown'', ''Running''),
     (''vm_restart'', ''Running''), (''vm_pause'', ''Running'')]"

text \<open>\<^verbatim>\<open>for v in src.get("vms") or []: if isinstance(v, dict): v.pop("thumbnail", None)\<close>.\<close>

fun strip_item :: "json \<Rightarrow> json" where
  "strip_item (JObj d) = JObj (jpop d ''thumbnail'')"
| "strip_item j = j"

definition strip_dict :: "jobj \<Rightarrow> jobj res" where
  "strip_dict d =
     (let d' = jpop d ''thumbnail''; vms = jget d' ''vms'' in
      if \<not> truthy vms then Inr d'
      else case vms of
        JList xs \<Rightarrow> Inr (jset d' ''vms'' (JList (map strip_item xs)))
      | JStr _ \<Rightarrow> Inr d'
      | JObj _ \<Rightarrow> Inr d'
      | _ \<Rightarrow> Inl TypeError)"

definition strip_response_thumbnails :: "agent_response \<Rightarrow> agent_response res" where
  "strip_response_thumbnails resp =
     sbind (case Response_vm_status resp of None \<Rightarrow> Inr None
            | Some d \<Rightarrow> sbind (strip_dict d) (\<lambda>d. Inr (Some d))) (\<lambda>status.
     sbind (case Response_result resp of
              Some (JObj d) \<Rightarrow> sbind (strip_dict d) (\<lambda>d. Inr (Some (JObj d)))
            | r \<Rightarrow> Inr r) (\<lambda>result.
       Inr (resp\<lparr>Response_vm_status := status, Response_result := result\<rparr>)))"

definition opt_obj :: "jobj option \<Rightarrow> json" where
  "opt_obj x = (case x of None \<Rightarrow> JNull | Some d \<Rightarrow> JObj d)"

definition opt_json :: "json option \<Rightarrow> json" where
  "opt_json x = (case x of None \<Rightarrow> JNull | Some j \<Rightarrow> j)"

text \<open>\<^verbatim>\<open>resp.model_dump(mode="json")\<close>.\<close>

definition response_json :: "agent_response \<Rightarrow> json" where
  "response_json r = JObj
     [(''id'', JStr (Response_id r)), (''function'', JStr (Response_function r)), (''status'', JStr (Response_status r)),
      (''progress'', opt_int (Response_progress r)), (''progress_message'', opt_str (Response_progress_message r)),
      (''result'', opt_json (Response_result r)), (''error'', opt_str (Response_error r)),
      (''vm_id'', opt_str (Response_vm_id r)), (''vm_state'', opt_str (Response_vm_state r)),
      (''vm_status'', opt_obj (Response_vm_status r)), (''template'', opt_obj (Response_template r)),
      (''finished_at'', opt_str (Response_finished_at r))]"

text \<open>The VM objects of a response: \<^verbatim>\<open>vm_status\<close> first, then a \<^verbatim>\<open>result\<close> that is an object.\<close>

definition source_items :: "jobj \<Rightarrow> jobj list option" where
  "source_items src = (case jget src ''vms'' of
     JList xs \<Rightarrow> Some (List.map_filter as_dict xs)
   | _ \<Rightarrow> if truthy (jor (jget src ''id'') (jget src ''vmId'')) then Some [src] else None)"

definition response_vm_items :: "agent_response \<Rightarrow> jobj list" where
  "response_vm_items resp =
     (let sources = (case Response_vm_status resp of None \<Rightarrow> [] | Some d \<Rightarrow> [d])
                  @ (case Response_result resp of Some (JObj d) \<Rightarrow> [d] | _ \<Rightarrow> [])
      in case List.map_filter source_items sources of [] \<Rightarrow> [] | items # _ \<Rightarrow> items)"

section \<open>The VM row\<close>

definition put_vm :: "vm \<Rightarrow> database \<Rightarrow> database" where
  "put_vm v db = db\<lparr>db_vms := tupd Vm_id (Vm_id v) (\<lambda>_. v) (db_vms db)\<rparr>"

definition find_host_vm :: "database \<Rightarrow> ident \<Rightarrow> string \<Rightarrow> vm option res" where
  "find_host_vm db host_id g =
     scalar_one_or_none (filter (\<lambda>v. Vm_vm_uuid v = Some g \<and> Vm_host_id v = host_id) (db_vms db))"

definition show_state :: "settings \<Rightarrow> ident \<Rightarrow> string \<Rightarrow> unit act" where
  "show_state st vm_id state = cache_act (\<lambda>now c. ((), set_vm_state st now vm_id state c))"

fun guid_param :: "json \<Rightarrow> string res" where
  "guid_param (JStr s) = Inr s"
| "guid_param _ = Inl DBAPIError"

definition apply_vm_item :: "pyenv \<Rightarrow> settings \<Rightarrow> host \<Rightarrow> jobj \<Rightarrow> bool \<Rightarrow> bool act" where
  "apply_vm_item env st h raw updated =
     bind_act (pure_act (normalize_vm env raw)) (\<lambda>item.
       if \<not> truthy (jget item ''vmUuid'') then ret updated
       else bind_act (pure_act (guid_param (jget item ''vmUuid''))) (\<lambda>g.
            bind_act (read_db (\<lambda>db. find_host_vm db (Host_id h) g)) (\<lambda>found.
              case found of
                None \<Rightarrow> ret updated
              | Some v \<Rightarrow>
                  with_now (\<lambda>now.
                  bind_act (pure_act (write_vm_row env now raw item (Host_id h) (Host_cluster_id h) True v)) (\<lambda>v'.
                  bind_act (write_db (put_vm v')) (\<lambda>_.
                  bind_act (show_state st (Vm_id v') (Vm_state v')) (\<lambda>_. ret True)))))))"

definition apply_response_vm_status :: "pyenv \<Rightarrow> settings \<Rightarrow> ident \<Rightarrow> agent_response \<Rightarrow> bool act" where
  "apply_response_vm_status env st host_id resp =
     (let items = response_vm_items resp in
      if items = [] then ret False
      else bind_act (read_db (\<lambda>db. Inr (tget Host_id (db_hosts db) host_id))) (\<lambda>found.
        case found of None \<Rightarrow> ret False | Some h \<Rightarrow> foldA (apply_vm_item env st h) items False))"

definition drop_task_vm :: "ident \<Rightarrow> unit act" where
  "drop_task_vm vm_id =
     bind_act (write_db (drop_vms (\<lambda>r. Vm_id r = vm_id))) (\<lambda>_.
       cache_act (\<lambda>now c. ((), clear_vm_state now vm_id c)))"

text \<open>The branches of \<^verbatim>\<open>_apply_response_state\<close>.\<close>

definition finish_create :: "pyenv \<Rightarrow> settings \<Rightarrow> ident \<Rightarrow> agent_response \<Rightarrow> task \<Rightarrow> unit act" where
  "finish_create env st host_id resp t =
     bind_act (read_db (\<lambda>db. Inr (tget Vm_id (db_vms db) (Task_target_id t)))) (\<lambda>found.
       case found of
         None \<Rightarrow> ret ()
       | Some p \<Rightarrow>
           if Task_status t = ''succeeded'' then
             let state = (if opt_truthy (Response_vm_state resp) then or_empty (Response_vm_state resp) else ''Off'');
                 p' = p\<lparr>Vm_vm_uuid := (if opt_truthy (Response_vm_id resp) then Response_vm_id resp else Vm_vm_uuid p),
                        Vm_state := state\<rparr>
             in bind_act (write_db (put_vm p')) (\<lambda>_.
                bind_act (show_state st (Vm_id p) state) (\<lambda>_.
                bind_act check_vms (\<lambda>_.
                bind_act (apply_response_vm_status env st host_id resp) (\<lambda>_. ret ()))))
           else drop_task_vm (Vm_id p))"

definition finish_delete :: "ident \<Rightarrow> task \<Rightarrow> unit act" where
  "finish_delete host_id t =
     bind_act (read_db (\<lambda>db. Inr (tget Vm_id (db_vms db) (Task_target_id t)))) (\<lambda>gone.
     bind_act (case gone of
         Some v \<Rightarrow> if opt_truthy (Vm_vm_uuid v)
           then cache_act (\<lambda>now c. ((), mark_vm_deleted now host_id (or_empty (Vm_vm_uuid v)) c)) else ret ()
       | None \<Rightarrow> ret ()) (\<lambda>_.
       drop_task_vm (Task_target_id t)))"

definition finish_other :: "pyenv \<Rightarrow> settings \<Rightarrow> ident \<Rightarrow> agent_response \<Rightarrow> unit act" where
  "finish_other env st host_id resp =
     bind_act (apply_response_vm_status env st host_id resp) (\<lambda>applied.
       if opt_truthy (Response_vm_id resp) \<and> opt_truthy (Response_vm_state resp) \<and> \<not> applied then
         bind_act (read_db (\<lambda>db. find_host_vm db host_id (or_empty (Response_vm_id resp)))) (\<lambda>found.
           case found of
             None \<Rightarrow> ret ()
           | Some v \<Rightarrow> bind_act (write_db (put_vm (v\<lparr>Vm_state := or_empty (Response_vm_state resp)\<rparr>))) (\<lambda>_.
               show_state st (Vm_id v) (or_empty (Response_vm_state resp))))
       else ret ())"

definition revert_failed :: "settings \<Rightarrow> task \<Rightarrow> unit act" where
  "revert_failed st t =
     (case map_of FAILED_STATE_REVERT (Task_kind t) of
        None \<Rightarrow> ret ()
      | Some revert \<Rightarrow>
          if Task_target_type t \<noteq> ''vm'' then ret ()
          else bind_act (read_db (\<lambda>db. Inr (tget Vm_id (db_vms db) (Task_target_id t)))) (\<lambda>found.
            case found of
              None \<Rightarrow> ret ()
            | Some v \<Rightarrow>
                if map_of TRANSITIONAL_STATE (Task_kind t) \<noteq> Some (Vm_state v) then ret ()
                else bind_act (write_db (put_vm (v\<lparr>Vm_state := revert\<rparr>))) (\<lambda>_. show_state st (Vm_id v) revert)))"

definition apply_response_state :: "pyenv \<Rightarrow> settings \<Rightarrow> ident \<Rightarrow> agent_response \<Rightarrow> task \<Rightarrow> unit act" where
  "apply_response_state env st host_id resp t =
     (if Task_kind t \<in> set [''vm_create'', ''vm_clone''] then finish_create env st host_id resp t
      else if Task_kind t = ''vm_delete'' \<and> Task_status t = ''succeeded'' then finish_delete host_id t
      else if Task_status t = ''succeeded'' then finish_other env st host_id resp
      else if Task_status t = ''failed'' then revert_failed st t
      else ret ())"

section \<open>The task\<close>

definition put_task :: "task \<Rightarrow> database \<Rightarrow> database" where
  "put_task t db = db\<lparr>db_tasks := tupd Task_id (Task_id t) (\<lambda>_. t) (db_tasks db)\<rparr>"

definition progress_task :: "instant \<Rightarrow> agent_response \<Rightarrow> task \<Rightarrow> task" where
  "progress_task now resp t = t\<lparr>Task_response_payload := Some (response_json resp), Task_status := ''running'',
     Task_started_at := (if Task_started_at t = None then Some now else Task_started_at t),
     Task_progress := (if Response_progress resp = None then Task_progress t else Response_progress resp),
     Task_progress_message := (if opt_truthy (Response_progress_message resp) then Response_progress_message resp
       else Task_progress_message t)\<rparr>"

definition finished_task :: "pyenv \<Rightarrow> instant \<Rightarrow> agent_response \<Rightarrow> task \<Rightarrow> task" where
  "finished_task env now resp t =
     (let ok = Response_status resp = ''succeeded'';
          warning = result_get (Response_result resp) ''warning'' in
      t\<lparr>Task_response_payload := Some (response_json resp),
        Task_status := (if ok then ''succeeded'' else ''failed''),
        Task_finished_at := Some (case parse_dt env (opt_str (Response_finished_at resp)) of None \<Rightarrow> now | Some d \<Rightarrow> as_utc d),
        Task_progress := (if ok then Some 100 else Task_progress t),
        Task_progress_message := None,
        Task_result := (case Response_result resp of Some (JStr s) \<Rightarrow> Some s | _ \<Rightarrow> None),
        Task_error := (if ok \<and> \<not> opt_truthy (Response_error resp) \<and> truthy warning
          then Some (py_str env warning) else Response_error resp)\<rparr>)"

definition stamp_agent_version :: "pyenv \<Rightarrow> ident \<Rightarrow> agent_response \<Rightarrow> task \<Rightarrow> database \<Rightarrow> database" where
  "stamp_agent_version env host_id resp t db =
     (let version = result_get (Response_result resp) ''version'' in
      if Task_kind t = ''host_update_agent'' \<and> Task_status t = ''succeeded'' \<and> truthy version
      then db\<lparr>db_hosts := tupd Host_id host_id (\<lambda>h. h\<lparr>Host_agent_version := Some (py_str env version)\<rparr>) (db_hosts db)\<rparr>
      else db)"

definition register_template :: "pyenv \<Rightarrow> ident \<Rightarrow> agent_response \<Rightarrow> task \<Rightarrow> unit act" where
  "register_template env new resp t =
     (case Response_template resp of
        Some item \<Rightarrow> if Task_status t = ''succeeded'' \<and> Task_kind t = ''vm_export_template''
          then in_savepoint (lift_res (\<lambda>db. sbind (upsert_template env (Task_host_id t) new item db) (\<lambda>db. Inr ((), db))))
          else ret ()
      | None \<Rightarrow> ret ())"

definition release_task_lock :: "task \<Rightarrow> unit act" where
  "release_task_lock t =
     (if Task_target_type t = ''vm''
      then swallow (cache_act (\<lambda>now c. release_vm_lock now (Task_target_id t) (Some (Task_id t)) c))
      else ret ())"

definition finish_task :: "pyenv \<Rightarrow> settings \<Rightarrow> ident \<Rightarrow> ident \<Rightarrow> agent_response \<Rightarrow> task \<Rightarrow> unit act" where
  "finish_task env st new host_id resp t =
     bind_act (write_db (\<lambda>db. stamp_agent_version env host_id resp t
                  (settle_task_events [Task_id t] (Task_status t) (Task_error t) (put_task t db)))) (\<lambda>_.
     bind_act (if Task_target_type t = ''host''
               then in_savepoint (lift_res (apply_host_action_response env t resp)) else ret ()) (\<lambda>_.
     bind_act (register_template env new resp t) (\<lambda>_.
     bind_act (in_savepoint (apply_response_state env st host_id resp t)) (\<lambda>_.
       release_task_lock t))))"

definition find_task :: "database \<Rightarrow> ident \<Rightarrow> ident \<Rightarrow> task option res" where
  "find_task db tid host_id =
     scalar_one_or_none (filter (\<lambda>t. Task_id t = tid \<and> Task_host_id t = host_id) (db_tasks db))"

definition apply_response :: "pyenv \<Rightarrow> settings \<Rightarrow> ident \<Rightarrow> ident \<Rightarrow> agent_response \<Rightarrow> unit act" where
  "apply_response env st new host_id resp0 =
     bind_act (read_db (\<lambda>db. find_task db (Response_id resp0) host_id)) (\<lambda>found.
       case found of
         None \<Rightarrow> ret ()
       | Some t \<Rightarrow>
           bind_act (pure_act (strip_response_thumbnails resp0)) (\<lambda>resp.
             with_now (\<lambda>now.
               if Response_status resp = ''running'' \<and> Task_status t \<in> set [''queued'', ''running'']
               then write_db (put_task (progress_task now resp t))
               else finish_task env st new host_id resp (finished_task env now resp t))))"

section \<open>Lemmas\<close>

text \<open>What the best-effort part leaves alone: tasks, audit events, the clock, and the shape of the lock
  entries.\<close>

definition keeps_tasks :: "world \<Rightarrow> world \<Rightarrow> bool" where
  "keeps_tasks w w' \<longleftrightarrow> db_tasks (w_db w') = db_tasks (w_db w) \<and> db_audit_events (w_db w') = db_audit_events (w_db w)
     \<and> w_now w' = w_now w \<and> w_cache_up w' = w_cache_up w \<and> (locks_wf (w_cache w) \<longrightarrow> locks_wf (w_cache w'))"

interpretation task_frame: act_frame keeps_tasks
  by unfold_locales (auto simp: keeps_tasks_def)

lemma locks_wf_state: "locks_wf c \<Longrightarrow> locks_wf (set_vm_state st now i x c)"
  unfolding set_vm_state_def by (rule locks_wf_set) simp_all

lemma locks_wf_mark: "locks_wf c \<Longrightarrow> locks_wf (mark_vm_deleted now h g c)"
  unfolding mark_vm_deleted_def by (auto intro: locks_wf_set)

lemma keeps_show_state: "act_keeps keeps_tasks (show_state st i x)"
  unfolding show_state_def by (rule task_frame.keeps_cache) (simp add: keeps_tasks_def locks_wf_state)

lemma keeps_put_vm: "act_keeps keeps_tasks (write_db (put_vm v))"
  by (rule task_frame.keeps_write) (simp add: keeps_tasks_def put_vm_def)

lemma keeps_check: "act_keeps keeps_tasks check_vms"
  unfolding check_vms_def by (rule task_frame.keeps_simple)

lemma keeps_forget: "act_keeps keeps_tasks (drop_task_vm i)"
  unfolding drop_task_vm_def
  by (intro task_frame.keeps_bind task_frame.keeps_write task_frame.keeps_cache)
    (simp_all add: keeps_tasks_def drop_vms_def Let_def clear_vm_state_def locks_wf_del)

lemma keeps_vm_status: "act_keeps keeps_tasks (apply_response_vm_status env st host_id resp)"
  unfolding apply_response_vm_status_def Let_def apply_vm_item_def
  by (intro task_frame.keeps_rules keeps_show_state keeps_put_vm)

lemma keeps_response_state: "act_keeps keeps_tasks (apply_response_state env st host_id resp t)"
proof -
  have "act_keeps keeps_tasks (cache_act (\<lambda>now c. ((), mark_vm_deleted now host_id g c)))" for g
    by (rule task_frame.keeps_cache) (simp add: keeps_tasks_def locks_wf_mark)
  then have "act_keeps keeps_tasks (finish_delete host_id t)"
    unfolding finish_delete_def by (intro task_frame.keeps_rules keeps_forget)
  moreover have "act_keeps keeps_tasks (finish_create env st host_id resp t)"
    unfolding finish_create_def Let_def
    by (intro task_frame.keeps_rules keeps_show_state keeps_put_vm keeps_check keeps_vm_status keeps_forget)
  moreover have "act_keeps keeps_tasks (finish_other env st host_id resp)"
    unfolding finish_other_def by (intro task_frame.keeps_rules keeps_show_state keeps_put_vm keeps_vm_status)
  moreover have "act_keeps keeps_tasks (revert_failed st t)"
    unfolding revert_failed_def by (intro task_frame.keeps_rules keeps_show_state keeps_put_vm)
  ultimately show ?thesis
    unfolding apply_response_state_def by (intro task_frame.keeps_rules)
qed

lemma keeps_savepoint: "act_keeps keeps_tasks m \<Longrightarrow> act_keeps keeps_tasks (in_savepoint m)"
  using task_frame.keeps_bind [OF _ keeps_check, of m]
  by (intro act_keepsI) (auto simp: in_savepoint_def keeps_tasks_def split: prod.splits sum.splits dest!: act_keepsD)

lemma in_savepoint_returns: "\<exists>w'. in_savepoint m w = (Inr (), w')"
  by (auto simp: in_savepoint_def split: prod.split sum.split)

lemma keeps_template: "act_keeps keeps_tasks (register_template env new resp t)"
  unfolding register_template_def
  by (intro task_frame.keeps_rules keeps_savepoint task_frame.keeps_lift)
    (auto simp: keeps_tasks_def upsert_template_def sbind_eq_Inr)

lemma keeps_host_response: "act_keeps keeps_tasks (lift_res (apply_host_action_response env t resp))"
  by (rule task_frame.keeps_lift)
    (auto simp: keeps_tasks_def apply_host_action_response_def sbind_eq_Inr Let_def split: option.splits if_splits)

lemma strip_status: "strip_response_thumbnails resp = Inr resp' \<Longrightarrow> Response_status resp' = Response_status resp"
  by (auto simp: strip_response_thumbnails_def sbind_eq_Inr)

text \<open>Everything after the status: it always returns, and the lock of the task is gone.\<close>

definition settled :: "pyenv \<Rightarrow> ident \<Rightarrow> agent_response \<Rightarrow> task \<Rightarrow> world \<Rightarrow> world" where
  "settled env host_id resp t w = w\<lparr>w_db := stamp_agent_version env host_id resp t
     (settle_task_events [Task_id t] (Task_status t) (Task_error t) (put_task t (w_db w)))\<rparr>"

lemma finish_task_returns:
  "\<exists>w1 w'. keeps_tasks (settled env host_id resp t w) w1 \<and> finish_task env st new host_id resp t w = (Inr (), w')
     \<and> release_task_lock t w1 = (Inr (), w')"
proof -
  let ?w0 = "settled env host_id resp t w"
  let ?host = "if Task_target_type t = ''host'' then in_savepoint (lift_res (apply_host_action_response env t resp)) else ret ()"
  have "\<exists>w1. ?host ?w0 = (Inr (), w1)"
    by (cases "Task_target_type t = ''host''") (simp_all add: in_savepoint_returns ret_def)
  then obtain w1 where w1: "?host ?w0 = (Inr (), w1)" by blast
  have "\<exists>w2. register_template env new resp t w1 = (Inr (), w2)"
    by (cases "Response_template resp"; simp add: register_template_def in_savepoint_returns ret_def)
  then obtain w2 where w2: "register_template env new resp t w1 = (Inr (), w2)" by blast
  obtain w3 where w3: "in_savepoint (apply_response_state env st host_id resp t) w2 = (Inr (), w3)"
    using in_savepoint_returns by blast
  have "act_keeps keeps_tasks ?host"
    using keeps_savepoint [OF keeps_host_response] task_frame.keeps_simple by (intro task_frame.keeps_if)
  then have "keeps_tasks ?w0 w3"
    using w1 w2 w3 keeps_template keeps_savepoint [OF keeps_response_state] task_frame.trans
    by (meson act_keepsD)
  moreover have "\<exists>w'. release_task_lock t w3 = (Inr (), w')"
    by (simp add: release_task_lock_def swallow_def ret_def)
  ultimately show ?thesis
    using w1 w2 w3 by (auto simp: finish_task_def bind_act_def write_db_def settled_def)
qed

lemma tget_put: "k x = i \<Longrightarrow> i \<in> k ` set t \<Longrightarrow> tget k (tupd k i (\<lambda>_. x) t) i = Some x"
  by (induction t) (auto simp: tupd_def)

lemma find_task_Some:
  "find_task db tid host_id = Inr (Some t) \<Longrightarrow> t \<in> set (db_tasks db) \<and> Task_id t = tid \<and> Task_host_id t = host_id"
  by (auto simp: find_task_def scalar_one_or_none_def filter_eq_Cons_iff split: list.splits)

lemma finished_fields:
  "Task_id (finished_task env now resp t) = Task_id t"
  "Task_status (finished_task env now resp t) = (if Response_status resp = ''succeeded'' then ''succeeded'' else ''failed'')"
  "Task_finished_at (finished_task env now resp t) \<noteq> None"
  "Task_target_type (finished_task env now resp t) = Task_target_type t"
  "Task_target_id (finished_task env now resp t) = Task_target_id t"
  "Task_kind (finished_task env now resp t) = Task_kind t"
  by (simp_all add: finished_task_def Let_def)

lemma apply_response_terminal:
  assumes "find_task (w_db w) (Response_id resp0) host_id = Inr (Some t)"
    and "strip_response_thumbnails resp0 = Inr resp"
    and "Response_status resp0 \<noteq> ''running'' \<or> Task_status t \<in> set TERMINAL_TASK_STATUSES"
  shows "apply_response env st new host_id resp0 w
    = finish_task env st new host_id resp (finished_task env (w_now w) resp t) w"
proof -
  have "\<not> (Response_status resp = ''running'' \<and> Task_status t \<in> set [''queued'', ''running''])"
    using assms(3) strip_status [OF assms(2)] by (auto simp: TERMINAL_TASK_STATUSES_def)
  then show ?thesis
    using assms(1,2) by (auto simp: apply_response_def bind_act_def read_db_def pure_act_def with_now_def)
qed

lemma release_task_lock_frees:
  assumes "release_task_lock t w = (Inr (), w')" and "Task_target_type t = ''vm''" and "w_cache_up w" and "locks_wf (w_cache w)"
  shows "lock_holder (w_now w) (w_cache w') (Task_target_id t) \<noteq> Some (Task_id t)"
proof -
  have "w_cache w' = snd (release_vm_lock (w_now w) (Task_target_id t) (Some (Task_id t)) (w_cache w))"
    using assms(1-3) by (auto simp: release_task_lock_def swallow_def cache_act_def case_prod_beta)
  then show ?thesis
    using vm_locks.release_holder [OF assms(4), of "w_now w" "Task_target_id t" "Task_id t" "w_now w" "Task_target_id t"]
      vm_locks.release_other [OF assms(4), of "w_now w" "Task_target_id t" "Task_id t"]
    by (cases "lock_holder (w_now w) (w_cache w) (Task_target_id t) = Some (Task_id t)") simp_all
qed

lemma release_task_lock_db: "release_task_lock t w = (Inr (), w') \<Longrightarrow> w_db w' = w_db w"
  by (auto simp: release_task_lock_def swallow_def cache_act_def ret_def case_prod_beta split: if_splits)

text \<open>A failed power action on a VM that is gone by now.\<close>

definition sample_response :: "string \<Rightarrow> agent_response" where
  "sample_response status = \<lparr>Response_id = ''t1'', Response_function = ''vm_start'', Response_status = status,
     Response_progress = None, Response_progress_message = None, Response_result = None, Response_error = None,
     Response_vm_id = None, Response_vm_state = None, Response_vm_status = None, Response_template = None,
     Response_finished_at = None\<rparr>"

lemma sample_response_simps [simp]:
  "Response_id (sample_response x) = ''t1''" "Response_status (sample_response x) = x"
  "strip_response_thumbnails (sample_response x) = Inr (sample_response x)"
  by (simp_all add: sample_response_def strip_response_thumbnails_def)

definition task_world :: "task \<Rightarrow> vm list \<Rightarrow> world" where
  "task_world t vms = (bare_world vms [])\<lparr>w_db := empty_db\<lparr>db_hosts := [sample_host ''h1'' None], db_vms := vms, db_tasks := [t]\<rparr>\<rparr>"

lemma task_world_simps [simp]:
  "w_db (task_world t vms) = empty_db\<lparr>db_hosts := [sample_host ''h1'' None], db_vms := vms, db_tasks := [t]\<rparr>"
  "w_cache (task_world t vms) = []" "w_now (task_world t vms) = 1" "w_cache_up (task_world t vms)"
  by (simp_all add: task_world_def)

lemma sample_task_simps [simp]:
  "Task_id (sample_task i k s g n) = i" "Task_kind (sample_task i k s g n) = k" "Task_status (sample_task i k s g n) = s"
  "Task_target_id (sample_task i k s g n) = g" "Task_target_type (sample_task i k s g n) = ''vm''"
  "Task_host_id (sample_task i k s g n) = ''h1''"
  by (simp_all add: sample_task_def)

lemma find_sample_task: "find_task (w_db (task_world (sample_task ''t1'' k s g n) vms)) ''t1'' ''h1''
    = Inr (Some (sample_task ''t1'' k s g n))"
  by (simp add: find_task_def scalar_one_or_none_def)

text \<open>What a final response leaves behind.\<close>

lemma final_response_settles:
  assumes found: "find_task (w_db w) (Response_id resp0) host_id = Inr (Some t)"
    and strip: "strip_response_thumbnails resp0 = Inr resp"
    and fin: "Response_status resp0 \<noteq> ''running'' \<or> Task_status t \<in> set TERMINAL_TASK_STATUSES"
  shows "\<exists>w' t'. apply_response env st new host_id resp0 w = (Inr (), w')
    \<and> tget Task_id (db_tasks (w_db w')) (Response_id resp0) = Some t'
    \<and> Task_status t' = (if Response_status resp0 = ''succeeded'' then ''succeeded'' else ''failed'')
    \<and> Task_finished_at t' \<noteq> None
    \<and> list_all (\<lambda>e. AuditEvent_task_id e = Some (Response_id resp0) \<longrightarrow> AuditEvent_outcome e \<noteq> ''pending'')
        (db_audit_events (w_db w'))
    \<and> (Task_target_type t = ''vm'' \<and> w_cache_up w \<and> locks_wf (w_cache w) \<longrightarrow>
        lock_holder (w_now w) (w_cache w') (Task_target_id t) \<noteq> Some (Response_id resp0))"
proof -
  define t' where "t' = finished_task env (w_now w) resp t"
  let ?w0 = "settled env host_id resp t' w"
  have t: "t \<in> set (db_tasks (w_db w))" "Task_id t = Response_id resp0" using find_task_Some [OF found] by simp_all
  note fields = finished_fields [of env "w_now w" resp t, folded t'_def, unfolded t(2) strip_status [OF strip]]
  obtain w1 w' where fr: "keeps_tasks ?w0 w1" and run: "finish_task env st new host_id resp t' w = (Inr (), w')"
    and rel: "release_task_lock t' w1 = (Inr (), w')" using finish_task_returns by blast
  have db: "db_tasks (w_db w') = db_tasks (w_db ?w0)" "db_audit_events (w_db w') = db_audit_events (w_db ?w0)"
    using fr release_task_lock_db [OF rel] by (simp_all add: keeps_tasks_def)
  have "tget Task_id (db_tasks (w_db w')) (Response_id resp0) = Some t'"
    unfolding db using t
    by (simp add: settled_def stamp_agent_version_def settle_task_events_def put_task_def Let_def
        fields(1) tget_put rev_image_eqI)
  moreover have "list_all (\<lambda>e. AuditEvent_task_id e = Some (Response_id resp0) \<longrightarrow> AuditEvent_outcome e \<noteq> ''pending'')
      (db_audit_events (w_db w'))"
    unfolding db by (auto simp: settled_def stamp_agent_version_def settle_task_events_def put_task_def Let_def list_all_iff
        tupd_where_def fields)
  moreover have "lock_holder (w_now w) (w_cache w') (Task_target_id t) \<noteq> Some (Response_id resp0)"
    if "Task_target_type t = ''vm''" "w_cache_up w" "locks_wf (w_cache w)"
  proof -
    have "w_cache_up w1" "locks_wf (w_cache w1)" "w_now w1 = w_now w"
      using fr that(2,3) by (simp_all add: keeps_tasks_def settled_def)
    then show ?thesis using release_task_lock_frees [OF rel] that(1) fields by simp
  qed
  ultimately show ?thesis
    using run apply_response_terminal [OF found strip fin] fields by (intro exI [of _ w'] exI [of _ t']) (simp add: t'_def)
qed

section \<open>Properties\<close>



end
