(* ===== verification/Lifecycles.thy ===== *)
theory Lifecycles
  imports Responses
begin

text \<open>
  Stories that cross components: a delete followed by a stale inventory, a power action that fails, a
  create whose VM is inventoried before its response arrives, a response that arrives late.
\<close>

section \<open>Lemmas\<close>

lemma release_vm_lock_get:
  "k \<noteq> vm_lock_key i \<Longrightarrow> cache_get n (snd (release_vm_lock now i r c)) k = cache_get n c k"
  by (auto simp: release_vm_lock_def cache_get_del split: option.splits)

lemma release_task_lock_get:
  assumes "release_task_lock t w = (Inr (), w')" and "\<And>i. k \<noteq> vm_lock_key i"
  shows "cache_get n (w_cache w') k = cache_get n (w_cache w) k"
  using assms
  by (auto simp: release_task_lock_def swallow_def cache_act_def ret_def case_prod_beta release_vm_lock_get split: if_splits)

lemma vm_uuids_ok_filter: "vm_uuids_ok vms \<Longrightarrow> vm_uuids_ok (filter P vms)"
  unfolding vm_uuids_ok_def using conjunct1 [OF distinct_map_filter_filter] by blast

lemma settled_simps [simp]:
  "w_cache (settled env hid resp t w) = w_cache w" "w_now (settled env hid resp t w) = w_now w"
  "w_cache_up (settled env hid resp t w) = w_cache_up w"
  "db_vms (w_db (settled env hid resp t w)) = db_vms (w_db w)"
  by (simp_all add: settled_def stamp_agent_version_def settle_task_events_def put_task_def Let_def)

lemma settled_hosts:
  "Task_kind t \<noteq> ''host_update_agent'' \<Longrightarrow> db_hosts (w_db (settled env hid resp t w)) = db_hosts (w_db w)"
  by (simp add: settled_def stamp_agent_version_def settle_task_events_def put_task_def Let_def)

text \<open>A task on a VM that exports no template: only the VM part and the lock remain.\<close>

lemma finish_vm_task:
  assumes "Task_target_type t = ''vm''" and "Task_kind t \<noteq> ''vm_export_template'' \<or> Task_status t \<noteq> ''succeeded''"
  shows "finish_task env st new hid resp t w
    = bind_act (in_savepoint (apply_response_state env st hid resp t)) (\<lambda>_. release_task_lock t) (settled env hid resp t w)"
proof -
  have "register_template env new resp t = ret ()"
    using assms(2) by (auto simp: register_template_def split: option.split)
  then show ?thesis using assms(1) by (simp add: finish_task_def bind_act_def write_db_def settled_def ret_def)
qed

lemma delete_response_effect:
  assumes found: "find_task (w_db w) (Response_id resp0) hid = Inr (Some t)"
    and strip: "strip_response_thumbnails resp0 = Inr resp"
    and kind: "Task_kind t = ''vm_delete''" "Task_target_type t = ''vm''" and ok: "Response_status resp0 = ''succeeded''"
    and v: "tget Vm_id (db_vms (w_db w)) (Task_target_id t) = Some v" "Vm_vm_uuid v = Some g" "g \<noteq> []"
    and up: "w_cache_up w" "vm_uuids_ok (db_vms (w_db w))"
    and run: "apply_response env st new hid resp0 w = (Inr (), w1)"
  shows "db_vms (w_db w1) = filter (\<lambda>r. Vm_id r \<noteq> Task_target_id t) (db_vms (w_db w))
    \<and> db_hosts (w_db w1) = db_hosts (w_db w)
    \<and> cache_get n (w_cache w1) (vm_tombstone_key hid g) = (if n < w_now w + seconds 900 then Some (CStamp (w_now w)) else None)"
proof -
  define t' where "t' = finished_task env (w_now w) resp t"
  let ?w0 = "settled env hid resp t' w"
  have t': "Task_status t' = ''succeeded''" "Task_kind t' = ''vm_delete''" "Task_target_type t' = ''vm''"
    "Task_target_id t' = Task_target_id t"
    using kind ok strip_status [OF strip] by (simp_all add: t'_def finished_fields)
  define c where "c = clear_vm_state (w_now w) (Task_target_id t) (mark_vm_deleted (w_now w) hid g (w_cache w))"
  define w2 where "w2 = ?w0\<lparr>w_db := drop_vms (\<lambda>r. Vm_id r = Task_target_id t) (w_db ?w0), w_cache := c\<rparr>"
  have vms: "db_vms (w_db w2) = filter (\<lambda>r. Vm_id r \<noteq> Task_target_id t) (db_vms (w_db w))"
    by (simp add: w2_def drop_vms_def Let_def)
  then have "in_savepoint (apply_response_state env st hid resp t') ?w0 = (Inr (), w2)"
    using v up t' vm_uuids_ok_filter [OF up(2)]
    by (simp add: in_savepoint_def apply_response_state_def finish_delete_def drop_task_vm_def bind_act_def read_db_def
        cache_act_def write_db_def check_vms_def w2_def c_def)
  then have rel: "release_task_lock t' w2 = (Inr (), w1)"
    using run apply_response_terminal [OF found strip] ok finish_vm_task [of t'] t'
    by (simp add: t'_def [symmetric] bind_act_def)
  have "vm_tombstone_key hid g \<noteq> vm_lock_key i" for i by simp
  from release_task_lock_get [OF rel this]
  have "cache_get n (w_cache w1) (vm_tombstone_key hid g) = (if n < w_now w + seconds 900 then Some (CStamp (w_now w)) else None)"
    using v(3) by (simp add: w2_def c_def clear_vm_state_def cache_get_del mark_vm_deleted_def cache_get_set VM_TOMBSTONE_TTL_def)
  then show ?thesis
    using release_task_lock_db [OF rel] vms settled_hosts [of t'] t' by (simp add: w2_def drop_vms_def Let_def)
qed

lemma map_filter_cong_key: "(\<And>x. x \<in> set xs \<Longrightarrow> k (f x) = k x) \<Longrightarrow> List.map_filter k (map f xs) = List.map_filter k xs"
  by (induction xs) (simp_all add: map_filter_simps split: option.split)

text \<open>Writing only the state of a row keeps the unique indexes.\<close>

lemma put_state:
  assumes "pk_unique Vm_id (db_vms db)" and "tget Vm_id (db_vms db) i = Some v"
  shows "db_vms (put_vm (v\<lparr>Vm_state := x\<rparr>) db) = tupd Vm_id i (\<lambda>r. r\<lparr>Vm_state := x\<rparr>) (db_vms db)"
    and "vm_uuids_ok (db_vms db) \<Longrightarrow> vm_uuids_ok (tupd Vm_id i (\<lambda>r. r\<lparr>Vm_state := x\<rparr>) (db_vms db))"
proof -
  have "r = v" if "r \<in> set (db_vms db)" "Vm_id r = i" for r
    using tget_unique [OF assms(1), of i r] assms(2) that by simp
  then show "db_vms (put_vm (v\<lparr>Vm_state := x\<rparr>) db) = tupd Vm_id i (\<lambda>r. r\<lparr>Vm_state := x\<rparr>) (db_vms db)"
    using tget_Some [OF assms(2)] by (auto simp: put_vm_def tupd_def)
  have "vm_uuid_key (if Vm_id r = i then r\<lparr>Vm_state := x\<rparr> else r) = vm_uuid_key r" for r
    by (simp add: vm_uuid_key_def split: option.split)
  then show "vm_uuids_ok (db_vms db) \<Longrightarrow> vm_uuids_ok (tupd Vm_id i (\<lambda>r. r\<lparr>Vm_state := x\<rparr>) (db_vms db))"
    by (simp add: vm_uuids_ok_def tupd_def map_filter_cong_key)
qed

lemma failed_action_kind:
  "map_of FAILED_STATE_REVERT k = Some x \<Longrightarrow> k \<notin> set [''vm_create'', ''vm_clone'', ''vm_delete'', ''vm_export_template'', ''host_update_agent'']"
  by (drule map_of_SomeD) (unfold FAILED_STATE_REVERT_def, fastforce)

text \<open>A report of one tombstoned GUID on a host without VMs.\<close>

lemma stale_report_runs:
  assumes "g \<noteq> []" and "g \<in> set (list_deleted_vm_uuids (w_now w) (w_cache w) ''h1'')" and "w_cache_up w"
    and "tget Host_id (db_hosts (w_db w)) ''h1'' = Some (sample_host ''h1'' None)" and "db_vms (w_db w) = []"
  shows "\<exists>w'. apply_vm_inventory cursor_env st fresh_id eid ''h1'' (sample_report g) w = (Inr (), w')"
  using assms by (simp add: pass_defs)

lemma terminal_returns:
  assumes "find_task (w_db w) (Response_id resp0) host_id = Inr (Some t)" and "strip_response_thumbnails resp0 = Inr resp"
    and "Response_status resp0 \<noteq> ''running''"
  shows "\<exists>w'. apply_response env st new host_id resp0 w = (Inr (), w')"
  using apply_response_terminal [OF assms(1,2)] assms(3) finish_task_returns by fastforce

lemma settled_vm_task:
  assumes "Task_kind t \<notin> set [''vm_export_template'', ''host_update_agent'']" and "Task_target_type t = ''vm''"
    and found: "find_task (w_db w) (Response_id resp0) hid = Inr (Some t)"
    and strip: "strip_response_thumbnails resp0 = Inr resp"
    and st: "Response_status resp0 \<noteq> ''running''"
    and run: "apply_response env st new hid resp0 w = (Inr (), w1)"
    and eff: "apply_response_state env st hid resp (finished_task env (w_now w) resp t)
      (settled env hid resp (finished_task env (w_now w) resp t) w) = (r, w2)"
  shows "db_vms (w_db w1) = (if isl r \<or> \<not> vm_uuids_ok (db_vms (w_db w2)) then db_vms (w_db w) else db_vms (w_db w2))
    \<and> db_tasks (w_db w1) = (if isl r \<or> \<not> vm_uuids_ok (db_vms (w_db w2)) then db_tasks (put_task (finished_task env (w_now w) resp t) (w_db w)) else db_tasks (w_db w2))
    \<and> ((\<forall>i. k \<noteq> vm_lock_key i) \<longrightarrow> cache_get n (w_cache w1) k = cache_get n (w_cache w2) k)"
proof -
  define t' where "t' = finished_task env (w_now w) resp t"
  define w3 where "w3 = snd (in_savepoint (apply_response_state env st hid resp t') (settled env hid resp t' w))"
  have sp: "in_savepoint (apply_response_state env st hid resp t') (settled env hid resp t' w) = (Inr (), w3)"
    unfolding w3_def using in_savepoint_returns by (metis snd_conv)
  have rel: "release_task_lock t' w3 = (Inr (), w1)"
    using run apply_response_terminal [OF found strip, of env st new] st finish_vm_task [of t' env st new hid resp w] assms(1,2) sp
    by (simp add: t'_def [symmetric] bind_act_def finished_fields [of env "w_now w" resp t, folded t'_def])
  have w3: "w3 = (if isl r \<or> \<not> vm_uuids_ok (db_vms (w_db w2)) then w2\<lparr>w_db := w_db (settled env hid resp t' w)\<rparr> else w2)"
    using eff by (auto simp: w3_def in_savepoint_def bind_act_def t'_def check_vms_def read_db_def split: sum.splits)
  have tasks: "db_tasks (w_db (settled env hid resp t' w)) = db_tasks (put_task t' (w_db w))"
    by (simp add: settled_def stamp_agent_version_def settle_task_events_def put_task_def Let_def)
  show ?thesis
    using release_task_lock_db [OF rel] release_task_lock_get [OF rel, of k n] by (simp add: w3 tasks t'_def [symmetric])
qed

lemma set_map_filter_key: "x \<in> set xs \<Longrightarrow> k x = Some z \<Longrightarrow> z \<in> set (List.map_filter k xs)"
  by (induction xs) (auto simp: map_filter_simps split: option.split)

lemma distinct_map_filter_key:
  "distinct (List.map_filter k xs) \<Longrightarrow> x \<in> set xs \<Longrightarrow> y \<in> set xs \<Longrightarrow> k x = Some z \<Longrightarrow> k y = Some z \<Longrightarrow> x = y"
  by (induction xs) (auto simp: map_filter_simps dest: set_map_filter_key split: option.splits)

section \<open>Properties\<close>

text \<open>C3: A deleted VM stays deleted: once the response to its delete has been processed, the next VM
  inventory of its host, if it is processed within fifteen minutes, does not bring a row with its GUID
  back, however stale it is.\<close>

theorem deleted_vm_stays_deleted:
  assumes ready: "inventory_ready w h fresh" and ttl: "0 < vm_state_ttl_seconds st"
    and found: "find_task (w_db w) (Response_id resp0) (Host_id h) = Inr (Some t)"
    and strip: "strip_response_thumbnails resp0 = Inr resp"
    and kind: "Task_kind t = ''vm_delete''" "Task_target_type t = ''vm''" and ok: "Response_status resp0 = ''succeeded''"
    and v: "tget Vm_id (db_vms (w_db w)) (Task_target_id t) = Some v" "Vm_vm_uuid v = Some g" "g \<noteq> []" "Vm_host_id v = Host_id h"
    and up: "w_cache_up w" "vm_uuids_ok (db_vms (w_db w))"
    and run: "apply_response env st new (Host_id h) resp0 w = (Inr (), w1)"
    and window: "n < w_now w + seconds 900"
    and inv: "apply_vm_inventory env st fresh event_id (Host_id h) payload (w1\<lparr>w_now := n\<rparr>) = (Inr (), w2)"
    and items: "payload_list ''vms'' payload = Inr items"
  shows "g \<notin> host_guids (w_db w1) (Host_id h) \<and> g \<notin> host_guids (w_db w2) (Host_id h)"
proof -
  let ?w = "w1\<lparr>w_now := n\<rparr>"
  have eff: "db_vms (w_db w1) = filter (\<lambda>r. Vm_id r \<noteq> Task_target_id t) (db_vms (w_db w))" "db_hosts (w_db w1) = db_hosts (w_db w)"
    and tomb: "cache_get n (w_cache w1) (vm_tombstone_key (Host_id h) g) \<noteq> None"
    using delete_response_effect [OF found strip kind ok v(1-3) up run, of n] window by simp_all
  have vm: "v \<in> set (db_vms (w_db w))" "Vm_id v = Task_target_id t" using tget_Some [OF v(1)] by simp_all
  have ids: "inventory_scope_host_ids (w_db w1) h = inventory_scope_host_ids (w_db w) h"
    by (simp add: inventory_scope_host_ids_def eff(2) split: option.split)
  have scope: "scope_vms (w_db w1) h = filter (\<lambda>r. Vm_id r \<noteq> Task_target_id t) (scope_vms (w_db w) h)"
    by (simp add: scope_vms_def ids eff(1) filter_filter conj_commute conj_left_commute)
  have "h \<in> set (db_hosts (w_db w))" using ready tget_Some by (fastforce simp: inventory_ready_def)
  then have v_scope: "v \<in> set (scope_vms (w_db w) h)"
    using vm(1) v(2,4) host_in_scope by (simp add: scope_vms_def)
  have distinct: "distinct (map Vm_vm_uuid (scope_vms (w_db w) h))" using ready by (simp add: inventory_ready_def)
  then have ready1: "inventory_ready ?w h fresh"
    using ready eff by (auto simp: inventory_ready_def scope distinct_map_filter ids)
  have "Vm_id u = Task_target_id t" if "u \<in> set (scope_vms (w_db w) h)" "Vm_vm_uuid u = Some g" for u
    using distinct v_scope that v(2) vm(2) by (metis distinct_map inj_onD)
  then have gone: "g \<notin> scope_guids (w_db w1) h"
    unfolding scope_guids_def guids_of_def ids eff(1) by (auto simp: scope_vms_def)
  moreover have "g \<in> set (list_deleted_vm_uuids n (w_cache w1) (Host_id h))"
    using tomb by (simp add: cache_scan_tombstones is_vm_deleted_def)
  ultimately have "g \<notin> host_guids (w_db w2) (Host_id h)"
    using conjunct1 [OF inventory_reconciles [OF inv items ready1 ttl]] by simp
  moreover have "g \<notin> host_guids (w_db w1) (Host_id h)"
    using gone host_in_scope [of h "w_db w1"] \<open>h \<in> set (db_hosts (w_db w))\<close> ids eff(2)
    by (auto simp: scope_guids_def host_guids_def guids_of_def)
  ultimately show ?thesis by blast
qed

theorem deleted_vm_stays_deleted_witness:
  "\<exists>w1 w2. apply_response cursor_env default_settings ''new'' ''h1'' (sample_response ''succeeded'')
      (task_world (sample_task ''t1'' ''vm_delete'' ''running'' ''v1'' 0) [sample_vm ''v1'' ''h1'']) = (Inr (), w1)
    \<and> apply_vm_inventory cursor_env default_settings fresh_id id ''h1'' (sample_report ''guid-v1'') (w1\<lparr>w_now := 2\<rparr>) = (Inr (), w2)
    \<and> ''guid-v1'' \<notin> host_guids (w_db w1) ''h1'' \<and> ''guid-v1'' \<notin> host_guids (w_db w2) ''h1''"
proof -
  let ?t = "sample_task ''t1'' ''vm_delete'' ''running'' ''v1'' 0" and ?h = "sample_host ''h1'' None"
  let ?w = "task_world ?t [sample_vm ''v1'' ''h1'']" and ?r = "sample_response ''succeeded''"
  have found: "find_task (w_db ?w) (Response_id ?r) (Host_id ?h) = Inr (Some ?t)" using find_sample_task by simp
  have strip: "strip_response_thumbnails ?r = Inr ?r" by simp
  obtain w1 where run: "apply_response cursor_env default_settings ''new'' (Host_id ?h) ?r ?w = (Inr (), w1)"
    using terminal_returns [OF found strip, of cursor_env default_settings "''new''"] by auto
  have eff: "db_vms (w_db w1) = [] \<and> db_hosts (w_db w1) = [?h]
      \<and> cache_get 2 (w_cache w1) (vm_tombstone_key ''h1'' ''guid-v1'') = Some (CStamp 1)"
    using delete_response_effect [OF found strip _ _ _ _ _ _ _ _ run, of "sample_vm ''v1'' ''h1''" "''guid-v1''" 2]
    by (simp add: vm_uuids_ok_single seconds_def)
  have up: "w_cache_up w1"
    using run apply_response_terminal [OF found strip, of cursor_env default_settings "''new''"]
      finish_task_returns [of cursor_env "''h1''" ?r "finished_task cursor_env (w_now ?w) ?r ?t" ?w default_settings "''new''"]
    by (auto simp: keeps_tasks_def release_task_lock_def swallow_def cache_act_def ret_def case_prod_beta split: if_splits)
  have tomb: "''guid-v1'' \<in> set (list_deleted_vm_uuids 2 (w_cache w1) ''h1'')"
    using eff by (simp add: cache_scan_tombstones is_vm_deleted_def)
  obtain w2 where inv: "apply_vm_inventory cursor_env default_settings fresh_id id (Host_id ?h) (sample_report ''guid-v1'') (w1\<lparr>w_now := 2\<rparr>) = (Inr (), w2)"
    using stale_report_runs [of "''guid-v1''" "w1\<lparr>w_now := 2\<rparr>" default_settings id] eff tomb up by auto
  have ready: "inventory_ready ?w ?h fresh_id"
    using fresh_id_inj by (auto simp: inventory_ready_def pk_unique_def fresh_id_def scope_vms_def inventory_scope_host_ids_def)
  show ?thesis
    using run inv deleted_vm_stays_deleted [OF ready _ found strip _ _ _ _ _ _ _ _ _ run _ inv sample_payload, of "sample_vm ''v1'' ''h1''" "''guid-v1''"]
    by (simp add: vm_uuids_ok_single seconds_def)
qed

text \<open>C14: A power action that fails is undone in what the interface shows: the row that still carries the
  transitional state of the action gets the state it reverts to, the overlay shows the same for its
  time to live, and no other column and no other VM changes.\<close>

theorem failed_action_restores_state:
  assumes found: "find_task (w_db w) (Response_id resp0) host_id = Inr (Some t)"
    and strip: "strip_response_thumbnails resp0 = Inr resp"
    and failed: "Response_status resp0 \<notin> set [''succeeded'', ''running'']"
    and kind: "map_of TRANSITIONAL_STATE (Task_kind t) = Some (Vm_state v)" "map_of FAILED_STATE_REVERT (Task_kind t) = Some revert"
      "Task_target_type t = ''vm''"
    and vm: "tget Vm_id (db_vms (w_db w)) (Task_target_id t) = Some v"
    and ok: "w_cache_up w" "pk_unique Vm_id (db_vms (w_db w))" "vm_uuids_ok (db_vms (w_db w))"
    and run: "apply_response env st new host_id resp0 w = (Inr (), w')"
  shows "db_vms (w_db w') = tupd Vm_id (Task_target_id t) (\<lambda>r. r\<lparr>Vm_state := revert\<rparr>) (db_vms (w_db w))
    \<and> (n < w_now w + seconds (vm_state_ttl_seconds st) \<longrightarrow> get_vm_state n (w_cache w') (Task_target_id t) = Some revert)"
proof -
  define t' where "t' = finished_task env (w_now w) resp t"
  let ?w0 = "settled env host_id resp t' w"
  let ?w2 = "?w0\<lparr>w_db := put_vm (v\<lparr>Vm_state := revert\<rparr>) (w_db ?w0), w_cache := set_vm_state st (w_now w) (Task_target_id t) revert (w_cache w)\<rparr>"
  have kinds: "Task_kind t \<notin> set [''vm_create'', ''vm_clone'', ''vm_delete'', ''vm_export_template'', ''host_update_agent'']"
    using failed_action_kind [OF kind(2)] .
  have t': "Task_status t' = ''failed''" "Task_kind t' = Task_kind t" "Task_target_type t' = ''vm''" "Task_target_id t' = Task_target_id t"
    using kind(3) failed strip_status [OF strip] by (simp_all add: t'_def finished_fields)
  have "Vm_id v = Task_target_id t" using tget_Some [OF vm] by simp
  then have "apply_response_state env st host_id resp t' ?w0 = (Inr (), ?w2)"
    using t' kinds kind vm ok(1)
    by (simp add: apply_response_state_def revert_failed_def bind_act_def read_db_def write_db_def show_state_def cache_act_def)
  note eff = settled_vm_task [OF _ kind(3) found strip _ run this [unfolded t'_def]]
  have vms: "db_vms (w_db ?w2) = tupd Vm_id (Task_target_id t) (\<lambda>r. r\<lparr>Vm_state := revert\<rparr>) (db_vms (w_db w))"
    "vm_uuids_ok (db_vms (w_db ?w2))"
    using put_state [of "w_db ?w0" "Task_target_id t" v revert] ok vm by simp_all
  have "vm_state_key (Task_target_id t) \<noteq> vm_lock_key i" for i by simp
  then have "get_vm_state n (w_cache w') (Task_target_id t) = get_vm_state n (w_cache ?w2) (Task_target_id t)"
    unfolding get_vm_state_def using eff [of "vm_state_key (Task_target_id t)" n] kinds failed by simp
  moreover have "db_vms (w_db w') = db_vms (w_db ?w2)"
    using eff kinds failed vms(2) [folded t'_def] by (simp add: t'_def)
  ultimately show ?thesis
    using vms(1) by (simp add: get_vm_state_def set_vm_state_def cache_get_set)
qed

theorem failed_action_restores_state_witness:
  "\<exists>w'. apply_response cursor_env default_settings ''new'' ''h1'' (sample_response ''failed'')
      (task_world (sample_task ''t1'' ''vm_start'' ''running'' ''v1'' 0) [(sample_vm ''v1'' ''h1'')\<lparr>Vm_state := ''Starting''\<rparr>]) = (Inr (), w')
    \<and> db_vms (w_db w') = [sample_vm ''v1'' ''h1''] \<and> get_vm_state 2 (w_cache w') ''v1'' = Some ''Off''"
proof -
  let ?t = "sample_task ''t1'' ''vm_start'' ''running'' ''v1'' 0" and ?r = "sample_response ''failed''"
  let ?v = "(sample_vm ''v1'' ''h1'')\<lparr>Vm_state := ''Starting''\<rparr>" let ?w = "task_world ?t [?v]"
  have found: "find_task (w_db ?w) (Response_id ?r) ''h1'' = Inr (Some ?t)" using find_sample_task by simp
  have strip: "strip_response_thumbnails ?r = Inr ?r" by simp
  obtain w1 where run: "apply_response cursor_env default_settings ''new'' ''h1'' ?r ?w = (Inr (), w1)"
    using terminal_returns [OF found strip, of cursor_env default_settings "''new''"] by auto
  have "?v\<lparr>Vm_state := ''Off''\<rparr> = sample_vm ''v1'' ''h1''" by (simp add: sample_vm_def)
  then show ?thesis
    using run failed_action_restores_state [OF found strip _ _ _ _ _ _ _ _ run, of ?v "''Off''" 2]
    by (simp add: TRANSITIONAL_STATE_def FAILED_STATE_REVERT_def pk_unique_def vm_uuids_ok_single tupd_def seconds_def)
qed

text \<open>A create and the inventory race: when the agent's inventory with the new VM is processed before
  the response to the create, the placeholder cannot take the GUID any more. The whole update of the
  placeholder is rolled back, yet the task succeeds, so the placeholder stays without a GUID beside the
  real row, and its overlay shows the state of a VM that it is not.\<close>

theorem create_response_race:
  assumes found: "find_task (w_db w) (Response_id resp0) host_id = Inr (Some t)"
    and strip: "strip_response_thumbnails resp0 = Inr resp"
    and ok: "Response_status resp0 = ''succeeded''" and up: "w_cache_up w"
    and kind: "Task_kind t \<in> set [''vm_create'', ''vm_clone'']" "Task_target_type t = ''vm''"
    and p: "tget Vm_id (db_vms (w_db w)) (Task_target_id t) = Some p"
    and g: "Response_vm_id resp = Some g" "g \<noteq> []"
    and u: "u \<in> set (db_vms (w_db w))" "Vm_id u \<noteq> Vm_id p" "vm_uuid_key u = vm_uuid_key (p\<lparr>Vm_vm_uuid := Some g\<rparr>)"
    and run: "apply_response env st new host_id resp0 w = (Inr (), w')"
  shows "db_vms (w_db w') = db_vms (w_db w)
    \<and> map_option Task_status (tget Task_id (db_tasks (w_db w')) (Response_id resp0)) = Some ''succeeded''
    \<and> (n < w_now w + seconds (vm_state_ttl_seconds st) \<longrightarrow> get_vm_state n (w_cache w') (Task_target_id t) \<noteq> None)"
proof -
  define t' where "t' = finished_task env (w_now w) resp t"
  define state where "state = (if opt_truthy (Response_vm_state resp) then or_empty (Response_vm_state resp) else ''Off'')"
  let ?w0 = "settled env host_id resp t' w" and ?p = "p\<lparr>Vm_vm_uuid := Some g, Vm_state := state\<rparr>"
  let ?w2 = "?w0\<lparr>w_db := put_vm ?p (w_db ?w0), w_cache := set_vm_state st (w_now w) (Task_target_id t) state (w_cache w)\<rparr>"
  have t': "Task_status t' = ''succeeded''" "Task_kind t' = Task_kind t" "Task_target_type t' = ''vm''" "Task_target_id t' = Task_target_id t"
    using kind(2) ok strip_status [OF strip] by (simp_all add: t'_def finished_fields)
  have t: "t \<in> set (db_tasks (w_db w))" "Task_id t = Response_id resp0" using find_task_Some [OF found] by simp_all
  have pid: "p \<in> set (db_vms (w_db w))" "Vm_id p = Task_target_id t" using tget_Some [OF p] by simp_all
  have key: "vm_uuid_key ?p = vm_uuid_key u" "vm_uuid_key u \<noteq> None" using u(3) by (simp_all add: vm_uuid_key_def split: option.splits)
  have "?p \<in> set (db_vms (w_db ?w2))" "u \<in> set (db_vms (w_db ?w2))" "u \<noteq> ?p"
    using pid u(1,2) by (auto simp: put_vm_def tupd_def)
  then have clash: "\<not> vm_uuids_ok (db_vms (w_db ?w2))"
    using distinct_map_filter_key [of vm_uuid_key "db_vms (w_db ?w2)" u ?p] key by (auto simp: vm_uuids_ok_def)
  then have "apply_response_state env st host_id resp t' ?w0 = (Inl IntegrityError, ?w2)"
    using t' kind p pid up g
    by (simp add: apply_response_state_def finish_create_def bind_act_def read_db_def write_db_def show_state_def cache_act_def
        state_def check_vms_def Let_def)
  note eff = settled_vm_task [OF _ kind(2) found strip _ run this [unfolded t'_def]]
  have kinds: "Task_kind t \<notin> set [''vm_export_template'', ''host_update_agent'']" using kind(1) by auto
  have "vm_state_key (Task_target_id t) \<noteq> vm_lock_key i" for i by simp
  then have "get_vm_state n (w_cache w') (Task_target_id t) = get_vm_state n (w_cache ?w2) (Task_target_id t)"
    unfolding get_vm_state_def using eff [of "vm_state_key (Task_target_id t)" n] kinds ok by simp
  moreover have "db_vms (w_db w') = db_vms (w_db w) \<and> db_tasks (w_db w') = db_tasks (put_task t' (w_db w))"
    using eff kinds ok by (simp add: t'_def)
  ultimately show ?thesis
    using t t'(1) by (simp add: get_vm_state_def set_vm_state_def cache_get_set put_task_def t'_def finished_fields(1) tget_put rev_image_eqI)
qed

theorem create_response_race_witness:
  "\<exists>w'. apply_response cursor_env default_settings ''new'' ''h1''
      ((sample_response ''succeeded'')\<lparr>Response_vm_id := Some ''guid-v2''\<rparr>)
      (task_world (sample_task ''t1'' ''vm_create'' ''running'' ''v1'' 0)
        [(sample_vm ''v1'' ''h1'')\<lparr>Vm_vm_uuid := None\<rparr>, sample_vm ''v2'' ''h1'']) = (Inr (), w')
    \<and> db_vms (w_db w') = [(sample_vm ''v1'' ''h1'')\<lparr>Vm_vm_uuid := None\<rparr>, sample_vm ''v2'' ''h1'']"
proof -
  let ?t = "sample_task ''t1'' ''vm_create'' ''running'' ''v1'' 0" and ?p = "(sample_vm ''v1'' ''h1'')\<lparr>Vm_vm_uuid := None\<rparr>"
  let ?r = "(sample_response ''succeeded'')\<lparr>Response_vm_id := Some ''guid-v2''\<rparr>"
  let ?w = "task_world ?t [?p, sample_vm ''v2'' ''h1'']"
  have found: "find_task (w_db ?w) (Response_id ?r) ''h1'' = Inr (Some ?t)" using find_sample_task by simp
  have strip: "strip_response_thumbnails ?r = Inr ?r" by (simp add: sample_response_def strip_response_thumbnails_def)
  obtain w1 where run: "apply_response cursor_env default_settings ''new'' ''h1'' ?r ?w = (Inr (), w1)"
    using terminal_returns [OF found strip, of cursor_env default_settings "''new''"] by auto
  have "vm_uuid_key (sample_vm ''v2'' ''h1'') = vm_uuid_key (?p\<lparr>Vm_vm_uuid := Some ''guid-v2''\<rparr>)"
    by (simp add: vm_uuid_key_def sample_vm_def)
  then show ?thesis
    using run create_response_race [OF found strip _ _ _ _ _ _ _ _ _ _ run, of ?p "''guid-v2''" "sample_vm ''v2'' ''h1''" 0] by simp
qed

end
