(* ===== verification/Worker.thy ===== *)
theory Worker
  imports Responses
begin

text \<open>
  The worker process: \<^verbatim>\<open>app/worker/consumers.py\<close> (the dispatch of one message) and
  \<^verbatim>\<open>app/worker/main.py\<close> (the consumers of every host, the sweepers, the watchdogs). Every loop of the
  process is one of its passes here; what the broker answers (whether a channel opens, whether the
  queues can be consumed, how many messages wait) is an argument of the pass that asks. A message body
  is the JSON value it decodes to, or \<open>None\<close>; the validation of a response by its schema is the
  parameter \<open>validate\<close>. Times of the monotonic clock are arguments.
\<close>

section \<open>Messages\<close>

text \<open>The ids drawn while a message is handled: for rows by position, for audit events by row, for a template.\<close>

record draws =
  row_id :: "nat \<Rightarrow> ident"
  event_id :: "ident \<Rightarrow> ident"
  new_id :: ident

definition handle_message ::
  "pyenv \<Rightarrow> settings \<Rightarrow> (json \<Rightarrow> agent_response res) \<Rightarrow> draws \<Rightarrow> ident \<Rightarrow> queue_kind \<Rightarrow> json option \<Rightarrow> unit act"
where
  "handle_message env st validate d host_id kind body =
     (case body of
        None \<Rightarrow> ret ()
      | Some payload \<Rightarrow> session_scope (with_now (\<lambda>now.
          case kind of
            RESPONSE \<Rightarrow> bind_act (pure_act (validate payload)) (\<lambda>resp. apply_response env st (new_id d) host_id resp)
          | AGENT_STATUS \<Rightarrow> lift_res (apply_agent_status env now host_id payload)
          | VM_INVENTORY \<Rightarrow> apply_vm_inventory env st (row_id d) (event_id d) host_id payload
          | HOST_INVENTORY \<Rightarrow> lift_res (apply_host_inventory env host_id payload)
          | TEMPLATE_INVENTORY \<Rightarrow> lift_res (apply_template_inventory env (row_id d) host_id payload)
          | ISO_INVENTORY \<Rightarrow> lift_res (apply_iso_inventory (row_id d) host_id payload)
          | HOST_METRICS \<Rightarrow> lift_res (apply_host_metrics env st now host_id payload)
          | VM_METRICS \<Rightarrow> lift_res (apply_vm_metrics env st now host_id payload)
          | REQUEST \<Rightarrow> ret ())))"

section \<open>Sweepers\<close>

definition overdue_tasks :: "settings \<Rightarrow> instant \<Rightarrow> database \<Rightarrow> task list" where
  "overdue_tasks st now db =
     filter (\<lambda>t. Task_created_at t < now - seconds (task_timeout_seconds st (Some (Task_kind t))))
       (filter (\<lambda>t. Task_status t \<notin> set TERMINAL_TASK_STATUSES
           \<and> Task_created_at t < now - seconds (task_timeout_seconds_default st)) (db_tasks db))"

definition timed_out :: "instant \<Rightarrow> task \<Rightarrow> task" where
  "timed_out now t = t\<lparr>Task_status := ''timeout'', Task_finished_at := Some now,
     Task_error := Some ''Agent did not respond in time''\<rparr>"

definition time_out :: "instant \<Rightarrow> task list \<Rightarrow> database \<Rightarrow> database" where
  "time_out now stale db =
     settle_task_events (map Task_id stale) ''timeout'' (Some ''Agent did not respond in time'')
       (db\<lparr>db_tasks := tupd_where (\<lambda>t. Task_id t \<in> Task_id ` set stale) (timed_out now) (db_tasks db)\<rparr>)"

definition free_locks :: "task list \<Rightarrow> unit act" where
  "free_locks stale = forA (filter (\<lambda>t. Task_target_type t = ''vm'') stale)
     (\<lambda>t. cache_act (\<lambda>now c. ((), snd (release_vm_lock now (Task_target_id t) (Some (Task_id t)) c))))"

definition orphan_placeholder :: "database \<Rightarrow> vm \<Rightarrow> bool" where
  "orphan_placeholder db v \<longleftrightarrow> Vm_vm_uuid v = None
     \<and> list_ex (\<lambda>t. Task_target_id t = Vm_id v \<and> Task_kind t \<in> set [''vm_create'', ''vm_clone'']
         \<and> Task_status t \<in> set [''timeout'', ''failed'']) (db_tasks db)"

definition sweep_stale_tasks :: "settings \<Rightarrow> unit act" where
  "sweep_stale_tasks st = with_now (\<lambda>now. session_scope (
     bind_act (read_db (\<lambda>db. Inr (overdue_tasks st now db))) (\<lambda>stale.
     bind_act (if stale = [] then ret ()
               else bind_act (write_db (time_out now stale)) (\<lambda>_. free_locks stale)) (\<lambda>_.
       write_db (\<lambda>db. drop_vms (orphan_placeholder db) db)))))"

definition sweep_metrics :: "settings \<Rightarrow> unit act" where
  "sweep_metrics st = with_now (\<lambda>now. session_scope (write_db (\<lambda>db.
     db\<lparr>db_host_metrics := filter (\<lambda>m. \<not> HostMetric_ts m < now - seconds (metrics_retention_seconds st)) (db_host_metrics db),
        db_vm_metrics := filter (\<lambda>m. \<not> VmMetric_ts m < now - seconds (metrics_retention_seconds st)) (db_vm_metrics db)\<rparr>)))"

definition sweep_audit :: "settings \<Rightarrow> unit act" where
  "sweep_audit st = (if audit_retention_days st \<le> 0 then ret ()
     else with_now (\<lambda>now. session_scope (write_db (\<lambda>db. snd (prune_events now (audit_retention_days st) db)))))"

section \<open>Consumers\<close>

definition RABBITMQ_MAX_DOWNTIME_SECONDS :: int where
  "RABBITMQ_MAX_DOWNTIME_SECONDS = 120"

definition CONSUMER_ZOMBIE_THRESHOLD :: int where
  "CONSUMER_ZOMBIE_THRESHOLD = 600"

definition HOST_CONSUMER_SILENCE_THRESHOLD :: int where
  "HOST_CONSUMER_SILENCE_THRESHOLD = 300"

text \<open>\<open>wk_channels\<close> is \<^verbatim>\<open>host_channels\<close>, with each channel's \<^verbatim>\<open>is_closed\<close>; \<open>wk_host_seen\<close> is
  \<^verbatim>\<open>_host_last_message_at\<close>.\<close>

record worker =
  wk_channels :: "(string \<times> bool) list"
  wk_host_seen :: "(string \<times> instant) list"
  wk_last_seen :: instant
  wk_healthy :: bool
  wk_lost_at :: "instant option"

text \<open>What the broker does with a subscription: opening the channel may fail, which is outside the
  \<^verbatim>\<open>try\<close>; setting it up may fail, which is inside.\<close>

datatype channel_answer = ChannelRefused | SetupFailed | Consuming

definition subscribe_host ::
  "(string \<Rightarrow> channel_answer) \<Rightarrow> instant \<Rightarrow> string \<Rightarrow> worker \<times> world \<Rightarrow> bool res \<times> worker \<times> world"
where
  "subscribe_host broker clock short_id s =
     (case broker short_id of
        ChannelRefused \<Rightarrow> (Inl BrokerError, s)
      | SetupFailed \<Rightarrow> (Inr False, s)
      | Consuming \<Rightarrow> (case declare_host_queues short_id (snd s) of
            (Inl _, w) \<Rightarrow> (Inr False, fst s, w)
          | (Inr _, w) \<Rightarrow> (Inr True, (fst s)\<lparr>wk_host_seen := AList.update short_id clock (wk_host_seen (fst s)),
              wk_channels := AList.update short_id False (wk_channels (fst s))\<rparr>, w)))"

definition unsubscribe_host :: "string \<Rightarrow> worker \<Rightarrow> worker" where
  "unsubscribe_host short_id wk = wk\<lparr>wk_host_seen := AList.delete short_id (wk_host_seen wk),
     wk_channels := AList.delete short_id (wk_channels wk)\<rparr>"

fun subscribe_all ::
  "(string \<Rightarrow> channel_answer) \<Rightarrow> instant \<Rightarrow> string list \<Rightarrow> worker \<times> world \<Rightarrow> unit res \<times> worker \<times> world"
where
  "subscribe_all broker clock [] s = (Inr (), s)"
| "subscribe_all broker clock (h # hs) s = (case subscribe_host broker clock h s of
     (Inl e, s') \<Rightarrow> (Inl e, s')
   | (Inr _, s') \<Rightarrow> subscribe_all broker clock hs s')"

definition known_hosts :: "world \<Rightarrow> string list" where
  "known_hosts w = map Host_short_id (db_hosts (w_db w))"

definition refresh_subscriptions ::
  "(string \<Rightarrow> channel_answer) \<Rightarrow> instant \<Rightarrow> worker \<times> world \<Rightarrow> unit res \<times> worker \<times> world"
where
  "refresh_subscriptions broker clock s =
     (let known = known_hosts (snd s);
          wk = fold unsubscribe_host (filter (\<lambda>h. h \<notin> set known) (map fst (wk_channels (fst s)))) (fst s);
          pending = filter (\<lambda>h. h \<notin> fst ` set (wk_channels wk)) known
      in subscribe_all broker clock pending (wk, snd s))"

section \<open>Watchdogs\<close>

definition note_message :: "instant \<Rightarrow> string \<Rightarrow> worker \<Rightarrow> worker" where
  "note_message clock short_id wk = wk\<lparr>wk_last_seen := clock, wk_host_seen := AList.update short_id clock (wk_host_seen wk)\<rparr>"

definition on_connection_close :: "instant \<Rightarrow> worker \<Rightarrow> worker" where
  "on_connection_close clock wk = wk\<lparr>wk_healthy := False,
     wk_lost_at := (case wk_lost_at wk of None \<Rightarrow> Some clock | Some t \<Rightarrow> Some t)\<rparr>"

definition on_connection_reconnect :: "worker \<Rightarrow> worker" where
  "on_connection_reconnect wk = wk\<lparr>wk_healthy := True, wk_lost_at := None\<rparr>"

text \<open>The two conditions under which the process exits to be restarted.\<close>

definition connection_lost_fatal :: "instant \<Rightarrow> worker \<Rightarrow> bool" where
  "connection_lost_fatal clock wk \<longleftrightarrow> \<not> wk_healthy wk
     \<and> (case wk_lost_at wk of None \<Rightarrow> False | Some t \<Rightarrow> seconds RABBITMQ_MAX_DOWNTIME_SECONDS \<le> clock - t)"

definition consumer_zombie :: "instant \<Rightarrow> worker \<Rightarrow> bool" where
  "consumer_zombie clock wk \<longleftrightarrow> wk_channels wk \<noteq> [] \<and> seconds CONSUMER_ZOMBIE_THRESHOLD \<le> clock - wk_last_seen wk"

text \<open>\<open>probe\<close> is the backlog of the response queue, \<open>None\<close> when the declaration raises.\<close>

definition consumer_stuck :: "(string \<Rightarrow> nat option) \<Rightarrow> instant \<Rightarrow> worker \<Rightarrow> string \<times> bool \<Rightarrow> bool" where
  "consumer_stuck probe clock wk c \<longleftrightarrow>
     seconds HOST_CONSUMER_SILENCE_THRESHOLD
       \<le> clock - (case map_of (wk_host_seen wk) (fst c) of None \<Rightarrow> clock | Some t \<Rightarrow> t)
     \<and> (snd c \<or> (case probe (fst c) of None \<Rightarrow> True | Some n \<Rightarrow> 0 < n))"

definition check_host_consumers :: "(string \<Rightarrow> nat option) \<Rightarrow> instant \<Rightarrow> worker \<Rightarrow> worker" where
  "check_host_consumers probe clock wk =
     fold (\<lambda>c wk. if consumer_stuck probe clock wk c then unsubscribe_host (fst c) wk else wk) (wk_channels wk) wk"

section \<open>The process\<close>

text \<open>One event of the process, on its own state and the world; exceptions end in a log line.\<close>

inductive worker_step :: "pyenv \<Rightarrow> settings \<Rightarrow> (json \<Rightarrow> agent_response res) \<Rightarrow> worker \<times> world \<Rightarrow> worker \<times> world \<Rightarrow> bool"
  for env st validate
where
  wk_message: "h \<in> set (db_hosts (w_db w)) \<Longrightarrow>
     worker_step env st validate (wk, w) (note_message clock (Host_short_id h) wk,
       snd (handle_message env st validate d (Host_id h) kind body w))"
| wk_timeouts: "worker_step env st validate (wk, w) (wk, snd (sweep_stale_tasks st w))"
| wk_metrics: "worker_step env st validate (wk, w) (wk, snd (sweep_metrics st w))"
| wk_audit: "worker_step env st validate (wk, w) (wk, snd (sweep_audit st w))"
| wk_refresh: "worker_step env st validate s (snd (refresh_subscriptions broker clock s))"
| wk_check: "worker_step env st validate (wk, w) (check_host_consumers probe clock wk, w)"
| wk_close: "worker_step env st validate (wk, w) (on_connection_close clock wk, w)"
| wk_reconnect: "worker_step env st validate (wk, w) (on_connection_reconnect wk, w)"
| wk_channel: "worker_step env st validate (wk, w)
     (wk\<lparr>wk_channels := map (\<lambda>c. if fst c = h then (h, True) else c) (wk_channels wk)\<rparr>, w)"
| wk_time: "now \<ge> w_now w \<Longrightarrow> worker_step env st validate (wk, w) (wk, w\<lparr>w_now := now\<rparr>)"

section \<open>Lemmas\<close>

subsection \<open>Tasks only advance\<close>

text \<open>Between two worlds no task appears or disappears, and a finished one stays finished.\<close>

definition tasks_advance :: "world \<Rightarrow> world \<Rightarrow> bool" where
  "tasks_advance w w' \<longleftrightarrow> (pk_unique Task_id (db_tasks (w_db w)) \<longrightarrow>
     list_all2 (\<lambda>t t'. Task_id t' = Task_id t \<and>
       (Task_status t \<in> set TERMINAL_TASK_STATUSES \<longrightarrow> Task_status t' \<in> set TERMINAL_TASK_STATUSES))
       (db_tasks (w_db w)) (db_tasks (w_db w')))"

lemma list_all2_map_eq: "list_all2 (\<lambda>x y. f y = f x \<and> P x y) xs ys \<Longrightarrow> map f ys = map f xs"
  by (induction rule: list_all2_induct) simp_all

lemma tasks_advance_same: "db_tasks (w_db w') = db_tasks (w_db w) \<Longrightarrow> tasks_advance w w'"
  by (simp add: tasks_advance_def list_all2_refl)

lemma tasks_advance_trans:
  assumes "tasks_advance w w1" and "tasks_advance w1 w2"
  shows "tasks_advance w w2"
  unfolding tasks_advance_def
proof
  assume pk: "pk_unique Task_id (db_tasks (w_db w))"
  note step = assms(1) [unfolded tasks_advance_def, rule_format, OF pk]
  have "pk_unique Task_id (db_tasks (w_db w1))"
    using pk list_all2_map_eq [OF step] by (simp add: pk_unique_def)
  from list_all2_trans [OF _ step assms(2) [unfolded tasks_advance_def, rule_format, OF this]]
  show "list_all2 (\<lambda>t t'. Task_id t' = Task_id t \<and>
      (Task_status t \<in> set TERMINAL_TASK_STATUSES \<longrightarrow> Task_status t' \<in> set TERMINAL_TASK_STATUSES))
      (db_tasks (w_db w)) (db_tasks (w_db w2))"
    by auto
qed

lemma advance_put:
  assumes "find_task (w_db w) i hid = Inr (Some t)" and "Task_id t' = Task_id t"
    and "Task_status t \<in> set TERMINAL_TASK_STATUSES \<Longrightarrow> Task_status t' \<in> set TERMINAL_TASK_STATUSES"
    and "db_tasks (w_db w') = db_tasks (put_task t' (w_db w))"
  shows "tasks_advance w w'"
proof -
  have "r = t" if "pk_unique Task_id (db_tasks (w_db w))" "r \<in> set (db_tasks (w_db w))" "Task_id r = Task_id t" for r
    using that find_task_Some [OF assms(1)] by (metis inj_onD distinct_map pk_unique_def)
  then show ?thesis
    using assms(2-4) by (auto simp: tasks_advance_def put_task_def tupd_def list_all2_map2 list_all2_same)
qed

text \<open>What a response does to tasks and events: nothing, progress on an open task, or an end.\<close>

lemma response_cases:
  assumes run: "apply_response env st new hid resp w = (r, w')"
  obtains (same) "w_db w' = w_db w"
  | (progress) t resp' where "find_task (w_db w) (Response_id resp) hid = Inr (Some t)" "Task_status t \<in> set [''queued'', ''running'']"
      "w_db w' = put_task (progress_task (w_now w) resp' t) (w_db w)"
  | (final) t resp' t' where "find_task (w_db w) (Response_id resp) hid = Inr (Some t)" "t' = finished_task env (w_now w) resp' t"
      "db_tasks (w_db w') = db_tasks (put_task t' (w_db w))"
      "db_audit_events (w_db w') = db_audit_events (settle_task_events [Task_id t'] (Task_status t') (Task_error t') (w_db w))"
proof -
  consider e where "find_task (w_db w) (Response_id resp) hid = Inl e" | "find_task (w_db w) (Response_id resp) hid = Inr None"
    | t e where "find_task (w_db w) (Response_id resp) hid = Inr (Some t)" "strip_response_thumbnails resp = Inl e"
    | t resp' where "find_task (w_db w) (Response_id resp) hid = Inr (Some t)" "strip_response_thumbnails resp = Inr resp'"
    by (metis sum.exhaust option.exhaust)
  then show ?thesis
  proof cases
    case (4 t resp')
    show ?thesis
    proof (cases "Response_status resp' = ''running'' \<and> Task_status t \<in> set [''queued'', ''running'']")
      case True
      then show ?thesis using run 4 by (intro progress [of t resp'])
        (auto simp: apply_response_def bind_act_def read_db_def pure_act_def with_now_def write_db_def)
    next
      case False
      let ?t = "finished_task env (w_now w) resp' t"
      have "finish_task env st new hid resp' ?t w = (r, w')"
        using False run 4 by (auto simp: apply_response_def bind_act_def read_db_def pure_act_def with_now_def)
      then obtain w1 where w1: "keeps_tasks (settled env hid resp' ?t w) w1" "release_task_lock ?t w1 = (Inr (), w')"
        using finish_task_returns [of env hid resp' ?t w st new] by auto
      show ?thesis using w1 release_task_lock_db [OF w1(2)] 4(1) by (intro final [of t ?t resp'])
        (simp_all add: keeps_tasks_def settled_def stamp_agent_version_def settle_task_events_def put_task_def Let_def)
    qed
  qed (use run same in \<open>auto simp: apply_response_def bind_act_def read_db_def pure_act_def ret_def\<close>)
qed

lemma advance_response: "act_keeps tasks_advance (apply_response env st new hid resp)"
proof (rule act_keepsI)
  fix w r w'
  assume "apply_response env st new hid resp w = (r, w')"
  then show "tasks_advance w w'"
  proof (cases rule: response_cases)
    case (progress t resp')
    then show ?thesis by (intro advance_put) (auto simp: progress_task_def TERMINAL_TASK_STATUSES_def)
  next
    case (final t resp' t')
    then show ?thesis by (intro advance_put) (auto simp: finished_fields TERMINAL_TASK_STATUSES_def)
  qed (simp add: tasks_advance_same)
qed

lemma subscribe_db: "w_db (snd (snd (subscribe_host broker clock h s))) = w_db (snd s)"
  by (auto simp: subscribe_host_def declare_host_queues_def split: channel_answer.split)

lemma subscribe_all_db: "w_db (snd (snd (subscribe_all broker clock hs s))) = w_db (snd s)"
proof (induction hs arbitrary: s)
  case (Cons h hs)
  then show ?case using subscribe_db [of broker clock h s] by (auto split: prod.split sum.split)
qed simp

lemma refresh_db: "w_db (snd (snd (refresh_subscriptions broker clock s))) = w_db (snd s)"
  by (simp add: refresh_subscriptions_def Let_def subscribe_all_db)

text \<open>The contract of a relation that every step of the worker keeps: it holds across changes that leave the tasks alone
  and add no pending audit event, across the handling of a response, and across a timeout. Everything else the worker
  does is of the first kind.\<close>

definition quiet :: "world \<Rightarrow> world \<Rightarrow> bool" where
  "quiet w w' \<longleftrightarrow> db_tasks (w_db w') = db_tasks (w_db w)
     \<and> (\<forall>e \<in> set (db_audit_events (w_db w')). AuditEvent_outcome e = ''pending'' \<longrightarrow> e \<in> set (db_audit_events (w_db w)))"

locale worker_frame = act_frame R for R +
  assumes quiet_keeps: "quiet w w' \<Longrightarrow> R w w'"
    and response_keeps: "act_keeps R (apply_response env st new hid resp)"
    and timeout_keeps: "R w (w\<lparr>w_db := time_out now stale (w_db w)\<rparr>)"
begin

lemma same_db: "w_db w' = w_db w \<Longrightarrow> R w w'"
  by (rule quiet_keeps) (simp add: quiet_def)

lemma cache_keeps: "act_keeps R (cache_act f)"
  by (intro keeps_cache same_db) simp

lemma write_keeps: "(\<And>w. quiet w (w\<lparr>w_db := f (w_db w)\<rparr>)) \<Longrightarrow> act_keeps R (write_db f)"
  by (intro keeps_write quiet_keeps)

lemma lift_keeps: "(\<And>w x db. f (w_db w) = Inr (x, db) \<Longrightarrow> quiet w (w\<lparr>w_db := db\<rparr>)) \<Longrightarrow> act_keeps R (lift_res f)"
  by (intro keeps_lift quiet_keeps)

lemma scope_keeps: "act_keeps R m \<Longrightarrow> act_keeps R (session_scope m)"
  by (intro act_keepsI) (auto simp: session_scope_def same_db split: prod.splits sum.splits dest: act_keepsD)

lemma handlers_keep:
  "act_keeps R (lift_res (apply_agent_status env now hid p))"
  "act_keeps R (lift_res (apply_host_inventory env hid p))"
  "act_keeps R (lift_res (apply_template_inventory env f hid p))"
  "act_keeps R (lift_res (apply_iso_inventory f hid p))"
  "act_keeps R (lift_res (apply_host_metrics env st now hid p))"
  "act_keeps R (lift_res (apply_vm_metrics env st now hid p))"
  by (rule lift_keeps, (auto simp: quiet_def apply_agent_status_def apply_host_inventory_def apply_template_inventory_def
      apply_iso_inventory_def apply_host_metrics_def apply_vm_metrics_def put_host_def sbind_eq_Inr Let_def split: option.splits)[])+

lemma flush_keeps: "act_keeps R (flush_vms rows)"
  unfolding flush_vms_def by (rule lift_keeps) (auto simp: quiet_def Let_def split: if_splits)

lemma record_keeps: "act_keeps R (lift_res (record_event i now u a x b None d))"
  by (rule lift_keeps) (auto simp: quiet_def record_event_def Let_def split: if_splits)

lemma remove_keeps: "act_keeps R (remove_unreported ev v)"
  unfolding remove_unreported_def
  by (intro keeps_rules record_keeps cache_keeps write_keeps) (simp_all add: quiet_def drop_vms_def Let_def)

lemma item_keeps: "act_keeps R (inventory_item env st h T p s)"
  unfolding inventory_item_def write_item_def case_prod_beta by (intro keeps_rules cache_keeps)

lemma thumbs_keep: "act_keeps R (store_thumbnails env p thumbs)"
  unfolding store_thumbnails_def by (intro keeps_rules write_keeps) (simp add: quiet_def upsert_thumbnails_def)

lemma inventory_keeps: "act_keeps R (apply_vm_inventory env st f ev hid p)"
  unfolding apply_vm_inventory_def Let_def forA_def
  by (intro keeps_rules cache_keeps flush_keeps remove_keeps item_keeps thumbs_keep)

lemma message_keeps: "act_keeps R (handle_message env st validate d hid kind body)"
  unfolding handle_message_def
  by (cases body; cases kind; simp; intro keeps_rules scope_keeps response_keeps inventory_keeps handlers_keep)

lemma timeouts_keep: "act_keeps R (sweep_stale_tasks st)"
  unfolding sweep_stale_tasks_def free_locks_def forA_def
  by (intro keeps_bind keeps_now keeps_if keeps_foldA keeps_simple scope_keeps cache_keeps)
    (rule keeps_write timeout_keeps write_keeps, simp add: quiet_def drop_vms_def Let_def timeout_keeps)+

lemma sweeps_keep: "act_keeps R (sweep_metrics st)" "act_keeps R (sweep_audit st)"
  unfolding sweep_metrics_def sweep_audit_def
  by (intro keeps_rules scope_keeps write_keeps; auto simp: quiet_def prune_events_def Let_def)+

lemma step_keeps: "worker_step env st validate s s' \<Longrightarrow> R (snd s) (snd s')"
proof (induction rule: worker_step.induct)
  case wk_message
  then show ?case using message_keeps by (simp add: act_keeps_def)
next
  case wk_timeouts
  then show ?case using timeouts_keep by (simp add: act_keeps_def)
qed (use sweeps_keep in \<open>simp_all add: act_keeps_def same_db refresh_db refl\<close>)

lemma steps_keep: "(worker_step env st validate)\<^sup>*\<^sup>* s s' \<Longrightarrow> R (snd s) (snd s')"
  by (induction rule: rtranclp_induct) (auto simp: refl intro: trans step_keeps)

end

interpretation task_order: worker_frame tasks_advance
proof
  show "tasks_advance w w" for w by (simp add: tasks_advance_same)
  show "tasks_advance w w1 \<Longrightarrow> tasks_advance w1 w2 \<Longrightarrow> tasks_advance w w2" for w w1 w2 by (rule tasks_advance_trans)
  show "quiet w w' \<Longrightarrow> tasks_advance w w'" for w w' by (simp add: tasks_advance_same quiet_def)
  show "act_keeps tasks_advance (apply_response env st new hid resp)" for env st new hid resp by (rule advance_response)
  show "tasks_advance w (w\<lparr>w_db := time_out now stale (w_db w)\<rparr>)" for w now stale
    by (auto simp: tasks_advance_def time_out_def settle_task_events_def tupd_where_def timed_out_def
        list_all2_map2 list_all2_same TERMINAL_TASK_STATUSES_def)
qed

subsection \<open>The timeout sweep\<close>

lemma overdue_iff: "0 \<le> task_timeout_seconds_default st \<Longrightarrow> t \<in> set (overdue_tasks st now db) \<longleftrightarrow> t \<in> set (db_tasks db)
    \<and> Task_status t \<notin> set TERMINAL_TASK_STATUSES \<and> Task_created_at t < now - seconds (task_timeout_seconds st (Some (Task_kind t)))"
  using task_timeout_ge_default [of st "Some (Task_kind t)"] by (auto simp: overdue_tasks_def seconds_def)

lemma free_locks_run:
  "w_cache_up w \<Longrightarrow> free_locks ts w = (Inr (), w\<lparr>w_cache := fold (\<lambda>t c. snd (release_vm_lock (w_now w) (Task_target_id t) (Some (Task_id t)) c))
      (filter (\<lambda>t. Task_target_type t = ''vm'') ts) (w_cache w)\<rparr>)"
  by (induction ts arbitrary: w) (simp_all add: free_locks_def forA_def ret_def bind_act_def cache_act_def)

definition release_all :: "instant \<Rightarrow> task list \<Rightarrow> store \<Rightarrow> store" where
  "release_all now = fold (\<lambda>t c. snd (release_vm_lock now (Task_target_id t) (Some (Task_id t)) c))"

lemma release_effect:
  assumes "locks_wf c"
  shows "lock_holder now (snd (release_vm_lock now v (Some i) c)) u
    = (if lock_holder now c v = Some i \<and> u = v then None else lock_holder now c u)"
proof (cases "lock_holder now c v = Some i")
  case True
  then show ?thesis using vm_locks.release_holder [OF assms True, of now u] by simp
next
  case False
  then show ?thesis using vm_locks.release_other [OF assms False] by simp
qed

lemma release_step:
  assumes "locks_wf c"
  shows "locks_wf (snd (release_vm_lock now v (Some i) c))" and "lock_holder now (snd (release_vm_lock now v (Some i) c)) v \<noteq> Some i"
    and "lock_holder now c u \<noteq> Some j \<Longrightarrow> lock_holder now (snd (release_vm_lock now v (Some i) c)) u \<noteq> Some j"
  using vm_locks.wf_release [OF assms] by (simp_all add: release_effect [OF assms])

lemma release_all_free: "locks_wf c \<Longrightarrow> lock_holder now c u \<noteq> Some j \<Longrightarrow> lock_holder now (release_all now ts c) u \<noteq> Some j"
  by (induction ts arbitrary: c) (simp_all add: release_all_def release_step)

lemma release_all_frees:
  "locks_wf c \<Longrightarrow> t \<in> set ts \<Longrightarrow> lock_holder now (release_all now ts c) (Task_target_id t) \<noteq> Some (Task_id t)"
proof (induction ts arbitrary: c)
  case (Cons x ts)
  let ?c = "snd (release_vm_lock now (Task_target_id x) (Some (Task_id x)) c)"
  have "lock_holder now (release_all now ts ?c) (Task_target_id t) \<noteq> Some (Task_id t)"
    using Cons release_step [OF Cons.prems(1)] release_all_free [of ?c now "Task_target_id t" "Task_id t" ts]
    by (cases "t = x") simp_all
  then show ?case by (simp add: release_all_def)
qed simp

lemma sweep_run:
  assumes "w_cache_up w"
  shows "sweep_stale_tasks st w = (Inr (), let stale = overdue_tasks st (w_now w) (w_db w);
      db = if stale = [] then w_db w else time_out (w_now w) stale (w_db w)
    in w\<lparr>w_db := drop_vms (orphan_placeholder db) db,
         w_cache := release_all (w_now w) (filter (\<lambda>t. Task_target_type t = ''vm'') stale) (w_cache w)\<rparr>)"
  using assms free_locks_run
  by (simp add: sweep_stale_tasks_def with_now_def session_scope_def bind_act_def read_db_def write_db_def ret_def release_all_def Let_def)

text \<open>The sweep is one transaction: when the cache is down and a VM task is overdue, nothing times out.\<close>

lemma sweep_needs_cache:
  assumes "\<not> w_cache_up w" and "t \<in> set (overdue_tasks st (w_now w) (w_db w))" and "Task_target_type t = ''vm''"
  shows "sweep_stale_tasks st w = (Inl CacheError, w)"
proof -
  have "filter (\<lambda>t. Task_target_type t = ''vm'') (overdue_tasks st (w_now w) (w_db w)) \<noteq> []"
    "overdue_tasks st (w_now w) (w_db w) \<noteq> []"
    using assms(2,3) by (auto simp: filter_empty_conv)
  then show ?thesis
    using assms(1) by (auto simp: sweep_stale_tasks_def with_now_def session_scope_def bind_act_def read_db_def write_db_def
        free_locks_def forA_def cache_act_def neq_Nil_conv)
qed

subsection \<open>Subscriptions\<close>

definition worker_inv :: "worker \<Rightarrow> bool" where
  "worker_inv wk \<longleftrightarrow> distinct (map fst (wk_channels wk)) \<and> (wk_healthy wk \<longleftrightarrow> wk_lost_at wk = None)
     \<and> set (map fst (wk_channels wk)) \<subseteq> set (map fst (wk_host_seen wk))"

definition worker_start :: "instant \<Rightarrow> worker" where
  "worker_start clock = \<lparr>wk_channels = [], wk_host_seen = [], wk_last_seen = clock, wk_healthy = True, wk_lost_at = None\<rparr>"

lemma inv_unsubscribe: "worker_inv wk \<Longrightarrow> worker_inv (unsubscribe_host h wk)"
  by (auto simp: worker_inv_def unsubscribe_host_def AList.delete_keys distinct_removeAll)

lemma inv_fold: "worker_inv wk \<Longrightarrow> (\<And>x wk. worker_inv wk \<Longrightarrow> worker_inv (f x wk)) \<Longrightarrow> worker_inv (fold f xs wk)"
  by (induction xs arbitrary: wk) simp_all

lemma inv_subscribe: "worker_inv (fst s) \<Longrightarrow> worker_inv (fst (snd (subscribe_host broker clock h s)))"
  by (auto simp: subscribe_host_def declare_host_queues_def worker_inv_def AList.distinct_update AList.dom_update
      split: channel_answer.split)

lemma inv_subscribe_all: "worker_inv (fst s) \<Longrightarrow> worker_inv (fst (snd (subscribe_all broker clock hs s)))"
proof (induction hs arbitrary: s)
  case (Cons h hs)
  have "worker_inv (fst (snd (subscribe_host broker clock h s)))" using inv_subscribe Cons.prems .
  then show ?case using Cons.IH by (auto split: prod.split sum.split)
qed simp

lemma inv_step: "worker_step env st validate s s' \<Longrightarrow> worker_inv (fst s) \<Longrightarrow> worker_inv (fst s')"
proof (induction rule: worker_step.induct)
  case (wk_message h w wk clock d kind body)
  then show ?case by (auto simp: worker_inv_def note_message_def AList.dom_update)
next
  case (wk_refresh s broker clock)
  then show ?case by (simp add: refresh_subscriptions_def Let_def inv_subscribe_all inv_fold inv_unsubscribe)
next
  case (wk_check wk w probe clock)
  then show ?case by (simp add: check_host_consumers_def inv_fold inv_unsubscribe)
next
  case (wk_close wk w clock)
  then show ?case by (auto simp: worker_inv_def on_connection_close_def split: option.split)
next
  case (wk_channel wk w h)
  have "map fst (map (\<lambda>c. if fst c = h then (h, True) else c) cs) = map fst cs" for cs :: "(string \<times> bool) list"
    by (induction cs) auto
  then show ?case using wk_channel unfolding worker_inv_def by (simp del: map_map set_map)
qed (auto simp: worker_inv_def on_connection_reconnect_def)

lemma inv_reachable: "(worker_step env st validate)\<^sup>*\<^sup>* (worker_start clock, w) s \<Longrightarrow> worker_inv (fst s)"
proof (induction rule: rtranclp_induct)
  case base
  show ?case by (simp add: worker_inv_def worker_start_def)
qed (rule inv_step)

lemma unsubscribe_channels: "wk_channels (unsubscribe_host h wk) = filter (\<lambda>c. fst c \<noteq> h) (wk_channels wk)"
  by (auto simp: unsubscribe_host_def AList.delete_eq case_prod_beta intro: filter_cong)

lemma unsubscribe_seen: "j \<noteq> h \<Longrightarrow> map_of (wk_host_seen (unsubscribe_host h wk)) j = map_of (wk_host_seen wk) j"
  by (simp add: unsubscribe_host_def AList.delete_conv')

lemma fold_unsubscribe: "wk_channels (fold unsubscribe_host hs wk) = filter (\<lambda>c. fst c \<notin> set hs) (wk_channels wk)"
  by (induction hs arbitrary: wk) (auto simp: unsubscribe_channels intro: filter_cong)

lemma stuck_cong:
  "map_of (wk_host_seen wk') (fst c) = map_of (wk_host_seen wk) (fst c) \<Longrightarrow> consumer_stuck probe clock wk' c = consumer_stuck probe clock wk c"
  by (simp add: consumer_stuck_def)

lemma check_fold:
  "distinct (map fst cs) \<Longrightarrow>
   wk_channels (fold (\<lambda>c wk. if consumer_stuck probe clock wk c then unsubscribe_host (fst c) wk else wk) cs wk)
     = filter (\<lambda>d. fst d \<notin> fst ` set (filter (consumer_stuck probe clock wk) cs)) (wk_channels wk)"
proof (induction cs arbitrary: wk)
  case (Cons c cs)
  define wk1 where "wk1 = (if consumer_stuck probe clock wk c then unsubscribe_host (fst c) wk else wk)"
  have "consumer_stuck probe clock wk1 d = consumer_stuck probe clock wk d" if "d \<in> set cs" for d
  proof (rule stuck_cong)
    show "map_of (wk_host_seen wk1) (fst d) = map_of (wk_host_seen wk) (fst d)"
    proof -
      have "fst d \<noteq> fst c" using Cons.prems that by (metis distinct.simps(2) imageI list.simps(9) set_map)
      then show ?thesis using unsubscribe_seen [of "fst d" "fst c" wk] by (simp add: wk1_def)
    qed
  qed
  then have "filter (consumer_stuck probe clock wk1) cs = filter (consumer_stuck probe clock wk) cs" by (rule filter_cong [OF refl])
  moreover have "wk_channels wk1 = (if consumer_stuck probe clock wk c then filter (\<lambda>d. fst d \<noteq> fst c) (wk_channels wk) else wk_channels wk)"
    by (simp add: wk1_def unsubscribe_channels)
  ultimately show ?case using Cons.IH [of wk1] Cons.prems by (auto simp: wk1_def [symmetric] intro!: filter_cong)
qed simp

lemma check_channels:
  assumes "distinct (map fst (wk_channels wk))"
  shows "wk_channels (check_host_consumers probe clock wk) = filter (\<lambda>c. \<not> consumer_stuck probe clock wk c) (wk_channels wk)"
proof -
  have "fst c \<in> fst ` set (filter (consumer_stuck probe clock wk) (wk_channels wk)) \<longleftrightarrow> consumer_stuck probe clock wk c"
    if "c \<in> set (wk_channels wk)" for c
    using assms that by (auto simp: distinct_map inj_on_def)
  then show ?thesis unfolding check_host_consumers_def check_fold [OF assms] by (intro filter_cong [OF refl]) blast
qed

lemma subscribe_all_channels:
  "w_broker_up (snd s) \<Longrightarrow> list_all (\<lambda>h. broker h \<noteq> ChannelRefused) hs \<Longrightarrow>
   fst (subscribe_all broker clock hs s) = Inr ()
   \<and> map_of (wk_channels (fst (snd (subscribe_all broker clock hs s)))) k
       = (if k \<in> set hs \<and> broker k = Consuming then Some False else map_of (wk_channels (fst s)) k)"
proof (induction hs arbitrary: s)
  case (Cons h hs)
  let ?s1 = "snd (subscribe_host broker clock h s)"
  have s1: "isl (fst (subscribe_host broker clock h s)) = False \<and> w_broker_up (snd ?s1)
    \<and> map_of (wk_channels (fst ?s1)) k = (if k = h \<and> broker k = Consuming then Some False else map_of (wk_channels (fst s)) k)"
    using Cons.prems by (cases "broker h") (auto simp: subscribe_host_def declare_host_queues_def AList.update_conv')
  then obtain b where "fst (subscribe_host broker clock h s) = Inr b" by (metis isl_def sum.exhaust)
  then have "subscribe_all broker clock (h # hs) s = subscribe_all broker clock hs ?s1" by (simp add: case_prod_beta)
  with s1 show ?case using Cons.IH [of ?s1] Cons.prems(2) by auto
qed simp

lemma map_of_filter_key: "map_of (filter (\<lambda>c. P (fst c)) xs) k = (if P k then map_of xs k else None)"
  by (induction xs) auto

lemma refresh_channels:
  assumes "w_broker_up (snd s)" and "list_all (\<lambda>h. broker h \<noteq> ChannelRefused) (known_hosts (snd s))"
  shows "fst (refresh_subscriptions broker clock s) = Inr ()"
    and "map_of (wk_channels (fst (snd (refresh_subscriptions broker clock s)))) k =
      (if k \<notin> set (known_hosts (snd s)) then None
       else if k \<in> fst ` set (wk_channels (fst s)) then map_of (wk_channels (fst s)) k
       else if broker k = Consuming then Some False else None)"
proof -
  let ?known = "known_hosts (snd s)"
  let ?wk = "fold unsubscribe_host (filter (\<lambda>h. h \<notin> set ?known) (map fst (wk_channels (fst s)))) (fst s)"
  have "wk_channels ?wk = filter (\<lambda>c. fst c \<in> set ?known) (wk_channels (fst s))"
    unfolding fold_unsubscribe by (rule filter_cong) auto
  then have ch: "map_of (wk_channels ?wk) j = (if j \<in> set ?known then map_of (wk_channels (fst s)) j else None)" for j
    by (simp add: map_of_filter_key [of "\<lambda>h. h \<in> set (known_hosts (snd s))"])
  have keys: "j \<in> fst ` set (wk_channels ?wk) \<longleftrightarrow> j \<in> set ?known \<and> j \<in> fst ` set (wk_channels (fst s))" for j
    using ch [of j] by (simp add: dom_map_of_conv_image_fst [symmetric] domIff)
  have "list_all (\<lambda>h. broker h \<noteq> ChannelRefused) (filter (\<lambda>h. h \<notin> fst ` set (wk_channels ?wk)) ?known)"
    using assms(2) by (simp add: list_all_iff)
  note sub = subscribe_all_channels [of "(?wk, snd s)", simplified, OF assms(1) this]
  show "fst (refresh_subscriptions broker clock s) = Inr ()"
    using sub by (simp add: refresh_subscriptions_def Let_def)
  show "map_of (wk_channels (fst (snd (refresh_subscriptions broker clock s)))) k =
      (if k \<notin> set (known_hosts (snd s)) then None
       else if k \<in> fst ` set (wk_channels (fst s)) then map_of (wk_channels (fst s)) k
       else if broker k = Consuming then Some False else None)"
    using sub [of clock k] keys [of k] by (simp add: refresh_subscriptions_def Let_def ch map_of_eq_None_iff)
qed

section \<open>Properties\<close>

text \<open>C6: The timeout sweep settles everything that is overdue. While the cache is up it always returns;
  afterwards exactly the unfinished tasks past the deadline of their kind have timed out, every other
  task is as it was, none of their audit events is pending, none of them holds the lock of its VM, and
  no placeholder row of a create or clone that failed or timed out is left.\<close>

theorem sweep_settles_overdue:
  assumes "w_cache_up w" and "locks_wf (w_cache w)" and "0 \<le> task_timeout_seconds_default st" and "pk_unique Task_id (db_tasks (w_db w))"
  shows "\<exists>w'. sweep_stale_tasks st w = (Inr (), w')
    \<and> db_tasks (w_db w') = map (\<lambda>t. if Task_status t \<notin> set TERMINAL_TASK_STATUSES
          \<and> Task_created_at t < w_now w - seconds (task_timeout_seconds st (Some (Task_kind t)))
          then timed_out (w_now w) t else t) (db_tasks (w_db w))
    \<and> list_all (\<lambda>t. list_all (\<lambda>e. AuditEvent_task_id e = Some (Task_id t) \<longrightarrow> AuditEvent_outcome e \<noteq> ''pending'') (db_audit_events (w_db w'))
          \<and> (Task_target_type t = ''vm'' \<longrightarrow> lock_holder (w_now w) (w_cache w') (Task_target_id t) \<noteq> Some (Task_id t)))
        (overdue_tasks st (w_now w) (w_db w))
    \<and> list_all (\<lambda>v. \<not> orphan_placeholder (w_db w') v) (db_vms (w_db w'))"
proof -
  let ?stale = "overdue_tasks st (w_now w) (w_db w)"
  define db where "db = (if ?stale = [] then w_db w else time_out (w_now w) ?stale (w_db w))"
  let ?w = "w\<lparr>w_db := drop_vms (orphan_placeholder db) db,
      w_cache := release_all (w_now w) (filter (\<lambda>t. Task_target_type t = ''vm'') ?stale) (w_cache w)\<rparr>"
  have run: "sweep_stale_tasks st w = (Inr (), ?w)" using sweep_run [OF assms(1)] by (simp add: Let_def db_def)
  have mem: "Task_id t \<in> Task_id ` set ?stale \<longleftrightarrow> t \<in> set ?stale" if "t \<in> set (db_tasks (w_db w))" for t
    using that assms(4) overdue_iff [OF assms(3)] by (auto simp: pk_unique_def distinct_map dest: inj_onD)
  have "db_tasks db = map (\<lambda>t. if t \<in> set ?stale then timed_out (w_now w) t else t) (db_tasks (w_db w))"
    using mem by (simp add: db_def time_out_def settle_task_events_def tupd_where_def map_idI)
  then have tasks: "db_tasks db = map (\<lambda>t. if Task_status t \<notin> set TERMINAL_TASK_STATUSES
      \<and> Task_created_at t < w_now w - seconds (task_timeout_seconds st (Some (Task_kind t)))
      then timed_out (w_now w) t else t) (db_tasks (w_db w))"
    using overdue_iff [OF assms(3)] by simp
  have events: "list_all (\<lambda>e. AuditEvent_task_id e = Some (Task_id t) \<longrightarrow> AuditEvent_outcome e \<noteq> ''pending'') (db_audit_events db)"
    if "t \<in> set ?stale" for t
    using that by (auto simp: db_def time_out_def settle_task_events_def tupd_where_def list_all_iff)
  have "lock_holder (w_now w) (w_cache ?w) (Task_target_id t) \<noteq> Some (Task_id t)" if "t \<in> set ?stale" "Task_target_type t = ''vm''" for t
    using release_all_frees [OF assms(2)] that by simp
  moreover have "list_all (\<lambda>v. \<not> orphan_placeholder (drop_vms (orphan_placeholder db) db) v) (db_vms (drop_vms (orphan_placeholder db) db))"
    by (simp add: drop_vms_def Let_def orphan_placeholder_def list_all_iff)
  ultimately show ?thesis
    using run tasks events by (intro exI [of _ ?w]) (simp add: list_all_iff drop_vms_def Let_def)
qed

theorem sweep_settles_overdue_witness:
  "\<exists>w'. sweep_stale_tasks default_settings ((task_world (sample_task ''t1'' ''vm_start'' ''running'' ''v1'' 0) [])\<lparr>w_now := 1000000000000\<rparr>) = (Inr (), w')
    \<and> map Task_status (db_tasks (w_db w')) = [''timeout'']"
  using sweep_settles_overdue [of "(task_world (sample_task ''t1'' ''vm_start'' ''running'' ''v1'' 0) [])\<lparr>w_now := 1000000000000\<rparr>" default_settings]
  by (auto simp: locks_wf_def pk_unique_def TERMINAL_TASK_STATUSES_def task_timeout_seconds_def LONG_TASK_TIMEOUTS_def seconds_def
      timed_out_def sample_task_def)

text \<open>C7: No message and no sweep reopens a finished task. Whatever sequence of messages (of any kind, from
  any host, however malformed), sweeps, reconnections and watchdog passes the worker goes through, a
  task that has a terminal status keeps a terminal status.\<close>

theorem finished_tasks_stay_finished:
  assumes steps: "(worker_step env st validate)\<^sup>*\<^sup>* (wk, w) (wk', w')" and pk: "pk_unique Task_id (db_tasks (w_db w))"
    and t: "tget Task_id (db_tasks (w_db w)) i = Some t" "Task_status t \<in> set TERMINAL_TASK_STATUSES"
  shows "\<exists>t'. tget Task_id (db_tasks (w_db w')) i = Some t' \<and> Task_status t' \<in> set TERMINAL_TASK_STATUSES"
proof -
  have l: "list_all2 (\<lambda>t t'. Task_id t' = Task_id t \<and>
      (Task_status t \<in> set TERMINAL_TASK_STATUSES \<longrightarrow> Task_status t' \<in> set TERMINAL_TASK_STATUSES)) (db_tasks (w_db w)) (db_tasks (w_db w'))"
    using task_order.steps_keep [OF steps] pk by (simp add: tasks_advance_def)
  show ?thesis using l t by (induction rule: list_all2_induct) (auto split: if_splits)
qed

theorem finished_tasks_stay_finished_witness:
  "\<exists>t'. tget Task_id (db_tasks (w_db (snd (sweep_stale_tasks default_settings
      (task_world (sample_task ''t1'' ''vm_start'' ''succeeded'' ''v1'' 0) []))))) ''t1'' = Some t' \<and> Task_status t' \<in> set TERMINAL_TASK_STATUSES"
proof -
  let ?w = "task_world (sample_task ''t1'' ''vm_start'' ''succeeded'' ''v1'' 0) []"
  have "(worker_step cursor_env default_settings (\<lambda>_. Inl TypeError))\<^sup>*\<^sup>* (worker_start 0, ?w) (worker_start 0, snd (sweep_stale_tasks default_settings ?w))"
    by (intro r_into_rtranclp wk_timeouts)
  from finished_tasks_stay_finished [OF this, of "''t1''"] show ?thesis
    by (simp add: pk_unique_def TERMINAL_TASK_STATUSES_def)
qed

text \<open>C8: Consumers that died silently come back. In any state the worker can reach, a watchdog pass followed
  by a subscription pass leaves every registered host whose queues the broker lets it consume with a
  channel: a fresh one if it had none or was found stuck, the one it had otherwise. A host whose setup
  fails does not keep the others from being subscribed, and a host that is gone is dropped.\<close>

theorem dead_consumers_recover:
  assumes reach: "(worker_step env st validate)\<^sup>*\<^sup>* (worker_start clock0, w0) (wk, w)" and up: "w_broker_up w"
    and opens: "list_all (\<lambda>h. broker h \<noteq> ChannelRefused) (known_hosts w)"
    and pass: "refresh_subscriptions broker clock' (check_host_consumers probe clock wk, w) = (r, wk', w')"
  shows "r = Inr () \<and> map_of (wk_channels wk') k =
      (if k \<notin> set (known_hosts w) then None
       else case map_of (wk_channels wk) k of
         Some dead \<Rightarrow> if consumer_stuck probe clock wk (k, dead) then (if broker k = Consuming then Some False else None)
                        else Some dead
       | None \<Rightarrow> if broker k = Consuming then Some False else None)"
proof -
  have d: "distinct (map fst (wk_channels wk))" using inv_reachable [OF reach] by (simp add: worker_inv_def)
  let ?wk = "check_host_consumers probe clock wk"
  have "map_of (filter P xs) k = (case map_of xs k of None \<Rightarrow> None | Some c \<Rightarrow> if P (k, c) then Some c else None)"
    if "distinct (map fst xs)" for P :: "string \<times> bool \<Rightarrow> bool" and xs
    using that by (induction xs) (auto split: option.split simp: map_of_eq_None_iff image_iff)
  then have ch: "map_of (wk_channels ?wk) k = (case map_of (wk_channels wk) k of None \<Rightarrow> None
      | Some c \<Rightarrow> if \<not> consumer_stuck probe clock wk (k, c) then Some c else None)"
    using check_channels [OF d] d by simp
  have "k \<in> fst ` set (wk_channels ?wk) \<longleftrightarrow> map_of (wk_channels ?wk) k \<noteq> None"
    by (metis map_of_eq_None_iff)
  then show ?thesis
    using refresh_channels [of "(?wk, w)" broker clock', simplified, OF up opens] ch pass
    by (auto split: option.splits if_splits)
qed

theorem dead_consumers_recover_witness:
  "map_of (wk_channels (fst (snd (refresh_subscriptions (\<lambda>_. Consuming) 5
      (check_host_consumers (\<lambda>_. None) 4 (worker_start 0), task_world (sample_task ''t1'' ''vm_start'' ''running'' ''v1'' 0) []))))) ''ab12'' = Some False"
proof -
  let ?w = "task_world (sample_task ''t1'' ''vm_start'' ''running'' ''v1'' 0) []"
  let ?p = "refresh_subscriptions (\<lambda>_. Consuming) 5 (check_host_consumers (\<lambda>_. None) 4 (worker_start 0), ?w)"
  have reach: "(worker_step cursor_env default_settings (\<lambda>_. Inl TypeError))\<^sup>*\<^sup>* (worker_start 0, ?w) (worker_start 0, ?w)" by simp
  have pass: "?p = (fst ?p, fst (snd ?p), snd (snd ?p))" by simp
  have "w_broker_up ?w" by (simp add: task_world_def bare_world_def)
  with dead_consumers_recover [OF reach _ _ pass, of "''ab12''"] show ?thesis
    by (simp add: known_hosts_def sample_host_def worker_start_def)
qed

end
