(* ===== verification/Agent_Store.thy ===== *)
theory Agent_Store
  imports Vms
begin

text \<open>
  \<^verbatim>\<open>app/services/agent_store.py\<close>: where the agent binaries are kept (a directory or a bucket), and the
  signed links under which a host fetches one without a session. \<open>w_files\<close> maps the place of an object,
  the resolved path or the bucket key, to its bytes. The digest \<^verbatim>\<open>hmac.new(secret, msg, sha256)\<close> is the
  parameter \<open>hmac\<close> and a presigned link of the S3 client the parameter \<open>presign\<close>; the directories
  have no symbolic links, and the root is absolute.
\<close>

section \<open>Links\<close>

text \<open>\<^verbatim>\<open>urllib.parse.quote(s, safe="")\<close>, and \<^verbatim>\<open>urlencode\<close> of pairs of texts.\<close>

definition url_safe :: "char \<Rightarrow> bool" where
  "url_safe c \<longleftrightarrow> is_letter c \<or> is_digit c \<or> c \<in> set ''_.-~''"

definition hex_digit :: "nat \<Rightarrow> char" where
  "hex_digit n = (if n < 10 then char_of (48 + n) else char_of (55 + n))"

definition quote_char :: "char \<Rightarrow> string" where
  "quote_char c = (if url_safe c then [c]
     else [CHR ''%'', hex_digit ((of_char c :: nat) div 16), hex_digit ((of_char c :: nat) mod 16)])"

definition url_quote :: "string \<Rightarrow> string" where
  "url_quote s = concat (map quote_char s)"

definition url_quote_plus :: "string \<Rightarrow> string" where
  "url_quote_plus s = concat (map (\<lambda>c. if c = CHR '' '' then ''+'' else quote_char c) s)"

definition urlencode :: "(string \<times> string) list \<Rightarrow> string" where
  "urlencode kvs = py_join ''&'' (map (\<lambda>(k, v). url_quote_plus k @ ''='' @ url_quote_plus v) kvs)"

section \<open>Signed links\<close>

type_synonym hmac_fn = "string \<Rightarrow> string \<Rightarrow> string"

definition object_key :: "ident \<Rightarrow> string \<Rightarrow> string" where
  "object_key binary_id filename = binary_id @ ''/'' @ filename"

text \<open>\<^verbatim>\<open>int(time.time())\<close>.\<close>

definition epoch :: "instant \<Rightarrow> int" where
  "epoch now = now div seconds 1"

definition download_message :: "ident \<Rightarrow> int \<Rightarrow> string" where
  "download_message binary_id expires = binary_id @ ''.'' @ int_str expires"

definition scope_message :: "string \<Rightarrow> int \<Rightarrow> string" where
  "scope_message scope expires = ''scope:'' @ scope @ ''.'' @ int_str expires"

definition download_mac :: "hmac_fn \<Rightarrow> settings \<Rightarrow> ident \<Rightarrow> int \<Rightarrow> string" where
  "download_mac hmac st binary_id expires = hmac (session_secret st) (download_message binary_id expires)"

definition sign_download :: "hmac_fn \<Rightarrow> settings \<Rightarrow> instant \<Rightarrow> ident \<Rightarrow> int option \<Rightarrow> (string \<times> string) list" where
  "sign_download hmac st now binary_id ttl_seconds =
     (let ttl = (case ttl_seconds of Some n \<Rightarrow> if n \<noteq> 0 then n else agent_download_url_ttl_seconds st
                 | None \<Rightarrow> agent_download_url_ttl_seconds st);
          expires = epoch now + ttl
      in [(''exp'', int_str expires), (''token'', download_mac hmac st binary_id expires)])"

definition verify_download :: "hmac_fn \<Rightarrow> settings \<Rightarrow> instant \<Rightarrow> ident \<Rightarrow> string option \<Rightarrow> string option \<Rightarrow> bool" where
  "verify_download hmac st now binary_id expires token =
     (if \<not> opt_truthy expires \<or> \<not> opt_truthy token then False
      else case int_of_str (or_empty expires) of
        None \<Rightarrow> False
      | Some n \<Rightarrow> \<not> n < epoch now \<and> or_empty token = download_mac hmac st binary_id n)"

definition sign_scope :: "hmac_fn \<Rightarrow> settings \<Rightarrow> instant \<Rightarrow> string \<Rightarrow> int \<Rightarrow> (string \<times> string) list" where
  "sign_scope hmac st now scope ttl_seconds =
     (let expires = epoch now + ttl_seconds
      in [(''exp'', int_str expires), (''token'', hmac (session_secret st) (scope_message scope expires))])"

definition verify_scope :: "hmac_fn \<Rightarrow> settings \<Rightarrow> instant \<Rightarrow> string \<Rightarrow> string option \<Rightarrow> string option \<Rightarrow> bool" where
  "verify_scope hmac st now scope expires token =
     (if \<not> opt_truthy expires \<or> \<not> opt_truthy token then False
      else case int_of_str (or_empty expires) of
        None \<Rightarrow> False
      | Some n \<Rightarrow> \<not> n < epoch now \<and> or_empty token = hmac (session_secret st) (scope_message scope n))"

section \<open>The local directory\<close>

text \<open>\<^verbatim>\<open>(self.root / key).resolve()\<close> on the components of a path, and its text.\<close>

fun resolve_parts :: "string list \<Rightarrow> string list \<Rightarrow> string list" where
  "resolve_parts acc [] = acc"
| "resolve_parts acc (p # ps) =
     (if p = [] \<or> p = ''.'' then resolve_parts acc ps
      else if p = ''..'' then resolve_parts (butlast acc) ps
      else resolve_parts (acc @ [p]) ps)"

definition path_text :: "string list \<Rightarrow> string" where
  "path_text ps = ''/'' @ py_join ''/'' ps"

definition joined_path :: "string list \<Rightarrow> string \<Rightarrow> string list" where
  "joined_path dir key = resolve_parts (if py_startswith key ''/'' then [] else dir) (py_split (CHR ''/'') key)"

definition local_path :: "string list \<Rightarrow> string \<Rightarrow> string list res" where
  "local_path dir key =
     (let p = joined_path dir key in
      if py_startswith (path_text p) (path_text dir) then Inr p else Inl AgentStoreError)"

section \<open>The store\<close>

definition strip_slashes :: "string \<Rightarrow> string" where
  "strip_slashes s = rstrip_by (\<lambda>c. c = CHR ''/'') (lstrip_by (\<lambda>c. c = CHR ''/'') s)"

definition s3_key :: "settings \<Rightarrow> string \<Rightarrow> string" where
  "s3_key st key = (let prefix = strip_slashes (agent_s3_prefix st) in
     if prefix = [] then key else prefix @ ''/'' @ key)"

datatype agent_backend = LocalStore "string list" | S3Store

text \<open>\<open>dir\<close> is the resolved root \<^verbatim>\<open>OVC_AGENT_STORAGE_DIR\<close>.\<close>

definition get_agent_store :: "settings \<Rightarrow> string list \<Rightarrow> agent_backend res" where
  "get_agent_store st dir =
     (if agent_storage st = ''s3''
      then (if agent_s3_bucket st = [] then Inl AgentStoreError else Inr S3Store)
      else Inr (LocalStore dir))"

definition backend_name :: "agent_backend \<Rightarrow> string" where
  "backend_name b = (case b of LocalStore _ \<Rightarrow> ''local'' | S3Store \<Rightarrow> ''s3'')"

definition describe_store :: "settings \<Rightarrow> agent_backend \<Rightarrow> string" where
  "describe_store st b = (case b of
     LocalStore dir \<Rightarrow> path_text dir
   | S3Store \<Rightarrow> (let prefix = strip_slashes (agent_s3_prefix st) in
       (if prefix = [] then agent_s3_bucket st else agent_s3_bucket st @ ''/'' @ prefix) @ '' ('' @
       (if agent_s3_endpoint_url st = [] then ''aws'' else agent_s3_endpoint_url st) @ '')''))"

text \<open>Where an object is kept; only the directory refuses a key.\<close>

definition place :: "settings \<Rightarrow> agent_backend \<Rightarrow> string \<Rightarrow> string res" where
  "place st b key = (case b of
     LocalStore dir \<Rightarrow> sbind (local_path dir key) (\<lambda>p. Inr (path_text p))
   | S3Store \<Rightarrow> Inr (s3_key st key))"

definition at_place :: "settings \<Rightarrow> agent_backend \<Rightarrow> string \<Rightarrow> (string \<Rightarrow> 'a act) \<Rightarrow> 'a act" where
  "at_place st b key f w = (case place st b key of Inl e \<Rightarrow> (Inl e, w)
     | Inr p \<Rightarrow> if w_store_up w then f p w else (Inl AgentStoreError, w))"

definition put_file :: "settings \<Rightarrow> agent_backend \<Rightarrow> string \<Rightarrow> string \<Rightarrow> unit act" where
  "put_file st b key bytes = at_place st b key (\<lambda>p w. (Inr (), w\<lparr>w_files := AList.update p bytes (w_files w)\<rparr>))"

definition delete_file :: "settings \<Rightarrow> agent_backend \<Rightarrow> string \<Rightarrow> unit act" where
  "delete_file st b key = at_place st b key (\<lambda>p w. (Inr (), w\<lparr>w_files := AList.delete p (w_files w)\<rparr>))"

definition open_stream :: "settings \<Rightarrow> agent_backend \<Rightarrow> string \<Rightarrow> string act" where
  "open_stream st b key = at_place st b key (\<lambda>p w. (case map_of (w_files w) p of
     None \<Rightarrow> Inl AgentStoreError | Some bytes \<Rightarrow> Inr bytes, w))"

definition rstrip_slash :: "string \<Rightarrow> string" where
  "rstrip_slash = rstrip_by (\<lambda>c. c = CHR ''/'')"

definition download_url ::
  "hmac_fn \<Rightarrow> (string \<Rightarrow> string \<Rightarrow> int \<Rightarrow> string) \<Rightarrow> settings \<Rightarrow> agent_backend \<Rightarrow> instant \<Rightarrow> ident \<Rightarrow> string \<Rightarrow> string \<Rightarrow> string option"
where
  "download_url hmac presign st b now binary_id key filename = (case b of
     LocalStore _ \<Rightarrow> (let base = rstrip_slash (public_base_url st) in
       if base = [] then None
       else Some (base @ api_prefix st @ ''/agent-binaries/'' @ binary_id @ ''/download?''
              @ urlencode (sign_download hmac st now binary_id None)))
   | S3Store \<Rightarrow> Some (presign (s3_key st key) filename (agent_download_url_ttl_seconds st)))"

section \<open>Lemmas\<close>

subsection \<open>Decimal numbers read back\<close>

lemma digit_char_simps: "d < 10 \<Longrightarrow> is_digit (digit_char d) \<and> (of_char (digit_char d) :: nat) = 48 + d"
  by (simp add: is_digit_def digit_char_def)

lemma digits_value_snoc: "digits_value (ds @ [c]) = digits_value ds * 10 + int (of_char c - 48 :: nat)"
  by (simp add: digits_value_def)

lemma nat_str_digits: "nat_str n \<noteq> [] \<and> list_all is_digit (nat_str n) \<and> digits_value (nat_str n) = int n"
proof (induction n rule: nat_str.induct)
  case (1 n)
  show ?case
  proof (cases "n < 10")
    case True
    then show ?thesis using digit_char_simps [of n] by (simp add: nat_str.simps [of n] digits_value_def)
  next
    case False
    have "n mod 10 < 10" by simp
    note d = digit_char_simps [OF this]
    have "int n = int (n div 10) * 10 + int (n mod 10)" by (metis div_mult_mod_eq of_nat_add of_nat_mult of_nat_numeral)
    then show ?thesis using 1 [OF False] False d by (simp add: nat_str.simps [of n] digits_value_snoc)
  qed
qed

lemma is_digit_others: "is_digit c \<Longrightarrow> \<not> is_space c \<and> c \<noteq> CHR ''_'' \<and> c \<noteq> CHR ''-'' \<and> c \<noteq> CHR ''+'' \<and> c \<noteq> CHR ''.''"
  by (auto simp: is_digit_def is_space_def)

lemma int_str_digits:
  assumes "0 \<le> n"
  shows "int_str n \<noteq> []" "list_all is_digit (int_str n)" "digits_value (int_str n) = n"
  using assms nat_str_digits [of "nat n"] by (simp_all add: int_str_def)

lemma strip_digits: "list_all is_digit s \<Longrightarrow> py_strip s = s"
proof -
  assume d: "list_all is_digit s"
  have "dropWhile is_space t = t" if "list_all is_digit t" for t
    using that is_digit_others by (cases t) auto
  then show ?thesis using d by (simp add: py_strip_def lstrip_by_def rstrip_by_def)
qed

lemma int_of_int_str: "0 \<le> n \<Longrightarrow> int_of_str (int_str n) = Some n"
proof -
  assume n: "0 \<le> n"
  note d = int_str_digits [OF n]
  have "CHR ''_'' \<notin> set (int_str n)" using d(2) is_digit_others by (auto simp: list_all_iff)
  then have "nat_of_str (int_str n) = Some n" using d by (simp add: nat_of_str_def py_split_no_sep)
  moreover obtain c t where c: "int_str n = c # t" "is_digit c" using d(1,2) by (cases "int_str n") auto
  ultimately show ?thesis
    using is_digit_others [OF c(2)] strip_digits [OF d(2)] by (simp add: int_of_str_def c(1))
qed

subsection \<open>What a token signs\<close>

lemma last_dot:
  assumes "s @ CHR ''.'' # a = t @ CHR ''.'' # b" and "CHR ''.'' \<notin> set a" and "CHR ''.'' \<notin> set b"
  shows "s = t \<and> a = b"
proof -
  have "takeWhile (\<lambda>c. c \<noteq> CHR ''.'') (rev (s @ CHR ''.'' # a)) = rev a"
    using assms(2) by (simp add: takeWhile_append)
  moreover have "takeWhile (\<lambda>c. c \<noteq> CHR ''.'') (rev (t @ CHR ''.'' # b)) = rev b"
    using assms(3) by (simp add: takeWhile_append)
  ultimately show ?thesis using assms(1) by simp
qed

lemma int_str_no_dot: "0 \<le> n \<Longrightarrow> CHR ''.'' \<notin> set (int_str n)"
  using int_str_digits(2) is_digit_others by (fastforce simp: list_all_iff)

lemma int_str_inj: "0 \<le> m \<Longrightarrow> 0 \<le> n \<Longrightarrow> int_str m = int_str n \<Longrightarrow> m = n"
  by (metis int_of_int_str option.inject)

lemma scope_message_inj:
  "0 \<le> m \<Longrightarrow> 0 \<le> n \<Longrightarrow> scope_message s m = scope_message t n \<longleftrightarrow> s = t \<and> m = n"
  using last_dot [of s "int_str m" t "int_str n"] int_str_no_dot int_str_inj by (auto simp: scope_message_def)

lemma download_message_inj:
  "0 \<le> m \<Longrightarrow> 0 \<le> n \<Longrightarrow> download_message s m = download_message t n \<longleftrightarrow> s = t \<and> m = n"
  using last_dot [of s "int_str m" t "int_str n"] int_str_no_dot int_str_inj by (auto simp: download_message_def)

text \<open>The two kinds of links sign different texts for every id without a colon.\<close>

lemma scope_is_no_download:
  assumes "CHR '':'' \<notin> set binary_id" and "0 \<le> m" and "0 \<le> n"
  shows "scope_message s m \<noteq> download_message binary_id n"
proof
  assume "scope_message s m = download_message binary_id n"
  then have "(''scope:'' @ s) @ CHR ''.'' # int_str m = binary_id @ CHR ''.'' # int_str n"
    by (simp add: scope_message_def download_message_def)
  from last_dot [OF this int_str_no_dot int_str_no_dot] assms show False by auto
qed

subsection \<open>Object keys\<close>

definition plain_part :: "string \<Rightarrow> bool" where
  "plain_part p \<longleftrightarrow> p \<notin> set [[], ''.'', ''..''] \<and> CHR ''/'' \<notin> set p"

lemma object_path:
  assumes "plain_part binary_id" and "plain_part filename"
  shows "joined_path dir (object_key binary_id filename) = dir @ [binary_id, filename]"
proof -
  have "py_split (CHR ''/'') (object_key binary_id filename) = [binary_id, filename]"
    using assms by (simp add: object_key_def plain_part_def py_split_append_sep py_split_no_sep)
  moreover have "\<not> py_startswith (object_key binary_id filename) ''/''"
    using assms(1) by (cases binary_id) (auto simp: object_key_def plain_part_def py_startswith_def)
  ultimately show ?thesis using assms by (simp add: joined_path_def plain_part_def)
qed

lemma path_text_prefix: "dir \<noteq> [] \<Longrightarrow> py_startswith (path_text (dir @ ps)) (path_text dir)"
proof -
  assume "dir \<noteq> []"
  then have "\<exists>t. py_join ''/'' (dir @ ps) = py_join ''/'' dir @ t"
  proof (induction dir rule: list_nonempty_induct)
    case (single x)
    then show ?case by (cases ps) auto
  next
    case (cons x xs)
    then show ?case by (cases xs) auto
  qed
  then show ?thesis unfolding py_startswith_iff path_text_def by auto
qed

lemma object_place:
  assumes "plain_part binary_id" and "plain_part filename" and "dir \<noteq> []"
  shows "local_path dir (object_key binary_id filename) = Inr (dir @ [binary_id, filename])"
  using object_path [OF assms(1,2)] path_text_prefix [OF assms(3)] by (simp add: local_path_def Let_def)

text \<open>The guard compares texts, so that a directory beside the root whose name continues the root's passes.\<close>

lemma sibling_passes:
  "local_path [''srv'', ''agents''] ''../agents-old/agent.exe'' = Inr [''srv'', ''agents-old'', ''agent.exe'']"
  by (simp add: local_path_def joined_path_def path_text_def py_startswith_def Let_def)

lemma store_roundtrip:
  assumes "put_file st b key bytes w = (Inr (), w')"
  shows "open_stream st b key w' = (Inr bytes, w')"
proof -
  obtain p where "place st b key = Inr p" "w_store_up w" "w' = w\<lparr>w_files := AList.update p bytes (w_files w)\<rparr>"
    using assms by (auto simp: put_file_def at_place_def split: sum.splits if_splits)
  then show ?thesis by (simp add: open_stream_def at_place_def AList.update_conv')
qed

section \<open>Properties\<close>

text \<open>C21: An installer link opens exactly what it was minted for. As long as the digest has no second
  preimage of the signed text, a token minted for a scope is accepted for that scope only, with the
  expiry it was minted with only, and only until then; and it never opens a binary's download, whose
  links are signed with the same secret.\<close>

theorem scoped_token_binds:
  assumes "\<And>m. hmac (session_secret st) m = hmac (session_secret st) (scope_message s (epoch t0 + ttl)) \<Longrightarrow> m = scope_message s (epoch t0 + ttl)"
    and "hmac (session_secret st) (scope_message s (epoch t0 + ttl)) \<noteq> []" and "0 \<le> epoch t0 + ttl" and "0 \<le> epoch t"
    and "map_of (sign_scope hmac st t0 s ttl) ''token'' = Some tok" and "expires \<noteq> []" and "CHR '':'' \<notin> set binary_id"
  shows "(verify_scope hmac st t s' (Some expires) (Some tok)
      \<longleftrightarrow> s' = s \<and> int_of_str expires = Some (epoch t0 + ttl) \<and> epoch t \<le> epoch t0 + ttl)
    \<and> \<not> verify_download hmac st t binary_id (Some expires) (Some tok)"
proof -
  let ?m = "scope_message s (epoch t0 + ttl)"
  have tok: "tok = hmac (session_secret st) ?m" "tok \<noteq> []" using assms(2,5) by (auto simp: sign_scope_def Let_def)
  have m: "hmac (session_secret st) m = tok \<longleftrightarrow> m = ?m" for m using assms(1) tok(1) by blast
  have "verify_scope hmac st t s' (Some expires) (Some tok) \<longleftrightarrow>
      (\<exists>n. int_of_str expires = Some n \<and> epoch t \<le> n \<and> scope_message s' n = ?m)"
  proof (cases "int_of_str expires")
    case (Some n)
    then show ?thesis
      using tok(2) assms(6) m [of "scope_message s' n"] by (simp add: verify_scope_def opt_truthy_def or_empty_def not_less) blast
  qed (simp add: verify_scope_def or_empty_def)
  moreover have "epoch t \<le> n \<Longrightarrow> scope_message s' n = ?m \<longleftrightarrow> s' = s \<and> n = epoch t0 + ttl" for n
    using scope_message_inj [of n "epoch t0 + ttl" s' s] assms(3,4) by simp
  moreover have "\<not> verify_download hmac st t binary_id (Some expires) (Some tok)"
  proof
    assume "verify_download hmac st t binary_id (Some expires) (Some tok)"
    then obtain n where "epoch t \<le> n" "hmac (session_secret st) (download_message binary_id n) = tok"
      by (cases "int_of_str expires") (auto simp: verify_download_def download_mac_def or_empty_def not_less split: if_splits)
    then show False using scope_is_no_download [OF assms(7,3), of n s] assms(4) m by simp
  qed
  ultimately show ?thesis by auto
qed

theorem scoped_token_binds_witness:
  "verify_scope (\<lambda>k m. k @ m) default_settings 5 ''host-install:h1'' (Some ''60'') (Some (session_secret default_settings @ ''scope:host-install:h1.60''))
    \<and> \<not> verify_scope (\<lambda>k m. k @ m) default_settings 5 ''host-install:h2'' (Some ''60'') (Some (session_secret default_settings @ ''scope:host-install:h1.60''))
    \<and> \<not> verify_download (\<lambda>k m. k @ m) default_settings 5 ''b1'' (Some ''60'') (Some (session_secret default_settings @ ''scope:host-install:h1.60''))"
proof -
  have e: "epoch 0 + 60 = 60" "epoch 5 = 0" by (simp_all add: epoch_def seconds_def)
  have i: "int_str 60 = ''60''" by code_simp
  have s: "map_of (sign_scope (\<lambda>k m. k @ m) default_settings 0 ''host-install:h1'' 60) ''token''
      = Some (session_secret default_settings @ ''scope:host-install:h1.60'')"
    by (simp add: sign_scope_def Let_def e scope_message_def i)
  have "int_of_str ''60'' = Some 60" using int_of_int_str [of 60] i by simp
  then show ?thesis
    using scoped_token_binds [OF _ _ _ _ s, of 5 "''60''" "''b1''" "''host-install:h1''"]
      scoped_token_binds [OF _ _ _ _ s, of 5 "''60''" "''b1''" "''host-install:h2''"]
    by (simp add: e scope_message_def)
qed

end
