(* ===== verification/Agent_Binaries.thy ===== *)
theory Agent_Binaries
  imports Agent_Store Unique_Names Frames
begin

text \<open>
  The catalogue of agent builds: \<^verbatim>\<open>app/api/routes/agent_binaries.py\<close> (upload, promotion, deletion,
  download, rollout) and \<^verbatim>\<open>app/services/agent_upgrade.py\<close> (the self-upgrade of one agent). An uploaded
  file is the list of the chunks it is read in; its digest is the parameter \<open>sha256\<close>.
\<close>

section \<open>Environment\<close>

record agent_env =
  ae_hmac :: hmac_fn
  ae_presign :: "string \<Rightarrow> string \<Rightarrow> int \<Rightarrow> string"
  ae_sha256 :: "string \<Rightarrow> string"
  ae_dir :: "string list"

definition with_store :: "agent_env \<Rightarrow> settings \<Rightarrow> (agent_backend \<Rightarrow> 'a act) \<Rightarrow> 'a act" where
  "with_store ae st f w = (case get_agent_store st (ae_dir ae) of Inl e \<Rightarrow> (Inl e, w) | Inr b \<Rightarrow> f b w)"

section \<open>One agent's upgrade\<close>

definition active_agent_binary :: "database \<Rightarrow> string \<Rightarrow> agent_binary option res" where
  "active_agent_binary db hypervisor =
     scalar_one_or_none (filter (\<lambda>b. AgentBinary_hypervisor b = hypervisor \<and> AgentBinary_is_active b) (db_agent_binaries db))"

definition no_active_binary :: exn where
  "no_active_binary = ApiError ''NO_ACTIVE_AGENT_BINARY'' 409"

definition resolve_upgrade_binary :: "database \<Rightarrow> host \<Rightarrow> ident option \<Rightarrow> agent_binary res" where
  "resolve_upgrade_binary db h binary_id =
     sbind (case binary_id of
         Some i \<Rightarrow> (case tget AgentBinary_id (db_agent_binaries db) i of None \<Rightarrow> Inl not_found | Some b \<Rightarrow> Inr b)
       | None \<Rightarrow> sbind (active_agent_binary db (Host_hypervisor h)) (\<lambda>found.
           case found of None \<Rightarrow> Inl no_active_binary | Some b \<Rightarrow> Inr b)) (\<lambda>b.
       if AgentBinary_hypervisor b \<noteq> Host_hypervisor h then Inl (ApiError ''INVALID'' 400) else Inr b)"

definition pending_upgrade :: "ident \<Rightarrow> task \<Rightarrow> bool" where
  "pending_upgrade host_id t \<longleftrightarrow> Task_host_id t = host_id \<and> Task_kind t = ''host_update_agent''
     \<and> Task_status t \<in> set [''queued'', ''running'']"

definition upgrade_request :: "ident \<Rightarrow> string \<Rightarrow> agent_binary \<Rightarrow> string \<Rightarrow> instant \<Rightarrow> agent_request" where
  "upgrade_request tid url b requester now =
     \<lparr>Request_id = tid, Request_function = ''host_update_agent'',
      Request_params = [(''download_url'', JStr url), (''checksum_sha256'', JStr (AgentBinary_checksum_sha256 b)),
                        (''version'', JStr (AgentBinary_version b))],
      Request_requested_by = requester, Request_issued_at = now\<rparr>"

definition upgrade_task :: "pyenv \<Rightarrow> ident \<Rightarrow> string \<Rightarrow> host \<Rightarrow> agent_binary \<Rightarrow> string \<Rightarrow> instant \<Rightarrow> task" where
  "upgrade_task env tid url h b requester now =
     (queued_task tid ''host_update_agent'' ''host'' (Host_id h) (Host_name h) (Host_id h) requester now)
       \<lparr>Task_request_payload := Some (request_json env (upgrade_request tid url b requester now))\<rparr>"

definition request_agent_upgrade ::
  "pyenv \<Rightarrow> agent_env \<Rightarrow> settings \<Rightarrow> ident \<Rightarrow> host \<Rightarrow> agent_binary \<Rightarrow> string \<Rightarrow> task act"
where
  "request_agent_upgrade env ae st tid h b requester = with_now (\<lambda>now.
     if \<not> agent_connected st now h then raise host_offline
     else if Some (AgentBinary_version b) = Host_agent_version h then raise (ApiError ''AGENT_ALREADY_CURRENT'' 409)
     else bind_act (read_db (\<lambda>db. scalar_one_or_none (filter (pending_upgrade (Host_id h)) (db_tasks db)))) (\<lambda>existing.
       if existing \<noteq> None then raise (ApiError ''AGENT_UPGRADE_IN_PROGRESS'' 409)
       else with_store ae st (\<lambda>store.
         let url = download_url (ae_hmac ae) (ae_presign ae) st store now (AgentBinary_id b) (AgentBinary_storage_key b)
                     (AgentBinary_filename b)
         in if \<not> opt_truthy url then raise (ApiError ''AGENT_DOWNLOAD_UNAVAILABLE'' 409)
            else let t = upgrade_task env tid (or_empty url) h b requester now in
              bind_act (write_db (add_task t)) (\<lambda>_.
              bind_act (publish_request (Host_short_id h) (upgrade_request tid (or_empty url) b requester now)) (\<lambda>_. ret t)))))"

section \<open>The catalogue\<close>

definition put_active :: "bool \<Rightarrow> agent_binary \<Rightarrow> agent_binary" where
  "put_active b r = r\<lparr>AgentBinary_is_active := b\<rparr>"

definition set_active :: "agent_binary \<Rightarrow> agent_binary list \<Rightarrow> agent_binary list" where
  "set_active b bs = tupd AgentBinary_id (AgentBinary_id b) (put_active True)
     (tupd_where (\<lambda>r. AgentBinary_hypervisor r = AgentBinary_hypervisor b \<and> AgentBinary_is_active r
        \<and> AgentBinary_id r \<noteq> AgentBinary_id b) (put_active False) bs)"

definition binary_key :: "agent_binary \<Rightarrow> string \<times> string" where
  "binary_key b = (AgentBinary_version b, AgentBinary_hypervisor b)"

definition write_binaries :: "(agent_binary list \<Rightarrow> agent_binary list) \<Rightarrow> unit act" where
  "write_binaries f = write_db (\<lambda>db. db\<lparr>db_agent_binaries := f (db_agent_binaries db)\<rparr>)"

definition list_agent_binaries :: "visible_scope \<Rightarrow> string option \<Rightarrow> database \<Rightarrow> agent_binary list res" where
  "list_agent_binaries sc hypervisor db = sbind (require_admin sc) (\<lambda>_.
     Inr (sort_key (\<lambda>b. - AgentBinary_created_at b)
       (filter (\<lambda>b. opt_truthy hypervisor \<longrightarrow> AgentBinary_hypervisor b = or_empty hypervisor) (db_agent_binaries db))))"

record storage_info =
  si_backend :: string
  si_location :: string
  si_download_url_ttl_seconds :: int
  si_downloads_enabled :: bool

definition get_agent_storage :: "agent_env \<Rightarrow> settings \<Rightarrow> visible_scope \<Rightarrow> storage_info res" where
  "get_agent_storage ae st sc = sbind (require_admin sc) (\<lambda>_. sbind (get_agent_store st (ae_dir ae)) (\<lambda>store.
     Inr \<lparr>si_backend = backend_name store, si_location = describe_store st store,
          si_download_url_ttl_seconds = agent_download_url_ttl_seconds st,
          si_downloads_enabled = (backend_name store = ''s3'' \<or> public_base_url st \<noteq> [])\<rparr>))"

definition MAX_UPLOAD_BYTES :: nat where
  "MAX_UPLOAD_BYTES = 128 * 1024 * 1024"

text \<open>The upload loop: the first chunk must start like an executable, and the size is bounded.\<close>

fun scan_upload :: "nat \<Rightarrow> string list \<Rightarrow> nat res" where
  "scan_upload count [] = Inr count"
| "scan_upload count (chunk # chunks) =
     (if chunk = [] then Inr count
      else if count = 0 \<and> \<not> py_startswith chunk ''MZ'' then Inl (ApiError ''INVALID'' 400)
      else if count + length chunk > MAX_UPLOAD_BYTES then Inl (ApiError ''TOO_LARGE'' 413)
      else scan_upload (count + length chunk) chunks)"

definition uploaded_bytes :: "string list \<Rightarrow> string" where
  "uploaded_bytes chunks = concat (takeWhile (\<lambda>c. c \<noteq> []) chunks)"

text \<open>\<^verbatim>\<open>pathlib.Path(s).name\<close>.\<close>

definition path_name :: "string \<Rightarrow> string" where
  "path_name s = (case filter (\<lambda>p. p \<notin> set [[], ''.'']) (py_split (CHR ''/'') s) of [] \<Rightarrow> [] | p # ps \<Rightarrow> last (p # ps))"

record upload_form =
  up_filename :: "string option"
  up_content_type :: "string option"
  up_version :: string
  up_hypervisor :: string
  up_notes :: "string option"
  up_make_active :: bool
  up_chunks :: "string list"

definition upload_row :: "agent_env \<Rightarrow> agent_backend \<Rightarrow> ident \<Rightarrow> instant \<Rightarrow> user \<Rightarrow> upload_form \<Rightarrow> agent_binary" where
  "upload_row ae store bid now u f =
     (let filename = path_name (if opt_truthy (up_filename f) then or_empty (up_filename f) else ''ovc-agent.exe'') in
      \<lparr>AgentBinary_id = bid, AgentBinary_version = py_strip (up_version f), AgentBinary_hypervisor = up_hypervisor f,
       AgentBinary_filename = filename, AgentBinary_size_bytes = int (length (uploaded_bytes (up_chunks f))),
       AgentBinary_checksum_sha256 = ae_sha256 ae (uploaded_bytes (up_chunks f)),
       AgentBinary_content_type = (if opt_truthy (up_content_type f) then or_empty (up_content_type f)
         else ''application/octet-stream''),
       AgentBinary_storage_backend = backend_name store, AgentBinary_storage_key = object_key bid filename,
       AgentBinary_notes = (if opt_truthy (up_notes f) then up_notes f else None), AgentBinary_is_active = False,
       AgentBinary_uploaded_by = User_email u, AgentBinary_created_at = now\<rparr>)"

text \<open>\<^verbatim>\<open>try: m except AgentStoreError: h\<close>.\<close>

definition on_store_error :: "'a act \<Rightarrow> 'a act \<Rightarrow> 'a act" where
  "on_store_error m handler w = (case m w of (Inl AgentStoreError, w') \<Rightarrow> handler w' | r \<Rightarrow> r)"

definition record_act :: "ident \<Rightarrow> user option \<Rightarrow> string \<Rightarrow> target \<Rightarrow> task option \<Rightarrow> jobj option \<Rightarrow> unit act" where
  "record_act eid u action tgt tsk details =
     with_now (\<lambda>now. bind_act (lift_res (record_event eid now u action (Some tgt) None tsk details)) (\<lambda>_. ret ()))"

definition upload_agent_binary ::
  "agent_env \<Rightarrow> settings \<Rightarrow> ident \<Rightarrow> ident \<Rightarrow> visible_scope \<Rightarrow> user \<Rightarrow> upload_form \<Rightarrow> agent_binary act"
where
  "upload_agent_binary ae st bid eid sc u f =
     bind_act (pure_act (require_admin sc)) (\<lambda>_.
     if py_strip (up_version f) = [] then raise (ApiError ''INVALID'' 400)
     else if \<not> py_endswith (py_lower (or_empty (up_filename f))) ''.exe'' then raise (ApiError ''INVALID'' 400)
     else bind_act (read_db (\<lambda>db. scalar_one_or_none (filter (\<lambda>b. binary_key b = (py_strip (up_version f), up_hypervisor f))
              (db_agent_binaries db)))) (\<lambda>dup.
     if dup \<noteq> None then raise (ApiError ''DUPLICATE'' 409)
     else bind_act (pure_act (scan_upload 0 (up_chunks f))) (\<lambda>count.
     if count = 0 then raise (ApiError ''INVALID'' 400)
     else with_store ae st (\<lambda>store. with_now (\<lambda>now.
       let b = upload_row ae store bid now u f in
       bind_act (write_binaries (\<lambda>bs. bs @ [b])) (\<lambda>_.
       bind_act (on_store_error (put_file st store (AgentBinary_storage_key b) (uploaded_bytes (up_chunks f)))
                   (raise (ApiError ''STORAGE_ERROR'' 502))) (\<lambda>_.
       bind_act (if up_make_active f then write_binaries (set_active b) else ret ()) (\<lambda>_.
       let b' = put_active (up_make_active f) b in
       bind_act (record_act eid (Some u) ''agent_binary.upload'' (AgentBinaryTarget b') None
         (Some [(''hypervisor'', JStr (AgentBinary_hypervisor b)), (''sizeBytes'', JInt (AgentBinary_size_bytes b)),
                (''sha256'', JStr (AgentBinary_checksum_sha256 b)), (''makeActive'', JBool (up_make_active f))])) (\<lambda>_.
         ret b')))))))))"

definition get_binary :: "ident \<Rightarrow> agent_binary act" where
  "get_binary i = read_db (\<lambda>db. case tget AgentBinary_id (db_agent_binaries db) i of None \<Rightarrow> Inl not_found | Some b \<Rightarrow> Inr b)"

text \<open>A PATCH field is \<open>None\<close> when absent; the flag may be given as null.\<close>

record binary_update =
  bu_notes :: "string option option"
  bu_is_active :: "bool option option"

definition binary_diff :: "agent_binary \<Rightarrow> jobj" where
  "binary_diff b = [(''notes'', opt_str (AgentBinary_notes b)), (''isActive'', JBool (AgentBinary_is_active b))]"

definition patch_binary :: "agent_binary \<Rightarrow> binary_update \<Rightarrow> agent_binary" where
  "patch_binary b upd =
     (let b1 = (case bu_notes upd of None \<Rightarrow> b
                | Some notes \<Rightarrow> b\<lparr>AgentBinary_notes := (if opt_truthy notes then notes else None)\<rparr>)
      in case bu_is_active upd of Some (Some a) \<Rightarrow> put_active a b1 | _ \<Rightarrow> b1)"

definition update_agent_binary ::
  "ident \<Rightarrow> visible_scope \<Rightarrow> user \<Rightarrow> ident \<Rightarrow> binary_update \<Rightarrow> agent_binary act"
where
  "update_agent_binary eid sc u i upd =
     bind_act (pure_act (require_admin sc)) (\<lambda>_.
     bind_act (get_binary i) (\<lambda>b.
     let b' = patch_binary b upd in
     bind_act (if bu_is_active upd = Some (Some True) then write_binaries (set_active b) else ret ()) (\<lambda>_.
     bind_act (write_binaries (tupd AgentBinary_id i (\<lambda>_. b'))) (\<lambda>_.
     bind_act (case changes (binary_diff b) (binary_diff b') of None \<Rightarrow> ret ()
       | Some diff \<Rightarrow> record_act eid (Some u) ''agent_binary.update'' (AgentBinaryTarget b') None (Some diff)) (\<lambda>_. ret b')))))"

definition delete_agent_binary :: "agent_env \<Rightarrow> settings \<Rightarrow> ident \<Rightarrow> visible_scope \<Rightarrow> user \<Rightarrow> ident \<Rightarrow> unit act" where
  "delete_agent_binary ae st eid sc u i =
     bind_act (pure_act (require_admin sc)) (\<lambda>_.
     bind_act (get_binary i) (\<lambda>b.
     if AgentBinary_is_active b then raise (ApiError ''ACTIVE_BINARY'' 409)
     else bind_act (record_act eid (Some u) ''agent_binary.delete'' (AgentBinaryTarget b) None
            (Some [(''hypervisor'', JStr (AgentBinary_hypervisor b))])) (\<lambda>_.
          bind_act (on_store_error (with_store ae st (\<lambda>store. delete_file st store (AgentBinary_storage_key b))) (ret ())) (\<lambda>_.
            write_binaries (tdel AgentBinary_id i)))))"

definition download_agent_binary ::
  "agent_env \<Rightarrow> settings \<Rightarrow> ident \<Rightarrow> string option \<Rightarrow> string option \<Rightarrow> string act"
where
  "download_agent_binary ae st i expires token =
     bind_act (get_binary i) (\<lambda>b. with_store ae st (\<lambda>store. with_now (\<lambda>now.
       if backend_name store \<noteq> ''local'' then raise not_found
       else if \<not> verify_download (ae_hmac ae) st now i expires token then raise (ApiError ''FORBIDDEN'' 403)
       else open_stream st store (AgentBinary_storage_key b))))"

section \<open>Rollout\<close>

record rollout_result =
  rr_tasks :: "task list"
  rr_skipped :: "(ident \<times> string) list"

text \<open>\<open>ids\<close> gives the task and the event id drawn for a host.\<close>

definition rollout_host ::
  "pyenv \<Rightarrow> agent_env \<Rightarrow> settings \<Rightarrow> (ident \<Rightarrow> ident \<times> ident) \<Rightarrow> user \<Rightarrow> agent_binary \<Rightarrow> host \<Rightarrow> rollout_result \<Rightarrow> rollout_result act"
where
  "rollout_host env ae st ids u b h r w =
     (if \<not> agent_connected st (w_now w) h then (Inr (r\<lparr>rr_skipped := rr_skipped r @ [(Host_id h, ''offline'')]\<rparr>), w)
      else if Host_agent_version h = Some (AgentBinary_version b)
      then (Inr (r\<lparr>rr_skipped := rr_skipped r @ [(Host_id h, ''already up to date'')]\<rparr>), w)
      else case bind_act (request_agent_upgrade env ae st (fst (ids (Host_id h))) h b (User_email u)) (\<lambda>t.
             bind_act (record_act (snd (ids (Host_id h))) (Some u) ''host.update_agent'' (HostTarget h) (Some t)
               (Some [(''version'', JStr (AgentBinary_version b)), (''rollout'', JBool True)])) (\<lambda>_. ret t)) w of
        (Inr t, w') \<Rightarrow> (Inr (r\<lparr>rr_tasks := rr_tasks r @ [t]\<rparr>), w')
      | (Inl (ApiError code status), w') \<Rightarrow> (Inr (r\<lparr>rr_skipped := rr_skipped r @ [(Host_id h, code)]\<rparr>), w')
      | (Inl e, w') \<Rightarrow> (Inl e, w'))"

definition rollout_hosts :: "database \<Rightarrow> agent_binary \<Rightarrow> ident list option \<Rightarrow> host list" where
  "rollout_hosts db b host_ids = sort_key Host_name (filter (\<lambda>h. Host_hypervisor h = AgentBinary_hypervisor b
     \<and> (case host_ids of None \<Rightarrow> True | Some [] \<Rightarrow> True | Some is \<Rightarrow> Host_id h \<in> set is)) (db_hosts db))"

definition rollout_agent_binary ::
  "pyenv \<Rightarrow> agent_env \<Rightarrow> settings \<Rightarrow> (ident \<Rightarrow> ident \<times> ident) \<Rightarrow> visible_scope \<Rightarrow> user \<Rightarrow> ident \<Rightarrow> ident list option \<Rightarrow> rollout_result act"
where
  "rollout_agent_binary env ae st ids sc u i host_ids =
     bind_act (pure_act (require_admin sc)) (\<lambda>_.
     bind_act (get_binary i) (\<lambda>b.
     bind_act (read_db (\<lambda>db. Inr (rollout_hosts db b host_ids))) (\<lambda>hs.
       foldA (rollout_host env ae st ids u b) hs \<lparr>rr_tasks = [], rr_skipped = []\<rparr>)))"

section \<open>Lemmas\<close>

subsection \<open>The active build\<close>

definition same_hypervisor :: "string \<Rightarrow> agent_binary \<Rightarrow> bool" where
  "same_hypervisor hv b \<longleftrightarrow> AgentBinary_hypervisor b = hv"

interpretation active_build: exclusive_flag AgentBinary_id AgentBinary_hypervisor AgentBinary_is_active put_active
  same_hypervisor "\<lambda>_. True"
  by unfold_locales (simp_all add: put_active_def same_hypervisor_def)

abbreviation one_active :: "agent_binary list \<Rightarrow> bool" where
  "one_active \<equiv> one_flagged AgentBinary_id AgentBinary_hypervisor AgentBinary_is_active"

lemma put_active_fields [simp]:
  "AgentBinary_id (put_active a b) = AgentBinary_id b" "AgentBinary_hypervisor (put_active a b) = AgentBinary_hypervisor b"
  "AgentBinary_is_active (put_active a b) = a" "binary_key (put_active a b) = binary_key b"
  by (simp_all add: put_active_def binary_key_def)

text \<open>Clearing the flag everywhere in the group but on the promoted row, then setting it there, is the
  same as clearing the whole group first.\<close>

lemma set_active_clears:
  "set_active b bs = tupd AgentBinary_id (AgentBinary_id b) (put_active True)
     (tupd_where (same_hypervisor (AgentBinary_hypervisor b)) (put_active False) bs)"
proof -
  have "(if AgentBinary_id r = AgentBinary_id b then put_active True r else
        (if AgentBinary_hypervisor r = AgentBinary_hypervisor b \<and> AgentBinary_is_active r then put_active False r else r))
      = (if AgentBinary_id r = AgentBinary_id b then put_active True r else
        (if AgentBinary_hypervisor r = AgentBinary_hypervisor b then put_active False r else r))" for r
    by (simp add: put_active_def)
  then show ?thesis
    by (auto simp: set_active_def tupd_def tupd_where_def same_hypervisor_def put_active_def)
qed

lemma set_active_ok:
  assumes "one_active bs" and "\<And>r. r \<in> set bs \<Longrightarrow> AgentBinary_id r = AgentBinary_id b \<Longrightarrow> AgentBinary_hypervisor r = AgentBinary_hypervisor b"
  shows "one_active (set_active b bs)"
  unfolding set_active_clears
proof (rule active_build.set_flag [where g = "AgentBinary_hypervisor b"])
  show "one_active (tupd_where (same_hypervisor (AgentBinary_hypervisor b)) (put_active False) bs)"
    using active_build.clear_group assms(1) .
  show "\<forall>r\<in>set (tupd_where (same_hypervisor (AgentBinary_hypervisor b)) (put_active False) bs).
      AgentBinary_hypervisor r = AgentBinary_hypervisor b \<longrightarrow> \<not> AgentBinary_is_active r"
    using active_build.group_cleared [of bs _ "AgentBinary_hypervisor b"] by blast
qed (use assms(2) in \<open>auto simp: tupd_where_def\<close>)

lemma set_active_row:
  "r \<in> set (set_active b bs) \<Longrightarrow> AgentBinary_id r = AgentBinary_id b \<Longrightarrow> \<exists>s \<in> set bs. AgentBinary_id s = AgentBinary_id b \<and> r = put_active True s"
proof -
  assume r: "r \<in> set (set_active b bs)" "AgentBinary_id r = AgentBinary_id b"
  obtain s where s: "s \<in> set bs" "r = (let s' = (if AgentBinary_hypervisor s = AgentBinary_hypervisor b \<and> AgentBinary_is_active s
      \<and> AgentBinary_id s \<noteq> AgentBinary_id b then put_active False s else s) in
      if AgentBinary_id s' = AgentBinary_id b then put_active True s' else s')"
    using r(1) unfolding set_active_def tupd_def tupd_where_def set_map Let_def by blast
  then have "AgentBinary_id s = AgentBinary_id b" using r(2) by (simp add: Let_def split: if_splits)
  then show ?thesis using s by (auto simp: Let_def)
qed

lemma set_active_keys:
  "map AgentBinary_id (set_active b bs) = map AgentBinary_id bs" "map binary_key (set_active b bs) = map binary_key bs"
  by (simp_all add: set_active_def tupd_def tupd_where_def)

definition binaries_ok :: "agent_binary list \<Rightarrow> bool" where
  "binaries_ok bs \<longleftrightarrow> pk_unique AgentBinary_id bs \<and> distinct (map binary_key bs) \<and> one_active bs"

subsection \<open>Uploads\<close>

lemma scan_upload_Inr:
  "scan_upload n chunks = Inr m \<Longrightarrow> m = n + length (uploaded_bytes chunks)
     \<and> (n \<le> MAX_UPLOAD_BYTES \<longrightarrow> m \<le> MAX_UPLOAD_BYTES) \<and> (n = 0 \<and> 0 < m \<longrightarrow> py_startswith (uploaded_bytes chunks) ''MZ'')"
proof (induction n chunks rule: scan_upload.induct)
  case (2 n chunk chunks)
  show ?case
  proof (cases "chunk = []")
    case False
    then have "scan_upload (n + length chunk) chunks = Inr m" "\<not> (n = 0 \<and> \<not> py_startswith chunk ''MZ'')"
      "n + length chunk \<le> MAX_UPLOAD_BYTES"
      using 2(2) by (auto split: if_splits)
    moreover have "py_startswith chunk ''MZ'' \<Longrightarrow> py_startswith (chunk @ t) ''MZ''" for t
      by (auto simp: py_startswith_iff)
    ultimately show ?thesis using 2(1) False by (auto simp: uploaded_bytes_def)
  next
    case True
    then have "n = m" "uploaded_bytes (chunk # chunks) = []" using 2(2) by (simp_all add: uploaded_bytes_def)
    then show ?thesis by fastforce
  qed
qed (auto simp: uploaded_bytes_def)

lemma split_no_sep: "p \<in> set (py_split c s) \<Longrightarrow> c \<notin> set p"
  by (induction s arbitrary: p) (auto split: if_splits list.splits)

lemma split_single: "py_split c s = [y] \<Longrightarrow> s = y"
  by (induction s arbitrary: y) (auto split: if_splits list.splits)

lemma last_split: "\<exists>pre. s = pre @ last (py_split c s) \<and> (pre = [] \<or> last pre = c)"
proof (induction s)
  case (Cons x s)
  then obtain pre where pre: "s = pre @ last (py_split c s)" "pre = [] \<or> last pre = c" by blast
  obtain y ys where y: "py_split c s = y # ys" using py_split_nonempty by (cases "py_split c s") auto
  show ?case
  proof (cases "x = c \<or> ys \<noteq> []")
    case True
    then have "last (py_split c (x # s)) = last (py_split c s)" using y by auto
    moreover have "x = c \<or> pre \<noteq> []"
    proof (rule ccontr)
      assume n: "\<not> (x = c \<or> pre \<noteq> [])"
      then have "ys \<noteq> []" "s = last (y # ys)" using True pre y by simp_all
      then have "last ys \<in> set (py_split c s)" "s = last ys" using y by auto
      then have "c \<notin> set s" using split_no_sep by metis
      then show False using y \<open>ys \<noteq> []\<close> py_split_no_sep by fastforce
    qed
    ultimately show ?thesis using pre by (intro exI [of _ "x # pre"]) auto
  next
    case False
    then have "s = y" using y split_single by simp
    then show ?thesis using False y by (intro exI [of _ "[]"]) simp
  qed
qed simp

lemma lower_slash: "lower_char c = CHR ''/'' \<longleftrightarrow> c = CHR ''/''"
proof -
  have "(x + 32) mod 256 \<noteq> (47::nat)" if "65 \<le> x" "x \<le> 90" for x using that by simp
  then show ?thesis by (auto simp: lower_char_def char_of_eq_iff take_bit_eq_mod)
qed

lemma exe_name_plain:
  assumes "py_endswith (py_lower f) ''.exe''"
  shows "plain_part (path_name f)"
proof -
  define q where "q = last (py_split (CHR ''/'') f)"
  obtain pre where pre: "f = pre @ q" "pre = [] \<or> last pre = CHR ''/''" using last_split q_def by blast
  obtain t where "rev (py_lower f) = rev ''.exe'' @ t" using assms by (auto simp: py_endswith_def py_startswith_iff)
  then have t: "map lower_char (rev q) @ map lower_char (rev pre) = rev ''.exe'' @ t"
    unfolding pre(1) by (simp add: py_lower_def rev_map)
  have "4 \<le> length q"
  proof (rule ccontr)
    assume short: "\<not> 4 \<le> length q"
    then have "pre \<noteq> []" using arg_cong [OF t, of length] by auto
    then have "(map lower_char (rev q) @ map lower_char (rev pre)) ! length q = CHR ''/''"
      using pre(2) by (cases pre rule: rev_cases) (simp_all add: nth_append lower_slash)
    then have "(rev ''.exe'' @ t) ! length q = CHR ''/''" using t by simp
    moreover have "(rev ''.exe'' @ t) ! length q \<in> set (rev ''.exe'')"
      using short nth_mem [of "length q" "rev ''.exe''"] by (simp only: nth_append length_rev) simp
    ultimately show False by simp
  qed
  moreover have "CHR ''/'' \<notin> set q" unfolding q_def using split_no_sep py_split_nonempty last_in_set by metis
  moreover have "path_name f = q"
  proof -
    have q: "q \<notin> set [[], ''.'']" using \<open>4 \<le> length q\<close> by auto
    have "py_split (CHR ''/'') f = butlast (py_split (CHR ''/'') f) @ [q]" by (simp add: q_def)
    from arg_cong [OF this, of "filter (\<lambda>p. p \<notin> set [[], ''.''])"]
    have "filter (\<lambda>p. p \<notin> set [[], ''.'']) (py_split (CHR ''/'') f)
        = filter (\<lambda>p. p \<notin> set [[], ''.'']) (butlast (py_split (CHR ''/'') f)) @ [q]"
      using q by (simp only: filter_append filter.simps if_True simp_thms)
    then obtain xs where "filter (\<lambda>p. p \<notin> set [[], ''.'']) (py_split (CHR ''/'') f) = xs @ [q]" by blast
    then show ?thesis by (cases xs) (simp_all add: path_name_def)
  qed
  ultimately show ?thesis by (auto simp: plain_part_def)
qed

subsection \<open>Objects and rows\<close>

text \<open>Distinct ids have distinct places.\<close>

lemma join_snoc: "xs \<noteq> [] \<Longrightarrow> py_join sep (xs @ [y]) = py_join sep xs @ sep @ y"
proof (induction xs)
  case (Cons x xs)
  then show ?case by (cases xs) simp_all
qed simp

lemma path_text_key:
  "path_text (dir @ [i, f]) = (if dir = [] then ''/'' else path_text dir @ ''/'') @ object_key i f"
proof -
  have "py_join ''/'' (dir @ [i, f]) = (if dir = [] then [] else py_join ''/'' dir @ ''/'') @ object_key i f"
    using join_snoc [of "dir @ [i]" "''/''" f] join_snoc [of dir "''/''" i] by (simp add: object_key_def)
  then show ?thesis by (simp add: path_text_def)
qed

lemma object_key_inj: "plain_part i \<Longrightarrow> plain_part j \<Longrightarrow> object_key i f = object_key j g \<Longrightarrow> i = j"
proof -
  assume p: "plain_part i" "plain_part j" and e: "object_key i f = object_key j g"
  have "takeWhile (\<lambda>c. c \<noteq> CHR ''/'') (object_key k h) = k" if "plain_part k" for k h
  proof -
    have "\<forall>c \<in> set k. c \<noteq> CHR ''/''" using that by (auto simp: plain_part_def)
    then show ?thesis by (simp add: object_key_def takeWhile_append2)
  qed
  then show "i = j" using p e by metis
qed

lemma place_inj:
  assumes "place st b (object_key i f) = Inr p" and "place st b (object_key j g) = Inr p"
    and "plain_part i" "plain_part f" "plain_part j" "plain_part g"
  shows "i = j"
proof (cases b)
  case (LocalStore dir)
  have "path_text (dir @ [i, f]) = path_text (dir @ [j, g])"
    using assms LocalStore object_path
    by (simp add: place_def local_path_def Let_def sbind_def split: if_splits)
  then show ?thesis using object_key_inj assms(3,5) by (auto simp: path_text_key)
next
  case S3Store
  then show ?thesis using assms object_key_inj by (auto simp: place_def s3_key_def Let_def split: if_splits)
qed

text \<open>\<open>stored w b\<close>: the bytes of the row are where its key says, and they are what was uploaded.\<close>

definition stored :: "agent_env \<Rightarrow> settings \<Rightarrow> world \<Rightarrow> agent_binary \<Rightarrow> bool" where
  "stored ae st w b \<longleftrightarrow> plain_part (AgentBinary_id b) \<and> plain_part (AgentBinary_filename b)
     \<and> AgentBinary_storage_key b = object_key (AgentBinary_id b) (AgentBinary_filename b)
     \<and> (\<exists>store p bytes. get_agent_store st (ae_dir ae) = Inr store \<and> place st store (AgentBinary_storage_key b) = Inr p
         \<and> map_of (w_files w) p = Some bytes \<and> ae_sha256 ae bytes = AgentBinary_checksum_sha256 b
         \<and> int (length bytes) = AgentBinary_size_bytes b \<and> length bytes \<le> MAX_UPLOAD_BYTES \<and> py_startswith bytes ''MZ'')"

definition catalogue_ok :: "agent_env \<Rightarrow> settings \<Rightarrow> world \<Rightarrow> bool" where
  "catalogue_ok ae st w \<longleftrightarrow> binaries_ok (db_agent_binaries (w_db w)) \<and> (\<forall>b \<in> set (db_agent_binaries (w_db w)). stored ae st w b)"

inductive binary_step :: "agent_env \<Rightarrow> settings \<Rightarrow> world \<Rightarrow> world \<Rightarrow> bool" for ae st where
  bin_upload: "bid \<notin> AgentBinary_id ` set (db_agent_binaries (w_db w)) \<Longrightarrow> plain_part bid \<Longrightarrow>
     binary_step ae st w (snd (session_scope (upload_agent_binary ae st bid eid sc u f) w))"
| bin_update: "binary_step ae st w (snd (session_scope (update_agent_binary eid sc u i upd) w))"
| bin_delete: "binary_step ae st w (snd (session_scope (delete_agent_binary ae st eid sc u i) w))"
| bin_storage: "binary_step ae st w (w\<lparr>w_store_up := up\<rparr>)"
| bin_time: "binary_step ae st w (w\<lparr>w_now := now\<rparr>)"

text \<open>Objects other than those at \<open>p\<close> stay as they are.\<close>

definition files_but :: "(string \<Rightarrow> bool) \<Rightarrow> world \<Rightarrow> world \<Rightarrow> bool" where
  "files_but P w w' \<longleftrightarrow> (\<forall>q. P q \<or> map_of (w_files w') q = map_of (w_files w) q)"

interpretation file_frame: act_frame "files_but P" for P
proof
  show "files_but P w w" for w by (simp add: files_but_def)
  show "files_but P w w2" if "files_but P w w1" "files_but P w1 w2" for w w1 w2
    using that unfolding files_but_def by metis
qed

lemma files_same: "w_files w' = w_files w \<Longrightarrow> files_but P w w'"
  by (simp add: files_but_def)

lemma files_pure:
  "act_keeps (files_but P) (lift_res f)" "act_keeps (files_but P) (write_db g)" "act_keeps (files_but P) (record_act e u a t tk d)"
  "act_keeps (files_but P) (write_binaries h)" "act_keeps (files_but P) (get_binary i)"
proof -
  show l: "act_keeps (files_but P) (lift_res f)" for f :: "database \<Rightarrow> ('a \<times> database) res"
    by (rule file_frame.keeps_lift) (simp add: files_same)
  show w: "act_keeps (files_but P) (write_db g)" for g by (rule file_frame.keeps_write) (simp add: files_same)
  show "act_keeps (files_but P) (record_act e u a t tk d)"
    unfolding record_act_def by (intro file_frame.keeps_rules file_frame.keeps_lift) (simp add: files_same)
  show "act_keeps (files_but P) (write_binaries h)" unfolding write_binaries_def by (rule w)
  show "act_keeps (files_but P) (get_binary i)" unfolding get_binary_def by (rule file_frame.keeps_simple)
qed

lemma files_store:
  "(\<And>store. get_agent_store st (ae_dir ae) = Inr store \<Longrightarrow> act_keeps (files_but P) (m store)) \<Longrightarrow> act_keeps (files_but P) (with_store ae st m)"
  by (intro act_keepsI) (auto simp: with_store_def files_same split: sum.splits dest: act_keepsD)

lemma files_handler:
  "act_keeps (files_but P) m \<Longrightarrow> act_keeps (files_but P) h \<Longrightarrow> act_keeps (files_but P) (on_store_error m h)"
  by (intro act_keepsI)
    (auto simp: on_store_error_def split: prod.splits sum.splits exn.splits dest!: act_keepsD intro: file_frame.trans)

lemma files_put: "act_keeps (files_but (\<lambda>q. place st b key = Inr q)) (put_file st b key bytes)"
  by (intro act_keepsI) (auto simp: put_file_def at_place_def files_but_def AList.update_conv' split: sum.splits if_splits)

lemma files_delete: "act_keeps (files_but (\<lambda>q. place st b key = Inr q)) (delete_file st b key)"
  by (intro act_keepsI) (auto simp: delete_file_def at_place_def files_but_def AList.delete_conv' split: sum.splits if_splits)

lemma record_act_frame:
  "record_act e u a t tk d w = (r, w') \<Longrightarrow> w_files w' = w_files w \<and> db_agent_binaries (w_db w') = db_agent_binaries (w_db w)
    \<and> w_store_up w' = w_store_up w"
  by (auto simp: record_act_def with_now_def bind_act_def lift_res_def record_event_def ret_def Let_def split: if_splits)

definition own_place :: "agent_env \<Rightarrow> settings \<Rightarrow> string \<Rightarrow> string \<Rightarrow> bool" where
  "own_place ae st key q \<longleftrightarrow> (\<exists>store. get_agent_store st (ae_dir ae) = Inr store \<and> place st store key = Inr q)"

lemma files_but_mono: "(\<And>q. P q \<Longrightarrow> Q q) \<Longrightarrow> act_keeps (files_but P) m \<Longrightarrow> act_keeps (files_but Q) m"
  unfolding act_keeps_def files_but_def by blast

lemma files_own:
  "get_agent_store st (ae_dir ae) = Inr b \<Longrightarrow> act_keeps (files_but (own_place ae st key)) (put_file st b key bytes)"
  "get_agent_store st (ae_dir ae) = Inr b \<Longrightarrow> act_keeps (files_but (own_place ae st key)) (delete_file st b key)"
  using files_but_mono [OF _ files_put] files_but_mono [OF _ files_delete] by (auto simp: own_place_def)

lemma stored_but:
  assumes b: "stored ae st w b" and fr: "files_but (own_place ae st (object_key j g)) w w'" and pl: "plain_part j" "plain_part g"
    and other: "AgentBinary_id b \<noteq> j"
  shows "stored ae st w' b"
proof -
  obtain store p bytes where sp: "get_agent_store st (ae_dir ae) = Inr store" "place st store (AgentBinary_storage_key b) = Inr p"
    "map_of (w_files w) p = Some bytes" "ae_sha256 ae bytes = AgentBinary_checksum_sha256 b"
    "int (length bytes) = AgentBinary_size_bytes b" "length bytes \<le> MAX_UPLOAD_BYTES" "py_startswith bytes ''MZ''"
    and key: "AgentBinary_storage_key b = object_key (AgentBinary_id b) (AgentBinary_filename b)"
      "plain_part (AgentBinary_id b)" "plain_part (AgentBinary_filename b)"
    using b by (auto simp: stored_def)
  have "\<not> own_place ae st (object_key j g) p"
    using place_inj [OF sp(2) [unfolded key(1)] _ key(2,3) pl] sp(1) other by (auto simp: own_place_def)
  then have "map_of (w_files w') p = Some bytes" using fr sp(3) by (auto simp: files_but_def)
  then show ?thesis using sp key by (auto simp: stored_def)
qed

lemma stored_same: "w_files w' = w_files w \<Longrightarrow> stored ae st w' b = stored ae st w b"
  by (simp add: stored_def)

text \<open>Flags and notes do not matter for the object.\<close>

lemma stored_cong:
  "AgentBinary_id b' = AgentBinary_id b \<Longrightarrow> AgentBinary_filename b' = AgentBinary_filename b
    \<Longrightarrow> AgentBinary_storage_key b' = AgentBinary_storage_key b \<Longrightarrow> AgentBinary_checksum_sha256 b' = AgentBinary_checksum_sha256 b
    \<Longrightarrow> AgentBinary_size_bytes b' = AgentBinary_size_bytes b \<Longrightarrow> stored ae st w b' = stored ae st w b"
  by (simp add: stored_def)

lemma stored_put_active [simp]: "stored ae st w (put_active a b) = stored ae st w b"
  by (rule stored_cong) (simp_all add: put_active_def)

lemma stored_set_active:
  "(\<forall>r \<in> set (set_active b bs). stored ae st w r) \<longleftrightarrow> (\<forall>r \<in> set bs. stored ae st w r)"
proof -
  have "(\<forall>r \<in> set (map f xs). stored ae st w r) \<longleftrightarrow> (\<forall>r \<in> set xs. stored ae st w r)"
    if "\<And>r. stored ae st w (f r) = stored ae st w r" for f and xs :: "agent_binary list"
    using that by simp
  then show ?thesis unfolding set_active_def tupd_def tupd_where_def by (simp add: if_distrib [of "stored ae st w"] del: set_map)
qed

subsection \<open>The steps keep the catalogue\<close>

lemma upload_row_fields [simp]:
  "AgentBinary_id (upload_row ae store bid now u f) = bid"
  "binary_key (upload_row ae store bid now u f) = (py_strip (up_version f), up_hypervisor f)"
  "AgentBinary_is_active (upload_row ae store bid now u f) = False"
  by (simp_all add: upload_row_def Let_def binary_key_def)

lemma upload_frame:
  "act_keeps (files_but (\<lambda>q. py_endswith (py_lower (or_empty (up_filename f))) ''.exe''
      \<and> own_place ae st (object_key bid (path_name (or_empty (up_filename f)))) q)) (upload_agent_binary ae st bid eid sc u f)"
proof -
  have "act_keeps (files_but (\<lambda>q. py_endswith (py_lower (or_empty (up_filename f))) ''.exe''
      \<and> own_place ae st (object_key bid (path_name (or_empty (up_filename f)))) q))
      (put_file st store (AgentBinary_storage_key (upload_row ae store bid now u f)) bytes)"
    if exe: "py_endswith (py_lower (or_empty (up_filename f))) ''.exe''" and "get_agent_store st (ae_dir ae) = Inr store" for store now bytes
  proof -
    have "opt_truthy (up_filename f)"
      using exe by (cases "up_filename f") (auto simp: or_empty_def opt_truthy_def py_lower_def py_endswith_def py_startswith_def)
    then show ?thesis
      using files_but_mono [OF _ files_own(1) [OF that(2), of _ bytes]] exe by (simp add: upload_row_def Let_def)
  qed
  then show ?thesis
    unfolding upload_agent_binary_def Let_def
    by (intro file_frame.keeps_rules files_pure files_store files_handler) auto
qed

lemma upload_effect:
  assumes "upload_agent_binary ae st bid eid sc u f w = (Inr b', w')"
  shows "\<exists>store p. let bytes = uploaded_bytes (up_chunks f); b = upload_row ae store bid (w_now w) u f in
    get_agent_store st (ae_dir ae) = Inr store \<and> place st store (AgentBinary_storage_key b) = Inr p
    \<and> map_of (w_files w') p = Some bytes \<and> scan_upload 0 (up_chunks f) = Inr (length bytes) \<and> bytes \<noteq> []
    \<and> py_endswith (py_lower (or_empty (up_filename f))) ''.exe'' \<and> binary_key b \<notin> binary_key ` set (db_agent_binaries (w_db w))
    \<and> db_agent_binaries (w_db w') = (if up_make_active f then set_active b else id) (db_agent_binaries (w_db w) @ [b])"
proof -
  from assms obtain n store w1 where
    guards: "py_endswith (py_lower (or_empty (up_filename f))) ''.exe''"
      "scalar_one_or_none (filter (\<lambda>b. binary_key b = (py_strip (up_version f), up_hypervisor f)) (db_agent_binaries (w_db w))) = Inr None"
      "scan_upload 0 (up_chunks f) = Inr n" "n \<noteq> 0" "get_agent_store st (ae_dir ae) = Inr store" and
    put: "on_store_error (put_file st store (AgentBinary_storage_key (upload_row ae store bid (w_now w) u f)) (uploaded_bytes (up_chunks f)))
        (raise (ApiError ''STORAGE_ERROR'' 502)) (w\<lparr>w_db := (w_db w)\<lparr>db_agent_binaries := db_agent_binaries (w_db w) @ [upload_row ae store bid (w_now w) u f]\<rparr>\<rparr>) = (Inr (), w1)" and
    rest: "w_files w' = w_files w1" "db_agent_binaries (w_db w') = (if up_make_active f then set_active (upload_row ae store bid (w_now w) u f) else id) (db_agent_binaries (w_db w1))"
    by (auto simp: upload_agent_binary_def bind_act_Inr pure_act_def read_db_def raise_def with_store_def with_now_def write_binaries_def
        write_db_def ret_def Let_def split: if_splits sum.splits dest!: record_act_frame)
  have n: "n = length (uploaded_bytes (up_chunks f))" using scan_upload_Inr [OF guards(3)] by simp
  from put obtain p where p: "place st store (AgentBinary_storage_key (upload_row ae store bid (w_now w) u f)) = Inr p"
    "w1 = w\<lparr>w_db := (w_db w)\<lparr>db_agent_binaries := db_agent_binaries (w_db w) @ [upload_row ae store bid (w_now w) u f]\<rparr>,
      w_files := AList.update p (uploaded_bytes (up_chunks f)) (w_files w)\<rparr>"
    by (auto simp: on_store_error_def put_file_def at_place_def raise_def split: sum.splits if_splits exn.splits)
  have "(py_strip (up_version f), up_hypervisor f) \<notin> binary_key ` set (db_agent_binaries (w_db w))"
    using guards(2) by (auto simp: scalar_one_or_none_def filter_empty_conv split: list.splits)
  then show ?thesis
    using guards p rest n by (intro exI [of _ store] exI [of _ p]) (auto simp: Let_def AList.update_conv')
qed

lemma ok_upload:
  assumes ok: "catalogue_ok ae st w" and new: "bid \<notin> AgentBinary_id ` set (db_agent_binaries (w_db w))" "plain_part bid"
  shows "catalogue_ok ae st (snd (session_scope (upload_agent_binary ae st bid eid sc u f) w))"
proof -
  let ?fn = "path_name (or_empty (up_filename f))"
  obtain r w' where run: "upload_agent_binary ae st bid eid sc u f w = (r, w')" by fastforce
  have old: "stored ae st w' b" if "b \<in> set (db_agent_binaries (w_db w))" for b
  proof (cases "py_endswith (py_lower (or_empty (up_filename f))) ''.exe''")
    case True
    then have "files_but (own_place ae st (object_key bid ?fn)) w w'"
      using act_keepsD [OF upload_frame run] by (simp add: files_but_def)
    then show ?thesis
      using stored_but [of ae st w b bid ?fn w'] ok new that exe_name_plain [OF True] by (auto simp: catalogue_ok_def)
  next
    case False
    then have "files_but (\<lambda>_. False) w w'" using act_keepsD [OF upload_frame run] by (simp add: files_but_def)
    then show ?thesis using ok that by (auto simp: catalogue_ok_def stored_def files_but_def)
  qed
  show ?thesis
  proof (cases r)
    case (Inl e)
    then have "snd (session_scope (upload_agent_binary ae st bid eid sc u f) w) = w'\<lparr>w_db := w_db w\<rparr>" by (simp add: session_scope_def run)
    then show ?thesis using old ok by (simp add: catalogue_ok_def stored_same [of "w'\<lparr>w_db := w_db w\<rparr>" w'])
  next
    case (Inr b')
    define b where "b = upload_row ae (SOME s. get_agent_store st (ae_dir ae) = Inr s) bid (w_now w) u f"
    obtain store p where eff: "get_agent_store st (ae_dir ae) = Inr store" "b = upload_row ae store bid (w_now w) u f"
      "place st store (AgentBinary_storage_key b) = Inr p" "map_of (w_files w') p = Some (uploaded_bytes (up_chunks f))"
      "scan_upload 0 (up_chunks f) = Inr (length (uploaded_bytes (up_chunks f)))" "uploaded_bytes (up_chunks f) \<noteq> []"
      "py_endswith (py_lower (or_empty (up_filename f))) ''.exe''" "binary_key b \<notin> binary_key ` set (db_agent_binaries (w_db w))"
      "db_agent_binaries (w_db w') = (if up_make_active f then set_active b else id) (db_agent_binaries (w_db w) @ [b])"
      using upload_effect [OF run [unfolded Inr]] by (auto simp: Let_def b_def)
    have truthy: "opt_truthy (up_filename f)"
      using eff(7) by (cases "up_filename f") (auto simp: or_empty_def opt_truthy_def py_lower_def py_endswith_def py_startswith_def)
    have "stored ae st w' b"
      using eff scan_upload_Inr [OF eff(5)] exe_name_plain [OF eff(7)] new(2) truthy
      by (auto simp: stored_def upload_row_def Let_def)
    then have st: "\<forall>r \<in> set (db_agent_binaries (w_db w) @ [b]). stored ae st w' r" using old by auto
    have b: "AgentBinary_id b = bid" "\<not> AgentBinary_is_active b" by (simp_all add: b_def)
    have "binaries_ok (db_agent_binaries (w_db w) @ [b])"
      using ok new(1) eff(8) b active_build.add_row [of "db_agent_binaries (w_db w)" b]
      by (simp add: binaries_ok_def catalogue_ok_def pk_unique_def)
    moreover have "one_active (set_active b (db_agent_binaries (w_db w) @ [b]))"
    proof (rule set_active_ok)
      show "one_active (db_agent_binaries (w_db w) @ [b])" using calculation by (simp add: binaries_ok_def)
    qed (use new(1) b(1) in auto)
    ultimately have "binaries_ok (db_agent_binaries (w_db w'))"
      by (simp add: eff(9) binaries_ok_def pk_unique_def set_active_keys)
    then have "catalogue_ok ae st w'" using st stored_set_active by (auto simp: catalogue_ok_def eff(9))
    then show ?thesis by (simp add: session_scope_def run Inr)
  qed
qed

lemma patch_fields:
  "AgentBinary_id (patch_binary b upd) = AgentBinary_id b" "AgentBinary_hypervisor (patch_binary b upd) = AgentBinary_hypervisor b"
  "binary_key (patch_binary b upd) = binary_key b" "stored ae st w (patch_binary b upd) = stored ae st w b"
  "AgentBinary_is_active (patch_binary b upd) = (case bu_is_active upd of Some (Some a) \<Rightarrow> a | _ \<Rightarrow> AgentBinary_is_active b)"
proof -
  show "stored ae st w (patch_binary b upd) = stored ae st w b"
    by (rule stored_cong) (simp_all add: patch_binary_def put_active_def Let_def split: option.split)
qed (simp_all add: patch_binary_def put_active_def binary_key_def Let_def split: option.split)

lemma ok_update:
  assumes ok: "catalogue_ok ae st w"
  shows "catalogue_ok ae st (snd (session_scope (update_agent_binary eid sc u i upd) w))"
proof -
  let ?bs = "db_agent_binaries (w_db w)"
  obtain r w' where run: "update_agent_binary eid sc u i upd w = (r, w')" by fastforce
  have files: "w_files w' = w_files w"
    using run by (auto simp: update_agent_binary_def get_binary_def write_binaries_def pure_act_def bind_act_def read_db_def write_db_def
        ret_def Let_def split: sum.splits prod.splits if_splits option.splits dest: record_act_frame)
  show ?thesis
  proof (cases r)
    case (Inl e)
    then show ?thesis using ok files by (simp add: session_scope_def run catalogue_ok_def stored_same [of "w'\<lparr>w_db := w_db w\<rparr>" w])
  next
    case (Inr b')
    have "\<exists>b. tget AgentBinary_id ?bs i = Some b \<and> db_agent_binaries (w_db w') =
        tupd AgentBinary_id i (\<lambda>_. patch_binary b upd) (if bu_is_active upd = Some (Some True) then set_active b ?bs else ?bs)"
      using run Inr
      by (cases "bu_is_active upd = Some (Some True)") (auto simp: update_agent_binary_def get_binary_def write_binaries_def bind_act_Inr pure_act_def read_db_def write_db_def
          ret_def Let_def split: sum.splits option.splits dest!: record_act_frame)
    then obtain b where b: "tget AgentBinary_id ?bs i = Some b" and bs: "db_agent_binaries (w_db w') =
        tupd AgentBinary_id i (\<lambda>_. patch_binary b upd) (if bu_is_active upd = Some (Some True) then set_active b ?bs else ?bs)"
      by blast
    have bi: "b \<in> set ?bs" "AgentBinary_id b = i" using tget_Some [OF b] by simp_all
    have pk: "r = b" if "r \<in> set ?bs" "AgentBinary_id r = i" for r
      using tget_unique [of AgentBinary_id ?bs i r] ok b that by (simp add: catalogue_ok_def binaries_ok_def)
    define xs where "xs = (if bu_is_active upd = Some (Some True) then set_active b ?bs else ?bs)"
    have xs_ok: "binaries_ok xs"
      using ok set_active_ok [of ?bs b] pk bi(2) by (auto simp: xs_def catalogue_ok_def binaries_ok_def pk_unique_def set_active_keys)
    have row: "r = (if bu_is_active upd = Some (Some True) then put_active True b else b)" if "r \<in> set xs" "AgentBinary_id r = i" for r
    proof (cases "bu_is_active upd = Some (Some True)")
      case True
      then show ?thesis using that pk set_active_row [of r b ?bs] bi(2) by (metis xs_def)
    next
      case False
      then show ?thesis using that pk by (simp add: xs_def)
    qed
    have "one_active (tupd AgentBinary_id i (\<lambda>_. patch_binary b upd) xs)"
      unfolding tupd_def
    proof (rule one_flagged_image)
      show "one_active xs" using xs_ok by (simp add: binaries_ok_def)
      show "AgentBinary_id (if AgentBinary_id r = i then patch_binary b upd else r) = AgentBinary_id r" for r
        using bi(2) by (simp add: patch_fields)
      show "AgentBinary_hypervisor (if AgentBinary_id r = i then patch_binary b upd else r) = AgentBinary_hypervisor r" if "r \<in> set xs" for r
        using row [OF that] by (auto simp: patch_fields)
      show "AgentBinary_is_active r" if "r \<in> set xs" "AgentBinary_is_active (if AgentBinary_id r = i then patch_binary b upd else r)" for r
        using row [OF that(1)] that(2) by (auto simp: patch_fields split: if_splits option.splits)
    qed
    moreover have "map AgentBinary_id (tupd AgentBinary_id i (\<lambda>_. patch_binary b upd) xs) = map AgentBinary_id xs"
      "map binary_key (tupd AgentBinary_id i (\<lambda>_. patch_binary b upd) xs) = map binary_key xs"
    proof -
      have "binary_key b = binary_key x" if "x \<in> set xs" "AgentBinary_id x = i" for x
        using row [OF that] by (cases "bu_is_active upd = Some (Some True)") simp_all
      then show "map AgentBinary_id (tupd AgentBinary_id i (\<lambda>_. patch_binary b upd) xs) = map AgentBinary_id xs"
        "map binary_key (tupd AgentBinary_id i (\<lambda>_. patch_binary b upd) xs) = map binary_key xs"
        using bi(2) by (auto simp: tupd_def patch_fields)
    qed
    moreover have "\<forall>r \<in> set xs. stored ae st w r"
      using ok stored_set_active [of b ?bs] by (auto simp: xs_def catalogue_ok_def)
    then have "\<forall>r \<in> set (tupd AgentBinary_id i (\<lambda>_. patch_binary b upd) xs). stored ae st w r"
      using ok bi(1) by (auto simp: tupd_def patch_fields catalogue_ok_def)
    ultimately have "catalogue_ok ae st w'"
      using xs_ok files bs by (simp add: catalogue_ok_def binaries_ok_def pk_unique_def xs_def [symmetric] stored_same [of w' w])
    then show ?thesis by (simp add: session_scope_def run Inr)
  qed
qed

lemma delete_effect:
  assumes "delete_agent_binary ae st eid sc u i w = (r, w')"
  shows "(isl r \<and> w_files w' = w_files w) \<or> (\<exists>b. tget AgentBinary_id (db_agent_binaries (w_db w)) i = Some b \<and> \<not> isl r
    \<and> db_agent_binaries (w_db w') = tdel AgentBinary_id i (db_agent_binaries (w_db w))
    \<and> files_but (own_place ae st (AgentBinary_storage_key b)) w w')"
proof (cases "require_admin sc :: unit res")
  case (Inr unit)
  show ?thesis
  proof (cases "tget AgentBinary_id (db_agent_binaries (w_db w)) i")
    case (Some b)
    define d where "d = on_store_error (with_store ae st (\<lambda>store. delete_file st store (AgentBinary_storage_key b))) (ret ())"
    have keep: "act_keeps (files_but (own_place ae st (AgentBinary_storage_key b))) d"
      unfolding d_def by (intro files_handler files_store files_own file_frame.keeps_simple)
    have ran: "\<exists>w2. d w1 = (Inr (), w2) \<and> w_db w2 = w_db w1" for w1
      by (auto simp: d_def on_store_error_def with_store_def delete_file_def at_place_def place_def local_path_def get_agent_store_def
          sbind_def Let_def ret_def split: agent_backend.split sum.split)
    show ?thesis
    proof (cases "AgentBinary_is_active b")
      case False
      obtain r1 w1 where rec: "record_act eid (Some u) ''agent_binary.delete'' (AgentBinaryTarget b) None
          (Some [(''hypervisor'', JStr (AgentBinary_hypervisor b))]) w = (r1, w1)" by fastforce
      obtain w2 where w2: "d w1 = (Inr (), w2)" "w_db w2 = w_db w1" using ran by blast
      have f: "w_files w1 = w_files w" "db_agent_binaries (w_db w1) = db_agent_binaries (w_db w)" using record_act_frame [OF rec] by simp_all
      have "files_but (own_place ae st (AgentBinary_storage_key b)) w w2"
        using act_keepsD [OF keep w2(1)] f(1) by (simp add: files_but_def)
      then show ?thesis
        using assms Inr Some False rec w2 f isl_def [of r]
        by (cases r1) (auto simp: delete_agent_binary_def get_binary_def pure_act_def bind_act_def read_db_def write_binaries_def write_db_def
            d_def [symmetric] files_but_def)
    qed (use assms Inr Some in \<open>auto simp: delete_agent_binary_def get_binary_def pure_act_def bind_act_def read_db_def raise_def\<close>)
  qed (use assms Inr in \<open>auto simp: delete_agent_binary_def get_binary_def pure_act_def bind_act_def read_db_def\<close>)
next
  case (Inl e)
  then have "(r, w') = (Inl e, w)" using assms by (simp add: delete_agent_binary_def pure_act_def bind_act_def)
  then show ?thesis by simp
qed

lemma ok_delete:
  assumes ok: "catalogue_ok ae st w"
  shows "catalogue_ok ae st (snd (session_scope (delete_agent_binary ae st eid sc u i) w))"
proof -
  obtain r w' where run: "delete_agent_binary ae st eid sc u i w = (r, w')" by fastforce
  from delete_effect [OF run] show ?thesis
  proof
    assume "isl r \<and> w_files w' = w_files w"
    then show ?thesis using ok by (cases r) (simp_all add: session_scope_def run catalogue_ok_def stored_same [of "w'\<lparr>w_db := w_db w\<rparr>" w])
  next
    assume "\<exists>b. tget AgentBinary_id (db_agent_binaries (w_db w)) i = Some b \<and> \<not> isl r
      \<and> db_agent_binaries (w_db w') = tdel AgentBinary_id i (db_agent_binaries (w_db w))
      \<and> files_but (own_place ae st (AgentBinary_storage_key b)) w w'"
    then obtain b where b: "tget AgentBinary_id (db_agent_binaries (w_db w)) i = Some b" "\<not> isl r"
      "db_agent_binaries (w_db w') = tdel AgentBinary_id i (db_agent_binaries (w_db w))"
      "files_but (own_place ae st (AgentBinary_storage_key b)) w w'" by blast
    have bi: "b \<in> set (db_agent_binaries (w_db w))" "AgentBinary_id b = i" using tget_Some [OF b(1)] by simp_all
    then have sb: "AgentBinary_storage_key b = object_key i (AgentBinary_filename b)" "plain_part i" "plain_part (AgentBinary_filename b)"
      using ok by (auto simp: catalogue_ok_def stored_def)
    have "stored ae st w' x" if "x \<in> set (db_agent_binaries (w_db w'))" for x
      using stored_but [OF _ b(4) [unfolded sb(1)] sb(2,3), of x] ok that b(3) by (auto simp: catalogue_ok_def tdel_def)
    moreover have "binaries_ok (db_agent_binaries (w_db w'))"
      using ok b(3) by (auto simp: catalogue_ok_def binaries_ok_def tdel_def pk_unique_def distinct_map_filter one_flagged_def)
    ultimately show ?thesis using b(2) by (cases r) (simp_all add: session_scope_def run catalogue_ok_def)
  qed
qed

lemma ok_step: "binary_step ae st w w' \<Longrightarrow> catalogue_ok ae st w \<Longrightarrow> catalogue_ok ae st w'"
proof (induction rule: binary_step.induct)
  case bin_upload then show ?case by (intro ok_upload)
next
  case bin_update then show ?case by (rule ok_update)
next
  case bin_delete then show ?case by (rule ok_delete)
next
  case (bin_storage w up) then show ?case by (simp add: catalogue_ok_def stored_same [of "w\<lparr>w_store_up := up\<rparr>" w])
next
  case (bin_time w now) then show ?case by (simp add: catalogue_ok_def stored_same [of "w\<lparr>w_now := now\<rparr>" w])
qed

lemma ok_reachable: "(binary_step ae st)\<^sup>*\<^sup>* w w' \<Longrightarrow> catalogue_ok ae st w \<Longrightarrow> catalogue_ok ae st w'"
  by (induction rule: rtranclp_induct) (simp_all add: ok_step)

subsection \<open>Upgrades\<close>

lemma upgrade_result:
  assumes "request_agent_upgrade env ae st tid h b requester w = (r, w')"
  shows "case r of Inr t \<Rightarrow> db_tasks (w_db w') = db_tasks (w_db w) @ [t] \<and> Task_host_id t = Host_id h \<and> pending_upgrade (Host_id h) t
        \<and> \<not> list_ex (pending_upgrade (Host_id h)) (db_tasks (w_db w)) \<and> agent_connected st (w_now w) h
        \<and> Host_agent_version h \<noteq> Some (AgentBinary_version b) \<and> w_now w' = w_now w
    | Inl e \<Rightarrow> (\<forall>code status. e = ApiError code status \<longrightarrow> w' = w)"
  using assms
  by (auto simp: request_agent_upgrade_def with_now_def bind_act_def read_db_def raise_def with_store_def get_agent_store_def
      write_db_def publish_request_def ret_def upgrade_task_def queued_task_def add_task_def pending_upgrade_def Let_def
      scalar_one_or_none_def filter_empty_conv list_ex_iff split: if_splits list.splits sum.splits)

lemma record_act_tasks: "record_act e u a t tk d w = (r, w') \<Longrightarrow> db_tasks (w_db w') = db_tasks (w_db w) \<and> (\<forall>c n. r \<noteq> Inl (ApiError c n)) \<and> w_now w' = w_now w"
  by (auto simp: record_act_def with_now_def bind_act_def lift_res_def record_event_def ret_def Let_def split: if_splits)

lemma distinct_singleton_list: "set xs = {x} \<Longrightarrow> distinct xs \<Longrightarrow> xs = [x]"
proof (cases xs)
  case (Cons y ys)
  assume "set xs = {x}" "distinct xs"
  then have "y = x" "set ys \<subseteq> {x}" "x \<notin> set ys" using Cons by auto
  then have "set ys = {}" by (metis subset_singletonD insertI1)
  then show ?thesis using Cons \<open>y = x\<close> by simp
qed simp

lemma rollout_host_Inr:
  assumes "rollout_host env ae st ids u b h r w = (Inr r', w')"
  shows "(\<exists>reason. r' = r\<lparr>rr_skipped := rr_skipped r @ [(Host_id h, reason)]\<rparr> \<and> db_tasks (w_db w') = db_tasks (w_db w))
    \<or> (\<exists>t. r' = r\<lparr>rr_tasks := rr_tasks r @ [t]\<rparr> \<and> db_tasks (w_db w') = db_tasks (w_db w) @ [t] \<and> Task_host_id t = Host_id h
        \<and> pending_upgrade (Host_id h) t \<and> \<not> list_ex (pending_upgrade (Host_id h)) (db_tasks (w_db w)))"
proof (cases "agent_connected st (w_now w) h \<and> Host_agent_version h \<noteq> Some (AgentBinary_version b)")
  case True
  define rec where "rec t = record_act (snd (ids (Host_id h))) (Some u) ''host.update_agent'' (HostTarget h) (Some t)
      (Some [(''version'', JStr (AgentBinary_version b)), (''rollout'', JBool True)])" for t
  define m where "m = bind_act (request_agent_upgrade env ae st (fst (ids (Host_id h))) h b (User_email u)) (\<lambda>t. bind_act (rec t) (\<lambda>_. ret t))"
  have run: "(case m w of (Inr t, w') \<Rightarrow> (Inr (r\<lparr>rr_tasks := rr_tasks r @ [t]\<rparr>), w')
      | (Inl (ApiError code status), w') \<Rightarrow> (Inr (r\<lparr>rr_skipped := rr_skipped r @ [(Host_id h, code)]\<rparr>), w')
      | (Inl e, w') \<Rightarrow> (Inl e, w')) = (Inr r', w')"
    using assms True by (simp add: rollout_host_def m_def rec_def cong: exn.case_cong)
  obtain q w1 where q: "request_agent_upgrade env ae st (fst (ids (Host_id h))) h b (User_email u) w = (q, w1)" by fastforce
  note res = upgrade_result [OF q]
  show ?thesis
  proof (cases q)
    case (Inl e)
    then have "m w = (Inl e, w1)" by (simp add: m_def bind_act_def q)
    then show ?thesis using run res Inl by (cases e) auto
  next
    case (Inr t)
    obtain r2 w2 where r2: "rec t w1 = (r2, w2)" by fastforce
    have "m w = (case r2 of Inl e \<Rightarrow> (Inl e, w2) | Inr _ \<Rightarrow> (Inr t, w2))"
      by (simp add: m_def bind_act_def q Inr r2 ret_def split: sum.split)
    then show ?thesis
      using run res Inr record_act_tasks [OF r2 [unfolded rec_def]] by (cases r2) (auto split: exn.splits)
  qed
next
  case False
  then show ?thesis using assms by (auto simp: rollout_host_def split: if_splits)
qed

lemma rollout_loop:
  assumes "foldA (rollout_host env ae st ids u b) hs r w = (Inr r', w')" and "distinct (map Host_id hs)"
  shows "\<exists>ts sk. rr_tasks r' = rr_tasks r @ ts \<and> rr_skipped r' = rr_skipped r @ sk \<and> db_tasks (w_db w') = db_tasks (w_db w) @ ts
    \<and> distinct (map Task_host_id ts @ map fst sk) \<and> set (map Task_host_id ts @ map fst sk) = set (map Host_id hs)
    \<and> (\<forall>t \<in> set ts. pending_upgrade (Task_host_id t) t \<and> \<not> list_ex (pending_upgrade (Task_host_id t)) (db_tasks (w_db w)))"
  using assms
proof (induction hs arbitrary: r w)
  case Nil
  then show ?case by (simp add: ret_def)
next
  case (Cons h hs)
  obtain r1 w1 where h: "rollout_host env ae st ids u b h r w = (Inr r1, w1)"
    and hs: "foldA (rollout_host env ae st ids u b) hs r1 w1 = (Inr r', w')" using Cons.prems(1) by (auto simp: bind_act_Inr)
  obtain ts sk where IH: "rr_tasks r' = rr_tasks r1 @ ts" "rr_skipped r' = rr_skipped r1 @ sk" "db_tasks (w_db w') = db_tasks (w_db w1) @ ts"
    "distinct (map Task_host_id ts @ map fst sk)" "set (map Task_host_id ts @ map fst sk) = set (map Host_id hs)"
    "\<forall>t \<in> set ts. pending_upgrade (Task_host_id t) t \<and> \<not> list_ex (pending_upgrade (Task_host_id t)) (db_tasks (w_db w1))"
    using Cons.IH [OF hs] Cons.prems(2) by auto
  have fresh: "Host_id h \<notin> set (map Task_host_id ts @ map fst sk)" using Cons.prems(2) IH(5) by auto
  from rollout_host_Inr [OF h] show ?case
  proof (elim disjE exE conjE)
    fix reason
    assume "r1 = r\<lparr>rr_skipped := rr_skipped r @ [(Host_id h, reason)]\<rparr>" "db_tasks (w_db w1) = db_tasks (w_db w)"
    then show ?thesis using IH fresh by (intro exI [of _ ts] exI [of _ "(Host_id h, reason) # sk"]) auto
  next
    fix t
    assume "r1 = r\<lparr>rr_tasks := rr_tasks r @ [t]\<rparr>" "db_tasks (w_db w1) = db_tasks (w_db w) @ [t]" "Task_host_id t = Host_id h"
      "pending_upgrade (Host_id h) t" "\<not> list_ex (pending_upgrade (Host_id h)) (db_tasks (w_db w))"
    then show ?thesis using IH fresh by (intro exI [of _ "t # ts"] exI [of _ sk]) auto
  qed
qed

section \<open>Properties\<close>

text \<open>A world with one host that is online, a form with a three-byte executable, and a digest to compute.\<close>

definition sample_env :: agent_env where
  "sample_env = \<lparr>ae_hmac = (\<lambda>k m. m), ae_presign = (\<lambda>k f n. k), ae_sha256 = (\<lambda>b. b), ae_dir = [''srv'']\<rparr>"

definition sample_form :: upload_form where
  "sample_form = \<lparr>up_filename = Some ''agent.exe'', up_content_type = None, up_version = ''2.0'', up_hypervisor = ''hyperv'',
     up_notes = None, up_make_active = False, up_chunks = [''MZ1'']\<rparr>"

definition sample_binary :: agent_binary where
  "sample_binary = \<lparr>AgentBinary_id = ''b1'', AgentBinary_version = ''2.0'', AgentBinary_hypervisor = ''hyperv'',
     AgentBinary_filename = ''agent.exe'', AgentBinary_size_bytes = 3, AgentBinary_checksum_sha256 = ''MZ1'',
     AgentBinary_content_type = ''application/octet-stream'', AgentBinary_storage_backend = ''local'',
     AgentBinary_storage_key = ''b1/agent.exe'', AgentBinary_notes = None, AgentBinary_is_active = False,
     AgentBinary_uploaded_by = User_email operator, AgentBinary_created_at = 1\<rparr>"

lemma sample_upload:
  "\<exists>w'. upload_agent_binary sample_env default_settings ''b1'' ''e1'' admin_scope operator sample_form ready_world = (Inr sample_binary, w')
     \<and> db_agent_binaries (w_db w') = [sample_binary] \<and> w_store_up w' \<and> w_now w' = 1"
proof -
  have row: "upload_row sample_env (LocalStore [''srv'']) ''b1'' 1 operator sample_form = sample_binary"
    by (simp add: upload_row_def sample_form_def sample_env_def sample_binary_def opt_truthy_def or_empty_def uploaded_bytes_def
        path_name_def py_strip_def lstrip_by_def rstrip_by_def is_space_def backend_name_def object_key_def Let_def)
  have place: "place default_settings (LocalStore [''srv'']) ''b1/agent.exe'' = Inr ''/srv/b1/agent.exe''"
    by (simp add: place_def local_path_def joined_path_def path_text_def py_startswith_def sbind_def Let_def)
  have key: "AgentBinary_storage_key sample_binary = ''b1/agent.exe''" by (simp add: sample_binary_def)
  have store: "get_agent_store default_settings (ae_dir sample_env) = Inr (LocalStore [''srv''])"
    by (simp add: get_agent_store_def default_settings_def sample_env_def)
  have form: "py_strip (up_version sample_form) = ''2.0''" "py_endswith (py_lower (or_empty (up_filename sample_form))) ''.exe''"
    "scan_upload 0 (up_chunks sample_form) = Inr 3" "\<not> up_make_active sample_form"
    by (simp_all add: sample_form_def py_strip_def lstrip_by_def rstrip_by_def is_space_def py_endswith_def py_lower_def lower_char_def
        py_startswith_def or_empty_def MAX_UPLOAD_BYTES_def)
  have world: "w_store_up ready_world" "db_agent_binaries (w_db ready_world) = []"
    by (simp_all add: ready_world_def empty_db_def)
  have inactive: "put_active False sample_binary = sample_binary" by (simp add: put_active_def sample_binary_def)
  have admin: "require_admin admin_scope = Inr ()" by (simp add: require_admin_def admin_scope_def)
  show ?thesis
    using row place store form world inactive admin key
    by (simp add: upload_agent_binary_def bind_act_def pure_act_def read_db_def scalar_one_or_none_def
        with_store_def with_now_def write_binaries_def write_db_def on_store_error_def put_file_def
        at_place_def record_act_def lift_res_def record_event_def record_ref_def ret_def Let_def)
qed

text \<open>C19: The catalogue of agent builds is sound in every state that uploads, promotions and deletions
  (accepted or refused, with the storage up or failing) can reach from an empty one: a version is
  listed once per hypervisor, at most one build per hypervisor is active, and what an agent downloads
  with a valid token is the upload: bytes whose digest and size are the listed ones, a Windows
  executable of at most 128 MiB.\<close>

theorem agent_builds_sound:
  assumes steps: "(binary_step ae st)\<^sup>*\<^sup>* w0 w" and empty: "db_agent_binaries (w_db w0) = []"
    and up: "w_store_up w" and backend: "agent_storage st \<noteq> ''s3''" and b: "b \<in> set (db_agent_binaries (w_db w))"
    and token: "verify_download (ae_hmac ae) st (w_now w) (AgentBinary_id b) expires tok"
  shows "distinct (map binary_key (db_agent_binaries (w_db w))) \<and> one_active (db_agent_binaries (w_db w))
    \<and> (\<exists>bytes. download_agent_binary ae st (AgentBinary_id b) expires tok w = (Inr bytes, w)
        \<and> ae_sha256 ae bytes = AgentBinary_checksum_sha256 b \<and> int (length bytes) = AgentBinary_size_bytes b
        \<and> length bytes \<le> MAX_UPLOAD_BYTES \<and> py_startswith bytes ''MZ'')"
proof -
  have "catalogue_ok ae st w0" by (simp add: catalogue_ok_def empty binaries_ok_def pk_unique_def one_flagged_def)
  then have ok: "catalogue_ok ae st w" using ok_reachable steps by blast
  have "tget AgentBinary_id (db_agent_binaries (w_db w)) (AgentBinary_id b) = Some b"
    using tget_unique [of AgentBinary_id "db_agent_binaries (w_db w)"] ok b by (simp add: catalogue_ok_def binaries_ok_def)
  moreover have "stored ae st w b" using ok b by (simp add: catalogue_ok_def)
  ultimately show ?thesis
    using ok up backend token
    by (auto simp: stored_def catalogue_ok_def binaries_ok_def download_agent_binary_def get_binary_def read_db_def bind_act_def
        with_store_def with_now_def get_agent_store_def backend_name_def open_stream_def at_place_def)
qed

theorem agent_builds_sound_witness:
  "\<exists>w' bytes. upload_agent_binary sample_env default_settings ''b1'' ''e1'' admin_scope operator sample_form ready_world = (Inr sample_binary, w')
    \<and> download_agent_binary sample_env default_settings ''b1'' (Some ''60'') (Some ''b1.60'') w' = (Inr bytes, w') \<and> ae_sha256 sample_env bytes = ''MZ1''"
proof -
  let ?up = "upload_agent_binary sample_env default_settings ''b1'' ''e1'' admin_scope operator sample_form"
  obtain w' where w': "?up ready_world = (Inr sample_binary, w')" "db_agent_binaries (w_db w') = [sample_binary]" "w_store_up w'" "w_now w' = 1"
    using sample_upload by blast
  have "binary_step sample_env default_settings ready_world (snd (session_scope ?up ready_world))"
    by (rule bin_upload) (simp_all add: ready_world_def empty_db_def plain_part_def)
  moreover have "snd (session_scope ?up ready_world) = w'" by (simp add: session_scope_def w')
  ultimately have steps: "(binary_step sample_env default_settings)\<^sup>*\<^sup>* ready_world w'" by auto
  have i: "int_of_str ''60'' = Some 60" "int_str 60 = ''60''" by code_simp+
  have token: "verify_download (ae_hmac sample_env) default_settings (w_now w') (AgentBinary_id sample_binary) (Some ''60'') (Some ''b1.60'')"
    by (simp add: verify_download_def download_mac_def download_message_def sample_env_def sample_binary_def opt_truthy_def or_empty_def i
        epoch_def seconds_def w')
  have "db_agent_binaries (w_db ready_world) = []" "agent_storage default_settings \<noteq> ''s3''"
    by (simp_all add: ready_world_def empty_db_def default_settings_def)
  from agent_builds_sound [OF steps this(1) w'(3) this(2) _ token] show ?thesis
    using w' by (auto simp: sample_binary_def)
qed

text \<open>C20: A rollout accounts for every host it targets: each of them gets exactly one upgrade task or is
  skipped exactly once, the tasks it reports are exactly the ones it adds, and no host ends with two
  unfinished upgrades.\<close>

theorem rollout_covers_targets:
  assumes run: "rollout_agent_binary env ae st ids sc u i host_ids w = (Inr r, w')"
    and b: "tget AgentBinary_id (db_agent_binaries (w_db w)) i = Some b" and pk: "pk_unique Host_id (db_hosts (w_db w))"
    and one: "length (filter (pending_upgrade hid) (db_tasks (w_db w))) \<le> 1"
  shows "distinct (map Task_host_id (rr_tasks r) @ map fst (rr_skipped r))
    \<and> set (map Task_host_id (rr_tasks r) @ map fst (rr_skipped r)) = Host_id ` set (rollout_hosts (w_db w) b host_ids)
    \<and> db_tasks (w_db w') = db_tasks (w_db w) @ rr_tasks r
    \<and> length (filter (pending_upgrade hid) (db_tasks (w_db w'))) \<le> 1"
proof -
  let ?hs = "rollout_hosts (w_db w) b host_ids"
  have loop: "foldA (rollout_host env ae st ids u b) ?hs \<lparr>rr_tasks = [], rr_skipped = []\<rparr> w = (Inr r, w')"
    using run b by (auto simp: rollout_agent_binary_def get_binary_def bind_act_def pure_act_def read_db_def split: sum.splits)
  have "distinct (map Host_id ?hs)"
    using pk by (auto simp: rollout_hosts_def distinct_map pk_unique_def intro: inj_on_subset)
  from rollout_loop [OF loop this] have l: "db_tasks (w_db w') = db_tasks (w_db w) @ rr_tasks r"
    "distinct (map Task_host_id (rr_tasks r) @ map fst (rr_skipped r))"
    "set (map Task_host_id (rr_tasks r) @ map fst (rr_skipped r)) = set (map Host_id ?hs)"
    "\<forall>t \<in> set (rr_tasks r). pending_upgrade (Task_host_id t) t \<and> \<not> list_ex (pending_upgrade (Task_host_id t)) (db_tasks (w_db w))"
    by auto
  have "length (filter (pending_upgrade hid) (rr_tasks r)) \<le> 1
    \<and> (filter (pending_upgrade hid) (rr_tasks r) \<noteq> [] \<longrightarrow> filter (pending_upgrade hid) (db_tasks (w_db w)) = [])"
  proof
    have "distinct (map Task_host_id (filter (pending_upgrade hid) (rr_tasks r)))" using l(2) by (simp add: distinct_map_filter)
    from distinct_card [OF this] have "length (filter (pending_upgrade hid) (rr_tasks r))
        = card (set (map Task_host_id (filter (pending_upgrade hid) (rr_tasks r))))" by simp
    also have "\<dots> \<le> card {hid}" by (rule card_mono) (auto simp: pending_upgrade_def)
    finally show "length (filter (pending_upgrade hid) (rr_tasks r)) \<le> 1" by simp
    show "filter (pending_upgrade hid) (rr_tasks r) \<noteq> [] \<longrightarrow> filter (pending_upgrade hid) (db_tasks (w_db w)) = []"
      using l(4) by (auto simp: filter_empty_conv list_ex_iff pending_upgrade_def)
  qed
  then show ?thesis using l one by (cases "filter (pending_upgrade hid) (rr_tasks r) = []") auto
qed

theorem rollout_covers_targets_witness:
  "\<exists>r w'. rollout_agent_binary cursor_env sample_env (default_settings\<lparr>public_base_url := ''http://x''\<rparr>) (\<lambda>i. (i, i)) admin_scope operator ''b1'' None
      (ready_world\<lparr>w_db := (w_db ready_world)\<lparr>db_agent_binaries := [sample_binary]\<rparr>\<rparr>) = (Inr r, w')
    \<and> map Task_host_id (rr_tasks r) @ map fst (rr_skipped r) = [''h1'']"
proof -
  let ?st = "default_settings\<lparr>public_base_url := ''http://x''\<rparr>" and ?h = "(sample_host ''h1'' None)\<lparr>Host_agent_last_seen := Some 0\<rparr>"
  let ?w = "ready_world\<lparr>w_db := (w_db ready_world)\<lparr>db_agent_binaries := [sample_binary]\<rparr>\<rparr>"
  let ?run = "rollout_agent_binary cursor_env sample_env ?st (\<lambda>i. (i, i)) admin_scope operator ''b1'' None ?w"
  have h: "agent_connected ?st 1 ?h" "Host_agent_version ?h \<noteq> Some (AgentBinary_version sample_binary)"
    by (simp_all add: agent_connected_def sample_host_def default_settings_def seconds_def sample_binary_def)
  have b: "tget AgentBinary_id (db_agent_binaries (w_db ?w)) ''b1'' = Some sample_binary" by (simp add: sample_binary_def)
  have hosts: "rollout_hosts (w_db ?w) sample_binary None = [?h]"
    by (simp add: rollout_hosts_def ready_world_def empty_db_def sample_host_def sample_binary_def)
  have store: "get_agent_store ?st (ae_dir sample_env) = Inr (LocalStore [''srv''])"
    by (simp add: get_agent_store_def default_settings_def sample_env_def)
  have url: "opt_truthy (download_url m p ?st (LocalStore d) n i k f)" for m p d n i k f
    by (simp add: download_url_def rstrip_slash_def rstrip_by_def opt_truthy_def Let_def)
  have admin: "require_admin admin_scope = Inr ()" by (simp add: require_admin_def admin_scope_def)
  obtain r w' where r: "?run = (Inr r, w')"
    using h b hosts store url admin
    by (simp add: rollout_agent_binary_def get_binary_def bind_act_def pure_act_def read_db_def rollout_host_def request_agent_upgrade_def
        with_now_def with_store_def scalar_one_or_none_def write_db_def publish_request_def ret_def record_act_def lift_res_def
        record_event_def record_ref_def Let_def)
  have hid: "Host_id ?h = ''h1''" by (simp add: sample_host_def)
  have "set (map Task_host_id (rr_tasks r) @ map fst (rr_skipped r)) = {''h1''}" "distinct (map Task_host_id (rr_tasks r) @ map fst (rr_skipped r))"
    using rollout_covers_targets [OF r b, of "''h1''"] hosts hid by (simp_all add: pk_unique_def ready_world_def empty_db_def)
  then have "map Task_host_id (rr_tasks r) @ map fst (rr_skipped r) = [''h1'']"
    by (rule distinct_singleton_list)
  then show ?thesis using r by blast
qed

end
