(* ===== verification/Agent_Urls.thy ===== *)
theory Agent_Urls
  imports Agent_Store
begin

text \<open>
  The broker address handed to an agent, \<^verbatim>\<open>agent_amqp_url\<close> of \<^verbatim>\<open>app/services/hosts.py\<close>, and how such an
  address is read, \<^verbatim>\<open>_amqp_parts\<close> of \<^verbatim>\<open>app/messaging/management.py\<close>; below them the part of
  \<^verbatim>\<open>urllib.parse\<close> the two use. Texts are sequences of bytes. That the host between brackets is an IP
  address, and that a network location is free of compatibility characters, is not checked here.
\<close>

section \<open>Splitting a URL\<close>

definition before :: "char \<Rightarrow> string \<Rightarrow> string" where
  "before c s = takeWhile (\<lambda>x. x \<noteq> c) s"

definition after :: "char \<Rightarrow> string \<Rightarrow> string" where
  "after c s = drop 1 (dropWhile (\<lambda>x. x \<noteq> c) s)"

definition before_last :: "char \<Rightarrow> string \<Rightarrow> string" where
  "before_last c s = rev (after c (rev s))"

definition after_last :: "char \<Rightarrow> string \<Rightarrow> string" where
  "after_last c s = rev (before c (rev s))"

record url_parts =
  url_scheme :: string
  url_netloc :: string
  url_path :: string

definition scheme_char :: "char \<Rightarrow> bool" where
  "scheme_char c \<longleftrightarrow> is_letter c \<or> is_digit c \<or> c \<in> set ''+-.''"

definition split_scheme :: "string \<Rightarrow> string \<times> string" where
  "split_scheme u = (let s = before (CHR '':'') u in
     if CHR '':'' \<in> set u \<and> s \<noteq> [] \<and> is_letter (hd s) \<and> list_all scheme_char s
     then (py_lower s, after (CHR '':'') u) else ([], u))"

definition end_netloc :: "char \<Rightarrow> bool" where
  "end_netloc c \<longleftrightarrow> c \<in> {CHR ''/'', CHR ''?'', CHR ''#''}"

definition split_netloc :: "string \<Rightarrow> string \<times> string" where
  "split_netloc rest = (if py_startswith rest ''//''
     then (takeWhile (Not \<circ> end_netloc) (drop 2 rest), dropWhile (Not \<circ> end_netloc) (drop 2 rest)) else ([], rest))"

definition urlsplit :: "string \<Rightarrow> url_parts res" where
  "urlsplit text =
     (let u = filter (\<lambda>c. c \<notin> {CHR 0x09, CHR 0x0D, CHR 0x0A})
                (lstrip_by (\<lambda>c. (of_char c :: nat) \<le> 32) text);
          (scheme, rest) = split_scheme u;
          (netloc, path) = split_netloc rest
      in if (CHR ''['' \<in> set netloc) \<noteq> (CHR '']'' \<in> set netloc) then Inl ValueError
         else Inr \<lparr>url_scheme = scheme, url_netloc = netloc,
                   url_path = before (CHR ''?'') (before (CHR ''#'') path)\<rparr>)"

definition url_userinfo :: "url_parts \<Rightarrow> string option \<times> string option" where
  "url_userinfo p = (if CHR ''@'' \<in> set (url_netloc p)
     then let info = before_last (CHR ''@'') (url_netloc p) in
       (Some (before (CHR '':'') info), if CHR '':'' \<in> set info then Some (after (CHR '':'') info) else None)
     else (None, None))"

definition url_hostinfo :: "url_parts \<Rightarrow> string \<times> string" where
  "url_hostinfo p = (let hostinfo = after_last (CHR ''@'') (url_netloc p) in
     if CHR ''['' \<in> set hostinfo
     then let bracketed = after (CHR ''['') hostinfo
          in (before (CHR '']'') bracketed, after (CHR '':'') (after (CHR '']'') bracketed))
     else (before (CHR '':'') hostinfo, after (CHR '':'') hostinfo))"

definition url_hostname :: "url_parts \<Rightarrow> string" where
  "url_hostname p = (let h = fst (url_hostinfo p) in
     py_lower (takeWhile (\<lambda>c. c \<noteq> CHR ''%'') h) @ dropWhile (\<lambda>c. c \<noteq> CHR ''%'') h)"

definition url_port :: "url_parts \<Rightarrow> int option res" where
  "url_port p = (let port = snd (url_hostinfo p) in
     if port = [] then Inr None
     else if \<not> list_all is_digit port then Inl ValueError
     else if 65535 < digits_value port then Inl ValueError
     else Inr (Some (digits_value port)))"

section \<open>Unquoting\<close>

definition hex_value :: "char \<Rightarrow> nat option" where
  "hex_value c = (let n = (of_char c :: nat) in
     if 48 \<le> n \<and> n \<le> 57 then Some (n - 48)
     else if 65 \<le> n \<and> n \<le> 70 then Some (n - 55)
     else if 97 \<le> n \<and> n \<le> 102 then Some (n - 87) else None)"

fun url_unquote :: "string \<Rightarrow> string" where
  "url_unquote (c # a # b # cs) =
     (if c = CHR ''%'' then
        (case (hex_value a, hex_value b) of
           (Some x, Some y) \<Rightarrow> char_of (16 * x + y) # url_unquote cs
         | _ \<Rightarrow> c # url_unquote (a # b # cs))
      else c # url_unquote (a # b # cs))"
| "url_unquote cs = cs"

section \<open>The address of the broker\<close>

definition opt_unquote :: "string option \<Rightarrow> string" where
  "opt_unquote v = (if opt_truthy v then url_unquote (or_empty v) else ''guest'')"

definition amqp_parts :: "string \<Rightarrow> (string \<times> string \<times> string) res" where
  "amqp_parts url = sbind (urlsplit url) (\<lambda>p.
     let (u, pw) = url_userinfo p;
         vhost = url_unquote (if py_startswith (url_path p) ''/'' then drop 1 (url_path p) else url_path p)
     in Inr (opt_unquote u, opt_unquote pw, if vhost = [] then ''/'' else vhost))"

definition agent_base_url :: "settings \<Rightarrow> string" where
  "agent_base_url st = (if agent_rabbitmq_url st = [] then rabbitmq_url st else agent_rabbitmq_url st)"

definition or_text :: "string \<Rightarrow> string \<Rightarrow> string" where
  "or_text a b = (if a = [] then b else a)"

definition agent_netloc :: "string \<Rightarrow> int option \<Rightarrow> string" where
  "agent_netloc hostname port = or_text hostname ''localhost''
     @ (case port of None \<Rightarrow> [] | Some n \<Rightarrow> if n = 0 then [] else '':'' @ int_str n)"

definition agent_amqp_url :: "settings \<Rightarrow> host \<Rightarrow> string res" where
  "agent_amqp_url st h = sbind (urlsplit (agent_base_url st)) (\<lambda>parts. sbind (url_port parts) (\<lambda>port.
     Inr (or_text (url_scheme parts) ''amqp'' @ ''://'' @ url_quote (or_empty (Host_agent_rmq_user h)) @ '':''
        @ url_quote (or_empty (Host_agent_rmq_password h)) @ ''@'' @ agent_netloc (url_hostname parts) port
        @ or_text (url_path parts) ''/'')))"

section \<open>Lemmas\<close>

subsection \<open>Quoting\<close>

lemma hex_digit_code:
  "n < 10 \<Longrightarrow> (of_char (hex_digit n) :: nat) = 48 + n"
  "\<not> n < 10 \<Longrightarrow> n < 16 \<Longrightarrow> (of_char (hex_digit n) :: nat) = 55 + n"
  by (simp_all add: hex_digit_def)

lemma hex_value_digit: "n < 16 \<Longrightarrow> hex_value (hex_digit n) = Some n"
  by (cases "n < 10") (simp_all add: hex_value_def Let_def hex_digit_code)

lemma lower_code: "(of_char (lower_char c) :: nat) =
    (if 65 \<le> (of_char c :: nat) \<and> (of_char c :: nat) \<le> 90 then of_char c + 32 else of_char c)"
  by (simp add: lower_char_def)

lemma letter_code: "is_letter c \<longleftrightarrow> (97 \<le> (of_char c :: nat) \<and> (of_char c :: nat) \<le> 122) \<or> (65 \<le> (of_char c :: nat) \<and> (of_char c :: nat) \<le> 90)"
  by (auto simp: is_letter_def lower_code)

lemma hex_digit_plain: "n < 16 \<Longrightarrow> url_safe (hex_digit n)"
  by (cases "n < 10") (simp_all add: url_safe_def letter_code is_digit_def hex_digit_code)

lemma unquote_safe: "c \<noteq> CHR ''%'' \<Longrightarrow> url_unquote (c # s) = c # url_unquote s"
  by (cases s rule: url_unquote.cases) auto

lemma unquote_escape:
  "x < 16 \<Longrightarrow> y < 16 \<Longrightarrow> url_unquote (CHR ''%'' # hex_digit x # hex_digit y # s) = char_of (16 * x + y) # url_unquote s"
  by (simp add: hex_value_digit)

lemma unquote_quote_char: "url_unquote (quote_char c @ s) = c # url_unquote s"
proof (cases "url_safe c")
  case True
  then have "c \<noteq> CHR ''%''" by (auto simp: url_safe_def letter_code is_digit_def)
  then show ?thesis using True by (simp add: quote_char_def unquote_safe)
next
  case False
  have lt: "(of_char c :: nat) div 16 < 16" "(of_char c :: nat) mod 16 < 16"
    using nat_of_char_less_256 [of c] by (simp_all add: less_mult_imp_div_less)
  have "16 * ((of_char c :: nat) div 16) + of_char c mod 16 = of_char c" by simp
  then show ?thesis using False unquote_escape [OF lt] by (simp add: quote_char_def)
qed

lemma unquote_quote: "url_unquote (url_quote s) = s"
proof (induction s)
  case (Cons c s)
  then show ?case by (simp add: url_quote_def unquote_quote_char)
qed (simp add: url_quote_def)

lemma quote_plain: "c \<in> set (url_quote s) \<Longrightarrow> url_safe c \<or> c = CHR ''%''"
proof -
  assume "c \<in> set (url_quote s)"
  then obtain d where d: "c \<in> set (quote_char d)" by (auto simp: url_quote_def)
  have lt: "(of_char d :: nat) div 16 < 16" "(of_char d :: nat) mod 16 < 16"
    using nat_of_char_less_256 [of d] by (simp_all add: less_mult_imp_div_less)
  show ?thesis using d hex_digit_plain [OF lt(1)] hex_digit_plain [OF lt(2)]
    by (auto simp: quote_char_def split: if_splits)
qed

lemma quote_nonempty: "s \<noteq> [] \<Longrightarrow> url_quote s \<noteq> []"
  by (cases s) (auto simp: url_quote_def quote_char_def)

subsection \<open>Partitions\<close>

lemma partition_simps [simp]:
  "c \<notin> set s \<Longrightarrow> before c (s @ c # t) = s" "c \<notin> set s \<Longrightarrow> after c (s @ c # t) = t"
  "c \<notin> set s \<Longrightarrow> before c s = s" "c \<notin> set s \<Longrightarrow> after c s = []"
  by (induction s) (auto simp: before_def after_def)

lemma partition_last_simps [simp]:
  "c \<notin> set t \<Longrightarrow> before_last c (s @ c # t) = s" "c \<notin> set t \<Longrightarrow> after_last c (s @ c # t) = t"
  by (simp_all add: before_last_def after_last_def)

lemma after_last_none [simp]: "c \<notin> set s \<Longrightarrow> after_last c s = s"
  by (simp add: after_last_def)

lemma before_subset: "set (before c s) \<subseteq> set s" "c \<notin> set (before c s)" "set (after c s) \<subseteq> set s"
  by (auto simp: before_def after_def dest: set_takeWhileD set_dropWhileD in_set_dropD)

lemma after_last_subset: "set (after_last c s) \<subseteq> set s" "c \<notin> set (after_last c s)"
  using before_subset [of c "rev s"] by (auto simp: after_last_def)

lemma lower_char_other: "\<not> is_letter x \<Longrightarrow> lower_char c = x \<Longrightarrow> c = x"
  by (cases "65 \<le> (of_char c :: nat) \<and> (of_char c :: nat) \<le> 90") (auto simp: letter_code lower_code lower_char_def)

lemma py_lower_keeps: "\<not> is_letter x \<Longrightarrow> x \<in> set (py_lower s) \<Longrightarrow> x \<in> set s"
  using lower_char_other unfolding py_lower_def by (metis imageE list.set_map)

lemma lower_idem: "lower_char (lower_char c) = lower_char c"
  by (simp add: lower_char_def)

lemma py_lower_idem: "py_lower (py_lower s) = py_lower s"
  by (simp add: py_lower_def lower_idem)

subsection \<open>A URL put together and split again\<close>

definition scheme_ok :: "string \<Rightarrow> bool" where
  "scheme_ok s \<longleftrightarrow> s \<noteq> [] \<and> is_letter (hd s) \<and> list_all scheme_char s \<and> py_lower s = s"

definition free_of :: "string \<Rightarrow> string \<Rightarrow> bool" where
  "free_of bad s \<longleftrightarrow> list_all (\<lambda>c. c \<notin> set bad \<and> c \<notin> {CHR 0x09, CHR 0x0D, CHR 0x0A}) s"

lemma free_of_simps [simp]:
  "free_of bad []" "free_of bad (s @ t) \<longleftrightarrow> free_of bad s \<and> free_of bad t"
  "free_of bad (c # s) \<longleftrightarrow> c \<notin> set bad \<and> c \<notin> {CHR 0x09, CHR 0x0D, CHR 0x0A} \<and> free_of bad s"
  by (simp_all add: free_of_def)

lemma free_ofD: "free_of bad s \<Longrightarrow> c \<in> set bad \<Longrightarrow> c \<notin> set s"
  by (auto simp: free_of_def list_all_iff)

lemma free_of_subset: "free_of bad s \<Longrightarrow> set t \<subseteq> set s \<Longrightarrow> free_of bad t"
  by (auto simp: free_of_def list_all_iff)

lemma free_of_weaken: "free_of bad s \<Longrightarrow> set bad' \<subseteq> set bad \<Longrightarrow> free_of bad' s"
  by (auto simp: free_of_def list_all_iff)

lemma scheme_char_plain: "list_all scheme_char s \<Longrightarrow> free_of '':/?#@[]'' s"
  by (auto simp: free_of_def scheme_char_def letter_code is_digit_def list_all_iff)

lemma urlsplit_build:
  assumes s: "scheme_ok s" and n: "free_of ''/?#[]'' n" and q: "free_of ''?#'' q" "py_startswith q ''/''"
  shows "urlsplit (s @ ''://'' @ n @ q) = Inr \<lparr>url_scheme = s, url_netloc = n, url_path = q\<rparr>"
proof -
  let ?u = "s @ ''://'' @ n @ q"
  obtain c t where c: "s = c # t" "is_letter c" using s by (cases s) (auto simp: scheme_ok_def)
  have sp: "free_of '':/?#@[]'' s" using s scheme_char_plain by (simp add: scheme_ok_def)
  have strip: "lstrip_by (\<lambda>c. (of_char c :: nat) \<le> 32) ?u = ?u"
    using c(2) by (auto simp: lstrip_by_def c(1) letter_code)
  have "free_of [] ?u" using free_of_weaken [OF sp] free_of_weaken [OF n] free_of_weaken [OF q(1)] by simp
  then have same: "filter (\<lambda>c. c \<notin> {CHR 0x09, CHR 0x0D, CHR 0x0A}) ?u = ?u"
    by (simp only: filter_id_conv free_of_def list_all_iff) blast
  have col: "CHR '':'' \<notin> set s" using free_ofD [OF sp] by simp
  have "split_scheme ?u = (s, ''//'' @ n @ q)"
    using s col by (auto simp: split_scheme_def scheme_ok_def Let_def)
  moreover have n': "c \<in> set n \<Longrightarrow> \<not> end_netloc c" for c
    using free_ofD [OF n] by (auto simp: end_netloc_def)
  moreover obtain q' where q': "q = CHR ''/'' # q'" using q(2) by (cases q) (auto simp: py_startswith_def)
  have "split_netloc (''//'' @ n @ q) = (n, q)"
    using n' by (simp add: split_netloc_def py_startswith_def takeWhile_append dropWhile_append q' end_netloc_def)
  moreover have "CHR ''['' \<notin> set n" "CHR '']'' \<notin> set n" "CHR ''?'' \<notin> set q" "CHR ''#'' \<notin> set q"
    using free_ofD [OF n] free_ofD [OF q(1)] by simp_all
  ultimately show ?thesis
    unfolding urlsplit_def strip same Let_def by (simp add: py_startswith_def)
qed

lemma urlsplit_facts:
  assumes "urlsplit b = Inr p"
  shows "url_scheme p = [] \<or> scheme_ok (url_scheme p)" "free_of ''/?#'' (url_netloc p)" "free_of ''?#'' (url_path p)"
    "CHR ''['' \<in> set (url_netloc p) \<longleftrightarrow> CHR '']'' \<in> set (url_netloc p)"
proof -
  let ?f = "\<lambda>c. c \<notin> {CHR 0x09, CHR 0x0D, CHR 0x0A}"
  define u where "u = filter ?f (lstrip_by (\<lambda>c. (of_char c :: nat) \<le> 32) b)"
  obtain sc rest where sr: "split_scheme u = (sc, rest)" by fastforce
  have u: "free_of [] u" by (auto simp: u_def free_of_def list_all_iff)
  have lower_ok: "is_letter c \<Longrightarrow> is_letter (lower_char c)" "scheme_char c \<Longrightarrow> scheme_char (lower_char c)" for c
    by (auto simp: scheme_char_def letter_code is_digit_def lower_code lower_char_def)
  have sc: "sc = [] \<or> scheme_ok sc"
    using sr lower_ok by (auto simp: split_scheme_def scheme_ok_def Let_def py_lower_idem py_lower_def hd_map list_all_iff lower_idem split: if_splits)
  have "set rest \<subseteq> set u" using sr before_subset(3) by (auto simp: split_scheme_def Let_def split: if_splits)
  then have rest: "free_of [] rest" using free_of_subset [OF u] by blast
  obtain nl q0 where np: "split_netloc rest = (nl, q0)" by fastforce
  have p: "(CHR ''['' \<in> set nl) = (CHR '']'' \<in> set nl)"
      "p = \<lparr>url_scheme = sc, url_netloc = nl, url_path = before (CHR ''?'') (before (CHR ''#'') q0)\<rparr>"
    using assms unfolding urlsplit_def Let_def u_def [symmetric] sr np prod.case by (simp_all split: if_splits)
  have sub: "set nl \<subseteq> set rest" "set q0 \<subseteq> set rest" "\<forall>c\<in>set nl. \<not> end_netloc c"
    using np by (auto simp: split_netloc_def dest!: set_takeWhileD set_dropWhileD in_set_dropD split: if_splits)
  have n: "free_of ''/?#'' nl" using free_of_subset [OF rest sub(1)] sub(3) by (auto simp: free_of_def list_all_iff end_netloc_def)
  let ?q = "before (CHR ''?'') (before (CHR ''#'') q0)"
  have "set ?q \<subseteq> set rest" "CHR ''?'' \<notin> set ?q" "CHR ''#'' \<notin> set ?q"
    using sub(2) before_subset(1) [of "CHR ''?''" "before (CHR ''#'') q0"] before_subset(1,2) [of "CHR ''#''" q0]
      before_subset(2) [of "CHR ''?''" "before (CHR ''#'') q0"] by blast+
  then have q: "free_of ''?#'' ?q" using free_of_subset [OF rest] by (auto simp: free_of_def list_all_iff)
  show "url_scheme p = [] \<or> scheme_ok (url_scheme p)" "free_of ''/?#'' (url_netloc p)" "free_of ''?#'' (url_path p)"
    "CHR ''['' \<in> set (url_netloc p) \<longleftrightarrow> CHR '']'' \<in> set (url_netloc p)"
    using sc n q p by simp_all
qed

subsection \<open>The parts of an agent's address\<close>

lemma py_lower_nil: "py_lower s = [] \<longleftrightarrow> s = []"
  by (simp add: py_lower_def)

lemma hostname_plain:
  assumes "free_of ''/?#'' (url_netloc p)" and "CHR ''['' \<notin> set (url_netloc p)" and "CHR '']'' \<notin> set (url_netloc p)"
  shows "free_of '':/?#@[]'' (url_hostname p)"
proof -
  let ?i = "after_last (CHR ''@'') (url_netloc p)"
  have i: "free_of ''/?#'' ?i" "CHR ''['' \<notin> set ?i" "CHR '']'' \<notin> set ?i" "CHR ''@'' \<notin> set ?i"
    using free_of_subset [OF assms(1)] after_last_subset [of "CHR ''@''" "url_netloc p"] assms(2,3) by blast+
  let ?h = "before (CHR '':'') ?i"
  have eq: "fst (url_hostinfo p) = ?h" using i(2) by (simp add: url_hostinfo_def Let_def)
  have hs: "set ?h \<subseteq> set ?i" "CHR '':'' \<notin> set ?h" by (rule before_subset)+
  have h: "free_of '':/?#@[]'' ?h"
    using free_of_subset [OF i(1) hs(1)] i hs unfolding free_of_def list_all_iff by auto
  have x: "c \<in> set (url_hostname p) \<Longrightarrow> \<not> is_letter c \<Longrightarrow> c \<in> set ?h" for c
    unfolding url_hostname_def Let_def eq by (auto dest!: py_lower_keeps set_takeWhileD set_dropWhileD)
  have "\<not> is_letter c" if "c \<in> set '':/?#@[]'' \<or> c \<in> {CHR 0x09, CHR 0x0D, CHR 0x0A}" for c
    using that by (auto simp: letter_code)
  then show ?thesis using x h unfolding free_of_def list_all_iff by metis
qed

lemma hostname_idem:
  "py_lower (takeWhile (\<lambda>c. c \<noteq> CHR ''%'') (url_hostname p)) @ dropWhile (\<lambda>c. c \<noteq> CHR ''%'') (url_hostname p) = url_hostname p"
proof -
  define h where "h = fst (url_hostinfo p)"
  let ?l = "py_lower (takeWhile (\<lambda>c. c \<noteq> CHR ''%'') h)" and ?r = "dropWhile (\<lambda>c. c \<noteq> CHR ''%'') h"
  have "\<not> is_letter (CHR ''%'')" by (simp add: letter_code)
  then have l: "CHR ''%'' \<notin> set ?l" using py_lower_keeps set_takeWhileD by fastforce
  then have "\<forall>c\<in>set ?l. c \<noteq> CHR ''%''" by blast
  then have "takeWhile (\<lambda>c. c \<noteq> CHR ''%'') (?l @ ?r) = ?l @ takeWhile (\<lambda>c. c \<noteq> CHR ''%'') ?r"
      "dropWhile (\<lambda>c. c \<noteq> CHR ''%'') (?l @ ?r) = dropWhile (\<lambda>c. c \<noteq> CHR ''%'') ?r"
    by (simp_all add: takeWhile_append2 dropWhile_append2)
  moreover have "takeWhile (\<lambda>c. c \<noteq> CHR ''%'') ?r = []" "dropWhile (\<lambda>c. c \<noteq> CHR ''%'') ?r = ?r"
    by (metis (mono_tags, lifting) dropWhile_idem takeWhile_eq_Nil_iff hd_dropWhile) (rule dropWhile_idem)
  ultimately show ?thesis unfolding url_hostname_def Let_def h_def [symmetric] by (simp add: py_lower_idem)
qed

lemma digits_plain: "0 \<le> n \<Longrightarrow> free_of '':/?#@[]'' (int_str n)"
  using int_str_digits(2) [of n] by (auto simp: free_of_def list_all_iff is_digit_def)

lemma digits_value_nonneg: "0 \<le> digits_value ds"
  by (induction ds rule: rev_induct) (simp_all add: digits_value_snoc, simp add: digits_value_def)

lemma port_range: "url_port p = Inr (Some n) \<Longrightarrow> 0 \<le> n \<and> n \<le> 65535"
  by (auto simp: url_port_def Let_def digits_value_nonneg split: if_splits)

lemma quote_free: "free_of '':/?#@[]'' (url_quote s)"
proof -
  have "\<not> url_safe c" if "c \<in> set '':/?#@[]'' \<or> c \<in> {CHR 0x09, CHR 0x0D, CHR 0x0A}" for c
    using that by (auto simp: url_safe_def letter_code is_digit_def)
  moreover have "c \<noteq> CHR ''%''" if "c \<in> set '':/?#@[]'' \<or> c \<in> {CHR 0x09, CHR 0x0D, CHR 0x0A}" for c
    using that by auto
  ultimately show ?thesis using quote_plain unfolding free_of_def list_all_iff by metis
qed

text \<open>An IPv6 host loses its brackets.\<close>

lemma ipv6_host_breaks:
  "agent_amqp_url (default_settings\<lparr>agent_rabbitmq_url := ''amqp://[::1]:5672/''\<rparr>) h = Inr url \<Longrightarrow>
    Host_agent_rmq_user h = Some ''a'' \<Longrightarrow> Host_agent_rmq_password h = Some ''b'' \<Longrightarrow> url = ''amqp://a:b@::1:5672/''"
proof -
  assume a: "agent_amqp_url (default_settings\<lparr>agent_rabbitmq_url := ''amqp://[::1]:5672/''\<rparr>) h = Inr url"
    "Host_agent_rmq_user h = Some ''a''" "Host_agent_rmq_password h = Some ''b''"
  have "urlsplit ''amqp://[::1]:5672/'' = Inr \<lparr>url_scheme = ''amqp'', url_netloc = ''[::1]:5672'', url_path = ''/''\<rparr>"
    by code_simp
  moreover have "url_hostname \<lparr>url_scheme = ''amqp'', url_netloc = ''[::1]:5672'', url_path = ''/''\<rparr> = ''::1''" by code_simp
  moreover have "url_port \<lparr>url_scheme = ''amqp'', url_netloc = ''[::1]:5672'', url_path = ''/''\<rparr> = Inr (Some 5672)" by code_simp
  moreover have "url_quote ''a'' = ''a''" "url_quote ''b'' = ''b''" by code_simp+
  moreover have "int_str 5672 = ''5672''" by (simp add: int_str_def nat_str.simps digit_char_def, code_simp)
  ultimately show ?thesis using a
    by (simp add: agent_amqp_url_def agent_base_url_def sbind_def or_empty_def or_text_def agent_netloc_def)
qed

section \<open>Properties\<close>



end
