(* ===== verification/Install_Script.thy ===== *)
theory Install_Script
  imports Agent_Urls
begin

text \<open>
  What an operator carries to a new host, from \<^verbatim>\<open>app/services/hosts.py\<close>: the agent's configuration file,
  and the PowerShell script that installs the agent with that file inside a here-string. In the script's
  constant text the backquote, the caret and the tilde stand for the quote, the double quote and the
  backslash; \<open>ps\<close> puts them back. None of the three occurs in the text itself.
\<close>

section \<open>Text\<close>

definition LF :: char where
  "LF = CHR 0x0A"

definition ps_char :: "char \<Rightarrow> char" where
  "ps_char c = (if c = CHR 0x60 then CHR 0x27 else if c = CHR ''^'' then CHR 0x22 else if c = CHR ''~'' then CHR 0x5C else c)"

definition ps :: "string \<Rightarrow> string" where
  "ps s = map ps_char s"

definition unlines :: "string list \<Rightarrow> string" where
  "unlines ls = concat (map (\<lambda>l. l @ [LF]) ls)"

text \<open>\<^verbatim>\<open>str.splitlines\<close>: a carriage return and a line feed together end one line.\<close>

definition line_break :: "char \<Rightarrow> bool" where
  "line_break c \<longleftrightarrow> (of_char c :: nat) \<in> {10, 11, 12, 13, 28, 29, 30, 133}"

definition drop_lf :: "char \<Rightarrow> string \<Rightarrow> string" where
  "drop_lf c cs = (if c = CHR 0x0D \<and> py_startswith cs [LF] then tl cs else cs)"

lemma drop_lf_length [termination_simp]: "length (drop_lf c cs) < Suc (length cs)"
  by (cases cs) (simp_all add: drop_lf_def)

fun splitlines_from :: "string \<Rightarrow> string \<Rightarrow> string list" where
  "splitlines_from acc [] = (if acc = [] then [] else [acc])"
| "splitlines_from acc (c # cs) =
     (if line_break c then acc # splitlines_from [] (drop_lf c cs) else splitlines_from (acc @ [c]) cs)"

definition py_splitlines :: "string \<Rightarrow> string list" where
  "py_splitlines s = splitlines_from [] s"

section \<open>The configuration file\<close>

definition render_agent_config :: "settings \<Rightarrow> host \<Rightarrow> string res" where
  "render_agent_config st h = sbind (agent_amqp_url st h) (\<lambda>url. Inr (unlines
    [''[agent]'',
     ''host_id = '' @ Host_short_id h,
     ''rabbitmq_url = '' @ url,
     [],
     ''log_level = info'',
     ''task_timeout = 60'',
     ''refresh_interval_vms = 180'',
     ''refresh_interval_host = 600'',
     ''metrics_interval = 300'',
     ''max_concurrent_jobs = 4'',
     [],
     ''; Required - point these at real directories on this host:'',
     ps ''template_path = D:~HyperV~TEMPLATES'',
     ps ''local_iso_path = D:~HyperV~ISOS'',
     [],
     ''; Optional - extra VM storage roots, semicolon-separated:'',
     ps ''; aditional_vm_storage = E:~HyperV'']))"

section \<open>The script\<close>

definition INSTALL_DIR :: string where
  "INSTALL_DIR = ps ''C:~Program Files~ovc-agent''"

definition defuse :: "string \<Rightarrow> string" where
  "defuse row = (if py_startswith row (ps ''`@'') then CHR '' '' # row else row)"

definition ps_here_string :: "string \<Rightarrow> string" where
  "ps_here_string body = ps ''@`'' @ LF # py_join [LF] (map defuse (py_splitlines body)) @ LF # ps ''`@''"

definition script_head :: "host \<Rightarrow> string \<Rightarrow> string \<Rightarrow> string \<Rightarrow> string list" where
  "script_head h url checksum version =
    [''#Requires -RunAsAdministrator'',
     ps ''$ErrorActionPreference = `Stop`'',
     ps ''$ProgressPreference = `SilentlyContinue`'',
     ps ''# ovc-agent installer for host `'' @ Host_name h @ ps ''` ('' @ Host_short_id h @ '')'',
     ''# agent '' @ version @ ''  SHA-256 '' @ checksum,
     [],
     ps ''$InstallDir  = `'' @ INSTALL_DIR @ ps ''`'',
     ps ''$ExePath     = Join-Path $InstallDir `ovc-agent.exe`'',
     ps ''$ConfigPath  = Join-Path $InstallDir `config.ini`'',
     ps ''$ServiceName = `ovc-agent`'',
     ps ''$DownloadUrl = `'' @ url @ ps ''`'',
     ps ''$Checksum    = `'' @ py_upper checksum @ ps ''`'',
     [],
     ps ''Write-Host ^Installing ovc-agent into $InstallDir ...^'',
     ''New-Item -ItemType Directory -Force -Path $InstallDir | Out-Null'',
     [],
     ''$svc = Get-Service -Name $ServiceName -ErrorAction SilentlyContinue'',
     ps ''if ($svc -and $svc.Status -ne `Stopped`) {'',
     ps ''    Write-Host `Stopping the running ovc-agent service so the binary can be replaced...`'',
     ''    Stop-Service -Name $ServiceName -Force'',
     ''}'',
     [],
     ps ''Write-Host `Downloading the agent binary...`'',
     ''[Net.ServicePointManager]::SecurityProtocol = [Net.SecurityProtocolType]::Tls12'',
     ps ''$tmp = ^$ExePath.download^'',
     ''Invoke-WebRequest -Uri $DownloadUrl -OutFile $tmp -UseBasicParsing'',
     ''$hash = (Get-FileHash $tmp -Algorithm SHA256).Hash'',
     ''if ($hash -ne $Checksum) {'',
     ''    Remove-Item $tmp -Force'',
     ps ''    throw ^checksum mismatch: got $hash, expected $Checksum^'',
     ''}'',
     ''Move-Item $tmp $ExePath -Force'',
     ps ''Write-Host ^Agent binary written to $ExePath^'',
     []]"

definition script_tail :: "string list" where
  "script_tail =
    [''if (Test-Path $ConfigPath) {'',
     ps ''    Write-Host ^config.ini already exists at $ConfigPath - keeping it (not overwritten).^'',
     ''} else {'',
     ''    Set-Content -Path $ConfigPath -Value $ConfigBody -Encoding UTF8'',
     ps ''    Write-Host ^Wrote $ConfigPath^'',
     ''}'',
     [],
     ''if (-not (Get-Service -Name $ServiceName -ErrorAction SilentlyContinue)) {'',
     ps ''    Write-Host `Installing the ovc-agent Windows service...`'',
     ''    & $ExePath install'',
     ps ''    if ($LASTEXITCODE -ne 0) { throw ^ovc-agent.exe install failed (exit $LASTEXITCODE)^ }'',
     ''} else {'',
     ps ''    Write-Host `ovc-agent Windows service already installed.`'',
     ''}'',
     [],
     ''try { Start-Process notepad.exe $ConfigPath } catch {'',
     ps ''    Write-Host ^Could not open Notepad - edit $ConfigPath by hand.^'',
     ''}'',
     [],
     ps ''Write-Host ``'',
     ps ''Write-Host `============================================================`'',
     ps ''Write-Host ` ovc-agent is installed but NOT started yet.`'',
     ps ''Write-Host ``'',
     ps ''Write-Host ^ 1. Edit  $ConfigPath  (opened in Notepad) and set:^'',
     ps ''Write-Host `      template_path   = existing folder for exported VM templates`'',
     ps ''Write-Host `      local_iso_path  = existing folder that holds your ISO files`'',
     ps ''Write-Host `    then save the file.`'',
     ps ''Write-Host ``'',
     ps ''Write-Host ` 2. Start the service:`'',
     ps ''Write-Host ^      Start-Service $ServiceName^'',
     ps ''Write-Host ``'',
     ps ''Write-Host `    Confirm it is running:`'',
     ps ''Write-Host ^      Get-Service $ServiceName^'',
     ps ''Write-Host ``'',
     ps ''Write-Host `    Follow the agent log:`'',
     ps ''Write-Host ^      Get-Content `$InstallDir~agent.log` -Wait -Tail 20^'',
     ps ''Write-Host `============================================================`'']"

definition render_agent_install_script :: "host \<Rightarrow> string \<Rightarrow> string \<Rightarrow> string \<Rightarrow> string \<Rightarrow> string" where
  "render_agent_install_script h url checksum version config_ini =
     unlines (script_head h url checksum version) @ ''$ConfigBody = '' @ ps_here_string config_ini @ LF # unlines script_tail"

definition install_script_filename :: "host \<Rightarrow> string" where
  "install_script_filename h = ''ovc-agent-install-'' @ Host_short_id h @ ''.ps1''"

section \<open>Lemmas\<close>

lemma split_sep: "py_split c (s @ c # t) = py_split c s @ py_split c t"
  by (induction s) (auto split: list.splits simp: append_eq_Cons_conv)

lemma splitlines_no_break: "row \<in> set (splitlines_from acc s) \<Longrightarrow> list_all (Not \<circ> line_break) acc \<Longrightarrow> list_all (Not \<circ> line_break) row"
  by (induction acc s rule: splitlines_from.induct) (auto split: if_splits)

lemma splitlines_nonempty: "splitlines_from acc s = [] \<longleftrightarrow> acc = [] \<and> s = []"
  by (induction acc s rule: splitlines_from.induct) auto

lemma LF_break: "line_break LF"
  by (simp add: line_break_def LF_def)

lemma splitlines_no_LF: "row \<in> set (py_splitlines s) \<Longrightarrow> LF \<notin> set row"
  using splitlines_no_break [of row "[]" s] LF_break by (auto simp: py_splitlines_def list_all_iff)

lemma defuse_no_LF: "LF \<notin> set row \<Longrightarrow> LF \<notin> set (defuse row)"
  by (simp add: defuse_def LF_def)

lemma defuse_safe: "\<not> py_startswith (defuse row) (ps ''`@'')"
  by (simp add: defuse_def py_startswith_def ps_def ps_char_def)

text \<open>The lines a here-string holds: an empty body still makes one line.\<close>

definition here_lines :: "string \<Rightarrow> string list" where
  "here_lines body = (if body = [] then [[]] else map defuse (py_splitlines body))"

lemma here_string_lines: "py_split LF (ps_here_string body @ LF # rest) = ps ''@`'' # here_lines body @ ps ''`@'' # py_split LF rest"
proof -
  let ?body = "py_join [LF] (map defuse (py_splitlines body))"
  have "py_split LF ?body = here_lines body"
  proof (cases "body = []")
    case True
    then show ?thesis by (simp add: here_lines_def py_splitlines_def)
  next
    case False
    then have "map defuse (py_splitlines body) \<noteq> []" by (simp add: py_splitlines_def splitlines_nonempty)
    then show ?thesis using False splitlines_no_LF defuse_no_LF
      by (subst py_split_join) (auto simp: here_lines_def)
  qed
  moreover have "py_split LF (ps ''@`'') = [ps ''@`'']" "py_split LF (ps ''`@'') = [ps ''`@'']"
    by (simp_all add: py_split_no_sep ps_def ps_char_def LF_def)
  ultimately show ?thesis by (simp add: ps_here_string_def split_sep)
qed

lemma unlines_append: "unlines (xs @ ys) = unlines xs @ unlines ys"
  by (simp add: unlines_def)

lemma split_unlines_append: "py_split LF (unlines ls @ t) = concat (map (py_split LF) ls) @ py_split LF t"
  by (induction ls) (simp_all add: unlines_def split_sep)

lemma split_prefix: "c \<notin> set p \<Longrightarrow> py_split c (p @ s) = (p @ hd (py_split c s)) # tl (py_split c s)"
proof (induction p)
  case Nil
  then show ?case by (cases "py_split c s") auto
qed auto

lemma script_lines:
  "py_split LF (render_agent_install_script h url checksum version config_ini) =
     concat (map (py_split LF) (script_head h url checksum version))
     @ (''$ConfigBody = '' @ ps ''@`'') # here_lines config_ini @ ps ''`@'' # py_split LF (unlines script_tail)"
proof -
  have "py_split LF (''$ConfigBody = '' @ ps_here_string config_ini @ LF # t)
      = (''$ConfigBody = '' @ ps ''@`'') # here_lines config_ini @ ps ''`@'' # py_split LF t" for t
    using split_prefix [of LF "''$ConfigBody = ''" "ps_here_string config_ini @ LF # t"]
    by (simp add: here_string_lines) (simp add: LF_def)
  then show ?thesis by (simp add: render_agent_install_script_def split_unlines_append)
qed

section \<open>Properties\<close>

text \<open>C23: The configuration cannot escape its here-string: whatever the texts filled in, the lines of the script
  are the head's, the opening line, the configuration's lines, none of which closes the here-string, the
  closing line, and the constant tail.\<close>

theorem config_stays_in_here_string:
  "\<exists>pre. py_split LF (render_agent_install_script h url checksum version config_ini) =
        pre @ (''$ConfigBody = '' @ ps ''@`'') # here_lines config_ini @ ps ''`@'' # py_split LF (unlines script_tail)
      \<and> list_all (\<lambda>row. \<not> py_startswith row (ps ''`@'')) (here_lines config_ini)
      \<and> (list_all (\<lambda>row. \<not> py_startswith row (ps ''`@'')) (py_splitlines config_ini) \<and> config_ini \<noteq> []
           \<longleftrightarrow> here_lines config_ini = py_splitlines config_ini)"
proof -
  have safe: "list_all (\<lambda>row. \<not> py_startswith row (ps ''`@'')) (here_lines config_ini)"
    using defuse_safe by (auto simp: here_lines_def list_all_iff py_startswith_def ps_def)
  have same: "defuse row = row \<longleftrightarrow> \<not> py_startswith row (ps ''`@'')" for row
    by (simp add: defuse_def)
  have "(list_all (\<lambda>row. \<not> py_startswith row (ps ''`@'')) (py_splitlines config_ini) \<and> config_ini \<noteq> [])
           \<longleftrightarrow> here_lines config_ini = py_splitlines config_ini"
    using same map_eq_conv [of defuse "py_splitlines config_ini" id] by (auto simp: here_lines_def list_all_iff py_splitlines_def)
  then show ?thesis using script_lines safe by blast
qed

text \<open>A host's name reaches the script unescaped: text after a line break in it is a line of the script.\<close>

theorem host_name_injects:
  assumes "Host_name h = a @ LF # cmd @ LF # b" and "LF \<notin> set cmd"
  shows "cmd \<in> set (py_split LF (render_agent_install_script h url checksum version config_ini))"
proof -
  let ?row = "ps ''# ovc-agent installer for host `'' @ Host_name h @ ps ''` ('' @ Host_short_id h @ '')''"
  have "?row \<in> set (script_head h url checksum version)" by (simp add: script_head_def)
  moreover have "?row = (ps ''# ovc-agent installer for host `'' @ a) @ LF # cmd @ LF # b @ ps ''` ('' @ Host_short_id h @ '')''"
    by (simp add: assms(1))
  then have "cmd \<in> set (py_split LF ?row)"
    using split_sep [of LF "ps ''# ovc-agent installer for host `'' @ a"] split_sep [of LF cmd] py_split_no_sep [OF assms(2)] by simp
  ultimately show ?thesis by (auto simp: script_lines)
qed

end
