(* ===== verification/Hosts.thy ===== *)
theory Hosts
  imports Agent_Binaries Install_Script Responses Organization
begin

text \<open>
  \<^verbatim>\<open>app/services/hosts.py\<close>: the messaging of a host (its queues, its agent's broker user with permissions
  on those queues only), the registration and removal of a host, and the installer handed to an operator.
  The random identifiers and passwords are arguments; a message channel is open exactly while the broker
  answers, so closing it has no effect.
\<close>

section \<open>Messaging of a host\<close>

definition open_channel :: "unit act" where
  "open_channel w = (if w_broker_up w then (Inr (), w) else (Inl BrokerError, w))"

definition provision_host_queues :: "string \<Rightarrow> unit act" where
  "provision_host_queues host_ref = bind_act open_channel (\<lambda>_. declare_host_queues host_ref)"

definition ensure_all_host_queues :: "nat act" where
  "ensure_all_host_queues =
     bind_act (read_db (\<lambda>db. Inr (map Host_short_id (db_hosts db)))) (\<lambda>short_ids.
     bind_act open_channel (\<lambda>_.
     bind_act (foldA (\<lambda>i _. declare_host_queues i) short_ids ()) (\<lambda>_. ret (length short_ids))))"

text \<open>The row with its missing credentials filled in, and whether it changed.\<close>

definition ensure_host_agent_credentials :: "string \<Rightarrow> host \<Rightarrow> host \<times> bool" where
  "ensure_host_agent_credentials password h =
     (let h1 = (if opt_truthy (Host_agent_rmq_user h) then h
                else h\<lparr>Host_agent_rmq_user := Some (new_agent_rmq_user (Host_short_id h))\<rparr>);
          h2 = (if opt_truthy (Host_agent_rmq_password h) then h1 else h1\<lparr>Host_agent_rmq_password := Some password\<rparr>)
      in (h2, \<not> opt_truthy (Host_agent_rmq_user h) \<or> \<not> opt_truthy (Host_agent_rmq_password h)))"

definition ensure_host_agent_user :: "host \<Rightarrow> unit act" where
  "ensure_host_agent_user h =
     (if \<not> opt_truthy (Host_agent_rmq_user h) \<or> \<not> opt_truthy (Host_agent_rmq_password h) then raise AssertionError
      else let own_queues = agent_permission_pattern (Host_short_id h) in
        bind_act (upsert_user (or_empty (Host_agent_rmq_user h)) (or_empty (Host_agent_rmq_password h))) (\<lambda>_.
          set_permissions (or_empty (Host_agent_rmq_user h)) own_queues (agent_write_pattern (Host_short_id h)) own_queues))"

definition save_host :: "host \<Rightarrow> database \<Rightarrow> database" where
  "save_host h db = db\<lparr>db_hosts := tupd Host_id (Host_id h) (\<lambda>_. h) (db_hosts db)\<rparr>"

definition provision_host_agent_user :: "string \<Rightarrow> host \<Rightarrow> host act" where
  "provision_host_agent_user password h =
     (let h' = fst (ensure_host_agent_credentials password h) in
      bind_act (write_db (save_host h')) (\<lambda>_. bind_act (ensure_host_agent_user h') (\<lambda>_. ret h')))"

definition deprovision_host_messaging :: "string \<Rightarrow> string option \<Rightarrow> unit act" where
  "deprovision_host_messaging host_ref agent_rmq_user =
     bind_act (swallow (bind_act open_channel (\<lambda>_. delete_host_queues host_ref))) (\<lambda>_.
       if opt_truthy agent_rmq_user then swallow (delete_user (or_empty agent_rmq_user)) else ret ())"

section \<open>Registration and removal\<close>

definition new_host :: "ident \<Rightarrow> string \<Rightarrow> string \<Rightarrow> ident option \<Rightarrow> string \<Rightarrow> host" where
  "new_host nid hex nm cid hypervisor =
     \<lparr>Host_id = nid, Host_short_id = new_host_short_id hex, Host_cluster_id = cid, Host_name = py_strip nm,
      Host_fqdn = None, Host_ip_address = None, Host_hypervisor = hypervisor, Host_agent_rmq_user = None,
      Host_agent_rmq_password = None, Host_agent_version = None, Host_agent_last_seen = None,
      Host_agent_refresh_vm = None, Host_agent_refresh_host = None, Host_hardware = None\<rparr>"

text \<open>The unique index on the short id refuses a second row.\<close>

definition insert_host :: "host \<Rightarrow> unit act" where
  "insert_host h = lift_res (\<lambda>db. if Host_short_id h \<in> Host_short_id ` set (db_hosts db) then Inl IntegrityError
     else Inr ((), db\<lparr>db_hosts := db_hosts db @ [h]\<rparr>))"

definition create_host :: "ident \<Rightarrow> string \<Rightarrow> string \<Rightarrow> string \<Rightarrow> ident option \<Rightarrow> string \<Rightarrow> host act" where
  "create_host nid hex password nm cid hypervisor =
     bind_act (read_db (\<lambda>db. case cid of None \<Rightarrow> Inr None
       | Some c \<Rightarrow> (case tget Cluster_id (db_clusters db) c of None \<Rightarrow> Inl not_found | Some r \<Rightarrow> Inr (Some r)))) (\<lambda>cluster.
     if (case cluster of None \<Rightarrow> False | Some c \<Rightarrow> Cluster_hypervisor c \<noteq> hypervisor) then raise invalid
     else let h = new_host nid hex nm cid hypervisor in
       bind_act (insert_host h) (\<lambda>_.
       bind_act (provision_host_queues (Host_short_id h)) (\<lambda>_. provision_host_agent_user password h)))"

definition delete_host :: "host \<Rightarrow> unit act" where
  "delete_host h = bind_act (write_db (delete_host_row h)) (\<lambda>_.
     deprovision_host_messaging (Host_short_id h) (Host_agent_rmq_user h))"

section \<open>The installer\<close>

definition agent_download_unavailable :: exn where
  "agent_download_unavailable = ApiError ''AGENT_DOWNLOAD_UNAVAILABLE'' 409"

definition need_active_binary :: "string \<Rightarrow> agent_binary act" where
  "need_active_binary hypervisor = bind_act (read_db (\<lambda>db. active_agent_binary db hypervisor)) (\<lambda>found.
     case found of None \<Rightarrow> raise no_active_binary | Some b \<Rightarrow> ret b)"

definition build_agent_install_script :: "agent_env \<Rightarrow> settings \<Rightarrow> host \<Rightarrow> (string \<times> string) act" where
  "build_agent_install_script ae st h =
     bind_act (need_active_binary (Host_hypervisor h)) (\<lambda>b.
     with_store ae st (\<lambda>store. with_now (\<lambda>now.
       let url = download_url (ae_hmac ae) (ae_presign ae) st store now (AgentBinary_id b) (AgentBinary_storage_key b)
                   (AgentBinary_filename b)
       in if \<not> opt_truthy url then raise agent_download_unavailable
          else bind_act (pure_act (render_agent_config st h)) (\<lambda>config.
            ret (render_agent_install_script h (or_empty url) (AgentBinary_checksum_sha256 b) (AgentBinary_version b) config,
                 install_script_filename h)))))"

definition install_scope :: "ident \<Rightarrow> string" where
  "install_scope host_id = ''host-install:'' @ host_id"

definition install_command :: "string \<Rightarrow> string \<Rightarrow> string" where
  "install_command url filename = ps ''iwr `'' @ url @ ps ''` -OutFile ^$env:TEMP~'' @ filename
     @ ps ''^ -UseBasicParsing; & ^$env:TEMP~'' @ filename @ ps ''^''"

definition build_agent_install_url :: "agent_env \<Rightarrow> settings \<Rightarrow> host \<Rightarrow> (string \<times> string \<times> instant) act" where
  "build_agent_install_url ae st h =
     bind_act (need_active_binary (Host_hypervisor h)) (\<lambda>_. with_now (\<lambda>now.
       let base = rstrip_slash (public_base_url st) in
       if base = [] then raise agent_download_unavailable
       else let ttl = agent_install_url_ttl_seconds st;
                qs = urlencode (sign_scope (ae_hmac ae) st now (install_scope (Host_id h)) ttl);
                url = base @ api_prefix st @ ''/hosts/'' @ Host_id h @ ''/agent-install.ps1?'' @ qs
            in ret (url, install_command url (install_script_filename h), now + seconds ttl)))"

section \<open>Lemmas\<close>

definition host_queues_declared :: "world \<Rightarrow> string \<Rightarrow> bool" where
  "host_queues_declared w host_ref \<longleftrightarrow> list_all (\<lambda>k. map_of (w_queues w) (queue_name host_ref k) \<noteq> None) ALL_KINDS"

definition scoped_user :: "host \<Rightarrow> rmq_user" where
  "scoped_user h = \<lparr>rmq_password = or_empty (Host_agent_rmq_password h),
     rmq_configure = Some (agent_permission_pattern (Host_short_id h)),
     rmq_write = Some (agent_write_pattern (Host_short_id h)), rmq_read = Some (agent_permission_pattern (Host_short_id h))\<rparr>"

definition has_credentials :: "host \<Rightarrow> bool" where
  "has_credentials h \<longleftrightarrow> opt_truthy (Host_agent_rmq_user h) \<and> opt_truthy (Host_agent_rmq_password h)"

definition agent_user_ready :: "world \<Rightarrow> host \<Rightarrow> bool" where
  "agent_user_ready w h \<longleftrightarrow> has_credentials h \<and> map_of (w_users w) (or_empty (Host_agent_rmq_user h)) = Some (scoped_user h)"

subsection \<open>Queues\<close>

lemma declare_map:
  "map_of (foldl (\<lambda>qs k. case map_of qs (queue_name r k) of None \<Rightarrow> AList.update (queue_name r k) [] qs | Some _ \<Rightarrow> qs) qs ks) q
     = (case map_of qs q of Some ms \<Rightarrow> Some ms | None \<Rightarrow> if q \<in> queue_name r ` set ks then Some [] else None)"
proof (induction ks arbitrary: qs)
  case (Cons k ks)
  show ?case by (cases "map_of qs (queue_name r k)") (auto simp: Cons.IH AList.update_conv' split: option.splits)
qed (simp split: option.splits)

lemma declare_effect:
  assumes "declare_host_queues r w = (res, w')"
  shows "w' = w\<lparr>w_queues := w_queues w'\<rparr>"
    "res = Inr () \<Longrightarrow> map_of (w_queues w') q = (case map_of (w_queues w) q of Some ms \<Rightarrow> Some ms
        | None \<Rightarrow> if q \<in> queue_name r ` set ALL_KINDS then Some [] else None)"
  using assms by (auto simp: declare_host_queues_def declare_map split: if_splits)

lemma declare_declared: "declare_host_queues r w = (Inr (), w') \<Longrightarrow> host_queues_declared w' r"
  unfolding host_queues_declared_def list_all_iff by (auto simp: declare_effect(2) split: option.splits)

lemma declared_mono:
  "(\<And>q. map_of (w_queues w) q \<noteq> None \<Longrightarrow> map_of (w_queues w') q \<noteq> None) \<Longrightarrow> host_queues_declared w r \<Longrightarrow> host_queues_declared w' r"
  by (auto simp: host_queues_declared_def list_all_iff)

lemma delete_queues_map:
  "map_of (filter (\<lambda>q. fst q \<notin> A) qs) q = (if q \<in> A then None else map_of qs q)"
  by (induction qs) auto

subsection \<open>Users\<close>

lemma credentials_fields [simp]:
  "Host_id (fst (ensure_host_agent_credentials pw h)) = Host_id h"
  "Host_short_id (fst (ensure_host_agent_credentials pw h)) = Host_short_id h"
  by (simp_all add: ensure_host_agent_credentials_def Let_def)

lemma credentials_filled: "pw \<noteq> [] \<Longrightarrow> has_credentials (fst (ensure_host_agent_credentials pw h))"
  by (auto simp: ensure_host_agent_credentials_def has_credentials_def Let_def opt_truthy_def new_agent_rmq_user_def)

lemma ensure_user_effect:
  assumes "ensure_host_agent_user h w = (Inr (), w')"
  shows "agent_user_ready w' h" "w' = w\<lparr>w_users := w_users w'\<rparr>"
    "u \<noteq> or_empty (Host_agent_rmq_user h) \<Longrightarrow> map_of (w_users w') u = map_of (w_users w) u"
  using assms
  by (auto simp: ensure_host_agent_user_def bind_act_Inr raise_def upsert_user_def set_permissions_def AList.update_conv'
      agent_user_ready_def has_credentials_def scoped_user_def Let_def split: if_splits option.splits)

lemma provision_user_effect:
  assumes "provision_host_agent_user pw h w = (Inr h', w')"
  shows "h' = fst (ensure_host_agent_credentials pw h)" "agent_user_ready w' h'"
    "w' = w\<lparr>w_db := save_host h' (w_db w), w_users := w_users w'\<rparr>"
    "u \<noteq> or_empty (Host_agent_rmq_user h') \<Longrightarrow> map_of (w_users w') u = map_of (w_users w) u"
proof -
  have h': "h' = fst (ensure_host_agent_credentials pw h)"
    and e: "ensure_host_agent_user h' (w\<lparr>w_db := save_host h' (w_db w)\<rparr>) = (Inr (), w')"
    using assms by (auto simp: provision_host_agent_user_def bind_act_Inr write_db_def ret_def Let_def)
  show "h' = fst (ensure_host_agent_credentials pw h)" by (rule h')
  show "agent_user_ready w' h'" by (rule ensure_user_effect(1) [OF e])
  show "w' = w\<lparr>w_db := save_host h' (w_db w), w_users := w_users w'\<rparr>" using ensure_user_effect(2) [OF e] by simp
  show "map_of (w_users w') u = map_of (w_users w) u" if "u \<noteq> or_empty (Host_agent_rmq_user h')"
    using ensure_user_effect(3) [OF e that] by simp
qed

subsection \<open>Registration\<close>

lemma create_host_steps:
  assumes "create_host nid hex pw nm cid hv w = (Inr h, w')"
  obtains w1 where "insert_host (new_host nid hex nm cid hv) w = (Inr (), w\<lparr>w_db := (w_db w)\<lparr>db_hosts := db_hosts (w_db w) @ [new_host nid hex nm cid hv]\<rparr>\<rparr>)"
    "declare_host_queues (new_host_short_id hex) (w\<lparr>w_db := (w_db w)\<lparr>db_hosts := db_hosts (w_db w) @ [new_host nid hex nm cid hv]\<rparr>\<rparr>) = (Inr (), w1)"
    "provision_host_agent_user pw (new_host nid hex nm cid hv) w1 = (Inr h, w')"
proof -
  let ?h = "new_host nid hex nm cid hv"
  have ref: "Host_short_id ?h = new_host_short_id hex" by (simp add: new_host_def)
  obtain w0 w1 where 1: "insert_host ?h w = (Inr (), w0)" "provision_host_queues (new_host_short_id hex) w0 = (Inr (), w1)"
      "provision_host_agent_user pw ?h w1 = (Inr h, w')"
    using assms unfolding create_host_def Let_def ref
    by (auto simp: bind_act_Inr read_db_def raise_def split: if_splits)
  have w0: "w0 = w\<lparr>w_db := (w_db w)\<lparr>db_hosts := db_hosts (w_db w) @ [?h]\<rparr>\<rparr>"
    using 1(1) by (auto simp: insert_host_def lift_res_def split: if_splits)
  have "declare_host_queues (new_host_short_id hex) w0 = (Inr (), w1)"
    using 1(2) by (auto simp: provision_host_queues_def bind_act_Inr open_channel_def split: if_splits)
  then show ?thesis using that 1 w0 by blast
qed

lemma save_new_host:
  "Host_id h \<notin> Host_id ` set (db_hosts db) \<Longrightarrow> Host_id h' = Host_id h \<Longrightarrow>
    db_hosts (save_host h' (db\<lparr>db_hosts := db_hosts db @ [h]\<rparr>)) = db_hosts db @ [h']"
  by (auto simp: save_host_def tupd_def intro!: map_idI) (metis image_eqI)

lemma delete_host_effect:
  "\<exists>w'. delete_host h w = (Inr (), w') \<and> w_db w' = delete_host_row h (w_db w)
     \<and> map_of (w_queues w') = (\<lambda>q. if w_broker_up w \<and> q \<in> queue_name (Host_short_id h) ` set ALL_KINDS then None else map_of (w_queues w) q)
     \<and> map_of (w_users w') = (\<lambda>u. if w_mgmt_up w \<and> opt_truthy (Host_agent_rmq_user h) \<and> u = or_empty (Host_agent_rmq_user h)
          then None else map_of (w_users w) u)"
proof -
  have users: "map_of (filter (\<lambda>p. fst p \<noteq> n) us) u = (if u = n then None else map_of us u)" for n u and us :: "(string \<times> rmq_user) list"
    using delete_queues_map [of "{n}" us u] by simp
  show ?thesis
    by (simp add: delete_host_def deprovision_host_messaging_def bind_act_def write_db_def swallow_def open_channel_def
        delete_host_queues_def delete_user_def delete_queues_map users ret_def fun_eq_iff)
qed

section \<open>Properties\<close>

text \<open>C24: Registering a host leaves its row with credentials, all its queues and an agent user whose password is the
  row's and whose permissions cover the host's own queues; removing the host again takes exactly that away, and
  the hosts, queues (with their messages) and users of the rest are as before.\<close>

theorem host_lifecycle:
  assumes create: "create_host nid hex pw nm cid hv w = (Inr h, w1)"
    and fresh: "nid \<notin> Host_id ` set (db_hosts (w_db w))" "pw \<noteq> []"
      "list_all (\<lambda>k. map_of (w_queues w) (queue_name (new_host_short_id hex) k) = None) ALL_KINDS"
      "map_of (w_users w) (new_agent_rmq_user (new_host_short_id hex)) = None"
  shows "db_hosts (w_db w1) = db_hosts (w_db w) @ [h] \<and> Host_id h = nid \<and> host_queues_declared w1 (Host_short_id h) \<and> agent_user_ready w1 h
    \<and> (\<exists>w2. delete_host h w1 = (Inr (), w2) \<and> db_hosts (w_db w2) = db_hosts (w_db w)
          \<and> map_of (w_queues w2) = map_of (w_queues w) \<and> map_of (w_users w2) = map_of (w_users w))"
proof -
  let ?h = "new_host nid hex nm cid hv" and ?r = "new_host_short_id hex"
  let ?w0 = "w\<lparr>w_db := (w_db w)\<lparr>db_hosts := db_hosts (w_db w) @ [?h]\<rparr>\<rparr>"
  obtain wq where q: "declare_host_queues ?r ?w0 = (Inr (), wq)" and u: "provision_host_agent_user pw ?h wq = (Inr h, w1)"
    using create_host_steps [OF create] by blast
  note qe = declare_effect [OF q] and ue = provision_user_effect [OF u]
  have up: "w_broker_up w" using q by (simp add: declare_host_queues_def split: if_splits)
  have ids: "Host_id h = nid" "Host_short_id h = ?r" by (simp_all add: ue(1)) (simp_all add: new_host_def)
  have user: "Host_agent_rmq_user h = Some (new_agent_rmq_user ?r)"
    by (simp add: ue(1) ensure_host_agent_credentials_def new_host_def opt_truthy_def Let_def)
  have mg: "w_mgmt_up wq" using u by (auto simp: provision_host_agent_user_def ensure_host_agent_user_def bind_act_Inr
        write_db_def upsert_user_def raise_def Let_def split: if_splits)
  have wq: "w_db wq = w_db ?w0" "w_broker_up wq" "w_users wq = w_users w"
    using up arg_cong [OF qe(1), of w_db] arg_cong [OF qe(1), of w_broker_up] arg_cong [OF qe(1), of w_users] by simp_all
  have rest: "w_broker_up w1" "w_mgmt_up w1" "w_queues w1 = w_queues wq" "w_db w1 = save_host h (w_db wq)"
    using wq(2) mg arg_cong [OF ue(3), of w_broker_up] arg_cong [OF ue(3), of w_mgmt_up] arg_cong [OF ue(3), of w_queues]
      arg_cong [OF ue(3), of w_db] by simp_all
  have row: "db_hosts (w_db w1) = db_hosts (w_db w) @ [h]"
    using save_new_host [of ?h "w_db w" h] fresh(1) ids by (simp add: rest(4) wq(1) new_host_def)
  have dec: "host_queues_declared w1 ?r" using declare_declared [OF q] rest(3) by (simp add: host_queues_declared_def)
  obtain w2 where d: "delete_host h w1 = (Inr (), w2)" "w_db w2 = delete_host_row h (w_db w1)"
      "map_of (w_queues w2) = (\<lambda>q. if q \<in> queue_name ?r ` set ALL_KINDS then None else map_of (w_queues w1) q)"
      "map_of (w_users w2) = (\<lambda>n. if n = new_agent_rmq_user ?r then None else map_of (w_users w1) n)"
    using delete_host_effect [of h w1] rest(1,2) ids user by (auto simp: opt_truthy_def or_empty_def new_agent_rmq_user_def)
  have "map_of (w_queues w2) x = map_of (w_queues w) x" for x
    using fresh(3) qe(2) [of x] by (auto simp: d(3) rest(3) list_all_iff split: option.splits)
  moreover have "map_of (w_users w2) x = map_of (w_users w) x" for x
    using fresh(4) ue(4) [of x] user by (auto simp: d(4) wq(3) or_empty_def)
  moreover have "db_hosts (w_db w2) = db_hosts (w_db w)"
    using row fresh(1) ids unfolding d(2) delete_host_row_def drop_host_def
    by (auto simp: drop_vms_def drop_folders_def tdel_def Let_def filter_id_conv) (metis image_eqI)
  ultimately show ?thesis using row ids dec ue(2) d(1) by (auto simp: fun_eq_iff)
qed

lemma sample_registration:
  "\<exists>w1. create_host ''h2'' ''0123456789abcdef'' ''pw'' '' node '' None ''hyperv'' ready_world
     = (Inr ((new_host ''h2'' ''0123456789abcdef'' '' node '' None ''hyperv'')
         \<lparr>Host_agent_rmq_user := Some ''agent-0123456789'', Host_agent_rmq_password := Some ''pw''\<rparr>), w1)"
  by (simp add: create_host_def bind_act_def read_db_def insert_host_def lift_res_def provision_host_queues_def open_channel_def
      declare_host_queues_def provision_host_agent_user_def ensure_host_agent_credentials_def write_db_def ensure_host_agent_user_def
      upsert_user_def set_permissions_def ret_def new_host_def new_host_short_id_def new_agent_rmq_user_def opt_truthy_def or_empty_def
      ready_world_def empty_db_def sample_host_def AList.update_conv' Let_def)

theorem host_lifecycle_witness:
  "\<exists>h w1 w2. create_host ''h2'' ''0123456789abcdef'' ''pw'' '' node '' None ''hyperv'' ready_world = (Inr h, w1)
     \<and> agent_user_ready w1 h \<and> delete_host h w1 = (Inr (), w2) \<and> db_hosts (w_db w2) = db_hosts (w_db ready_world)"
proof -
  obtain h w1 where c: "create_host ''h2'' ''0123456789abcdef'' ''pw'' '' node '' None ''hyperv'' ready_world = (Inr h, w1)"
    using sample_registration by blast
  have "''h2'' \<notin> Host_id ` set (db_hosts (w_db ready_world))"
    "list_all (\<lambda>k. map_of (w_queues ready_world) (queue_name (new_host_short_id ''0123456789abcdef'') k) = None) ALL_KINDS"
    "map_of (w_users ready_world) (new_agent_rmq_user (new_host_short_id ''0123456789abcdef'')) = None"
    by (simp_all add: ready_world_def empty_db_def sample_host_def ALL_KINDS_def queue_name_def new_host_short_id_def)
  from host_lifecycle [OF c this(1) _ this(2,3)] show ?thesis using c by auto
qed

end
