(* ===== verification/Preflight.thy ===== *)
theory Preflight
  imports Hosts
begin

text \<open>
  \<^verbatim>\<open>app/preflight.py\<close>: the checks the API runs, and the repairs it makes, before it serves. Alembic and the
  database driver are parameters: whether the server answers, what \<^verbatim>\<open>upgrade head\<close> makes of a revision, the head
  of the migration scripts, and whether the table of the hosts exists at a revision. The generated passwords are
  an argument.
\<close>

section \<open>Definitions\<close>

record schema_env =
  se_connects :: bool
  se_upgrade :: "string option \<Rightarrow> string option res"
  se_head :: "string option"
  se_has_hosts :: "string option \<Rightarrow> bool"

definition PROBE_KEY :: string where
  "PROBE_KEY = ''__ovc_preflight__''"

definition check_valkey :: "unit act" where
  "check_valkey =
     bind_act (cache_act (\<lambda>now c. (True, c))) (\<lambda>ok.
     if \<not> ok then raise PreflightError
     else bind_act (cache_act (\<lambda>now c. ((), cache_set now PROBE_KEY (CText ''1'') (Some 10) c))) (\<lambda>_.
          bind_act (cache_act (\<lambda>now c. (cache_get now c PROBE_KEY, c))) (\<lambda>v.
          if v \<noteq> Some (CText ''1'') then raise PreflightError
          else bind_act (cache_act (\<lambda>now c. cache_del now PROBE_KEY c)) (\<lambda>_. ret ()))))"

definition check_database :: "schema_env \<Rightarrow> unit act" where
  "check_database se = (if se_connects se then ret () else raise PreflightError)"

definition migrated :: "schema_env \<Rightarrow> settings \<Rightarrow> string option \<Rightarrow> string option res" where
  "migrated se st version = (if preflight_run_migrations st
     then (case se_upgrade se version of Inl e \<Rightarrow> Inl PreflightError | Inr v \<Rightarrow> Inr v) else Inr version)"

definition check_schema :: "schema_env \<Rightarrow> settings \<Rightarrow> string option \<Rightarrow> unit act" where
  "check_schema se st version =
     bind_act (pure_act (migrated se st version)) (\<lambda>current.
       if current = None then raise PreflightError
       else if se_head se \<noteq> None \<and> current \<noteq> se_head se then raise PreflightError
       else if \<not> se_has_hosts se current then raise PreflightError
       else ret ())"

definition check_rabbitmq :: "unit act" where
  "check_rabbitmq w = (if \<not> w_broker_up w then (Inl PreflightError, w)
     else if \<not> w_mgmt_up w then (Inl PreflightError, w) else (Inr (), w))"

definition list_queue_names :: "string list act" where
  "list_queue_names w = (if w_mgmt_up w then (Inr (map fst (w_queues w)), w) else (Inl RuntimeError, w))"

definition get_permissions :: "string \<Rightarrow> rmq_user option act" where
  "get_permissions name w = (if \<not> w_mgmt_up w then (Inl RuntimeError, w)
     else (Inr (case map_of (w_users w) name of None \<Rightarrow> None
        | Some u \<Rightarrow> if rmq_configure u = None then None else Some u), w))"

definition missing_queues :: "host list \<Rightarrow> string list \<Rightarrow> string list" where
  "missing_queues hosts present =
     filter (\<lambda>q. q \<notin> set present) (concat (map (\<lambda>h. map (queue_name (Host_short_id h)) ALL_KINDS) hosts))"

definition repair_user :: "host \<Rightarrow> unit act" where
  "repair_user h = bind_act (ensure_host_agent_user h) (\<lambda>_.
     bind_act (get_permissions (or_empty (Host_agent_rmq_user h))) (\<lambda>perms.
       if perms = None then raise PreflightError else ret ()))"

definition repaired :: "(ident \<Rightarrow> string) \<Rightarrow> host \<Rightarrow> host" where
  "repaired passwords h = fst (ensure_host_agent_credentials (passwords (Host_id h)) h)"

definition repair_hosts :: "settings \<Rightarrow> (ident \<Rightarrow> string) \<Rightarrow> host list \<Rightarrow> unit act" where
  "repair_hosts st passwords hosts =
     bind_act open_channel (\<lambda>_.
     bind_act (forA hosts (\<lambda>h. declare_host_queues (Host_short_id h))) (\<lambda>_.
     bind_act list_queue_names (\<lambda>present.
     if missing_queues hosts present \<noteq> [] then raise PreflightError
     else if \<not> preflight_manage_rabbitmq_users st then ret ()
     else bind_act (write_db (\<lambda>db. db\<lparr>db_hosts := map (repaired passwords) hosts\<rparr>)) (\<lambda>_.
          forA (map (repaired passwords) hosts) repair_user))))"

definition check_hosts_messaging :: "settings \<Rightarrow> (ident \<Rightarrow> string) \<Rightarrow> unit act" where
  "check_hosts_messaging st passwords = session_scope (
     bind_act (read_db (\<lambda>db. Inr (db_hosts db))) (\<lambda>hosts.
       if hosts = [] then ret () else repair_hosts st passwords hosts))"

text \<open>Any other exception of a step becomes a \<^verbatim>\<open>PreflightError\<close>.\<close>

definition preflight_step :: "unit act \<Rightarrow> unit act" where
  "preflight_step step w = (case step w of (Inl e, w') \<Rightarrow> (Inl PreflightError, w') | r \<Rightarrow> r)"

definition preflight_steps :: "schema_env \<Rightarrow> settings \<Rightarrow> string option \<Rightarrow> (ident \<Rightarrow> string) \<Rightarrow> unit act list" where
  "preflight_steps se st version passwords =
     [check_valkey, check_database se, check_schema se st version, check_rabbitmq, check_hosts_messaging st passwords]"

definition run_preflight :: "schema_env \<Rightarrow> settings \<Rightarrow> string option \<Rightarrow> (ident \<Rightarrow> string) \<Rightarrow> unit act" where
  "run_preflight se st version passwords =
     (if \<not> preflight st then ret () else forA (preflight_steps se st version passwords) preflight_step)"

section \<open>Lemmas\<close>

lemma session_Inr: "session_scope m w = (Inr x, w') \<longleftrightarrow> m w = (Inr x, w')"
  by (auto simp: session_scope_def split: prod.splits sum.splits)

lemma bind_read: "bind_act (read_db (\<lambda>db. Inr (f db))) g w = g (f (w_db w)) w"
  by (simp add: bind_act_def read_db_def)

lemma declare_all:
  assumes "forA hs (\<lambda>h. declare_host_queues (Host_short_id h)) w = (Inr (), w')"
  shows "list_all (\<lambda>h. host_queues_declared w' (Host_short_id h)) hs \<and> w' = w\<lparr>w_queues := w_queues w'\<rparr>
    \<and> (\<forall>q. map_of (w_queues w) q \<noteq> None \<longrightarrow> map_of (w_queues w') q = map_of (w_queues w) q)"
  using assms
proof (induction hs arbitrary: w)
  case (Cons h hs)
  then obtain w1 where 1: "declare_host_queues (Host_short_id h) w = (Inr (), w1)"
      "forA hs (\<lambda>h. declare_host_queues (Host_short_id h)) w1 = (Inr (), w')"
    by (auto simp: forA_Cons bind_act_Inr)
  note e = declare_effect [OF 1(1)] and ih = Cons.IH [OF 1(2)]
  have "map_of (w_queues w') q = map_of (w_queues w) q" if "map_of (w_queues w) q \<noteq> None" for q
    using that ih e(2) [of q] by fastforce
  moreover have "host_queues_declared w' (Host_short_id h)"
    using declared_mono [OF _ declare_declared [OF 1(1)], of w'] ih by metis
  moreover have "w' = w\<lparr>w_queues := w_queues w'\<rparr>" using ih e(1) by (metis (no_types, lifting) world.update_convs(4) world.surjective world.ext_inject)
  ultimately show ?case using ih by simp
qed (simp add: ret_def)

lemma repair_user_Inr: "repair_user h w = (Inr (), w') \<longleftrightarrow> ensure_host_agent_user h w = (Inr (), w') \<and>
    (\<exists>p. get_permissions (or_empty (Host_agent_rmq_user h)) w' = (Inr (Some p), w'))"
  by (auto simp: repair_user_def bind_act_Inr raise_def ret_def get_permissions_def split: if_splits option.splits)

lemma repair_all:
  assumes "forA hs repair_user w = (Inr (), w')" and "distinct (map Host_agent_rmq_user hs)"
  shows "list_all (agent_user_ready w') hs \<and> w' = w\<lparr>w_users := w_users w'\<rparr>
    \<and> (\<forall>u. Some u \<notin> Host_agent_rmq_user ` set hs \<longrightarrow> map_of (w_users w') u = map_of (w_users w) u)"
  using assms
proof (induction hs arbitrary: w)
  case (Cons h hs)
  then obtain w1 where 1: "ensure_host_agent_user h w = (Inr (), w1)" "forA hs repair_user w1 = (Inr (), w')"
    by (auto simp: forA_Cons bind_act_Inr repair_user_Inr)
  note e = ensure_user_effect [OF 1(1)]
  have ih: "list_all (agent_user_ready w') hs" "w' = w1\<lparr>w_users := w_users w'\<rparr>"
      "Some u \<notin> Host_agent_rmq_user ` set hs \<Longrightarrow> map_of (w_users w') u = map_of (w_users w1) u" for u
    using Cons.IH [OF 1(2)] Cons.prems(2) by auto
  obtain u where u: "Host_agent_rmq_user h = Some u" using e(1) by (auto simp: agent_user_ready_def has_credentials_def opt_truthy_def split: option.splits)
  have "Some u \<notin> Host_agent_rmq_user ` set hs" using Cons.prems(2) u by auto
  then have "agent_user_ready w' h" using ih(3) [of u] e(1) u by (simp add: agent_user_ready_def or_empty_def)
  moreover have "w' = w\<lparr>w_users := w_users w'\<rparr>" using ih(2) e(2) by (metis (no_types, lifting) world.update_convs(5) world.surjective world.ext_inject)
  moreover have "map_of (w_users w') x = map_of (w_users w) x" if "Some x \<notin> Host_agent_rmq_user ` set (h # hs)" for x
    using that ih(3) [of x] e(3) [of x] u by (auto simp: or_empty_def)
  ultimately show ?case using ih(1) by simp
qed (simp add: ret_def)

lemma preflight_outcome:
  "forA (map f xs) preflight_step w = (r, w') \<Longrightarrow> r = Inr () \<or> r = Inl PreflightError"
proof (induction xs arbitrary: w)
  case (Cons x xs)
  then show ?case by (auto simp: forA_Cons bind_act_def preflight_step_def split: prod.splits sum.splits)
qed (simp add: ret_def)

definition schema_ok :: "schema_env \<Rightarrow> settings \<Rightarrow> string option \<Rightarrow> bool" where
  "schema_ok se st version \<longleftrightarrow> (case migrated se st version of Inr (Some v) \<Rightarrow>
     (se_head se = None \<or> se_head se = Some v) \<and> se_has_hosts se (Some v) | _ \<Rightarrow> False)"

lemma check_schema_cases: "check_schema se st version w = (if schema_ok se st version then Inr () else Inl PreflightError, w)"
proof (cases "migrated se st version")
  case (Inl e)
  then have "e = PreflightError" by (auto simp: migrated_def split: if_splits sum.splits)
  then show ?thesis using Inl by (simp add: check_schema_def schema_ok_def bind_act_def pure_act_def)
next
  case (Inr v)
  then show ?thesis by (cases v) (auto simp: check_schema_def schema_ok_def bind_act_def pure_act_def raise_def ret_def)
qed

lemma probe_succeeds: "w_cache_up w \<Longrightarrow> \<exists>c. check_valkey w = (Inr (), w\<lparr>w_cache := c\<rparr>)"
  by (simp add: check_valkey_def bind_act_def cache_act_def cache_get_def cache_set_def live_def seconds_def cache_del_def ret_def) blast

lemma declare_all_succeeds: "w_broker_up w \<Longrightarrow> \<exists>w'. forA hs (\<lambda>h. declare_host_queues (Host_short_id h)) w = (Inr (), w')"
proof (induction hs arbitrary: w)
  case (Cons h hs)
  then obtain w1 where 1: "declare_host_queues (Host_short_id h) w = (Inr (), w1)" "w_broker_up w1"
    by (simp add: declare_host_queues_def)
  then show ?case using Cons.IH [OF 1(2)] by (auto simp: forA_Cons bind_act_def)
qed (simp add: ret_def)

lemma repair_user_succeeds: "w_mgmt_up w \<Longrightarrow> has_credentials h \<Longrightarrow> \<exists>w'. repair_user h w = (Inr (), w') \<and> w_mgmt_up w'"
  by (simp add: repair_user_def ensure_host_agent_user_def bind_act_def upsert_user_def set_permissions_def get_permissions_def
      AList.update_conv' has_credentials_def ret_def Let_def)

lemma repair_all_succeeds: "w_mgmt_up w \<Longrightarrow> list_all has_credentials hs \<Longrightarrow> \<exists>w'. forA hs repair_user w = (Inr (), w')"
proof (induction hs arbitrary: w)
  case (Cons h hs)
  then obtain w1 where 1: "repair_user h w = (Inr (), w1)" "w_mgmt_up w1" using repair_user_succeeds [of w h] by auto
  then show ?case using Cons.IH [OF 1(2)] Cons.prems by (auto simp: forA_Cons bind_act_def)
qed (simp add: ret_def)

lemma declared_present:
  "list_all (\<lambda>h. host_queues_declared w (Host_short_id h)) hs \<Longrightarrow> missing_queues hs (map fst (w_queues w)) = []"
  by (auto simp: missing_queues_def filter_empty_conv host_queues_declared_def list_all_iff map_of_eq_None_iff)

lemma messaging_succeeds:
  assumes "w_broker_up w" "w_mgmt_up w" "\<And>i. passwords i \<noteq> []"
  shows "\<exists>w'. check_hosts_messaging st passwords w = (Inr (), w')"
proof -
  let ?hs = "db_hosts (w_db w)"
  obtain w1 where w1: "forA ?hs (\<lambda>h. declare_host_queues (Host_short_id h)) w = (Inr (), w1)"
    using declare_all_succeeds [OF assms(1)] by blast
  note d = declare_all [OF w1]
  have up: "w_mgmt_up w1" using assms(2) arg_cong [OF d [THEN conjunct2, THEN conjunct1], of w_mgmt_up] by simp
  have "list_all has_credentials (map (repaired passwords) ?hs)"
    using assms(3) credentials_filled by (auto simp: list_all_iff repaired_def)
  then obtain w2 where "forA (map (repaired passwords) ?hs) repair_user (w1\<lparr>w_db := (w_db w1)\<lparr>db_hosts := map (repaired passwords) ?hs\<rparr>\<rparr>) = (Inr (), w2)"
    using repair_all_succeeds [of "w1\<lparr>w_db := (w_db w1)\<lparr>db_hosts := map (repaired passwords) ?hs\<rparr>\<rparr>"] up by auto
  then show ?thesis using w1 up assms(1) declared_present [of w1 ?hs] d
    by (auto simp: check_hosts_messaging_def repair_hosts_def session_scope_def bind_act_def read_db_def open_channel_def list_queue_names_def write_db_def ret_def)
qed

lemma run_steps:
  assumes "preflight st"
  shows "run_preflight se st version passwords w = (Inr (), w') \<longleftrightarrow>
    (\<exists>c. check_valkey w = (Inr (), w\<lparr>w_cache := c\<rparr>) \<and> w_cache_up w \<and> se_connects se \<and> schema_ok se st version \<and> w_broker_up w \<and> w_mgmt_up w
       \<and> check_hosts_messaging st passwords (w\<lparr>w_cache := c\<rparr>) = (Inr (), w'))"
proof -
  have step: "preflight_step m v = (Inr (), v') \<longleftrightarrow> m v = (Inr (), v')" for m :: "unit act" and v v'
    by (auto simp: preflight_step_def split: prod.splits sum.splits)
  have vk: "check_valkey w = (Inr (), v) \<Longrightarrow> w_cache_up w \<and> (\<exists>c. v = w\<lparr>w_cache := c\<rparr>)" for v
    by (auto simp: check_valkey_def bind_act_Inr cache_act_def ret_def raise_def case_prod_beta Let_def split: if_splits)
  have steps: "check_database se v = (Inr (), v') \<longleftrightarrow> se_connects se \<and> v' = v"
      "check_schema se st version v = (Inr (), v') \<longleftrightarrow> schema_ok se st version \<and> v' = v"
      "check_rabbitmq v = (Inr (), v') \<longleftrightarrow> w_broker_up v \<and> w_mgmt_up v \<and> v' = v" for v v'
    by (auto simp: check_schema_cases check_database_def check_rabbitmq_def ret_def raise_def)
  have "run_preflight se st version passwords w = (Inr (), w') \<longleftrightarrow>
    (\<exists>v. check_valkey w = (Inr (), v) \<and> se_connects se \<and> schema_ok se st version \<and> w_broker_up v \<and> w_mgmt_up v
       \<and> check_hosts_messaging st passwords v = (Inr (), w'))"
    using assms by (auto simp: run_preflight_def preflight_steps_def forA_Cons bind_act_Inr step steps ret_def)
  also have "\<dots> \<longleftrightarrow> (\<exists>c. check_valkey w = (Inr (), w\<lparr>w_cache := c\<rparr>) \<and> w_cache_up w \<and> se_connects se \<and> schema_ok se st version
       \<and> w_broker_up w \<and> w_mgmt_up w \<and> check_hosts_messaging st passwords (w\<lparr>w_cache := c\<rparr>) = (Inr (), w'))"
    using vk by fastforce
  finally show ?thesis .
qed

section \<open>Properties\<close>

text \<open>C25: The preflight decides whether the API serves: it passes exactly when the cache, the database, the broker and
  its management interface answer and the schema is at the head of the migrations, and every failure is the one
  exception that stops the process.\<close>

theorem preflight_decides:
  assumes "preflight st" and "\<And>i. passwords i \<noteq> []"
  shows "fst (run_preflight se st version passwords w) =
    (if w_cache_up w \<and> se_connects se \<and> schema_ok se st version \<and> w_broker_up w \<and> w_mgmt_up w then Inr () else Inl PreflightError)"
proof -
  obtain r w' where r: "run_preflight se st version passwords w = (r, w')" by fastforce
  have "r = Inr () \<or> r = Inl PreflightError"
    using r assms(1) preflight_outcome [of id "preflight_steps se st version passwords" w r w'] by (simp add: run_preflight_def)
  moreover have "r = Inr () \<longleftrightarrow> w_cache_up w \<and> se_connects se \<and> schema_ok se st version \<and> w_broker_up w \<and> w_mgmt_up w"
  proof
    assume "r = Inr ()"
    then show "w_cache_up w \<and> se_connects se \<and> schema_ok se st version \<and> w_broker_up w \<and> w_mgmt_up w"
      using r run_steps [OF assms(1)] by blast
  next
    assume c: "w_cache_up w \<and> se_connects se \<and> schema_ok se st version \<and> w_broker_up w \<and> w_mgmt_up w"
    then obtain k where k: "check_valkey w = (Inr (), w\<lparr>w_cache := k\<rparr>)" using probe_succeeds by blast
    obtain w2 where "check_hosts_messaging st passwords (w\<lparr>w_cache := k\<rparr>) = (Inr (), w2)"
      using messaging_succeeds [of "w\<lparr>w_cache := k\<rparr>" passwords st] c assms(2) by auto
    then have "run_preflight se st version passwords w = (Inr (), w2)" using run_steps [OF assms(1)] c k by blast
    then show "r = Inr ()" using r by simp
  qed
  ultimately show ?thesis using r by auto
qed

definition sample_schema :: schema_env where
  "sample_schema = \<lparr>se_connects = True, se_upgrade = (\<lambda>_. Inr (Some ''0005'')), se_head = Some ''0005'', se_has_hosts = (\<lambda>v. v \<noteq> None)\<rparr>"

theorem preflight_decides_witness:
  "fst (run_preflight sample_schema default_settings None (\<lambda>_. ''pw'') ready_world) = Inr ()
   \<and> fst (run_preflight sample_schema default_settings None (\<lambda>_. ''pw'') (ready_world\<lparr>w_broker_up := False\<rparr>)) = Inl PreflightError"
proof -
  have p: "preflight default_settings" by (simp add: default_settings_def)
  have s: "schema_ok sample_schema default_settings None" "se_connects sample_schema"
    by (simp_all add: schema_ok_def migrated_def sample_schema_def default_settings_def)
  show ?thesis
    using preflight_decides [OF p, of "\<lambda>_. ''pw''" sample_schema None ready_world]
      preflight_decides [OF p, of "\<lambda>_. ''pw''" sample_schema None "ready_world\<lparr>w_broker_up := False\<rparr>"] s
    by (simp add: ready_world_def)
qed

text \<open>A preflight that passes leaves every registered host usable: all its queues exist, and when it manages the
  broker's users the row has credentials and the agent's user has that password and the permissions of that host;
  no host row is lost and no queued message is dropped.\<close>

theorem preflight_repairs:
  assumes run: "run_preflight se st version passwords w = (Inr (), w')" and on: "preflight st"
    and users: "distinct (map (Host_agent_rmq_user \<circ> repaired passwords) (db_hosts (w_db w)))"
  shows "list_all (\<lambda>h. host_queues_declared w' (Host_short_id h)) (db_hosts (w_db w'))
    \<and> (preflight_manage_rabbitmq_users st \<longrightarrow> list_all (agent_user_ready w') (db_hosts (w_db w')))
    \<and> map Host_id (db_hosts (w_db w')) = map Host_id (db_hosts (w_db w))
    \<and> (\<forall>q ms. map_of (w_queues w) q = Some ms \<longrightarrow> map_of (w_queues w') q = Some ms)"
proof -
  let ?hs = "db_hosts (w_db w)" and ?rs = "map (repaired passwords) (db_hosts (w_db w))"
  obtain c where c: "check_hosts_messaging st passwords (w\<lparr>w_cache := c\<rparr>) = (Inr (), w')" using run run_steps [OF on] by blast
  show ?thesis
  proof (cases "?hs = []")
    case True
    then have "w' = w\<lparr>w_cache := c\<rparr>" using c by (simp add: check_hosts_messaging_def session_scope_def bind_act_def read_db_def ret_def)
    then show ?thesis using True by simp
  next
    case False
    let ?w0 = "w\<lparr>w_cache := c\<rparr>"
    have "repair_hosts st passwords ?hs ?w0 = (Inr (), w')"
      using c False by (simp add: check_hosts_messaging_def session_Inr bind_read)
    then obtain w1 where d: "forA ?hs (\<lambda>h. declare_host_queues (Host_short_id h)) ?w0 = (Inr (), w1)"
      and rest: "if preflight_manage_rabbitmq_users st
          then forA ?rs repair_user (w1\<lparr>w_db := (w_db w1)\<lparr>db_hosts := ?rs\<rparr>\<rparr>) = (Inr (), w') else w' = w1"
      by (auto simp: repair_hosts_def bind_act_Inr open_channel_def list_queue_names_def write_db_def raise_def ret_def split: if_splits)
    note de = declare_all [OF d]
    have db1: "w_db w1 = w_db w" using arg_cong [OF de [THEN conjunct2, THEN conjunct1], of w_db] by simp
    have q1: "list_all (\<lambda>h. host_queues_declared w1 (Host_short_id h)) ?hs"
      "\<forall>q ms. map_of (w_queues w) q = Some ms \<longrightarrow> map_of (w_queues w1) q = Some ms" using de by auto
    show ?thesis
    proof (cases "preflight_manage_rabbitmq_users st")
      case True
      let ?w2 = "w1\<lparr>w_db := (w_db w1)\<lparr>db_hosts := ?rs\<rparr>\<rparr>"
      have f: "forA ?rs repair_user ?w2 = (Inr (), w')" using True rest by simp
      have r: "list_all (agent_user_ready w') ?rs" "w' = ?w2\<lparr>w_users := w_users w'\<rparr>"
        using repair_all [OF f] users by (simp_all add: o_def)
      have eq: "w_queues w' = w_queues w1" "db_hosts (w_db w') = ?rs"
        using arg_cong [OF r(2), of w_queues] arg_cong [OF r(2), of w_db] by simp_all
      have "host_queues_declared w' = host_queues_declared w1" by (simp add: host_queues_declared_def fun_eq_iff eq)
      then show ?thesis using q1 r(1) eq by (simp add: list_all_iff repaired_def)
    next
      case False
      then have "w' = w1" using rest by simp
      then show ?thesis using q1 False db1 by simp
    qed
  qed
qed

theorem preflight_repairs_witness:
  "\<exists>w'. run_preflight sample_schema default_settings None (\<lambda>_. ''pw'') ready_world = (Inr (), w')
     \<and> list_all (agent_user_ready w') (db_hosts (w_db w')) \<and> map Host_id (db_hosts (w_db w')) = [''h1'']"
proof -
  have p: "preflight default_settings" "preflight_manage_rabbitmq_users default_settings" by (simp_all add: default_settings_def)
  have "fst (run_preflight sample_schema default_settings None (\<lambda>_. ''pw'') ready_world) = Inr ()"
  proof -
    obtain k where k: "check_valkey ready_world = (Inr (), ready_world\<lparr>w_cache := k\<rparr>)" using probe_succeeds [of ready_world] by auto
    obtain w2 where "check_hosts_messaging default_settings (\<lambda>_. ''pw'') (ready_world\<lparr>w_cache := k\<rparr>) = (Inr (), w2)"
      using messaging_succeeds [of "ready_world\<lparr>w_cache := k\<rparr>" "\<lambda>_. ''pw''" default_settings] by (auto simp: ready_world_def)
    then show ?thesis using k run_steps [OF p(1), of sample_schema None "\<lambda>_. ''pw''" ready_world w2]
      by (auto simp: sample_schema_def schema_ok_def migrated_def default_settings_def ready_world_def)
  qed
  then obtain w' where w': "run_preflight sample_schema default_settings None (\<lambda>_. ''pw'') ready_world = (Inr (), w')"
    by (cases "run_preflight sample_schema default_settings None (\<lambda>_. ''pw'') ready_world") auto
  show ?thesis using preflight_repairs [OF w' p(1)] p(2) w' by (auto simp: ready_world_def empty_db_def sample_host_def)
qed

end
