(* ===== verification/Host_Routes.thy ===== *)
theory Host_Routes
  imports Preflight Agent_Reports Host_Actions
begin

text \<open>
  \<^verbatim>\<open>app/api/routes/hosts.py\<close>: listing, registering, editing and removing hosts, the agent's onboarding
  (configuration, installer link, installer script), agent upgrades, host operations, and the lists under a host.
  A route runs in the request's session, so that an exception undoes what it wrote to the database
  (\<open>session_scope\<close>). The validation of stored hardware by its schema is the parameter \<open>validate\<close>; the rows of
  metrics, templates, images and tasks stand for their views.
\<close>

section \<open>Views\<close>

type_synonym hw_schema = "jobj \<Rightarrow> json option"

definition hardware_out :: "pyenv \<Rightarrow> hw_schema \<Rightarrow> jobj option \<Rightarrow> json option res" where
  "hardware_out env validate raw =
     sbind (normalize_hardware env (case raw of None \<Rightarrow> JNull | Some d \<Rightarrow> JObj d)) (\<lambda>canonical.
       Inr (Option.bind canonical validate))"

record host_detail = host_view +
  HostOut_hardware :: "json option"

definition host_detail_out :: "pyenv \<Rightarrow> hw_schema \<Rightarrow> settings \<Rightarrow> instant \<Rightarrow> host \<Rightarrow> nat \<Rightarrow> host_detail res" where
  "host_detail_out env validate st now h n = sbind (hardware_out env validate (Host_hardware h)) (\<lambda>hw.
     Inr \<lparr>HostOut_id = Host_id h, HostOut_short_id = Host_short_id h,
       HostOut_cluster_id = Host_cluster_id h, HostOut_name = Host_name h, HostOut_fqdn = Host_fqdn h,
       HostOut_ip_address = Host_ip_address h, HostOut_hypervisor = Host_hypervisor h,
       HostOut_online = agent_connected st now h, HostOut_agent = agent_status st now h, HostOut_vm_count = n,
       HostOut_hardware = hw\<rparr>)"

section \<open>Hosts\<close>

definition visible_host :: "visible_scope \<Rightarrow> ident \<Rightarrow> host act" where
  "visible_host sc i = read_db (\<lambda>db. get_visible_host db sc i)"

definition detail_view :: "pyenv \<Rightarrow> hw_schema \<Rightarrow> settings \<Rightarrow> host \<Rightarrow> host_detail act" where
  "detail_view env validate st h = with_now (\<lambda>now. read_db (\<lambda>db.
     host_detail_out env validate st now h (count_host_vms db (Host_id h))))"

definition list_hosts :: "settings \<Rightarrow> instant \<Rightarrow> visible_scope \<Rightarrow> ident option \<Rightarrow> database \<Rightarrow> host_view list" where
  "list_hosts st now sc cluster_id db =
     map (\<lambda>h. host_out st now h (count_host_vms db (Host_id h)))
       (filter (\<lambda>h. sees_host sc (Host_id h)) (sort_key Host_name
         (filter (\<lambda>h. cluster_id \<noteq> None \<longrightarrow> Host_cluster_id h = cluster_id) (db_hosts db))))"

record host_create =
  hc_name :: string
  hc_cluster_id :: "ident option"
  hc_hypervisor :: string

definition may_use_cluster :: "visible_scope \<Rightarrow> ident option \<Rightarrow> bool" where
  "may_use_cluster sc cid \<longleftrightarrow> Scope_all sc \<or> (opt_truthy cid \<and> sees_cluster sc cid)"

definition add_host ::
  "pyenv \<Rightarrow> hw_schema \<Rightarrow> settings \<Rightarrow> ident \<Rightarrow> string \<Rightarrow> string \<Rightarrow> ident \<Rightarrow> visible_scope \<Rightarrow> user \<Rightarrow> host_create \<Rightarrow> host_detail act"
where
  "add_host env validate st nid hex password eid sc u body =
     (if \<not> may_use_cluster sc (hc_cluster_id body) then raise forbidden
      else bind_act (create_host nid hex password (hc_name body) (hc_cluster_id body) (hc_hypervisor body)) (\<lambda>h.
        bind_act (record_act eid (Some u) ''host.create'' (HostTarget h) None
          (Some [(''hypervisor'', JStr (Host_hypervisor h))])) (\<lambda>_.
        with_now (\<lambda>now. pure_act (host_detail_out env validate st now h 0)))))"

definition cluster_ref :: "ident option \<Rightarrow> database \<Rightarrow> json" where
  "cluster_ref cid db = (case cid of None \<Rightarrow> JNull
     | Some c \<Rightarrow> JObj [(''id'', JStr c), (''name'', case tget Cluster_id (db_clusters db) c of
         None \<Rightarrow> JNull | Some r \<Rightarrow> JStr (Cluster_name r))])"

definition get_host :: "pyenv \<Rightarrow> hw_schema \<Rightarrow> settings \<Rightarrow> visible_scope \<Rightarrow> ident \<Rightarrow> host_detail act" where
  "get_host env validate st sc i = bind_act (visible_host sc i) (detail_view env validate st)"

text \<open>A field of the body is \<open>None\<close> when it is absent, and may be null when it is present.\<close>

record host_update =
  hu_name :: "string option option"
  hu_fqdn :: "string option option"
  hu_cluster_id :: "ident option option"

definition record_changes :: "ident \<Rightarrow> user \<Rightarrow> string \<Rightarrow> target \<Rightarrow> jobj \<Rightarrow> jobj \<Rightarrow> unit act" where
  "record_changes eid u action tgt old new = (case changes old new of None \<Rightarrow> ret ()
     | Some diff \<Rightarrow> record_act eid (Some u) action tgt None (Some diff))"

definition regroup_host :: "ident \<Rightarrow> visible_scope \<Rightarrow> user \<Rightarrow> host \<Rightarrow> ident option \<Rightarrow> host act" where
  "regroup_host eid sc u h cid =
     (if \<not> may_use_cluster sc cid then raise forbidden
      else bind_act (read_db (\<lambda>db. Inr (cluster_ref (Host_cluster_id h) db))) (\<lambda>old.
        bind_act (lift_res (move_host h cid)) (\<lambda>h'.
        bind_act (read_db (\<lambda>db. Inr (cluster_ref (Host_cluster_id h') db))) (\<lambda>new.
        bind_act (record_changes eid u ''host.move'' (HostTarget h') [(''cluster'', old)] [(''cluster'', new)]) (\<lambda>_. ret h')))))"

definition renamed_host :: "host_update \<Rightarrow> host \<Rightarrow> host" where
  "renamed_host body h =
     (let h1 = (case hu_name body of Some (Some nm) \<Rightarrow> h\<lparr>Host_name := py_strip nm\<rparr> | _ \<Rightarrow> h)
      in case hu_fqdn body of Some (Some f) \<Rightarrow> h1\<lparr>Host_fqdn := Some (py_strip f)\<rparr> | _ \<Rightarrow> h1)"

definition host_names :: "host \<Rightarrow> jobj" where
  "host_names h = [(''name'', JStr (Host_name h)), (''fqdn'', opt_str (Host_fqdn h))]"

definition update_host ::
  "pyenv \<Rightarrow> hw_schema \<Rightarrow> settings \<Rightarrow> ident \<Rightarrow> ident \<Rightarrow> visible_scope \<Rightarrow> user \<Rightarrow> ident \<Rightarrow> host_update \<Rightarrow> host_detail act"
where
  "update_host env validate st eid1 eid2 sc u i body =
     bind_act (visible_host sc i) (\<lambda>h0.
     bind_act (case hu_cluster_id body of None \<Rightarrow> ret h0 | Some cid \<Rightarrow> regroup_host eid1 sc u h0 cid) (\<lambda>h.
     let h' = renamed_host body h in
     bind_act (write_db (save_host h')) (\<lambda>_.
     bind_act (record_changes eid2 u ''host.update'' (HostTarget h') (host_names h) (host_names h')) (\<lambda>_.
       detail_view env validate st h'))))"

definition open_task_ids :: "ident \<Rightarrow> database \<Rightarrow> ident list" where
  "open_task_ids i db = map Task_id (filter (\<lambda>t. Task_host_id t = i \<and> Task_status t \<notin> set TERMINAL_TASK_STATUSES) (db_tasks db))"

definition remove_host :: "ident \<Rightarrow> visible_scope \<Rightarrow> user \<Rightarrow> ident \<Rightarrow> unit act" where
  "remove_host eid sc u i =
     bind_act (visible_host sc i) (\<lambda>h.
     if \<not> Scope_all sc then raise forbidden
     else bind_act (read_db (\<lambda>db. Inr (count_host_vms db (Host_id h)))) (\<lambda>vm_count.
          bind_act (record_act eid (Some u) ''host.delete'' (HostTarget h) None
            (Some [(''vmCount'', JInt (int vm_count))])) (\<lambda>_.
          bind_act (write_db (\<lambda>db. settle_task_events (open_task_ids (Host_id h) db) ''failed''
            (Some ''Host removed before the task finished'') db)) (\<lambda>_.
          delete_host h))))"

section \<open>Onboarding\<close>

record agent_config_out =
  ac_host_id :: string
  ac_rabbitmq_url :: string
  ac_config_ini :: string

definition get_host_agent_config :: "settings \<Rightarrow> string \<Rightarrow> visible_scope \<Rightarrow> ident \<Rightarrow> agent_config_out act" where
  "get_host_agent_config st password sc i =
     bind_act (visible_host sc i) (\<lambda>h.
     if \<not> Scope_all sc then raise forbidden
     else bind_act (provision_host_agent_user password h) (\<lambda>h'.
          bind_act (pure_act (agent_amqp_url st h')) (\<lambda>url.
          bind_act (pure_act (render_agent_config st h')) (\<lambda>config.
            ret \<lparr>ac_host_id = Host_short_id h', ac_rabbitmq_url = url, ac_config_ini = config\<rparr>))))"

record agent_install_out =
  ai_url :: string
  ai_command :: string
  ai_expires_at :: instant
  ai_filename :: string

definition get_host_agent_install_url :: "agent_env \<Rightarrow> settings \<Rightarrow> string \<Rightarrow> visible_scope \<Rightarrow> ident \<Rightarrow> agent_install_out act" where
  "get_host_agent_install_url ae st password sc i =
     bind_act (visible_host sc i) (\<lambda>h.
     if \<not> Scope_all sc then raise forbidden
     else bind_act (provision_host_agent_user password h) (\<lambda>h'.
          bind_act (build_agent_install_url ae st h') (\<lambda>(url, command, expires_at).
            ret \<lparr>ai_url = url, ai_command = command, ai_expires_at = expires_at, ai_filename = install_script_filename h'\<rparr>)))"

definition get_host_agent_install_script ::
  "agent_env \<Rightarrow> settings \<Rightarrow> string \<Rightarrow> ident \<Rightarrow> string option \<Rightarrow> string option \<Rightarrow> (string \<times> string) act"
where
  "get_host_agent_install_script ae st password i expires token =
     bind_act (read_db (\<lambda>db. case tget Host_id (db_hosts db) i of None \<Rightarrow> Inl not_found | Some h \<Rightarrow> Inr h)) (\<lambda>h.
     with_now (\<lambda>now.
       if \<not> verify_scope (ae_hmac ae) st now (install_scope i) expires token then raise (ApiError ''FORBIDDEN'' 403)
       else bind_act (provision_host_agent_user password h) (build_agent_install_script ae st)))"

section \<open>Operations\<close>

definition update_host_agent ::
  "pyenv \<Rightarrow> agent_env \<Rightarrow> settings \<Rightarrow> ident \<Rightarrow> ident \<Rightarrow> visible_scope \<Rightarrow> user \<Rightarrow> ident \<Rightarrow> ident option \<Rightarrow> task act"
where
  "update_host_agent env ae st tid eid sc u i binary_id =
     bind_act (visible_host sc i) (\<lambda>h.
     if \<not> Scope_all sc then raise forbidden
     else bind_act (read_db (\<lambda>db. resolve_upgrade_binary db h binary_id)) (\<lambda>b.
          bind_act (request_agent_upgrade env ae st tid h b (User_email u)) (\<lambda>t.
          bind_act (record_act eid (Some u) ''host.update_agent'' (HostTarget h) (Some t)
            (Some [(''version'', JStr (AgentBinary_version b))])) (\<lambda>_. ret t))))"

definition host_action ::
  "pyenv \<Rightarrow> settings \<Rightarrow> ident \<Rightarrow> ident \<Rightarrow> visible_scope \<Rightarrow> user \<Rightarrow> ident \<Rightarrow> string \<Rightarrow> task act"
where
  "host_action env st tid eid sc u i action =
     bind_act (visible_host sc i) (\<lambda>h.
     if action \<in> set DISRUPTIVE_HOST_ACTIONS \<and> \<not> Scope_all sc then raise forbidden
     else bind_act (request_host_action env st tid h action (User_email u)) (\<lambda>t.
          bind_act (if action \<notin> set READ_ONLY_HOST_ACTIONS
            then record_act eid (Some u) (''host.'' @ action) (HostTarget h) (Some t) None else ret ()) (\<lambda>_. ret t)))"

section \<open>What a host has\<close>

definition list_host_metrics :: "settings \<Rightarrow> visible_scope \<Rightarrow> ident \<Rightarrow> host_metric list act" where
  "list_host_metrics st sc i = bind_act (visible_host sc i) (\<lambda>_. with_now (\<lambda>now. read_db (\<lambda>db.
     Inr (sort_key HostMetric_ts (filter (\<lambda>m. HostMetric_host_id m = i
       \<and> now - seconds (metrics_retention_seconds st) \<le> HostMetric_ts m) (db_host_metrics db))))))"

definition list_host_vms :: "settings \<Rightarrow> visible_scope \<Rightarrow> ident \<Rightarrow> vm_view list act" where
  "list_host_vms st sc i =
     bind_act (visible_host sc i) (\<lambda>h. with_now (\<lambda>now.
     bind_act (read_db (\<lambda>db. Inr (sort_key Vm_name (filter (\<lambda>v. Vm_host_id v = i) (db_vms db))))) (\<lambda>vms.
     bind_act (if vms = [] then ret [] else cache_act (\<lambda>now c. (get_vm_states now c (map Vm_id vms), c))) (\<lambda>states.
     bind_act (if vms = [] then ret [] else cache_act (\<lambda>now c. (get_vm_locks now c (map Vm_id vms), c))) (\<lambda>locks.
     read_db (\<lambda>db. Inr (map (\<lambda>v. vm_out db v (map_of states (Vm_id v)) (map_of locks (Vm_id v))
       (\<not> agent_connected st now h)) vms)))))))"

definition list_host_templates :: "visible_scope \<Rightarrow> ident \<Rightarrow> template list act" where
  "list_host_templates sc i = bind_act (visible_host sc i) (\<lambda>_. read_db (\<lambda>db.
     Inr (sort_key Template_name (filter (\<lambda>t. Template_host_id t = i) (db_templates db)))))"

definition list_host_isos :: "visible_scope \<Rightarrow> ident \<Rightarrow> iso list act" where
  "list_host_isos sc i = bind_act (visible_host sc i) (\<lambda>_. read_db (\<lambda>db.
     Inr (sort_key Iso_name (filter (\<lambda>m. Iso_host_id m = i) (db_isos db)))))"

section \<open>Lemmas\<close>

lemma visible_host_cases:
  obtains (missing) "visible_host sc i w = (Inl not_found, w)" "tget Host_id (db_hosts (w_db w)) i = None"
  | (hidden) h where "visible_host sc i w = (Inl forbidden, w)" "tget Host_id (db_hosts (w_db w)) i = Some h" "\<not> sees_host sc i"
  | (found) h where "visible_host sc i w = (Inr h, w)" "tget Host_id (db_hosts (w_db w)) i = Some h" "Host_id h = i" "sees_host sc i"
proof (cases "tget Host_id (db_hosts (w_db w)) i")
  case None
  then show ?thesis by (intro missing) (simp_all add: visible_host_def get_visible_host_def get_visible_def read_db_def)
next
  case (Some h)
  then have id: "Host_id h = i" by (simp add: tget_Some)
  show ?thesis using Some id hidden [of h] found [of h]
    by (cases "sees_host sc i") (simp_all add: visible_host_def get_visible_host_def get_visible_def read_db_def)
qed

lemma tget_tupd_row: "k r = i \<Longrightarrow> tget k t i = Some r0 \<Longrightarrow> tget k (tupd k i (\<lambda>_. r) t) i = Some r"
  by (induction t) (auto simp: tupd_def tget_def split: if_splits)

lemma record_act_succeeds: "\<exists>w'. record_act eid u action tgt tsk details w = (Inr (), w')"
  by (cases tgt) (auto simp: record_act_def with_now_def bind_act_def lift_res_def record_event_def record_ref_def ret_def Let_def)

lemma need_active_same: "need_active_binary hv w = (r, w') \<Longrightarrow> w' = w"
  by (auto simp: need_active_binary_def bind_act_def read_db_def raise_def ret_def split: sum.splits option.splits)

lemma build_install_url_Inr:
  assumes "build_agent_install_url ae st h w = (Inr link, w')"
  shows "w' = w \<and> snd (snd link) = w_now w + seconds (agent_install_url_ttl_seconds st)
    \<and> fst link = rstrip_slash (public_base_url st) @ api_prefix st @ ''/hosts/'' @ Host_id h @ ''/agent-install.ps1?''
         @ urlencode (sign_scope (ae_hmac ae) st (w_now w) (install_scope (Host_id h)) (agent_install_url_ttl_seconds st))"
proof -
  obtain b w1 where 1: "need_active_binary (Host_hypervisor h) w = (Inr b, w1)"
    and 2: "with_now (\<lambda>now. let base = rstrip_slash (public_base_url st) in
       if base = [] then raise agent_download_unavailable
       else let ttl = agent_install_url_ttl_seconds st;
                qs = urlencode (sign_scope (ae_hmac ae) st now (install_scope (Host_id h)) ttl);
                url = base @ api_prefix st @ ''/hosts/'' @ Host_id h @ ''/agent-install.ps1?'' @ qs
            in ret (url, install_command url (install_script_filename h), now + seconds ttl)) w1 = (Inr link, w')"
    using assms unfolding build_agent_install_url_def bind_act_Inr by blast
  show ?thesis using 2 need_active_same [OF 1]
    by (cases "rstrip_slash (public_base_url st) = []") (auto simp: with_now_def Let_def raise_def ret_def)
qed

lemma record_act_Inr:
  assumes "record_act eid u action tgt tsk details w = (Inr (), w')"
  obtains ev where "AuditEvent_action ev = action" "AuditEvent_task_id ev = map_option Task_id tsk"
    "AuditEvent_outcome ev = (if tsk = None then ''succeeded'' else ''pending'')"
    "w' = w\<lparr>w_db := (w_db w)\<lparr>db_audit_events := db_audit_events (w_db w) @ [ev]\<rparr>\<rparr>"
proof -
  obtain ev db where "record_event eid (w_now w) u action (Some tgt) None tsk details (w_db w) = Inr (ev, db)" "w' = w\<lparr>w_db := db\<rparr>"
    using assms by (auto simp: record_act_def with_now_def bind_act_Inr lift_res_def ret_def split: sum.splits)
  then show ?thesis using that [of ev] by (auto simp: record_event_def Let_def split: if_splits)
qed

text \<open>Every pending event belongs to a task that is still open.\<close>

definition pending_tracked :: "database \<Rightarrow> bool" where
  "pending_tracked db \<longleftrightarrow> list_all (\<lambda>e. AuditEvent_outcome e = ''pending'' \<longrightarrow>
     (\<exists>t\<in>set (db_tasks db). AuditEvent_task_id e = Some (Task_id t) \<and> Task_status t \<notin> set TERMINAL_TASK_STATUSES)) (db_audit_events db)"

lemma drop_host_tables:
  "db_tasks (drop_host i db) = filter (\<lambda>t. Task_host_id t \<noteq> i) (db_tasks db)"
  "db_audit_events (drop_host i db) = db_audit_events db"
  "i \<notin> Host_id ` set (db_hosts (drop_host i db))" "i \<notin> Vm_host_id ` set (db_vms (drop_host i db))"
  "i \<notin> Template_host_id ` set (db_templates (drop_host i db))" "i \<notin> Iso_host_id ` set (db_isos (drop_host i db))"
  by (auto simp: drop_host_def drop_vms_def drop_folders_def tdel_def tupd_where_def Let_def)

lemma settle_drop_tracked:
  assumes "pending_tracked db" and "ids = open_task_ids i db"
    and "o1 \<noteq> ''pending''"
  shows "pending_tracked (drop_host i (settle_task_events ids o1 e1 db))"
proof -
  have same: "db_tasks (settle_task_events ids o1 e1 db) = db_tasks db" by (simp add: settle_task_events_def)
  have "\<exists>t\<in>set (filter (\<lambda>t. Task_host_id t \<noteq> i) (db_tasks db)). AuditEvent_task_id e = Some (Task_id t) \<and> Task_status t \<notin> set TERMINAL_TASK_STATUSES"
    if e: "e \<in> set (db_audit_events (settle_task_events ids o1 e1 db))" "AuditEvent_outcome e = ''pending''" for e
  proof -
    have e0: "e \<in> set (db_audit_events db)" "AuditEvent_task_id e \<notin> Some ` set ids"
      using e assms(3) by (auto simp: settle_task_events_def tupd_where_def split: if_splits)
    then obtain t where t: "t \<in> set (db_tasks db)" "AuditEvent_task_id e = Some (Task_id t)" "Task_status t \<notin> set TERMINAL_TASK_STATUSES"
      using assms(1) e(2) by (auto simp: pending_tracked_def list_all_iff)
    then have "Task_host_id t \<noteq> i" using e0(2) by (auto simp: assms(2) open_task_ids_def)
    then show ?thesis using t by auto
  qed
  then show ?thesis unfolding pending_tracked_def list_all_iff drop_host_tables same by blast
qed

lemma delete_host_db: "delete_host h w = (Inr (), w') \<Longrightarrow> w_db w' = drop_host (Host_id h) (w_db w)"
  using delete_host_effect [of h w] by (auto simp: delete_host_row_def)

section \<open>Properties\<close>

text \<open>Removing a host is complete and keeps the audit log honest: nothing of the host stays in the inventory, the
  removal is recorded, and the property that a pending event belongs to an open task, which the deletion of the
  host's tasks would break, survives because their events are settled first.\<close>

theorem remove_host_settles:
  assumes run: "remove_host eid sc u i w = (Inr (), w')" and ok: "pending_tracked (w_db w)"
  shows "pending_tracked (w_db w') \<and> Scope_all sc
    \<and> i \<notin> Host_id ` set (db_hosts (w_db w')) \<and> i \<notin> Vm_host_id ` set (db_vms (w_db w'))
    \<and> i \<notin> Task_host_id ` set (db_tasks (w_db w')) \<and> i \<notin> Template_host_id ` set (db_templates (w_db w'))
    \<and> i \<notin> Iso_host_id ` set (db_isos (w_db w'))
    \<and> list_ex (\<lambda>e. AuditEvent_action e = ''host.delete'') (db_audit_events (w_db w'))"
  using run
proof (cases rule: visible_host_cases [of sc i w])
  case (found h)
  obtain w1 w2 where all: "Scope_all sc"
    and rec: "record_act eid (Some u) ''host.delete'' (HostTarget h) None (Some [(''vmCount'', JInt (int (count_host_vms (w_db w) (Host_id h))))]) w = (Inr (), w1)"
    and w2: "w2 = w1\<lparr>w_db := settle_task_events (open_task_ids i (w_db w1)) ''failed'' (Some ''Host removed before the task finished'') (w_db w1)\<rparr>"
    and del: "delete_host h w2 = (Inr (), w')"
    using run found by (auto simp: remove_host_def bind_act_Inr read_db_def write_db_def raise_def split: if_splits)
  obtain ev where ev: "AuditEvent_action ev = ''host.delete''" "AuditEvent_outcome ev = ''succeeded''"
      "w1 = w\<lparr>w_db := (w_db w)\<lparr>db_audit_events := db_audit_events (w_db w) @ [ev]\<rparr>\<rparr>"
    using record_act_Inr [OF rec] by (metis (full_types))
  have "pending_tracked (w_db w1)" using ok ev by (simp add: pending_tracked_def list_all_iff)
  then have t: "pending_tracked (w_db w')"
    using settle_drop_tracked [of "w_db w1" "open_task_ids i (w_db w1)" i] found(3) by (simp add: delete_host_db [OF del] w2)
  have "list_ex (\<lambda>e. AuditEvent_action e = ''host.delete'') (db_audit_events (w_db w2))"
    using ev(1) by (auto simp: w2 ev(3) settle_task_events_def tupd_where_def list_ex_iff)
  then show ?thesis using t all found(3) by (auto simp: delete_host_db [OF del] drop_host_tables)
qed (auto simp: remove_host_def bind_act_def)

definition busy_world :: world where
  "busy_world = ready_world\<lparr>w_db := (w_db ready_world)\<lparr>
     db_tasks := [queued_task ''t1'' ''restart'' ''host'' ''h1'' ''node'' ''h1'' ''a@b'' 0],
     db_audit_events := [(sample_event ''e1'' 0)\<lparr>AuditEvent_task_id := Some ''t1'', AuditEvent_outcome := ''pending''\<rparr>]\<rparr>\<rparr>"

theorem remove_host_settles_witness:
  "\<exists>w'. remove_host ''e2'' admin_scope operator ''h1'' busy_world = (Inr (), w') \<and> pending_tracked (w_db w')
     \<and> ''h1'' \<notin> Task_host_id ` set (db_tasks (w_db w'))
     \<and> map AuditEvent_outcome (db_audit_events (w_db w')) = [''failed'', ''succeeded'']"
proof -
  have h: "visible_host admin_scope ''h1'' busy_world = (Inr ((sample_host ''h1'' None)\<lparr>Host_agent_last_seen := Some 0\<rparr>), busy_world)"
    by (simp add: visible_host_def get_visible_host_def get_visible_def read_db_def busy_world_def sees_host_def admin_scope_def)
  have all: "Scope_all admin_scope" by (simp add: admin_scope_def)
  have ok: "pending_tracked (w_db busy_world)"
    by (simp add: pending_tracked_def busy_world_def queued_task_def TERMINAL_TASK_STATUSES_def)
  obtain w' where r: "remove_host ''e2'' admin_scope operator ''h1'' busy_world = (Inr (), w')"
    and out: "map AuditEvent_outcome (db_audit_events (w_db w')) = [''failed'', ''succeeded'']"
  proof -
    obtain w1 where rec1: "record_act ''e2'' (Some operator) ''host.delete'' (HostTarget ((sample_host ''h1'' None)\<lparr>Host_agent_last_seen := Some 0\<rparr>)) None
        (Some [(''vmCount'', JInt (int (count_host_vms (w_db busy_world) ''h1'')))]) busy_world = (Inr (), w1)"
      using record_act_succeeds by blast
    obtain ev where rec: "w1 = busy_world\<lparr>w_db := (w_db busy_world)\<lparr>db_audit_events := db_audit_events (w_db busy_world) @ [ev]\<rparr>\<rparr>"
        "AuditEvent_outcome ev = ''succeeded''" "AuditEvent_task_id ev = None"
      using record_act_Inr [OF rec1] by (metis (full_types) option.map_disc_iff)
    have hid: "Host_id ((sample_host ''h1'' None)\<lparr>Host_agent_last_seen := Some 0\<rparr>) = ''h1''" by (simp add: sample_host_def)
    let ?h = "(sample_host ''h1'' None)\<lparr>Host_agent_last_seen := Some 0\<rparr>"
    let ?w2 = "w1\<lparr>w_db := settle_task_events (open_task_ids ''h1'' (w_db w1)) ''failed'' (Some ''Host removed before the task finished'') (w_db w1)\<rparr>"
    obtain w' where del: "delete_host ?h ?w2 = (Inr (), w')" "w_db w' = drop_host ''h1'' (w_db ?w2)"
      using delete_host_effect [of ?h ?w2] hid by (auto simp: delete_host_row_def)
    have "remove_host ''e2'' admin_scope operator ''h1'' busy_world = (Inr (), w')"
      using h all rec1 del(1) hid by (simp add: remove_host_def bind_act_def read_db_def write_db_def)
    moreover have "map AuditEvent_outcome (db_audit_events (w_db w')) = [''failed'', ''succeeded'']"
      using rec(2,3) by (simp add: del(2) drop_host_tables rec(1) settle_task_events_def open_task_ids_def tupd_where_def busy_world_def
          queued_task_def TERMINAL_TASK_STATUSES_def)
    ultimately show ?thesis by (rule that)
  qed
  show ?thesis using remove_host_settles [OF r ok] r out by auto
qed

text \<open>C26: A restricted user cannot remove a host, read its agent's credentials, obtain an installer link, upgrade its
  agent or change its cluster or power state, and no user can act on a host outside their scope: each such request
  fails with the same 404 or 403 and changes nothing anywhere.\<close>

theorem host_routes_guarded:
  assumes "\<not> Scope_all sc"
  shows "\<exists>e. e \<in> {not_found, forbidden} \<and> remove_host eid sc u i w = (Inl e, w)
    \<and> get_host_agent_config st pw sc i w = (Inl e, w) \<and> get_host_agent_install_url ae st pw sc i w = (Inl e, w)
    \<and> update_host_agent env ae st tid eid sc u i bid w = (Inl e, w)
    \<and> (action \<in> set DISRUPTIVE_HOST_ACTIONS \<or> \<not> sees_host sc i \<longrightarrow> host_action env st tid eid sc u i action w = (Inl e, w))
    \<and> (\<not> sees_host sc i \<longrightarrow> update_host env validate st eid eid2 sc u i body w = (Inl e, w)
         \<and> get_host env validate st sc i w = (Inl e, w) \<and> list_host_vms st sc i w = (Inl e, w)
         \<and> list_host_metrics st sc i w = (Inl e, w) \<and> list_host_templates sc i w = (Inl e, w) \<and> list_host_isos sc i w = (Inl e, w))"
proof -
  note defs = remove_host_def get_host_agent_config_def get_host_agent_install_url_def update_host_agent_def host_action_def
    update_host_def get_host_def list_host_vms_def list_host_metrics_def list_host_templates_def list_host_isos_def
  show ?thesis
  proof (cases rule: visible_host_cases [of sc i w])
    case missing
    then show ?thesis by (intro exI [of _ not_found]) (simp add: defs bind_act_def)
  next
    case (hidden h)
    then show ?thesis by (intro exI [of _ forbidden]) (simp add: defs bind_act_def)
  next
    case (found h)
    then show ?thesis using assms by (intro exI [of _ forbidden]) (simp add: defs bind_act_def raise_def)
  qed
qed

theorem host_routes_guarded_witness:
  "\<exists>e. e \<in> {not_found, forbidden} \<and> remove_host ''e1'' empty_scope operator ''h1'' ready_world = (Inl e, ready_world)
     \<and> host_action cursor_env default_settings ''t1'' ''e1'' empty_scope operator ''h1'' ''restart'' ready_world = (Inl e, ready_world)"
proof -
  have r: "\<not> Scope_all empty_scope" "''restart'' \<in> set DISRUPTIVE_HOST_ACTIONS"
    by (simp_all add: empty_scope_def DISRUPTIVE_HOST_ACTIONS_def)
  show ?thesis
    using host_routes_guarded [OF r(1), of "''e1''" operator "''h1''" ready_world default_settings "''pw''" sample_env cursor_env "''t1''" None
        "''restart''" "\<lambda>_. None" "''e2''" "\<lparr>hu_name = None, hu_fqdn = None, hu_cluster_id = None\<rparr>"] r(2) by blast
qed

text \<open>The installer link issued for a host opens that host's script, for anyone who has the link, until the announced
  expiry and not after it.\<close>

theorem install_link_opens:
  assumes out: "get_host_agent_install_url ae st pw sc i w = (Inr link, w1)"
    and mac: "\<And>k m. ae_hmac ae k m \<noteq> []" and pos: "0 \<le> epoch (w_now w) + agent_install_url_ttl_seconds st"
    and later: "w_db w2 = w_db w1"
  shows "\<exists>expires token h. ai_expires_at link = w_now w + seconds (agent_install_url_ttl_seconds st)
    \<and> ai_url link = rstrip_slash (public_base_url st) @ api_prefix st @ ''/hosts/'' @ i @ ''/agent-install.ps1?''
         @ urlencode [(''exp'', expires), (''token'', token)]
    \<and> tget Host_id (db_hosts (w_db w2)) i = Some h
    \<and> get_host_agent_install_script ae st pw' i (Some expires) (Some token) w2 =
        (if epoch (w_now w2) \<le> epoch (w_now w) + agent_install_url_ttl_seconds st
         then bind_act (provision_host_agent_user pw' h) (build_agent_install_script ae st) w2 else (Inl forbidden, w2))"
proof (cases rule: visible_host_cases [of sc i w])
  case (found h)
  let ?n = "epoch (w_now w) + agent_install_url_ttl_seconds st"
  let ?tok = "ae_hmac ae (session_secret st) (scope_message (install_scope i) ?n)"
  obtain h' wp url command t where p: "provision_host_agent_user pw h w = (Inr h', wp)"
    and b: "build_agent_install_url ae st h' wp = (Inr (url, command, t), w1)"
    and l: "link = \<lparr>ai_url = url, ai_command = command, ai_expires_at = t, ai_filename = install_script_filename h'\<rparr>"
    using out found by (auto simp: get_host_agent_install_url_def bind_act_Inr raise_def ret_def split: if_splits)
  note pe = provision_user_effect [OF p]
  have h': "Host_id h' = i" using found(3) by (simp add: pe(1))
  have wp: "w_now wp = w_now w" "w_db wp = save_host h' (w_db w)"
    using arg_cong [OF pe(3), of w_now] arg_cong [OF pe(3), of w_db] by simp_all
  have w1: "w1 = wp" and u: "t = w_now w + seconds (agent_install_url_ttl_seconds st)"
      "url = rstrip_slash (public_base_url st) @ api_prefix st @ ''/hosts/'' @ i @ ''/agent-install.ps1?''
         @ urlencode [(''exp'', int_str ?n), (''token'', ?tok)]"
    using build_install_url_Inr [OF b] h' wp(1) by (simp_all add: sign_scope_def Let_def)
  have row: "tget Host_id (db_hosts (w_db w2)) i = Some h'"
    using found(2) h' by (simp add: later w1 wp(2) save_host_def tget_tupd_row)
  have v: "verify_scope (ae_hmac ae) st (w_now w2) (install_scope i) (Some (int_str ?n)) (Some ?tok) \<longleftrightarrow> epoch (w_now w2) \<le> ?n"
    using mac int_str_digits(1) [OF pos] int_of_int_str [OF pos] by (auto simp: verify_scope_def opt_truthy_def or_empty_def)
  have "get_host_agent_install_script ae st pw' i (Some (int_str ?n)) (Some ?tok) w2 =
        (if epoch (w_now w2) \<le> ?n then bind_act (provision_host_agent_user pw' h') (build_agent_install_script ae st) w2 else (Inl forbidden, w2))"
    using row v by (simp add: get_host_agent_install_script_def bind_act_def read_db_def with_now_def raise_def forbidden_def)
  then show ?thesis using u l row
    by (intro exI [of _ "int_str ?n"] exI [of _ ?tok] exI [of _ h']) simp
qed (use out in \<open>auto simp: get_host_agent_install_url_def bind_act_def\<close>)

definition build_world :: world where
  "build_world = ready_world\<lparr>w_db := (w_db ready_world)\<lparr>db_agent_binaries := [sample_binary\<lparr>AgentBinary_is_active := True\<rparr>]\<rparr>\<rparr>"

theorem install_link_opens_witness:
  "\<exists>link w1 expires token h. get_host_agent_install_url (sample_env\<lparr>ae_hmac := \<lambda>k m. ''x'' @ m\<rparr>) (default_settings\<lparr>public_base_url := ''http://x''\<rparr>) ''pw''
      admin_scope ''h1'' build_world = (Inr link, w1)
    \<and> get_host_agent_install_script (sample_env\<lparr>ae_hmac := \<lambda>k m. ''x'' @ m\<rparr>) (default_settings\<lparr>public_base_url := ''http://x''\<rparr>) ''pw'' ''h1''
        (Some expires) (Some token) (w1\<lparr>w_now := seconds 4000\<rparr>) = (Inl forbidden, w1\<lparr>w_now := seconds 4000\<rparr>)
    \<and> ai_url link = ''http://x/api/hosts/h1/agent-install.ps1?'' @ urlencode [(''exp'', expires), (''token'', token)]"
proof -
  let ?ae = "sample_env\<lparr>ae_hmac := \<lambda>k m. ''x'' @ m\<rparr>" and ?st = "default_settings\<lparr>public_base_url := ''http://x''\<rparr>"
  let ?h = "(sample_host ''h1'' None)\<lparr>Host_agent_last_seen := Some 0\<rparr>"
  have h: "visible_host admin_scope ''h1'' build_world = (Inr ?h, build_world)"
    by (simp add: visible_host_def get_visible_host_def get_visible_def read_db_def build_world_def sees_host_def admin_scope_def)
  have all: "Scope_all admin_scope" by (simp add: admin_scope_def)
  have cred: "fst (ensure_host_agent_credentials ''pw'' ?h) = ?h" "has_credentials ?h"
    by (simp_all add: ensure_host_agent_credentials_def has_credentials_def sample_host_def opt_truthy_def Let_def)
  have "w_mgmt_up (build_world\<lparr>w_db := save_host ?h (w_db build_world)\<rparr>)" by (simp add: build_world_def ready_world_def)
  from repair_user_succeeds [OF this cred(2)]
  obtain wp where "ensure_host_agent_user ?h (build_world\<lparr>w_db := save_host ?h (w_db build_world)\<rparr>) = (Inr (), wp)"
    by (auto simp: repair_user_Inr)
  then have p: "provision_host_agent_user ''pw'' ?h build_world = (Inr ?h, wp)"
    by (simp add: provision_host_agent_user_def cred(1) bind_act_def write_db_def ret_def Let_def)
  have db: "w_db wp = save_host ?h (w_db build_world)" using arg_cong [OF provision_user_effect(3) [OF p], of w_db] by simp
  have base: "rstrip_slash ''http://x'' = ''http://x''" by (simp add: rstrip_slash_def rstrip_by_def)
  obtain link w1 where b: "build_agent_install_url ?ae ?st ?h wp = (Inr link, w1)"
    by (simp add: build_agent_install_url_def need_active_binary_def bind_act_def read_db_def db active_agent_binary_def save_host_def build_world_def
        sample_binary_def sample_host_def scalar_one_or_none_def ret_def with_now_def base Let_def)
  obtain out where o: "get_host_agent_install_url ?ae ?st ''pw'' admin_scope ''h1'' build_world = (Inr out, w1)"
    using h all p b by (cases link) (simp add: get_host_agent_install_url_def bind_act_def ret_def)
  have now: "w_now build_world = 1" by (simp add: build_world_def)
  have late: "\<not> epoch (w_now (w1\<lparr>w_now := seconds 4000\<rparr>)) \<le> epoch (w_now build_world) + agent_install_url_ttl_seconds ?st"
    by (simp add: now epoch_def seconds_def default_settings_def)
  have "0 \<le> epoch (w_now build_world) + agent_install_url_ttl_seconds ?st" by (simp add: now epoch_def seconds_def default_settings_def)
  from install_link_opens [OF o _ this, of "w1\<lparr>w_now := seconds 4000\<rparr>" "''pw''"] late o show ?thesis
    by (auto simp: base default_settings_def)
qed

end
