(* ===== verification/Vm_Routes.thy ===== *)
theory Vm_Routes
  imports Host_Routes
begin

text \<open>
  \<^verbatim>\<open>app/api/routes/vms.py\<close>, \<^verbatim>\<open>tasks.py\<close>, \<^verbatim>\<open>images.py\<close> and \<^verbatim>\<open>health.py\<close>: the listing and the views of VMs,
  creating, cloning, moving, tagging and deleting them, their actions, the administration of VM locks, and the
  lists of tasks and images. The row of a task, a metric or an image stands for its view.
\<close>

section \<open>Views\<close>

definition visible_vm :: "visible_scope \<Rightarrow> ident \<Rightarrow> vm act" where
  "visible_vm sc i = read_db (\<lambda>db. get_visible_vm db sc i)"

definition offline_host_ids :: "settings \<Rightarrow> instant \<Rightarrow> database \<Rightarrow> ident set \<Rightarrow> ident set" where
  "offline_host_ids st now db host_ids =
     set (map Host_id (filter (\<lambda>h. Host_id h \<in> host_ids \<and> \<not> agent_connected st now h) (db_hosts db)))"

definition row_host_offline :: "settings \<Rightarrow> instant \<Rightarrow> database \<Rightarrow> ident \<Rightarrow> bool" where
  "row_host_offline st now db i = (case tget Host_id (db_hosts db) i of None \<Rightarrow> False | Some h \<Rightarrow> \<not> agent_connected st now h)"

text \<open>The view the single-VM routes return: overlay, lock, and the state of the host.\<close>

definition current_view :: "settings \<Rightarrow> vm \<Rightarrow> vm_view act" where
  "current_view st v = with_now (\<lambda>now.
     bind_act (cache_act (\<lambda>now c. (get_vm_state now c (Vm_id v), c))) (\<lambda>state.
     bind_act (cache_act (\<lambda>now c. (get_vm_lock now c (Vm_id v), c))) (\<lambda>lock.
     read_db (\<lambda>db. Inr (vm_out db v state lock (row_host_offline st now db (Vm_host_id v)))))))"

definition vm_matches :: "ident option \<Rightarrow> ident option \<Rightarrow> string option \<Rightarrow> vm \<Rightarrow> bool" where
  "vm_matches host_id folder_id state v \<longleftrightarrow>
     (host_id \<noteq> None \<longrightarrow> Some (Vm_host_id v) = host_id) \<and> (folder_id \<noteq> None \<longrightarrow> Vm_folder_id v = folder_id)
     \<and> (state \<noteq> None \<longrightarrow> Some (Vm_state v) = state)"

definition list_vms ::
  "settings \<Rightarrow> visible_scope \<Rightarrow> ident option \<Rightarrow> ident option \<Rightarrow> string option \<Rightarrow> vm_view list act"
where
  "list_vms st sc host_id folder_id state = with_now (\<lambda>now.
     bind_act (read_db (\<lambda>db. Inr (filter (vm_visible sc) (sort_key Vm_name (filter (vm_matches host_id folder_id state) (db_vms db)))))) (\<lambda>vms.
     bind_act (if vms = [] then ret [] else cache_act (\<lambda>now c. (get_vm_states now c (map Vm_id vms), c))) (\<lambda>states.
     bind_act (if vms = [] then ret [] else cache_act (\<lambda>now c. (get_vm_locks now c (map Vm_id vms), c))) (\<lambda>locks.
     read_db (\<lambda>db. Inr (filter (\<lambda>v. state \<noteq> None \<longrightarrow> Some (VmOut_state v) = state)
       (map (\<lambda>v. vm_out db v (map_of states (Vm_id v)) (map_of locks (Vm_id v))
          (Vm_host_id v \<in> offline_host_ids st now db (set (map Vm_host_id vms)))) vms)))))))"

section \<open>Creating\<close>

text \<open>\<^verbatim>\<open>model_dump(mode="json", by_alias=True, exclude_none=True)\<close> of the two bodies.\<close>

definition without_none :: "jobj \<Rightarrow> jobj" where
  "without_none d = filter (\<lambda>kv. snd kv \<noteq> JNull) d"

definition create_dump :: "vm_create_body \<Rightarrow> jobj" where
  "create_dump b = without_none
     [(''name'', JStr (create_name b)), (''hostId'', JStr (create_host_id b)), (''os'', JStr (create_os b)),
      (''firmware'', JStr (create_firmware b)), (''cpuCount'', JInt (create_cpu_count b)),
      (''memoryMb'', JInt (create_memory_mb b)), (''memoryDynamic'', JBool (create_memory_dynamic b)),
      (''memoryMinMb'', opt_int (create_memory_min_mb b)), (''memoryMaxMb'', opt_int (create_memory_max_mb b)),
      (''destinationStorage'', opt_str (create_destination_storage b)), (''notes'', opt_str (create_notes b)),
      (''vlanId'', opt_int (create_vlan_id b)), (''switchName'', opt_str (create_switch_name b)),
      (''nestedVirtualization'', JBool (create_nested_virtualization b)), (''haEnabled'', JBool (create_ha_enabled b)),
      (''dvd'', opt_str (create_dvd b)), (''startNow'', JBool (create_start_now b)),
      (''disks'', JList (map (\<lambda>d. JObj [(''name'', JStr (spec_name d)), (''type'', JStr (spec_type d)),
         (''sizeGb'', JInt (spec_size_gb d))]) (create_disks b)))]"

definition clone_dump :: "vm_clone_body \<Rightarrow> jobj" where
  "clone_dump b = without_none
     [(''name'', JStr (clone_name b)), (''hostId'', JStr (clone_host_id b)), (''source'', JStr (clone_source b)),
      (''sourceVmId'', opt_str (clone_source_vm_id b)), (''templateId'', opt_str (clone_template_id b)),
      (''cpuCount'', opt_int (clone_cpu_count b)), (''memoryMb'', opt_int (clone_memory_mb b)),
      (''destinationStorage'', opt_str (clone_destination_storage b)), (''notes'', opt_str (clone_notes b)),
      (''vlanId'', opt_int (clone_vlan_id b)), (''nestedVirtualization'', JBool (clone_nested_virtualization b)),
      (''haEnabled'', JBool (clone_ha_enabled b)), (''startNow'', JBool (clone_start_now b)),
      (''expandDisks'', JBool (clone_expand_disks b))]"

definition target_host :: "visible_scope \<Rightarrow> ident \<Rightarrow> host act" where
  "target_host sc i = read_db (\<lambda>db. get_visible_host db sc i)"

definition placeholder_view :: "vm \<Rightarrow> vm_view act" where
  "placeholder_view v = bind_act (cache_act (\<lambda>now c. (get_vm_lock now c (Vm_id v), c))) (\<lambda>lock.
     read_db (\<lambda>db. Inr (vm_out db v None lock False)))"

definition create_vm ::
  "pyenv \<Rightarrow> settings \<Rightarrow> ident \<Rightarrow> ident \<Rightarrow> ident \<Rightarrow> visible_scope \<Rightarrow> user \<Rightarrow> vm_create_body \<Rightarrow> (vm_view \<times> task) act"
where
  "create_vm env st vid tid eid sc u body =
     bind_act (target_host sc (create_host_id body)) (\<lambda>h.
     bind_act (request_vm_create env st vid tid h body (User_email u)) (\<lambda>(v, t).
     bind_act (record_act eid (Some u) ''vm.create'' (VmTarget v) (Some t) (Some (create_dump body))) (\<lambda>_.
     bind_act (placeholder_view v) (\<lambda>view. ret (view, t)))))"

definition source_name :: "vm_clone_body \<Rightarrow> database \<Rightarrow> string option" where
  "source_name b db = (if clone_source b = ''vm''
     then map_option Vm_name (Option.bind (clone_source_vm_id b) (tget Vm_id (db_vms db)))
     else map_option Template_name (Option.bind (clone_template_id b) (tget Template_id (db_templates db))))"

definition clone_vm ::
  "pyenv \<Rightarrow> settings \<Rightarrow> ident \<Rightarrow> ident \<Rightarrow> ident \<Rightarrow> visible_scope \<Rightarrow> user \<Rightarrow> vm_clone_body \<Rightarrow> (vm_view \<times> task) act"
where
  "clone_vm env st vid tid eid sc u body =
     bind_act (target_host sc (clone_host_id body)) (\<lambda>h.
     bind_act (request_vm_clone env st vid tid body h (User_email u)) (\<lambda>(v, t).
     bind_act (read_db (\<lambda>db. Inr (source_name body db))) (\<lambda>src.
     bind_act (record_act eid (Some u) ''vm.clone'' (VmTarget v) (Some t)
       (Some (case src of None \<Rightarrow> clone_dump body | Some nm \<Rightarrow> jset (clone_dump body) ''sourceName'' (JStr nm)))) (\<lambda>_.
     bind_act (placeholder_view v) (\<lambda>view. ret (view, t))))))"

section \<open>Locks\<close>

record lock_entry =
  le_vm_id :: ident
  le_vm_name :: "string option"
  le_lock :: lock_info
  le_ttl :: int
  le_task_status :: "string option"

definition list_locks :: "visible_scope \<Rightarrow> lock_entry list act" where
  "list_locks sc =
     (if \<not> Scope_all sc then raise forbidden
      else bind_act (cache_act (\<lambda>now c. (list_vm_locks now c, c))) (\<lambda>locks.
        read_db (\<lambda>db. Inr (map (\<lambda>(vm_id, l, ttl).
          \<lparr>le_vm_id = vm_id, le_vm_name = map_option Vm_name (tget Vm_id (db_vms db) vm_id), le_lock = l, le_ttl = ttl,
           le_task_status = map_option Task_status (tget Task_id (db_tasks db) (lock_task_id l))\<rparr>) locks))))"

definition release_locks :: "ident \<Rightarrow> visible_scope \<Rightarrow> user \<Rightarrow> nat act" where
  "release_locks eid sc u =
     (if \<not> Scope_all sc then raise forbidden
      else bind_act (cache_act release_all_vm_locks) (\<lambda>released. with_now (\<lambda>now.
        bind_act (lift_res (record_event eid now (Some u) ''vm.lock_release_all'' None (Some ''vm'') None
          (Some [(''released'', JInt (int released))]))) (\<lambda>_. ret released))))"

definition lock_json :: "pyenv \<Rightarrow> lock_info option \<Rightarrow> json" where
  "lock_json env l = (case l of None \<Rightarrow> JNull
     | Some k \<Rightarrow> JObj [(''task_id'', JStr (lock_task_id k)), (''kind'', JStr (lock_kind k)),
         (''requested_by'', JStr (lock_requested_by k)), (''acquired_at'', JStr (isoformat env (lock_acquired_at k)))])"

definition release_lock :: "pyenv \<Rightarrow> ident \<Rightarrow> visible_scope \<Rightarrow> user \<Rightarrow> ident \<Rightarrow> bool act" where
  "release_lock env eid sc u i =
     (if \<not> Scope_all sc then raise forbidden
      else bind_act (cache_act (\<lambda>now c. (get_vm_lock now c i, c))) (\<lambda>held.
        bind_act (cache_act (\<lambda>now c. release_vm_lock now i None c)) (\<lambda>released.
        bind_act (read_db (\<lambda>db. Inr (tget Vm_id (db_vms db) i))) (\<lambda>found.
        bind_act (case found of Some v \<Rightarrow> if released then record_act eid (Some u) ''vm.lock_release'' (VmTarget v) None
               (Some [(''lock'', lock_json env held)]) else ret () | None \<Rightarrow> ret ()) (\<lambda>_. ret released)))))"

section \<open>One VM\<close>

definition get_vm :: "settings \<Rightarrow> visible_scope \<Rightarrow> ident \<Rightarrow> vm_view act" where
  "get_vm st sc i = bind_act (visible_vm sc i) (current_view st)"

definition list_vm_metrics :: "settings \<Rightarrow> visible_scope \<Rightarrow> ident \<Rightarrow> vm_metric list act" where
  "list_vm_metrics st sc i = bind_act (visible_vm sc i) (\<lambda>_. with_now (\<lambda>now. read_db (\<lambda>db.
     Inr (sort_key VmMetric_ts (filter (\<lambda>m. VmMetric_vm_id m = i
       \<and> now - seconds (metrics_retention_seconds st) \<le> VmMetric_ts m) (db_vm_metrics db))))))"

definition get_vm_thumbnail :: "visible_scope \<Rightarrow> ident \<Rightarrow> vm_thumbnail act" where
  "get_vm_thumbnail sc i = bind_act (visible_vm sc i) (\<lambda>_. read_db (\<lambda>db.
     case tget VmThumbnail_vm_id (db_vm_thumbnails db) i of None \<Rightarrow> Inl not_found | Some t \<Rightarrow> Inr t))"

definition folder_ref :: "ident option \<Rightarrow> database \<Rightarrow> json" where
  "folder_ref fid db = (case fid of None \<Rightarrow> JNull
     | Some i \<Rightarrow> JObj [(''id'', JStr i), (''name'', case tget Folder_id (db_folders db) i of
         None \<Rightarrow> JNull | Some f \<Rightarrow> JStr (Folder_name f))])"

definition move_vm :: "settings \<Rightarrow> ident \<Rightarrow> visible_scope \<Rightarrow> user \<Rightarrow> ident \<Rightarrow> ident option \<Rightarrow> vm_view act" where
  "move_vm st eid sc u i fid =
     bind_act (visible_vm sc i) (\<lambda>v.
     bind_act (read_db (\<lambda>db. Inr (folder_ref (Vm_folder_id v) db))) (\<lambda>old.
     bind_act (lift_res (move_vm_to_folder v fid)) (\<lambda>v'.
     bind_act (read_db (\<lambda>db. Inr (folder_ref (Vm_folder_id v') db))) (\<lambda>new.
     bind_act (record_changes eid u ''vm.move_folder'' (VmTarget v') [(''folder'', old)] [(''folder'', new)]) (\<lambda>_.
       current_view st v')))))"

definition tag_names :: "ident \<Rightarrow> database \<Rightarrow> json" where
  "tag_names i db = JList (map JStr (sort (map Tag_name (filter (\<lambda>t. (i, Tag_id t) \<in> set (db_vm_tags db)) (db_tags db)))))"

definition put_vm_tags :: "settings \<Rightarrow> ident \<Rightarrow> visible_scope \<Rightarrow> user \<Rightarrow> ident \<Rightarrow> ident list \<Rightarrow> vm_view act" where
  "put_vm_tags st eid sc u i tag_ids =
     bind_act (visible_vm sc i) (\<lambda>v.
     bind_act (read_db (\<lambda>db. Inr (tag_names i db))) (\<lambda>old.
     bind_act (lift_res (\<lambda>db. sbind (set_vm_tags v tag_ids db) (\<lambda>db'. Inr ((), db')))) (\<lambda>_.
     bind_act (read_db (\<lambda>db. Inr (tag_names i db))) (\<lambda>new.
     bind_act (record_changes eid u ''vm.tags'' (VmTarget v) [(''tags'', old)] [(''tags'', new)]) (\<lambda>_.
       current_view st v)))))"

definition ALLOWED_ACTIONS :: "string list" where
  "ALLOWED_ACTIONS = filter (\<lambda>a. a \<noteq> ''delete'') (map fst ACTION_MAP)"

definition vm_action ::
  "pyenv \<Rightarrow> settings \<Rightarrow> ident \<Rightarrow> ident \<Rightarrow> visible_scope \<Rightarrow> user \<Rightarrow> ident \<Rightarrow> string \<Rightarrow> jobj option \<Rightarrow> task act"
where
  "vm_action env st tid eid sc u i action params =
     (if action \<notin> set ALLOWED_ACTIONS then raise (ApiError ''UNKNOWN_ACTION'' 404)
      else bind_act (visible_vm sc i) (\<lambda>v.
        bind_act (request_vm_action env st tid v action (User_email u) params) (\<lambda>t.
        bind_act (if action \<notin> set READ_ONLY_VM_ACTIONS
          then record_act eid (Some u) (''vm.'' @ action) (VmTarget v) (Some t)
                 (case params of Some (p # rest) \<Rightarrow> Some [(''params'', JObj (p # rest))] | _ \<Rightarrow> None)
          else ret ()) (\<lambda>_. ret t))))"

definition delete_vm ::
  "pyenv \<Rightarrow> settings \<Rightarrow> ident \<Rightarrow> ident \<Rightarrow> visible_scope \<Rightarrow> user \<Rightarrow> ident \<Rightarrow> bool \<Rightarrow> task act"
where
  "delete_vm env st tid eid sc u i remove_files =
     bind_act (visible_vm sc i) (\<lambda>v.
     bind_act (request_vm_action env st tid v ''delete'' (User_email u) (Some [(''remove_files'', JBool remove_files)])) (\<lambda>t.
     bind_act (record_act eid (Some u) ''vm.delete'' (VmTarget v) (Some t) (Some [(''removeFiles'', JBool remove_files)])) (\<lambda>_.
       ret t)))"

definition forget_vm :: "settings \<Rightarrow> ident \<Rightarrow> visible_scope \<Rightarrow> user \<Rightarrow> ident \<Rightarrow> unit act" where
  "forget_vm st eid sc u i =
     bind_act (visible_vm sc i) (\<lambda>v.
     bind_act (record_act eid (Some u) ''vm.forget'' (VmTarget v) None None) (\<lambda>_. remove_vm_from_inventory st v))"

section \<open>Tasks, images, health\<close>

definition task_visible :: "visible_scope \<Rightarrow> database \<Rightarrow> task \<Rightarrow> bool" where
  "task_visible sc db t \<longleftrightarrow> Scope_all sc
     \<or> (Task_target_type t = ''host'' \<and> sees_host sc (Task_host_id t))
     \<or> (Task_target_type t = ''vm'' \<and> (case tget Vm_id (db_vms db) (Task_target_id t) of
          Some v \<Rightarrow> vm_visible sc v \<or> sees_host sc (Task_host_id t) | None \<Rightarrow> sees_host sc (Task_host_id t)))"

definition list_tasks ::
  "visible_scope \<Rightarrow> ident option \<Rightarrow> ident option \<Rightarrow> string option \<Rightarrow> nat \<Rightarrow> database \<Rightarrow> task list"
where
  "list_tasks sc vm_id host_id status n db =
     filter (task_visible sc db) (take n (sort_key (\<lambda>t. - Task_created_at t) (filter (\<lambda>t.
       (vm_id \<noteq> None \<longrightarrow> Some (Task_target_id t) = vm_id) \<and> (host_id \<noteq> None \<longrightarrow> Some (Task_host_id t) = host_id)
       \<and> (status \<noteq> None \<longrightarrow> Some (Task_status t) = status)) (db_tasks db))))"

definition get_task :: "visible_scope \<Rightarrow> ident \<Rightarrow> database \<Rightarrow> task res" where
  "get_task sc i db = (case tget Task_id (db_tasks db) i of
     None \<Rightarrow> Inl not_found
   | Some t \<Rightarrow> if \<not> Scope_all sc \<and> \<not> sees_host sc (Task_host_id t) then Inl forbidden else Inr t)"

definition list_templates :: "visible_scope \<Rightarrow> database \<Rightarrow> template list" where
  "list_templates sc db = filter (\<lambda>t. sees_host sc (Template_host_id t)) (sort_key Template_name (db_templates db))"

definition list_isos :: "visible_scope \<Rightarrow> database \<Rightarrow> iso list" where
  "list_isos sc db = filter (\<lambda>i. sees_host sc (Iso_host_id i)) (sort_key Iso_name (db_isos db))"

record health_out =
  ho_ok :: bool
  ho_db :: bool
  ho_cache :: bool
  ho_rabbit :: bool

definition health :: "schema_env \<Rightarrow> world \<Rightarrow> health_out" where
  "health se w = \<lparr>ho_ok = (se_connects se \<and> w_cache_up w \<and> w_broker_up w), ho_db = se_connects se,
     ho_cache = w_cache_up w, ho_rabbit = w_broker_up w\<rparr>"

section \<open>Validated bodies\<close>

text \<open>The field constraints of \<^verbatim>\<open>VmCreate\<close> and \<^verbatim>\<open>VmDiskSpec\<close>.\<close>

definition safe_name :: "string \<Rightarrow> bool" where
  "safe_name s \<longleftrightarrow> s \<noteq> [] \<and> length s \<le> 255 \<and> list_all (\<lambda>c. is_letter c \<or> is_digit c \<or> c \<in> set ''_-'') s"

definition in_range :: "int \<Rightarrow> int \<Rightarrow> int \<Rightarrow> bool" where
  "in_range lo hi n \<longleftrightarrow> lo \<le> n \<and> n \<le> hi"

definition disk_spec_valid :: "vm_disk_spec \<Rightarrow> bool" where
  "disk_spec_valid d \<longleftrightarrow> spec_name d \<noteq> [] \<and> length (spec_name d) \<le> 6 \<and> list_all (\<lambda>c. is_letter c \<or> is_digit c) (spec_name d)
     \<and> spec_type d \<in> set [''Fixed'', ''Dynamic''] \<and> in_range 1 65536 (spec_size_gb d)"

definition vm_create_valid :: "vm_create_body \<Rightarrow> bool" where
  "vm_create_valid b \<longleftrightarrow> safe_name (create_name b) \<and> create_os b \<in> set [''windows'', ''linux'', ''other'']
     \<and> create_firmware b \<in> set [''BIOS'', ''UEFI''] \<and> in_range 1 256 (create_cpu_count b) \<and> in_range 256 4194304 (create_memory_mb b)
     \<and> pred_option (in_range 256 4194304) (create_memory_min_mb b) \<and> pred_option (in_range 256 4194304) (create_memory_max_mb b)
     \<and> pred_option (in_range 1 4094) (create_vlan_id b) \<and> list_all disk_spec_valid (create_disks b) \<and> memory_bounds_ok b"

text \<open>The types of the parameters of \<^verbatim>\<open>vm_create\<close> in \<^verbatim>\<open>docs/agent-queue-contract.md\<close>.\<close>

datatype ptype = PText | PName | PFlag | PNum int int | POne "string list" | POpt ptype | PDisks

fun disk_json_ok :: "json \<Rightarrow> bool" where
  "disk_json_ok (JObj [(k1, JStr n), (k2, JStr t), (k3, JInt g)]) \<longleftrightarrow>
     [k1, k2, k3] = [''name'', ''type'', ''size_gb''] \<and> n \<noteq> [] \<and> t \<in> set [''Fixed'', ''Dynamic''] \<and> in_range 1 65536 g"
| "disk_json_ok _ = False"

fun has_ptype :: "ptype \<Rightarrow> json \<Rightarrow> bool" where
  "has_ptype PText (JStr _) = True"
| "has_ptype PName (JStr s) = safe_name s"
| "has_ptype PFlag (JBool _) = True"
| "has_ptype (PNum lo hi) (JInt n) = in_range lo hi n"
| "has_ptype (POne xs) (JStr s) = (s \<in> set xs)"
| "has_ptype (POpt t) j = (j = JNull \<or> has_ptype t j)"
| "has_ptype PDisks (JList ds) = list_all disk_json_ok ds"
| "has_ptype _ _ = False"

definition CREATE_CONTRACT :: "(string \<times> ptype) list" where
  "CREATE_CONTRACT =
     [(''name'', PName), (''destination_storage'', PText), (''os'', POne [''windows'', ''linux'', ''other'']), (''notes'', PText),
      (''firmware'', POne [''BIOS'', ''UEFI'']), (''cpu_count'', PNum 1 256), (''memory_mb'', PNum 256 4194304),
      (''memory_dynamic'', PFlag), (''memory_min_mb'', POpt (PNum 256 4194304)), (''memory_max_mb'', POpt (PNum 256 4194304)),
      (''nested_virtualization'', PFlag), (''vlan_id'', POpt (PNum 1 4094)), (''switch_name'', POpt PText), (''dvd'', POpt PText),
      (''ha_enabled'', PFlag), (''cluster'', POpt PText), (''start_now'', PFlag), (''disks'', PDisks)]"

definition params_typed :: "(string \<times> ptype) list \<Rightarrow> jobj \<Rightarrow> bool" where
  "params_typed contract d \<longleftrightarrow> list_all2 (\<lambda>(k, t) (k', j). k = k' \<and> has_ptype t j) contract d"

section \<open>Lemmas\<close>

lemma opt_int_typed: "pred_option (in_range lo hi) x \<Longrightarrow> has_ptype (POpt (PNum lo hi)) (opt_int x)"
  by (cases x) (simp_all add: opt_int_def)

lemma opt_text_typed: "has_ptype (POpt PText) (truthy_str x)" "has_ptype (POpt PText) (opt_str x)"
  by (simp_all add: truthy_str_def opt_str_def split: option.split)

lemma disks_typed: "list_all disk_spec_valid ds \<Longrightarrow> list_all disk_json_ok (map disk_spec_json ds)"
  by (auto simp: list_all_iff disk_spec_json_def disk_spec_valid_def)

lemma create_params_typed: "vm_create_valid b \<Longrightarrow> params_typed CREATE_CONTRACT (create_params b h destination notes)"
  using disks_typed [of "create_disks b"] opt_text_typed
  by (simp add: params_typed_def CREATE_CONTRACT_def create_params_def vm_create_valid_def opt_int_typed del: has_ptype.simps(6)) simp

lemma visible_vm_cases:
  obtains (missing) "visible_vm sc i w = (Inl not_found, w)" "tget Vm_id (db_vms (w_db w)) i = None"
  | (hidden) v where "visible_vm sc i w = (Inl forbidden, w)" "tget Vm_id (db_vms (w_db w)) i = Some v" "\<not> vm_visible sc v"
  | (found) v where "visible_vm sc i w = (Inr v, w)" "tget Vm_id (db_vms (w_db w)) i = Some v" "Vm_id v = i" "vm_visible sc v"
proof (cases "tget Vm_id (db_vms (w_db w)) i")
  case None
  then show ?thesis by (intro missing) (simp_all add: visible_vm_def get_visible_vm_def get_visible_def read_db_def)
next
  case (Some v)
  then show ?thesis using hidden [of v] found [of v] tget_Some [OF Some]
    by (cases "vm_visible sc v") (simp_all add: visible_vm_def get_visible_vm_def get_visible_def read_db_def)
qed

lemma map_of_map_filter:
  "i \<in> set ids \<Longrightarrow> map_of (List.map_filter (\<lambda>i. map_option (Pair i) (f i)) ids) i = f i"
proof (induction ids)
  case (Cons j ids)
  have "map_of (List.map_filter (\<lambda>i. map_option (Pair i) (f i)) ids) i = None" if "f i = None" for ids
    using that by (induction ids) (auto simp: List.map_filter_simps split: option.splits)
  then show ?case using Cons by (cases "f j") (auto simp: List.map_filter_simps)
qed simp

lemma states_lookup:
  assumes "i \<in> set ids"
  shows "map_of (get_vm_states now c ids) i = (let s = get_vm_state now c i in if opt_truthy s then s else None)"
proof -
  let ?f = "\<lambda>i. if opt_truthy (get_vm_state now c i) then get_vm_state now c i else None"
  have "(let v = get_vm_state now c i in if opt_truthy v then Some (i, or_empty v) else None) = map_option (Pair i) (?f i)" for i
    by (auto simp: opt_truthy_def or_empty_def Let_def split: option.splits)
  then show ?thesis using map_of_map_filter [OF assms, of ?f] by (simp add: get_vm_states_def Let_def)
qed

lemma locks_lookup: "i \<in> set ids \<Longrightarrow> map_of (get_vm_locks now c ids) i = get_vm_lock now c i"
  unfolding get_vm_locks_def by (rule map_of_map_filter)

lemma offline_lookup:
  assumes "pk_unique Host_id (db_hosts db)" and "i \<in> hs"
  shows "i \<in> offline_host_ids st now db hs \<longleftrightarrow> row_host_offline st now db i"
proof (cases "tget Host_id (db_hosts db) i")
  case None
  then have "i \<notin> Host_id ` set (db_hosts db)" by (simp add: tget_None_iff)
  then show ?thesis using None by (auto simp: offline_host_ids_def row_host_offline_def)
next
  case (Some h)
  have "h' = h" if "h' \<in> set (db_hosts db)" "Host_id h' = i" for h'
    using that Some tget_Some [OF Some] pk_uniqueD [OF assms(1)] by metis
  moreover have "h \<in> set (db_hosts db)" "Host_id h = i" using tget_Some [OF Some] by simp_all
  ultimately have "i \<in> offline_host_ids st now db hs \<longleftrightarrow> \<not> agent_connected st now h"
    using assms(2) unfolding offline_host_ids_def set_map set_filter by blast
  then show ?thesis using Some by (simp add: row_host_offline_def)
qed

lemma get_vm_run:
  assumes "w_cache_up w" and "tget Vm_id (db_vms (w_db w)) i = Some v" and "vm_visible sc v"
  shows "get_vm st sc i w = (Inr (vm_out (w_db w) v (get_vm_state (w_now w) (w_cache w) i) (get_vm_lock (w_now w) (w_cache w) i)
    (row_host_offline st (w_now w) (w_db w) (Vm_host_id v))), w)"
proof -
  have "visible_vm sc i w = (Inr v, w)" using assms(2,3) by (simp add: visible_vm_def get_visible_vm_def get_visible_def read_db_def)
  then show ?thesis using assms(1) tget_Some [OF assms(2)]
    by (simp add: get_vm_def current_view_def with_now_def bind_act_def cache_act_def read_db_def)
qed

lemma vm_out_falsy: "vm_out db v (if opt_truthy s then s else None) lock offl = vm_out db v s lock offl"
  by (simp add: vm_out_def opt_truthy_def)

lemma provision_Inr:
  assumes "provision env st tid v h fn params requester w = (Inr r, w')"
  defines "req \<equiv> \<lparr>Request_id = tid, Request_function = fn, Request_params = params, Request_requested_by = requester, Request_issued_at = w_now w\<rparr>"
    and "t0 \<equiv> queued_task tid fn ''vm'' (Vm_id v) (Vm_name v) (Host_id h) requester (w_now w)"
  shows "r = (v, t0\<lparr>Task_request_payload := Some (request_json env req)\<rparr>)"
    "w_queues w' = enqueue (Host_short_id h) req (w_queues w)"
    "w_db w' = set_request_payload tid (request_json env req) (add_task t0 ((w_db w)\<lparr>db_vms := db_vms (w_db w) @ [v]\<rparr>))"
proof -
  obtain b c where "acquire_vm_lock st (w_now w) (Vm_id v) tid fn requester (w_cache w) = (b, c)" by fastforce
  then show "r = (v, t0\<lparr>Task_request_payload := Some (request_json env req)\<rparr>)"
    "w_queues w' = enqueue (Host_short_id h) req (w_queues w)"
    "w_db w' = set_request_payload tid (request_json env req) (add_task t0 ((w_db w)\<lparr>db_vms := db_vms (w_db w) @ [v]\<rparr>))"
    using assms(1) unfolding provision_def Let_def req_def [symmetric] t0_def [symmetric]
    by (auto simp: bind_act_def write_db_def cache_act_def publish_request_def ret_def enqueue_def req_def Let_def split: if_splits)
qed

lemma provision_task:
  "\<exists>t\<in>set (db_tasks (set_request_payload tid j (add_task (queued_task tid fn ty tgt nm hid rq now) db))).
     t = (queued_task tid fn ty tgt nm hid rq now)\<lparr>Task_request_payload := Some j\<rparr>"
  by (simp add: set_request_payload_def add_task_def tupd_def queued_task_def)

definition shown_vms :: "visible_scope \<Rightarrow> ident option \<Rightarrow> ident option \<Rightarrow> database \<Rightarrow> vm list" where
  "shown_vms sc host_id folder_id db = filter (vm_visible sc) (sort_key Vm_name (filter (vm_matches host_id folder_id None) (db_vms db)))"

lemma list_vms_run:
  assumes run: "list_vms st sc host_id folder_id None w = (Inr views, w')" and "shown_vms sc host_id folder_id (w_db w) \<noteq> []"
  shows "w' = w" "w_cache_up w"
    "views = map (\<lambda>v. vm_out (w_db w) v (map_of (get_vm_states (w_now w) (w_cache w) (map Vm_id (shown_vms sc host_id folder_id (w_db w)))) (Vm_id v))
        (map_of (get_vm_locks (w_now w) (w_cache w) (map Vm_id (shown_vms sc host_id folder_id (w_db w)))) (Vm_id v))
        (Vm_host_id v \<in> offline_host_ids st (w_now w) (w_db w) (set (map Vm_host_id (shown_vms sc host_id folder_id (w_db w))))))
       (shown_vms sc host_id folder_id (w_db w))"
  using assms unfolding shown_vms_def
  by (auto simp: list_vms_def with_now_def bind_act_Inr read_db_def cache_act_def split: if_splits)

section \<open>Properties\<close>

text \<open>C29: The list of VMs and the view of one VM agree: without a state filter the list has exactly the visible VMs that match,
  in the order of their names, and each entry is what the single-VM route returns at that moment, although the list
  reads the overlay, the locks and the hosts in bulk.\<close>

theorem list_agrees_with_get:
  assumes run: "list_vms st sc host_id folder_id None w = (Inr views, w')"
    and keys: "pk_unique Vm_id (db_vms (w_db w))" "pk_unique Host_id (db_hosts (w_db w))"
  shows "list_all2 (\<lambda>v view. get_vm st sc (Vm_id v) w = (Inr view, w)) (shown_vms sc host_id folder_id (w_db w)) views
    \<and> set (map VmOut_columns views) = {v \<in> set (db_vms (w_db w)). vm_visible sc v \<and> vm_matches host_id folder_id None v}"
proof (cases "shown_vms sc host_id folder_id (w_db w) = []")
  case True
  then have "views = []" using run unfolding shown_vms_def
    by (auto simp: list_vms_def with_now_def bind_act_Inr read_db_def ret_def)
  moreover have "{v \<in> set (db_vms (w_db w)). vm_visible sc v \<and> vm_matches host_id folder_id None v} = {}"
    using True by (auto simp: shown_vms_def filter_empty_conv)
  ultimately show ?thesis using True by simp
next
  case False
  let ?vs = "shown_vms sc host_id folder_id (w_db w)"
  note r = list_vms_run [OF run False]
  have sub: "set ?vs = {v \<in> set (db_vms (w_db w)). vm_visible sc v \<and> vm_matches host_id folder_id None v}"
    by (auto simp: shown_vms_def)
  have "get_vm st sc (Vm_id v) w = (Inr (vm_out (w_db w) v (map_of (get_vm_states (w_now w) (w_cache w) (map Vm_id ?vs)) (Vm_id v))
        (map_of (get_vm_locks (w_now w) (w_cache w) (map Vm_id ?vs)) (Vm_id v))
        (Vm_host_id v \<in> offline_host_ids st (w_now w) (w_db w) (set (map Vm_host_id ?vs)))), w)" if "v \<in> set ?vs" for v
  proof -
    have "v \<in> set (db_vms (w_db w))" "vm_visible sc v" using that sub by auto
    then have g: "tget Vm_id (db_vms (w_db w)) (Vm_id v) = Some v" using keys(1) by (simp add: tget_unique)
    show ?thesis using get_vm_run [OF r(2) g \<open>vm_visible sc v\<close>] that
      by (simp add: states_lookup locks_lookup offline_lookup [OF keys(2)] vm_out_falsy Let_def)
  qed
  then have "list_all2 (\<lambda>v view. get_vm st sc (Vm_id v) w = (Inr view, w)) ?vs views"
    by (auto simp: r(3) list_all2_map2 list.rel_refl_strong list_all2_same)
  moreover have "map VmOut_columns views = ?vs" by (simp add: r(3) vm_out_def o_def)
  ultimately show ?thesis using sub by simp
qed

theorem list_agrees_with_get_witness:
  "\<exists>view. list_vms default_settings admin_scope None None None ready_world = (Inr [view], ready_world)
     \<and> get_vm default_settings admin_scope ''v1'' ready_world = (Inr view, ready_world)"
proof -
  have vis: "vm_visible admin_scope v" for v by (simp add: vm_visible_def admin_scope_def)
  have shown: "shown_vms admin_scope None None (w_db ready_world) = [sample_vm ''v1'' ''h1'']"
    by (simp add: shown_vms_def vm_matches_def vis)
  obtain views w' where r: "list_vms default_settings admin_scope None None None ready_world = (Inr views, w')"
    by (simp add: list_vms_def with_now_def bind_act_def read_db_def cache_act_def vm_matches_def vis)
  have "w' = ready_world" using list_vms_run(1) [OF r] shown by simp
  moreover have keys: "pk_unique Vm_id (db_vms (w_db ready_world))" "pk_unique Host_id (db_hosts (w_db ready_world))"
    by (simp_all add: pk_unique_def ready_world_def empty_db_def)
  then have l: "list_all2 (\<lambda>v view. get_vm default_settings admin_scope (Vm_id v) ready_world = (Inr view, ready_world)) [sample_vm ''v1'' ''h1''] views"
    using list_agrees_with_get [OF r] shown by simp
  obtain view where "views = [view]" using l by (auto simp: list_all2_Cons1)
  then show ?thesis using r l \<open>w' = ready_world\<close> by auto
qed



text \<open>C27: What is sent to an agent is well typed: a create request that passes the body's validation puts one \<^verbatim>\<open>vm_create\<close> message
  on the host's queue, whose parameters are exactly those of the contract with values of their types and ranges, and leaves
  a placeholder row and a task with the same bounds.\<close>

theorem create_request_typed:
  assumes ok: "vm_create_valid body" and run: "create_vm env st vid tid eid sc u body w = (Inr (view, t), w')"
  shows "\<exists>h req. tget Host_id (db_hosts (w_db w)) (create_host_id body) = Some h \<and> sees_host sc (create_host_id body)
    \<and> w_queues w' = enqueue (Host_short_id h) req (w_queues w)
    \<and> Request_function req = ''vm_create'' \<and> Request_id req = tid \<and> params_typed CREATE_CONTRACT (Request_params req)
    \<and> in_range 1 256 (Vm_vcpu (VmOut_columns view)) \<and> in_range (256 * 2 ^ 20) (2 ^ 42) (Vm_memory_bytes (VmOut_columns view))
    \<and> safe_name (Vm_name (VmOut_columns view)) \<and> VmOut_columns view \<in> set (db_vms (w_db w'))
    \<and> Vm_vm_uuid (VmOut_columns view) = None \<and> t \<in> set (db_tasks (w_db w')) \<and> Task_status t = ''queued''"
  using run
proof (cases rule: visible_host_cases [of sc "create_host_id body" w])
  case (found h)
  have th: "target_host sc (create_host_id body) w = (Inr h, w)" using found(1) by (simp add: target_host_def visible_host_def)
  let ?dest = "py_strip (or_empty (create_destination_storage body))" and ?notes = "none_if_empty (py_strip (or_empty (create_notes body)))"
  let ?v = "placeholder_vm vid h (create_name body) (create_firmware body) (create_cpu_count body) (create_memory_mb body * 1024 * 1024)
      (create_memory_dynamic body) (create_nested_virtualization body) (create_ha_enabled body) ?notes (create_vlan_id body)"
  obtain v w1 w2 where req: "request_vm_create env st vid tid h body (User_email u) w = (Inr (v, t), w1)"
    and rec: "record_act eid (Some u) ''vm.create'' (VmTarget v) (Some t) (Some (create_dump body)) w1 = (Inr (), w2)"
    and view: "placeholder_view v w2 = (Inr view, w')"
    using run th by (auto simp: create_vm_def bind_act_Inr ret_def)
  have prov: "provision env st tid ?v h ''vm_create'' (create_params body h ?dest ?notes) (User_email u) w = (Inr (v, t), w1)"
    using req by (auto simp: request_vm_create_def bind_act_Inr require_host_online_def read_db_def raise_def ret_def Let_def split: if_splits)
  define rq where "rq = \<lparr>Request_id = tid, Request_function = ''vm_create'', Request_params = create_params body h ?dest ?notes,
     Request_requested_by = User_email u, Request_issued_at = w_now w\<rparr>"
  note pv = provision_Inr [OF prov]
  have p: "v = ?v" "w_queues w1 = enqueue (Host_short_id h) rq (w_queues w)" "?v \<in> set (db_vms (w_db w1))"
    using pv by (simp_all add: rq_def set_request_payload_def add_task_def)
  have t: "t \<in> set (db_tasks (w_db w1))" "Task_status t = ''queued''"
    using pv(1) provision_task by (auto simp: pv(3)) (simp add: queued_task_def)
  obtain ev where "w2 = w1\<lparr>w_db := (w_db w1)\<lparr>db_audit_events := db_audit_events (w_db w1) @ [ev]\<rparr>\<rparr>"
    using record_act_Inr [OF rec] by metis
  moreover have "w' = w2" "VmOut_columns view = v"
    using view by (auto simp: placeholder_view_def bind_act_Inr cache_act_def read_db_def vm_out_def split: if_splits)
  ultimately have w': "w_queues w' = w_queues w1" "db_vms (w_db w') = db_vms (w_db w1)" "db_tasks (w_db w') = db_tasks (w_db w1)" by simp_all
  have row: "in_range 1 256 (Vm_vcpu ?v)" "in_range (256 * 2 ^ 20) (2 ^ 42) (Vm_memory_bytes ?v)" "safe_name (Vm_name ?v)" "Vm_vm_uuid ?v = None"
    using ok by (simp_all add: placeholder_vm_def vm_create_valid_def in_range_def)
  show ?thesis
    using found(2,4) p t w' row \<open>VmOut_columns view = v\<close> create_params_typed [OF ok, of h ?dest ?notes]
    by (intro exI [of _ h] exI [of _ rq]) (simp add: rq_def)
qed (auto simp: create_vm_def bind_act_def target_host_def visible_host_def)

definition sample_create :: vm_create_body where
  "sample_create = \<lparr>create_name = ''web'', create_host_id = ''h1'', create_os = ''linux'', create_firmware = ''UEFI'', create_cpu_count = 2,
     create_memory_mb = 4096, create_memory_dynamic = False, create_memory_min_mb = None, create_memory_max_mb = None,
     create_destination_storage = None, create_notes = None, create_vlan_id = Some 10, create_switch_name = None,
     create_nested_virtualization = False, create_ha_enabled = False, create_dvd = None, create_start_now = True,
     create_disks = [\<lparr>spec_name = ''OS'', spec_type = ''Fixed'', spec_size_gb = 60\<rparr>]\<rparr>"

lemma sample_create_valid: "vm_create_valid sample_create"
proof -
  have "safe_name ''web''" "list_all (\<lambda>c. is_letter c \<or> is_digit c) ''OS''"
    by (simp_all add: safe_name_def is_letter_def lower_char_def)
  then show ?thesis by (simp add: vm_create_valid_def sample_create_def in_range_def disk_spec_valid_def memory_bounds_ok_def)
qed

theorem create_request_typed_witness:
  "\<exists>view t w'. create_vm cursor_env default_settings ''v9'' ''t9'' ''e9'' admin_scope operator sample_create ready_world = (Inr (view, t), w')
     \<and> in_range 1 256 (Vm_vcpu (VmOut_columns view)) \<and> Task_status t = ''queued''
     \<and> (\<exists>req. map_of (w_queues w') ''ab12.request'' = Some [req] \<and> params_typed CREATE_CONTRACT (Request_params req))"
proof -
  let ?h = "(sample_host ''h1'' None)\<lparr>Host_agent_last_seen := Some 0\<rparr>"
  have h: "target_host admin_scope ''h1'' ready_world = (Inr ?h, ready_world)"
    by (simp add: target_host_def get_visible_host_def get_visible_def read_db_def sees_host_def admin_scope_def)
  have storage: "require_vm_storage_allowed ?h (Some [])  = Inr ()"
    by (simp add: require_vm_storage_allowed_def host_is_clustered_def hardware_get_def sub_get_def norm_json_path_def sbind_def sample_host_def
        storage_allowed_def norm_path_def rstrip_by_def py_replace_char_def py_strip_def lstrip_by_def or_empty_def py_startswith_def)
  have strip: "py_strip [] = []" "or_empty None = []" by (simp_all add: py_strip_def lstrip_by_def rstrip_by_def or_empty_def)
  obtain v t w1 where req: "request_vm_create cursor_env default_settings ''v9'' ''t9'' ?h sample_create (User_email operator) ready_world = (Inr (v, t), w1)"
      "w_cache_up w1"
    using storage by (auto simp: request_vm_create_def bind_act_def require_host_online_def read_db_def ret_def raise_def provision_def write_db_def
        cache_act_def publish_request_def sample_create_def strip acquire_vm_lock_def cache_get_def Let_def)
  obtain w2 where rec: "record_act ''e9'' (Some operator) ''vm.create'' (VmTarget v) (Some t) (Some (create_dump sample_create)) w1 = (Inr (), w2)"
    using record_act_succeeds by blast
  have "w_cache_up w2" using record_act_Inr [OF rec] req(2) by (metis (full_types) world.simps(7) world.surjective world.update_convs(1))
  then obtain view w' where "placeholder_view v w2 = (Inr view, w')"
    by (simp add: placeholder_view_def bind_act_def cache_act_def read_db_def)
  then have run: "create_vm cursor_env default_settings ''v9'' ''t9'' ''e9'' admin_scope operator sample_create ready_world = (Inr (view, t), w')"
    using h req(1) rec by (simp add: create_vm_def bind_act_def sample_create_def [THEN arg_cong, of create_host_id] ret_def)
  from create_request_typed [OF sample_create_valid run] run show ?thesis
    by (auto simp: enqueue_def ready_world_def queue_name_def AList.update_conv' sample_create_def sample_host_def empty_db_def)
qed

end
