(* ===== verification/Task_Audit.thy ===== *)
theory Task_Audit
  imports Worker Vm_Routes
begin

text \<open>
  Requests and the worker together: the step relation of the requests that open or drop tasks (each in a session of its
  own) interleaved with the steps of the worker, and the invariant that ties the audit log to the tasks.
\<close>

section \<open>Definitions\<close>

definition audit_sound :: "database \<Rightarrow> bool" where
  "audit_sound db \<longleftrightarrow> pk_unique Task_id (db_tasks db) \<and> pending_tracked db"

definition keeps_audit :: "world \<Rightarrow> world \<Rightarrow> bool" where
  "keeps_audit w w' \<longleftrightarrow> (audit_sound (w_db w) \<longrightarrow> audit_sound (w_db w'))"

definition fresh_task :: "ident \<Rightarrow> world \<Rightarrow> bool" where
  "fresh_task tid w \<longleftrightarrow> tid \<notin> Task_id ` set (db_tasks (w_db w))"

inductive system_step :: "pyenv \<Rightarrow> settings \<Rightarrow> (json \<Rightarrow> agent_response res) \<Rightarrow> agent_env \<Rightarrow> world \<Rightarrow> world \<Rightarrow> bool"
  for env st validate ae
where
  ss_create: "fresh_task tid w \<Longrightarrow> system_step env st validate ae w (snd (session_scope (create_vm env st vid tid eid sc u cb) w))"
| ss_clone: "fresh_task tid w \<Longrightarrow> system_step env st validate ae w (snd (session_scope (clone_vm env st vid tid eid sc u kb) w))"
| ss_action: "fresh_task tid w \<Longrightarrow> system_step env st validate ae w (snd (session_scope (vm_action env st tid eid sc u i action params) w))"
| ss_delete: "fresh_task tid w \<Longrightarrow> system_step env st validate ae w (snd (session_scope (delete_vm env st tid eid sc u i files) w))"
| ss_forget: "system_step env st validate ae w (snd (session_scope (forget_vm st eid sc u i) w))"
| ss_host_action: "fresh_task tid w \<Longrightarrow> system_step env st validate ae w (snd (session_scope (host_action env st tid eid sc u i action) w))"
| ss_upgrade: "fresh_task tid w \<Longrightarrow>
    system_step env st validate ae w (snd (session_scope (update_host_agent env ae st tid eid sc u i binary) w))"
| ss_remove_host: "system_step env st validate ae w (snd (session_scope (remove_host eid sc u i) w))"
| ss_rollout: "pk_unique Host_id (db_hosts (w_db w)) \<Longrightarrow> inj (\<lambda>h. fst (ids h)) \<Longrightarrow> (\<And>h. fresh_task (fst (ids h)) w) \<Longrightarrow>
    system_step env st validate ae w (snd (session_scope (rollout_agent_binary env ae st ids sc u i host_ids) w))"
| ss_worker: "worker_step env st validate (wk, w) (wk', w') \<Longrightarrow> system_step env st validate ae w w'"

section \<open>The worker keeps the invariant\<close>

lemma pending_trackedD:
  "pending_tracked db \<Longrightarrow> e \<in> set (db_audit_events db) \<Longrightarrow> AuditEvent_outcome e = ''pending'' \<Longrightarrow>
   \<exists>t \<in> set (db_tasks db). AuditEvent_task_id e = Some (Task_id t) \<and> Task_status t \<notin> set TERMINAL_TASK_STATUSES"
  by (simp add: pending_tracked_def list_all_iff)

text \<open>Settling the events of some tasks leaves only pending events of other tasks.\<close>

lemma settled_pending:
  assumes "oc \<noteq> ''pending''" "e \<in> set (db_audit_events (settle_task_events ids oc err db))" "AuditEvent_outcome e = ''pending''"
  shows "e \<in> set (db_audit_events db) \<and> AuditEvent_task_id e \<notin> Some ` set ids"
  using assms by (auto simp: settle_task_events_def tupd_where_def split: if_splits)

text \<open>Replacing a task: a pending event stays tracked when its task is another one, or is still open.\<close>

lemma audit_replace:
  assumes "audit_sound db" "t \<in> set (db_tasks db)" "Task_id t' = Task_id t" "db_tasks db' = db_tasks (put_task t' db)"
    and events: "\<And>e. e \<in> set (db_audit_events db') \<Longrightarrow> AuditEvent_outcome e = ''pending'' \<Longrightarrow> e \<in> set (db_audit_events db)
        \<and> (AuditEvent_task_id e = Some (Task_id t) \<longrightarrow> Task_status t' \<notin> set TERMINAL_TASK_STATUSES)"
  shows "audit_sound db'"
proof -
  have pk: "pk_unique Task_id (db_tasks db)" and tr: "pending_tracked db" using assms(1) by (simp_all add: audit_sound_def)
  have row: "(if Task_id r = Task_id t then t' else r) \<in> set (db_tasks db')" if "r \<in> set (db_tasks db)" for r
    using that assms(3,4) by (force simp: put_task_def tupd_def)
  have "\<exists>r \<in> set (db_tasks db'). AuditEvent_task_id e = Some (Task_id r) \<and> Task_status r \<notin> set TERMINAL_TASK_STATUSES"
    if e: "e \<in> set (db_audit_events db')" "AuditEvent_outcome e = ''pending''" for e
  proof -
    obtain r where r: "r \<in> set (db_tasks db)" "AuditEvent_task_id e = Some (Task_id r)" "Task_status r \<notin> set TERMINAL_TASK_STATUSES"
      using pending_trackedD [OF tr] events [OF e] e(2) by blast
    show ?thesis
    proof (cases "Task_id r = Task_id t")
      case True
      then show ?thesis using row [OF r(1)] events [OF e] r(2) assms(3) by (intro bexI [of _ t']) simp_all
    next
      case False
      then show ?thesis using row [OF r(1)] r by (intro bexI [of _ r]) simp_all
    qed
  qed
  moreover have "pk_unique Task_id (db_tasks db')" 
    using pk assms(3,4) by (simp add: put_task_def pk_unique_def tupd_def comp_def if_distrib map_idI cong: if_cong)
  ultimately show ?thesis by (simp add: audit_sound_def pending_tracked_def list_all_iff)
qed

lemma audit_response: "act_keeps keeps_audit (apply_response env st new hid resp)"
proof (rule act_keepsI)
  fix w r w'
  assume "apply_response env st new hid resp w = (r, w')"
  then show "keeps_audit w w'"
  proof (cases rule: response_cases)
    case (progress t resp')
    let ?t = "progress_task (w_now w) resp' t"
    have "Task_id ?t = Task_id t" "Task_status ?t \<notin> set TERMINAL_TASK_STATUSES"
      by (simp_all add: progress_task_def TERMINAL_TASK_STATUSES_def)
    moreover have "db_audit_events (w_db w') = db_audit_events (w_db w)" by (simp add: progress(3) put_task_def)
    ultimately show ?thesis using find_task_Some [OF progress(1)] audit_replace [of "w_db w" t ?t "w_db w'"]
      unfolding keeps_audit_def by (simp add: progress(3))
  next
    case (final t resp' t')
    have t': "Task_id t' = Task_id t" "Task_status t' \<noteq> ''pending''" by (simp_all add: final(2) finished_fields)
    have "e \<in> set (db_audit_events (w_db w)) \<and> AuditEvent_task_id e \<noteq> Some (Task_id t)"
      if "e \<in> set (db_audit_events (w_db w'))" "AuditEvent_outcome e = ''pending''" for e
      using settled_pending [OF t'(2) that(1) [unfolded final(4)] that(2)] t'(1) by simp
    then show ?thesis using find_task_Some [OF final(1)] audit_replace [of "w_db w" t t' "w_db w'", OF _ _ t'(1) final(3)]
      unfolding keeps_audit_def by blast
  qed (simp add: keeps_audit_def)
qed

lemma audit_timeout:
  assumes "audit_sound db"
  shows "audit_sound (time_out now stale db)"
proof -
  let ?db = "time_out now stale db"
  have pk: "pk_unique Task_id (db_tasks ?db)"
    using assms by (simp add: audit_sound_def time_out_def settle_task_events_def pk_unique_def tupd_where_def timed_out_def comp_def if_distrib cong: if_cong)
  have "\<exists>t \<in> set (db_tasks ?db). AuditEvent_task_id e = Some (Task_id t) \<and> Task_status t \<notin> set TERMINAL_TASK_STATUSES"
    if e: "e \<in> set (db_audit_events ?db)" "AuditEvent_outcome e = ''pending''" for e
  proof -
    have e0: "e \<in> set (db_audit_events db)" "AuditEvent_task_id e \<notin> Some ` Task_id ` set stale"
      using settled_pending [OF _ e(1) [unfolded time_out_def] e(2)] by simp_all
    obtain t where t: "t \<in> set (db_tasks db)" "AuditEvent_task_id e = Some (Task_id t)" "Task_status t \<notin> set TERMINAL_TASK_STATUSES"
      using pending_trackedD [of db e] e0(1) e(2) assms by (auto simp: audit_sound_def)
    have "t \<in> set (db_tasks ?db)" using t e0(2) by (auto simp: time_out_def settle_task_events_def tupd_where_def image_iff)
    then show ?thesis using t by blast
  qed
  then show ?thesis using pk by (simp add: audit_sound_def pending_tracked_def list_all_iff)
qed

interpretation audit_order: worker_frame keeps_audit
proof
  show "keeps_audit w w" for w by (simp add: keeps_audit_def)
  show "keeps_audit w w1 \<Longrightarrow> keeps_audit w1 w2 \<Longrightarrow> keeps_audit w w2" for w w1 w2 by (simp add: keeps_audit_def)
  show "quiet w w' \<Longrightarrow> keeps_audit w w'" for w w'
    by (auto simp: keeps_audit_def audit_sound_def pending_tracked_def list_all_iff quiet_def)
  show "act_keeps keeps_audit (apply_response env st new hid resp)" for env st new hid resp by (rule audit_response)
  show "keeps_audit w (w\<lparr>w_db := time_out now stale (w_db w)\<rparr>)" for w now stale
    by (simp add: keeps_audit_def audit_timeout)
qed

section \<open>The requests keep it\<close>

text \<open>A request that opens a task: one queued row under its own id, and no event yet.\<close>

definition opens :: "ident \<Rightarrow> task \<Rightarrow> world \<Rightarrow> world \<Rightarrow> bool" where
  "opens tid t w w' \<longleftrightarrow> Task_id t = tid \<and> Task_status t = ''queued'' \<and> db_tasks (w_db w') = db_tasks (w_db w) @ [t]
     \<and> db_audit_events (w_db w') = db_audit_events (w_db w)"

lemma payload_last:
  assumes "fresh_task (Task_id t) w" "db_tasks db = db_tasks (w_db w) @ [t]"
  shows "db_tasks (set_request_payload (Task_id t) j db) = db_tasks (w_db w) @ [t\<lparr>Task_request_payload := Some j\<rparr>]"
  using assms by (auto simp: set_request_payload_def tupd_def fresh_task_def image_iff intro!: map_idI)

lemma queue_opens:
  assumes run: "queue_vm_task env st tid v fn params requester transitional lock w = (Inr t, w')" and new: "fresh_task tid w"
  shows "opens tid t w w'"
proof (cases rule: queue_vm_task_cases [of env st tid v fn params requester transitional lock w])
  case (queued h)
  let ?t = "vm_task tid v fn requester (w_now w)"
  have id: "Task_id ?t = tid" "Task_status ?t = ''queued''" by (simp_all add: vm_task_def queued_task_def)
  have "db_tasks (with_task tid v fn requester transitional (w_now w) (w_db w)) = db_tasks (w_db w) @ [?t]"
    by (simp add: with_task_def add_task_def)
  from payload_last [of ?t w, unfolded id, OF new this] queued(7) run id show ?thesis
    by (auto simp: opens_def set_request_payload_def with_task_def add_task_def)
qed (use run in auto)

lemma action_opens:
  "request_vm_action env st tid v action requester params w = (Inr t, w') \<Longrightarrow> fresh_task tid w \<Longrightarrow> opens tid t w w'"
  by (auto simp: request_vm_action_def bind_act_Inr read_db_def load_vm_host_def raise_def Let_def
      split: option.splits if_splits sum.splits dest!: queue_opens)

lemma provision_opens:
  assumes run: "provision env st tid v h fn params requester w = (Inr (v', t), w')" and new: "fresh_task tid w"
  shows "opens tid t w w'"
proof -
  let ?t = "queued_task tid fn ''vm'' (Vm_id v) (Vm_name v) (Host_id h) requester (w_now w)"
  have id: "Task_id ?t = tid" "Task_status ?t = ''queued''" by (simp_all add: queued_task_def)
  have "db_tasks (add_task ?t ((w_db w)\<lparr>db_vms := db_vms (w_db w) @ [v]\<rparr>)) = db_tasks (w_db w) @ [?t]" by (simp add: add_task_def)
  from payload_last [of ?t w, unfolded id, OF new this] provision_Inr [OF run] id show ?thesis
    by (auto simp: opens_def set_request_payload_def add_task_def)
qed

lemma create_opens:
  "request_vm_create env st vid tid h b requester w = (Inr (v, t), w') \<Longrightarrow> fresh_task tid w \<Longrightarrow> opens tid t w w'"
  by (auto simp: request_vm_create_def bind_act_Inr read_db_def require_host_online_def raise_def ret_def Let_def
      split: if_splits dest!: provision_opens)

lemma clone_opens:
  "request_vm_clone env st vid tid b h requester w = (Inr (v, t), w') \<Longrightarrow> fresh_task tid w \<Longrightarrow> opens tid t w w'"
  by (auto simp: request_vm_clone_def bind_act_Inr read_db_def require_host_online_def raise_def ret_def Let_def
      split: if_splits dest!: provision_opens)

lemma host_action_opens: "request_host_action env st tid h action requester w = (Inr t, w') \<Longrightarrow> opens tid t w w'"
  using request_host_action_Inr by (fastforce simp: opens_def add_task_def)

lemma upgrade_opens: "request_agent_upgrade env ae st tid h b requester w = (Inr t, w') \<Longrightarrow> opens tid t w w'"
  by (auto simp: request_agent_upgrade_def with_now_def bind_act_Inr read_db_def raise_def with_store_def opens_def
      write_db_def publish_request_def ret_def upgrade_task_def queued_task_def add_task_def Let_def split: if_splits sum.splits)

text \<open>An opened task leaves the log sound, and so does an event that names it, or one that names no task.\<close>

lemma opened_sound:
  assumes "opens tid t w w'" "fresh_task tid w" "audit_sound (w_db w)"
  shows "audit_sound (w_db w')"
  using assms by (auto simp: opens_def fresh_task_def audit_sound_def pk_unique_def pending_tracked_def list_all_iff)

lemma recorded_sound:
  assumes rec: "record_act eid u a tgt tsk d w = (Inr (), w')" and ok: "audit_sound (w_db w)"
    and tsk: "\<And>t. tsk = Some t \<Longrightarrow> t \<in> set (db_tasks (w_db w)) \<and> Task_status t \<notin> set TERMINAL_TASK_STATUSES"
  shows "audit_sound (w_db w')"
proof -
  obtain ev where ev: "AuditEvent_task_id ev = map_option Task_id tsk" "AuditEvent_outcome ev = (if tsk = None then ''succeeded'' else ''pending'')"
    "w' = w\<lparr>w_db := (w_db w)\<lparr>db_audit_events := db_audit_events (w_db w) @ [ev]\<rparr>\<rparr>"
    using record_act_Inr [OF rec] by metis
  show ?thesis using ok tsk ev by (cases tsk) (auto simp: audit_sound_def pending_tracked_def list_all_iff)
qed

lemma opened_recorded_sound:
  assumes "opens tid t w w1" "fresh_task tid w" "audit_sound (w_db w)" "record_act eid u a tgt (Some t) d w1 = (Inr (), w')"
  shows "audit_sound (w_db w')"
  by (rule recorded_sound [OF assms(4) opened_sound [OF assms(1-3)]])
    (use assms(1) in \<open>auto simp: opens_def TERMINAL_TASK_STATUSES_def\<close>)

lemma scope_sound:
  "(\<And>x w'. m w = (Inr x, w') \<Longrightarrow> audit_sound (w_db w) \<Longrightarrow> audit_sound (w_db w')) \<Longrightarrow> keeps_audit w (snd (session_scope m w))"
  by (auto simp: keeps_audit_def session_scope_def split: prod.splits sum.splits)

lemma target_same: "visible_host sc i w = (r, w') \<Longrightarrow> w' = w" "target_host sc i w = (r, w') \<Longrightarrow> w' = w" "visible_vm sc i w = (rv, w') \<Longrightarrow> w' = w"
  by (auto simp: visible_host_def target_host_def visible_vm_def read_db_def)

lemma view_same: "placeholder_view v w = (r, w') \<Longrightarrow> w_db w' = w_db w"
  by (auto simp: placeholder_view_def bind_act_def cache_act_def read_db_def split: if_splits)

lemma create_sound:
  assumes "create_vm env st vid tid eid sc u body w = (Inr x, w')" "fresh_task tid w" "audit_sound (w_db w)"
  shows "audit_sound (w_db w')"
proof -
  obtain h v t w1 w2 view where "request_vm_create env st vid tid h body (User_email u) w = (Inr (v, t), w1)"
    "record_act eid (Some u) ''vm.create'' (VmTarget v) (Some t) (Some (create_dump body)) w1 = (Inr (), w2)"
    "placeholder_view v w2 = (Inr view, w')"
    using assms(1) by (auto simp: create_vm_def bind_act_Inr ret_def dest!: target_same)
  then show ?thesis using opened_recorded_sound [OF create_opens assms(2,3)] assms(2) view_same by metis
qed

lemma clone_sound:
  assumes "clone_vm env st vid tid eid sc u body w = (Inr x, w')" "fresh_task tid w" "audit_sound (w_db w)"
  shows "audit_sound (w_db w')"
proof -
  obtain h v t w1 w2 view d where "request_vm_clone env st vid tid body h (User_email u) w = (Inr (v, t), w1)"
    "record_act eid (Some u) ''vm.clone'' (VmTarget v) (Some t) (Some d) w1 = (Inr (), w2)"
    "placeholder_view v w2 = (Inr view, w')"
    using assms(1) by (auto simp: clone_vm_def bind_act_Inr read_db_def ret_def dest!: target_same)
  then show ?thesis using opened_recorded_sound [OF clone_opens assms(2,3)] assms(2) view_same by metis
qed

lemma action_sound:
  assumes "vm_action env st tid eid sc u i action params w = (Inr x, w')" "fresh_task tid w" "audit_sound (w_db w)"
  shows "audit_sound (w_db w')"
proof -
  obtain v t w1 d where "request_vm_action env st tid v action (User_email u) params w = (Inr t, w1)"
    "w' = w1 \<or> record_act eid (Some u) (''vm.'' @ action) (VmTarget v) (Some t) d w1 = (Inr (), w')"
    using assms(1) by (auto simp: vm_action_def bind_act_Inr ret_def raise_def split: if_splits dest!: target_same)
  then show ?thesis using opened_recorded_sound [OF action_opens assms(2,3)] opened_sound [OF action_opens assms(2,3)] assms(2) by metis
qed

lemma delete_sound:
  assumes "delete_vm env st tid eid sc u i files w = (Inr x, w')" "fresh_task tid w" "audit_sound (w_db w)"
  shows "audit_sound (w_db w')"
proof -
  obtain v t w1 d where "request_vm_action env st tid v ''delete'' (User_email u) (Some [(''remove_files'', JBool files)]) w = (Inr t, w1)"
    "record_act eid (Some u) ''vm.delete'' (VmTarget v) (Some t) d w1 = (Inr (), w')"
    using assms(1) by (auto simp: delete_vm_def bind_act_Inr ret_def dest!: target_same)
  then show ?thesis using opened_recorded_sound [OF action_opens assms(2,3)] assms(2) by metis
qed

lemma host_action_sound:
  assumes "host_action env st tid eid sc u i action w = (Inr x, w')" "fresh_task tid w" "audit_sound (w_db w)"
  shows "audit_sound (w_db w')"
proof -
  obtain h t w1 where "request_host_action env st tid h action (User_email u) w = (Inr t, w1)"
    "w' = w1 \<or> record_act eid (Some u) (''host.'' @ action) (HostTarget h) (Some t) None w1 = (Inr (), w')"
    using assms(1) by (auto simp: host_action_def bind_act_Inr ret_def raise_def split: if_splits dest!: target_same)
  then show ?thesis using opened_recorded_sound [OF host_action_opens assms(2,3)] opened_sound [OF host_action_opens assms(2,3)] by metis
qed

lemma upgrade_sound:
  assumes "update_host_agent env ae st tid eid sc u i binary w = (Inr x, w')" "fresh_task tid w" "audit_sound (w_db w)"
  shows "audit_sound (w_db w')"
proof -
  obtain h b t w1 d where "request_agent_upgrade env ae st tid h b (User_email u) w = (Inr t, w1)"
    "record_act eid (Some u) ''host.update_agent'' (HostTarget h) (Some t) d w1 = (Inr (), w')"
    using assms(1) by (auto simp: update_host_agent_def bind_act_Inr read_db_def ret_def raise_def split: if_splits dest!: target_same)
  then show ?thesis using opened_recorded_sound [OF upgrade_opens assms(2,3)] by metis
qed

lemma forget_row_quiet: "remove_vm_from_inventory st v w = (Inr x, w') \<Longrightarrow>
  db_tasks (w_db w') = db_tasks (w_db w) \<and> db_audit_events (w_db w') = db_audit_events (w_db w)"
  by (auto simp: remove_vm_from_inventory_def forget_row_def bind_act_def cache_act_def write_db_def drop_vms_def Let_def
      split: option.splits if_splits prod.splits)

lemma forget_sound:
  assumes "forget_vm st eid sc u i w = (Inr x, w')" "audit_sound (w_db w)"
  shows "audit_sound (w_db w')"
proof -
  obtain v w1 where rec: "record_act eid (Some u) ''vm.forget'' (VmTarget v) None None w = (Inr (), w1)"
    and del: "remove_vm_from_inventory st v w1 = (Inr x, w')"
    using assms(1) by (auto simp: forget_vm_def bind_act_Inr dest!: target_same)
  have "audit_sound (w_db w1)" using recorded_sound [OF rec assms(2)] by blast
  then show ?thesis using forget_row_quiet [OF del] by (simp add: audit_sound_def pending_tracked_def)
qed

lemma remove_sound:
  assumes run: "remove_host eid sc u i w = (Inr x, w')" and "audit_sound (w_db w)"
  shows "audit_sound (w_db w')"
proof -
  obtain h w1 d where h: "visible_host sc i w = (Inr h, w)"
    and rec: "record_act eid (Some u) ''host.delete'' (HostTarget h) None d w = (Inr (), w1)"
    and del: "delete_host h (w1\<lparr>w_db := settle_task_events (open_task_ids (Host_id h) (w_db w1)) ''failed''
        (Some ''Host removed before the task finished'') (w_db w1)\<rparr>) = (Inr (), w')"
    using run by (auto simp: remove_host_def bind_act_Inr read_db_def write_db_def raise_def split: if_splits dest: target_same)
  have ok: "audit_sound (w_db w1)" using recorded_sound [OF rec assms(2)] by blast
  then have "pending_tracked (w_db w')"
    using settle_drop_tracked [of "w_db w1" "open_task_ids (Host_id h) (w_db w1)" "Host_id h"] by (simp add: delete_host_db [OF del] audit_sound_def)
  moreover have "pk_unique Task_id (db_tasks (w_db w'))"
    using ok by (simp add: delete_host_db [OF del] drop_host_tables settle_task_events_def audit_sound_def pk_unique_def distinct_map_filter)
  ultimately show ?thesis by (simp add: audit_sound_def)
qed

lemma rollout_host_sound:
  assumes run: "rollout_host env ae st ids u b h r w = (Inr r', w')" and new: "fresh_task (fst (ids (Host_id h))) w" and ok: "audit_sound (w_db w)"
  shows "audit_sound (w_db w') \<and> Task_id ` set (db_tasks (w_db w')) \<subseteq> insert (fst (ids (Host_id h))) (Task_id ` set (db_tasks (w_db w)))"
proof (cases "agent_connected st (w_now w) h \<and> Host_agent_version h \<noteq> Some (AgentBinary_version b)")
  case True
  obtain q w1 where q: "request_agent_upgrade env ae st (fst (ids (Host_id h))) h b (User_email u) w = (q, w1)" by fastforce
  show ?thesis
  proof (cases q)
    case (Inl e)
    then have "w' = w" using run True q upgrade_result [OF q] by (cases e) (auto simp: rollout_host_def bind_act_def)
    then show ?thesis using ok by auto
  next
    case (Inr t)
    note op = upgrade_opens [OF q [unfolded Inr]]
    obtain w2 where rec: "record_act (snd (ids (Host_id h))) (Some u) ''host.update_agent'' (HostTarget h) (Some t)
        (Some [(''version'', JStr (AgentBinary_version b)), (''rollout'', JBool True)]) w1 = (Inr (), w2)"
      using record_act_succeeds by blast
    have "w' = w2" using run True q Inr rec by (auto simp: rollout_host_def bind_act_def ret_def)
    then show ?thesis using opened_recorded_sound [OF op new ok rec] op record_act_tasks [OF rec] by (auto simp: opens_def)
  qed
next
  case False
  then show ?thesis using run ok by (auto simp: rollout_host_def split: if_splits)
qed

lemma rollout_loop_sound:
  "foldA (rollout_host env ae st ids u b) hs r w = (Inr r', w') \<Longrightarrow> distinct (map Host_id hs) \<Longrightarrow> inj (\<lambda>h. fst (ids h)) \<Longrightarrow>
   (\<And>h. h \<in> set hs \<Longrightarrow> fresh_task (fst (ids (Host_id h))) w) \<Longrightarrow> audit_sound (w_db w) \<Longrightarrow> audit_sound (w_db w')"
proof (induction hs arbitrary: r w)
  case (Cons h hs)
  obtain r1 w1 where h: "rollout_host env ae st ids u b h r w = (Inr r1, w1)"
    and hs: "foldA (rollout_host env ae st ids u b) hs r1 w1 = (Inr r', w')" using Cons.prems(1) by (auto simp: bind_act_Inr)
  note s = rollout_host_sound [OF h Cons.prems(4) Cons.prems(5)]
  have "fresh_task (fst (ids (Host_id k))) w1" if "k \<in> set hs" for k
  proof -
    have "Host_id k \<noteq> Host_id h" using Cons.prems(2) that by (metis distinct.simps(2) image_eqI list.map(2) set_map)
    then have "fst (ids (Host_id k)) \<noteq> fst (ids (Host_id h))" using injD [OF Cons.prems(3)] by blast
    then show ?thesis using s Cons.prems(4) [of k] that by (auto simp: fresh_task_def)
  qed
  then show ?case using Cons.IH [OF hs] Cons.prems(2,3) s by simp
qed (simp add: ret_def)

lemma rollout_sound:
  assumes "rollout_agent_binary env ae st ids sc u i host_ids w = (Inr r, w')" "pk_unique Host_id (db_hosts (w_db w))"
    "inj (\<lambda>h. fst (ids h))" "\<And>h. fresh_task (fst (ids h)) w" "audit_sound (w_db w)"
  shows "audit_sound (w_db w')"
proof -
  obtain b where "foldA (rollout_host env ae st ids u b) (rollout_hosts (w_db w) b host_ids) \<lparr>rr_tasks = [], rr_skipped = []\<rparr> w = (Inr r, w')"
    using assms(1) by (auto simp: rollout_agent_binary_def bind_act_Inr pure_act_def get_binary_def read_db_def)
  moreover have "distinct (map Host_id (rollout_hosts (w_db w) b host_ids))"
    using assms(2) by (auto simp: rollout_hosts_def distinct_map pk_unique_def intro: inj_on_subset)
  ultimately show ?thesis using rollout_loop_sound assms(3-5) by blast
qed

lemma system_step_keeps: "system_step env st validate ae w w' \<Longrightarrow> keeps_audit w w'"
proof (induction rule: system_step.induct)
  case (ss_worker wk w wk' w')
  then show ?case using audit_order.step_keeps by fastforce
qed (rule scope_sound; simp add: create_sound clone_sound action_sound delete_sound forget_sound host_action_sound upgrade_sound remove_sound rollout_sound)+

section \<open>Properties\<close>

text \<open>C2: The audit log stays honest. Whatever the interleaving of requests (accepted, refused or failing half way) with the
  messages, sweeps and watchdogs of the worker, starting from a sound database: task ids stay unique, every pending event
  names a task that is still open, and so no event of a task that ended is pending.\<close>

theorem audit_stays_honest:
  assumes steps: "(system_step env st validate ae)\<^sup>*\<^sup>* w w'" and ok: "audit_sound (w_db w)"
  shows "audit_sound (w_db w')
    \<and> list_all (\<lambda>t. Task_status t \<in> set TERMINAL_TASK_STATUSES \<longrightarrow>
        list_all (\<lambda>e. AuditEvent_task_id e = Some (Task_id t) \<longrightarrow> AuditEvent_outcome e \<noteq> ''pending'') (db_audit_events (w_db w')))
      (db_tasks (w_db w'))"
proof -
  have s: "audit_sound (w_db w')"
    using steps ok by (induction rule: rtranclp_induct) (auto simp: keeps_audit_def dest: system_step_keeps)
  have "AuditEvent_outcome e \<noteq> ''pending''"
    if "t \<in> set (db_tasks (w_db w'))" "Task_status t \<in> set TERMINAL_TASK_STATUSES" "e \<in> set (db_audit_events (w_db w'))"
      "AuditEvent_task_id e = Some (Task_id t)" for t e
    using that s pending_trackedD [of "w_db w'" e] pk_uniqueD [of Task_id "db_tasks (w_db w')"] by (auto simp: audit_sound_def)
  then show ?thesis using s by (simp add: list_all_iff)
qed

theorem audit_stays_honest_witness:
  "audit_sound (w_db busy_world)
   \<and> (\<exists>w'. (system_step cursor_env default_settings (\<lambda>_. Inl TypeError) sample_env)\<^sup>*\<^sup>* busy_world w' \<and> audit_sound (w_db w')
        \<and> map Task_status (db_tasks (w_db w')) = [''timeout''] \<and> map AuditEvent_outcome (db_audit_events (w_db w')) = [''timeout''])"
proof -
  let ?step = "system_step cursor_env default_settings (\<lambda>_. Inl TypeError) sample_env"
  let ?w1 = "busy_world\<lparr>w_now := 1000000000000\<rparr>"
  let ?w2 = "snd (sweep_stale_tasks default_settings ?w1)"
  have ok: "audit_sound (w_db busy_world)"
    by (simp add: audit_sound_def pk_unique_def pending_tracked_def busy_world_def queued_task_def TERMINAL_TASK_STATUSES_def)
  have "?step busy_world ?w1" by (rule ss_worker [OF wk_time]) (simp add: busy_world_def)
  moreover have "?step ?w1 ?w2" by (rule ss_worker [OF wk_timeouts])
  ultimately have steps: "?step\<^sup>*\<^sup>* busy_world ?w2" by (meson rtranclp.rtrancl_into_rtrancl rtranclp.rtrancl_refl)
  have "overdue_tasks default_settings 1000000000000 (w_db ?w1) = db_tasks (w_db busy_world)"
    by (simp add: overdue_tasks_def busy_world_def queued_task_def TERMINAL_TASK_STATUSES_def task_timeout_seconds_def LONG_TASK_TIMEOUTS_def seconds_def)
  moreover have "db_tasks (w_db busy_world) \<noteq> []" "w_cache_up ?w1" by (simp_all add: busy_world_def)
  ultimately have run: "db_tasks (w_db ?w2) = db_tasks (time_out 1000000000000 (db_tasks (w_db busy_world)) (w_db busy_world))"
    "db_audit_events (w_db ?w2) = db_audit_events (time_out 1000000000000 (db_tasks (w_db busy_world)) (w_db busy_world))"
    using sweep_run [of ?w1 default_settings] by (simp_all add: Let_def drop_vms_def)
  have out: "map Task_status (db_tasks (w_db ?w2)) = [''timeout'']" "map AuditEvent_outcome (db_audit_events (w_db ?w2)) = [''timeout'']"
    unfolding run by (simp_all add: time_out_def settle_task_events_def tupd_where_def timed_out_def busy_world_def queued_task_def)
  show ?thesis
    by (intro conjI exI [of _ ?w2]) (rule ok steps out audit_stays_honest [OF steps ok, THEN conjunct1])+
qed

end
