(* ===== verification/Schema.thy ===== *)
theory Schema
  imports Prelude
begin

text \<open>
  Relational schemas and the data definition statements the migrations issue, at the level of the catalogue: which
  tables, columns, constraints and indexes exist. \<open>exec_ddl\<close> refuses a statement that PostgreSQL refuses (a name that
  is taken, a column that does not exist, a foreign key without a key behind it, dropping a table others refer to).
  The one statement it refuses beyond that is dropping a column whose name occurs in the text of an index expression or
  predicate of its table. The main result is that what \<open>exec_ddl\<close> accepts keeps the catalogue well formed.
\<close>

section \<open>Catalogue\<close>

datatype coltype = TUuid | TString nat | TText | TBoolean | TInteger | TBigInteger | TFloat | TDateTime | TJsonb
  | TLargeBinary

datatype sql_default = DLit string | DExpr string

record sql_column =
  Col_name :: string
  Col_type :: coltype
  Col_nullable :: bool
  Col_default :: "sql_default option"
  Col_autoincrement :: bool

datatype sql_constraint =
    PrimaryKey string "string list"
  | Unique string "string list"
  | ForeignKey string "string list" string "string list" string
  | Check string string

record sql_table =
  Tab_name :: string
  Tab_columns :: "sql_column list"
  Tab_constraints :: "sql_constraint list"

datatype index_part = IxCol string | IxExpr string

record sql_index =
  Ix_name :: string
  Ix_table :: string
  Ix_parts :: "index_part list"
  Ix_unique :: bool
  Ix_where :: "string option"

record schema =
  sch_tables :: "sql_table list"
  sch_indexes :: "sql_index list"

datatype ddl =
    CreateTable sql_table
  | DropTable string
  | CreateIndex sql_index
  | DropIndex string string
  | AddColumn string sql_column
  | DropColumn string string

definition empty_schema :: schema where
  "empty_schema = \<lparr>sch_tables = [], sch_indexes = []\<rparr>"

definition column :: "string \<Rightarrow> coltype \<Rightarrow> bool \<Rightarrow> sql_column" where
  "column nm ty null = \<lparr>Col_name = nm, Col_type = ty, Col_nullable = null, Col_default = None, Col_autoincrement = False\<rparr>"

definition with_default :: "sql_default \<Rightarrow> sql_column \<Rightarrow> sql_column" where
  "with_default d c = c\<lparr>Col_default := Some d\<rparr>"

definition autoincrement :: "sql_column \<Rightarrow> sql_column" where
  "autoincrement c = c\<lparr>Col_autoincrement := True\<rparr>"

definition index_on :: "string \<Rightarrow> string \<Rightarrow> index_part list \<Rightarrow> bool \<Rightarrow> string option \<Rightarrow> sql_index" where
  "index_on nm tab parts uniq cond = \<lparr>Ix_name = nm, Ix_table = tab, Ix_parts = parts, Ix_unique = uniq, Ix_where = cond\<rparr>"

section \<open>Executing statements\<close>

definition cols :: "sql_table \<Rightarrow> string list" where
  "cols t = map Col_name (Tab_columns t)"

definition col_type :: "sql_table \<Rightarrow> string \<Rightarrow> coltype option" where
  "col_type t c = map_of (map (\<lambda>x. (Col_name x, Col_type x)) (Tab_columns t)) c"

definition the_table :: "string \<Rightarrow> sql_table list \<Rightarrow> sql_table option" where
  "the_table n ts = find (\<lambda>t. Tab_name t = n) ts"

text \<open>A primary key or a unique constraint is an index of the same name.\<close>

fun key_name :: "sql_constraint \<Rightarrow> string list" where
  "key_name (PrimaryKey n _) = [n]"
| "key_name (Unique n _) = [n]"
| "key_name _ = []"

definition table_names :: "sql_table \<Rightarrow> string list" where
  "table_names t = Tab_name t # concat (map key_name (Tab_constraints t))"

definition relation_names :: "schema \<Rightarrow> string list" where
  "relation_names s = concat (map table_names (sch_tables s)) @ map Ix_name (sch_indexes s)"

fun constraint_cols :: "sql_constraint \<Rightarrow> string list" where
  "constraint_cols (PrimaryKey _ cs) = cs"
| "constraint_cols (Unique _ cs) = cs"
| "constraint_cols (ForeignKey _ cs _ _ _) = cs"
| "constraint_cols (Check _ _) = []"

fun is_key_on :: "string list \<Rightarrow> sql_constraint \<Rightarrow> bool" where
  "is_key_on cs (PrimaryKey _ ks) \<longleftrightarrow> ks = cs"
| "is_key_on cs (Unique _ ks) \<longleftrightarrow> ks = cs"
| "is_key_on cs _ \<longleftrightarrow> False"

text \<open>A foreign key needs a key of the referred table, of the same column types.\<close>

fun fk_resolves :: "sql_table list \<Rightarrow> sql_table \<Rightarrow> sql_constraint \<Rightarrow> bool" where
  "fk_resolves ts t (ForeignKey _ cs rt rcs _) \<longleftrightarrow>
     (case the_table rt ts of None \<Rightarrow> False
      | Some u \<Rightarrow> list_ex (is_key_on rcs) (Tab_constraints u) \<and> map (col_type t) cs = map (col_type u) rcs)"
| "fk_resolves ts t _ \<longleftrightarrow> True"

fun refers_to :: "string \<Rightarrow> (string list \<Rightarrow> bool) \<Rightarrow> sql_constraint \<Rightarrow> bool" where
  "refers_to n P (ForeignKey _ _ rt rcs _) \<longleftrightarrow> rt = n \<and> P rcs"
| "refers_to n P _ \<longleftrightarrow> False"

definition table_ok :: "sql_table \<Rightarrow> bool" where
  "table_ok t \<longleftrightarrow> distinct (cols t)
     \<and> list_all (\<lambda>k. set (constraint_cols k) \<subseteq> set (cols t)) (Tab_constraints t)"

fun part_cols :: "index_part \<Rightarrow> string list" where
  "part_cols (IxCol c) = [c]"
| "part_cols (IxExpr _) = []"

definition index_cols :: "sql_index \<Rightarrow> string list" where
  "index_cols i = concat (map part_cols (Ix_parts i))"

fun part_texts :: "index_part \<Rightarrow> string list" where
  "part_texts (IxCol _) = []"
| "part_texts (IxExpr e) = [e]"

definition index_texts :: "sql_index \<Rightarrow> string list" where
  "index_texts i = concat (map part_texts (Ix_parts i)) @ (case Ix_where i of None \<Rightarrow> [] | Some e \<Rightarrow> [e])"

fun contains :: "string \<Rightarrow> string \<Rightarrow> bool" where
  "contains c [] \<longleftrightarrow> c = []"
| "contains c (x # xs) \<longleftrightarrow> take (length c) (x # xs) = c \<or> contains c xs"

definition on_table :: "string \<Rightarrow> (sql_table \<Rightarrow> sql_table) \<Rightarrow> schema \<Rightarrow> schema" where
  "on_table n f s = s\<lparr>sch_tables := map (\<lambda>t. if Tab_name t = n then f t else t) (sch_tables s)\<rparr>"

definition drop_col :: "string \<Rightarrow> sql_table \<Rightarrow> sql_table" where
  "drop_col c t = t\<lparr>Tab_columns := filter (\<lambda>x. Col_name x \<noteq> c) (Tab_columns t),
     Tab_constraints := filter (\<lambda>k. c \<notin> set (constraint_cols k)) (Tab_constraints t)\<rparr>"

fun exec_ddl :: "ddl \<Rightarrow> schema \<Rightarrow> schema option" where
  "exec_ddl (CreateTable t) s =
     (if \<not> distinct (table_names t) \<or> set (table_names t) \<inter> set (relation_names s) \<noteq> {} \<or> \<not> table_ok t
         \<or> \<not> list_all (fk_resolves (sch_tables s @ [t]) t) (Tab_constraints t)
      then None else Some (s\<lparr>sch_tables := sch_tables s @ [t]\<rparr>))"
| "exec_ddl (DropTable n) s =
     (if the_table n (sch_tables s) = None
         \<or> list_ex (\<lambda>t. Tab_name t \<noteq> n \<and> list_ex (refers_to n (\<lambda>_. True)) (Tab_constraints t)) (sch_tables s)
      then None
      else Some (s\<lparr>sch_tables := filter (\<lambda>t. Tab_name t \<noteq> n) (sch_tables s),
                   sch_indexes := filter (\<lambda>i. Ix_table i \<noteq> n) (sch_indexes s)\<rparr>))"
| "exec_ddl (CreateIndex i) s =
     (case the_table (Ix_table i) (sch_tables s) of None \<Rightarrow> None
      | Some t \<Rightarrow> if Ix_name i \<in> set (relation_names s) \<or> \<not> set (index_cols i) \<subseteq> set (cols t) then None
                  else Some (s\<lparr>sch_indexes := sch_indexes s @ [i]\<rparr>))"
| "exec_ddl (DropIndex n tab) s =
     (if n \<notin> Ix_name ` set (sch_indexes s) then None
      else Some (s\<lparr>sch_indexes := filter (\<lambda>i. Ix_name i \<noteq> n) (sch_indexes s)\<rparr>))"
| "exec_ddl (AddColumn n c) s =
     (case the_table n (sch_tables s) of None \<Rightarrow> None
      | Some t \<Rightarrow> if Col_name c \<in> set (cols t) then None
                  else Some (on_table n (\<lambda>t. t\<lparr>Tab_columns := Tab_columns t @ [c]\<rparr>) s))"
| "exec_ddl (DropColumn n c) s =
     (case the_table n (sch_tables s) of None \<Rightarrow> None
      | Some t \<Rightarrow> if c \<notin> set (cols t)
           \<or> list_ex (\<lambda>u. list_ex (refers_to n (\<lambda>rcs. c \<in> set rcs)) (Tab_constraints u)) (sch_tables s)
           \<or> list_ex (\<lambda>i. Ix_table i = n \<and> list_ex (contains c) (index_texts i)) (sch_indexes s)
         then None
         else Some ((on_table n (drop_col c) s)
                \<lparr>sch_indexes := filter (\<lambda>i. \<not> (Ix_table i = n \<and> c \<in> set (index_cols i))) (sch_indexes s)\<rparr>))"

fun exec_all :: "ddl list \<Rightarrow> schema \<Rightarrow> schema option" where
  "exec_all [] s = Some s"
| "exec_all (d # ds) s = (case exec_ddl d s of None \<Rightarrow> None | Some s' \<Rightarrow> exec_all ds s')"

section \<open>Well-formed catalogues\<close>

definition wf_schema :: "schema \<Rightarrow> bool" where
  "wf_schema s \<longleftrightarrow> distinct (relation_names s)
     \<and> (\<forall>t \<in> set (sch_tables s). table_ok t \<and> list_all (fk_resolves (sch_tables s) t) (Tab_constraints t))
     \<and> (\<forall>i \<in> set (sch_indexes s). \<exists>t \<in> set (sch_tables s).
          Tab_name t = Ix_table i \<and> set (index_cols i) \<subseteq> set (cols t))"


lemma the_table_Some: "the_table n ts = Some t \<Longrightarrow> t \<in> set ts \<and> Tab_name t = n"
  by (auto simp: the_table_def find_Some_iff)

lemma the_table_append: "the_table n (ts @ us) = (case the_table n ts of None \<Rightarrow> the_table n us | Some t \<Rightarrow> Some t)"
  by (induction ts) (auto simp: the_table_def)

lemma the_table_others: "n \<noteq> m \<Longrightarrow> the_table m (filter (\<lambda>t. Tab_name t \<noteq> n) ts) = the_table m ts"
  by (induction ts) (auto simp: the_table_def)

lemma the_table_map:
  assumes "\<And>t. Tab_name (f t) = Tab_name t"
  shows "the_table m (map (\<lambda>t. if Tab_name t = n then f t else t) ts)
    = map_option (\<lambda>t. if Tab_name t = n then f t else t) (the_table m ts)"
  by (induction ts) (auto simp: the_table_def assms)

lemma fk_resolves_mono:
  assumes "fk_resolves ts t k" "\<And>m u. the_table m ts = Some u \<Longrightarrow> refers_to m (\<lambda>_. True) k \<Longrightarrow> the_table m us = Some u"
  shows "fk_resolves us t k"
  using assms by (cases k) (auto split: option.splits)

lemma tables_distinct: "distinct (relation_names s) \<Longrightarrow> distinct (map Tab_name (sch_tables s))"
proof -
  have "distinct (concat (map table_names ts)) \<Longrightarrow> distinct (map Tab_name ts)" for ts
  proof (induction ts)
    case (Cons t ts)
    have "Tab_name ` set ts \<subseteq> (\<Union>x\<in>set ts. set (table_names x))" by (auto simp: table_names_def)
    then show ?case using Cons by (auto simp: table_names_def)
  qed simp
  then show "distinct (relation_names s) \<Longrightarrow> distinct (map Tab_name (sch_tables s))"
    by (simp add: relation_names_def)
qed

lemma find_distinct:
  "distinct (map k ts) \<Longrightarrow> t \<in> set ts \<Longrightarrow> find (\<lambda>u. k u = k t) ts = Some t"
  by (induction ts) (auto simp: image_iff)

lemma wf_the_table: "wf_schema s \<Longrightarrow> t \<in> set (sch_tables s) \<Longrightarrow> the_table (Tab_name t) (sch_tables s) = Some t"
  using find_distinct [OF tables_distinct] by (simp add: wf_schema_def the_table_def)

lemma distinct_shrink:
  assumes "distinct (concat (map g ts) @ R)" "\<And>t. t \<in> set ts \<Longrightarrow> distinct (g t) \<Longrightarrow> distinct (h t)"
    "\<And>t. t \<in> set ts \<Longrightarrow> set (h t) \<subseteq> set (g t)" "distinct Q" "set Q \<subseteq> set R"
  shows "distinct (concat (map h ts) @ Q)"
  using assms(1,2,3)
proof (induction ts)
  case (Cons t ts)
  have sub: "(\<Union>x\<in>set ts. set (h x)) \<subseteq> (\<Union>x\<in>set ts. set (g x))" using Cons.prems(3) by fastforce
  have tail: "distinct (concat (map h ts) @ Q)" by (rule Cons.IH) (use Cons.prems in \<open>simp_all\<close>)
  have here: "distinct (h t)" "set (h t) \<subseteq> set (g t)" using Cons.prems by simp_all
  have "set (g t) \<inter> (\<Union>x\<in>set ts. set (g x)) = {}" "set (g t) \<inter> set R = {}" using Cons.prems(1) by auto
  with here(2) sub assms(5) have "set (h t) \<inter> (\<Union>x\<in>set ts. set (h x)) = {}" "set (h t) \<inter> set Q = {}"
    by (meson disjoint_iff subsetD)+
  with here(1) tail show ?case by (simp add: Int_Un_distrib)
qed (use assms(4) in auto)

lemma fk_resolves_table:
  "fk_resolves ts t k \<Longrightarrow> map (col_type t') (constraint_cols k) = map (col_type t) (constraint_cols k) \<Longrightarrow> fk_resolves ts t' k"
  by (cases k) (simp_all split: option.splits del: map_eq_conv)

lemma wf_schemaI:
  assumes "distinct (relation_names s)" "\<And>t. t \<in> set (sch_tables s) \<Longrightarrow> table_ok t"
    "\<And>t k. t \<in> set (sch_tables s) \<Longrightarrow> k \<in> set (Tab_constraints t) \<Longrightarrow> fk_resolves (sch_tables s) t k"
    "\<And>i. i \<in> set (sch_indexes s) \<Longrightarrow> \<exists>t \<in> set (sch_tables s). Tab_name t = Ix_table i \<and> set (index_cols i) \<subseteq> set (cols t)"
  shows "wf_schema s"
  using assms by (simp add: wf_schema_def list_all_iff)

lemma wf_schemaD:
  assumes "wf_schema s"
  shows "distinct (relation_names s)" "t \<in> set (sch_tables s) \<Longrightarrow> table_ok t"
    "t \<in> set (sch_tables s) \<Longrightarrow> k \<in> set (Tab_constraints t) \<Longrightarrow> fk_resolves (sch_tables s) t k"
    "i \<in> set (sch_indexes s) \<Longrightarrow> \<exists>t \<in> set (sch_tables s). Tab_name t = Ix_table i \<and> set (index_cols i) \<subseteq> set (cols t)"
  using assms by (simp_all add: wf_schema_def list_all_iff)

section \<open>Every statement keeps the catalogue well formed\<close>

lemma create_table_wf:
  assumes wf: "wf_schema s" and ex: "exec_ddl (CreateTable t) s = Some s'" shows "wf_schema s'"
proof -
  have s': "s' = s\<lparr>sch_tables := sch_tables s @ [t]\<rparr>"
    and ok: "distinct (table_names t)" "set (table_names t) \<inter> set (relation_names s) = {}" "table_ok t"
      "list_all (fk_resolves (sch_tables s @ [t]) t) (Tab_constraints t)"
    using ex by (simp_all split: if_splits)
  have old: "fk_resolves (sch_tables s @ [t]) u k"
    if "u \<in> set (sch_tables s)" "k \<in> set (Tab_constraints u)" for u k
    by (rule fk_resolves_mono [OF wf_schemaD(3) [OF wf that]]) (simp add: the_table_append)
  show ?thesis
  proof (rule wf_schemaI)
    show "distinct (relation_names s')"
      using wf_schemaD(1) [OF wf] ok(1,2) by (auto simp: s' relation_names_def)
  next
    fix i assume "i \<in> set (sch_indexes s')"
    then show "\<exists>t\<in>set (sch_tables s'). Tab_name t = Ix_table i \<and> set (index_cols i) \<subseteq> set (cols t)"
      using wf_schemaD(4) [OF wf, of i] by (auto simp: s')
  qed (use old ok wf_schemaD(2) [OF wf] in \<open>auto simp: s' list_all_iff\<close>)
qed

lemma drop_table_wf:
  assumes wf: "wf_schema s" and ex: "exec_ddl (DropTable n) s = Some s'" shows "wf_schema s'"
proof -
  have s': "s' = s\<lparr>sch_tables := filter (\<lambda>t. Tab_name t \<noteq> n) (sch_tables s),
      sch_indexes := filter (\<lambda>i. Ix_table i \<noteq> n) (sch_indexes s)\<rparr>"
    and unref: "\<not> list_ex (\<lambda>t. Tab_name t \<noteq> n \<and> list_ex (refers_to n (\<lambda>_. True)) (Tab_constraints t)) (sch_tables s)"
    using ex by (simp_all split: if_splits)
  have free: "\<not> refers_to n (\<lambda>_. True) k" if "u \<in> set (sch_tables s)" "Tab_name u \<noteq> n" "k \<in> set (Tab_constraints u)" for u k
    using unref that by (auto simp: list_ex_iff)
  have skip: "concat (map (\<lambda>t. if Tab_name t = n then [] else table_names t) ts)
      = concat (map table_names (filter (\<lambda>t. Tab_name t \<noteq> n) ts))" for ts by (induction ts) auto
  show ?thesis
  proof (rule wf_schemaI)
    have "distinct (concat (map (\<lambda>t. if Tab_name t = n then [] else table_names t) (sch_tables s))
        @ map Ix_name (filter (\<lambda>i. Ix_table i \<noteq> n) (sch_indexes s)))"
      by (rule distinct_shrink [OF wf_schemaD(1) [OF wf, unfolded relation_names_def]])
        (use wf_schemaD(1) [OF wf] in \<open>auto simp: relation_names_def distinct_map_filter\<close>)
    then show "distinct (relation_names s')" by (simp add: relation_names_def s' skip)
  next
    fix t k assume "t \<in> set (sch_tables s')" "k \<in> set (Tab_constraints t)"
    then have t: "t \<in> set (sch_tables s)" "Tab_name t \<noteq> n" "k \<in> set (Tab_constraints t)" by (simp_all add: s')
    show "fk_resolves (sch_tables s') t k"
      by (rule fk_resolves_mono [OF wf_schemaD(3) [OF wf t(1,3)]])
        (use free [OF t] the_table_others [of n] in \<open>simp add: s', metis\<close>)
  next
    fix i assume "i \<in> set (sch_indexes s')"
    then show "\<exists>t\<in>set (sch_tables s'). Tab_name t = Ix_table i \<and> set (index_cols i) \<subseteq> set (cols t)"
      using wf_schemaD(4) [OF wf, of i] by (auto simp: s')
  qed (use wf_schemaD(2) [OF wf] in \<open>simp add: s'\<close>)
qed

lemma create_index_wf:
  assumes wf: "wf_schema s" and ex: "exec_ddl (CreateIndex i) s = Some s'" shows "wf_schema s'"
proof -
  obtain t where t: "the_table (Ix_table i) (sch_tables s) = Some t" and s': "s' = s\<lparr>sch_indexes := sch_indexes s @ [i]\<rparr>"
    and ok: "Ix_name i \<notin> set (relation_names s)" "set (index_cols i) \<subseteq> set (cols t)"
    using ex by (auto split: option.splits if_splits)
  have i: "t \<in> set (sch_tables s)" "Tab_name t = Ix_table i" using the_table_Some [OF t] by simp_all
  show ?thesis
  proof (rule wf_schemaI)
    fix j assume "j \<in> set (sch_indexes s')"
    then show "\<exists>t\<in>set (sch_tables s'). Tab_name t = Ix_table j \<and> set (index_cols j) \<subseteq> set (cols t)"
      using wf_schemaD(4) [OF wf, of j] ok(2) i by (auto simp: s')
  qed (use wf_schemaD(1-3) [OF wf] ok(1) in \<open>auto simp: s' relation_names_def\<close>)
qed

lemma drop_index_wf:
  assumes wf: "wf_schema s" and ex: "exec_ddl (DropIndex n tab) s = Some s'" shows "wf_schema s'"
proof -
  have s': "s' = s\<lparr>sch_indexes := filter (\<lambda>i. Ix_name i \<noteq> n) (sch_indexes s)\<rparr>" using ex by (simp split: if_splits)
  show ?thesis
    by (rule wf_schemaI) (use wf_schemaD [OF wf] in \<open>auto simp: s' relation_names_def distinct_map_filter\<close>)
qed

text \<open>Changing one table keeps the catalogue well formed when its remaining constraints, the keys others refer to and
  the columns of its indexes are still there with their types.\<close>

lemma on_table_wf:
  assumes wf: "wf_schema s" and nm: "\<And>t. Tab_name (f t) = Tab_name t"
    and ok: "\<And>t. t \<in> set (sch_tables s) \<Longrightarrow> Tab_name t = n \<Longrightarrow> table_ok (f t)
        \<and> set (Tab_constraints (f t)) \<subseteq> set (Tab_constraints t)
        \<and> (distinct (table_names t) \<longrightarrow> distinct (table_names (f t)))"
    and ty: "\<And>t k. t \<in> set (sch_tables s) \<Longrightarrow> Tab_name t = n \<Longrightarrow> k \<in> set (Tab_constraints (f t)) \<Longrightarrow>
        map (col_type (f t)) (constraint_cols k) = map (col_type t) (constraint_cols k)"
    and key: "\<And>t u x cs rcs a. t \<in> set (sch_tables s) \<Longrightarrow> Tab_name t = n \<Longrightarrow> u \<in> set (sch_tables s) \<Longrightarrow>
        ForeignKey x cs n rcs a \<in> set (Tab_constraints u) \<Longrightarrow> list_ex (is_key_on rcs) (Tab_constraints t) \<Longrightarrow>
        list_ex (is_key_on rcs) (Tab_constraints (f t)) \<and> map (col_type (f t)) rcs = map (col_type t) rcs"
    and ix: "\<And>t i. t \<in> set (sch_tables s) \<Longrightarrow> Tab_name t = n \<Longrightarrow> i \<in> set ixs \<Longrightarrow> Ix_table i = n \<Longrightarrow>
        set (index_cols i) \<subseteq> set (cols t) \<Longrightarrow> set (index_cols i) \<subseteq> set (cols (f t))"
    and sub: "set ixs \<subseteq> set (sch_indexes s)" "distinct (map Ix_name ixs)"
  shows "wf_schema ((on_table n f s)\<lparr>sch_indexes := ixs\<rparr>)" (is "wf_schema ?s'")
proof (rule wf_schemaI)
  let ?g = "\<lambda>t. if Tab_name t = n then f t else t"
  have tabs: "sch_tables ?s' = map ?g (sch_tables s)" by (simp add: on_table_def)
  have names: "set (table_names (f t)) \<subseteq> set (table_names t)" if "t \<in> set (sch_tables s)" "Tab_name t = n" for t
    using ok [OF that] nm [of t] by (auto simp: table_names_def)
  have "distinct (concat (map (\<lambda>t. table_names (?g t)) (sch_tables s)) @ map Ix_name ixs)"
    by (rule distinct_shrink [OF wf_schemaD(1) [OF wf, unfolded relation_names_def]]) (use ok names sub in auto)
  then show "distinct (relation_names ?s')" by (simp add: relation_names_def on_table_def comp_def)
  show "table_ok t" if "t \<in> set (sch_tables ?s')" for t
    using that ok wf_schemaD(2) [OF wf] by (auto simp: tabs)
  show "\<exists>t\<in>set (sch_tables ?s'). Tab_name t = Ix_table i \<and> set (index_cols i) \<subseteq> set (cols t)" if "i \<in> set (sch_indexes ?s')" for i
  proof -
    have i: "i \<in> set ixs" using that by simp
    then obtain t where "t \<in> set (sch_tables s)" "Tab_name t = Ix_table i" "set (index_cols i) \<subseteq> set (cols t)"
      using wf_schemaD(4) [OF wf, of i] sub(1) by auto
    then show ?thesis using ix [of t i] i nm [of t] by (intro bexI [of _ "?g t"]) (auto simp: tabs)
  qed
  show "fk_resolves (sch_tables ?s') t k" if t: "t \<in> set (sch_tables ?s')" and k: "k \<in> set (Tab_constraints t)" for t k
  proof -
    obtain u where u: "u \<in> set (sch_tables s)" "t = ?g u" using t by (auto simp: tabs)
    then have ku: "k \<in> set (Tab_constraints u)" using k ok [of u] by (auto split: if_splits)
    have "fk_resolves (sch_tables s) t k"
      using fk_resolves_table [OF wf_schemaD(3) [OF wf u(1) ku], of t] ty [OF u(1)] k u(2) by (auto split: if_splits)
    then show ?thesis
    proof (cases k)
      case (ForeignKey x cs rt rcs a)
      with \<open>fk_resolves (sch_tables s) t k\<close> obtain v where v: "the_table rt (sch_tables s) = Some v"
        "list_ex (is_key_on rcs) (Tab_constraints v)" "map (col_type t) cs = map (col_type v) rcs"
        by (auto split: option.splits)
      have "list_ex (is_key_on rcs) (Tab_constraints (?g v)) \<and> map (col_type (?g v)) rcs = map (col_type v) rcs"
        using key [of v u x cs rcs a] the_table_Some [OF v(1)] u(1) ku v(2) ForeignKey by auto
      then show ?thesis using v ForeignKey the_table_map [OF nm, where m = rt and n = n and ts = "sch_tables s"]
        by (simp add: tabs del: map_eq_conv)
    qed simp_all
  qed
qed

lemma is_key_on_cols: "is_key_on cs k \<Longrightarrow> constraint_cols k = cs"
  by (cases k) auto

lemma key_on_cols: "table_ok t \<Longrightarrow> list_ex (is_key_on cs) (Tab_constraints t) \<Longrightarrow> set cs \<subseteq> set (cols t)"
  by (fastforce simp: table_ok_def list_all_iff list_ex_iff dest: is_key_on_cols)

lemma col_type_more:
  "x \<in> set (cols t) \<Longrightarrow> col_type (t\<lparr>Tab_columns := Tab_columns t @ [c]\<rparr>) x = col_type t x"
proof -
  have "x \<in> Col_name ` set xs \<Longrightarrow> map_of (map (\<lambda>y. (Col_name y, Col_type y)) (xs @ [c])) x
      = map_of (map (\<lambda>y. (Col_name y, Col_type y)) xs) x" for xs
    by (induction xs) auto
  then show "x \<in> set (cols t) \<Longrightarrow> col_type (t\<lparr>Tab_columns := Tab_columns t @ [c]\<rparr>) x = col_type t x"
    by (simp add: col_type_def cols_def)
qed

lemma col_type_fewer: "x \<noteq> c \<Longrightarrow> col_type (drop_col c t) x = col_type t x"
proof -
  have "x \<noteq> c \<Longrightarrow> map_of (map (\<lambda>y. (Col_name y, Col_type y)) (filter (\<lambda>y. Col_name y \<noteq> c) xs)) x
      = map_of (map (\<lambda>y. (Col_name y, Col_type y)) xs) x" for xs :: "sql_column list"
    by (induction xs) auto
  then show "x \<noteq> c \<Longrightarrow> col_type (drop_col c t) x = col_type t x" by (simp add: col_type_def drop_col_def)
qed

lemma add_column_wf:
  assumes wf: "wf_schema s" and ex: "exec_ddl (AddColumn n c) s = Some s'" shows "wf_schema s'"
proof -
  let ?f = "\<lambda>t. t\<lparr>Tab_columns := Tab_columns t @ [c]\<rparr>"
  obtain t where t: "the_table n (sch_tables s) = Some t" and new: "Col_name c \<notin> set (cols t)" and s': "s' = on_table n ?f s"
    using ex by (auto split: option.splits if_splits)
  have only: "u = t" if "u \<in> set (sch_tables s)" "Tab_name u = n" for u
    using wf_the_table [OF wf that(1)] t that(2) by simp
  have more: "set (cols u) \<subseteq> set (cols (?f u))" for u by (auto simp: cols_def)
  have same: "map (col_type (?f u)) cs = map (col_type u) cs" if "set cs \<subseteq> set (cols u)" for u cs
    using that col_type_more [of _ u c] by auto
  have "wf_schema ((on_table n ?f s)\<lparr>sch_indexes := sch_indexes s\<rparr>)"
  proof (rule on_table_wf [OF wf])
    fix u assume u: "u \<in> set (sch_tables s)" "Tab_name u = n"
    show "table_ok (?f u) \<and> set (Tab_constraints (?f u)) \<subseteq> set (Tab_constraints u)
        \<and> (distinct (table_names u) \<longrightarrow> distinct (table_names (?f u)))"
      using wf_schemaD(2) [OF wf u(1)] new only [OF u] by (auto simp: table_ok_def cols_def table_names_def list_all_iff)
    show "map (col_type (?f u)) (constraint_cols k) = map (col_type u) (constraint_cols k)"
      if "k \<in> set (Tab_constraints (?f u))" for k
      using that wf_schemaD(2) [OF wf u(1)] by (intro same) (simp add: table_ok_def list_all_iff)
    show "list_ex (is_key_on rcs) (Tab_constraints (?f u)) \<and> map (col_type (?f u)) rcs = map (col_type u) rcs"
      if "list_ex (is_key_on rcs) (Tab_constraints u)" for rcs
      using that same [OF key_on_cols [OF wf_schemaD(2) [OF wf u(1)] that]] by simp
  qed (use more wf_schemaD(1) [OF wf] in \<open>auto simp: relation_names_def\<close>)
  moreover have "(on_table n ?f s)\<lparr>sch_indexes := sch_indexes s\<rparr> = s'" by (simp add: s' on_table_def)
  ultimately show ?thesis by simp
qed

lemma drop_column_wf:
  assumes wf: "wf_schema s" and ex: "exec_ddl (DropColumn n c) s = Some s'" shows "wf_schema s'"
proof -
  let ?ixs = "filter (\<lambda>i. \<not> (Ix_table i = n \<and> c \<in> set (index_cols i))) (sch_indexes s)"
  have unref: "\<not> list_ex (\<lambda>u. list_ex (refers_to n (\<lambda>rcs. c \<in> set rcs)) (Tab_constraints u)) (sch_tables s)"
    and s': "s' = (on_table n (drop_col c) s)\<lparr>sch_indexes := ?ixs\<rparr>"
    using ex by (auto split: option.splits if_splits)
  have same: "map (col_type (drop_col c u)) cs = map (col_type u) cs" if "c \<notin> set cs" for u cs
    using that by (auto intro: col_type_fewer)
  have kept: "set cs \<subseteq> set (cols (drop_col c u))" if "set cs \<subseteq> set (cols u)" "c \<notin> set cs" for u cs
    using that by (auto simp: cols_def drop_col_def)
  show ?thesis unfolding s'
  proof (rule on_table_wf [OF wf])
    fix u assume u: "u \<in> set (sch_tables s)" "Tab_name u = n"
    have keys: "distinct (concat (map key_name ks)) \<Longrightarrow> distinct (concat (map key_name (filter P ks)))" for ks P
      by (induction ks) auto
    have "set (constraint_cols k) \<subseteq> set (cols (drop_col c u))" if "k \<in> set (Tab_constraints (drop_col c u))" for k
      using that wf_schemaD(2) [OF wf u(1)] by (intro kept) (auto simp: table_ok_def list_all_iff drop_col_def)
    then show "table_ok (drop_col c u) \<and> set (Tab_constraints (drop_col c u)) \<subseteq> set (Tab_constraints u)
        \<and> (distinct (table_names u) \<longrightarrow> distinct (table_names (drop_col c u)))"
      using wf_schemaD(2) [OF wf u(1)] keys
      by (auto simp: table_ok_def cols_def drop_col_def table_names_def list_all_iff distinct_map_filter)
    show "map (col_type (drop_col c u)) (constraint_cols k) = map (col_type u) (constraint_cols k)"
      if "k \<in> set (Tab_constraints (drop_col c u))" for k
      using that by (intro same) (simp add: drop_col_def)
    fix v x cs rcs a assume v: "v \<in> set (sch_tables s)" "ForeignKey x cs n rcs a \<in> set (Tab_constraints v)"
      and key: "list_ex (is_key_on rcs) (Tab_constraints u)"
    have "c \<notin> set rcs" using unref v by (force simp: list_ex_iff)
    then show "list_ex (is_key_on rcs) (Tab_constraints (drop_col c u)) \<and> map (col_type (drop_col c u)) rcs = map (col_type u) rcs"
      using key same [of rcs u] is_key_on_cols by (fastforce simp: drop_col_def list_ex_iff)
  next
    fix u i assume "i \<in> set ?ixs" "Ix_table i = n" "set (index_cols i) \<subseteq> set (cols u)"
    then show "set (index_cols i) \<subseteq> set (cols (drop_col c u))" by (intro kept) auto
  qed (use wf_schemaD(1) [OF wf] in \<open>auto simp: relation_names_def drop_col_def distinct_map_filter\<close>)
qed

lemma exec_ddl_wf: "wf_schema s \<Longrightarrow> exec_ddl d s = Some s' \<Longrightarrow> wf_schema s'"
  by (cases d) (blast intro: create_table_wf drop_table_wf create_index_wf drop_index_wf add_column_wf drop_column_wf)+

lemma exec_all_wf: "wf_schema s \<Longrightarrow> exec_all ds s = Some s' \<Longrightarrow> wf_schema s'"
  by (induction ds arbitrary: s) (auto split: option.splits dest: exec_ddl_wf)

lemma empty_schema_wf: "wf_schema empty_schema"
  by (simp add: wf_schema_def empty_schema_def relation_names_def)

section \<open>Undoing additions\<close>

text \<open>An addition is undone by the matching removal, and takes nothing away.\<close>

fun additive :: "ddl \<Rightarrow> bool" where
  "additive (CreateTable _) \<longleftrightarrow> True"
| "additive (CreateIndex _) \<longleftrightarrow> True"
| "additive (AddColumn _ _) \<longleftrightarrow> True"
| "additive _ \<longleftrightarrow> False"

fun undo :: "ddl \<Rightarrow> ddl" where
  "undo (CreateTable t) = DropTable (Tab_name t)"
| "undo (CreateIndex i) = DropIndex (Ix_name i) (Ix_table i)"
| "undo (AddColumn n c) = DropColumn n (Col_name c)"
| "undo d = d"

text \<open>The name of an added column does not occur in the expressions of the table's indexes.\<close>

fun unmentioned :: "schema \<Rightarrow> ddl \<Rightarrow> bool" where
  "unmentioned s (AddColumn n c) \<longleftrightarrow>
     list_all (\<lambda>i. Ix_table i = n \<longrightarrow> list_all (\<lambda>e. \<not> contains (Col_name c) e) (index_texts i)) (sch_indexes s)"
| "unmentioned s _ \<longleftrightarrow> True"

definition extends :: "schema \<Rightarrow> schema \<Rightarrow> bool" where
  "extends s s' \<longleftrightarrow> set (sch_indexes s) \<subseteq> set (sch_indexes s')
     \<and> (\<forall>t \<in> set (sch_tables s). \<exists>t' \<in> set (sch_tables s'). Tab_name t' = Tab_name t
          \<and> set (Tab_columns t) \<subseteq> set (Tab_columns t') \<and> set (Tab_constraints t) \<subseteq> set (Tab_constraints t'))"

lemma extends_refl: "extends s s"
  by (auto simp: extends_def)

lemma extends_trans: "extends r s \<Longrightarrow> extends s t \<Longrightarrow> extends r t"
  unfolding extends_def by (metis subset_trans)

lemma on_table_extends:
  assumes "\<And>t. Tab_name (f t) = Tab_name t \<and> set (Tab_columns t) \<subseteq> set (Tab_columns (f t))
      \<and> set (Tab_constraints t) \<subseteq> set (Tab_constraints (f t))"
  shows "extends s (on_table n f s)"
  unfolding extends_def
proof (intro conjI ballI)
  fix t assume "t \<in> set (sch_tables s)"
  then show "\<exists>t'\<in>set (sch_tables (on_table n f s)). Tab_name t' = Tab_name t \<and> set (Tab_columns t) \<subseteq> set (Tab_columns t')
      \<and> set (Tab_constraints t) \<subseteq> set (Tab_constraints t')"
    using assms [of t] by (intro bexI [of _ "if Tab_name t = n then f t else t"]) (auto simp: on_table_def)
qed (simp add: on_table_def)

lemma exec_ddl_extends: "additive d \<Longrightarrow> exec_ddl d s = Some s' \<Longrightarrow> extends s s'"
proof (cases d)
  case (AddColumn n c)
  assume "exec_ddl d s = Some s'"
  then have "s' = on_table n (\<lambda>t. t\<lparr>Tab_columns := Tab_columns t @ [c]\<rparr>) s"
    by (simp add: AddColumn split: option.splits if_splits)
  then show ?thesis using on_table_extends [where f = "\<lambda>t. t\<lparr>Tab_columns := Tab_columns t @ [c]\<rparr>"] by auto
qed (auto simp: extends_def split: option.splits if_splits)

lemma exec_all_extends: "list_all additive ds \<Longrightarrow> exec_all ds s = Some s' \<Longrightarrow> extends s s'"
  by (induction ds arbitrary: s) (auto intro: extends_refl extends_trans exec_ddl_extends split: option.splits)

lemma exec_all_append: "exec_all (ds @ es) s = (case exec_all ds s of None \<Rightarrow> None | Some s' \<Rightarrow> exec_all es s')"
  by (induction ds arbitrary: s) (auto split: option.splits)

lemma undo_create_table:
  assumes wf: "wf_schema s" and ex: "exec_ddl (CreateTable t) s = Some s'"
  shows "exec_ddl (DropTable (Tab_name t)) s' = Some s"
proof -
  have s': "s' = s\<lparr>sch_tables := sch_tables s @ [t]\<rparr>" and new: "set (table_names t) \<inter> set (relation_names s) = {}"
    using ex by (simp_all split: if_splits)
  have fresh: "Tab_name u \<noteq> Tab_name t" if "u \<in> set (sch_tables s)" for u
    using new that by (auto simp: table_names_def relation_names_def)
  have ixs: "Ix_table i \<noteq> Tab_name t" if "i \<in> set (sch_indexes s)" for i
    using wf_schemaD(4) [OF wf that] fresh by fastforce
  have unref: "\<not> refers_to (Tab_name t) (\<lambda>_. True) k" if "u \<in> set (sch_tables s)" "k \<in> set (Tab_constraints u)" for u k
    using wf_schemaD(3) [OF wf that] fresh the_table_Some by (cases k) (auto split: option.splits)
  have "the_table (Tab_name t) (sch_tables s') \<noteq> None" by (simp add: s' the_table_append) (simp add: the_table_def split: option.splits)
  moreover have "filter (\<lambda>u. Tab_name u \<noteq> Tab_name t) (sch_tables s') = sch_tables s"
    "filter (\<lambda>i. Ix_table i \<noteq> Tab_name t) (sch_indexes s') = sch_indexes s"
    using fresh ixs by (simp_all add: s' filter_id_conv)
  ultimately show ?thesis using unref by (auto simp: s' list_ex_iff)
qed

lemma undo_create_index:
  assumes "exec_ddl (CreateIndex i) s = Some s'" shows "exec_ddl (DropIndex (Ix_name i) (Ix_table i)) s' = Some s"
proof -
  have s': "s' = s\<lparr>sch_indexes := sch_indexes s @ [i]\<rparr>" and new: "Ix_name i \<notin> Ix_name ` set (sch_indexes s)"
    using assms by (auto simp: relation_names_def split: option.splits if_splits)
  have "filter (\<lambda>j. Ix_name j \<noteq> Ix_name i) (sch_indexes s) = sch_indexes s"
    using new by (simp add: filter_id_conv) (metis image_eqI)
  then show ?thesis by (simp add: s')
qed

lemma undo_add_column:
  assumes wf: "wf_schema s" and ex: "exec_ddl (AddColumn n c) s = Some s'" and um: "unmentioned s (AddColumn n c)"
  shows "exec_ddl (DropColumn n (Col_name c)) s' = Some s"
proof -
  let ?f = "\<lambda>t. t\<lparr>Tab_columns := Tab_columns t @ [c]\<rparr>"
  obtain t where t: "the_table n (sch_tables s) = Some t" and new: "Col_name c \<notin> set (cols t)" and s': "s' = on_table n ?f s"
    using ex by (auto split: option.splits if_splits)
  have only: "u = t" if "u \<in> set (sch_tables s)" "Tab_name u = n" for u
    using wf_the_table [OF wf that(1)] t that(2) by simp
  have t_in: "t \<in> set (sch_tables s)" "Tab_name t = n" using the_table_Some [OF t] by simp_all
  have keys: "Col_name c \<notin> set (constraint_cols k)" if "k \<in> set (Tab_constraints t)" for k
    using wf_schemaD(2) [OF wf t_in(1)] that new by (auto simp: table_ok_def list_all_iff)
  have undone: "drop_col (Col_name c) (?f t) = t"
  proof -
    have "filter (\<lambda>x. Col_name x \<noteq> Col_name c) (Tab_columns t) = Tab_columns t"
      using new by (simp add: filter_id_conv cols_def) (metis image_eqI)
    moreover have "filter (\<lambda>k. Col_name c \<notin> set (constraint_cols k)) (Tab_constraints t) = Tab_constraints t"
      using keys by (simp add: filter_id_conv)
    ultimately show ?thesis by (simp add: drop_col_def)
  qed
  have unref: "\<not> refers_to n (\<lambda>rcs. Col_name c \<in> set rcs) k" if "u \<in> set (sch_tables s)" "k \<in> set (Tab_constraints u)" for u k
  proof (cases k)
    case (ForeignKey x cs rt rcs a)
    show ?thesis
    proof
      assume "refers_to n (\<lambda>rcs. Col_name c \<in> set rcs) k"
      then have c: "rt = n" "Col_name c \<in> set rcs" by (simp_all add: ForeignKey)
      then have "list_ex (is_key_on rcs) (Tab_constraints t)" using wf_schemaD(3) [OF wf that] t by (simp add: ForeignKey)
      from subsetD [OF key_on_cols [OF wf_schemaD(2) [OF wf t_in(1)] this] c(2)] new show False by simp
    qed
  qed simp_all
  have ixs: "Ix_table i = n \<Longrightarrow> Col_name c \<notin> set (index_cols i)" if "i \<in> set (sch_indexes s)" for i
    using wf_schemaD(4) [OF wf that] only new by auto
  have tab: "the_table n (sch_tables s') = Some (?f t)"
    using the_table_map [of ?f n n "sch_tables s"] t t_in by (simp add: s' on_table_def)
  have tabs: "sch_tables (on_table n (drop_col (Col_name c)) s') = sch_tables s"
    by (simp add: s' on_table_def comp_def) (rule map_idI, use only undone in auto)
  have "filter (\<lambda>i. \<not> (Ix_table i = n \<and> Col_name c \<in> set (index_cols i))) (sch_indexes s) = sch_indexes s"
    using ixs by (auto simp: filter_id_conv)
  moreover have "sch_indexes s' = sch_indexes s" by (simp add: s' on_table_def)
  moreover have "Col_name c \<in> set (cols (?f t))" by (simp add: cols_def)
  moreover have "\<not> list_ex (\<lambda>u. list_ex (refers_to n (\<lambda>rcs. Col_name c \<in> set rcs)) (Tab_constraints u)) (sch_tables s')"
    using unref by (auto simp: s' on_table_def list_ex_iff)
  moreover have "\<not> list_ex (\<lambda>i. Ix_table i = n \<and> list_ex (contains (Col_name c)) (index_texts i)) (sch_indexes s)"
    using um by (auto simp: list_ex_iff list_all_iff)
  ultimately have "exec_ddl (DropColumn n (Col_name c)) s' = Some ((on_table n (drop_col (Col_name c)) s')\<lparr>sch_indexes := sch_indexes s\<rparr>)"
    using tab by simp
  then show ?thesis using tabs by (simp add: on_table_def)
qed

lemma undo_ddl:
  "wf_schema s \<Longrightarrow> additive d \<Longrightarrow> unmentioned s d \<Longrightarrow> exec_ddl d s = Some s' \<Longrightarrow> exec_ddl (undo d) s' = Some s"
  by (cases d) (simp_all only: additive.simps undo.simps undo_create_table undo_create_index undo_add_column)

text \<open>What an addition does once it is accepted.\<close>

fun effect :: "ddl \<Rightarrow> schema \<Rightarrow> schema" where
  "effect (CreateTable t) s = s\<lparr>sch_tables := sch_tables s @ [t]\<rparr>"
| "effect (CreateIndex i) s = s\<lparr>sch_indexes := sch_indexes s @ [i]\<rparr>"
| "effect (AddColumn n c) s = on_table n (\<lambda>t. t\<lparr>Tab_columns := Tab_columns t @ [c]\<rparr>) s"
| "effect _ s = s"

lemma exec_ddl_effect: "additive d \<Longrightarrow> exec_ddl d s = Some s' \<Longrightarrow> s' = effect d s"
  by (cases d) (auto split: option.splits if_splits)

lemma exec_all_effect: "list_all additive ds \<Longrightarrow> exec_all ds s = Some s' \<Longrightarrow> s' = fold effect ds s"
  by (induction ds arbitrary: s) (auto split: option.splits dest: exec_ddl_effect)

text \<open>A script of additions is undone by the removals in the opposite order.\<close>

fun unmentioned_all :: "schema \<Rightarrow> ddl list \<Rightarrow> bool" where
  "unmentioned_all s [] \<longleftrightarrow> True"
| "unmentioned_all s (d # ds) \<longleftrightarrow> unmentioned s d \<and> unmentioned_all (effect d s) ds"

lemma unmentioned_all_append:
  "unmentioned_all s (ds @ es) \<longleftrightarrow> unmentioned_all s ds \<and> unmentioned_all (fold effect ds s) es"
  by (induction ds arbitrary: s) auto

lemma undo_all:
  assumes "wf_schema s" "list_all additive ds" "unmentioned_all s ds" "exec_all ds s = Some s'"
  shows "exec_all (rev (map undo ds)) s' = Some s"
  using assms
proof (induction ds arbitrary: s)
  case (Cons d ds)
  then obtain s1 where d: "exec_ddl d s = Some s1" and ds: "exec_all ds s1 = Some s'"
    by (auto split: option.splits)
  then have "s1 = effect d s" using Cons.prems(2) by (auto dest: exec_ddl_effect)
  then have "exec_all (rev (map undo ds)) s' = Some s1"
    using Cons.prems d ds by (intro Cons.IH) (auto dest: exec_ddl_wf)
  moreover have "exec_ddl (undo d) s1 = Some s" using Cons.prems d by (auto intro: undo_ddl)
  ultimately show ?case by (simp add: exec_all_append)
qed simp

text \<open>Indexes can be dropped in any order.\<close>

lemma drop_indexes:
  "distinct ns \<Longrightarrow> set ns \<subseteq> Ix_name ` set (sch_indexes s) \<Longrightarrow>
   exec_all (map (\<lambda>n. DropIndex n tab) ns) s = Some (s\<lparr>sch_indexes := filter (\<lambda>i. Ix_name i \<notin> set ns) (sch_indexes s)\<rparr>)"
proof (induction ns arbitrary: s)
  case (Cons n ns)
  let ?s1 = "s\<lparr>sch_indexes := filter (\<lambda>i. Ix_name i \<noteq> n) (sch_indexes s)\<rparr>"
  have "set ns \<subseteq> Ix_name ` set (sch_indexes ?s1)" using Cons.prems by force
  then show ?case using Cons.IH [of ?s1] Cons.prems by (simp add: filter_filter)
qed simp

lemma drop_indexes_cases:
  "exec_all (map (\<lambda>n. DropIndex n tab) ns) s = Some s' \<Longrightarrow> distinct ns \<and> set ns \<subseteq> Ix_name ` set (sch_indexes s)"
  by (induction ns arbitrary: s) (fastforce split: if_splits)+

lemma drop_indexes_rev:
  "exec_all (map (\<lambda>n. DropIndex n tab) (rev ns)) s = Some s' \<Longrightarrow> exec_all (map (\<lambda>n. DropIndex n tab) ns) s = Some s'"
  by (frule drop_indexes_cases) (simp only: drop_indexes distinct_rev set_rev)

end
