(* ===== verification/Metadata.thy ===== *)
theory Metadata
  imports Models Schema
begin

text \<open>
  The tables the ORM classes of \<^verbatim>\<open>app/models\<close> declare: each class as its list of mapped columns and table
  arguments, and the metadata SQLAlchemy builds from them with the naming convention of \<^verbatim>\<open>models/base.py\<close>. Only
  what reaches the database is kept (Python-side defaults and relationships do not).
\<close>

section \<open>Declarations\<close>

record model_column =
  Mc_name :: string
  Mc_type :: coltype
  Mc_nullable :: bool
  Mc_primary_key :: bool
  Mc_unique :: bool
  Mc_index :: bool
  Mc_autoincrement :: bool
  Mc_server_default :: "sql_default option"
  Mc_foreign_key :: "(string \<times> string \<times> string) option"

datatype table_arg =
    UniqueArg string "string list"
  | CheckArg string string
  | IndexArg string "index_part list" bool "string option"

record model =
  Mo_tablename :: string
  Mo_columns :: "model_column list"
  Mo_table_args :: "table_arg list"

definition col :: "string \<Rightarrow> coltype \<Rightarrow> model_column" where
  "col nm ty = \<lparr>Mc_name = nm, Mc_type = ty, Mc_nullable = False, Mc_primary_key = False, Mc_unique = False,
     Mc_index = False, Mc_autoincrement = False, Mc_server_default = None, Mc_foreign_key = None\<rparr>"

definition func_lower :: "string \<Rightarrow> string" where
  "func_lower e = ''lower('' @ e @ '')''"

definition DEFAULT_TAG_COLOR :: string where
  "DEFAULT_TAG_COLOR = ''gray''"

definition TimestampMixin :: "model_column list" where
  "TimestampMixin =
     [(col ''created_at'' TDateTime)\<lparr>Mc_server_default := Some (DExpr ''now()'')\<rparr>,
      (col ''updated_at'' TDateTime)\<lparr>Mc_server_default := Some (DExpr ''now()'')\<rparr>]"

section \<open>The naming convention\<close>

definition ix_name :: "string \<Rightarrow> string \<Rightarrow> string" where
  "ix_name tab c = ''ix_'' @ tab @ ''_'' @ c"

definition uq_name :: "string \<Rightarrow> string \<Rightarrow> string" where
  "uq_name tab c = ''uq_'' @ tab @ ''_'' @ c"

definition ck_name :: "string \<Rightarrow> string \<Rightarrow> string" where
  "ck_name tab nm = ''ck_'' @ tab @ ''_'' @ nm"

definition fk_name :: "string \<Rightarrow> string \<Rightarrow> string \<Rightarrow> string" where
  "fk_name tab c referred = ''fk_'' @ tab @ ''_'' @ c @ ''_'' @ referred"

definition pk_name :: "string \<Rightarrow> string" where
  "pk_name tab = ''pk_'' @ tab"

section \<open>From a class to a table\<close>

definition column_of :: "model_column \<Rightarrow> sql_column" where
  "column_of c = \<lparr>Col_name = Mc_name c, Col_type = Mc_type c, Col_nullable = Mc_nullable c \<and> \<not> Mc_primary_key c,
     Col_default = Mc_server_default c, Col_autoincrement = Mc_autoincrement c\<rparr>"

definition column_constraints :: "string \<Rightarrow> model_column \<Rightarrow> sql_constraint list" where
  "column_constraints tab c =
     (case Mc_foreign_key c of None \<Rightarrow> []
      | Some (rt, rc, act) \<Rightarrow> [ForeignKey (fk_name tab (Mc_name c) rt) [Mc_name c] rt [rc] act])
     @ (if Mc_unique c then [Unique (uq_name tab (Mc_name c)) [Mc_name c]] else [])"

fun arg_constraints :: "string \<Rightarrow> table_arg \<Rightarrow> sql_constraint list" where
  "arg_constraints tab (UniqueArg nm cs) = [Unique nm cs]"
| "arg_constraints tab (CheckArg nm e) = [Check (ck_name tab nm) e]"
| "arg_constraints tab (IndexArg _ _ _ _) = []"

fun arg_indexes :: "string \<Rightarrow> table_arg \<Rightarrow> sql_index list" where
  "arg_indexes tab (IndexArg nm parts uniq cond) = [index_on nm tab parts uniq cond]"
| "arg_indexes tab _ = []"

definition table_of :: "model \<Rightarrow> sql_table" where
  "table_of m = \<lparr>Tab_name = Mo_tablename m, Tab_columns = map column_of (Mo_columns m),
     Tab_constraints = PrimaryKey (pk_name (Mo_tablename m)) (map Mc_name (filter Mc_primary_key (Mo_columns m)))
       # concat (map (column_constraints (Mo_tablename m)) (Mo_columns m))
       @ concat (map (arg_constraints (Mo_tablename m)) (Mo_table_args m))\<rparr>"

definition indexes_of :: "model \<Rightarrow> sql_index list" where
  "indexes_of m =
     map (\<lambda>c. index_on (ix_name (Mo_tablename m) (Mc_name c)) (Mo_tablename m) [IxCol (Mc_name c)] False None)
       (filter Mc_index (Mo_columns m))
     @ concat (map (arg_indexes (Mo_tablename m)) (Mo_table_args m))"

definition metadata_of :: "model list \<Rightarrow> schema" where
  "metadata_of ms = \<lparr>sch_tables = map table_of ms, sch_indexes = concat (map indexes_of ms)\<rparr>"

section \<open>The classes\<close>

definition AgentBinary_model :: model where
  "AgentBinary_model = \<lparr>Mo_tablename = ''agent_binaries'',
    Mo_columns = [
      (col ''id'' TUuid)\<lparr>Mc_primary_key := True\<rparr>,
      col ''version'' (TString 64),
      (col ''hypervisor'' (TString 32))\<lparr>Mc_server_default := Some (DLit DEFAULT_HYPERVISOR)\<rparr>,
      col ''filename'' (TString 255),
      col ''size_bytes'' TBigInteger,
      col ''checksum_sha256'' (TString 64),
      col ''content_type'' (TString 128),
      col ''storage_backend'' (TString 16),
      col ''storage_key'' (TString 512),
      (col ''notes'' TText)\<lparr>Mc_nullable := True\<rparr>,
      (col ''is_active'' TBoolean)\<lparr>Mc_server_default := Some (DLit ''false'')\<rparr>,
      col ''uploaded_by'' (TString 255),
      (col ''created_at'' TDateTime)\<lparr>Mc_server_default := Some (DExpr ''now()'')\<rparr>],
    Mo_table_args = [
      UniqueArg ''uq_agent_binaries_version_hypervisor'' [''version'', ''hypervisor'']]\<rparr>"

definition AuditEvent_model :: model where
  "AuditEvent_model = \<lparr>Mo_tablename = ''audit_events'',
    Mo_columns = [
      (col ''id'' TUuid)\<lparr>Mc_primary_key := True\<rparr>,
      (col ''occurred_at'' TDateTime)\<lparr>Mc_index := True, Mc_server_default := Some (DExpr ''now()'')\<rparr>,
      col ''actor_type'' (TString 16),
      (col ''actor_email'' (TString 255))\<lparr>Mc_nullable := True, Mc_index := True\<rparr>,
      (col ''actor_name'' (TString 255))\<lparr>Mc_nullable := True\<rparr>,
      (col ''action'' (TString 64))\<lparr>Mc_index := True\<rparr>,
      col ''target_type'' (TString 32),
      (col ''target_id'' TUuid)\<lparr>Mc_nullable := True, Mc_index := True\<rparr>,
      (col ''target_name'' (TString 255))\<lparr>Mc_nullable := True\<rparr>,
      (col ''host_id'' TUuid)\<lparr>Mc_nullable := True, Mc_index := True\<rparr>,
      (col ''cluster_id'' TUuid)\<lparr>Mc_nullable := True, Mc_index := True\<rparr>,
      (col ''task_id'' TUuid)\<lparr>Mc_nullable := True, Mc_index := True\<rparr>,
      col ''outcome'' (TString 16),
      (col ''error'' TText)\<lparr>Mc_nullable := True\<rparr>,
      (col ''details'' TJsonb)\<lparr>Mc_nullable := True\<rparr>],
    Mo_table_args = []\<rparr>"

definition Cluster_model :: model where
  "Cluster_model = \<lparr>Mo_tablename = ''clusters'',
    Mo_columns = [
      (col ''id'' TUuid)\<lparr>Mc_primary_key := True\<rparr>,
      col ''name'' (TString 255),
      (col ''hypervisor'' (TString 32))\<lparr>Mc_server_default := Some (DLit DEFAULT_HYPERVISOR)\<rparr>] @ TimestampMixin,
    Mo_table_args = []\<rparr>"

definition Folder_model :: model where
  "Folder_model = \<lparr>Mo_tablename = ''folders'',
    Mo_columns = [
      (col ''id'' TUuid)\<lparr>Mc_primary_key := True\<rparr>,
      (col ''cluster_id'' TUuid)\<lparr>Mc_nullable := True, Mc_index := True, Mc_foreign_key := Some (''clusters'', ''id'', ''CASCADE'')\<rparr>,
      (col ''host_id'' TUuid)\<lparr>Mc_nullable := True, Mc_index := True, Mc_foreign_key := Some (''hosts'', ''id'', ''CASCADE'')\<rparr>,
      col ''name'' (TString 255)] @ TimestampMixin,
    Mo_table_args = [
      CheckArg ''folder_scope_exactly_one'' ''(host_id IS NOT NULL AND cluster_id IS NULL) OR (host_id IS NULL AND cluster_id IS NOT NULL)'']\<rparr>"

definition Host_model :: model where
  "Host_model = \<lparr>Mo_tablename = ''hosts'',
    Mo_columns = [
      (col ''id'' TUuid)\<lparr>Mc_primary_key := True\<rparr>,
      (col ''short_id'' (TString 16))\<lparr>Mc_unique := True\<rparr>,
      (col ''cluster_id'' TUuid)\<lparr>Mc_nullable := True, Mc_index := True, Mc_foreign_key := Some (''clusters'', ''id'', ''SET NULL'')\<rparr>,
      col ''name'' (TString 255),
      (col ''fqdn'' (TString 255))\<lparr>Mc_nullable := True\<rparr>,
      (col ''ip_address'' (TString 64))\<lparr>Mc_nullable := True\<rparr>,
      (col ''hypervisor'' (TString 32))\<lparr>Mc_server_default := Some (DLit DEFAULT_HYPERVISOR)\<rparr>,
      (col ''agent_rmq_user'' (TString 64))\<lparr>Mc_nullable := True\<rparr>,
      (col ''agent_rmq_password'' (TString 128))\<lparr>Mc_nullable := True\<rparr>,
      (col ''agent_version'' (TString 64))\<lparr>Mc_nullable := True\<rparr>,
      (col ''agent_last_seen'' TDateTime)\<lparr>Mc_nullable := True\<rparr>,
      (col ''agent_refresh_vm'' TInteger)\<lparr>Mc_nullable := True\<rparr>,
      (col ''agent_refresh_host'' TInteger)\<lparr>Mc_nullable := True\<rparr>,
      (col ''hardware'' TJsonb)\<lparr>Mc_nullable := True\<rparr>] @ TimestampMixin,
    Mo_table_args = []\<rparr>"

definition Template_model :: model where
  "Template_model = \<lparr>Mo_tablename = ''templates'',
    Mo_columns = [
      (col ''id'' (TString 64))\<lparr>Mc_primary_key := True\<rparr>,
      (col ''host_id'' TUuid)\<lparr>Mc_index := True, Mc_foreign_key := Some (''hosts'', ''id'', ''CASCADE'')\<rparr>,
      col ''name'' (TString 255),
      col ''path'' (TString 1024),
      col ''size_bytes'' TBigInteger,
      col ''disk_size_bytes'' TBigInteger,
      (col ''notes'' TText)\<lparr>Mc_nullable := True\<rparr>,
      col ''cpu_count'' TInteger,
      col ''memory_mb'' TBigInteger,
      (col ''guest_os'' (TString 255))\<lparr>Mc_nullable := True\<rparr>,
      (col ''image_created_at'' TDateTime)\<lparr>Mc_nullable := True\<rparr>] @ TimestampMixin,
    Mo_table_args = []\<rparr>"

definition Iso_model :: model where
  "Iso_model = \<lparr>Mo_tablename = ''isos'',
    Mo_columns = [
      (col ''id'' (TString 64))\<lparr>Mc_primary_key := True\<rparr>,
      (col ''host_id'' TUuid)\<lparr>Mc_index := True, Mc_foreign_key := Some (''hosts'', ''id'', ''CASCADE'')\<rparr>,
      col ''name'' (TString 255),
      col ''path'' (TString 1024),
      col ''size_bytes'' TBigInteger,
      (col ''checksum'' (TString 64))\<lparr>Mc_nullable := True, Mc_index := True\<rparr>] @ TimestampMixin,
    Mo_table_args = []\<rparr>"

definition HostMetric_model :: model where
  "HostMetric_model = \<lparr>Mo_tablename = ''host_metrics'',
    Mo_columns = [
      (col ''id'' TBigInteger)\<lparr>Mc_primary_key := True, Mc_autoincrement := True\<rparr>,
      (col ''host_id'' TUuid)\<lparr>Mc_index := True, Mc_foreign_key := Some (''hosts'', ''id'', ''CASCADE'')\<rparr>,
      (col ''ts'' TDateTime)\<lparr>Mc_index := True, Mc_server_default := Some (DExpr ''now()'')\<rparr>,
      (col ''cpu_percent'' TFloat)\<lparr>Mc_nullable := True\<rparr>,
      (col ''mem_percent'' TFloat)\<lparr>Mc_nullable := True\<rparr>,
      (col ''disk_latency_ms'' TFloat)\<lparr>Mc_nullable := True\<rparr>,
      (col ''net_rx_bps'' TBigInteger)\<lparr>Mc_nullable := True\<rparr>,
      (col ''net_tx_bps'' TBigInteger)\<lparr>Mc_nullable := True\<rparr>,
      (col ''detail'' TJsonb)\<lparr>Mc_nullable := True\<rparr>],
    Mo_table_args = []\<rparr>"

definition VmMetric_model :: model where
  "VmMetric_model = \<lparr>Mo_tablename = ''vm_metrics'',
    Mo_columns = [
      (col ''id'' TBigInteger)\<lparr>Mc_primary_key := True, Mc_autoincrement := True\<rparr>,
      (col ''vm_id'' TUuid)\<lparr>Mc_index := True, Mc_foreign_key := Some (''vms'', ''id'', ''CASCADE'')\<rparr>,
      (col ''ts'' TDateTime)\<lparr>Mc_index := True, Mc_server_default := Some (DExpr ''now()'')\<rparr>,
      (col ''cpu_percent'' TFloat)\<lparr>Mc_nullable := True\<rparr>,
      (col ''mem_bytes'' TBigInteger)\<lparr>Mc_nullable := True\<rparr>,
      (col ''disk_bytes'' TBigInteger)\<lparr>Mc_nullable := True\<rparr>,
      (col ''net_rx_bytes'' TBigInteger)\<lparr>Mc_nullable := True\<rparr>,
      (col ''net_tx_bytes'' TBigInteger)\<lparr>Mc_nullable := True\<rparr>,
      (col ''detail'' TJsonb)\<lparr>Mc_nullable := True\<rparr>],
    Mo_table_args = []\<rparr>"

definition User_model :: model where
  "User_model = \<lparr>Mo_tablename = ''users'',
    Mo_columns = [
      (col ''id'' TUuid)\<lparr>Mc_primary_key := True\<rparr>,
      (col ''email'' (TString 255))\<lparr>Mc_unique := True\<rparr>,
      (col ''display_name'' (TString 255))\<lparr>Mc_nullable := True\<rparr>,
      col ''is_active'' TBoolean,
      (col ''roles'' (TString 512))\<lparr>Mc_nullable := True\<rparr>] @ TimestampMixin,
    Mo_table_args = []\<rparr>"

definition ScopeGrant_model :: model where
  "ScopeGrant_model = \<lparr>Mo_tablename = ''scope_grants'',
    Mo_columns = [
      (col ''id'' TUuid)\<lparr>Mc_primary_key := True\<rparr>,
      (col ''user_id'' TUuid)\<lparr>Mc_index := True, Mc_foreign_key := Some (''users'', ''id'', ''CASCADE'')\<rparr>,
      col ''level'' (TString 16),
      (col ''scope_id'' TUuid)\<lparr>Mc_nullable := True\<rparr>] @ TimestampMixin,
    Mo_table_args = [
      UniqueArg ''user_level_scope'' [''user_id'', ''level'', ''scope_id'']]\<rparr>"

definition TagCategory_model :: model where
  "TagCategory_model = \<lparr>Mo_tablename = ''tag_categories'',
    Mo_columns = [
      (col ''id'' TUuid)\<lparr>Mc_primary_key := True\<rparr>,
      col ''name'' (TString TAG_NAME_MAX_LENGTH)] @ TimestampMixin,
    Mo_table_args = [
      IndexArg ''uq_tag_categories_name'' [IxExpr (func_lower ''name'')] True (None)]\<rparr>"

definition Tag_model :: model where
  "Tag_model = \<lparr>Mo_tablename = ''tags'',
    Mo_columns = [
      (col ''id'' TUuid)\<lparr>Mc_primary_key := True\<rparr>,
      (col ''category_id'' TUuid)\<lparr>Mc_nullable := True, Mc_index := True, Mc_foreign_key := Some (''tag_categories'', ''id'', ''CASCADE'')\<rparr>,
      col ''name'' (TString TAG_NAME_MAX_LENGTH),
      (col ''color'' (TString 16))\<lparr>Mc_server_default := Some (DLit DEFAULT_TAG_COLOR)\<rparr>] @ TimestampMixin,
    Mo_table_args = [
      IndexArg ''uq_tags_category_name'' [IxCol ''category_id'', IxExpr (func_lower ''name'')] True (Some ''category_id IS NOT NULL''),
      IndexArg ''uq_tags_standalone_name'' [IxExpr (func_lower ''name'')] True (Some ''category_id IS NULL'')]\<rparr>"

definition vm_tags_model :: model where
  "vm_tags_model = \<lparr>Mo_tablename = ''vm_tags'',
    Mo_columns = [
      (col ''vm_id'' TUuid)\<lparr>Mc_primary_key := True, Mc_foreign_key := Some (''vms'', ''id'', ''CASCADE'')\<rparr>,
      (col ''tag_id'' TUuid)\<lparr>Mc_primary_key := True, Mc_index := True, Mc_foreign_key := Some (''tags'', ''id'', ''CASCADE'')\<rparr>],
    Mo_table_args = []\<rparr>"

definition Task_model :: model where
  "Task_model = \<lparr>Mo_tablename = ''tasks'',
    Mo_columns = [
      (col ''id'' TUuid)\<lparr>Mc_primary_key := True\<rparr>,
      col ''kind'' (TString 64),
      col ''status'' (TString 16),
      col ''target_type'' (TString 16),
      (col ''target_id'' TUuid)\<lparr>Mc_index := True\<rparr>,
      (col ''target_name'' (TString 255))\<lparr>Mc_nullable := True\<rparr>,
      (col ''host_id'' TUuid)\<lparr>Mc_index := True, Mc_foreign_key := Some (''hosts'', ''id'', ''CASCADE'')\<rparr>,
      col ''requested_by'' (TString 255),
      (col ''progress'' TInteger)\<lparr>Mc_nullable := True\<rparr>,
      (col ''progress_message'' (TString 255))\<lparr>Mc_nullable := True\<rparr>,
      (col ''started_at'' TDateTime)\<lparr>Mc_nullable := True\<rparr>,
      (col ''finished_at'' TDateTime)\<lparr>Mc_nullable := True\<rparr>,
      (col ''result'' TText)\<lparr>Mc_nullable := True\<rparr>,
      (col ''error'' TText)\<lparr>Mc_nullable := True\<rparr>,
      (col ''request_payload'' TJsonb)\<lparr>Mc_nullable := True\<rparr>,
      (col ''response_payload'' TJsonb)\<lparr>Mc_nullable := True\<rparr>,
      (col ''correlation_id'' TUuid)\<lparr>Mc_nullable := True, Mc_index := True\<rparr>] @ TimestampMixin,
    Mo_table_args = []\<rparr>"

definition Vlan_model :: model where
  "Vlan_model = \<lparr>Mo_tablename = ''vlans'',
    Mo_columns = [
      (col ''id'' TUuid)\<lparr>Mc_primary_key := True\<rparr>,
      (col ''cluster_id'' TUuid)\<lparr>Mc_nullable := True, Mc_index := True, Mc_foreign_key := Some (''clusters'', ''id'', ''CASCADE'')\<rparr>,
      (col ''host_id'' TUuid)\<lparr>Mc_nullable := True, Mc_index := True, Mc_foreign_key := Some (''hosts'', ''id'', ''CASCADE'')\<rparr>,
      col ''name'' (TString 255),
      col ''vlan_id'' TInteger,
      (col ''description'' TText)\<lparr>Mc_nullable := True\<rparr>,
      (col ''is_default'' TBoolean)\<lparr>Mc_server_default := Some (DExpr ''false'')\<rparr>] @ TimestampMixin,
    Mo_table_args = [
      CheckArg ''vlan_scope_exactly_one'' ''(host_id IS NOT NULL AND cluster_id IS NULL) OR (host_id IS NULL AND cluster_id IS NOT NULL)'',
      CheckArg ''vlan_tag_range'' ''vlan_id BETWEEN 1 AND 4094'',
      IndexArg ''uq_vlans_cluster_tag'' [IxCol ''cluster_id'', IxCol ''vlan_id''] True (Some ''cluster_id IS NOT NULL''),
      IndexArg ''uq_vlans_host_tag'' [IxCol ''host_id'', IxCol ''vlan_id''] True (Some ''host_id IS NOT NULL'')]\<rparr>"

definition Vm_model :: model where
  "Vm_model = \<lparr>Mo_tablename = ''vms'',
    Mo_columns = [
      (col ''id'' TUuid)\<lparr>Mc_primary_key := True\<rparr>,
      (col ''vm_uuid'' (TString 64))\<lparr>Mc_nullable := True, Mc_index := True\<rparr>,
      (col ''host_id'' TUuid)\<lparr>Mc_index := True, Mc_foreign_key := Some (''hosts'', ''id'', ''CASCADE'')\<rparr>,
      (col ''cluster_id'' TUuid)\<lparr>Mc_nullable := True, Mc_index := True, Mc_foreign_key := Some (''clusters'', ''id'', ''SET NULL'')\<rparr>,
      (col ''folder_id'' TUuid)\<lparr>Mc_nullable := True, Mc_index := True, Mc_foreign_key := Some (''folders'', ''id'', ''SET NULL'')\<rparr>,
      col ''name'' (TString 255),
      col ''state'' (TString 16),
      (col ''firmware'' (TString 8))\<lparr>Mc_server_default := Some (DLit ''UEFI'')\<rparr>,
      (col ''guest_os'' (TString 255))\<lparr>Mc_nullable := True\<rparr>,
      (col ''uptime_sec'' TInteger)\<lparr>Mc_nullable := True\<rparr>,
      col ''vcpu'' TInteger,
      (col ''memory_bytes'' TBigInteger)\<lparr>Mc_server_default := Some (DExpr ''0'')\<rparr>,
      (col ''memory_min_bytes'' TBigInteger)\<lparr>Mc_nullable := True\<rparr>,
      (col ''memory_max_bytes'' TBigInteger)\<lparr>Mc_nullable := True\<rparr>,
      (col ''memory_dynamic'' TBoolean)\<lparr>Mc_server_default := Some (DExpr ''false'')\<rparr>,
      (col ''cpu_usage_percent'' TFloat)\<lparr>Mc_nullable := True\<rparr>,
      (col ''memory_demand_bytes'' TBigInteger)\<lparr>Mc_nullable := True\<rparr>,
      (col ''secure_boot'' TBoolean)\<lparr>Mc_nullable := True\<rparr>,
      (col ''secure_boot_template'' (TString 64))\<lparr>Mc_nullable := True\<rparr>,
      (col ''nested_virtualization'' TBoolean)\<lparr>Mc_server_default := Some (DExpr ''false'')\<rparr>,
      (col ''auto_start_action'' (TString 32))\<lparr>Mc_nullable := True\<rparr>,
      (col ''auto_start_delay_sec'' TInteger)\<lparr>Mc_nullable := True\<rparr>,
      (col ''auto_stop_action'' (TString 32))\<lparr>Mc_nullable := True\<rparr>,
      (col ''config_path'' (TString 1024))\<lparr>Mc_nullable := True\<rparr>,
      (col ''dvd_path'' (TString 1024))\<lparr>Mc_nullable := True\<rparr>,
      (col ''highly_available'' TBoolean)\<lparr>Mc_server_default := Some (DExpr ''false'')\<rparr>,
      (col ''metrics_enabled'' TBoolean)\<lparr>Mc_server_default := Some (DExpr ''false'')\<rparr>,
      (col ''notes'' TText)\<lparr>Mc_nullable := True\<rparr>,
      (col ''vm_created_at'' TDateTime)\<lparr>Mc_nullable := True\<rparr>,
      (col ''last_inventory_at'' TDateTime)\<lparr>Mc_nullable := True\<rparr>] @ TimestampMixin,
    Mo_table_args = [
      IndexArg ''uq_vms_cluster_vm_uuid'' [IxCol ''cluster_id'', IxCol ''vm_uuid''] True (Some ''cluster_id IS NOT NULL AND vm_uuid IS NOT NULL''),
      IndexArg ''uq_vms_host_vm_uuid'' [IxCol ''host_id'', IxCol ''vm_uuid''] True (Some ''cluster_id IS NULL AND vm_uuid IS NOT NULL'')]\<rparr>"

definition VmDisk_model :: model where
  "VmDisk_model = \<lparr>Mo_tablename = ''vm_disks'',
    Mo_columns = [
      (col ''id'' TUuid)\<lparr>Mc_primary_key := True\<rparr>,
      (col ''vm_id'' TUuid)\<lparr>Mc_index := True, Mc_foreign_key := Some (''vms'', ''id'', ''CASCADE'')\<rparr>,
      col ''position'' TInteger,
      (col ''disk_id'' (TString 128))\<lparr>Mc_nullable := True\<rparr>,
      (col ''path'' (TString 1024))\<lparr>Mc_nullable := True\<rparr>,
      (col ''controller'' (TString 64))\<lparr>Mc_nullable := True\<rparr>,
      (col ''size_bytes'' TBigInteger)\<lparr>Mc_nullable := True\<rparr>,
      (col ''used_bytes'' TBigInteger)\<lparr>Mc_nullable := True\<rparr>,
      (col ''type'' (TString 32))\<lparr>Mc_nullable := True\<rparr>,
      (col ''format'' (TString 16))\<lparr>Mc_nullable := True\<rparr>],
    Mo_table_args = []\<rparr>"

definition VmSnapshot_model :: model where
  "VmSnapshot_model = \<lparr>Mo_tablename = ''vm_snapshots'',
    Mo_columns = [
      (col ''id'' TUuid)\<lparr>Mc_primary_key := True\<rparr>,
      (col ''vm_id'' TUuid)\<lparr>Mc_index := True, Mc_foreign_key := Some (''vms'', ''id'', ''CASCADE'')\<rparr>,
      col ''position'' TInteger,
      col ''snapshot_id'' (TString 128),
      col ''name'' (TString 255),
      (col ''parent_snapshot_id'' (TString 128))\<lparr>Mc_nullable := True\<rparr>,
      (col ''snapshot_type'' (TString 32))\<lparr>Mc_nullable := True\<rparr>,
      (col ''snapshot_created_at'' TDateTime)\<lparr>Mc_nullable := True\<rparr>],
    Mo_table_args = []\<rparr>"

definition VmNic_model :: model where
  "VmNic_model = \<lparr>Mo_tablename = ''vm_nics'',
    Mo_columns = [
      (col ''id'' TUuid)\<lparr>Mc_primary_key := True\<rparr>,
      (col ''vm_id'' TUuid)\<lparr>Mc_index := True, Mc_foreign_key := Some (''vms'', ''id'', ''CASCADE'')\<rparr>,
      col ''position'' TInteger,
      (col ''nic_id'' (TString 128))\<lparr>Mc_nullable := True\<rparr>,
      col ''name'' (TString 255),
      (col ''switch_name'' (TString 255))\<lparr>Mc_nullable := True\<rparr>,
      (col ''vlan_id'' TInteger)\<lparr>Mc_nullable := True\<rparr>,
      (col ''mac_address'' (TString 64))\<lparr>Mc_nullable := True\<rparr>,
      col ''ip_addresses'' TJsonb,
      (col ''connected'' TBoolean)\<lparr>Mc_server_default := Some (DExpr ''true'')\<rparr>],
    Mo_table_args = []\<rparr>"

definition VmThumbnail_model :: model where
  "VmThumbnail_model = \<lparr>Mo_tablename = ''vm_thumbnails'',
    Mo_columns = [
      (col ''vm_id'' TUuid)\<lparr>Mc_primary_key := True, Mc_foreign_key := Some (''vms'', ''id'', ''CASCADE'')\<rparr>,
      col ''image'' TLargeBinary,
      (col ''content_type'' (TString 32))\<lparr>Mc_server_default := Some (DLit ''image/jpeg'')\<rparr>,
      col ''captured_at'' TDateTime],
    Mo_table_args = []\<rparr>"

definition metadata_models :: "model list" where
  "metadata_models = [AgentBinary_model, AuditEvent_model, Cluster_model, Folder_model, Host_model, Template_model, Iso_model, HostMetric_model, VmMetric_model, User_model, ScopeGrant_model, TagCategory_model, Tag_model, vm_tags_model, Task_model, Vlan_model, Vm_model, VmDisk_model, VmSnapshot_model, VmNic_model, VmThumbnail_model]"

end
