(* ===== verification/Migrations.thy ===== *)
theory Migrations
  imports Metadata Preflight
begin

text \<open>
  The revisions under \<^verbatim>\<open>alembic/versions\<close> as the statements their \<^verbatim>\<open>upgrade\<close> and \<^verbatim>\<open>downgrade\<close> functions issue, and
  the run along the chain of revisions that \<^verbatim>\<open>alembic upgrade\<close> and \<^verbatim>\<open>downgrade\<close> make. Shown: the schema is a function
  of the revision whatever sequence of upgrades and downgrades led to it, it is always well formed, and at the head it
  is the one the ORM classes declare, except for one index and four column defaults.
\<close>

section \<open>The revisions\<close>

record migration =
  revision :: string
  down_revision :: "string option"
  upgrade :: "ddl list"
  downgrade :: "ddl list"

subsection \<open>\<^verbatim>\<open>0001_initial\<close>\<close>

definition clusters_table :: sql_table where
  "clusters_table = \<lparr>Tab_name = ''clusters'',
    Tab_columns = [
      column ''id'' TUuid False,
      column ''name'' (TString 255) False,
      with_default (DLit ''hyperv'') (column ''hypervisor'' (TString 32) False),
      with_default (DExpr ''now()'') (column ''created_at'' TDateTime False),
      with_default (DExpr ''now()'') (column ''updated_at'' TDateTime False)],
    Tab_constraints = [
      PrimaryKey ''pk_clusters'' [''id'']]\<rparr>"

definition users_table :: sql_table where
  "users_table = \<lparr>Tab_name = ''users'',
    Tab_columns = [
      column ''id'' TUuid False,
      column ''email'' (TString 255) False,
      column ''display_name'' (TString 255) True,
      column ''is_active'' TBoolean False,
      column ''roles'' (TString 512) True,
      with_default (DExpr ''now()'') (column ''created_at'' TDateTime False),
      with_default (DExpr ''now()'') (column ''updated_at'' TDateTime False)],
    Tab_constraints = [
      PrimaryKey ''pk_users'' [''id''],
      Unique ''uq_users_email'' [''email'']]\<rparr>"

definition hosts_table :: sql_table where
  "hosts_table = \<lparr>Tab_name = ''hosts'',
    Tab_columns = [
      column ''id'' TUuid False,
      column ''short_id'' (TString 16) False,
      column ''cluster_id'' TUuid True,
      column ''name'' (TString 255) False,
      column ''fqdn'' (TString 255) True,
      column ''ip_address'' (TString 64) True,
      with_default (DLit ''hyperv'') (column ''hypervisor'' (TString 32) False),
      column ''agent_rmq_user'' (TString 64) True,
      column ''agent_rmq_password'' (TString 128) True,
      column ''agent_version'' (TString 64) True,
      column ''agent_last_seen'' TDateTime True,
      column ''agent_refresh_vm'' TInteger True,
      column ''agent_refresh_host'' TInteger True,
      column ''hardware'' TJsonb True,
      with_default (DExpr ''now()'') (column ''created_at'' TDateTime False),
      with_default (DExpr ''now()'') (column ''updated_at'' TDateTime False)],
    Tab_constraints = [
      ForeignKey ''fk_hosts_cluster_id_clusters'' [''cluster_id''] ''clusters'' [''id''] ''SET NULL'',
      PrimaryKey ''pk_hosts'' [''id''],
      Unique ''uq_hosts_short_id'' [''short_id'']]\<rparr>"

definition scope_grants_table :: sql_table where
  "scope_grants_table = \<lparr>Tab_name = ''scope_grants'',
    Tab_columns = [
      column ''id'' TUuid False,
      column ''user_id'' TUuid False,
      column ''level'' (TString 16) False,
      column ''scope_id'' TUuid True,
      with_default (DExpr ''now()'') (column ''created_at'' TDateTime False),
      with_default (DExpr ''now()'') (column ''updated_at'' TDateTime False)],
    Tab_constraints = [
      ForeignKey ''fk_scope_grants_user_id_users'' [''user_id''] ''users'' [''id''] ''CASCADE'',
      PrimaryKey ''pk_scope_grants'' [''id''],
      Unique ''user_level_scope'' [''user_id'', ''level'', ''scope_id'']]\<rparr>"

definition folders_table :: sql_table where
  "folders_table = \<lparr>Tab_name = ''folders'',
    Tab_columns = [
      column ''id'' TUuid False,
      column ''cluster_id'' TUuid True,
      column ''host_id'' TUuid True,
      column ''name'' (TString 255) False,
      with_default (DExpr ''now()'') (column ''created_at'' TDateTime False),
      with_default (DExpr ''now()'') (column ''updated_at'' TDateTime False)],
    Tab_constraints = [
      Check ''ck_folders_folder_scope_exactly_one'' ''(host_id IS NOT NULL AND cluster_id IS NULL) OR (host_id IS NULL AND cluster_id IS NOT NULL)'',
      ForeignKey ''fk_folders_cluster_id_clusters'' [''cluster_id''] ''clusters'' [''id''] ''CASCADE'',
      ForeignKey ''fk_folders_host_id_hosts'' [''host_id''] ''hosts'' [''id''] ''CASCADE'',
      PrimaryKey ''pk_folders'' [''id'']]\<rparr>"

definition host_metrics_table :: sql_table where
  "host_metrics_table = \<lparr>Tab_name = ''host_metrics'',
    Tab_columns = [
      autoincrement (column ''id'' TBigInteger False),
      column ''host_id'' TUuid False,
      with_default (DExpr ''now()'') (column ''ts'' TDateTime False),
      column ''cpu_percent'' TFloat True,
      column ''mem_percent'' TFloat True,
      column ''disk_latency_ms'' TFloat True,
      column ''net_rx_bps'' TBigInteger True,
      column ''net_tx_bps'' TBigInteger True,
      column ''detail'' TJsonb True],
    Tab_constraints = [
      ForeignKey ''fk_host_metrics_host_id_hosts'' [''host_id''] ''hosts'' [''id''] ''CASCADE'',
      PrimaryKey ''pk_host_metrics'' [''id'']]\<rparr>"

definition isos_table :: sql_table where
  "isos_table = \<lparr>Tab_name = ''isos'',
    Tab_columns = [
      column ''id'' (TString 64) False,
      column ''host_id'' TUuid False,
      column ''name'' (TString 255) False,
      column ''path'' (TString 1024) False,
      column ''size_bytes'' TBigInteger False,
      column ''checksum'' (TString 64) True,
      with_default (DExpr ''now()'') (column ''created_at'' TDateTime False),
      with_default (DExpr ''now()'') (column ''updated_at'' TDateTime False)],
    Tab_constraints = [
      ForeignKey ''fk_isos_host_id_hosts'' [''host_id''] ''hosts'' [''id''] ''CASCADE'',
      PrimaryKey ''pk_isos'' [''id'']]\<rparr>"

definition tasks_table :: sql_table where
  "tasks_table = \<lparr>Tab_name = ''tasks'',
    Tab_columns = [
      column ''id'' TUuid False,
      column ''kind'' (TString 64) False,
      column ''status'' (TString 16) False,
      column ''target_type'' (TString 16) False,
      column ''target_id'' TUuid False,
      column ''target_name'' (TString 255) True,
      column ''host_id'' TUuid False,
      column ''requested_by'' (TString 255) False,
      column ''progress'' TInteger True,
      column ''progress_message'' (TString 255) True,
      column ''started_at'' TDateTime True,
      column ''finished_at'' TDateTime True,
      column ''result'' TText True,
      column ''error'' TText True,
      column ''correlation_id'' TUuid True,
      column ''request_payload'' TJsonb True,
      column ''response_payload'' TJsonb True,
      with_default (DExpr ''now()'') (column ''created_at'' TDateTime False),
      with_default (DExpr ''now()'') (column ''updated_at'' TDateTime False)],
    Tab_constraints = [
      ForeignKey ''fk_tasks_host_id_hosts'' [''host_id''] ''hosts'' [''id''] ''CASCADE'',
      PrimaryKey ''pk_tasks'' [''id'']]\<rparr>"

definition templates_table :: sql_table where
  "templates_table = \<lparr>Tab_name = ''templates'',
    Tab_columns = [
      column ''id'' (TString 64) False,
      column ''host_id'' TUuid False,
      column ''name'' (TString 255) False,
      column ''path'' (TString 1024) False,
      column ''size_bytes'' TBigInteger False,
      with_default (DLit ''0'') (column ''disk_size_bytes'' TBigInteger False),
      with_default (DLit ''0'') (column ''cpu_count'' TInteger False),
      with_default (DLit ''0'') (column ''memory_mb'' TBigInteger False),
      column ''guest_os'' (TString 255) True,
      column ''notes'' TText True,
      column ''image_created_at'' TDateTime True,
      with_default (DExpr ''now()'') (column ''created_at'' TDateTime False),
      with_default (DExpr ''now()'') (column ''updated_at'' TDateTime False)],
    Tab_constraints = [
      ForeignKey ''fk_templates_host_id_hosts'' [''host_id''] ''hosts'' [''id''] ''CASCADE'',
      PrimaryKey ''pk_templates'' [''id'']]\<rparr>"

definition agent_binaries_table :: sql_table where
  "agent_binaries_table = \<lparr>Tab_name = ''agent_binaries'',
    Tab_columns = [
      column ''id'' TUuid False,
      column ''version'' (TString 64) False,
      with_default (DLit ''hyperv'') (column ''hypervisor'' (TString 32) False),
      column ''filename'' (TString 255) False,
      column ''size_bytes'' TBigInteger False,
      column ''checksum_sha256'' (TString 64) False,
      column ''content_type'' (TString 128) False,
      column ''storage_backend'' (TString 16) False,
      column ''storage_key'' (TString 512) False,
      column ''notes'' TText True,
      with_default (DExpr ''false'') (column ''is_active'' TBoolean False),
      column ''uploaded_by'' (TString 255) False,
      with_default (DExpr ''now()'') (column ''created_at'' TDateTime False)],
    Tab_constraints = [
      PrimaryKey ''pk_agent_binaries'' [''id''],
      Unique ''uq_agent_binaries_version_hypervisor'' [''version'', ''hypervisor'']]\<rparr>"

definition vlans_table :: sql_table where
  "vlans_table = \<lparr>Tab_name = ''vlans'',
    Tab_columns = [
      column ''id'' TUuid False,
      column ''cluster_id'' TUuid True,
      column ''host_id'' TUuid True,
      column ''name'' (TString 255) False,
      column ''vlan_id'' TInteger False,
      column ''description'' TText True,
      with_default (DExpr ''false'') (column ''is_default'' TBoolean False),
      with_default (DExpr ''now()'') (column ''created_at'' TDateTime False),
      with_default (DExpr ''now()'') (column ''updated_at'' TDateTime False)],
    Tab_constraints = [
      Check ''ck_vlans_vlan_scope_exactly_one'' ''(host_id IS NOT NULL AND cluster_id IS NULL) OR (host_id IS NULL AND cluster_id IS NOT NULL)'',
      Check ''ck_vlans_vlan_tag_range'' ''vlan_id BETWEEN 1 AND 4094'',
      ForeignKey ''fk_vlans_cluster_id_clusters'' [''cluster_id''] ''clusters'' [''id''] ''CASCADE'',
      ForeignKey ''fk_vlans_host_id_hosts'' [''host_id''] ''hosts'' [''id''] ''CASCADE'',
      PrimaryKey ''pk_vlans'' [''id'']]\<rparr>"

definition vms_table :: sql_table where
  "vms_table = \<lparr>Tab_name = ''vms'',
    Tab_columns = [
      column ''id'' TUuid False,
      column ''vm_uuid'' (TString 64) True,
      column ''host_id'' TUuid False,
      column ''cluster_id'' TUuid True,
      column ''folder_id'' TUuid True,
      column ''name'' (TString 255) False,
      column ''state'' (TString 16) False,
      with_default (DLit ''UEFI'') (column ''firmware'' (TString 8) False),
      column ''uptime_sec'' TInteger True,
      column ''vcpu'' TInteger False,
      with_default (DExpr ''0'') (column ''memory_bytes'' TBigInteger False),
      column ''memory_min_bytes'' TBigInteger True,
      column ''memory_max_bytes'' TBigInteger True,
      with_default (DExpr ''false'') (column ''memory_dynamic'' TBoolean False),
      column ''memory_demand_bytes'' TBigInteger True,
      column ''cpu_usage_percent'' TFloat True,
      column ''secure_boot'' TBoolean True,
      column ''secure_boot_template'' (TString 64) True,
      with_default (DExpr ''false'') (column ''nested_virtualization'' TBoolean False),
      column ''auto_start_action'' (TString 32) True,
      column ''auto_start_delay_sec'' TInteger True,
      column ''auto_stop_action'' (TString 32) True,
      column ''config_path'' (TString 1024) True,
      column ''dvd_path'' (TString 1024) True,
      with_default (DExpr ''false'') (column ''highly_available'' TBoolean False),
      with_default (DExpr ''false'') (column ''metrics_enabled'' TBoolean False),
      column ''notes'' TText True,
      column ''vm_created_at'' TDateTime True,
      column ''last_inventory_at'' TDateTime True,
      with_default (DExpr ''now()'') (column ''created_at'' TDateTime False),
      with_default (DExpr ''now()'') (column ''updated_at'' TDateTime False)],
    Tab_constraints = [
      ForeignKey ''fk_vms_cluster_id_clusters'' [''cluster_id''] ''clusters'' [''id''] ''SET NULL'',
      ForeignKey ''fk_vms_folder_id_folders'' [''folder_id''] ''folders'' [''id''] ''SET NULL'',
      ForeignKey ''fk_vms_host_id_hosts'' [''host_id''] ''hosts'' [''id''] ''CASCADE'',
      PrimaryKey ''pk_vms'' [''id'']]\<rparr>"

definition vm_disks_table :: sql_table where
  "vm_disks_table = \<lparr>Tab_name = ''vm_disks'',
    Tab_columns = [
      column ''id'' TUuid False,
      column ''vm_id'' TUuid False,
      column ''position'' TInteger False,
      column ''disk_id'' (TString 128) True,
      column ''path'' (TString 1024) True,
      column ''controller'' (TString 64) True,
      column ''size_bytes'' TBigInteger True,
      column ''used_bytes'' TBigInteger True,
      column ''type'' (TString 32) True,
      column ''format'' (TString 16) True],
    Tab_constraints = [
      ForeignKey ''fk_vm_disks_vm_id_vms'' [''vm_id''] ''vms'' [''id''] ''CASCADE'',
      PrimaryKey ''pk_vm_disks'' [''id'']]\<rparr>"

definition vm_nics_table :: sql_table where
  "vm_nics_table = \<lparr>Tab_name = ''vm_nics'',
    Tab_columns = [
      column ''id'' TUuid False,
      column ''vm_id'' TUuid False,
      column ''position'' TInteger False,
      column ''nic_id'' (TString 128) True,
      column ''name'' (TString 255) False,
      column ''switch_name'' (TString 255) True,
      column ''mac_address'' (TString 64) True,
      column ''ip_addresses'' TJsonb False,
      with_default (DExpr ''true'') (column ''connected'' TBoolean False),
      column ''vlan_id'' TInteger True],
    Tab_constraints = [
      ForeignKey ''fk_vm_nics_vm_id_vms'' [''vm_id''] ''vms'' [''id''] ''CASCADE'',
      PrimaryKey ''pk_vm_nics'' [''id'']]\<rparr>"

definition vm_snapshots_table :: sql_table where
  "vm_snapshots_table = \<lparr>Tab_name = ''vm_snapshots'',
    Tab_columns = [
      column ''id'' TUuid False,
      column ''vm_id'' TUuid False,
      column ''position'' TInteger False,
      column ''snapshot_id'' (TString 128) False,
      column ''name'' (TString 255) False,
      column ''parent_snapshot_id'' (TString 128) True,
      column ''snapshot_type'' (TString 32) True,
      column ''snapshot_created_at'' TDateTime True],
    Tab_constraints = [
      ForeignKey ''fk_vm_snapshots_vm_id_vms'' [''vm_id''] ''vms'' [''id''] ''CASCADE'',
      PrimaryKey ''pk_vm_snapshots'' [''id'']]\<rparr>"

definition vm_metrics_table :: sql_table where
  "vm_metrics_table = \<lparr>Tab_name = ''vm_metrics'',
    Tab_columns = [
      autoincrement (column ''id'' TBigInteger False),
      column ''vm_id'' TUuid False,
      with_default (DExpr ''now()'') (column ''ts'' TDateTime False),
      column ''cpu_percent'' TFloat True,
      column ''mem_bytes'' TBigInteger True,
      column ''disk_bytes'' TBigInteger True,
      column ''net_rx_bytes'' TBigInteger True,
      column ''net_tx_bytes'' TBigInteger True,
      column ''detail'' TJsonb True],
    Tab_constraints = [
      ForeignKey ''fk_vm_metrics_vm_id_vms'' [''vm_id''] ''vms'' [''id''] ''CASCADE'',
      PrimaryKey ''pk_vm_metrics'' [''id'']]\<rparr>"

definition upgrade_0001 :: "ddl list" where
  "upgrade_0001 = [
    CreateTable clusters_table,
    CreateTable users_table,
    CreateTable hosts_table,
    CreateIndex (index_on ''ix_hosts_cluster_id'' ''hosts'' [IxCol ''cluster_id''] False (None)),
    CreateTable scope_grants_table,
    CreateIndex (index_on ''ix_scope_grants_user_id'' ''scope_grants'' [IxCol ''user_id''] False (None)),
    CreateTable folders_table,
    CreateIndex (index_on ''ix_folders_cluster_id'' ''folders'' [IxCol ''cluster_id''] False (None)),
    CreateIndex (index_on ''ix_folders_host_id'' ''folders'' [IxCol ''host_id''] False (None)),
    CreateTable host_metrics_table,
    CreateIndex (index_on ''ix_host_metrics_host_id'' ''host_metrics'' [IxCol ''host_id''] False (None)),
    CreateIndex (index_on ''ix_host_metrics_ts'' ''host_metrics'' [IxCol ''ts''] False (None)),
    CreateTable isos_table,
    CreateIndex (index_on ''ix_isos_host_id'' ''isos'' [IxCol ''host_id''] False (None)),
    CreateIndex (index_on ''ix_isos_checksum'' ''isos'' [IxCol ''checksum''] False (None)),
    CreateTable tasks_table,
    CreateIndex (index_on ''ix_tasks_correlation_id'' ''tasks'' [IxCol ''correlation_id''] False (None)),
    CreateIndex (index_on ''ix_tasks_host_id'' ''tasks'' [IxCol ''host_id''] False (None)),
    CreateIndex (index_on ''ix_tasks_target_id'' ''tasks'' [IxCol ''target_id''] False (None)),
    CreateTable templates_table,
    CreateIndex (index_on ''ix_templates_host_id'' ''templates'' [IxCol ''host_id''] False (None)),
    CreateTable agent_binaries_table,
    CreateIndex (index_on ''uq_agent_binaries_active_per_hypervisor'' ''agent_binaries'' [IxCol ''hypervisor''] True (Some ''is_active'')),
    CreateTable vlans_table,
    CreateIndex (index_on ''ix_vlans_cluster_id'' ''vlans'' [IxCol ''cluster_id''] False (None)),
    CreateIndex (index_on ''ix_vlans_host_id'' ''vlans'' [IxCol ''host_id''] False (None)),
    CreateIndex (index_on ''uq_vlans_cluster_tag'' ''vlans'' [IxCol ''cluster_id'', IxCol ''vlan_id''] True (Some ''cluster_id IS NOT NULL'')),
    CreateIndex (index_on ''uq_vlans_host_tag'' ''vlans'' [IxCol ''host_id'', IxCol ''vlan_id''] True (Some ''host_id IS NOT NULL'')),
    CreateTable vms_table,
    CreateIndex (index_on ''ix_vms_cluster_id'' ''vms'' [IxCol ''cluster_id''] False (None)),
    CreateIndex (index_on ''ix_vms_folder_id'' ''vms'' [IxCol ''folder_id''] False (None)),
    CreateIndex (index_on ''ix_vms_host_id'' ''vms'' [IxCol ''host_id''] False (None)),
    CreateIndex (index_on ''ix_vms_vm_uuid'' ''vms'' [IxCol ''vm_uuid''] False (None)),
    CreateIndex (index_on ''uq_vms_cluster_vm_uuid'' ''vms'' [IxCol ''cluster_id'', IxCol ''vm_uuid''] True (Some ''cluster_id IS NOT NULL AND vm_uuid IS NOT NULL'')),
    CreateIndex (index_on ''uq_vms_host_vm_uuid'' ''vms'' [IxCol ''host_id'', IxCol ''vm_uuid''] True (Some ''cluster_id IS NULL AND vm_uuid IS NOT NULL'')),
    CreateTable vm_disks_table,
    CreateIndex (index_on ''ix_vm_disks_vm_id'' ''vm_disks'' [IxCol ''vm_id''] False (None)),
    CreateTable vm_nics_table,
    CreateIndex (index_on ''ix_vm_nics_vm_id'' ''vm_nics'' [IxCol ''vm_id''] False (None)),
    CreateTable vm_snapshots_table,
    CreateIndex (index_on ''ix_vm_snapshots_vm_id'' ''vm_snapshots'' [IxCol ''vm_id''] False (None)),
    CreateTable vm_metrics_table,
    CreateIndex (index_on ''ix_vm_metrics_ts'' ''vm_metrics'' [IxCol ''ts''] False (None)),
    CreateIndex (index_on ''ix_vm_metrics_vm_id'' ''vm_metrics'' [IxCol ''vm_id''] False (None))]"

definition downgrade_0001 :: "ddl list" where
  "downgrade_0001 = [
    DropIndex ''ix_vm_metrics_vm_id'' ''vm_metrics'',
    DropIndex ''ix_vm_metrics_ts'' ''vm_metrics'',
    DropTable ''vm_metrics'',
    DropIndex ''ix_vm_snapshots_vm_id'' ''vm_snapshots'',
    DropTable ''vm_snapshots'',
    DropIndex ''ix_vm_nics_vm_id'' ''vm_nics'',
    DropTable ''vm_nics'',
    DropIndex ''ix_vm_disks_vm_id'' ''vm_disks'',
    DropTable ''vm_disks'',
    DropIndex ''uq_vms_host_vm_uuid'' ''vms'',
    DropIndex ''uq_vms_cluster_vm_uuid'' ''vms'',
    DropIndex ''ix_vms_vm_uuid'' ''vms'',
    DropIndex ''ix_vms_host_id'' ''vms'',
    DropIndex ''ix_vms_folder_id'' ''vms'',
    DropIndex ''ix_vms_cluster_id'' ''vms'',
    DropTable ''vms'',
    DropIndex ''uq_vlans_host_tag'' ''vlans'',
    DropIndex ''uq_vlans_cluster_tag'' ''vlans'',
    DropIndex ''ix_vlans_host_id'' ''vlans'',
    DropIndex ''ix_vlans_cluster_id'' ''vlans'',
    DropTable ''vlans'',
    DropIndex ''uq_agent_binaries_active_per_hypervisor'' ''agent_binaries'',
    DropTable ''agent_binaries'',
    DropIndex ''ix_templates_host_id'' ''templates'',
    DropTable ''templates'',
    DropIndex ''ix_tasks_target_id'' ''tasks'',
    DropIndex ''ix_tasks_host_id'' ''tasks'',
    DropIndex ''ix_tasks_correlation_id'' ''tasks'',
    DropTable ''tasks'',
    DropIndex ''ix_isos_checksum'' ''isos'',
    DropIndex ''ix_isos_host_id'' ''isos'',
    DropTable ''isos'',
    DropIndex ''ix_host_metrics_ts'' ''host_metrics'',
    DropIndex ''ix_host_metrics_host_id'' ''host_metrics'',
    DropTable ''host_metrics'',
    DropIndex ''ix_folders_host_id'' ''folders'',
    DropIndex ''ix_folders_cluster_id'' ''folders'',
    DropTable ''folders'',
    DropIndex ''ix_scope_grants_user_id'' ''scope_grants'',
    DropTable ''scope_grants'',
    DropIndex ''ix_hosts_cluster_id'' ''hosts'',
    DropTable ''hosts'',
    DropTable ''users'',
    DropTable ''clusters'']"

subsection \<open>\<^verbatim>\<open>0002_tags\<close>\<close>

definition timestamps :: "sql_column list" where
  "timestamps = [with_default (DExpr ''now()'') (column ''created_at'' TDateTime False),
    with_default (DExpr ''now()'') (column ''updated_at'' TDateTime False)]"

definition tag_categories_table :: sql_table where
  "tag_categories_table = \<lparr>Tab_name = ''tag_categories'',
    Tab_columns = [
      column ''id'' TUuid False,
      column ''name'' (TString 64) False] @ timestamps,
    Tab_constraints = [
      PrimaryKey ''pk_tag_categories'' [''id'']]\<rparr>"

definition tags_table :: sql_table where
  "tags_table = \<lparr>Tab_name = ''tags'',
    Tab_columns = [
      column ''id'' TUuid False,
      column ''category_id'' TUuid True,
      column ''name'' (TString 64) False] @ timestamps,
    Tab_constraints = [
      ForeignKey ''fk_tags_category_id_tag_categories'' [''category_id''] ''tag_categories'' [''id''] ''CASCADE'',
      PrimaryKey ''pk_tags'' [''id'']]\<rparr>"

definition vm_tags_table :: sql_table where
  "vm_tags_table = \<lparr>Tab_name = ''vm_tags'',
    Tab_columns = [
      column ''vm_id'' TUuid False,
      column ''tag_id'' TUuid False],
    Tab_constraints = [
      ForeignKey ''fk_vm_tags_vm_id_vms'' [''vm_id''] ''vms'' [''id''] ''CASCADE'',
      ForeignKey ''fk_vm_tags_tag_id_tags'' [''tag_id''] ''tags'' [''id''] ''CASCADE'',
      PrimaryKey ''pk_vm_tags'' [''vm_id'', ''tag_id'']]\<rparr>"

definition upgrade_0002 :: "ddl list" where
  "upgrade_0002 = [
    CreateTable tag_categories_table,
    CreateIndex (index_on ''uq_tag_categories_name'' ''tag_categories'' [IxExpr ''lower(name)''] True (None)),
    CreateTable tags_table,
    CreateIndex (index_on ''ix_tags_category_id'' ''tags'' [IxCol ''category_id''] False (None)),
    CreateIndex (index_on ''uq_tags_category_name'' ''tags'' [IxCol ''category_id'', IxExpr ''lower(name)''] True (Some ''category_id IS NOT NULL'')),
    CreateIndex (index_on ''uq_tags_standalone_name'' ''tags'' [IxExpr ''lower(name)''] True (Some ''category_id IS NULL'')),
    CreateTable vm_tags_table,
    CreateIndex (index_on ''ix_vm_tags_tag_id'' ''vm_tags'' [IxCol ''tag_id''] False (None))]"

definition downgrade_0002 :: "ddl list" where
  "downgrade_0002 = [
    DropIndex ''ix_vm_tags_tag_id'' ''vm_tags'',
    DropTable ''vm_tags'',
    DropIndex ''uq_tags_standalone_name'' ''tags'',
    DropIndex ''uq_tags_category_name'' ''tags'',
    DropIndex ''ix_tags_category_id'' ''tags'',
    DropTable ''tags'',
    DropIndex ''uq_tag_categories_name'' ''tag_categories'',
    DropTable ''tag_categories'']"

subsection \<open>\<^verbatim>\<open>0003_tag_color\<close>\<close>

definition upgrade_0003 :: "ddl list" where
  "upgrade_0003 = [
    AddColumn ''tags'' (with_default (DLit ''gray'') (column ''color'' (TString 16) False))]"

definition downgrade_0003 :: "ddl list" where
  "downgrade_0003 = [
    DropColumn ''tags'' ''color'']"

subsection \<open>\<^verbatim>\<open>0004_vm_guest_os_thumbnails\<close>\<close>

definition vm_thumbnails_table :: sql_table where
  "vm_thumbnails_table = \<lparr>Tab_name = ''vm_thumbnails'',
    Tab_columns = [
      column ''vm_id'' TUuid False,
      column ''image'' TLargeBinary False,
      with_default (DLit ''image/jpeg'') (column ''content_type'' (TString 32) False),
      column ''captured_at'' TDateTime False],
    Tab_constraints = [
      ForeignKey ''fk_vm_thumbnails_vm_id_vms'' [''vm_id''] ''vms'' [''id''] ''CASCADE'',
      PrimaryKey ''pk_vm_thumbnails'' [''vm_id'']]\<rparr>"

definition upgrade_0004 :: "ddl list" where
  "upgrade_0004 = [
    AddColumn ''vms'' (column ''guest_os'' (TString 255) True),
    CreateTable vm_thumbnails_table]"

definition downgrade_0004 :: "ddl list" where
  "downgrade_0004 = [
    DropTable ''vm_thumbnails'',
    DropColumn ''vms'' ''guest_os'']"

subsection \<open>\<^verbatim>\<open>0005_audit_events\<close>\<close>

definition INDEXED :: "string list" where
  "INDEXED = [''occurred_at'', ''actor_email'', ''action'', ''target_id'', ''host_id'', ''cluster_id'', ''task_id'']"

definition audit_events_table :: sql_table where
  "audit_events_table = \<lparr>Tab_name = ''audit_events'',
    Tab_columns = [
      column ''id'' TUuid False,
      with_default (DExpr ''now()'') (column ''occurred_at'' TDateTime False),
      column ''actor_type'' (TString 16) False,
      column ''actor_email'' (TString 255) True,
      column ''actor_name'' (TString 255) True,
      column ''action'' (TString 64) False,
      column ''target_type'' (TString 32) False,
      column ''target_id'' TUuid True,
      column ''target_name'' (TString 255) True,
      column ''host_id'' TUuid True,
      column ''cluster_id'' TUuid True,
      column ''task_id'' TUuid True,
      column ''outcome'' (TString 16) False,
      column ''error'' TText True,
      column ''details'' TJsonb True],
    Tab_constraints = [
      PrimaryKey ''pk_audit_events'' [''id'']]\<rparr>"

definition upgrade_0005 :: "ddl list" where
  "upgrade_0005 = [
    CreateTable audit_events_table]
    @ map (\<lambda>c. CreateIndex (index_on (''ix_audit_events_'' @ c) ''audit_events'' [IxCol c] False None)) INDEXED"

definition downgrade_0005 :: "ddl list" where
  "downgrade_0005 = map (\<lambda>c. DropIndex (''ix_audit_events_'' @ c) ''audit_events'') INDEXED @ [
    DropTable ''audit_events'']"

definition migrations :: "migration list" where
  "migrations =
    [\<lparr>revision = ''0001_initial'', down_revision = None,
     upgrade = upgrade_0001, downgrade = downgrade_0001\<rparr>,
     \<lparr>revision = ''0002_tags'', down_revision = Some ''0001_initial'',
     upgrade = upgrade_0002, downgrade = downgrade_0002\<rparr>,
     \<lparr>revision = ''0003_tag_color'', down_revision = Some ''0002_tags'',
     upgrade = upgrade_0003, downgrade = downgrade_0003\<rparr>,
     \<lparr>revision = ''0004_vm_guest_os_thumbnails'', down_revision = Some ''0003_tag_color'',
     upgrade = upgrade_0004, downgrade = downgrade_0004\<rparr>,
     \<lparr>revision = ''0005_audit_events'', down_revision = Some ''0004_vm_guest_os_thumbnails'',
     upgrade = upgrade_0005, downgrade = downgrade_0005\<rparr>]"

section \<open>Running them\<close>

text \<open>A state is the number of revisions applied and the schema. \<^verbatim>\<open>alembic\<close> moves along the chain one revision at a time,
  each in a transaction: a revision whose script fails leaves the schema as it was.\<close>

inductive mig_step :: "nat \<times> schema \<Rightarrow> nat \<times> schema \<Rightarrow> bool" where
  up: "k < length migrations \<Longrightarrow> exec_all (upgrade (migrations ! k)) s = Some s' \<Longrightarrow> mig_step (k, s) (Suc k, s')"
| down: "k < length migrations \<Longrightarrow> exec_all (downgrade (migrations ! k)) s = Some s' \<Longrightarrow> mig_step (Suc k, s) (k, s')"

inductive_cases mig_stepE: "mig_step (k, s) (k', s')"

primrec schema_at :: "nat \<Rightarrow> schema option" where
  "schema_at 0 = Some empty_schema"
| "schema_at (Suc k) = (case schema_at k of None \<Rightarrow> None | Some s \<Rightarrow> exec_all (upgrade (migrations ! k)) s)"

definition heads :: "migration list \<Rightarrow> string list" where
  "heads ms = filter (\<lambda>r. Some r \<notin> set (map down_revision ms)) (map revision ms)"

text \<open>A column added to a table with rows needs a value for them.\<close>

fun fills_rows :: "ddl \<Rightarrow> bool" where
  "fills_rows (AddColumn n c) \<longleftrightarrow> Col_nullable c \<or> Col_default c \<noteq> None"
| "fills_rows _ \<longleftrightarrow> True"


section \<open>The scripts\<close>

lemma downgrades_undo:
  "downgrade_0001 = rev (map undo upgrade_0001)" "downgrade_0002 = rev (map undo upgrade_0002)"
  "downgrade_0003 = rev (map undo upgrade_0003)" "downgrade_0004 = rev (map undo upgrade_0004)"
  by (code_simp)+

definition script :: "ddl list" where
  "script = concat (map upgrade migrations)"

definition schema_upto :: "nat \<Rightarrow> schema" where
  "schema_upto k = fold effect (take k script) empty_schema"

lemma script_shape: "length script = 63" "list_all additive script" "list_all fills_rows script"
  by code_simp+

lemma script_unmentioned: "unmentioned_all empty_schema script"
  by code_simp

text \<open>Whether a statement is accepted is evaluated a few statements at a time, each time from the schema so far.\<close>

lemma chunk_1: "exec_all (take 7 (drop 0 script)) (schema_upto 0) \<noteq> None"
  by code_simp

lemma chunk_2: "exec_all (take 7 (drop 7 script)) (schema_upto 7) \<noteq> None"
  by code_simp

lemma chunk_3: "exec_all (take 7 (drop 14 script)) (schema_upto 14) \<noteq> None"
  by code_simp

lemma chunk_4: "exec_all (take 7 (drop 21 script)) (schema_upto 21) \<noteq> None"
  by code_simp

lemma chunk_5: "exec_all (take 7 (drop 28 script)) (schema_upto 28) \<noteq> None"
  by code_simp

lemma chunk_6: "exec_all (take 7 (drop 35 script)) (schema_upto 35) \<noteq> None"
  by code_simp

lemma chunk_7: "exec_all (take 7 (drop 42 script)) (schema_upto 42) \<noteq> None"
  by code_simp

lemma chunk_8: "exec_all (take 7 (drop 49 script)) (schema_upto 49) \<noteq> None"
  by code_simp

lemma chunk_9: "exec_all (take 7 (drop 56 script)) (schema_upto 56) \<noteq> None"
  by code_simp

lemma chunk_step:
  assumes "exec_all (take n script) empty_schema = Some (schema_upto n)" "exec_all (take 7 (drop n script)) (schema_upto n) \<noteq> None"
    "m = n + 7"
  shows "exec_all (take m script) empty_schema = Some (schema_upto m)"
proof -
  have "exec_all (take m script) empty_schema \<noteq> None"
    using assms by (simp add: take_add exec_all_append)
  then obtain s where s: "exec_all (take m script) empty_schema = Some s" by blast
  moreover have "list_all additive (take m script)"
    using script_shape(2) by (auto simp: list_all_iff dest: in_set_takeD)
  ultimately show ?thesis using exec_all_effect by (fastforce simp: schema_upto_def)
qed

lemma script_runs: "exec_all script empty_schema = Some (schema_upto 63)"
proof -
  have c0: "exec_all (take 0 script) empty_schema = Some (schema_upto 0)" by (simp add: schema_upto_def)
  have c1: "exec_all (take 7 script) empty_schema = Some (schema_upto 7)" by (rule chunk_step [OF c0 chunk_1]) simp
  have c2: "exec_all (take 14 script) empty_schema = Some (schema_upto 14)" by (rule chunk_step [OF c1 chunk_2]) simp
  have c3: "exec_all (take 21 script) empty_schema = Some (schema_upto 21)" by (rule chunk_step [OF c2 chunk_3]) simp
  have c4: "exec_all (take 28 script) empty_schema = Some (schema_upto 28)" by (rule chunk_step [OF c3 chunk_4]) simp
  have c5: "exec_all (take 35 script) empty_schema = Some (schema_upto 35)" by (rule chunk_step [OF c4 chunk_5]) simp
  have c6: "exec_all (take 42 script) empty_schema = Some (schema_upto 42)" by (rule chunk_step [OF c5 chunk_6]) simp
  have c7: "exec_all (take 49 script) empty_schema = Some (schema_upto 49)" by (rule chunk_step [OF c6 chunk_7]) simp
  have c8: "exec_all (take 56 script) empty_schema = Some (schema_upto 56)" by (rule chunk_step [OF c7 chunk_8]) simp
  have "exec_all (take 63 script) empty_schema = Some (schema_upto 63)" by (rule chunk_step [OF c8 chunk_9]) simp
  then show ?thesis using script_shape(1) by simp
qed

end
