(* ===== verification/Schema_History.thy ===== *)
theory Schema_History
  imports Migrations
begin

text \<open>
  The history of the schema: along the chain of revisions the schema is a function of the revision, it is well formed,
  and at the head it is the schema the ORM classes declare up to the differences listed; and the preflight's schema
  check run against these revisions.
\<close>

section \<open>Comparing schemas\<close>

text \<open>Two schemas are the same when they have the same tables, each with the same columns and constraints, and the same
  indexes; the order in which they were created does not matter.\<close>

definition same_table :: "sql_table \<Rightarrow> sql_table \<Rightarrow> bool" where
  "same_table t u \<longleftrightarrow> Tab_name t = Tab_name u \<and> set (Tab_columns t) = set (Tab_columns u)
     \<and> set (Tab_constraints t) = set (Tab_constraints u)"

definition same_schema :: "schema \<Rightarrow> schema \<Rightarrow> bool" where
  "same_schema a b \<longleftrightarrow> set (sch_indexes a) = set (sch_indexes b)
     \<and> list_all (\<lambda>t. list_ex (same_table t) (sch_tables b)) (sch_tables a)
     \<and> list_all (\<lambda>u. list_ex (same_table u) (sch_tables a)) (sch_tables b)"

definition put_default :: "string \<Rightarrow> sql_default \<Rightarrow> sql_table \<Rightarrow> sql_table" where
  "put_default c d t = t\<lparr>Tab_columns := map (\<lambda>x. if Col_name x = c then with_default d x else x) (Tab_columns t)\<rparr>"

definition active_build_index :: sql_index where
  "active_build_index =
     index_on ''uq_agent_binaries_active_per_hypervisor'' ''agent_binaries'' [IxCol ''hypervisor''] True (Some ''is_active'')"

definition declared :: schema where
  "declared = metadata_of metadata_models"

text \<open>What the revisions have beyond the declarations: the index that keeps one build active, the defaults of three
  columns of \<^verbatim>\<open>templates\<close>, and a default written as an expression where the class has a literal.\<close>

definition expected :: schema where
  "expected =
     (on_table ''agent_binaries'' (put_default ''is_active'' (DExpr ''false''))
       (on_table ''templates'' (put_default ''disk_size_bytes'' (DLit ''0'') \<circ> put_default ''cpu_count'' (DLit ''0'')
          \<circ> put_default ''memory_mb'' (DLit ''0'')) declared))
     \<lparr>sch_indexes := active_build_index # sch_indexes declared\<rparr>"

text \<open>The column behind an \<^verbatim>\<open>ON DELETE SET NULL\<close> must accept nulls, and a primary key must not.\<close>

fun nulls_ok :: "sql_table \<Rightarrow> sql_constraint \<Rightarrow> bool" where
  "nulls_ok t (ForeignKey _ cs _ _ act) \<longleftrightarrow>
     (act = ''SET NULL'' \<longrightarrow> list_all (\<lambda>x. Col_name x \<in> set cs \<longrightarrow> Col_nullable x) (Tab_columns t))"
| "nulls_ok t (PrimaryKey _ cs) \<longleftrightarrow> list_all (\<lambda>x. Col_name x \<in> set cs \<longrightarrow> \<not> Col_nullable x) (Tab_columns t)"
| "nulls_ok t _ \<longleftrightarrow> True"

definition nulls_sound :: "schema \<Rightarrow> bool" where
  "nulls_sound s \<longleftrightarrow> list_all (\<lambda>t. list_all (nulls_ok t) (Tab_constraints t)) (sch_tables s)"

text \<open>The schema at the head, table by table.\<close>

lemmas table_defs =
  clusters_table_def users_table_def hosts_table_def scope_grants_table_def folders_table_def
  host_metrics_table_def isos_table_def tasks_table_def templates_table_def agent_binaries_table_def
  vlans_table_def vms_table_def vm_disks_table_def vm_nics_table_def vm_snapshots_table_def
  vm_metrics_table_def tag_categories_table_def tags_table_def vm_tags_table_def vm_thumbnails_table_def
  audit_events_table_def

lemmas model_defs =
  Cluster_model_def User_model_def Host_model_def ScopeGrant_model_def Folder_model_def
  HostMetric_model_def Iso_model_def Task_model_def Template_model_def AgentBinary_model_def
  Vlan_model_def Vm_model_def VmDisk_model_def VmNic_model_def VmSnapshot_model_def
  VmMetric_model_def TagCategory_model_def Tag_model_def vm_tags_model_def VmThumbnail_model_def
  AuditEvent_model_def

lemma tab_names:
  "Tab_name clusters_table = ''clusters''"
  "Tab_name users_table = ''users''"
  "Tab_name hosts_table = ''hosts''"
  "Tab_name scope_grants_table = ''scope_grants''"
  "Tab_name folders_table = ''folders''"
  "Tab_name host_metrics_table = ''host_metrics''"
  "Tab_name isos_table = ''isos''"
  "Tab_name tasks_table = ''tasks''"
  "Tab_name templates_table = ''templates''"
  "Tab_name agent_binaries_table = ''agent_binaries''"
  "Tab_name vlans_table = ''vlans''"
  "Tab_name vms_table = ''vms''"
  "Tab_name vm_disks_table = ''vm_disks''"
  "Tab_name vm_nics_table = ''vm_nics''"
  "Tab_name vm_snapshots_table = ''vm_snapshots''"
  "Tab_name vm_metrics_table = ''vm_metrics''"
  "Tab_name tag_categories_table = ''tag_categories''"
  "Tab_name tags_table = ''tags''"
  "Tab_name vm_tags_table = ''vm_tags''"
  "Tab_name vm_thumbnails_table = ''vm_thumbnails''"
  "Tab_name audit_events_table = ''audit_events''"
  by (simp_all add: table_defs)

lemma mo_names:
  "Tab_name (table_of Cluster_model) = ''clusters''"
  "Tab_name (table_of User_model) = ''users''"
  "Tab_name (table_of Host_model) = ''hosts''"
  "Tab_name (table_of ScopeGrant_model) = ''scope_grants''"
  "Tab_name (table_of Folder_model) = ''folders''"
  "Tab_name (table_of HostMetric_model) = ''host_metrics''"
  "Tab_name (table_of Iso_model) = ''isos''"
  "Tab_name (table_of Task_model) = ''tasks''"
  "Tab_name (table_of Template_model) = ''templates''"
  "Tab_name (table_of AgentBinary_model) = ''agent_binaries''"
  "Tab_name (table_of Vlan_model) = ''vlans''"
  "Tab_name (table_of Vm_model) = ''vms''"
  "Tab_name (table_of VmDisk_model) = ''vm_disks''"
  "Tab_name (table_of VmNic_model) = ''vm_nics''"
  "Tab_name (table_of VmSnapshot_model) = ''vm_snapshots''"
  "Tab_name (table_of VmMetric_model) = ''vm_metrics''"
  "Tab_name (table_of TagCategory_model) = ''tag_categories''"
  "Tab_name (table_of Tag_model) = ''tags''"
  "Tab_name (table_of vm_tags_model) = ''vm_tags''"
  "Tab_name (table_of VmThumbnail_model) = ''vm_thumbnails''"
  "Tab_name (table_of AuditEvent_model) = ''audit_events''"
  by (simp_all add: model_defs table_of_def)

lemma put_default_name: "Tab_name (put_default c d t) = Tab_name t"
  by (simp add: put_default_def)

lemma head_tables:
  "sch_tables (schema_upto 63) = [
    clusters_table,
    users_table,
    hosts_table,
    scope_grants_table,
    folders_table,
    host_metrics_table,
    isos_table,
    tasks_table,
    templates_table,
    agent_binaries_table,
    vlans_table,
    vms_table\<lparr>Tab_columns := Tab_columns vms_table @ [column ''guest_os'' (TString 255) True]\<rparr>,
    vm_disks_table,
    vm_nics_table,
    vm_snapshots_table,
    vm_metrics_table,
    tag_categories_table,
    tags_table\<lparr>Tab_columns := Tab_columns tags_table @ [with_default (DLit ''gray'') (column ''color'' (TString 16) False)]\<rparr>,
    vm_tags_table,
    vm_thumbnails_table,
    audit_events_table]"
  by (simp add: schema_upto_def script_def migrations_def upgrade_0001_def upgrade_0002_def upgrade_0003_def upgrade_0004_def
    upgrade_0005_def INDEXED_def on_table_def empty_schema_def tab_names)

lemma expected_tables:
  "sch_tables expected = [
    put_default ''is_active'' (DExpr ''false'') (table_of AgentBinary_model),
    table_of AuditEvent_model,
    table_of Cluster_model,
    table_of Folder_model,
    table_of Host_model,
    put_default ''disk_size_bytes'' (DLit ''0'') (put_default ''cpu_count'' (DLit ''0'') (put_default ''memory_mb'' (DLit ''0'') (table_of Template_model))),
    table_of Iso_model,
    table_of HostMetric_model,
    table_of VmMetric_model,
    table_of User_model,
    table_of ScopeGrant_model,
    table_of TagCategory_model,
    table_of Tag_model,
    table_of vm_tags_model,
    table_of Task_model,
    table_of Vlan_model,
    table_of Vm_model,
    table_of VmDisk_model,
    table_of VmSnapshot_model,
    table_of VmNic_model,
    table_of VmThumbnail_model]"
  by (simp add: expected_def declared_def metadata_of_def metadata_models_def on_table_def mo_names put_default_name)

lemma tables_agree_1:
  "same_table clusters_table (table_of Cluster_model)"
  "same_table users_table (table_of User_model)"
  "same_table hosts_table (table_of Host_model)"
  "same_table scope_grants_table (table_of ScopeGrant_model)"
  "same_table folders_table (table_of Folder_model)"
  "same_table host_metrics_table (table_of HostMetric_model)"
  by code_simp+

lemma tables_agree_2:
  "same_table isos_table (table_of Iso_model)"
  "same_table tasks_table (table_of Task_model)"
  "same_table templates_table (put_default ''disk_size_bytes'' (DLit ''0'') (put_default ''cpu_count'' (DLit ''0'') (put_default ''memory_mb'' (DLit ''0'') (table_of Template_model))))"
  "same_table agent_binaries_table (put_default ''is_active'' (DExpr ''false'') (table_of AgentBinary_model))"
  "same_table vlans_table (table_of Vlan_model)"
  by code_simp+

lemma tables_agree_3:
  "same_table (vms_table\<lparr>Tab_columns := Tab_columns vms_table @ [column ''guest_os'' (TString 255) True]\<rparr>) (table_of Vm_model)"
  by code_simp+

lemma tables_agree_4:
  "same_table vm_disks_table (table_of VmDisk_model)"
  "same_table vm_nics_table (table_of VmNic_model)"
  "same_table vm_snapshots_table (table_of VmSnapshot_model)"
  "same_table vm_metrics_table (table_of VmMetric_model)"
  "same_table tag_categories_table (table_of TagCategory_model)"
  by code_simp+

lemma tables_agree_5:
  "same_table (tags_table\<lparr>Tab_columns := Tab_columns tags_table @ [with_default (DLit ''gray'') (column ''color'' (TString 16) False)]\<rparr>) (table_of Tag_model)"
  "same_table vm_tags_table (table_of vm_tags_model)"
  "same_table vm_thumbnails_table (table_of VmThumbnail_model)"
  "same_table audit_events_table (table_of AuditEvent_model)"
  by code_simp+

lemmas tables_agree = tables_agree_1 tables_agree_2 tables_agree_3 tables_agree_4 tables_agree_5

lemma same_table_sym: "same_table t u \<Longrightarrow> same_table u t"
  by (auto simp: same_table_def)

lemma indexes_agree: "set (sch_indexes (schema_upto 63)) \<subseteq> set (sch_indexes expected)"
  by code_simp

lemma indexes_agree_rev: "set (sch_indexes expected) \<subseteq> set (sch_indexes (schema_upto 63))"
  by code_simp

lemma head_expected: "same_schema (schema_upto 63) expected"
proof -
  have "list_all (\<lambda>t. list_ex (same_table t) (sch_tables expected)) (sch_tables (schema_upto 63))"
    by (simp add: head_tables expected_tables tables_agree)
  moreover have "list_all (\<lambda>u. list_ex (same_table u) (sch_tables (schema_upto 63))) (sch_tables expected)"
    by (simp add: head_tables expected_tables tables_agree [THEN same_table_sym])
  ultimately show ?thesis using indexes_agree indexes_agree_rev by (simp add: same_schema_def)
qed

lemma head_nulls: "nulls_sound (schema_upto 63)"
  by code_simp

section \<open>Along the chain\<close>

lemma schema_at_prefix: "schema_at k = exec_all (concat (map upgrade (take k migrations))) empty_schema" if "k \<le> length migrations"
  using that by (induction k) (auto simp: take_Suc_conv_app_nth exec_all_append split: option.splits)

lemma prefix_runs:
  assumes "k \<le> length migrations"
  shows "exec_all (concat (map upgrade (take k migrations))) empty_schema \<noteq> None"
proof -
  have cut: "script = concat (map upgrade (take k migrations)) @ concat (map upgrade (drop k migrations))"
    by (simp add: script_def flip: concat_append map_append)
  show ?thesis using script_runs unfolding cut by (auto simp: exec_all_append split: option.splits)
qed

lemma prefix_additive: "list_all additive (concat (map upgrade (take k migrations)))"
  using script_shape(2) by (auto simp: script_def list_all_iff dest: in_set_takeD)

lemma schema_at_effect:
  assumes "k \<le> length migrations"
  shows "schema_at k = Some (fold effect (concat (map upgrade (take k migrations))) empty_schema)"
  using prefix_runs [OF assms] exec_all_effect [OF prefix_additive] by (auto simp: schema_at_prefix [OF assms])

lemma revision_unmentioned:
  assumes "k < length migrations" "schema_at k = Some s" shows "unmentioned_all s (upgrade (migrations ! k))"
proof -
  have cut: "script = concat (map upgrade (take k migrations)) @ upgrade (migrations ! k) @ concat (map upgrade (drop (Suc k) migrations))"
    using assms(1) by (simp add: script_def id_take_nth_drop flip: concat_append map_append)
      (metis Cons_nth_drop_Suc append_take_drop_id assms(1) concat.simps(2) concat_append list.simps(9) map_append)
  show ?thesis
    using script_unmentioned assms schema_at_effect [of k] unfolding cut by (simp add: unmentioned_all_append)
qed

lemma drop_indexes_then:
  assumes "exec_all (map (\<lambda>n. DropIndex n tab) (rev ns) @ ds) s = Some s'"
  shows "exec_all (map (\<lambda>n. DropIndex n tab) ns @ ds) s = Some s'"
proof -
  obtain r where "exec_all (map (\<lambda>n. DropIndex n tab) (rev ns)) s = Some r" "exec_all ds r = Some s'"
    using assms by (auto simp: exec_all_append split: option.splits)
  then show ?thesis using drop_indexes_rev [of tab ns s r] by (simp add: exec_all_append)
qed

text \<open>\<^verbatim>\<open>downgrade\<close> of the last revision drops the indexes in the order they were created; the others undo their \<^verbatim>\<open>upgrade\<close>
  step by step.\<close>

lemma downgrade_0005_undoes:
  assumes "exec_all (rev (map undo upgrade_0005)) s = Some s'" shows "exec_all downgrade_0005 s = Some s'"
proof -
  define ns where "ns = map (\<lambda>c. ''ix_audit_events_'' @ c) INDEXED"
  have "rev (map undo upgrade_0005) = map (\<lambda>n. DropIndex n ''audit_events'') (rev ns) @ [DropTable ''audit_events'']"
    by (simp add: upgrade_0005_def index_on_def audit_events_table_def rev_map comp_def ns_def)
  moreover have "downgrade_0005 = map (\<lambda>n. DropIndex n ''audit_events'') ns @ [DropTable ''audit_events'']"
    by (simp add: downgrade_0005_def comp_def ns_def)
  ultimately show ?thesis using assms drop_indexes_then by metis
qed

lemma downgrade_undoes:
  assumes "k < length migrations" "exec_all (rev (map undo (upgrade (migrations ! k)))) s = Some s'"
  shows "exec_all (downgrade (migrations ! k)) s = Some s'"
proof -
  have "k = 0 \<or> k = 1 \<or> k = 2 \<or> k = 3 \<or> k = 4" using assms(1) by (auto simp: migrations_def)
  then show ?thesis using assms(2) downgrade_0005_undoes by (elim disjE) (simp_all add: migrations_def downgrades_undo)
qed

lemma revision_roundtrip:
  assumes "k < length migrations" "schema_at k = Some s" "wf_schema s"
  obtains s' where "exec_all (upgrade (migrations ! k)) s = Some s'" "exec_all (downgrade (migrations ! k)) s' = Some s"
    "schema_at (Suc k) = Some s'" "extends s s'"
proof -
  obtain s' where s': "schema_at (Suc k) = Some s'" using schema_at_effect [of "Suc k"] assms(1) by auto
  then have up: "exec_all (upgrade (migrations ! k)) s = Some s'" using assms(2) by simp
  have add: "list_all additive (upgrade (migrations ! k))"
    using script_shape(2) assms(1) by (auto simp: script_def list_all_iff)
  have "exec_all (rev (map undo (upgrade (migrations ! k)))) s' = Some s"
    by (rule undo_all [OF assms(3) add revision_unmentioned [OF assms(1,2)] up])
  from that [OF up downgrade_undoes [OF assms(1) this] s' exec_all_extends [OF add up]] show thesis .
qed

lemma mig_step_invariant:
  assumes "mig_step\<^sup>*\<^sup>* (0, empty_schema) (k, s)"
  shows "schema_at k = Some s \<and> wf_schema s \<and> k \<le> length migrations"
  using assms
proof (induction "(k, s)" arbitrary: k s rule: rtranclp_induct)
  case base
  show ?case by (simp add: empty_schema_wf)
next
  case (step y)
  obtain j r where y: "y = (j, r)" by (cases y)
  have IH: "schema_at j = Some r" "wf_schema r" using step.hyps(3) [OF y] by simp_all
  consider (up) "k = Suc j" "j < length migrations" "exec_all (upgrade (migrations ! j)) r = Some s"
    | (down) "j = Suc k" "k < length migrations" "exec_all (downgrade (migrations ! k)) r = Some s"
    using step.hyps(2) unfolding y by (auto elim: mig_stepE)
  then show ?case
  proof cases
    case up
    then show ?thesis using IH exec_all_wf [of r] by auto
  next
    case down
    then obtain t where t: "schema_at k = Some t" using schema_at_effect [of k] by auto
    then have wf: "wf_schema t" using schema_at_prefix [of k] down(2) exec_all_wf [OF empty_schema_wf] by simp
    obtain t' where "exec_all (downgrade (migrations ! k)) t' = Some t" "schema_at (Suc k) = Some t'"
      using revision_roundtrip [OF down(2) t wf] by metis
    then show ?thesis using down IH t wf by simp
  qed
qed

section \<open>The preflight's check against these revisions\<close>

fun position :: "string \<Rightarrow> migration list \<Rightarrow> nat option" where
  "position r [] = None"
| "position r (m # ms) = (if revision m = r then Some 0 else map_option Suc (position r ms))"

text \<open>How many revisions a database stamped with \<open>v\<close> has; none of them when it is not stamped.\<close>

definition applied :: "string option \<Rightarrow> nat option" where
  "applied v = (case v of None \<Rightarrow> Some 0 | Some r \<Rightarrow> map_option Suc (position r migrations))"

definition head_revision :: "string option" where
  "head_revision = (case heads migrations of [h] \<Rightarrow> Some h | _ \<Rightarrow> None)"

definition alembic_env :: schema_env where
  "alembic_env = \<lparr>se_connects = True,
     se_upgrade = (\<lambda>v. case applied v of None \<Rightarrow> Inl RuntimeError
       | Some k \<Rightarrow> (case schema_at k of None \<Rightarrow> Inl RuntimeError
          | Some s \<Rightarrow> (case exec_all (concat (map upgrade (drop k migrations))) s of None \<Rightarrow> Inl RuntimeError
             | Some _ \<Rightarrow> Inr head_revision))),
     se_head = head_revision,
     se_has_hosts = (\<lambda>v. case applied v of None \<Rightarrow> False
       | Some k \<Rightarrow> (case schema_at k of None \<Rightarrow> False | Some s \<Rightarrow> ''hosts'' \<in> Tab_name ` set (sch_tables s)))\<rparr>"

lemma head_is: "head_revision = Some ''0005_audit_events''" "applied (Some ''0005_audit_events'') = Some 5"
  by (code_simp)+

lemma applied_bound: "applied v = Some k \<Longrightarrow> k \<le> length migrations"
proof -
  have "position r ms = Some j \<Longrightarrow> j < length ms" for r ms j
    by (induction ms arbitrary: j) (auto split: if_splits)
  then show "applied v = Some k \<Longrightarrow> k \<le> length migrations" by (auto simp: applied_def Suc_le_eq split: option.splits)
qed

lemma rest_runs:
  assumes "applied v = Some k" shows "se_upgrade alembic_env v = Inr head_revision"
proof -
  have cut: "script = concat (map upgrade (take k migrations)) @ concat (map upgrade (drop k migrations))"
    by (simp add: script_def flip: concat_append map_append)
  show ?thesis using script_runs assms applied_bound [OF assms] unfolding cut
    by (auto simp: alembic_env_def schema_at_prefix exec_all_append split: option.splits)
qed

lemma head_has_hosts: "se_has_hosts alembic_env head_revision"
proof -
  have "schema_at 5 = Some (schema_upto 63)"
    using schema_at_prefix [of 5] script_runs by (simp add: script_def migrations_def)
  then show ?thesis by (simp add: alembic_env_def head_is head_tables tab_names)
qed

lemma reaches: "k \<le> length migrations \<Longrightarrow> schema_at k = Some s \<Longrightarrow> mig_step\<^sup>*\<^sup>* (0, empty_schema) (k, s)"
proof (induction k arbitrary: s)
  case (Suc k)
  then obtain r where r: "schema_at k = Some r" "exec_all (upgrade (migrations ! k)) r = Some s"
    by (auto split: option.splits)
  then have "mig_step\<^sup>*\<^sup>* (0, empty_schema) (k, r)" "mig_step (k, r) (Suc k, s)"
    using Suc by (auto intro: mig_step.up)
  then show ?case by simp
qed simp

lemma head_schema: "schema_at (length migrations) = Some (schema_upto 63)"
  using schema_at_prefix [of "length migrations"] script_runs by (simp add: script_def)

section \<open>Properties\<close>

text \<open>C32: The schema is a function of the revision. Whatever sequence of upgrades and downgrades led from an empty database
  to a revision, the schema is the one the upgrades alone give, and it is well formed: names are unique, every foreign
  key has a key of the same types behind it, every index is on columns that exist. From every revision but the last an
  upgrade goes through, takes no table, column, constraint or index away, and its downgrade restores exactly what was
  there; from every revision but the first a downgrade goes through.\<close>

theorem schema_follows_revision:
  assumes "mig_step\<^sup>*\<^sup>* (0, empty_schema) (k, s)"
  shows "schema_at k = Some s \<and> wf_schema s \<and> k \<le> length migrations
    \<and> (k < length migrations \<longrightarrow> (\<exists>s'. mig_step (k, s) (Suc k, s') \<and> mig_step (Suc k, s') (k, s) \<and> extends s s'))
    \<and> (0 < k \<longrightarrow> (\<exists>s'. mig_step (k, s) (k - 1, s')))"
proof -
  note inv = mig_step_invariant [OF assms]
  have next_up: "\<exists>s'. mig_step (j, r) (Suc j, s') \<and> mig_step (Suc j, s') (j, r) \<and> extends r s' \<and> schema_at (Suc j) = Some s'"
    if "j < length migrations" "schema_at j = Some r" "wf_schema r" for j r
    using revision_roundtrip [OF that] that(1) by (metis mig_step.intros)
  have "\<exists>s'. mig_step (k, s) (k - 1, s')" if k: "0 < k"
  proof -
    obtain j where j: "k = Suc j" "j < length migrations" using k inv by (cases k) auto
    then obtain r where r: "schema_at j = Some r" using schema_at_effect [of j] by auto
    then have "wf_schema r" using schema_at_prefix [of j] j(2) exec_all_wf [OF empty_schema_wf] by simp
    then show ?thesis using next_up [OF j(2) r] inv j(1) by auto
  qed
  then show ?thesis using inv next_up [of k s] by blast
qed

theorem schema_follows_revision_witness:
  "mig_step\<^sup>*\<^sup>* (0, empty_schema) (5, schema_upto 63) \<and> schema_at 5 = Some (schema_upto 63) \<and> wf_schema (schema_upto 63)
    \<and> (\<exists>s'. mig_step (5, schema_upto 63) (4, s'))"
proof -
  have "mig_step\<^sup>*\<^sup>* (0, empty_schema) (5, schema_upto 63)"
    using reaches [OF _ head_schema] by (simp add: migrations_def eval_nat_numeral)
  with schema_follows_revision [OF this] show ?thesis by simp
qed

text \<open>C33: At the last revision the database has the tables, columns, constraints and indexes the ORM classes declare, under
  the names the naming convention gives them, with exactly these differences: the partial unique index that keeps one
  build active per hypervisor is not declared, and the defaults of three columns of \<^verbatim>\<open>templates\<close> and of
  \<^verbatim>\<open>agent_binaries.is_active\<close> are those of the revision. Every column behind an \<^verbatim>\<open>ON DELETE SET NULL\<close> accepts nulls.\<close>

theorem models_match_migrations:
  "\<exists>s. schema_at (length migrations) = Some s \<and> same_schema s expected \<and> nulls_sound s
    \<and> active_build_index \<in> set (sch_indexes s) \<and> active_build_index \<notin> set (sch_indexes declared)"
proof -
  have "active_build_index \<notin> set (sch_indexes declared)" by code_simp
  moreover have "active_build_index \<in> set (sch_indexes (schema_upto 63))"
    using indexes_agree_rev by (simp add: expected_def)
  ultimately show ?thesis using head_schema head_expected head_nulls by blast
qed

text \<open>C34: The preflight brings the database to the revision the code needs: with migrations enabled the schema check passes
  from every known revision and from an unstamped database; without, it passes exactly at the head; and a database
  stamped with a revision this code does not know is refused.\<close>

theorem preflight_migrates:
  shows "(preflight_run_migrations st \<and> applied v = Some k \<longrightarrow> check_schema alembic_env st v w = (Inr (), w))
    \<and> (\<not> preflight_run_migrations st \<longrightarrow>
        check_schema alembic_env st v w = (if v = head_revision then Inr () else Inl PreflightError, w))
    \<and> (applied v = None \<longrightarrow> check_schema alembic_env st v w = (Inl PreflightError, w))"
proof -
  have h: "head_revision \<noteq> None" "applied head_revision = Some 5" "se_head alembic_env = head_revision"
    by (simp_all add: head_is alembic_env_def)
  have "check_schema alembic_env st v w = (Inr (), w)" if "preflight_run_migrations st" "applied v = Some k"
    using that rest_runs [OF that(2)] h head_has_hosts
    by (auto simp: check_schema_def migrated_def bind_act_def pure_act_def ret_def split: sum.splits)
  moreover have "check_schema alembic_env st v w = (if v = head_revision then Inr () else Inl PreflightError, w)"
    if "\<not> preflight_run_migrations st"
    using that h head_has_hosts by (auto simp: check_schema_def migrated_def bind_act_def pure_act_def ret_def raise_def)
  moreover have "check_schema alembic_env st v w = (Inl PreflightError, w)" if "applied v = None"
  proof -
    have "se_upgrade alembic_env v = Inl RuntimeError" "v \<noteq> head_revision" using that h by (auto simp: alembic_env_def)
    then show ?thesis using h by (auto simp: check_schema_def migrated_def bind_act_def pure_act_def raise_def)
  qed
  ultimately show ?thesis by blast
qed

theorem preflight_migrates_witness:
  "check_schema alembic_env default_settings (Some ''0002_tags'') ready_world = (Inr (), ready_world)
   \<and> check_schema alembic_env default_settings (Some ''0009_later'') ready_world
      = (Inl PreflightError, ready_world)"
proof -
  have "preflight_run_migrations default_settings" "applied (Some ''0002_tags'') = Some 2" "applied (Some ''0009_later'') = None"
    by code_simp+
  then show ?thesis
    using preflight_migrates [of default_settings "Some ''0002_tags''" 2 ready_world]
      preflight_migrates [of default_settings "Some ''0009_later''" 0 ready_world] by simp
qed

end
