(* ===== verification/Fake_Agent.thy ===== *)
theory Fake_Agent
  imports Vms
begin

text \<open>
  \<^verbatim>\<open>scripts/fake_agent.py\<close>, the stand-in for a Hyper-V agent: the inventory it keeps for a host, how it serves a request
  and what it reports. VMs, NICs, disks, templates and ISOs are JSON objects, as in the source. Random draws, fresh
  GUIDs, the clock and \<^verbatim>\<open>hash\<close> are arguments. Ids are compared structurally, which agrees with
  Python's \<^verbatim>\<open>==\<close> because the ids on one side are always strings. The state file, the connection and the pauses
  between messages are left out. When serving a request raises, the model keeps the host as it was before the request;
  the source may keep the first part of an edit in memory.
\<close>

section \<open>State\<close>

record fake_host =
  fh_name :: string
  fh_hardware :: jobj
  fh_vms :: "jobj list"
  fh_templates :: "jobj list"
  fh_isos :: "jobj list"

record fake_env =
  fe_hash :: "string \<Rightarrow> int"
  fe_now :: string

definition GiB :: int where
  "GiB = 1024 ^ 3"

text \<open>Windows paths, written with a slash for a backslash.\<close>

definition win :: "string \<Rightarrow> string" where
  "win s = map (\<lambda>c. if c = CHR ''/'' then CHR 0x5C else c) s"

definition ELLIPSIS :: string where
  "ELLIPSIS = [CHR 0xE2, CHR 0x80, CHR 0xA6]"

section \<open>Python on JSON values\<close>

text \<open>\<^verbatim>\<open>int(x)\<close> of a float, iteration, \<^verbatim>\<open>x.get(k)\<close> on something that may not be a dictionary, \<^verbatim>\<open>d[k]\<close>.\<close>

definition trunc_rat :: "rat \<Rightarrow> int" where
  "trunc_rat q = (if 0 \<le> q then \<lfloor>q\<rfloor> else \<lceil>q\<rceil>)"

fun int_of_float :: "pyfloat \<Rightarrow> int res" where
  "int_of_float (Fin q) = Inr (trunc_rat q)"
| "int_of_float NaN = Inl ValueError"
| "int_of_float _ = Inl OverflowError"

fun py_iter :: "json \<Rightarrow> json list res" where
  "py_iter (JList xs) = Inr xs"
| "py_iter (JStr s) = Inr (map (\<lambda>c. JStr [c]) s)"
| "py_iter (JObj d) = Inr (map (\<lambda>kv. JStr (fst kv)) d)"
| "py_iter _ = Inl TypeError"

fun py_dict :: "json \<Rightarrow> jobj res" where
  "py_dict (JObj d) = Inr d"
| "py_dict _ = Inl AttributeError"

definition jreq :: "jobj \<Rightarrow> string \<Rightarrow> json res" where
  "jreq d k = (case map_of d k of None \<Rightarrow> Inl KeyError | Some v \<Rightarrow> Inr v)"

text \<open>\<^verbatim>\<open>x * 1024 * 1024\<close>: a number, or the repetition of a sequence.\<close>

fun times_mib :: "json \<Rightarrow> json res" where
  "times_mib (JInt m) = Inr (JInt (m * 1024 * 1024))"
| "times_mib (JBool b) = Inr (JInt (if b then 1024 * 1024 else 0))"
| "times_mib (JFloat f) = Inr (JFloat (float_scale 20 f))"
| "times_mib (JStr s) = Inr (JStr (concat (replicate (1024 * 1024) s)))"
| "times_mib (JList xs) = Inr (JList (concat (replicate (1024 * 1024) xs)))"
| "times_mib _ = Inl TypeError"

text \<open>\<^verbatim>\<open>for spec in params.get(k) or []\<close>, where the body starts with \<^verbatim>\<open>spec.get\<close>.\<close>

definition for_specs :: "jobj \<Rightarrow> string \<Rightarrow> (nat \<Rightarrow> jobj \<Rightarrow> 's \<Rightarrow> 's res) \<Rightarrow> 's \<Rightarrow> 's res" where
  "for_specs params k body s =
     sbind (py_iter (jor (jget params k) (JList []))) (\<lambda>xs.
       foldM (\<lambda>ix s. sbind (py_dict (snd ix)) (\<lambda>d. body (fst ix) d s)) (enumerate 0 xs) s)"

section \<open>Inventory of a new host\<close>

definition hardware :: jobj where
  "hardware =
     [(''cpu'', JObj [(''model'', JStr ''Intel Xeon Gold 6338''), (''sockets'', JInt 2), (''cores'', JInt 32), (''logical'', JInt 64)]),
      (''memoryBytes'', JInt (512 * GiB)),
      (''storage'', JList
        [JObj [(''path'', JStr (win ''C:/'')), (''totalBytes'', JInt (480 * GiB)), (''freeBytes'', JInt (120 * GiB))],
         JObj [(''path'', JStr (win ''D:/HyperV'')), (''totalBytes'', JInt (8192 * GiB)), (''freeBytes'', JInt (3300 * GiB))],
         JObj [(''path'', JStr (win ''E:/'')), (''totalBytes'', JInt (4096 * GiB)), (''freeBytes'', JInt (4000 * GiB))]]),
      (''hyperv'', JObj [(''defaultVmPath'', JStr (win ''D:/HyperV/VMS'')), (''defaultVhdPath'', JStr (win ''D:/HyperV/VHDS''))]),
      (''os'', JObj [(''caption'', JStr ''Windows Server 2022 Datacenter''), (''version'', JStr ''10.0.20348'')]),
      (''network'', JList
        [JObj [(''name'', JStr ''Team-Prod''), (''description'', JStr ''Intel(R) Ethernet Converged Network Adapter X710 #1''),
           (''mac'', JStr ''00:15:5D:01:0A:01''), (''speedBps'', JInt 25000000000), (''connected'', JBool True)],
         JObj [(''name'', JStr ''Team-Prod #2''), (''description'', JStr ''Intel(R) Ethernet Converged Network Adapter X710 #2''),
           (''mac'', JStr ''00:15:5D:01:0A:02''), (''speedBps'', JInt 25000000000), (''connected'', JBool True)],
         JObj [(''name'', JStr ''Mgmt''), (''description'', JStr ''Broadcom NetXtreme Gigabit Ethernet''),
           (''mac'', JStr ''00:15:5D:01:0A:03''), (''speedBps'', JInt 1000000000), (''connected'', JBool False)]]),
      (''vSwitches'', JList
        [JObj [(''name'', JStr ''vSwitch-Prod''), (''type'', JStr ''External''), (''netAdapter'', JStr ''Team-Prod'')],
         JObj [(''name'', JStr ''vSwitch-Mgmt''), (''type'', JStr ''Internal''), (''netAdapter'', JNull)]])]"

text \<open>The draws for one VM.\<close>

record vm_draw =
  dr_state :: string
  dr_firmware :: string
  dr_uptime :: int
  dr_vcpu :: int
  dr_memory_gb :: int
  dr_consumed_gb :: int
  dr_cpu :: int
  dr_secure_boot :: bool
  dr_template :: string
  dr_nested :: bool
  dr_start :: string
  dr_delay :: int
  dr_stop :: string
  dr_dvd :: bool
  dr_ha :: bool
  dr_vlan :: int
  dr_snapshot :: bool

definition pad :: "nat \<Rightarrow> nat \<Rightarrow> string" where
  "pad w n = (let d = nat_str n in replicate (w - length d) (CHR ''0'') @ d)"

definition gen_vm :: "fake_env \<Rightarrow> string \<Rightarrow> string \<Rightarrow> nat \<Rightarrow> vm_draw \<Rightarrow> jobj" where
  "gen_vm fe host_id name i d =
     (let base = last (py_split (CHR ''-'') name);
          vm_id = host_id @ ''-'' @ pad 4 i @ ''-vm00-0000-000000000000'';
          running = dr_state d = ''Running'' in
      [(''id'', JStr vm_id), (''name'', JStr (name @ ''-VM'' @ pad 2 i)), (''state'', JStr (dr_state d)),
       (''firmware'', JStr (dr_firmware d)), (''folderId'', JNull),
       (''uptimeSec'', if running then JInt (dr_uptime d) else JNull),
       (''vcpu'', JInt (dr_vcpu d)), (''memoryMb'', JInt (dr_memory_gb d * 1024)),
       (''memoryMinBytes'', JInt (2 * GiB)), (''memoryMaxBytes'', JInt (16 * GiB)), (''memoryDynamic'', JBool True),
       (''memoryConsumedMb'', JInt (if running then dr_consumed_gb d * 1024 else 0)),
       (''cpuUsagePct'', JInt (if running then dr_cpu d else 0)),
       (''secureBoot'', JBool (dr_secure_boot d)), (''secureBootTemplate'', JStr (dr_template d)),
       (''nestedVirtualization'', JBool (dr_nested d)), (''automaticStart'', JStr (dr_start d)),
       (''automaticStartDelay'', JInt (dr_delay d)), (''automaticStop'', JStr (dr_stop d)),
       (''path'', JStr (win ''D:/HyperV/VMs/'' @ base @ nat_str i)),
       (''dvd'', if dr_dvd d then JStr (win ''D:/HyperV/ISOS/Rocky-9.7-x86_64-minimal.iso'') else JNull),
       (''ha'', JBool (dr_ha d)),
       (''disks'', JList [JObj
          [(''id'', JStr (vm_id @ ''-os'')),
           (''path'', JStr (win ''D:/HyperV/VMs/'' @ base @ nat_str i @ win ''/'' @ base @ nat_str i @ ''.vhdx'')),
           (''controller'', JStr ''SCSI 0:0''), (''sizeBytes'', JInt (127 * GiB)), (''usedBytes'', JInt (40 * GiB)),
           (''type'', JStr ''Dynamic''), (''format'', JStr ''VHDX'')]]),
       (''nics'', JList [JObj
          [(''id'', JStr (vm_id @ ''-nic0'')), (''name'', JStr ''Network Adapter''), (''switchName'', JStr ''vSwitch-Prod''),
           (''vlanId'', JInt (dr_vlan d)), (''macAddress'', JStr (''00:15:5D:01:0A:'' @ pad 2 i)),
           (''ipAddresses'', JList (if running then [JStr (''10.20.0.'' @ nat_str (10 + i))] else [])),
           (''connected'', JBool True)]]),
       (''snapshots'', JList (if dr_snapshot d then [JObj
          [(''id'', JStr (vm_id @ ''-snap0'')), (''name'', JStr ''before-update''), (''parentId'', JNull),
           (''type'', JStr ''Standard''), (''createdAt'', JStr (fe_now fe))]] else [])),
       (''notes'', JNull), (''createdAt'', JStr (fe_now fe))])"

definition gen_vms :: "fake_env \<Rightarrow> string \<Rightarrow> string \<Rightarrow> vm_draw list \<Rightarrow> jobj list" where
  "gen_vms fe host_id name ds = map (\<lambda>(i, d). gen_vm fe host_id name i d) (enumerate 1 ds)"

definition new_fake_host :: "fake_env \<Rightarrow> string \<Rightarrow> string \<Rightarrow> vm_draw list \<Rightarrow> fake_host" where
  "new_fake_host fe host_id name ds =
     \<lparr>fh_name = name, fh_hardware = hardware, fh_vms = gen_vms fe host_id name ds,
      fh_templates = [
        [(''id'', JStr (host_id @ ''-tpl-1'')), (''name'', JStr ''W2022-Base''),
         (''path'', JStr (win ''D:/HyperV/TEMPLATES/w2022.vhdx'')), (''sizeBytes'', JInt (18 * GiB)),
         (''diskSizeBytes'', JInt (6 * GiB)), (''notes'', JStr ''Sysprepped Windows Server 2022 base image.''),
         (''cpuCount'', JInt 4), (''memoryMb'', JInt 8192), (''guestOs'', JStr ''Windows Server 2022''),
         (''createdAt'', JStr (fe_now fe))]],
      fh_isos = [
        [(''id'', JStr (host_id @ ''-iso-1'')), (''name'', JStr ''WinServer2022.iso''),
         (''path'', JStr (win ''D:/HyperV/ISOS/ws2022.iso'')), (''sizeBytes'', JInt (5 * GiB))]]\<rparr>"

text \<open>\<^verbatim>\<open>_host_state\<close>: the stored inventory of a host, made once.\<close>

definition host_state ::
  "fake_env \<Rightarrow> string \<Rightarrow> string \<Rightarrow> vm_draw list \<Rightarrow> (string \<times> fake_host) list \<Rightarrow> fake_host \<times> (string \<times> fake_host) list"
where
  "host_state fe host_id name ds hosts =
     (case map_of hosts host_id of
        Some hs \<Rightarrow> (hs, hosts)
      | None \<Rightarrow> let hs = new_fake_host fe host_id name ds in (hs, hosts @ [(host_id, hs)]))"

section \<open>Paths\<close>

text \<open>\<^verbatim>\<open>_CSV_RE\<close>: a drive, the cluster storage folder in any case, and a volume.\<close>

definition is_alpha :: "char \<Rightarrow> bool" where
  "is_alpha c \<longleftrightarrow> (CHR ''a'' \<le> c \<and> c \<le> CHR ''z'') \<or> (CHR ''A'' \<le> c \<and> c \<le> CHR ''Z'')"

definition csv_match :: "string \<Rightarrow> string option" where
  "csv_match s =
     (let mid = win '':/clusterstorage/''; vol = takeWhile (\<lambda>c. c \<noteq> CHR 0x5C) (drop (Suc (length mid)) s) in
      if s \<noteq> [] \<and> is_alpha (hd s) \<and> py_lower (take (length mid) (tl s)) = mid \<and> vol \<noteq> []
      then Some (take (Suc (length mid)) s @ vol) else None)"

definition path_rstrip :: "string \<Rightarrow> string" where
  "path_rstrip s = rstrip_by (\<lambda>c. c = CHR 0x5C \<or> c = CHR ''/'') s"

definition has_drive :: "string \<Rightarrow> bool" where
  "has_drive s \<longleftrightarrow> 1 < length s \<and> s ! 1 = CHR '':''"

definition resolve_vm_folder :: "string \<Rightarrow> string \<Rightarrow> string \<Rightarrow> string" where
  "resolve_vm_folder default_vm_path destination_storage name =
     (let dflt = path_rstrip default_vm_path; dest = path_rstrip destination_storage in
      if dest = [] then dflt @ win ''/'' @ name
      else case csv_match dest of
        Some vol \<Rightarrow> vol @ win ''/VMS/'' @ name
      | None \<Rightarrow>
          let dv = (if has_drive dflt then py_lower (take 2 dflt) else []) in
          if dv \<noteq> [] \<and> py_lower (take 2 dest) = dv then dflt @ win ''/'' @ name
          else (if has_drive dest then take 2 dest else dest) @ win ''/HyperV/VMS/'' @ name)"

section \<open>Actions\<close>

fun filterM :: "('a \<Rightarrow> bool res) \<Rightarrow> 'a list \<Rightarrow> 'a list res" where
  "filterM p [] = Inr []"
| "filterM p (x # xs) = sbind (p x) (\<lambda>b. sbind (filterM p xs) (\<lambda>ys. Inr (if b then x # ys else ys)))"

fun find_first :: "('a \<Rightarrow> bool res) \<Rightarrow> 'a list \<Rightarrow> 'a option res" where
  "find_first p [] = Inr None"
| "find_first p (x # xs) = sbind (p x) (\<lambda>b. if b then Inr (Some x) else find_first p xs)"

definition is_vm :: "json \<Rightarrow> jobj \<Rightarrow> bool res" where
  "is_vm vm_id v = sbind (jreq v ''id'') (\<lambda>x. Inr (x = vm_id))"

definition on_vm :: "json \<Rightarrow> (jobj \<Rightarrow> jobj res) \<Rightarrow> jobj list \<Rightarrow> jobj list res" where
  "on_vm vm_id f vms = mapM (\<lambda>v. sbind (is_vm vm_id v) (\<lambda>b. if b then f v else Inr v)) vms"

definition clear_addresses :: "jobj \<Rightarrow> jobj res" where
  "clear_addresses v =
     sbind (py_iter (jget_default v ''nics'' (JList []))) (\<lambda>ns.
     sbind (mapM (\<lambda>n. case n of JObj d \<Rightarrow> Inr (JObj (jset d ''ipAddresses'' (JList []))) | _ \<Rightarrow> Inl TypeError) ns) (\<lambda>ns'.
       Inr (if ns' = [] then v else jset v ''nics'' (JList ns'))))"

definition put_state :: "string \<Rightarrow> jobj \<Rightarrow> jobj res" where
  "put_state final v =
     (let v = jset v ''state'' (JStr final) in
      if final = ''Running'' then Inr (jset v ''uptimeSec'' (jor (jget v ''uptimeSec'') (JInt 0)))
      else clear_addresses (jset v ''uptimeSec'' JNull))"

definition apply_action :: "json \<Rightarrow> string \<Rightarrow> string option \<Rightarrow> fake_host \<Rightarrow> fake_host res" where
  "apply_action vm_id fn final hs =
     (if vm_id = JNull then Inr hs
      else if fn = ''vm_delete''
      then sbind (filterM (\<lambda>v. sbind (is_vm vm_id v) (\<lambda>b. Inr (\<not> b))) (fh_vms hs)) (\<lambda>vms. Inr (hs\<lparr>fh_vms := vms\<rparr>))
      else if fn = ''vm_enable_metrics'' \<or> fn = ''vm_disable_metrics''
      then sbind (on_vm vm_id (\<lambda>v. Inr (jset v ''metricsEnabled'' (JBool (fn = ''vm_enable_metrics'')))) (fh_vms hs))
             (\<lambda>vms. Inr (hs\<lparr>fh_vms := vms\<rparr>))
      else case final of
        None \<Rightarrow> Inr hs
      | Some f \<Rightarrow> sbind (on_vm vm_id (put_state f) (fh_vms hs)) (\<lambda>vms. Inr (hs\<lparr>fh_vms := vms\<rparr>)))"

section \<open>Editing\<close>

definition set_if :: "bool \<Rightarrow> (jobj \<Rightarrow> jobj res) \<Rightarrow> jobj \<Rightarrow> jobj res" where
  "set_if c f v = (if c then f v else Inr v)"

definition put :: "string \<Rightarrow> json \<Rightarrow> jobj \<Rightarrow> jobj res" where
  "put k x v = Inr (jset v k x)"

definition put_int :: "string \<Rightarrow> json \<Rightarrow> jobj \<Rightarrow> jobj res" where
  "put_int k x v = sbind (py_int x) (\<lambda>n. Inr (jset v k (JInt n)))"

fun seqM :: "('s \<Rightarrow> 's res) list \<Rightarrow> 's \<Rightarrow> 's res" where
  "seqM [] s = Inr s"
| "seqM (f # fs) s = sbind (f s) (seqM fs)"

definition edit_scalars :: "jobj \<Rightarrow> jobj \<Rightarrow> jobj res" where
  "edit_scalars p = seqM
     [set_if (truthy (jget p ''cpu_count'')) (put_int ''vcpu'' (jget p ''cpu_count'')),
      set_if (truthy (jget p ''memory_mb'')) (\<lambda>v. sbind (py_int (jget p ''memory_mb'')) (\<lambda>n.
        Inr (jset (jset v ''memoryMb'' (JInt n)) ''memoryBytes'' (JInt (n * 1024 * 1024))))),
      set_if (jget p ''notes'' \<noteq> JNull) (put ''notes'' (jget p ''notes'')),
      set_if (jget p ''nested_virtualization'' \<noteq> JNull)
        (put ''nestedVirtualization'' (JBool (truthy (jget p ''nested_virtualization'')))),
      set_if (jget p ''secure_boot'' \<noteq> JNull) (put ''secureBoot'' (JBool (truthy (jget p ''secure_boot'')))),
      set_if (truthy (jget p ''secure_boot_template'')) (put ''secureBootTemplate'' (jget p ''secure_boot_template'')),
      set_if (truthy (jget p ''automatic_start'')) (put ''autoStartAction'' (jget p ''automatic_start'')),
      set_if (jget p ''automatic_start_delay'' \<noteq> JNull) (put_int ''autoStartDelaySec'' (jget p ''automatic_start_delay'')),
      set_if (truthy (jget p ''automatic_stop'')) (put ''autoStopAction'' (jget p ''automatic_stop''))]"

text \<open>\<^verbatim>\<open>int(x) or None\<close>.\<close>

definition int_or_none :: "json \<Rightarrow> json res" where
  "int_or_none x = sbind (py_int x) (\<lambda>n. Inr (if n = 0 then JNull else JInt n))"

definition hex_digit :: "nat \<Rightarrow> char" where
  "hex_digit n = ''0123456789ABCDEF'' ! n"

definition hex2 :: "nat \<Rightarrow> string" where
  "hex2 n = [hex_digit (n div 16 mod 16), hex_digit (n mod 16)]"

definition key_is :: "string \<Rightarrow> json \<Rightarrow> jobj \<Rightarrow> bool res" where
  "key_is k x d = sbind (jreq d k) (\<lambda>y. Inr (y = x))"

definition drop_where :: "string \<Rightarrow> json \<Rightarrow> jobj list \<Rightarrow> jobj list res" where
  "drop_where k x ds = filterM (\<lambda>d. sbind (key_is k x d) (\<lambda>b. Inr (\<not> b))) ds"

text \<open>\<^verbatim>\<open>next((d for d in ds if d[k] == x), None)\<close>, changed in place.\<close>

fun edit_first :: "string \<Rightarrow> json \<Rightarrow> (jobj \<Rightarrow> jobj res) \<Rightarrow> jobj list \<Rightarrow> jobj list res" where
  "edit_first k x f [] = Inr []"
| "edit_first k x f (d # ds) = sbind (key_is k x d) (\<lambda>b.
     if b then sbind (f d) (\<lambda>d'. Inr (d' # ds)) else sbind (edit_first k x f ds) (\<lambda>ds'. Inr (d # ds')))"

definition edit_nic :: "jobj \<Rightarrow> jobj \<Rightarrow> jobj res" where
  "edit_nic spec = seqM
     [set_if (truthy (jget spec ''name'')) (put ''name'' (jget spec ''name'')),
      set_if (jget spec ''vlan_id'' \<noteq> JNull) (\<lambda>n. sbind (int_or_none (jget spec ''vlan_id'')) (\<lambda>x. Inr (jset n ''vlanId'' x))),
      set_if (truthy (jget spec ''switch_name'')) (put ''switchName'' (jget spec ''switch_name''))]"

definition added_nic :: "pyenv \<Rightarrow> json \<Rightarrow> json \<Rightarrow> nat \<Rightarrow> nat \<Rightarrow> jobj \<Rightarrow> jobj res" where
  "added_nic env vm_id default_switch len i spec =
     sbind (if truthy (jget spec ''vlan_id'') then int_or_none (jget spec ''vlan_id'') else Inr JNull) (\<lambda>vlan. Inr
       [(''id'', JStr (py_str env vm_id @ ''-nic'' @ nat_str (len + i + 1))),
        (''name'', jor (jget spec ''name'') (JStr (''Network Adapter '' @ nat_str (len + 1)))),
        (''switchName'', jor (jget spec ''switch_name'') default_switch), (''vlanId'', vlan),
        (''macAddress'', JStr (''00:15:5D:0A:0B:'' @ hex2 (len + i))), (''ipAddresses'', JList []), (''connected'', JBool True)])"

definition edit_nics :: "pyenv \<Rightarrow> json \<Rightarrow> json \<Rightarrow> jobj \<Rightarrow> jobj list \<Rightarrow> jobj list res" where
  "edit_nics env vm_id default_switch p = seqM
     [for_specs p ''remove_nic'' (\<lambda>_ spec. drop_where ''id'' (jget spec ''nic_id'')),
      for_specs p ''edit_nic'' (\<lambda>_ spec. edit_first ''id'' (jget spec ''nic_id'') (edit_nic spec)),
      for_specs p ''add_nic'' (\<lambda>i spec ns. sbind (added_nic env vm_id default_switch (length ns) i spec) (\<lambda>n. Inr (ns @ [n])))]"

text \<open>\<^verbatim>\<open>int(float(x) * GiB)\<close>.\<close>

definition gib_bytes :: "pyenv \<Rightarrow> json \<Rightarrow> int res" where
  "gib_bytes env x = sbind (py_float env x) (\<lambda>f. int_of_float (float_scale 30 f))"

definition added_disk :: "pyenv \<Rightarrow> json \<Rightarrow> jobj \<Rightarrow> nat \<Rightarrow> nat \<Rightarrow> jobj \<Rightarrow> jobj res" where
  "added_disk env vm_id v len i spec =
     sbind (if truthy (jget spec ''path'') then Inr (jget spec ''path'')
            else sbind (jreq v ''name'') (\<lambda>nm. Inr (JStr (win ''D:/HyperV/'' @ py_str env nm @ ''-extra'' @ nat_str i @ ''.vhdx'')))) (\<lambda>path.
     sbind (gib_bytes env (jor (jget spec ''size_gb'') (JInt 60))) (\<lambda>bytes. Inr
       [(''id'', JStr (py_str env vm_id @ ''-disk'' @ nat_str (len + i))), (''path'', path),
        (''controller'', JStr (''SCSI 0:'' @ nat_str (len + i))), (''sizeBytes'', JInt bytes), (''usedBytes'', JInt 0),
        (''type'', jor (jget spec ''type'') (JStr ''Dynamic'')), (''format'', JStr ''VHDX'')]))"

definition edit_disks :: "pyenv \<Rightarrow> json \<Rightarrow> jobj \<Rightarrow> jobj \<Rightarrow> jobj list \<Rightarrow> jobj list res" where
  "edit_disks env vm_id v p = seqM
     [for_specs p ''remove_disk'' (\<lambda>_ spec. drop_where ''path'' (jget spec ''path'')),
      for_specs p ''edit_disk'' (\<lambda>_ spec. edit_first ''path'' (jget spec ''path'')
        (\<lambda>d. if d \<noteq> [] \<and> truthy (jget spec ''size_gb'')
              then sbind (gib_bytes env (jget spec ''size_gb'')) (\<lambda>b. Inr (jset d ''sizeBytes'' (JInt b))) else Inr d)),
      for_specs p ''add_disk'' (\<lambda>i spec ds. sbind (added_disk env vm_id v (length ds) i spec) (\<lambda>d. Inr (ds @ [d])))]"

text \<open>A list member of the VM; \<^verbatim>\<open>setdefault\<close> adds an empty one.\<close>

fun obj_list :: "json \<Rightarrow> jobj list res" where
  "obj_list (JList xs) = mapM py_dict xs"
| "obj_list _ = Inl TypeError"

fun first_item :: "json \<Rightarrow> json res" where
  "first_item (JList (x # _)) = Inr x"
| "first_item (JStr (c # _)) = Inr (JStr [c])"
| "first_item (JObj _) = Inl KeyError"
| "first_item _ = Inl TypeError"

definition default_switch :: "jobj \<Rightarrow> json res" where
  "default_switch hw =
     sbind (first_item (jor (jget hw ''vSwitches'') (JList [JObj []]))) (\<lambda>x.
     sbind (py_dict x) (\<lambda>d. Inr (jor (jget d ''name'') (JStr ''vSwitch''))))"

definition edit_vm :: "pyenv \<Rightarrow> jobj \<Rightarrow> json \<Rightarrow> jobj \<Rightarrow> jobj \<Rightarrow> jobj res" where
  "edit_vm env hw vm_id p v =
     sbind (edit_scalars p v) (\<lambda>v.
     sbind (default_switch hw) (\<lambda>sw.
     sbind (obj_list (jget_default v ''nics'' (JList []))) (\<lambda>ns.
     sbind (edit_nics env vm_id sw p ns) (\<lambda>ns.
     sbind (obj_list (jget_default v ''disks'' (JList []))) (\<lambda>ds.
     sbind (edit_disks env vm_id v p ds) (\<lambda>ds.
       Inr (jset (jset v ''nics'' (JList (map JObj ns))) ''disks'' (JList (map JObj ds)))))))))"

text \<open>\<^verbatim>\<open>_apply_vm_edit\<close>: the VM as it is afterwards, and the host with that VM in place of the first one of that id.\<close>

definition apply_vm_edit :: "pyenv \<Rightarrow> json \<Rightarrow> jobj \<Rightarrow> fake_host \<Rightarrow> (json \<times> fake_host) res" where
  "apply_vm_edit env vm_id p hs =
     (if vm_id = JNull then Inr (JNull, hs)
      else sbind (find_first (is_vm vm_id) (fh_vms hs)) (\<lambda>found.
        case found of
          None \<Rightarrow> Inr (JNull, hs)
        | Some v \<Rightarrow> sbind (edit_vm env (fh_hardware hs) vm_id p v) (\<lambda>v'.
            sbind (edit_first ''id'' vm_id (\<lambda>_. Inr v') (fh_vms hs)) (\<lambda>vms. Inr (JObj v', hs\<lparr>fh_vms := vms\<rparr>)))))"

section \<open>Creating\<close>

definition vm_folder :: "pyenv \<Rightarrow> jobj \<Rightarrow> jobj \<Rightarrow> json \<Rightarrow> string res" where
  "vm_folder env hw p vm_name =
     sbind (py_dict (jor (jget hw ''hyperv'') (JObj []))) (\<lambda>hyperv.
       case (jor (jget hyperv ''defaultVmPath'') (JStr (win ''D:/HyperV/VMS'')), jor (jget p ''destination_storage'') (JStr [])) of
         (JStr dflt, JStr dest) \<Rightarrow> Inr (resolve_vm_folder dflt dest (py_str env vm_name))
       | _ \<Rightarrow> Inl AttributeError)"

fun tag_of :: "json \<Rightarrow> int" where
  "tag_of (JInt n) = n"
| "tag_of (JBool b) = (if b then 1 else 0)"
| "tag_of _ = 0"

definition created_disk :: "pyenv \<Rightarrow> string \<Rightarrow> string \<Rightarrow> json \<Rightarrow> nat \<Rightarrow> jobj \<Rightarrow> jobj res" where
  "created_disk env guid base_path vm_name di d =
     (let dname = py_str env (jget_default d ''name'' (JStr ''OS'')) in
      sbind (py_int (jor (jget d ''size_gb'') (JInt 60))) (\<lambda>gb. Inr
        [(''id'', JStr (guid @ ''-'' @ dname)),
         (''path'', JStr (base_path @ win ''/Virtual Hard Disks/'' @ py_str env vm_name @ ''-'' @ dname @ ''.vhdx'')),
         (''controller'', JStr (''SCSI 0:'' @ nat_str di)), (''sizeBytes'', JInt (gb * GiB)), (''usedBytes'', JInt 0),
         (''type'', jor (jget d ''type'') (JStr ''Fixed'')), (''format'', JStr ''VHDX'')]))"

definition mib_or_none :: "json \<Rightarrow> json res" where
  "mib_or_none x = (if truthy x then times_mib x else Inr JNull)"

definition adapter :: "string \<Rightarrow> json \<Rightarrow> json \<Rightarrow> string \<Rightarrow> json" where
  "adapter guid switch vlan mac = JObj
     [(''id'', JStr (guid @ ''-nic0'')), (''name'', JStr ''Network Adapter''), (''switchName'', switch),
      (''vlanId'', JInt (tag_of vlan)), (''macAddress'', JStr mac), (''ipAddresses'', JList []), (''connected'', JBool True)]"

definition start_state :: "jobj \<Rightarrow> string" where
  "start_state p = (if truthy (jget p ''start_now'') then ''Running'' else ''Off'')"

definition new_name :: "string \<Rightarrow> jobj \<Rightarrow> json" where
  "new_name guid p = jor (jget p ''name'') (JStr (''vm-'' @ take 8 guid))"

definition created_vm :: "pyenv \<Rightarrow> fake_env \<Rightarrow> string \<Rightarrow> jobj \<Rightarrow> jobj \<Rightarrow> jobj res" where
  "created_vm env fe guid hw p =
     (let state = start_state p; dynamic = truthy (jget p ''memory_dynamic''); vm_name = new_name guid p in
      sbind (py_int (jor (jget p ''memory_mb'') (JInt 4096))) (\<lambda>mem_mb.
      sbind (vm_folder env hw p vm_name) (\<lambda>base_path.
      sbind (for_specs (if truthy (jget p ''disks'') then p else [(''disks'', JList [JObj [(''name'', JStr ''OS'')]])]) ''disks''
               (\<lambda>di d ds. sbind (created_disk env guid base_path vm_name di d) (\<lambda>x. Inr (ds @ [JObj x]))) []) (\<lambda>disks.
      sbind (py_int (jor (jget p ''cpu_count'') (JInt 2))) (\<lambda>vcpu.
      sbind (mib_or_none (jor (jget p ''memory_min_mb'') (if dynamic then JInt mem_mb else JNull))) (\<lambda>min_bytes.
      sbind (mib_or_none (jor (jget p ''memory_max_mb'') (if dynamic then JInt (mem_mb * 4) else JNull))) (\<lambda>max_bytes. Inr
        [(''id'', JStr guid), (''name'', vm_name), (''state'', JStr state),
         (''firmware'', jor (jget p ''firmware'') (JStr ''UEFI'')), (''folderId'', JNull),
         (''uptimeSec'', if state = ''Running'' then JInt 0 else JNull), (''vcpu'', JInt vcpu), (''memoryMb'', JInt mem_mb),
         (''memoryMinBytes'', min_bytes), (''memoryMaxBytes'', max_bytes), (''memoryDynamic'', JBool dynamic),
         (''nestedVirtualization'', JBool (truthy (jget p ''nested_virtualization''))),
         (''ha'', JBool (truthy (jget p ''ha_enabled''))), (''path'', JStr base_path), (''dvd'', jget p ''dvd''),
         (''disks'', JList disks),
         (''nics'', JList [adapter guid (jor (jget p ''switch_name'') (JStr ''vSwitch-Prod'')) (jget p ''vlan_id'') ''00:15:5D:0A:0B:0C'']),
         (''snapshots'', JList []), (''notes'', jget p ''notes''), (''metricsEnabled'', JBool False),
         (''createdAt'', JStr (fe_now fe))])))))))"

definition cloned_vm :: "pyenv \<Rightarrow> fake_env \<Rightarrow> string \<Rightarrow> jobj \<Rightarrow> jobj \<Rightarrow> jobj res" where
  "cloned_vm env fe guid hw p =
     (let state = start_state p; vm_name = new_name guid p in
      sbind (py_int (jor (jget p ''memory_mb'') (JInt 4096))) (\<lambda>mem_mb.
      sbind (vm_folder env hw p vm_name) (\<lambda>base_path.
      sbind (py_int (jor (jget p ''cpu_count'') (JInt 2))) (\<lambda>vcpu. Inr
        [(''id'', JStr guid), (''name'', vm_name), (''state'', JStr state), (''firmware'', JStr ''UEFI''), (''folderId'', JNull),
         (''uptimeSec'', if state = ''Running'' then JInt 0 else JNull), (''vcpu'', JInt vcpu), (''memoryMb'', JInt mem_mb),
         (''memoryDynamic'', JBool False), (''nestedVirtualization'', JBool (truthy (jget p ''nested_virtualization''))),
         (''ha'', JBool (truthy (jget p ''ha_enabled''))), (''path'', JStr base_path), (''dvd'', JNull),
         (''disks'', JList [JObj
            [(''id'', JStr (guid @ ''-OS'')),
             (''path'', JStr (base_path @ win ''/Virtual Hard Disks/'' @ py_str env vm_name @ ''-OS.vhdx'')),
             (''controller'', JStr ''SCSI 0:0''), (''sizeBytes'', JInt (60 * GiB)), (''usedBytes'', JInt 0),
             (''type'', JStr ''Dynamic''), (''format'', JStr ''VHDX'')]]),
         (''nics'', JList [adapter guid (JStr ''vSwitch-Prod'') (jget p ''vlan_id'') ''00:15:5D:0A:0B:0D'']),
         (''snapshots'', JList []), (''notes'', jget p ''notes''), (''metricsEnabled'', JBool False),
         (''createdAt'', JStr (fe_now fe))]))))"

definition exported_template :: "pyenv \<Rightarrow> fake_env \<Rightarrow> string \<Rightarrow> jobj option \<Rightarrow> jobj \<Rightarrow> jobj" where
  "exported_template env fe guid src p =
     (let nm = jor (jget p ''template_name'') (JStr ''TEMPLATE''); s = (case src of None \<Rightarrow> [] | Some v \<Rightarrow> v) in
      [(''id'', JStr guid), (''name'', nm), (''path'', JStr (win ''D:/HyperV/TEMPLATES/'' @ py_str env nm)),
       (''sizeBytes'', JInt (18 * GiB)), (''diskSizeBytes'', JInt (6 * GiB)), (''notes'', jor (jget p ''notes'') JNull),
       (''cpuCount'', jor (jget s ''vcpu'') (JInt 2)), (''memoryMb'', jor (jget s ''memoryMb'') (JInt 4096)),
       (''guestOs'', JNull), (''createdAt'', JStr (fe_now fe))])"

section \<open>Serving a request\<close>

definition FAKE_PROGRESS_STEPS :: "(string \<times> (int \<times> string) list) list" where
  "FAKE_PROGRESS_STEPS =
     [(''vm_create'', [(10, ''Creating VM''), (40, ''Creating disk 1/1: OS.vhdx''), (75, ''Configuring VM settings''),
         (95, ''Starting VM'')]),
      (''vm_clone'', [(10, ''Exporting source VM (0%)''), (45, ''Importing VM and copying disks''),
         (82, ''Expanding disks to fixed''), (85, ''Configuring VM settings'')]),
      (''vm_export_template'', [(20, ''Exporting VM (35%)''), (60, ''Exporting VM (80%)''),
         (87, ''Converting fixed disks to dynamic''), (90, ''Reading template details'')]),
      (''vm_edit'', [(30, ''Applying changes''), (70, ''Expanding disk 1/1: DATA.vhdx'')]),
      (''vm_move'', [(20, ''Moving VM storage (this may take a while)'')])]"

definition FINAL_STATE :: "(string \<times> string) list" where
  "FINAL_STATE = [(''vm_start'', ''Running''), (''vm_restart'', ''Running''), (''vm_stop'', ''Off''), (''vm_shutdown'', ''Off''),
     (''vm_pause'', ''Paused''), (''vm_delete'', ''Off'')]"

definition progress_steps :: "string \<Rightarrow> (int \<times> string) list" where
  "progress_steps fn = (case map_of FAKE_PROGRESS_STEPS fn of None \<Rightarrow> [(30, ''Working'' @ ELLIPSIS)] | Some s \<Rightarrow> s)"

definition progress_message :: "agent_request \<Rightarrow> int \<times> string \<Rightarrow> json" where
  "progress_message r s = JObj [(''id'', JStr (Request_id r)), (''function'', JStr (Request_function r)),
     (''status'', JStr ''running''), (''progress'', JInt (fst s)), (''progress_message'', JStr (snd s))]"

definition final_message :: "fake_env \<Rightarrow> agent_request \<Rightarrow> string \<Rightarrow> json \<Rightarrow> jobj \<Rightarrow> json" where
  "final_message fe r result vm_id extra = JObj ([(''id'', JStr (Request_id r)), (''function'', JStr (Request_function r)),
     (''status'', JStr ''succeeded''), (''progress'', JInt 100), (''result'', JStr result), (''vm_id'', vm_id)] @ extra
     @ [(''finished_at'', JStr (fe_now fe))])"

definition serve_request ::
  "pyenv \<Rightarrow> fake_env \<Rightarrow> string \<Rightarrow> agent_request \<Rightarrow> fake_host \<Rightarrow> (json \<times> fake_host) res"
where
  "serve_request env fe guid r hs =
     (let fn = Request_function r; p = Request_params r; vm_id = jget p ''vm_id'' in
      if fn = ''vm_create'' then
        sbind (created_vm env fe guid (fh_hardware hs) p) (\<lambda>v. Inr
          (final_message fe r ''created'' (JStr guid) [(''vm_state'', JStr (start_state p))], hs\<lparr>fh_vms := fh_vms hs @ [v]\<rparr>))
      else if fn = ''vm_clone'' then
        sbind (cloned_vm env fe guid (fh_hardware hs) p) (\<lambda>v. Inr
          (final_message fe r ''cloned'' (JStr guid) [(''vm_state'', JStr (start_state p))], hs\<lparr>fh_vms := fh_vms hs @ [v]\<rparr>))
      else if fn = ''vm_edit'' then
        sbind (apply_vm_edit env vm_id p hs) (\<lambda>(vm_status, hs). Inr
          (final_message fe r ''ok'' vm_id [(''vm_status'', vm_status)], hs))
      else if fn = ''vm_export_template'' then
        sbind (find_first (is_vm vm_id) (fh_vms hs)) (\<lambda>src.
          let tpl = exported_template env fe guid src p in Inr
          (final_message fe r ''exported'' vm_id [(''template'', JObj tpl)], hs\<lparr>fh_templates := fh_templates hs @ [tpl]\<rparr>))
      else
        let final = map_of FINAL_STATE fn in
        sbind (apply_action vm_id fn final hs) (\<lambda>hs. Inr
          (final_message fe r ''ok'' vm_id [(''vm_state'', opt_str final)], hs)))"

text \<open>What is published on the response queue, and the host afterwards. An exception after the progress messages rejects
  the request.\<close>

definition handle_request ::
  "pyenv \<Rightarrow> fake_env \<Rightarrow> string \<Rightarrow> agent_request \<Rightarrow> fake_host \<Rightarrow> json list \<times> fake_host"
where
  "handle_request env fe guid r hs =
     (let running = map (progress_message r) (progress_steps (Request_function r)) in
      case serve_request env fe guid r hs of Inl _ \<Rightarrow> (running, hs) | Inr (final, hs') \<Rightarrow> (running @ [final], hs'))"

section \<open>Reports\<close>

text \<open>The random measurements of one round.\<close>

record metric_draw =
  md_cpu :: pyfloat
  md_mem_pct :: pyfloat
  md_mem_used :: int
  md_latency :: pyfloat
  md_rx :: int
  md_tx :: int
  md_disks :: "(pyfloat \<times> pyfloat \<times> pyfloat) list"
  md_net_rx :: int
  md_net_tx :: int
  md_vm :: "jobj \<Rightarrow> pyfloat \<times> int \<times> int \<times> int \<times> int"

definition status_report :: "fake_env \<Rightarrow> string \<Rightarrow> fake_host \<Rightarrow> json" where
  "status_report fe host_id hs = JObj
     [(''version'', JStr ''0.4.1''), (''vm_refresh_interval'', JInt 180), (''host_refresh_interval'', JInt 600),
      (''reported_at'', JStr (fe_now fe)), (''hypervisor'', JStr ''hyperv''), (''agent_type'', JStr ''ovc-agent-hyperv''),
      (''hostname'', JStr (fh_name hs)), (''fqdn'', JStr (fh_name hs @ ''.lab.local'')),
      (''ip'', JStr (''10.20.0.'' @ int_str (fe_hash fe host_id mod 200 + 10)))]"

definition host_metrics_report :: "fake_env \<Rightarrow> metric_draw \<Rightarrow> json" where
  "host_metrics_report fe m = JObj
     [(''reported_at'', JStr (fe_now fe)), (''cpuPercent'', JFloat (md_cpu m)), (''memPercent'', JFloat (md_mem_pct m)),
      (''memUsedBytes'', JInt (md_mem_used m)), (''memTotalBytes'', JInt (512 * GiB)), (''diskLatencyMs'', JFloat (md_latency m)),
      (''netRxBps'', JInt (md_rx m)), (''netTxBps'', JInt (md_tx m)),
      (''disks'', JList (map (\<lambda>((i, d), (rl, wl, ql)). JObj
         [(''name'', JStr (nat_str i @ '' '' @ d)), (''readLatencyMs'', JFloat rl), (''writeLatencyMs'', JFloat wl),
          (''queueLength'', JFloat ql)]) (zip (enumerate 0 [''C:'', ''D:'']) (md_disks m)))),
      (''net'', JList [JObj [(''name'', JStr ''Team-Prod''), (''rxBps'', JInt (md_net_rx m)), (''txBps'', JInt (md_net_tx m))]])]"

definition vm_metrics_report :: "fake_env \<Rightarrow> metric_draw \<Rightarrow> fake_host \<Rightarrow> json res" where
  "vm_metrics_report fe m hs =
     sbind (mapM (\<lambda>v. sbind (jreq v ''id'') (\<lambda>i.
        case md_vm m v of (c, mem, disk, rx, tx) \<Rightarrow> Inr (JObj
          [(''id'', i), (''cpuPercent'', JFloat c), (''memBytes'', JInt (mem * 1024 ^ 3)), (''diskBytes'', JInt (disk * 1024 ^ 3)),
           (''netRxBytes'', JInt rx), (''netTxBytes'', JInt tx)])))
       (filter (\<lambda>v. truthy (jget v ''metricsEnabled'')) (fh_vms hs))) (\<lambda>vms.
     Inr (JObj [(''reported_at'', JStr (fe_now fe)), (''vms'', JList vms)]))"

definition vm_inventory_report :: "fake_env \<Rightarrow> fake_host \<Rightarrow> json" where
  "vm_inventory_report fe hs = JObj [(''reported_at'', JStr (fe_now fe)), (''vms'', JList (map JObj (fh_vms hs)))]"

text \<open>One round of \<^verbatim>\<open>_serve_host\<close>'s loop, in order.\<close>

definition report_round ::
  "fake_env \<Rightarrow> metric_draw \<Rightarrow> string \<Rightarrow> fake_host \<Rightarrow> (queue_kind \<times> json) list res"
where
  "report_round fe m host_id hs =
     sbind (vm_metrics_report fe m hs) (\<lambda>vm_metrics. Inr
       [(AGENT_STATUS, status_report fe host_id hs),
        (HOST_INVENTORY, JObj [(''reported_at'', JStr (fe_now fe)), (''hardware'', JObj (fh_hardware hs))]),
        (VM_INVENTORY, vm_inventory_report fe hs),
        (TEMPLATE_INVENTORY, JObj [(''reported_at'', JStr (fe_now fe)), (''items'', JList (map JObj (fh_templates hs)))]),
        (ISO_INVENTORY, JObj [(''reported_at'', JStr (fe_now fe)), (''items'', JList (map JObj (fh_isos hs)))]),
        (HOST_METRICS, host_metrics_report fe m),
        (VM_METRICS, vm_metrics)])"

section \<open>The inventory stays well formed\<close>

text \<open>Every VM has a text id, and its adapters are a list of objects.\<close>

definition vm_wf :: "jobj \<Rightarrow> bool" where
  "vm_wf v \<longleftrightarrow> (\<exists>i. map_of v ''id'' = Some (JStr i))
     \<and> (\<exists>ns. jget_default v ''nics'' (JList []) = JList (map JObj ns))"

definition host_wf :: "fake_host \<Rightarrow> bool" where
  "host_wf hs \<longleftrightarrow> list_all vm_wf (fh_vms hs) \<and> fh_hardware hs = hardware"

lemma map_of_jset [simp]: "map_of (jset d k x) k' = (if k' = k then Some x else map_of d k')"
proof -
  have other: "k' \<noteq> k \<Longrightarrow> map_of (map (\<lambda>kv. if fst kv = k then (k, x) else kv) d) k' = map_of d k'"
    by (induction d) auto
  have same: "k \<in> fst ` set d \<Longrightarrow> map_of (map (\<lambda>kv. if fst kv = k then (k, x) else kv) d) k = Some x"
    by (induction d) auto
  show ?thesis
  proof (cases "k \<in> fst ` set d")
    case False
    then have "map_of d k = None" by (simp add: map_of_eq_None_iff)
    with False show ?thesis by (simp add: jset_def jhas_def map_add_def split: option.split)
  qed (use other same in \<open>simp add: jset_def jhas_def\<close>)
qed

lemma vm_wf_jset: "vm_wf v \<Longrightarrow> k \<noteq> ''id'' \<Longrightarrow> k \<noteq> ''nics'' \<Longrightarrow> vm_wf (jset v k x)"
  by (simp add: vm_wf_def jget_default_def)

lemma is_vm_wf: "vm_wf v \<Longrightarrow> \<exists>i. map_of v ''id'' = Some (JStr i) \<and> is_vm x v = Inr (x = JStr i)"
  by (auto simp: vm_wf_def is_vm_def jreq_def sbind_def)

lemma mapM_all_Inr: "(\<And>x. x \<in> set xs \<Longrightarrow> f x = Inr (g x)) \<Longrightarrow> mapM f xs = Inr (map g xs)"
  by (induction xs) (simp_all add: sbind_def)

lemma filterM_Inr: "(\<And>x. x \<in> set xs \<Longrightarrow> p x = Inr (q x)) \<Longrightarrow> filterM p xs = Inr (filter q xs)"
  by (induction xs) (simp_all add: sbind_def)

lemma find_first_Inr: "(\<And>x. x \<in> set xs \<Longrightarrow> p x = Inr (q x)) \<Longrightarrow> find_first p xs = Inr (find q xs)"
  by (induction xs) (simp_all add: sbind_def)

definition vm_ident :: "jobj \<Rightarrow> json" where
  "vm_ident v = jget v ''id''"

lemma is_vm_ident: "vm_wf v \<Longrightarrow> is_vm x v = Inr (vm_ident v = x)"
  using is_vm_wf [of v x] by (auto simp: vm_ident_def jget_def)

definition bare_nic :: "json \<Rightarrow> json" where
  "bare_nic n = (case n of JObj d \<Rightarrow> JObj (jset d ''ipAddresses'' (JList [])) | _ \<Rightarrow> n)"

lemma clear_addresses_Inr:
  assumes "vm_wf v"
  shows "\<exists>v'. clear_addresses v = Inr v' \<and> vm_wf v' \<and> (\<forall>k. k \<noteq> ''nics'' \<longrightarrow> map_of v' k = map_of v k)"
proof -
  obtain ns i where ns: "jget_default v ''nics'' (JList []) = JList (map JObj ns)" and i: "map_of v ''id'' = Some (JStr i)"
    using assms by (auto simp: vm_wf_def)
  have "mapM (\<lambda>n. case n of JObj d \<Rightarrow> Inr (JObj (jset d ''ipAddresses'' (JList []))) | _ \<Rightarrow> Inl TypeError) (map JObj ns)
      = Inr (map JObj (map (\<lambda>d. jset d ''ipAddresses'' (JList [])) ns))"
    by (subst mapM_all_Inr [where g = bare_nic]) (auto simp: bare_nic_def)
  then have "clear_addresses v = Inr (if ns = [] then v
      else jset v ''nics'' (JList (map JObj (map (\<lambda>d. jset d ''ipAddresses'' (JList [])) ns))))"
    by (simp add: clear_addresses_def ns sbind_def)
  moreover have "vm_wf (jset v ''nics'' (JList (map JObj xs)))" for xs
    using i by (auto simp: vm_wf_def jget_default_def intro: exI [of _ xs])
  ultimately show ?thesis using assms by (cases "ns = []") (auto simp del: map_map)
qed

lemma put_state_Inr:
  assumes "vm_wf v"
  shows "\<exists>v'. put_state f v = Inr v' \<and> vm_wf v' \<and> vm_ident v' = vm_ident v \<and> jget v' ''state'' = JStr f"
proof (cases "f = ''Running''")
  case True
  then show ?thesis using assms
    by (auto simp: put_state_def Let_def vm_ident_def jget_def intro!: vm_wf_jset)
next
  case False
  let ?v = "jset (jset v ''state'' (JStr f)) ''uptimeSec'' JNull"
  have "vm_wf ?v" using assms by (simp add: vm_wf_jset)
  from clear_addresses_Inr [OF this] False show ?thesis by (auto simp: put_state_def Let_def vm_ident_def jget_def)
qed

lemma on_vm_Inr:
  assumes wf: "list_all vm_wf vms"
    and f: "\<And>v. vm_wf v \<Longrightarrow> \<exists>v'. f v = Inr v' \<and> vm_wf v' \<and> vm_ident v' = vm_ident v \<and> P v'"
  shows "\<exists>vms'. on_vm x f vms = Inr vms' \<and> list_all vm_wf vms' \<and> map vm_ident vms' = map vm_ident vms
    \<and> list_all (\<lambda>v. vm_ident v = x \<longrightarrow> P v) vms' \<and> filter (\<lambda>v. vm_ident v \<noteq> x) vms' = filter (\<lambda>v. vm_ident v \<noteq> x) vms"
proof -
  obtain g where g: "\<And>v. vm_wf v \<Longrightarrow> f v = Inr (g v) \<and> vm_wf (g v) \<and> vm_ident (g v) = vm_ident v \<and> P (g v)"
    using f by metis
  let ?h = "\<lambda>v. if vm_ident v = x then g v else v"
  have "on_vm x f vms = Inr (map ?h vms)"
    unfolding on_vm_def using wf g by (intro mapM_all_Inr) (auto simp: list_all_iff is_vm_ident sbind_def)
  moreover have "list_all vm_wf (map ?h vms) \<and> map vm_ident (map ?h vms) = map vm_ident vms
      \<and> list_all (\<lambda>v. vm_ident v = x \<longrightarrow> P v) (map ?h vms)
      \<and> filter (\<lambda>v. vm_ident v \<noteq> x) (map ?h vms) = filter (\<lambda>v. vm_ident v \<noteq> x) vms"
    using wf g by (induction vms) auto
  ultimately show ?thesis by blast
qed

lemma apply_action_Inr:
  assumes "host_wf hs"
  shows "\<exists>hs'. apply_action x fn final hs = Inr hs' \<and> host_wf hs'
    \<and> filter (\<lambda>v. vm_ident v \<noteq> x) (fh_vms hs') = filter (\<lambda>v. vm_ident v \<noteq> x) (fh_vms hs)
    \<and> (fn = ''vm_delete'' \<and> x \<noteq> JNull \<longrightarrow> x \<notin> vm_ident ` set (fh_vms hs'))
    \<and> (fn \<noteq> ''vm_delete'' \<longrightarrow> map vm_ident (fh_vms hs') = map vm_ident (fh_vms hs))
    \<and> (fn \<notin> set [''vm_delete'', ''vm_enable_metrics'', ''vm_disable_metrics''] \<and> x \<noteq> JNull \<longrightarrow>
        list_all (\<lambda>v. vm_ident v = x \<longrightarrow> pred_option (\<lambda>f. jget v ''state'' = JStr f) final) (fh_vms hs'))"
proof -
  have wf: "list_all vm_wf (fh_vms hs)" "fh_hardware hs = hardware" using assms by (simp_all add: host_wf_def)
  consider "x = JNull" | (del) "x \<noteq> JNull" "fn = ''vm_delete''"
    | (met) "x \<noteq> JNull" "fn = ''vm_enable_metrics'' \<or> fn = ''vm_disable_metrics''"
    | (act) "x \<noteq> JNull" "fn \<notin> set [''vm_delete'', ''vm_enable_metrics'', ''vm_disable_metrics'']" by auto
  then show ?thesis
  proof cases
    case 1
    have "vm_ident v \<noteq> JNull" if "v \<in> set (fh_vms hs)" for v
      using wf(1) that by (auto simp: list_all_iff vm_wf_def vm_ident_def jget_def)
    then show ?thesis using 1 assms by (simp add: apply_action_def)
  next
    case del
    have "filterM (\<lambda>v. sbind (is_vm x v) (\<lambda>b. Inr (\<not> b))) (fh_vms hs) = Inr (filter (\<lambda>v. vm_ident v \<noteq> x) (fh_vms hs))"
      using wf by (intro filterM_Inr) (auto simp: list_all_iff is_vm_ident sbind_def)
    then show ?thesis using del wf by (auto simp: apply_action_def sbind_def host_wf_def list_all_iff)
  next
    case met
    have "\<exists>v'. (Inr (jset v ''metricsEnabled'' y) :: jobj res) = Inr v' \<and> vm_wf v' \<and> vm_ident v' = vm_ident v \<and> True" if "vm_wf v" for v y
      using that by (auto simp: vm_wf_jset vm_ident_def jget_jset)
    from on_vm_Inr [OF wf(1) this, where x = x, of "\<lambda>_. JBool (fn = ''vm_enable_metrics'')"] obtain vms'
      where "on_vm x (\<lambda>v. Inr (jset v ''metricsEnabled'' (JBool (fn = ''vm_enable_metrics'')))) (fh_vms hs) = Inr vms'"
        "list_all vm_wf vms'" "map vm_ident vms' = map vm_ident (fh_vms hs)"
        "filter (\<lambda>v. vm_ident v \<noteq> x) vms' = filter (\<lambda>v. vm_ident v \<noteq> x) (fh_vms hs)" by blast
    then show ?thesis using met wf by (auto simp: apply_action_def sbind_def host_wf_def)
  next
    case act
    then show ?thesis
    proof (cases final)
      case None
      then show ?thesis using act assms by (simp add: apply_action_def list_all_iff)
    next
      case (Some f)
      have "\<exists>v'. put_state f v = Inr v' \<and> vm_wf v' \<and> vm_ident v' = vm_ident v \<and> jget v' ''state'' = JStr f" if "vm_wf v" for v
        by (rule put_state_Inr [OF that])
      from on_vm_Inr [OF wf(1) this, where x = x] obtain vms' where "on_vm x (put_state f) (fh_vms hs) = Inr vms'"
        "list_all vm_wf vms'" "map vm_ident vms' = map vm_ident (fh_vms hs)"
        "list_all (\<lambda>v. vm_ident v = x \<longrightarrow> jget v ''state'' = JStr f) vms'"
        "filter (\<lambda>v. vm_ident v \<noteq> x) vms' = filter (\<lambda>v. vm_ident v \<noteq> x) (fh_vms hs)" by blast
      then show ?thesis using act Some wf by (simp add: apply_action_def sbind_def host_wf_def)
    qed
  qed
qed

end
