(* ===== verification/Agent_Loop.thy ===== *)
theory Agent_Loop
  imports Fake_Agent Vm_Routes Worker
begin

text \<open>
  The loop between the backend and an agent: a request the backend queued, the answers of the simulated agent, and the
  worker that consumes them. Validation of a response body (\<^verbatim>\<open>AgentResponse\<close> of \<^verbatim>\<open>messaging/protocol.py\<close>) is a parameter of
  the worker; what is assumed of it is that a body whose members have exactly the declared types is accepted as it is.
\<close>

section \<open>Response bodies\<close>

definition str_field :: "jobj \<Rightarrow> string \<Rightarrow> string option option" where
  "str_field d k = (case jget d k of JNull \<Rightarrow> Some None | JStr s \<Rightarrow> Some (Some s) | _ \<Rightarrow> None)"

definition int_field :: "jobj \<Rightarrow> string \<Rightarrow> int option option" where
  "int_field d k = (case jget d k of JNull \<Rightarrow> Some None | JInt n \<Rightarrow> Some (Some n) | _ \<Rightarrow> None)"

definition obj_field :: "jobj \<Rightarrow> string \<Rightarrow> jobj option option" where
  "obj_field d k = (case jget d k of JNull \<Rightarrow> Some None | JObj o' \<Rightarrow> Some (Some o') | _ \<Rightarrow> None)"

definition result_field :: "jobj \<Rightarrow> json option option" where
  "result_field d = (case jget d ''result'' of JNull \<Rightarrow> Some None | JStr s \<Rightarrow> Some (Some (JStr s))
     | JObj o' \<Rightarrow> Some (Some (JObj o')) | _ \<Rightarrow> None)"

definition obind :: "'a option \<Rightarrow> ('a \<Rightarrow> 'b option) \<Rightarrow> 'b option" where
  "obind x f = (case x of None \<Rightarrow> None | Some a \<Rightarrow> f a)"

definition typed_response :: "json \<Rightarrow> agent_response option" where
  "typed_response j = obind (as_dict j) (\<lambda>d.
     case (jget d ''id'', jget d ''function'', jget d ''status'') of
       (JStr i, JStr fn, JStr s) \<Rightarrow>
         obind (int_field d ''progress'') (\<lambda>progress.
         obind (str_field d ''progress_message'') (\<lambda>message.
         obind (result_field d) (\<lambda>result.
         obind (str_field d ''error'') (\<lambda>err.
         obind (str_field d ''vm_id'') (\<lambda>vm_id.
         obind (str_field d ''vm_state'') (\<lambda>vm_state.
         obind (obj_field d ''vm_status'') (\<lambda>vm_status.
         obind (obj_field d ''template'') (\<lambda>template.
         obind (str_field d ''finished_at'') (\<lambda>finished.
           Some \<lparr>Response_id = i, Response_function = fn, Response_status = s, Response_progress = progress,
             Response_progress_message = message, Response_result = result, Response_error = err, Response_vm_id = vm_id,
             Response_vm_state = vm_state, Response_vm_status = vm_status, Response_template = template,
             Response_finished_at = finished\<rparr>)))))))))
     | _ \<Rightarrow> None)"

definition accepts_typed :: "(json \<Rightarrow> agent_response res) \<Rightarrow> bool" where
  "accepts_typed validate \<longleftrightarrow> (\<forall>j r. typed_response j = Some r \<longrightarrow> validate j = Inr r)"

text \<open>The worker takes the messages of a response queue in order.\<close>

fun consume ::
  "pyenv \<Rightarrow> settings \<Rightarrow> (json \<Rightarrow> agent_response res) \<Rightarrow> draws \<Rightarrow> ident \<Rightarrow> json list \<Rightarrow> world \<Rightarrow> world"
where
  "consume env st validate d host_id [] w = w"
| "consume env st validate d host_id (p # js) w =
     consume env st validate d host_id js (snd (handle_message env st validate d host_id RESPONSE (Some p) w))"

section \<open>Lemmas\<close>

lemma consume_append: "consume env st validate d h (js @ ks) w = consume env st validate d h ks (consume env st validate d h js w)"
  by (induction js arbitrary: w) simp_all

lemma progress_typed:
  "\<exists>resp. typed_response (progress_message r s) = Some resp \<and> Response_id resp = Request_id r
    \<and> Response_status resp = ''running'' \<and> strip_response_thumbnails resp = Inr resp"
  by (simp add: typed_response_def progress_message_def obind_def int_field_def str_field_def obj_field_def result_field_def
      strip_response_thumbnails_def sbind_def)

text \<open>The task is still the one the response is for, and still open.\<close>

definition open_task :: "ident \<Rightarrow> ident \<Rightarrow> task \<Rightarrow> world \<Rightarrow> bool" where
  "open_task tid host_id t w \<longleftrightarrow> pk_unique Task_id (db_tasks (w_db w)) \<and> (\<exists>t'. find_task (w_db w) tid host_id = Inr (Some t') \<and> Task_status t' \<in> set [''queued'', ''running'']
     \<and> Task_target_type t' = Task_target_type t \<and> Task_target_id t' = Task_target_id t)"

lemma find_task_put:
  assumes "find_task db tid host_id = Inr (Some t)" "pk_unique Task_id (db_tasks db)" "Task_id t' = Task_id t"
    "Task_host_id t' = Task_host_id t"
  shows "find_task (put_task t' db) tid host_id = Inr (Some t')" "pk_unique Task_id (db_tasks (put_task t' db))"
proof -
  have t: "t \<in> set (db_tasks db)" "Task_id t = tid" "Task_host_id t = host_id" using find_task_Some [OF assms(1)] by simp_all
  obtain xs ys where sp: "db_tasks db = xs @ t # ys" using t(1) by (meson split_list)
  then have u: "\<forall>x \<in> set (xs @ ys). Task_id x \<noteq> tid" using assms(2) t(2) by (simp add: pk_unique_def) (metis Un_iff image_eqI)
  then have "tupd Task_id tid (\<lambda>_. t') (db_tasks db) = xs @ t' # ys"
    by (simp add: sp tupd_def t(2) map_idI)
  then have put: "db_tasks (put_task t' db) = xs @ t' # ys" using t(2) assms(3) by (simp add: put_task_def)
  have "filter (\<lambda>x. Task_id x = tid \<and> Task_host_id x = host_id) (xs @ t' # ys) = [t']"
    using u t assms(3,4) by (auto simp: filter_empty_conv)
  then show "find_task (put_task t' db) tid host_id = Inr (Some t')" by (simp add: find_task_def put scalar_one_or_none_def)
  show "pk_unique Task_id (db_tasks (put_task t' db))" using assms(2,3) by (simp add: put sp pk_unique_def)
qed

lemma consume_progress:
  assumes acc: "accepts_typed validate" and op: "open_task (Request_id r) host_id t w"
  shows "\<exists>w'. consume env st validate d host_id (map (progress_message r) steps) w = w' \<and> open_task (Request_id r) host_id t w'
    \<and> w_cache w' = w_cache w \<and> w_now w' = w_now w \<and> w_cache_up w' = w_cache_up w"
  using op
proof (induction steps arbitrary: w)
  case (Cons s steps)
  obtain t1 where t1: "find_task (w_db w) (Request_id r) host_id = Inr (Some t1)" "Task_status t1 \<in> set [''queued'', ''running'']"
    "Task_target_type t1 = Task_target_type t" "Task_target_id t1 = Task_target_id t" using Cons.prems by (auto simp: open_task_def)
  obtain resp where resp: "typed_response (progress_message r s) = Some resp" "Response_id resp = Request_id r"
    "Response_status resp = ''running''" "strip_response_thumbnails resp = Inr resp" using progress_typed by blast
  let ?t = "progress_task (w_now w) resp t1" and ?w = "w\<lparr>w_db := put_task (progress_task (w_now w) resp t1) (w_db w)\<rparr>"
  have "validate (progress_message r s) = Inr resp" using acc resp(1) by (simp add: accepts_typed_def)
  then have "handle_message env st validate d host_id RESPONSE (Some (progress_message r s)) w = (Inr (), ?w)"
    using t1(1,2) resp
    by (simp add: handle_message_def session_scope_def with_now_def pure_act_def apply_response_def bind_act_def read_db_def
        write_db_def)
  moreover have "open_task (Request_id r) host_id t ?w"
    using find_task_put [OF t1(1) _ , of ?t] Cons.prems t1(3,4) by (simp add: open_task_def progress_task_def)
  ultimately show ?case using Cons.IH [of ?w] by auto
qed simp

text \<open>The final message of an action, and of a create whose parameters are those of the contract.\<close>

definition served :: "pyenv \<Rightarrow> fake_env \<Rightarrow> string \<Rightarrow> agent_request \<Rightarrow> fake_host \<Rightarrow> fake_host \<Rightarrow> bool" where
  "served env fe guid r hs hs' \<longleftrightarrow> (\<exists>final resp. serve_request env fe guid r hs = Inr (final, hs') \<and> typed_response final = Some resp
     \<and> Response_id resp = Request_id r \<and> Response_status resp = ''succeeded'' \<and> strip_response_thumbnails resp = Inr resp)"

lemma final_typed:
  assumes "vm_id = JNull \<or> vm_id = JStr i" "extra = [(''vm_state'', opt_str f)] \<or> extra = [(''template'', JObj d)]"
  shows "\<exists>resp. typed_response (final_message fe r result vm_id extra) = Some resp \<and> Response_id resp = Request_id r
    \<and> Response_status resp = ''succeeded'' \<and> strip_response_thumbnails resp = Inr resp"
  using assms
  by (auto simp: typed_response_def final_message_def obind_def int_field_def str_field_def obj_field_def result_field_def
      strip_response_thumbnails_def sbind_def opt_str_def split: option.splits)

definition simple_request :: "agent_request \<Rightarrow> bool" where
  "simple_request r \<longleftrightarrow> Request_function r \<notin> set [''vm_create'', ''vm_clone'', ''vm_edit'']
     \<and> (case jget (Request_params r) ''vm_id'' of JNull \<Rightarrow> True | JStr _ \<Rightarrow> True | _ \<Rightarrow> False)"

lemma simple_served:
  assumes "host_wf hs" "simple_request r" shows "\<exists>hs'. served env fe guid r hs hs'"
proof -
  let ?x = "jget (Request_params r) ''vm_id''" and ?fn = "Request_function r"
  obtain i where x: "?x = JNull \<or> ?x = JStr i" using assms(2) by (auto simp: simple_request_def split: json.splits)
  obtain hs' where act: "apply_action ?x ?fn (map_of FINAL_STATE ?fn) hs = Inr hs'" using apply_action_Inr [OF assms(1)] by blast
  have src: "find_first (is_vm ?x) (fh_vms hs) = Inr (find (\<lambda>v. vm_ident v = ?x) (fh_vms hs))"
    using assms(1) by (intro find_first_Inr) (auto simp: host_wf_def list_all_iff is_vm_ident)
  have f: "?fn \<noteq> ''vm_create''" "?fn \<noteq> ''vm_clone''" "?fn \<noteq> ''vm_edit''" using assms(2) by (simp_all add: simple_request_def)
  show ?thesis
  proof (cases "?fn = ''vm_export_template''")
    case True
    then show ?thesis using final_typed [OF x, of "[(''template'', JObj d)]" for d] f src
      by (fastforce simp: served_def serve_request_def Let_def sbind_def)
  next
    case False
    then show ?thesis using final_typed [OF x, of "[(''vm_state'', opt_str (map_of FINAL_STATE ?fn))]"] f act
      by (fastforce simp: served_def serve_request_def Let_def sbind_def)
  qed
qed

lemma foldM_Inr: "(\<And>x s. x \<in> set xs \<Longrightarrow> \<exists>s'. f x s = Inr s') \<Longrightarrow> \<exists>s'. foldM f xs s = Inr s'"
proof (induction xs arbitrary: s)
  case (Cons x xs)
  obtain s1 where "f x s = Inr s1" using Cons.prems [of x] by auto
  then show ?case using Cons.IH [of s1] Cons.prems by (simp add: sbind_def)
qed simp

lemma typed_param: "params_typed contract p \<Longrightarrow> map_of contract k = Some t \<Longrightarrow> has_ptype t (jget p k)"
  unfolding params_typed_def by (induction rule: list_all2_induct) (auto split: if_splits)

lemma ptype_cases:
  "has_ptype (PNum lo hi) j \<Longrightarrow> \<exists>n. j = JInt n"
  "has_ptype PText j \<Longrightarrow> \<exists>s. j = JStr s"
  "has_ptype PDisks j \<Longrightarrow> \<exists>ds. j = JList ds \<and> list_all disk_json_ok ds"
  by (cases j; simp)+

lemma disk_json_cases: "disk_json_ok j \<Longrightarrow> \<exists>n t g. j = JObj [(''name'', JStr n), (''type'', JStr t), (''size_gb'', JInt g)]"
  by (cases j rule: disk_json_ok.cases) auto

lemma created_disk_Inr:
  "d = JObj [(''name'', JStr ''OS'')] \<or> disk_json_ok d \<Longrightarrow>
   \<exists>x y. py_dict d = Inr x \<and> created_disk env guid base vm_name i x = Inr y"
  by (auto dest!: disk_json_cases simp: created_disk_def sbind_def jor_def Let_def)

lemma created_vm_Inr:
  assumes "params_typed CREATE_CONTRACT p"
  shows "\<exists>v. created_vm env fe guid hardware p = Inr v \<and> vm_wf v \<and> vm_ident v = JStr guid \<and> jget v ''state'' = JStr (start_state p)"
proof -
  note par = typed_param [OF assms]
  obtain m c dest ds where p: "jget p ''memory_mb'' = JInt m" "jget p ''cpu_count'' = JInt c" "jget p ''destination_storage'' = JStr dest"
      "jget p ''disks'' = JList ds" "list_all disk_json_ok ds"
    using par [of "''memory_mb''"] par [of "''cpu_count''"] par [of "''destination_storage''"] par [of "''disks''"]
    by (auto simp: CREATE_CONTRACT_def dest!: ptype_cases)
  have mm: "\<exists>b. mib_or_none (jor (jget p k) (if dyn then JInt n else JNull)) = Inr b"
    if "k = ''memory_min_mb'' \<or> k = ''memory_max_mb''" for k dyn n
    using that par [of k] by (auto simp: CREATE_CONTRACT_def mib_or_none_def jor_def dest!: ptype_cases)
  have f: "vm_folder env hardware p vm_name = Inr (resolve_vm_folder (win ''D:/HyperV/VMS'') dest (py_str env vm_name))" for vm_name
    using p(3) by (simp add: vm_folder_def hardware_def jor_def sbind_def win_def)
  let ?q = "if truthy (jget p ''disks'') then p else [(''disks'', JList [JObj [(''name'', JStr ''OS'')]])]"
  have disks: "\<exists>disks. for_specs ?q ''disks'' (\<lambda>di d ds. sbind (created_disk env guid base vm_name di d) (\<lambda>x. Inr (ds @ [JObj x]))) [] = Inr disks"
    for base vm_name
  proof -
    define js where "js = (if ds = [] then [JObj [(''name'', JStr ''OS'')]] else ds)"
    have "py_iter (jor (jget ?q ''disks'') (JList [])) = Inr js" using p(4) by (auto simp: js_def jor_def)
    moreover have "\<exists>s'. foldM (\<lambda>ix s. sbind (py_dict (snd ix)) (\<lambda>d. sbind (created_disk env guid base vm_name (fst ix) d) (\<lambda>x. Inr (s @ [JObj x]))))
        (enumerate 0 js) [] = Inr s'"
    proof (rule foldM_Inr)
      fix ix :: "nat \<times> json" and s :: "json list" assume "ix \<in> set (enumerate 0 js)"
      then have "snd ix \<in> set js" by (metis list.set_map imageI map_snd_enumerate)
      then have "snd ix = JObj [(''name'', JStr ''OS'')] \<or> disk_json_ok (snd ix)"
        using p(5) by (auto simp: js_def list_all_iff split: if_splits)
      from created_disk_Inr [OF this, of env guid base vm_name "fst ix"] obtain x y
        where "py_dict (snd ix) = Inr x" "created_disk env guid base vm_name (fst ix) x = Inr y" by blast
      then show "\<exists>s'. sbind (py_dict (snd ix)) (\<lambda>d. sbind (created_disk env guid base vm_name (fst ix) d) (\<lambda>x. Inr (s @ [JObj x]))) = Inr s'"
        by (simp add: sbind_def)
    qed
    ultimately show ?thesis by (auto simp: for_specs_def sbind_def)
  qed
  let ?folder = "resolve_vm_folder (win ''D:/HyperV/VMS'') dest (py_str env (new_name guid p))"
    and ?dyn = "truthy (jget p ''memory_dynamic'')"
  have mem: "py_int (jor (JInt m) (JInt 4096)) = Inr (if m = 0 then 4096 else m)"
    "py_int (jor (JInt c) (JInt 2)) = Inr (if c = 0 then 2 else c)" by (simp_all add: jor_def)
  obtain m' where m': "m' = (if m = 0 then 4096 else m)" by blast
  obtain ds' where ds': "for_specs ?q ''disks'' (\<lambda>di d ds. sbind (created_disk env guid ?folder (new_name guid p) di d)
      (\<lambda>x. Inr (ds @ [JObj x]))) [] = Inr ds'" using disks by blast
  obtain lo where lo: "mib_or_none (jor (jget p ''memory_min_mb'') (if ?dyn then JInt m' else JNull)) = Inr lo"
    using mm [of "''memory_min_mb''" ?dyn m'] by auto
  obtain hi where hi: "mib_or_none (jor (jget p ''memory_max_mb'') (if ?dyn then JInt (m' * 4) else JNull)) = Inr hi"
    using mm [of "''memory_max_mb''" ?dyn "m' * 4"] by auto
  have "\<exists>v. created_vm env fe guid hardware p = Inr v \<and> map_of v ''id'' = Some (JStr guid)
      \<and> map_of v ''state'' = Some (JStr (start_state p)) \<and> (\<exists>sw vl mac. map_of v ''nics'' = Some (JList [adapter guid sw vl mac]))"
    unfolding created_vm_def Let_def p(1,2) mem m' [symmetric] f
    by (simp only: sbind_simps mem m' [symmetric] f ds' lo hi) (simp, blast)
  then obtain v sw vl mac where v: "created_vm env fe guid hardware p = Inr v" "map_of v ''id'' = Some (JStr guid)"
    "map_of v ''state'' = Some (JStr (start_state p))" "map_of v ''nics'' = Some (JList [adapter guid sw vl mac])" by blast
  obtain n where "adapter guid sw vl mac = JObj n" by (simp add: adapter_def)
  then have "\<exists>ns. jget_default v ''nics'' (JList []) = JList (map JObj ns)" using v(4) by (intro exI [of _ "[n]"]) (simp add: jget_default_def)
  then show ?thesis using v by (auto simp: vm_wf_def vm_ident_def jget_def)
qed

lemma create_served:
  assumes "host_wf hs" "Request_function r = ''vm_create''" "params_typed CREATE_CONTRACT (Request_params r)"
  shows "\<exists>hs'. served env fe guid r hs hs'"
proof -
  obtain v where "created_vm env fe guid (fh_hardware hs) (Request_params r) = Inr v"
    using created_vm_Inr [OF assms(3), of env fe guid] assms(1) by (auto simp: host_wf_def)
  then show ?thesis using assms(2) final_typed [of "JStr guid" guid "[(''vm_state'', opt_str (Some (start_state (Request_params r))))]"]
    by (fastforce simp: served_def serve_request_def Let_def sbind_def opt_str_def)
qed

section \<open>Properties\<close>

text \<open>C30: The loop closes. For a task that is open, when the agent serves its request (an action, an export, or a create with
  the parameters the backend sends) and the worker consumes the answers in order, the task ends as succeeded, none of
  its audit events is pending and the lock it held on its VM is free; no answer is lost on the way.\<close>

theorem answered_request_settles:
  assumes acc: "accepts_typed validate" and wf: "host_wf hs"
    and kind: "simple_request r \<or> (Request_function r = ''vm_create'' \<and> params_typed CREATE_CONTRACT (Request_params r))"
    and keys: "pk_unique Task_id (db_tasks (w_db w))"
    and found: "find_task (w_db w) (Request_id r) host_id = Inr (Some t)" and status: "Task_status t \<in> set [''queued'', ''running'']"
    and locks: "w_cache_up w" "locks_wf (w_cache w)"
  shows "\<exists>t'. let (out, hs') = handle_request env fe guid r hs; w' = consume env st validate d host_id out w in
      tget Task_id (db_tasks (w_db w')) (Request_id r) = Some t' \<and> Task_status t' = ''succeeded'' \<and> Task_finished_at t' \<noteq> None
    \<and> list_all (\<lambda>e. AuditEvent_task_id e = Some (Request_id r) \<longrightarrow> AuditEvent_outcome e \<noteq> ''pending'') (db_audit_events (w_db w'))
    \<and> (Task_target_type t = ''vm'' \<longrightarrow> lock_holder (w_now w) (w_cache w') (Task_target_id t) \<noteq> Some (Request_id r))"
proof -
  obtain hs' where "served env fe guid r hs hs'" using kind simple_served [OF wf] create_served [OF wf] by blast
  then obtain final resp where s: "serve_request env fe guid r hs = Inr (final, hs')" "typed_response final = Some resp"
    "Response_id resp = Request_id r" "Response_status resp = ''succeeded''" "strip_response_thumbnails resp = Inr resp"
    by (auto simp: served_def)
  let ?steps = "map (progress_message r) (progress_steps (Request_function r))"
  have out: "handle_request env fe guid r hs = (?steps @ [final], hs')" by (simp add: handle_request_def s(1))
  have "open_task (Request_id r) host_id t w" using found status keys by (simp add: open_task_def)
  from consume_progress [OF acc this] obtain w1 where w1: "consume env st validate d host_id ?steps w = w1"
    "open_task (Request_id r) host_id t w1" "w_cache w1 = w_cache w" "w_now w1 = w_now w" "w_cache_up w1 = w_cache_up w" by blast
  then obtain t1 where t1: "find_task (w_db w1) (Response_id resp) host_id = Inr (Some t1)" "Task_target_type t1 = Task_target_type t"
    "Task_target_id t1 = Task_target_id t" using s(3) by (auto simp: open_task_def)
  from final_response_settles [OF t1(1) s(5), of env st "new_id d"] s(4) obtain w2 t' where
    w2: "apply_response env st (new_id d) host_id resp w1 = (Inr (), w2)" "tget Task_id (db_tasks (w_db w2)) (Response_id resp) = Some t'"
      "Task_status t' = ''succeeded''" "Task_finished_at t' \<noteq> None"
      "list_all (\<lambda>e. AuditEvent_task_id e = Some (Response_id resp) \<longrightarrow> AuditEvent_outcome e \<noteq> ''pending'') (db_audit_events (w_db w2))"
      "Task_target_type t1 = ''vm'' \<and> w_cache_up w1 \<and> locks_wf (w_cache w1) \<longrightarrow>
         lock_holder (w_now w1) (w_cache w2) (Task_target_id t1) \<noteq> Some (Response_id resp)" by auto
  have "validate final = Inr resp" using acc s(2) by (simp add: accepts_typed_def)
  then have "snd (handle_message env st validate d host_id RESPONSE (Some final) w1) = w2"
    using w2(1) by (simp add: handle_message_def session_scope_def with_now_def pure_act_def bind_act_def)
  then have "consume env st validate d host_id (?steps @ [final]) w = w2" by (simp add: consume_append w1(1))
  then show ?thesis using w2 w1(3-5) t1 locks s(3) by (intro exI [of _ t']) (simp add: out)
qed

definition strict_validate :: "json \<Rightarrow> agent_response res" where
  "strict_validate j = (case typed_response j of None \<Rightarrow> Inl ValueError | Some r \<Rightarrow> Inr r)"

definition sample_fake_env :: fake_env where
  "sample_fake_env = \<lparr>fe_hash = (\<lambda>_. 7), fe_now = ''2026-10-03T00:00:00+00:00''\<rparr>"

definition sample_fake_host :: fake_host where
  "sample_fake_host = (new_fake_host sample_fake_env ''h1'' ''HV01'' [])\<lparr>fh_vms :=
     [[(''id'', JStr ''g1''), (''name'', JStr ''web''), (''state'', JStr ''Off''), (''nics'', JList [])],
      [(''id'', JStr ''g2''), (''name'', JStr ''db''), (''state'', JStr ''Running''), (''nics'', JList [])]]\<rparr>"

definition sample_agent_request :: "string \<Rightarrow> agent_request" where
  "sample_agent_request fn = \<lparr>Request_id = ''t1'', Request_function = fn, Request_params = [(''vm_id'', JStr ''g1'')],
     Request_requested_by = ''ops'', Request_issued_at = 0\<rparr>"

lemma sample_fake_host_wf: "host_wf sample_fake_host"
  by (auto simp: host_wf_def sample_fake_host_def new_fake_host_def vm_wf_def jget_default_def)

theorem answered_request_settles_witness:
  "\<exists>t'. let (out, hs') = handle_request cursor_env sample_fake_env ''n'' (sample_agent_request ''vm_start'') sample_fake_host;
      w' = consume cursor_env default_settings strict_validate
        \<lparr>row_id = (\<lambda>_. ''x''), event_id = (\<lambda>_. ''e''), new_id = ''n''\<rparr> ''h1'' out
        (task_world (sample_task ''t1'' ''vm_start'' ''queued'' ''v1'' 0) []) in
      tget Task_id (db_tasks (w_db w')) ''t1'' = Some t' \<and> Task_status t' = ''succeeded''"
proof -
  let ?t = "sample_task ''t1'' ''vm_start'' ''queued'' ''v1'' 0"
  have "accepts_typed strict_validate" by (simp add: accepts_typed_def strict_validate_def)
  moreover have "simple_request (sample_agent_request ''vm_start'')" by (simp add: simple_request_def sample_agent_request_def)
  moreover have "find_task (w_db (task_world ?t [])) (Request_id (sample_agent_request ''vm_start'')) ''h1'' = Inr (Some ?t)"
    by (simp add: find_task_def scalar_one_or_none_def sample_agent_request_def)
  moreover have "pk_unique Task_id (db_tasks (w_db (task_world ?t [])))" "locks_wf (w_cache (task_world ?t []))"
    by (simp_all add: pk_unique_def locks_wf_def)
  ultimately show ?thesis
    using answered_request_settles [OF _ sample_fake_host_wf, of strict_validate "sample_agent_request ''vm_start''" "task_world ?t []" "''h1''" ?t
        cursor_env sample_fake_env "''n''" default_settings "\<lparr>row_id = (\<lambda>_. ''x''), event_id = (\<lambda>_. ''e''), new_id = ''n''\<rparr>"]
    by (auto simp: Let_def sample_agent_request_def split: prod.splits)
qed



end
