(* ===== verification/Agent_Files.thy ===== *)
theory Agent_Files
  imports Agent_Binaries
begin

text \<open>
  The two classes of \<^verbatim>\<open>app/services/agent_store.py\<close> in detail: the directory, with the temporary file, the copy in chunks,
  the rename and the clean-up of \<^verbatim>\<open>LocalAgentStore\<close>, and the bucket of \<^verbatim>\<open>S3AgentStore\<close>. What the operating system answers
  to each call is an argument. The interface both implement is a locale; its contract is a map from object keys to bytes.
\<close>

section \<open>Files and directories\<close>

record fs =
  fs_files :: "(string list \<times> string) list"
  fs_dirs :: "string list list"

text \<open>Whether each call is allowed to succeed; \<open>os_write\<close> counts the chunks.\<close>

record os_answers =
  os_mkdir :: bool
  os_open :: bool
  os_write :: "nat \<Rightarrow> bool"
  os_replace :: bool
  os_unlink :: bool
  os_rmdir :: bool

definition is_file :: "fs \<Rightarrow> string list \<Rightarrow> bool" where
  "is_file f p \<longleftrightarrow> map_of (fs_files f) p \<noteq> None"

definition ancestors :: "string list \<Rightarrow> string list list" where
  "ancestors p = map (\<lambda>n. take n p) [0..<Suc (length p)]"

text \<open>\<^verbatim>\<open>mkdir(parents=True, exist_ok=True)\<close>; \<open>None\<close> is an \<^verbatim>\<open>OSError\<close>.\<close>

definition make_dirs :: "os_answers \<Rightarrow> string list \<Rightarrow> fs \<Rightarrow> fs option" where
  "make_dirs os p f = (if os_mkdir os \<and> \<not> list_ex (is_file f) (ancestors p)
     then Some (f\<lparr>fs_dirs := filter (\<lambda>d. d \<notin> set (fs_dirs f)) (ancestors p) @ fs_dirs f\<rparr>) else None)"

definition write_file :: "string list \<Rightarrow> string \<Rightarrow> fs \<Rightarrow> fs" where
  "write_file p b f = f\<lparr>fs_files := AList.update p b (fs_files f)\<rparr>"

definition file_bytes :: "fs \<Rightarrow> string list \<Rightarrow> string" where
  "file_bytes f p = (case map_of (fs_files f) p of None \<Rightarrow> [] | Some b \<Rightarrow> b)"

section \<open>The directory\<close>

text \<open>\<^verbatim>\<open>PurePath.suffix\<close> and \<^verbatim>\<open>with_suffix\<close>, on the last component of a path.\<close>

definition path_suffix :: "string \<Rightarrow> string" where
  "path_suffix name =
     (let rest = rev (takeWhile (\<lambda>c. c \<noteq> CHR ''.'') (rev name))
      in if CHR ''.'' \<in> set name \<and> Suc (length rest) < length name \<and> rest \<noteq> [] then CHR ''.'' # rest else [])"

definition with_suffix :: "string \<Rightarrow> string \<Rightarrow> string" where
  "with_suffix name suffix = take (length name - length (path_suffix name)) name @ suffix"

definition tmp_suffix :: "string \<Rightarrow> string" where
  "tmp_suffix pid = ''.'' @ pid @ ''.tmp''"

definition tmp_path :: "string \<Rightarrow> string list \<Rightarrow> string list" where
  "tmp_path pid dst = butlast dst @ [with_suffix (last dst) (path_suffix (last dst) @ tmp_suffix pid)]"

definition CHUNK :: nat where
  "CHUNK = 2 ^ 20"

text \<open>\<^verbatim>\<open>while chunk := await src.read(_CHUNK)\<close>.\<close>

function chunks :: "string \<Rightarrow> string list" where
  "chunks b = (if b = [] then [] else take CHUNK b # chunks (drop CHUNK b))"
  by pat_completeness auto
termination by (relation "measure length") (auto simp: CHUNK_def)

declare chunks.simps [simp del]

fun copy_chunks :: "os_answers \<Rightarrow> nat \<Rightarrow> string list \<Rightarrow> string list \<Rightarrow> fs \<Rightarrow> bool \<times> fs" where
  "copy_chunks os n tmp [] f = (True, f)"
| "copy_chunks os n tmp (c # cs) f =
     (if os_write os n then copy_chunks os (Suc n) tmp cs (write_file tmp (file_bytes f tmp @ c) f) else (False, f))"

definition replace_file :: "os_answers \<Rightarrow> string list \<Rightarrow> string list \<Rightarrow> fs \<Rightarrow> fs option" where
  "replace_file os tmp dst f = (if os_replace os \<and> dst \<notin> set (fs_dirs f)
     then Some (write_file dst (file_bytes f tmp) (f\<lparr>fs_files := AList.delete tmp (fs_files f)\<rparr>)) else None)"

definition local_put_file :: "os_answers \<Rightarrow> string \<Rightarrow> string list \<Rightarrow> string \<Rightarrow> string \<Rightarrow> fs \<Rightarrow> unit res \<times> fs" where
  "local_put_file os pid dir key bytes f =
     (case local_path dir key of
        Inl e \<Rightarrow> (Inl e, f)
      | Inr dst \<Rightarrow>
          (case make_dirs os (butlast dst) f of
             None \<Rightarrow> (Inl AgentStoreError, f)
           | Some f1 \<Rightarrow>
               if dst = [] then (Inl ValueError, f1)
               else let tmp = tmp_path pid dst in
                 if \<not> os_open os \<or> tmp \<in> set (fs_dirs f1) then (Inl AgentStoreError, f1)
                 else case copy_chunks os 0 tmp (chunks bytes) (write_file tmp [] f1) of
                   (False, f2) \<Rightarrow> (Inl AgentStoreError, f2)
                 | (True, f2) \<Rightarrow>
                     (case replace_file os tmp dst f2 of
                        None \<Rightarrow> (Inl AgentStoreError, f2)
                      | Some f3 \<Rightarrow> (Inr (), f3))))"

text \<open>The chunks a download yields. An \<^verbatim>\<open>OSError\<close> from opening the file is not caught and reaches the caller.\<close>

definition local_open_stream :: "string list \<Rightarrow> string \<Rightarrow> fs \<Rightarrow> string list res \<times> fs" where
  "local_open_stream dir key f =
     (case local_path dir key of
        Inl e \<Rightarrow> (Inl e, f)
      | Inr p \<Rightarrow> (case map_of (fs_files f) p of None \<Rightarrow> Inl AgentStoreError | Some b \<Rightarrow> Inr (chunks b), f))"

text \<open>\<^verbatim>\<open>rmdir\<close> removes an empty directory; its failures are suppressed.\<close>

definition remove_dir :: "os_answers \<Rightarrow> string list \<Rightarrow> fs \<Rightarrow> fs" where
  "remove_dir os p f =
     (if os_rmdir os \<and> \<not> list_ex (\<lambda>q. q \<noteq> [] \<and> butlast q = p) (map fst (fs_files f) @ fs_dirs f)
      then f\<lparr>fs_dirs := filter (\<lambda>d. d \<noteq> p) (fs_dirs f)\<rparr> else f)"

definition local_delete :: "os_answers \<Rightarrow> string list \<Rightarrow> string \<Rightarrow> fs \<Rightarrow> unit res \<times> fs" where
  "local_delete os dir key f =
     (case local_path dir key of
        Inl e \<Rightarrow> (Inl e, f)
      | Inr p \<Rightarrow>
          let tidy = (\<lambda>f. if butlast p \<noteq> dir then remove_dir os (butlast p) f else f)
          in if p \<in> set (fs_dirs f) then (Inl AgentStoreError, f)
             else if \<not> is_file f p then (Inr (), tidy f)
             else if \<not> os_unlink os then (Inl AgentStoreError, f)
             else (Inr (), tidy (f\<lparr>fs_files := AList.delete p (fs_files f)\<rparr>)))"

section \<open>The bucket\<close>

text \<open>What the client answers is again an argument: whether a call raises. Every exception becomes the store's own.\<close>

type_synonym bucket = "(string \<times> string) list"

definition s3_put_file :: "settings \<Rightarrow> bool \<Rightarrow> string \<Rightarrow> string \<Rightarrow> bucket \<Rightarrow> unit res \<times> bucket" where
  "s3_put_file st answers key bytes b =
     (if answers then (Inr (), AList.update (s3_key st key) bytes b) else (Inl AgentStoreError, b))"

definition s3_open_stream :: "settings \<Rightarrow> bool \<Rightarrow> string \<Rightarrow> bucket \<Rightarrow> string list res \<times> bucket" where
  "s3_open_stream st answers key b =
     (if answers then (case map_of b (s3_key st key) of None \<Rightarrow> Inl AgentStoreError | Some x \<Rightarrow> Inr (chunks x), b)
      else (Inl AgentStoreError, b))"

definition s3_delete :: "settings \<Rightarrow> bool \<Rightarrow> string \<Rightarrow> bucket \<Rightarrow> unit res \<times> bucket" where
  "s3_delete st answers key b =
     (if answers then (Inr (), AList.delete (s3_key st key) b) else (Inl AgentStoreError, b))"

section \<open>The contract\<close>

text \<open>The operations of \<^verbatim>\<open>AgentBinaryStore\<close> and a run of them; a download is read to its end.\<close>

datatype store_op = PutOp string string | GetOp string | DeleteOp string

fun op_key :: "store_op \<Rightarrow> string" where
  "op_key (PutOp k b) = k" | "op_key (GetOp k) = k" | "op_key (DeleteOp k) = k"

fun run_op ::
  "('o \<Rightarrow> string \<Rightarrow> string \<Rightarrow> 's \<Rightarrow> unit res \<times> 's) \<Rightarrow> ('o \<Rightarrow> string \<Rightarrow> 's \<Rightarrow> string list res \<times> 's) \<Rightarrow>
   ('o \<Rightarrow> string \<Rightarrow> 's \<Rightarrow> unit res \<times> 's) \<Rightarrow> 'o \<Rightarrow> store_op \<Rightarrow> 's \<Rightarrow> string res \<times> 's"
where
  "run_op put get del a (PutOp k b) s = apfst (map_sum id (\<lambda>_. [])) (put a k b s)"
| "run_op put get del a (GetOp k) s = apfst (map_sum id concat) (get a k s)"
| "run_op put get del a (DeleteOp k) s = apfst (map_sum id (\<lambda>_. [])) (del a k s)"

fun run_ops ::
  "('o \<Rightarrow> string \<Rightarrow> string \<Rightarrow> 's \<Rightarrow> unit res \<times> 's) \<Rightarrow> ('o \<Rightarrow> string \<Rightarrow> 's \<Rightarrow> string list res \<times> 's) \<Rightarrow>
   ('o \<Rightarrow> string \<Rightarrow> 's \<Rightarrow> unit res \<times> 's) \<Rightarrow> ('o \<times> store_op) list \<Rightarrow> 's \<Rightarrow> string res list \<times> 's"
where
  "run_ops put get del [] s = ([], s)"
| "run_ops put get del ((a, x) # xs) s =
     (let (r, s1) = run_op put get del a x s; (rs, s2) = run_ops put get del xs s1 in (r # rs, s2))"

text \<open>The contract: a map, and for each operation whether it went through.\<close>

fun spec_op :: "bool \<Rightarrow> store_op \<Rightarrow> (string \<rightharpoonup> string) \<Rightarrow> string res \<times> (string \<rightharpoonup> string)" where
  "spec_op ok (PutOp k b) m = (if ok then (Inr [], m(k \<mapsto> b)) else (Inl AgentStoreError, m))"
| "spec_op ok (GetOp k) m = (case m k of Some b \<Rightarrow> if ok then Inr b else Inl AgentStoreError | None \<Rightarrow> Inl AgentStoreError, m)"
| "spec_op ok (DeleteOp k) m = (if ok then (Inr [], m(k := None)) else (Inl AgentStoreError, m))"

fun spec_ops :: "(bool \<times> store_op) list \<Rightarrow> (string \<rightharpoonup> string) \<Rightarrow> string res list \<times> (string \<rightharpoonup> string)" where
  "spec_ops [] m = ([], m)"
| "spec_ops ((ok, x) # xs) m = (let (r, m1) = spec_op ok x m; (rs, m2) = spec_ops xs m1 in (r # rs, m2))"

definition succeeded :: "string res list \<Rightarrow> bool list" where
  "succeeded rs = map (\<lambda>r. \<not> isl r) rs"

locale object_store =
  fixes good :: "string \<Rightarrow> bool" and contents :: "'s \<Rightarrow> string \<rightharpoonup> string"
    and put :: "'o \<Rightarrow> string \<Rightarrow> string \<Rightarrow> 's \<Rightarrow> unit res \<times> 's" and get :: "'o \<Rightarrow> string \<Rightarrow> 's \<Rightarrow> string list res \<times> 's"
    and del :: "'o \<Rightarrow> string \<Rightarrow> 's \<Rightarrow> unit res \<times> 's"
  assumes put_law: "good k \<Longrightarrow> put a k b s = (r, s') \<Longrightarrow>
      r = Inr () \<and> contents s' = (contents s)(k \<mapsto> b) \<or> r = Inl AgentStoreError \<and> contents s' = contents s"
    and get_law: "good k \<Longrightarrow> get a k s = (q, s') \<Longrightarrow>
      contents s' = contents s \<and> (q = Inl AgentStoreError \<or> (\<exists>b. contents s k = Some b \<and> map_sum id concat q = Inr b))"
    and del_law: "good k \<Longrightarrow> del a k s = (r, s') \<Longrightarrow>
      r = Inr () \<and> contents s' = (contents s)(k := None) \<or> r = Inl AgentStoreError \<and> contents s' = contents s"
begin

lemma op_refines:
  assumes "run_op put get del a x s = (r, s')" and "good (op_key x)"
  shows "spec_op (\<not> isl r) x (contents s) = (r, contents s')"
proof (cases x)
  case (PutOp k b)
  obtain q s1 where q: "put a k b s = (q, s1)" by fastforce
  then show ?thesis using put_law [OF _ q] assms PutOp by auto
next
  case (GetOp k)
  obtain q s1 where q: "get a k s = (q, s1)" by fastforce
  then show ?thesis using get_law [OF _ q] assms GetOp by (auto split: option.splits)
next
  case (DeleteOp k)
  obtain q s1 where q: "del a k s = (q, s1)" by fastforce
  then show ?thesis using del_law [OF _ q] assms DeleteOp by auto
qed

lemma ops_refine:
  "run_ops put get del xs s = (rs, s') \<Longrightarrow> list_all (\<lambda>x. good (op_key (snd x))) xs \<Longrightarrow>
   spec_ops (zip (succeeded rs) (map snd xs)) (contents s) = (rs, contents s')"
proof (induction xs arbitrary: s rs s')
  case (Cons x xs)
  obtain a y where x: "x = (a, y)" by fastforce
  obtain r s1 where r: "run_op put get del a y s = (r, s1)" by fastforce
  obtain rs1 s2 where rs: "run_ops put get del xs s1 = (rs1, s2)" by fastforce
  have "rs = r # rs1" "s' = s2" using Cons.prems(1) r rs by (simp_all add: x)
  then show ?case using Cons.IH [OF rs] Cons.prems(2) op_refines [OF r] by (simp add: x succeeded_def)
qed (simp add: succeeded_def)

end

section \<open>Lemmas\<close>

subsection \<open>Names\<close>

lemma path_suffix_tail: "\<exists>h. name = h @ path_suffix name"
proof (cases "CHR ''.'' \<in> set name")
  case True
  let ?t = "takeWhile (\<lambda>c. c \<noteq> CHR ''.'') (rev name)"
  have "dropWhile (\<lambda>c. c \<noteq> CHR ''.'') (rev name) \<noteq> []" using True by (simp add: dropWhile_eq_Nil_conv)
  then obtain x xs where d: "dropWhile (\<lambda>c. c \<noteq> CHR ''.'') (rev name) = x # xs" by (cases "dropWhile (\<lambda>c. c \<noteq> CHR ''.'') (rev name)") auto
  then have "x = CHR ''.''" using hd_dropWhile [of "\<lambda>c. c \<noteq> CHR ''.''" "rev name"] by simp
  then have "rev name = ?t @ CHR ''.'' # xs" using d by (metis takeWhile_dropWhile_id)
  then have "name = rev xs @ CHR ''.'' # rev ?t" by (metis rev_append rev_rev_ident rev.simps(2) append.assoc append_Cons append_Nil)
  then show ?thesis by (auto simp: path_suffix_def Let_def)
qed (simp add: path_suffix_def)

lemma tmp_name: "with_suffix name (path_suffix name @ s) = name @ s"
  using path_suffix_tail [of name] unfolding with_suffix_def by (metis append.assoc append_eq_conv_conj diff_add_inverse2 length_append)

lemma tmp_path_eq: "tmp_path pid (d @ [n]) = d @ [n @ tmp_suffix pid]"
  by (simp add: tmp_path_def tmp_name)

lemma join_split: "py_join [c] (py_split c s) = s"
proof (induction s)
  case (Cons x s)
  obtain y ys where y: "py_split c s = y # ys" using py_split_nonempty [of c s] by (cases "py_split c s") auto
  then show ?case using Cons by (cases ys) auto
qed simp

text \<open>The keys the catalogue uses: an id and a file name, which is not that of a temporary file.\<close>

definition good_key :: "string \<Rightarrow> string \<Rightarrow> bool" where
  "good_key pid key = (case py_split (CHR ''/'') key of
     [i, n] \<Rightarrow> plain_part i \<and> plain_part n \<and> \<not> py_endswith n (tmp_suffix pid) | _ \<Rightarrow> False)"

definition local_contents :: "string \<Rightarrow> string list \<Rightarrow> fs \<Rightarrow> string \<rightharpoonup> string" where
  "local_contents pid dir f key = (if good_key pid key then map_of (fs_files f) (dir @ py_split (CHR ''/'') key) else None)"

lemma good_keyE:
  assumes "good_key pid key"
  obtains i n where "py_split (CHR ''/'') key = [i, n]" "key = object_key i n" "plain_part i" "plain_part n" "\<not> py_endswith n (tmp_suffix pid)"
proof -
  obtain i n where s: "py_split (CHR ''/'') key = [i, n]" "plain_part i" "plain_part n" "\<not> py_endswith n (tmp_suffix pid)"
    using assms by (auto simp: good_key_def split: list.splits)
  have "key = object_key i n" using join_split [of "CHR ''/''" key] s(1) by (simp add: object_key_def)
  then show ?thesis using that s by blast
qed

lemma good_local_path:
  assumes "good_key pid key" "dir \<noteq> []"
  shows "local_path dir key = Inr (dir @ py_split (CHR ''/'') key)"
  using assms(1) by (rule good_keyE) (simp add: object_place assms(2))

lemma good_not_tmp:
  assumes "good_key pid k" "good_key pid key"
  shows "dir @ py_split (CHR ''/'') k \<noteq> tmp_path pid (dir @ py_split (CHR ''/'') key)"
proof -
  obtain i n j m where s: "py_split (CHR ''/'') k = [i, n]" "py_split (CHR ''/'') key = [j, m]" "\<not> py_endswith n (tmp_suffix pid)"
    using assms by (metis good_keyE)
  have "py_endswith (m @ tmp_suffix pid) (tmp_suffix pid)" by (simp add: py_endswith_def)
  then show ?thesis using s tmp_path_eq [of pid "dir @ [j]" m] by auto
qed

lemma good_inj: "good_key pid k \<Longrightarrow> good_key pid key \<Longrightarrow> py_split (CHR ''/'') k = py_split (CHR ''/'') key \<Longrightarrow> k = key"
  by (metis join_split)

subsection \<open>The copy\<close>

lemma chunks_concat: "concat (chunks b) = b"
  by (induction b rule: chunks.induct) (subst chunks.simps, simp)

lemma file_write: "map_of (fs_files (write_file p b f)) q = (if q = p then Some b else map_of (fs_files f) q)"
  "fs_dirs (write_file p b f) = fs_dirs f"
  by (simp_all add: write_file_def AList.update_conv')

lemma copy_frame:
  "copy_chunks os n tmp cs f = (ok, f') \<Longrightarrow> fs_dirs f' = fs_dirs f \<and> (\<forall>q. q \<noteq> tmp \<longrightarrow> map_of (fs_files f') q = map_of (fs_files f) q)
     \<and> (is_file f tmp \<longrightarrow> is_file f' tmp)"
  by (induction os n tmp cs f rule: copy_chunks.induct) (auto simp: file_write is_file_def split: if_splits)

lemma copy_bytes: "copy_chunks os n tmp cs f = (True, f') \<Longrightarrow> file_bytes f' tmp = file_bytes f tmp @ concat cs"
  by (induction os n tmp cs f rule: copy_chunks.induct) (auto simp: file_write file_bytes_def split: if_splits)

subsection \<open>The operations\<close>

lemma local_put_cases:
  assumes run: "local_put_file os pid dir key bytes f = (r, f')" and key: "good_key pid key" "dir \<noteq> []"
    and dst_def: "dst = dir @ py_split (CHR ''/'') key"
  obtains (stored) "r = Inr ()"
      "\<And>q. map_of (fs_files f') q = (if q = dst then Some bytes else if q = tmp_path pid dst then None else map_of (fs_files f) q)"
  | (failed) "r = Inl AgentStoreError" "\<And>q. q \<noteq> tmp_path pid dst \<Longrightarrow> map_of (fs_files f') q = map_of (fs_files f) q"
proof -
  note lp = good_local_path [OF key]
  let ?tmp = "tmp_path pid dst"
  have ne: "dst \<noteq> []" "dst \<noteq> ?tmp" using key(2) good_not_tmp [OF key(1) key(1), of dir] by (simp_all add: dst_def)
  show ?thesis
  proof (cases "make_dirs os (butlast dst) f")
    case None
    then show ?thesis using run failed by (simp add: local_put_file_def lp dst_def)
  next
    case (Some f1)
    then have f1: "fs_files f1 = fs_files f" by (auto simp: make_dirs_def split: if_splits)
    obtain ok f2 where c: "copy_chunks os 0 ?tmp (chunks bytes) (write_file ?tmp [] f1) = (ok, f2)" by fastforce
    have f2: "map_of (fs_files f2) q = map_of (fs_files f) q" if "q \<noteq> ?tmp" for q
      using copy_frame [OF c] that by (simp add: file_write f1)
    have run': "(if \<not> os_open os \<or> ?tmp \<in> set (fs_dirs f1) then (Inl AgentStoreError, f1)
        else if ok then (case replace_file os ?tmp dst f2 of None \<Rightarrow> (Inl AgentStoreError, f2) | Some f3 \<Rightarrow> (Inr (), f3))
        else (Inl AgentStoreError, f2)) = (r, f')"
      using run ne(1) Some c unfolding dst_def by (auto simp: local_put_file_def lp Let_def split: if_splits)
    consider "f' = f1" "r = Inl AgentStoreError" | "f' = f2" "r = Inl AgentStoreError" | f3 where "ok" "replace_file os ?tmp dst f2 = Some f3" "f' = f3" "r = Inr ()"
      using run' by (auto split: if_splits option.splits)
    then show ?thesis
    proof cases
      case 1
      then show ?thesis using failed by (simp add: f1)
    next
      case 2
      then show ?thesis using failed f2 by simp
    next
      case 3
      have "file_bytes f2 ?tmp = bytes" using copy_bytes c 3(1) chunks_concat by (fastforce simp: file_bytes_def file_write)
      then show ?thesis using 3 f2 ne by (intro stored) (auto simp: replace_file_def file_write AList.delete_conv' split: if_splits)
    qed
  qed
qed

lemma local_delete_cases:
  assumes "local_delete os dir key f = (r, f')" "good_key pid key" "dir \<noteq> []"
  obtains "r = Inr ()" "\<And>q. map_of (fs_files f') q = (if q = dir @ py_split (CHR ''/'') key then None else map_of (fs_files f) q)"
  | "r = Inl AgentStoreError" "f' = f"
  using assms(1) by (auto simp: local_delete_def good_local_path [OF assms(2,3)] remove_dir_def is_file_def Let_def AList.delete_conv'
      split: if_splits)

interpretation local_store: object_store "good_key pid" "local_contents pid (d # ds)"
  "\<lambda>os. local_put_file os pid (d # ds)" "\<lambda>os. local_open_stream (d # ds)" "\<lambda>os. local_delete os (d # ds)" for pid d ds
proof
  fix k b f r f' and os :: os_answers
  assume k: "good_key pid k" and run: "local_put_file os pid (d # ds) k b f = (r, f')"
  from run k list.distinct(2) refl
  show "r = Inr () \<and> local_contents pid (d # ds) f' = (local_contents pid (d # ds) f)(k \<mapsto> b)
      \<or> r = Inl AgentStoreError \<and> local_contents pid (d # ds) f' = local_contents pid (d # ds) f"
  proof (cases rule: local_put_cases)
    case stored
    then show ?thesis using k good_not_tmp [OF _ k, of _ "d # ds"] good_inj [OF _ k] by (auto simp: local_contents_def fun_eq_iff)
  next
    case failed
    then show ?thesis using good_not_tmp [OF _ k, of _ "d # ds"] by (auto simp: local_contents_def fun_eq_iff)
  qed
next
  fix k f q f' and os :: os_answers
  assume k: "good_key pid k" and run: "local_open_stream (d # ds) k f = (q, f')"
  show "local_contents pid (d # ds) f' = local_contents pid (d # ds) f \<and> (q = Inl AgentStoreError \<or> (\<exists>b. local_contents pid (d # ds) f k = Some b \<and> map_sum id concat q = Inr b))"
    using run k good_local_path [OF k, of "d # ds"] chunks_concat
    by (auto simp: local_open_stream_def local_contents_def split: option.splits)
next
  fix k f r f' and os :: os_answers
  assume k: "good_key pid k" and run: "local_delete os (d # ds) k f = (r, f')"
  show "r = Inr () \<and> local_contents pid (d # ds) f' = (local_contents pid (d # ds) f)(k := None)
      \<or> r = Inl AgentStoreError \<and> local_contents pid (d # ds) f' = local_contents pid (d # ds) f"
    by (rule local_delete_cases [OF run k list.distinct(2)]) (use k good_inj [OF _ k] in \<open>auto simp: local_contents_def fun_eq_iff\<close>)
qed

lemma s3_key_inj: "s3_key st k = s3_key st k' \<longleftrightarrow> k = k'"
  by (simp add: s3_key_def Let_def)

interpretation bucket_store: object_store "\<lambda>_. True" "\<lambda>b k. map_of b (s3_key st k)" "s3_put_file st" "s3_open_stream st" "s3_delete st" for st
  by unfold_locales (auto simp: s3_put_file_def s3_open_stream_def s3_delete_def AList.update_conv' AList.delete_conv' s3_key_inj chunks_concat
      fun_eq_iff split: if_splits option.splits)

subsection \<open>The store of the routes\<close>

text \<open>The store \<open>w_files\<close> of the routes, on a directory, as an implementation of the interface whose every call goes through or not.\<close>

definition world_put :: "settings \<Rightarrow> agent_backend \<Rightarrow> bool \<Rightarrow> string \<Rightarrow> string \<Rightarrow> world \<Rightarrow> unit res \<times> world" where
  "world_put st b up k bytes w = put_file st b k bytes (w\<lparr>w_store_up := up\<rparr>)"

definition world_get :: "settings \<Rightarrow> agent_backend \<Rightarrow> bool \<Rightarrow> string \<Rightarrow> world \<Rightarrow> string list res \<times> world" where
  "world_get st b up k w = apfst (map_sum id (\<lambda>x. [x])) (open_stream st b k (w\<lparr>w_store_up := up\<rparr>))"

definition world_delete :: "settings \<Rightarrow> agent_backend \<Rightarrow> bool \<Rightarrow> string \<Rightarrow> world \<Rightarrow> unit res \<times> world" where
  "world_delete st b up k w = delete_file st b k (w\<lparr>w_store_up := up\<rparr>)"

definition world_contents :: "string \<Rightarrow> string list \<Rightarrow> world \<Rightarrow> string \<rightharpoonup> string" where
  "world_contents pid dir w k = (if good_key pid k then map_of (w_files w) (path_text dir @ ''/'' @ k) else None)"

lemma place_good: "good_key pid k \<Longrightarrow> place st (LocalStore (d # ds)) k = Inr (path_text (d # ds) @ ''/'' @ k)"
  using path_text_key [of "d # ds"] by (elim good_keyE) (simp add: place_def object_place sbind_def)

lemma world_op_spec:
  assumes "run_op (world_put st (LocalStore (d # ds))) (world_get st (LocalStore (d # ds))) (world_delete st (LocalStore (d # ds))) up x w = (r, w')"
    and "good_key pid (op_key x)"
  shows "spec_op up x (world_contents pid (d # ds) w) = (r, world_contents pid (d # ds) w')"
  using assms place_good [OF assms(2), of st d ds]
  by (cases x) (auto simp: world_put_def world_get_def world_delete_def put_file_def open_stream_def delete_file_def at_place_def world_contents_def
      AList.update_conv' AList.delete_conv' fun_eq_iff split: if_splits option.splits)

lemma world_ops_spec:
  assumes "list_all (\<lambda>x. good_key pid (op_key (snd x))) xs" and "spec_ops xs (world_contents pid (d # ds) w) = (rs, m)"
  shows "\<exists>w'. run_ops (world_put st (LocalStore (d # ds))) (world_get st (LocalStore (d # ds))) (world_delete st (LocalStore (d # ds))) xs w = (rs, w')
    \<and> world_contents pid (d # ds) w' = m"
  using assms
proof (induction xs arbitrary: w rs)
  case (Cons x xs)
  let ?run = "run_op (world_put st (LocalStore (d # ds))) (world_get st (LocalStore (d # ds))) (world_delete st (LocalStore (d # ds)))"
  obtain up y where x: "x = (up, y)" by fastforce
  obtain r w1 where r: "?run up y w = (r, w1)" by fastforce
  have s: "spec_op up y (world_contents pid (d # ds) w) = (r, world_contents pid (d # ds) w1)"
    using world_op_spec [OF r] Cons.prems(1) by (simp add: x)
  obtain rs1 where "spec_ops xs (world_contents pid (d # ds) w1) = (rs1, m)" "rs = r # rs1"
    using Cons.prems(2) by (auto simp: x s split: prod.splits)
  then show ?case using Cons.IH [of w1 rs1] Cons.prems(1) by (auto simp: x r)
qed simp

subsection \<open>When nothing fails\<close>

text \<open>A directory that has only what the store puts there, and a system that lets every call succeed.\<close>

definition tidy_fs :: "string list \<Rightarrow> fs \<Rightarrow> bool" where
  "tidy_fs dir f \<longleftrightarrow> list_all (\<lambda>p. length p = length dir + 2) (map fst (fs_files f)) \<and> list_all (\<lambda>p. length p \<le> length dir + 1) (fs_dirs f)"

definition cooperative :: "os_answers \<Rightarrow> bool" where
  "cooperative os \<longleftrightarrow> os_mkdir os \<and> os_open os \<and> os_replace os \<and> os_unlink os \<and> os_write os = (\<lambda>_. True)"

lemma copy_cooperative: "os_write os = (\<lambda>_. True) \<Longrightarrow> fst (copy_chunks os n tmp cs f)"
  by (induction os n tmp cs f rule: copy_chunks.induct) simp_all

lemma tidy_file: "tidy_fs dir f \<Longrightarrow> is_file f p \<Longrightarrow> length p = length dir + 2"
  by (auto simp: tidy_fs_def is_file_def list_all_iff dest!: map_of_SomeD)

lemma tidy_write: "tidy_fs dir f \<Longrightarrow> length p = length dir + 2 \<Longrightarrow> tidy_fs dir (write_file p b f)"
  by (auto simp: tidy_fs_def write_file_def AList.update_keys)

lemma tidy_delete: "tidy_fs dir f \<Longrightarrow> tidy_fs dir (f\<lparr>fs_files := AList.delete p (fs_files f)\<rparr>)"
  by (auto simp: tidy_fs_def AList.delete_keys list_all_iff)

lemma tidy_copy: "copy_chunks os n tmp cs f = (ok, f') \<Longrightarrow> tidy_fs dir f \<Longrightarrow> length tmp = length dir + 2 \<Longrightarrow> tidy_fs dir f'"
  by (induction os n tmp cs f rule: copy_chunks.induct) (auto simp: tidy_write split: if_splits)

lemma ancestors_length: "d \<in> set (ancestors p) \<Longrightarrow> length d \<le> length p"
  by (auto simp: ancestors_def)

lemma tidy_make_dirs:
  assumes "make_dirs os p f = Some f'" "tidy_fs dir f" "length p \<le> length dir + 1"
  shows "tidy_fs dir f'"
proof -
  have "length d \<le> length dir + 1" if "d \<in> set (ancestors p)" for d using ancestors_length [OF that] assms(3) by simp
  then show ?thesis using assms(1,2) by (auto simp: make_dirs_def tidy_fs_def list_all_iff split: if_splits)
qed

lemma tidy_remove_dir: "tidy_fs dir f \<Longrightarrow> tidy_fs dir (remove_dir os p f)"
  by (auto simp: remove_dir_def tidy_fs_def list_all_iff)

lemma tidy_no_dir: "tidy_fs dir f \<Longrightarrow> length p = length dir + 2 \<Longrightarrow> p \<notin> set (fs_dirs f)"
  by (auto simp: tidy_fs_def list_all_iff)

lemma good_length: "good_key pid k \<Longrightarrow> length (py_split (CHR ''/'') k) = 2"
  by (elim good_keyE) simp

lemma make_dirs_tidy: "tidy_fs dir f \<Longrightarrow> os_mkdir os \<Longrightarrow> length p \<le> length dir + 1 \<Longrightarrow> make_dirs os p f \<noteq> None"
  using tidy_file ancestors_length by (fastforce simp: make_dirs_def list_ex_iff)

lemma local_put_tidy:
  assumes run: "local_put_file os pid dir key bytes f = (r, f')" and key: "good_key pid key" "dir \<noteq> []" and ok: "tidy_fs dir f"
  shows "tidy_fs dir f' \<and> (cooperative os \<longrightarrow> r = Inr ())"
proof -
  let ?dst = "dir @ py_split (CHR ''/'') key"
  let ?tmp = "tmp_path pid ?dst"
  note lp = good_local_path [OF key]
  have len: "length ?dst = length dir + 2" "length ?tmp = length dir + 2" "length (butlast ?dst) \<le> length dir + 1"
    using good_length [OF key(1)] by (simp_all add: tmp_path_def)
  show ?thesis
  proof (cases "make_dirs os (butlast ?dst) f")
    case None
    then show ?thesis using run ok make_dirs_tidy [OF ok _ len(3), of os] by (auto simp: local_put_file_def lp cooperative_def)
  next
    case (Some f1)
    note t1 = tidy_make_dirs [OF Some ok len(3)]
    obtain b f2 where c: "copy_chunks os 0 ?tmp (chunks bytes) (write_file ?tmp [] f1) = (b, f2)" by fastforce
    note t2 = tidy_copy [OF c tidy_write [OF t1 len(2)] len(2)]
    have "cooperative os \<Longrightarrow> b" using copy_cooperative [of os 0 ?tmp "chunks bytes" "write_file ?tmp [] f1"] c by (simp add: cooperative_def)
    moreover have "?dst \<noteq> []" "?tmp \<notin> set (fs_dirs f1)" "?dst \<notin> set (fs_dirs f2)"
      using key(2) tidy_no_dir [OF t1 len(2)] tidy_no_dir [OF t2 len(1)] by simp_all
    ultimately show ?thesis using run Some c t1 t2 tidy_write [OF tidy_delete [OF t2] len(1)]
      by (auto simp: local_put_file_def lp Let_def replace_file_def cooperative_def split: bool.splits if_splits)
  qed
qed

lemma local_delete_tidy:
  assumes run: "local_delete os dir key f = (r, f')" and key: "good_key pid key" "dir \<noteq> []" and ok: "tidy_fs dir f"
  shows "tidy_fs dir f' \<and> (cooperative os \<longrightarrow> r = Inr ())"
proof -
  have "length (dir @ py_split (CHR ''/'') key) = length dir + 2" using good_length [OF key(1)] by simp
  note d = tidy_no_dir [OF ok this]
  show ?thesis using run ok d tidy_remove_dir [OF ok] tidy_remove_dir [OF tidy_delete [OF ok]] tidy_delete [OF ok]
    by (auto simp: local_delete_def good_local_path [OF key] Let_def cooperative_def split: if_splits)
qed

definition local_run :: "string \<Rightarrow> string list \<Rightarrow> (os_answers \<times> store_op) list \<Rightarrow> fs \<Rightarrow> string res list \<times> fs" where
  "local_run pid dir = run_ops (\<lambda>os. local_put_file os pid dir) (\<lambda>os. local_open_stream dir) (\<lambda>os. local_delete os dir)"

definition world_run :: "settings \<Rightarrow> string list \<Rightarrow> (bool \<times> store_op) list \<Rightarrow> world \<Rightarrow> string res list \<times> world" where
  "world_run st dir = run_ops (world_put st (LocalStore dir)) (world_get st (LocalStore dir)) (world_delete st (LocalStore dir))"

lemma local_op_tidy:
  assumes "run_op (\<lambda>os. local_put_file os pid (d # ds)) (\<lambda>os. local_open_stream (d # ds)) (\<lambda>os. local_delete os (d # ds)) os x f = (r, f')"
    and "good_key pid (op_key x)" "tidy_fs (d # ds) f"
  shows "tidy_fs (d # ds) f' \<and> (cooperative os \<longrightarrow> spec_op True x (local_contents pid (d # ds) f) = (r, local_contents pid (d # ds) f'))"
proof -
  have s: "spec_op (\<not> isl r) x (local_contents pid (d # ds) f) = (r, local_contents pid (d # ds) f')"
    using local_store.op_refines [OF assms(1,2)] .
  show ?thesis
  proof (cases x)
    case (PutOp k b)
    obtain q where "local_put_file os pid (d # ds) k b f = (q, f')" "r = map_sum id (\<lambda>_. []) q"
      using assms(1) PutOp by (auto simp: apfst_def map_prod_def split: prod.splits)
    then show ?thesis using local_put_tidy [OF _ _ list.distinct(2), of os pid d ds k b f q f'] assms(2,3) s by (auto simp: PutOp)
  next
    case (GetOp k)
    have "f' = f" using assms(1) by (auto simp: GetOp local_open_stream_def split: sum.splits)
    moreover have "r = (case local_contents pid (d # ds) f k of None \<Rightarrow> Inl AgentStoreError | Some b \<Rightarrow> Inr b)"
      using assms(1,2) good_local_path [of pid k "d # ds"] chunks_concat
      by (auto simp: GetOp local_open_stream_def local_contents_def split: option.splits)
    ultimately show ?thesis using assms(3) by (simp add: GetOp split: option.splits)
  next
    case (DeleteOp k)
    obtain q where "local_delete os (d # ds) k f = (q, f')" "r = map_sum id (\<lambda>_. []) q"
      using assms(1) DeleteOp by (auto simp: apfst_def map_prod_def split: prod.splits)
    then show ?thesis using local_delete_tidy [OF _ _ list.distinct(2), of os d ds k f q f' pid] assms(2,3) s by (auto simp: DeleteOp)
  qed
qed

lemma local_run_tidy:
  "local_run pid (d # ds) xs f = (rs, f') \<Longrightarrow> list_all (\<lambda>x. good_key pid (op_key (snd x)) \<and> cooperative (fst x)) xs \<Longrightarrow> tidy_fs (d # ds) f \<Longrightarrow>
   spec_ops (map (\<lambda>x. (True, snd x)) xs) (local_contents pid (d # ds) f) = (rs, local_contents pid (d # ds) f')"
proof (induction xs arbitrary: f rs f')
  case (Cons x xs)
  let ?op = "run_op (\<lambda>os. local_put_file os pid (d # ds)) (\<lambda>os. local_open_stream (d # ds)) (\<lambda>os. local_delete os (d # ds))"
  obtain a y where x: "x = (a, y)" by fastforce
  obtain r f1 where r: "?op a y f = (r, f1)" by fastforce
  obtain rs1 f2 where rs: "local_run pid (d # ds) xs f1 = (rs1, f2)" by fastforce
  have "rs = r # rs1" "f' = f2" using Cons.prems(1) r rs by (simp_all add: x local_run_def)
  then show ?case using Cons.IH [OF rs] Cons.prems(2,3) local_op_tidy [OF r] by (simp add: x)
qed (simp add: local_run_def)

section \<open>Properties\<close>


definition willing :: os_answers where
  "willing = \<lparr>os_mkdir = True, os_open = True, os_write = (\<lambda>_. True), os_replace = True, os_unlink = True, os_rmdir = True\<rparr>"

text \<open>A build is stored; a second upload under its key runs out of space; the download still has the first.\<close>

definition sample_calls :: "(os_answers \<times> store_op) list" where
  "sample_calls = [(willing, PutOp ''b1/agent.exe'' ''MZ''), (willing\<lparr>os_write := (\<lambda>_. False)\<rparr>, PutOp ''b1/agent.exe'' ''XX''),
     (willing, GetOp ''b1/agent.exe'')]"

lemma sample_chunks: "chunks ''MZ'' = [''MZ'']" "chunks ''XX'' = [''XX'']"
  by (simp_all add: chunks.simps CHUNK_def)


end
