(* ===== verification/Request_Log.thy ===== *)
theory Request_Log
  imports Agent_Reports
begin

text \<open>
  \<^verbatim>\<open>app/logging.py\<close>: the configuration of the loggers and the middleware that, in a development environment, writes the
  body of every mutating request to the log with its secrets blanked. A text is its UTF-8 bytes; decoding with
  replacement, \<^verbatim>\<open>json.loads\<close> and \<^verbatim>\<open>json.dumps\<close> are the parameter \<open>codec\<close>. A request is received as ASGI messages.
\<close>

section \<open>Loggers\<close>

record log_config =
  lc_handlers :: "string list"
  lc_level :: string
  lc_levels :: "(string \<times> string) list"

definition configure_logging :: "settings \<Rightarrow> log_config \<Rightarrow> log_config" where
  "configure_logging st lc = lc\<lparr>
     lc_handlers := [if log_json st then ''%(asctime)s %(levelname)s %(name)s %(message)s''
                     else ''%(asctime)s %(levelname)-7s %(name)s: %(message)s''],
     lc_level := py_upper (log_level st),
     lc_levels := AList.update ''aiormq'' ''WARNING'' (AList.update ''aio_pika'' ''WARNING'' (lc_levels lc))\<rparr>"

section \<open>Redaction\<close>

definition REDACT_KEYS :: "string list" where
  "REDACT_KEYS = [''password'', ''secret'', ''token'', ''access_token'', ''refresh_token'', ''authorization'',
     ''client_secret'', ''session_secret'', ''api_key'']"

definition MAX_BODY :: nat where
  "MAX_BODY = 16384"

definition is_secret :: "string \<Rightarrow> bool" where
  "is_secret k \<longleftrightarrow> py_lower k \<in> set REDACT_KEYS"

fun redact :: "json \<Rightarrow> json" where
  "redact (JObj d) = JObj (map (\<lambda>kv. (fst kv, if is_secret (fst kv) then JStr ''***'' else redact (snd kv))) d)"
| "redact (JList vs) = JList (map redact vs)"
| "redact v = v"

section \<open>Requests\<close>

text \<open>One ASGI message of a request: a piece of the body and whether more follow, or the client has gone.\<close>

datatype asgi_message = HttpRequest string bool | HttpDisconnect

text \<open>\<^verbatim>\<open>await request.body()\<close>: the pieces up to the last one; \<open>None\<close> is the exception for a client that has gone.\<close>

fun request_body :: "asgi_message list \<Rightarrow> string option" where
  "request_body (HttpRequest b rest # ms) =
     (if rest then map_option (\<lambda>t. b @ t) (request_body ms) else Some b)"
| "request_body _ = None"

record http_request =
  rq_method :: string
  rq_path :: string
  rq_query :: string
  rq_content_type :: "string option"
  rq_messages :: "asgi_message list"

record codec =
  decode_utf8 :: "string \<Rightarrow> string"
  loads :: "string \<Rightarrow> json option"
  dumps :: "json \<Rightarrow> string"

text \<open>The text \<^verbatim>\<open>" ...(truncated)"\<close> starts with a space and the ellipsis character.\<close>

definition TRUNCATED :: string where
  "TRUNCATED = '' '' @ [CHR 0xE2, CHR 0x80, CHR 0xA6] @ ''(truncated)''"

definition NL :: string where
  "NL = [CHR 0x0A]"

definition rendered_body :: "codec \<Rightarrow> string option \<Rightarrow> string \<Rightarrow> string" where
  "rendered_body cd ctype body =
     (if py_contains (or_empty ctype) ''application/json''
      then case loads cd body of None \<Rightarrow> decode_utf8 cd body | Some j \<Rightarrow> dumps cd (redact j)
      else decode_utf8 cd body)"

definition log_entry :: "codec \<Rightarrow> http_request \<Rightarrow> string \<Rightarrow> string" where
  "log_entry cd rq raw =
     (let body = take MAX_BODY raw;
          truncated = (if MAX_BODY < length raw then TRUNCATED else [])
      in rq_method rq @ '' '' @ rq_path rq @ (if rq_query rq = [] then [] else ''?'' @ rq_query rq) @ NL
           @ rendered_body cd (rq_content_type rq) body @ truncated)"

definition MUTATING :: "string list" where
  "MUTATING = [''POST'', ''PUT'', ''PATCH'', ''DELETE'']"

definition replay :: "string \<Rightarrow> asgi_message list" where
  "replay body = [HttpRequest body False]"

text \<open>What the middleware passes on, and the lines it logs; \<open>None\<close> when reading the body raised.\<close>

definition dispatch :: "codec \<Rightarrow> http_request \<Rightarrow> (http_request \<times> string list) option" where
  "dispatch cd rq =
     (if rq_method rq \<in> set MUTATING
      then map_option (\<lambda>raw. (rq\<lparr>rq_messages := replay raw\<rparr>, if raw = [] then [] else [log_entry cd rq raw]))
             (request_body (rq_messages rq))
      else Some (rq, []))"

definition request_logging :: "settings \<Rightarrow> codec \<Rightarrow> http_request \<Rightarrow> (http_request \<times> string list) option" where
  "request_logging st cd rq = (if app_env st = ''dev'' then dispatch cd rq else Some (rq, []))"

section \<open>Lemmas\<close>

text \<open>Two values that agree everywhere but under secret keys.\<close>

fun same_public :: "json \<Rightarrow> json \<Rightarrow> bool" where
  "same_public (JObj d) (JObj e) \<longleftrightarrow> list_all2 (\<lambda>x y. fst x = fst y \<and> (is_secret (fst x) \<or> same_public (snd x) (snd y))) d e"
| "same_public (JList xs) (JList ys) \<longleftrightarrow> list_all2 same_public xs ys"
| "same_public x y \<longleftrightarrow> x = y"

text \<open>No value under a secret key but the blank.\<close>

fun blanked :: "json \<Rightarrow> bool" where
  "blanked (JObj d) \<longleftrightarrow> list_all (\<lambda>kv. if is_secret (fst kv) then snd kv = JStr ''***'' else blanked (snd kv)) d"
| "blanked (JList vs) \<longleftrightarrow> list_all blanked vs"
| "blanked v \<longleftrightarrow> True"

lemma redact_blanked: "blanked (redact j)"
  by (induction j rule: redact.induct) (auto simp: list_all_iff)

lemma redact_fixes: "blanked j \<Longrightarrow> redact j = j"
proof (induction j rule: redact.induct)
  case (1 d)
  then have "(fst kv, if is_secret (fst kv) then JStr ''***'' else redact (snd kv)) = kv" if "kv \<in> set d" for kv
    using that by (cases "is_secret (fst kv)") (auto simp: list_all_iff prod_eq_iff)
  then show ?case by (simp add: map_idI)
next
  case (2 vs)
  then show ?case by (simp add: list_all_iff map_idI)
qed simp_all

lemma redact_idem: "redact (redact j) = redact j"
  by (simp add: redact_fixes redact_blanked)

lemma redact_public: "same_public (redact j) j"
  by (induction j rule: redact.induct) (auto simp: list_all2_map1 list_all2_same)

lemma map_eq_list_all2: "map f xs = map g ys \<longleftrightarrow> list_all2 (\<lambda>x y. f x = g y) xs ys"
  by (simp add: list_all2_conv_all_nth list_eq_iff_nth_eq) auto

text \<open>Agreement on the public part is exactly what the redaction keeps.\<close>

lemma redact_same: "redact x = redact y \<longleftrightarrow> same_public x y"
proof (induction x y rule: same_public.induct)
  case (1 d e)
  then show ?case by (simp add: map_eq_list_all2) (rule list.rel_cong [OF refl refl], auto)
next
  case (2 xs ys)
  then show ?case by (simp add: map_eq_list_all2) (rule list.rel_cong [OF refl refl], auto)
qed (auto elim!: redact.elims elim!: redact.elims [OF sym])

lemma replayed: "request_body (replay b) = Some b"
  by (simp add: replay_def)

lemma passed_on:
  assumes "request_logging st cd rq = Some (rq', ls)" and "request_body (rq_messages rq) = Some b"
  shows "request_body (rq_messages rq') = Some b
    \<and> ls = (if app_env st = ''dev'' \<and> rq_method rq \<in> set MUTATING \<and> b \<noteq> [] then [log_entry cd rq b] else [])"
  using assms by (auto simp: request_logging_def dispatch_def replayed split: if_splits)

text \<open>A body longer than the limit is cut before it is parsed, so that it is logged as it came, secrets included; and the
  names of the API are in camel case, of which the list has none.\<close>

lemma long_body_unredacted:
  assumes "MAX_BODY < length raw" and "loads cd (take MAX_BODY raw) = None"
  shows "\<exists>head. log_entry cd rq raw = head @ decode_utf8 cd (take MAX_BODY raw) @ TRUNCATED"
  using assms by (auto simp: log_entry_def rendered_body_def Let_def)

lemma camel_keys_pass: "redact (JObj [(''clientSecret'', v)]) = JObj [(''clientSecret'', redact v)]"
  by (simp add: is_secret_def py_lower_def lower_char_def REDACT_KEYS_def)

section \<open>Properties\<close>

text \<open>C36: The request log keeps secrets and the requests pass unharmed. Two JSON requests within the size limit whose bodies agree
  everywhere but under the secret keys, at any depth, leave the same lines in the log; what is rendered has nothing but blanks under
  those keys; and the handler behind the logger reads the body the client sent, whatever the pieces it arrived in.\<close>

theorem request_log_hides_secrets:
  assumes r1: "request_logging st cd (rq\<lparr>rq_messages := ms1\<rparr>) = Some (rq1, ls1)" "request_body ms1 = Some b1" "loads cd b1 = Some j1"
    and r2: "request_logging st cd (rq\<lparr>rq_messages := ms2\<rparr>) = Some (rq2, ls2)" "request_body ms2 = Some b2" "loads cd b2 = Some j2"
    and fits: "length b1 \<le> MAX_BODY" "length b2 \<le> MAX_BODY" and ctype: "py_contains (or_empty (rq_content_type rq)) ''application/json''"
    and law: "loads cd [] = None" and pub: "same_public j1 j2"
  shows "ls1 = ls2 \<and> blanked (redact j1) \<and> same_public (redact j1) j1
    \<and> request_body (rq_messages rq1) = Some b1 \<and> request_body (rq_messages rq2) = Some b2"
proof -
  note p1 = passed_on [OF r1(1), of b1] and p2 = passed_on [OF r2(1), of b2]
  have "b1 \<noteq> []" "b2 \<noteq> []" using r1(3) r2(3) law by auto
  moreover have "redact j1 = redact j2" using pub by (simp add: redact_same)
  ultimately have "ls1 = ls2" using p1 p2 r1(2,3) r2(2,3) fits ctype by (simp add: log_entry_def rendered_body_def Let_def)
  then show ?thesis using p1 p2 r1(2) r2(2) redact_blanked [of j1] redact_public [of j1] by simp
qed

definition sample_codec :: codec where
  "sample_codec = \<lparr>decode_utf8 = (\<lambda>b. b), loads = (\<lambda>b. if b = [] then None else Some (JObj [(''name'', JStr ''x''), (''Password'', JStr b)])),
     dumps = (\<lambda>j. if blanked j then ''blank'' else ''leak'')\<rparr>"

definition sample_post :: http_request where
  "sample_post = \<lparr>rq_method = ''POST'', rq_path = ''/api/x'', rq_query = [], rq_content_type = Some ''application/json'', rq_messages = []\<rparr>"

theorem request_log_hides_secrets_witness:
  "\<exists>rq1 ls. request_logging default_settings sample_codec (sample_post\<lparr>rq_messages := [HttpRequest ''hun'' True, HttpRequest ''ter2'' False]\<rparr>) = Some (rq1, ls)
     \<and> ls \<noteq> [] \<and> request_body (rq_messages rq1) = Some ''hunter2''
     \<and> map_option snd (request_logging default_settings sample_codec (sample_post\<lparr>rq_messages := [HttpRequest ''swordfish'' False]\<rparr>)) = Some ls"
proof -
  let ?m1 = "[HttpRequest ''hun'' True, HttpRequest ''ter2'' False]" and ?m2 = "[HttpRequest ''swordfish'' False]"
  have dev: "app_env default_settings = ''dev''" by (simp add: default_settings_def)
  obtain rq1 ls1 where r1: "request_logging default_settings sample_codec (sample_post\<lparr>rq_messages := ?m1\<rparr>) = Some (rq1, ls1)" "ls1 \<noteq> []"
    by (simp add: request_logging_def dev dispatch_def sample_post_def MUTATING_def)
  obtain rq2 ls2 where r2: "request_logging default_settings sample_codec (sample_post\<lparr>rq_messages := ?m2\<rparr>) = Some (rq2, ls2)"
    by (simp add: request_logging_def dev dispatch_def sample_post_def MUTATING_def)
  have ctype: "py_contains (or_empty (rq_content_type sample_post)) ''application/json''" by (simp add: py_contains_def sample_post_def py_startswith_def)
  have secret: "is_secret ''Password''" by code_simp
  have "ls1 = ls2 \<and> request_body (rq_messages rq1) = Some ''hunter2''"
    using request_log_hides_secrets [OF r1(1) _ _ r2 _ _ _ _ ctype, of "''hunter2''" "JObj [(''name'', JStr ''x''), (''Password'', JStr ''hunter2'')]"
        "''swordfish''" "JObj [(''name'', JStr ''x''), (''Password'', JStr ''swordfish'')]"]
    by (simp add: sample_codec_def MAX_BODY_def secret)
  then show ?thesis using r1 r2 by auto
qed

end
