(* ===== verification/Http_App.thy ===== *)
theory Http_App
  imports Request_Log Vm_Routes Preflight Auth
begin

text \<open>
  \<^verbatim>\<open>app/api/errors.py\<close> and \<^verbatim>\<open>app/main.py\<close>: the errors routes raise with their messages, the handlers that turn every exception
  into a response, the request passing through the log and the handlers, and the start of the API. Starlette picks a handler by
  the class of the exception; what a handler itself raises goes to the outermost one, the handler of \<^verbatim>\<open>Exception\<close>.
\<close>

section \<open>Errors\<close>

record api_error =
  err_code :: string
  err_message :: string
  err_status :: nat
  err_details :: "jobj option"

definition not_found_error :: "string \<Rightarrow> api_error" where
  "not_found_error what = \<lparr>err_code = ''NOT_FOUND'', err_message = what @ '' not found'', err_status = 404, err_details = None\<rparr>"

definition forbidden_error :: "string \<Rightarrow> api_error" where
  "forbidden_error message = \<lparr>err_code = ''FORBIDDEN'', err_message = message, err_status = 403, err_details = None\<rparr>"

definition vm_locked_error :: "pyenv \<Rightarrow> string \<Rightarrow> jobj \<Rightarrow> api_error" where
  "vm_locked_error env vm_name lock =
     \<lparr>err_code = ''VM_LOCKED'',
      err_message = [CHR 0x27] @ vm_name @ [CHR 0x27] @ '' is busy - a '' @ py_str env (jget_default lock ''kind'' (JStr ''operation''))
        @ '' is already running on it. Wait for it to finish before trying again.'',
      err_status = 409, err_details = Some [(''lock'', JObj lock)]\<rparr>"

definition unauthorized_error :: "string \<Rightarrow> api_error" where
  "unauthorized_error message = \<lparr>err_code = ''UNAUTHENTICATED'', err_message = message, err_status = 401, err_details = None\<rparr>"

definition envelope :: "string \<Rightarrow> string \<Rightarrow> jobj option \<Rightarrow> json" where
  "envelope code message details =
     JObj [(''error'', JObj ([(''code'', JStr code), (''message'', JStr message)]
       @ (case details of Some (d # ds) \<Rightarrow> [(''details'', JObj (d # ds))] | _ \<Rightarrow> [])))]"

record http_response =
  resp_status :: nat
  resp_body :: json

section \<open>Handlers\<close>

text \<open>An entry of \<^verbatim>\<open>exc.errors()\<close>. Its context is JSON for the constraints of a field, and has the exception itself for an
  error a validator of the class raised.\<close>

datatype error_ctx = NoCtx | Ctx jobj | CtxException string

record field_error =
  ve_type :: string
  ve_loc :: "string list"
  ve_msg :: string
  ve_input :: json
  ve_ctx :: error_ctx

datatype http_exception =
    ApiFailure api_error
  | HttpFailure nat string
  | ValidationFailure "field_error list"
  | DbFailure string
  | OtherFailure string

text \<open>What \<^verbatim>\<open>JSONResponse\<close> makes of an entry: an exception object is not serialisable.\<close>

definition validation_json :: "field_error \<Rightarrow> json res" where
  "validation_json v =
     (let entry = [(''type'', JStr (ve_type v)), (''loc'', JList (map JStr (ve_loc v))), (''msg'', JStr (ve_msg v)), (''input'', ve_input v)]
      in case ve_ctx v of NoCtx \<Rightarrow> Inr (JObj entry) | Ctx c \<Rightarrow> Inr (JObj (entry @ [(''ctx'', JObj c)])) | CtxException _ \<Rightarrow> Inl TypeError)"

definition handle_api_error :: "api_error \<Rightarrow> http_response" where
  "handle_api_error e = \<lparr>resp_status = err_status e, resp_body = envelope (err_code e) (err_message e) (err_details e)\<rparr>"

definition http_code :: "nat \<Rightarrow> string" where
  "http_code n = (case map_of [(401, ''UNAUTHENTICATED''), (403, ''FORBIDDEN''), (404, ''NOT_FOUND''), (405, ''METHOD_NOT_ALLOWED'')] n of
     None \<Rightarrow> ''HTTP_ERROR'' | Some c \<Rightarrow> c)"

definition handle_http_error :: "nat \<Rightarrow> string \<Rightarrow> http_response" where
  "handle_http_error n detail = \<lparr>resp_status = n, resp_body = envelope (http_code n) detail None\<rparr>"

definition handle_validation_error :: "field_error list \<Rightarrow> http_response res" where
  "handle_validation_error vs = sbind (mapM validation_json vs) (\<lambda>js.
     Inr \<lparr>resp_status = 422, resp_body = envelope ''VALIDATION_ERROR'' ''Request validation failed'' (Some [(''errors'', JList js)])\<rparr>)"

definition handle_unhandled :: http_response where
  "handle_unhandled = \<lparr>resp_status = 500, resp_body = envelope ''INTERNAL'' ''Internal server error'' None\<rparr>"

definition handle_db_error :: "string \<Rightarrow> http_response" where
  "handle_db_error orig =
     (let detail = py_lower orig in
      if py_contains detail ''invalid uuid'' \<or> py_contains detail ''invalid input for query'' \<and> py_contains detail ''uuid''
      then \<lparr>resp_status = 404, resp_body = envelope ''NOT_FOUND'' ''Resource not found'' None\<rparr>
      else \<lparr>resp_status = 500, resp_body = envelope ''INTERNAL'' ''Internal server error'' None\<rparr>)"

definition error_response :: "http_exception \<Rightarrow> http_response" where
  "error_response e = (case e of
     ApiFailure a \<Rightarrow> handle_api_error a
   | HttpFailure n d \<Rightarrow> handle_http_error n d
   | ValidationFailure vs \<Rightarrow> (case handle_validation_error vs of Inr r \<Rightarrow> r | Inl _ \<Rightarrow> handle_unhandled)
   | DbFailure d \<Rightarrow> handle_db_error d
   | OtherFailure _ \<Rightarrow> handle_unhandled)"

section \<open>The application\<close>

text \<open>A request through the stack of \<^verbatim>\<open>create_app\<close>: the log outside, the exception handlers inside; the response and the
  lines logged. A client that goes away while its body is read is an exception of the outer part.\<close>

definition api_serve ::
  "settings \<Rightarrow> codec \<Rightarrow> (http_request \<Rightarrow> http_exception + http_response) \<Rightarrow> http_request \<Rightarrow> http_response \<times> string list"
where
  "api_serve st cd route rq = (case request_logging st cd rq of
     None \<Rightarrow> (handle_unhandled, [])
   | Some (rq', ls) \<Rightarrow> (case route rq' of Inr r \<Rightarrow> r | Inl e \<Rightarrow> error_response e, ls))"

text \<open>\<^verbatim>\<open>lifespan\<close>: serve after a preflight that passes, else end the process with code 1.\<close>

datatype startup = Serving | ExitCode nat | Crashed exn

definition lifespan :: "schema_env \<Rightarrow> settings \<Rightarrow> string option \<Rightarrow> (ident \<Rightarrow> string) \<Rightarrow> world \<Rightarrow> startup \<times> world" where
  "lifespan se st version passwords w = (case run_preflight se st version passwords w of
     (Inr _, w') \<Rightarrow> (Serving, w')
   | (Inl e, w') \<Rightarrow> (if e = PreflightError then ExitCode 1 else Crashed e, w'))"

section \<open>Lemmas\<close>

text \<open>The errors with their messages are the ones the routes raise.\<close>

definition erased :: "api_error \<Rightarrow> exn" where
  "erased e = ApiError (err_code e) (err_status e)"

lemma errors_erased:
  "erased (not_found_error x) = not_found" "erased (forbidden_error x) = forbidden"
  "erased (vm_locked_error env n l) = vm_locked" "erased (unauthorized_error x) = unauthorized"
  by (simp_all add: erased_def not_found_error_def not_found_def forbidden_error_def forbidden_def vm_locked_error_def vm_locked_def
      unauthorized_error_def unauthorized_def)

definition enveloped :: "http_response \<Rightarrow> bool" where
  "enveloped r \<longleftrightarrow> (\<exists>code message details. resp_body r = envelope code message details)"

lemma error_enveloped: "enveloped (error_response e)"
  by (auto simp: enveloped_def error_response_def handle_api_error_def handle_http_error_def handle_validation_error_def handle_unhandled_def
      handle_db_error_def sbind_def Let_def split: http_exception.split sum.split)

text \<open>A request that a validator of its class refuses, rather than a constraint of a field, is answered with 500: the
  exception in the context of the entry is not serialisable.\<close>

lemma mapM_Inl: "x \<in> set xs \<Longrightarrow> f x = Inl e \<Longrightarrow> \<exists>e'. mapM f xs = Inl e'"
  by (induction xs) (auto simp: sbind_def split: sum.split)

lemma class_validator_is_500:
  assumes "v \<in> set vs" "ve_ctx v = CtxException m"
  shows "error_response (ValidationFailure vs) = handle_unhandled"
proof -
  obtain e where "mapM validation_json vs = Inl e"
    using mapM_Inl [OF assms(1), of validation_json TypeError] assms(2) by (auto simp: validation_json_def Let_def)
  then show ?thesis by (simp add: error_response_def handle_validation_error_def sbind_def)
qed

lemma field_constraints_are_422:
  "(\<And>v. v \<in> set vs \<Longrightarrow> \<forall>m. ve_ctx v \<noteq> CtxException m) \<Longrightarrow> resp_status (error_response (ValidationFailure vs)) = 422"
proof -
  assume v: "\<And>v. v \<in> set vs \<Longrightarrow> \<forall>m. ve_ctx v \<noteq> CtxException m"
  have "\<exists>js. mapM validation_json vs = Inr js"
    using v by (induction vs) (auto simp: sbind_def validation_json_def Let_def split: error_ctx.splits sum.splits)
  then show ?thesis by (auto simp: error_response_def handle_validation_error_def sbind_def)
qed

lemma db_error_cases: "handle_db_error d = handle_unhandled \<or> handle_db_error d = handle_api_error (not_found_error ''Resource'')"
  by (simp add: handle_db_error_def handle_unhandled_def handle_api_error_def not_found_error_def Let_def)

definition from_class_validator :: "field_error \<Rightarrow> bool" where
  "from_class_validator v = (case ve_ctx v of CtxException _ \<Rightarrow> True | _ \<Rightarrow> False)"

section \<open>Properties\<close>



end
