(* ===== verification/Views.thy ===== *)
theory Views
  imports Vm_Routes
begin

text \<open>
  The rest of \<^verbatim>\<open>app/services/serializers.py\<close> and the response classes under \<^verbatim>\<open>app/schemas\<close>: the views of folders, tags, VLANs,
  images, tasks, metrics and audit events, and the parts of the view of a VM. A view that extends another extends its record. The
  views of hosts and VMs are in \<^verbatim>\<open>Serializers\<close> and \<^verbatim>\<open>Host_Routes\<close>.
\<close>

section \<open>Views that copy their row\<close>

record folder_view =
  FolderOut_id :: ident
  FolderOut_name :: string
  FolderOut_cluster_id :: "ident option"
  FolderOut_host_id :: "ident option"

definition folder_out :: "folder \<Rightarrow> folder_view" where
  "folder_out r = \<lparr>FolderOut_id = Folder_id r, FolderOut_name = Folder_name r, FolderOut_cluster_id = Folder_cluster_id r,
      FolderOut_host_id = Folder_host_id r\<rparr>"

record tag_category_view =
  TagCategoryOut_id :: ident
  TagCategoryOut_name :: string

definition tag_category_out :: "tag_category \<Rightarrow> tag_category_view" where
  "tag_category_out r = \<lparr>TagCategoryOut_id = TagCategory_id r, TagCategoryOut_name = TagCategory_name r\<rparr>"

record tag_view =
  TagOut_id :: ident
  TagOut_name :: string
  TagOut_category_id :: "ident option"
  TagOut_color :: string
  TagOut_vm_count :: nat

definition tag_view_out :: "tag \<Rightarrow> nat \<Rightarrow> tag_view" where
  "tag_view_out r n = \<lparr>TagOut_id = Tag_id r, TagOut_name = Tag_name r, TagOut_category_id = Tag_category_id r, TagOut_color = Tag_color
      r, TagOut_vm_count = n\<rparr>"

record vlan_view =
  VlanOut_id :: ident
  VlanOut_name :: string
  VlanOut_vlan_id :: int
  VlanOut_description :: "string option"
  VlanOut_is_default :: bool
  VlanOut_cluster_id :: "ident option"
  VlanOut_host_id :: "ident option"

definition vlan_out :: "vlan \<Rightarrow> vlan_view" where
  "vlan_out r = \<lparr>VlanOut_id = Vlan_id r, VlanOut_name = Vlan_name r, VlanOut_vlan_id = Vlan_vlan_id r, VlanOut_description =
      Vlan_description r, VlanOut_is_default = Vlan_is_default r, VlanOut_cluster_id = Vlan_cluster_id r,
      VlanOut_host_id = Vlan_host_id r\<rparr>"

record template_view =
  TemplateOut_id :: ident
  TemplateOut_host_id :: ident
  TemplateOut_name :: string
  TemplateOut_path :: string
  TemplateOut_size_bytes :: int
  TemplateOut_disk_size_bytes :: int
  TemplateOut_notes :: "string option"
  TemplateOut_cpu_count :: int
  TemplateOut_memory_mb :: int
  TemplateOut_guest_os :: "string option"
  TemplateOut_created_at :: "instant option"

definition template_out :: "template \<Rightarrow> template_view" where
  "template_out r = \<lparr>TemplateOut_id = Template_id r, TemplateOut_host_id = Template_host_id r, TemplateOut_name = Template_name r,
      TemplateOut_path = Template_path r, TemplateOut_size_bytes = Template_size_bytes r, TemplateOut_disk_size_bytes
      = Template_disk_size_bytes r, TemplateOut_notes = Template_notes r, TemplateOut_cpu_count = Template_cpu_count
      r, TemplateOut_memory_mb = Template_memory_mb r, TemplateOut_guest_os = Template_guest_os r,
      TemplateOut_created_at = Template_image_created_at r\<rparr>"

record iso_view =
  IsoOut_id :: ident
  IsoOut_host_id :: ident
  IsoOut_name :: string
  IsoOut_path :: string
  IsoOut_size_bytes :: int
  IsoOut_checksum :: "string option"

definition iso_out :: "iso \<Rightarrow> iso_view" where
  "iso_out r = \<lparr>IsoOut_id = Iso_id r, IsoOut_host_id = Iso_host_id r, IsoOut_name = Iso_name r, IsoOut_path = Iso_path r,
      IsoOut_size_bytes = Iso_size_bytes r, IsoOut_checksum = Iso_checksum r\<rparr>"

record host_metric_view =
  HostMetricOut_ts :: instant
  HostMetricOut_cpu_percent :: "pyfloat option"
  HostMetricOut_mem_percent :: "pyfloat option"
  HostMetricOut_disk_latency_ms :: "pyfloat option"
  HostMetricOut_net_rx_bps :: "int option"
  HostMetricOut_net_tx_bps :: "int option"
  HostMetricOut_detail :: "json option"

definition host_metric_out :: "host_metric \<Rightarrow> host_metric_view" where
  "host_metric_out r = \<lparr>HostMetricOut_ts = HostMetric_ts r, HostMetricOut_cpu_percent = HostMetric_cpu_percent r,
      HostMetricOut_mem_percent = HostMetric_mem_percent r, HostMetricOut_disk_latency_ms = HostMetric_disk_latency_ms
      r, HostMetricOut_net_rx_bps = HostMetric_net_rx_bps r, HostMetricOut_net_tx_bps = HostMetric_net_tx_bps r,
      HostMetricOut_detail = HostMetric_detail r\<rparr>"

record vm_metric_view =
  VmMetricOut_ts :: instant
  VmMetricOut_cpu_percent :: "pyfloat option"
  VmMetricOut_mem_bytes :: "int option"
  VmMetricOut_disk_bytes :: "int option"
  VmMetricOut_net_rx_bytes :: "int option"
  VmMetricOut_net_tx_bytes :: "int option"
  VmMetricOut_detail :: "json option"

definition vm_metric_out :: "vm_metric \<Rightarrow> vm_metric_view" where
  "vm_metric_out r = \<lparr>VmMetricOut_ts = VmMetric_ts r, VmMetricOut_cpu_percent = VmMetric_cpu_percent r, VmMetricOut_mem_bytes =
      VmMetric_mem_bytes r, VmMetricOut_disk_bytes = VmMetric_disk_bytes r, VmMetricOut_net_rx_bytes =
      VmMetric_net_rx_bytes r, VmMetricOut_net_tx_bytes = VmMetric_net_tx_bytes r, VmMetricOut_detail =
      VmMetric_detail r\<rparr>"

section \<open>Tasks\<close>

record task_view =
  TaskOut_id :: ident
  TaskOut_kind :: string
  TaskOut_status :: string
  TaskOut_target_type :: string
  TaskOut_target_id :: ident
  TaskOut_target_name :: "string option"
  TaskOut_requested_by :: string
  TaskOut_progress :: "int option"
  TaskOut_progress_message :: "string option"
  TaskOut_created_at :: instant
  TaskOut_started_at :: "instant option"
  TaskOut_finished_at :: "instant option"
  TaskOut_result :: "string option"
  TaskOut_error :: "string option"
  TaskOut_correlation_id :: "ident option"

definition task_out :: "task \<Rightarrow> task_view" where
  "task_out t = \<lparr>TaskOut_id = Task_id t, TaskOut_kind = Task_kind t, TaskOut_status = Task_status t, TaskOut_target_type =
      Task_target_type t, TaskOut_target_id = Task_target_id t, TaskOut_target_name = Task_target_name t,
      TaskOut_requested_by = Task_requested_by t, TaskOut_progress = Task_progress t, TaskOut_progress_message =
      Task_progress_message t, TaskOut_created_at = Task_created_at t, TaskOut_started_at = Task_started_at t,
      TaskOut_finished_at = Task_finished_at t, TaskOut_result = Task_result t, TaskOut_error = Task_error t,
      TaskOut_correlation_id = Task_correlation_id t\<rparr>"

text \<open>The view of one task also has the messages exchanged with the agent.\<close>

record task_detail_view = task_view +
  TaskOut_request_payload :: "json option"
  TaskOut_response_payload :: "json option"

definition task_detail_out :: "task \<Rightarrow> task_detail_view" where
  "task_detail_out t = task_view.extend (task_out t)
     (task_detail_view.fields (Task_request_payload t) (Task_response_payload t))"

section \<open>Audit events\<close>

record audit_view =
  AuditOut_id :: ident
  AuditOut_occurred_at :: instant
  AuditOut_actor_type :: string
  AuditOut_actor_email :: "string option"
  AuditOut_actor_name :: "string option"
  AuditOut_action :: string
  AuditOut_target_type :: string
  AuditOut_target_id :: "ident option"
  AuditOut_target_name :: "string option"
  AuditOut_host_id :: "ident option"
  AuditOut_cluster_id :: "ident option"
  AuditOut_task_id :: "ident option"
  AuditOut_outcome :: string
  AuditOut_error :: "string option"
  AuditOut_details :: "json option"

definition audit_event_out :: "audit_event \<Rightarrow> audit_view" where
  "audit_event_out e = \<lparr>AuditOut_id = AuditEvent_id e, AuditOut_occurred_at = AuditEvent_occurred_at e, AuditOut_actor_type =
      AuditEvent_actor_type e, AuditOut_actor_email = AuditEvent_actor_email e, AuditOut_actor_name =
      AuditEvent_actor_name e, AuditOut_action = AuditEvent_action e, AuditOut_target_type = AuditEvent_target_type e,
      AuditOut_target_id = AuditEvent_target_id e, AuditOut_target_name = AuditEvent_target_name e, AuditOut_host_id =
      AuditEvent_host_id e, AuditOut_cluster_id = AuditEvent_cluster_id e, AuditOut_task_id = AuditEvent_task_id e,
      AuditOut_outcome = AuditEvent_outcome e, AuditOut_error = AuditEvent_error e, AuditOut_details =
      AuditEvent_details e\<rparr>"

section \<open>The parts of a VM\<close>

record memory_view =
  MemoryOut_assigned_bytes :: int
  MemoryOut_min_bytes :: "int option"
  MemoryOut_max_bytes :: "int option"
  MemoryOut_dynamic :: bool
  MemoryOut_demand_bytes :: "int option"

definition memory_out :: "vm \<Rightarrow> memory_view" where
  "memory_out v = \<lparr>MemoryOut_assigned_bytes = Vm_memory_bytes v, MemoryOut_min_bytes = Vm_memory_min_bytes v,
     MemoryOut_max_bytes = Vm_memory_max_bytes v, MemoryOut_dynamic = Vm_memory_dynamic v,
     MemoryOut_demand_bytes = Vm_memory_demand_bytes v\<rparr>"

record snapshot_view =
  SnapshotOut_id :: string
  SnapshotOut_name :: string
  SnapshotOut_created_at :: "instant option"
  SnapshotOut_parent_id :: "string option"
  SnapshotOut_type :: "string option"

definition snapshot_out :: "vm_snapshot \<Rightarrow> snapshot_view" where
  "snapshot_out s = \<lparr>SnapshotOut_id = VmSnapshot_snapshot_id s, SnapshotOut_name = VmSnapshot_name s,
     SnapshotOut_created_at = VmSnapshot_snapshot_created_at s, SnapshotOut_parent_id = VmSnapshot_parent_snapshot_id s,
     SnapshotOut_type = VmSnapshot_snapshot_type s\<rparr>"

text \<open>The body of a response with every field of \<^verbatim>\<open>VmOut\<close>: \<open>vm_view\<close> keeps the row where the serializer copies columns, and this says which.\<close>

record vm_body =
  VmBody_id :: ident
  VmBody_vm_uuid :: "string option"
  VmBody_host_id :: ident
  VmBody_folder_id :: "ident option"
  VmBody_name :: string
  VmBody_state :: string
  VmBody_last_seen :: "instant option"
  VmBody_firmware :: string
  VmBody_guest_os :: "string option"
  VmBody_uptime_sec :: "int option"
  VmBody_vcpu :: int
  VmBody_cpu_usage_percent :: "pyfloat option"
  VmBody_memory :: memory_view
  VmBody_disks :: "disk_view list"
  VmBody_nics :: "nic_view list"
  VmBody_snapshots :: "snapshot_view list"
  VmBody_secure_boot :: "bool option"
  VmBody_secure_boot_template :: "string option"
  VmBody_nested_virtualization :: bool
  VmBody_auto_start_action :: "string option"
  VmBody_auto_start_delay_sec :: "int option"
  VmBody_auto_stop_action :: "string option"
  VmBody_config_path :: "string option"
  VmBody_dvd_path :: "string option"
  VmBody_highly_available :: bool
  VmBody_notes :: "string option"
  VmBody_tag_ids :: "ident list"
  VmBody_metrics_enabled :: bool
  VmBody_created_at :: "instant option"
  VmBody_lock :: "lock_info option"

definition vm_body_of :: "vm_view \<Rightarrow> vm_body" where
  "vm_body_of x = (let v = VmOut_columns x in
     \<lparr>VmBody_id = Vm_id v, VmBody_vm_uuid = Vm_vm_uuid v, VmBody_host_id = Vm_host_id v,
      VmBody_folder_id = Vm_folder_id v, VmBody_name = Vm_name v, VmBody_state = VmOut_state x,
      VmBody_last_seen = Vm_last_inventory_at v, VmBody_firmware = VmOut_firmware x, VmBody_guest_os = Vm_guest_os v,
      VmBody_uptime_sec = Vm_uptime_sec v, VmBody_vcpu = Vm_vcpu v,
      VmBody_cpu_usage_percent = Vm_cpu_usage_percent v, VmBody_memory = memory_out v, VmBody_disks = VmOut_disks x,
      VmBody_nics = VmOut_nics x, VmBody_snapshots = map snapshot_out (Vm_snapshots v),
      VmBody_secure_boot = Vm_secure_boot v, VmBody_secure_boot_template = Vm_secure_boot_template v,
      VmBody_nested_virtualization = Vm_nested_virtualization v, VmBody_auto_start_action = Vm_auto_start_action v,
      VmBody_auto_start_delay_sec = Vm_auto_start_delay_sec v, VmBody_auto_stop_action = Vm_auto_stop_action v,
      VmBody_config_path = Vm_config_path v, VmBody_dvd_path = Vm_dvd_path v,
      VmBody_highly_available = Vm_highly_available v, VmBody_notes = Vm_notes v, VmBody_tag_ids = VmOut_tag_ids x,
      VmBody_metrics_enabled = Vm_metrics_enabled v, VmBody_created_at = Vm_vm_created_at v,
      VmBody_lock = VmOut_lock x\<rparr>)"

section \<open>What views leave out\<close>

text \<open>The view of a host does not depend on its broker credentials, and the list of tasks not on
  the messages exchanged with the agent.\<close>

lemma host_view_hides_credentials:
  "host_out st now (h\<lparr>Host_agent_rmq_user := u, Host_agent_rmq_password := p\<rparr>) n = host_out st now h n"
  "host_detail_out env validate st now (h\<lparr>Host_agent_rmq_user := u, Host_agent_rmq_password := p\<rparr>) n = host_detail_out env validate st now h n"
  by (simp_all add: host_detail_out_def host_out_def agent_status_def agent_connected_def)

lemma task_view_hides_messages:
  "task_out (t\<lparr>Task_request_payload := q, Task_response_payload := p\<rparr>) = task_out t"
  "task_view.truncate (task_detail_out t) = task_out t"
  by (simp_all add: task_out_def task_detail_out_def task_view.defs task_detail_view.defs)

text \<open>The body of a VM does not say in which cluster it is, and shows the reported state only as the overlay and the host allow: under an
  overlay, or on a host that is offline, two rows that differ in it alone look the same.\<close>

lemma vm_body_hides:
  "vm_body_of (vm_out db (v\<lparr>Vm_cluster_id := c\<rparr>) ov l off) = vm_body_of (vm_out db v ov l off)"
  "off \<or> opt_truthy ov \<Longrightarrow> vm_body_of (vm_out db (v\<lparr>Vm_state := s\<rparr>) ov l off) = vm_body_of (vm_out db v ov l off)"
  by (auto simp: vm_body_of_def vm_out_def memory_out_def Let_def)

text \<open>Nothing else is lost: rows with the same parts and the same body, in the same cluster, with no overlay, on a host that is online
  and with a firmware set, are the same row up to the columns the parts do not show.\<close>

lemma vm_body_faithful:
  assumes "vm_body_of (vm_out db v None l False) = vm_body_of (vm_out db v' None l' False)"
    and "Vm_cluster_id v = Vm_cluster_id v'" "Vm_firmware v \<noteq> []" "Vm_firmware v' \<noteq> []"
  shows "v\<lparr>Vm_disks := [], Vm_nics := [], Vm_snapshots := []\<rparr> = v'\<lparr>Vm_disks := [], Vm_nics := [], Vm_snapshots := []\<rparr>"
  using assms by (cases v; cases v') (simp add: vm_body_of_def vm_out_def memory_out_def Let_def)

end
