(* ===== verification/Oidc.thy ===== *)
theory Oidc
  imports Auth Audit_Log
begin

text \<open>
  The verification of bearer tokens in \<^verbatim>\<open>app/api/deps.py\<close>: the choice of the signing key, its refresh when the provider
  has rotated its keys, and the decoding of the token. PyJWT is the parameter \<open>lib\<close> (\<open>None\<close> is a \<^verbatim>\<open>PyJWTError\<close>), and what a
  download of the keys returns is part of a call (\<open>None\<close> when it raises). Times of the monotonic clock are in seconds.
\<close>

section \<open>Definitions\<close>

record jwk =
  jwk_id :: "string option"
  jwk_algorithm :: string

record jwt_lib =
  unverified_kid :: "string \<Rightarrow> string option option"
  key_set :: "json \<Rightarrow> jwk list option"
  jwt_decode :: "string \<Rightarrow> jwk \<Rightarrow> string list \<Rightarrow> string option \<Rightarrow> string option \<Rightarrow> bool \<Rightarrow> jobj option"

type_synonym jwks_cache = "int \<times> json option"

definition find_key :: "jwt_lib \<Rightarrow> json \<Rightarrow> string option \<Rightarrow> jwk option option" where
  "find_key lib jwks kid = map_option (\<lambda>keys. case kid of
     None \<Rightarrow> (case keys of [k] \<Rightarrow> Some k | _ \<Rightarrow> None)
   | Some i \<Rightarrow> List.find (\<lambda>k. jwk_id k = Some i) keys) (key_set lib jwks)"

text \<open>\<^verbatim>\<open>_get_jwks\<close> with a download that may fail, and the times of the downloads it made.\<close>

definition load_jwks :: "settings \<Rightarrow> bool \<Rightarrow> int \<Rightarrow> json option \<Rightarrow> jwks_cache \<Rightarrow> (json res \<times> int list) \<times> jwks_cache" where
  "load_jwks st force now fetched cache =
     (let ((doc, downloaded), cache') = get_jwks st force now (case fetched of None \<Rightarrow> JNull | Some d \<Rightarrow> d) cache in
      if downloaded \<and> fetched = None then ((Inl RuntimeError, [now]), cache)
      else ((Inr doc, if downloaded then [now] else []), cache'))"

text \<open>A request with a token: when its keys are looked up and looked up again, and what the provider would serve.\<close>

record oidc_call =
  oc_token :: string
  oc_now :: int
  oc_fetched :: "json option"
  oc_later :: int
  oc_refetched :: "json option"

definition decode_token :: "jwt_lib \<Rightarrow> settings \<Rightarrow> string \<Rightarrow> jwk \<Rightarrow> jobj res" where
  "decode_token lib st token key =
     (case jwt_decode lib token key [jwk_algorithm key] (none_if_empty (oidc_audience st)) (none_if_empty (oidc_issuer st))
        (oidc_audience st \<noteq> []) of None \<Rightarrow> Inl unauthorized | Some claims \<Rightarrow> Inr claims)"

definition verify_oidc :: "jwt_lib \<Rightarrow> settings \<Rightarrow> oidc_call \<Rightarrow> jwks_cache \<Rightarrow> (jobj res \<times> int list) \<times> jwks_cache" where
  "verify_oidc lib st call cache =
     (if oidc_jwks_url st = [] then ((Inl unauthorized, []), cache)
      else case unverified_kid lib (oc_token call) of
        None \<Rightarrow> ((Inl unauthorized, []), cache)
      | Some kid \<Rightarrow>
          (case load_jwks st False (oc_now call) (oc_fetched call) cache of
             ((Inl e, ts), c) \<Rightarrow> ((Inl e, ts), c)
           | ((Inr doc, ts), c) \<Rightarrow>
               (case find_key lib doc kid of
                  None \<Rightarrow> ((Inl unauthorized, ts), c)
                | Some (Some key) \<Rightarrow> ((decode_token lib st (oc_token call) key, ts), c)
                | Some None \<Rightarrow>
                    (case load_jwks st True (oc_later call) (oc_refetched call) c of
                       ((Inl e, ts2), c2) \<Rightarrow> ((Inl e, ts @ ts2), c2)
                     | ((Inr doc2, ts2), c2) \<Rightarrow>
                         (case find_key lib doc2 kid of
                            Some (Some key) \<Rightarrow> ((decode_token lib st (oc_token call) key, ts @ ts2), c2)
                          | _ \<Rightarrow> ((Inl unauthorized, ts @ ts2), c2))))))"

text \<open>A sequence of requests: the times of all their downloads.\<close>

fun verify_all :: "jwt_lib \<Rightarrow> settings \<Rightarrow> oidc_call list \<Rightarrow> jwks_cache \<Rightarrow> int list \<times> jwks_cache" where
  "verify_all lib st [] cache = ([], cache)"
| "verify_all lib st (call # calls) cache =
     (let ((_, ts), c) = verify_oidc lib st call cache; (ts2, c2) = verify_all lib st calls c in (ts @ ts2, c2))"

section \<open>Lemmas\<close>

text \<open>The documents a call may look into.\<close>

definition served :: "oidc_call \<Rightarrow> jwks_cache \<Rightarrow> json \<Rightarrow> bool" where
  "served call cache doc \<longleftrightarrow> snd cache = Some doc \<or> oc_fetched call = Some doc \<or> oc_refetched call = Some doc"

lemma load_jwks_doc:
  assumes "load_jwks st force now fetched cache = ((Inr doc, ts), c)"
  shows "(snd cache = Some doc \<or> fetched = Some doc) \<and> snd c = Some doc"
  using assms by (auto simp: load_jwks_def get_jwks_def Let_def split: option.splits if_splits)

lemma find_mem: "List.find P xs = Some x \<Longrightarrow> x \<in> set xs"
  by (induction xs) (auto split: if_splits)

lemma find_key_in: "find_key lib doc kid = Some (Some key) \<Longrightarrow> \<exists>keys. key_set lib doc = Some keys \<and> key \<in> set keys"
proof (cases kid)
  case None
  assume "find_key lib doc kid = Some (Some key)"
  then obtain keys where "key_set lib doc = Some keys" "(case keys of [k] \<Rightarrow> Some k | _ \<Rightarrow> None) = Some key"
    using None by (auto simp: find_key_def)
  then show ?thesis by (cases keys; cases "tl keys") auto
next
  case (Some i)
  assume "find_key lib doc kid = Some (Some key)"
  then show ?thesis using Some find_mem by (auto simp: find_key_def)
qed

lemma verify_oidc_key:
  assumes "verify_oidc lib st call cache = ((Inr claims, ts), c)"
  obtains doc keys key where "served call cache doc" "key_set lib doc = Some keys" "key \<in> set keys"
    "decode_token lib st (oc_token call) key = Inr claims"
proof -
  obtain doc kid key where "served call cache doc" "find_key lib doc kid = Some (Some key)" "decode_token lib st (oc_token call) key = Inr claims"
    using assms unfolding verify_oidc_def served_def
    by (auto split: if_splits option.splits sum.splits prod.splits dest!: load_jwks_doc)
  then show ?thesis using that find_key_in by blast
qed

lemma created_email: "get_or_create_user race uid gid email nm rs g db = Inr (u, db') \<Longrightarrow> User_email u = email"
  by (auto simp: get_or_create_user_def sbind_eq_Inr set_user_roles_def Let_def new_user_def dest!: find_or_insert_email
      split: if_splits option.splits prod.splits)

lemma current_user_claims:
  assumes "get_current_user pe st verify race uid gid header db = Inr (u, db')" and "auth_mode st \<noteq> ''stub''"
  obtains token claims where "bearer_token header = Some token" "token \<noteq> []" "verify token = Inr claims"
    "jor (jget claims ''email'') (jget claims ''sub'') = JStr (User_email u)"
proof -
  obtain token claims email where t: "bearer_token header = Some token" "token \<noteq> []" "verify token = Inr claims"
      "text_claim (jor (jget claims ''email'') (jget claims ''sub'')) = Inr email" "User_email u = email"
    using assms by (auto simp: get_current_user_def sbind_eq_Inr split: option.splits if_splits dest!: created_email)
  then have "jor (jget claims ''email'') (jget claims ''sub'') = JStr (User_email u)"
    by (cases "jor (jget claims ''email'') (jget claims ''sub'')") auto
  then show ?thesis using that t by blast
qed

subsection \<open>Downloads\<close>

text \<open>Downloads at least \<open>m\<close> apart, the first of them that long after the one the cache has.\<close>

definition paced :: "int \<Rightarrow> jwks_cache \<Rightarrow> int list \<Rightarrow> jwks_cache \<Rightarrow> bool" where
  "paced m cache ts c \<longleftrightarrow> sorted_wrt (\<lambda>a b. a + m \<le> b) ts \<and> (snd cache \<noteq> None \<longrightarrow> list_all (\<lambda>t. fst cache + m \<le> t) ts)
     \<and> (if ts = [] then c = cache else snd c \<noteq> None \<and> fst c = last ts)"

lemma spaced_last: "sorted_wrt (\<lambda>a b. a + m \<le> b) ts \<Longrightarrow> 0 \<le> (m::int) \<Longrightarrow> t \<in> set ts \<Longrightarrow> t \<le> last ts"
proof (induction ts)
  case (Cons a ts)
  have "a \<le> last ts" if "ts \<noteq> []" using last_in_set [OF that] Cons.prems(1,2) by force
  then show ?case using Cons by auto
qed simp

lemma paced_trans:
  assumes "paced m c0 ts c1" "paced m c1 us c2" "0 \<le> m"
  shows "paced m c0 (ts @ us) c2"
proof (cases "ts = []")
  case False
  have u: "list_all (\<lambda>t. last ts + m \<le> t) us" using assms(1,2) False by (simp add: paced_def)
  have t: "t \<le> last ts" if "t \<in> set ts" for t using spaced_last [OF _ assms(3) that] assms(1) by (simp add: paced_def)
  have "t + m \<le> v" if "t \<in> set ts" "v \<in> set us" for t v using t [OF that(1)] u that(2) by (force simp: list_all_iff)
  moreover have "fst c0 + m \<le> v" if "snd c0 \<noteq> None" "v \<in> set us" for v
  proof -
    have "fst c0 + m \<le> last ts" "last ts + m \<le> v" using assms(1) False u that by (simp_all add: paced_def list_all_iff)
    then show ?thesis using assms(3) by simp
  qed
  ultimately show ?thesis using assms(1,2) False by (auto simp: paced_def sorted_wrt_append list_all_iff split: if_splits)
qed (use assms in \<open>simp add: paced_def\<close>)

definition refresh_floor :: "settings \<Rightarrow> int" where
  "refresh_floor st = min JWKS_MIN_REFRESH_SECONDS (oidc_jwks_ttl_seconds st)"

lemma load_paced: "load_jwks st force now (Some d) cache = ((r, ts), c) \<Longrightarrow> paced (refresh_floor st) cache ts c"
  by (cases cache) (auto simp: load_jwks_def get_jwks_def paced_def refresh_floor_def Let_def split: option.splits if_splits)

lemma verify_paced:
  assumes "verify_oidc lib st call cache = ((r, ts), c)" "oc_fetched call \<noteq> None" "oc_refetched call \<noteq> None" "0 \<le> refresh_floor st"
  shows "paced (refresh_floor st) cache ts c"
proof -
  obtain d e where de: "oc_fetched call = Some d" "oc_refetched call = Some e" using assms(2,3) by auto
  have none: "paced (refresh_floor st) cache [] cache" by (simp add: paced_def)
  obtain r1 ts1 c1 where l1: "load_jwks st False (oc_now call) (Some d) cache = ((r1, ts1), c1)" by (metis prod.exhaust)
  obtain r2 ts2 c2 where l2: "load_jwks st True (oc_later call) (Some e) c1 = ((r2, ts2), c2)" by (metis prod.exhaust)
  have "(ts, c) \<in> {([], cache), (ts1, c1), (ts1 @ ts2, c2)}"
    using assms(1) unfolding verify_oidc_def de l1 by (auto simp: l2 split: if_splits option.splits sum.splits)
  then show ?thesis using none load_paced [OF l1] paced_trans [OF load_paced [OF l1] load_paced [OF l2] assms(4)] by auto
qed

lemma verify_all_paced:
  assumes "verify_all lib st calls cache = (ts, c)" "list_all (\<lambda>k. oc_fetched k \<noteq> None \<and> oc_refetched k \<noteq> None) calls" "0 \<le> refresh_floor st"
  shows "paced (refresh_floor st) cache ts c"
  using assms(1,2)
proof (induction calls arbitrary: cache ts)
  case (Cons k ks)
  obtain r ts1 c1 where v: "verify_oidc lib st k cache = ((r, ts1), c1)" by (metis prod.exhaust)
  obtain ts2 where a: "verify_all lib st ks c1 = (ts2, c)" "ts = ts1 @ ts2" using Cons.prems(1) by (auto simp: v split: prod.splits)
  show ?case using paced_trans [OF verify_paced [OF v] Cons.IH [OF a(1)] assms(3)] Cons.prems(2) assms(3) a(2) by simp
qed (simp add: paced_def)

lemma spaced_length: "sorted_wrt (\<lambda>a b. a + m \<le> b) ts \<Longrightarrow> ts \<noteq> [] \<Longrightarrow> hd ts + int (length ts - 1) * m \<le> last ts"
proof (induction ts)
  case (Cons t ts)
  show ?case
  proof (cases ts)
    case (Cons u us)
    then have "hd ts + int (length ts - 1) * m \<le> last ts" "t + m \<le> hd ts" using Cons.IH Cons.prems(1) local.Cons by auto
    then show ?thesis using Cons by (simp add: algebra_simps)
  qed simp
qed simp

lemma spaced_window:
  assumes "sorted_wrt (\<lambda>a b. a + m \<le> b) ts" "0 < m" "lo \<le> hi"
  shows "int (length (filter (\<lambda>t. lo \<le> t \<and> t \<le> hi) ts)) \<le> 1 + (hi - lo) div m"
proof -
  let ?w = "filter (\<lambda>t. lo \<le> t \<and> t \<le> hi) ts"
  have s: "sorted_wrt (\<lambda>a b. a + m \<le> b) ?w" using assms(1) by (rule sorted_wrt_filter)
  show ?thesis
  proof (cases "?w = []")
    case False
    have "lo \<le> hd ?w" "last ?w \<le> hi" using hd_in_set [OF False] last_in_set [OF False] by auto
    then have "int (length ?w - 1) * m \<le> hi - lo" using spaced_length [OF s False] by linarith
    then have "int (length ?w - 1) \<le> (hi - lo) div m" using zdiv_mono1 [of "int (length ?w - 1) * m" "hi - lo" m] assms(2) by simp
    then show ?thesis using False by (simp add: of_nat_diff Suc_le_eq)
  qed (use assms in \<open>simp add: pos_imp_zdiv_nonneg_iff\<close>)
qed

text \<open>The floor is only kept by downloads that succeed: while the provider fails, every request asks it again.\<close>

lemma failing_provider_not_paced:
  assumes "oidc_jwks_url st \<noteq> []" "unverified_kid lib (oc_token k) = Some kid" "oc_fetched k = None"
  shows "verify_all lib st (replicate n k) (0, None) = (replicate n (oc_now k), (0, None))"
  using assms by (induction n) (simp_all add: verify_oidc_def load_jwks_def get_jwks_def)

section \<open>Properties\<close>

text \<open>What PyJWT documents of a successful decode: the signature verifies under the key, with one of the algorithms, and the
  issuer and the audience asked for are those of the claims. \<open>signed\<close> stands for the verification of the signature.\<close>

definition decode_checks ::
  "jwt_lib \<Rightarrow> (string \<Rightarrow> jwk \<Rightarrow> string \<Rightarrow> jobj \<Rightarrow> bool) \<Rightarrow> (string \<Rightarrow> jobj \<Rightarrow> bool) \<Rightarrow> bool"
where
  "decode_checks lib signed for_audience \<longleftrightarrow> (\<forall>token key algs aud iss verify_aud claims.
     jwt_decode lib token key algs aud iss verify_aud = Some claims \<longrightarrow> (\<exists>a \<in> set algs. signed token key a claims)
       \<and> (\<forall>i. iss = Some i \<longrightarrow> jget claims ''iss'' = JStr i) \<and> (\<forall>a. verify_aud \<and> aud = Some a \<longrightarrow> for_audience a claims))"

text \<open>A provider with one key, and a library that accepts its tokens.\<close>

definition sample_lib :: jwt_lib where
  "sample_lib = \<lparr>unverified_kid = (\<lambda>tok. Some (Some tok)), key_set = (\<lambda>_. Some [\<lparr>jwk_id = Some ''k1'', jwk_algorithm = ''RS256''\<rparr>]),
     jwt_decode = (\<lambda>tok key algs aud iss va. if tok = ''k1'' \<and> algs = [''RS256''] then Some [(''sub'', JStr ''u1''), (''iss'', case iss of None \<Rightarrow> JNull | Some i \<Rightarrow> JStr i)] else None)\<rparr>"

definition sample_call :: "string \<Rightarrow> int \<Rightarrow> oidc_call" where
  "sample_call tok now = \<lparr>oc_token = tok, oc_now = now, oc_fetched = Some JNull, oc_later = now + 1, oc_refetched = Some JNull\<rparr>"

definition oidc_settings :: settings where
  "oidc_settings = default_settings\<lparr>auth_mode := ''oidc'', oidc_jwks_url := ''https://idp/certs'', oidc_issuer := ''https://idp''\<rparr>"

text \<open>C15: Nobody signs in without a token of the provider. With OIDC, the current user of a request is only ever the row of the email
  (or else the subject) in the claims of its bearer token, and that token is signed, with the algorithm of the key, by a key of a
  document the provider served, for the configured audience and issuer.\<close>

theorem oidc_user_authentic:
  assumes run: "get_current_user pe st (\<lambda>tok. fst (fst (verify_oidc lib st (call\<lparr>oc_token := tok\<rparr>) cache))) race uid gid header db = Inr (u, db')"
    and oidc: "auth_mode st \<noteq> ''stub''" and law: "decode_checks lib signed for_audience"
  shows "\<exists>token claims doc keys key. bearer_token header = Some token \<and> served call cache doc \<and> key_set lib doc = Some keys \<and> key \<in> set keys
    \<and> signed token key (jwk_algorithm key) claims \<and> jor (jget claims ''email'') (jget claims ''sub'') = JStr (User_email u)
    \<and> (oidc_issuer st \<noteq> [] \<longrightarrow> jget claims ''iss'' = JStr (oidc_issuer st)) \<and> (oidc_audience st \<noteq> [] \<longrightarrow> for_audience (oidc_audience st) claims)"
proof -
  obtain token claims where t: "bearer_token header = Some token"
      "fst (fst (verify_oidc lib st (call\<lparr>oc_token := token\<rparr>) cache)) = Inr claims"
      "jor (jget claims ''email'') (jget claims ''sub'') = JStr (User_email u)"
    using current_user_claims [OF run oidc] by blast
  obtain ts c where v: "verify_oidc lib st (call\<lparr>oc_token := token\<rparr>) cache = ((Inr claims, ts), c)" using t(2) by (metis prod.collapse)
  obtain doc keys key where k: "served (call\<lparr>oc_token := token\<rparr>) cache doc" "key_set lib doc = Some keys" "key \<in> set keys"
      "decode_token lib st token key = Inr claims"
    using verify_oidc_key [OF v] by auto
  have dec: "jwt_decode lib token key [jwk_algorithm key] (none_if_empty (oidc_audience st)) (none_if_empty (oidc_issuer st)) (oidc_audience st \<noteq> []) = Some claims"
    using k(4) by (auto simp: decode_token_def split: option.splits)
  note law [unfolded decode_checks_def, rule_format, OF dec]
  then have "signed token key (jwk_algorithm key) claims" "oidc_issuer st \<noteq> [] \<longrightarrow> jget claims ''iss'' = JStr (oidc_issuer st)"
      "oidc_audience st \<noteq> [] \<longrightarrow> for_audience (oidc_audience st) claims"
    by (simp_all add: none_if_empty_def)
  then show ?thesis using t(1,3) k(1-3) by (intro exI [of _ token] exI [of _ claims] exI [of _ doc] exI [of _ keys] exI [of _ key])
      (simp add: served_def)
qed

theorem oidc_user_authentic_witness:
  "\<exists>u db'. get_current_user cursor_env oidc_settings (\<lambda>tok. fst (fst (verify_oidc sample_lib oidc_settings ((sample_call [] 0)\<lparr>oc_token := tok\<rparr>) (0, None))))
      None ''u'' ''g'' ''Bearer k1'' empty_db = Inr (u, db')
    \<and> (\<exists>token claims. bearer_token ''Bearer k1'' = Some token \<and> token = ''k1'' \<and> jget claims ''iss'' = JStr ''https://idp''
         \<and> jor (jget claims ''email'') (jget claims ''sub'') = JStr (User_email u))"
proof -
  let ?verify = "\<lambda>tok. fst (fst (verify_oidc sample_lib oidc_settings ((sample_call [] 0)\<lparr>oc_token := tok\<rparr>) (0, None)))"
  have mode: "auth_mode oidc_settings \<noteq> ''stub''" "oidc_issuer oidc_settings = ''https://idp''" by (simp_all add: oidc_settings_def)
  have law: "decode_checks sample_lib (\<lambda>tok key a c. tok = ''k1'' \<and> a = ''RS256'') (\<lambda>_ _. True)"
    by (auto simp: decode_checks_def sample_lib_def jget_def split: if_splits)
  have b: "bearer_token ''Bearer k1'' = Some ''k1''" by code_simp
  have v: "?verify ''k1'' = Inr [(''sub'', JStr ''u1''), (''iss'', JStr ''https://idp'')]"
    by (simp add: verify_oidc_def sample_lib_def sample_call_def oidc_settings_def load_jwks_def get_jwks_def find_key_def decode_token_def none_if_empty_def)
  obtain u db' where run: "get_current_user cursor_env oidc_settings ?verify None ''u'' ''g'' ''Bearer k1'' empty_db = Inr (u, db')"
    using mode(1) by (auto simp: get_current_user_def b v jget_def jhas_def jor_def get_or_create_user_def find_or_insert_user_def user_by_email_def
        scalar_one_or_none_def empty_db_def set_user_roles_def Let_def)
  obtain token claims where "bearer_token ''Bearer k1'' = Some token" "jget claims ''iss'' = JStr ''https://idp''"
      "jor (jget claims ''email'') (jget claims ''sub'') = JStr (User_email u)"
    using oidc_user_authentic [OF run mode(1) law] unfolding mode(2) by blast
  moreover have "token = ''k1''" using b calculation(1) by simp
  ultimately show ?thesis using run by (intro exI conjI)
qed



end
