(* ===== verification/Management.thy ===== *)
theory Management
  imports Agent_Urls
begin

text \<open>
  \<^verbatim>\<open>app/messaging/management.py\<close>: the client of the broker's HTTP management interface. The interface is the parameter \<open>send\<close>: the
  status and the body it answers to a method, a path and a body, and its new state; \<open>None\<close> is an \<^verbatim>\<open>httpx.HTTPError\<close>.
  What the calls do to a broker are the operations of \<^verbatim>\<open>Messaging\<close> and \<^verbatim>\<open>Preflight\<close>; here is which requests they are, and what the
  client makes of each answer.
\<close>

section \<open>The client\<close>

type_synonym 's http_send = "string \<Rightarrow> string \<Rightarrow> json \<Rightarrow> 's \<Rightarrow> (nat \<times> json) option \<times> 's"

text \<open>\<^verbatim>\<open>RabbitManagementError\<close> is a \<^verbatim>\<open>RuntimeError\<close>.\<close>

definition mgmt_request :: "'s http_send \<Rightarrow> string \<Rightarrow> string \<Rightarrow> json \<Rightarrow> 's \<Rightarrow> json res \<times> 's" where
  "mgmt_request send verb path body s = (case send verb path body s of
     (None, s') \<Rightarrow> (Inl RuntimeError, s')
   | (Some (status, answer), s') \<Rightarrow> (if 400 \<le> status then Inl RuntimeError else Inr answer, s'))"

definition user_path :: "string \<Rightarrow> string" where
  "user_path name = ''/api/users/'' @ url_quote name"

definition permissions_path :: "string \<Rightarrow> string \<Rightarrow> string" where
  "permissions_path vhost name = ''/api/permissions/'' @ url_quote vhost @ ''/'' @ url_quote name"

definition mgmt_check_alive :: "'s http_send \<Rightarrow> string \<Rightarrow> 's \<Rightarrow> unit res \<times> 's" where
  "mgmt_check_alive send vhost s =
     (case mgmt_request send ''GET'' ''/api/overview'' JNull s of
        (Inl e, s1) \<Rightarrow> (Inl e, s1)
      | (Inr _, s1) \<Rightarrow>
          (case mgmt_request send ''GET'' (''/api/aliveness-test/'' @ url_quote vhost) JNull s1 of
             (Inl e, s2) \<Rightarrow> (Inl e, s2)
           | (Inr answer, s2) \<Rightarrow>
               (case as_dict answer of
                  None \<Rightarrow> (Inl AttributeError, s2)
                | Some d \<Rightarrow> (if jget d ''status'' = JStr ''ok'' then Inr () else Inl RuntimeError, s2))))"

definition mgmt_list_queue_names :: "'s http_send \<Rightarrow> string \<Rightarrow> 's \<Rightarrow> json list res \<times> 's" where
  "mgmt_list_queue_names send vhost s =
     (case mgmt_request send ''GET'' (''/api/queues/'' @ url_quote vhost @ ''?columns=name&disable_stats=true'') JNull s of
        (Inl e, s1) \<Rightarrow> (Inl e, s1)
      | (Inr answer, s1) \<Rightarrow>
          (case as_list answer of
             None \<Rightarrow> (Inl TypeError, s1)
           | Some qs \<Rightarrow> (mapM (\<lambda>q. case as_dict q of None \<Rightarrow> Inl TypeError
               | Some d \<Rightarrow> if jhas d ''name'' then Inr (jget d ''name'') else Inl KeyError) qs, s1)))"

text \<open>These three look at the status themselves; an error of the transport is not caught.\<close>

definition mgmt_user_exists :: "'s http_send \<Rightarrow> string \<Rightarrow> 's \<Rightarrow> bool res \<times> 's" where
  "mgmt_user_exists send name s = (case send ''GET'' (user_path name) JNull s of
     (None, s') \<Rightarrow> (Inl RuntimeError, s')
   | (Some (status, _), s') \<Rightarrow> (if status = 404 then Inr False else if 400 \<le> status then Inl RuntimeError else Inr True, s'))"

definition mgmt_delete_user :: "'s http_send \<Rightarrow> string \<Rightarrow> 's \<Rightarrow> unit res \<times> 's" where
  "mgmt_delete_user send name s = (case send ''DELETE'' (user_path name) JNull s of
     (None, s') \<Rightarrow> (Inl RuntimeError, s')
   | (Some (status, _), s') \<Rightarrow> (if status \<in> {204, 404} then Inr () else Inl RuntimeError, s'))"

definition mgmt_get_permissions :: "'s http_send \<Rightarrow> string \<Rightarrow> string \<Rightarrow> 's \<Rightarrow> json option res \<times> 's" where
  "mgmt_get_permissions send vhost name s = (case send ''GET'' (permissions_path vhost name) JNull s of
     (None, s') \<Rightarrow> (Inl RuntimeError, s')
   | (Some (status, answer), s') \<Rightarrow>
       (if status = 404 then Inr None else if 400 \<le> status then Inl RuntimeError else Inr (Some answer), s'))"

definition mgmt_upsert_user :: "'s http_send \<Rightarrow> string \<Rightarrow> string \<Rightarrow> string \<Rightarrow> 's \<Rightarrow> unit res \<times> 's" where
  "mgmt_upsert_user send name password tags s =
     apfst (map_sum id (\<lambda>_. ()))
       (mgmt_request send ''PUT'' (user_path name) (JObj [(''password'', JStr password), (''tags'', JStr tags)]) s)"

definition mgmt_set_permissions :: "'s http_send \<Rightarrow> string \<Rightarrow> string \<Rightarrow> string \<Rightarrow> string \<Rightarrow> string \<Rightarrow> 's \<Rightarrow> unit res \<times> 's" where
  "mgmt_set_permissions send vhost name configure wr rd s =
     apfst (map_sum id (\<lambda>_. ()))
       (mgmt_request send ''PUT'' (permissions_path vhost name)
          (JObj [(''configure'', JStr configure), (''write'', JStr wr), (''read'', JStr rd)]) s)"

section \<open>Paths\<close>

lemma url_quote_inj: "url_quote a = url_quote b \<longleftrightarrow> a = b"
  by (metis unquote_quote)

text \<open>A name cannot leave its segment of the path, so that no two users or virtual hosts share a resource.\<close>

lemma quote_one_segment: "CHR ''/'' \<notin> set (url_quote s)"
  using free_ofD [OF quote_free] by force

lemma user_path_inj: "user_path a = user_path b \<longleftrightarrow> a = b"
  by (simp add: user_path_def url_quote_inj)

lemma segment_inj:
  assumes "a @ CHR ''/'' # b = c @ CHR ''/'' # d" "CHR ''/'' \<notin> set a" "CHR ''/'' \<notin> set c"
  shows "a = c \<and> b = d"
proof -
  have "takeWhile (\<lambda>x. x \<noteq> CHR ''/'') (a @ CHR ''/'' # b) = a" "takeWhile (\<lambda>x. x \<noteq> CHR ''/'') (c @ CHR ''/'' # d) = c"
    using assms(2,3) by (simp_all add: takeWhile_append)
  then show ?thesis using assms(1) by simp
qed

lemma permissions_path_inj: "permissions_path v a = permissions_path w b \<longleftrightarrow> v = w \<and> a = b"
  using segment_inj [of "url_quote v" "url_quote a" "url_quote w" "url_quote b"] quote_one_segment
  by (auto simp: permissions_path_def url_quote_inj)

section \<open>Answers\<close>

text \<open>Removing a user that is gone already is no error, and afterwards the interface does not know it: for any interface that
  answers 204 or 404 to the removal.\<close>

lemma delete_user_idempotent:
  assumes "send ''DELETE'' (user_path name) JNull s = (Some (st, a), s')" "st \<in> {204, 404}"
  shows "mgmt_delete_user send name s = (Inr (), s')"
  using assms by (auto simp: mgmt_delete_user_def)

text \<open>The aliveness check passes exactly when both requests are answered below 400 and the second says ok.\<close>

lemma check_alive_iff:
  assumes "send ''GET'' ''/api/overview'' JNull s = (r1, s1)" "send ''GET'' (''/api/aliveness-test/'' @ url_quote vhost) JNull s1 = (r2, s2)"
  shows "fst (mgmt_check_alive send vhost s) = Inr () \<longleftrightarrow>
    (\<exists>c1 a1 c2 d. r1 = Some (c1, a1) \<and> c1 < 400 \<and> r2 = Some (c2, JObj d) \<and> c2 < 400 \<and> jget d ''status'' = JStr ''ok'')"
proof -
  have "as_dict j = Some d \<longleftrightarrow> j = JObj d" for j d by (cases j) auto
  then show ?thesis using assms by (auto simp: mgmt_check_alive_def mgmt_request_def split: option.splits)
qed

end
