(* ===== verification/Amqp_Connection.thy ===== *)
theory Amqp_Connection
  imports Hosts
begin

text \<open>
  \<^verbatim>\<open>app/messaging/rabbit.py\<close>: the connection every coroutine of a process shares. A connection is a number, the broker side is the list
  of those open. \<^verbatim>\<open>connect_robust\<close> suspends the caller between the test of the global and its assignment, so \<open>get_connection\<close> is
  two steps: \<open>cached_connection\<close> and \<open>connect_robust\<close>. Calls that do not overlap keep one connection; two first calls that overlap leak one.
\<close>

section \<open>The shared connection\<close>

record amqp =
  am_connection :: "nat option"
  am_open :: "nat list"
  am_made :: nat

definition amqp_start :: amqp where
  "amqp_start = \<lparr>am_connection = None, am_open = [], am_made = 0\<rparr>"

definition is_closed :: "nat \<Rightarrow> amqp \<Rightarrow> bool" where
  "is_closed c s = (c \<notin> set (am_open s))"

definition cached_connection :: "amqp \<Rightarrow> nat option" where
  "cached_connection s = (case am_connection s of
     None \<Rightarrow> None
   | Some c \<Rightarrow> if is_closed c s then None else Some c)"

definition connect_robust :: "bool \<Rightarrow> amqp \<Rightarrow> nat res \<times> amqp" where
  "connect_robust up s = (if up
     then (Inr (am_made s), s\<lparr>am_connection := Some (am_made s), am_open := am_made s # am_open s, am_made := Suc (am_made s)\<rparr>)
     else (Inl BrokerError, s))"

definition get_connection :: "bool \<Rightarrow> amqp \<Rightarrow> nat res \<times> amqp" where
  "get_connection up s = (case cached_connection s of
     Some c \<Rightarrow> (Inr c, s)
   | None \<Rightarrow> connect_robust up s)"

text \<open>What \<^verbatim>\<open>conn.channel()\<close> answers is a parameter.\<close>

definition get_channel :: "(nat \<Rightarrow> 'c res) \<Rightarrow> bool \<Rightarrow> amqp \<Rightarrow> 'c res \<times> amqp" where
  "get_channel channel up s = (case get_connection up s of
     (Inl e, s') \<Rightarrow> (Inl e, s')
   | (Inr c, s') \<Rightarrow> (channel c, s'))"

definition close_connection :: "amqp \<Rightarrow> amqp" where
  "close_connection s = (case cached_connection s of
     Some c \<Rightarrow> s\<lparr>am_open := removeAll c (am_open s), am_connection := None\<rparr>
   | None \<Rightarrow> s\<lparr>am_connection := None\<rparr>)"

definition rabbit_healthy :: "bool \<Rightarrow> amqp \<Rightarrow> bool \<times> amqp" where
  "rabbit_healthy up s = (case get_connection up s of
     (Inl _, s') \<Rightarrow> (False, s')
   | (Inr c, s') \<Rightarrow> (\<not> is_closed c s', s'))"

section \<open>Calls that do not overlap\<close>

text \<open>The broker may be up or down at each call, and may end a connection at any moment.\<close>

inductive amqp_step :: "amqp \<Rightarrow> amqp \<Rightarrow> bool" where
  get: "amqp_step s (snd (get_connection up s))"
| channel: "amqp_step s (snd (get_channel (ch :: nat \<Rightarrow> unit res) up s))"
| healthy: "amqp_step s (snd (rabbit_healthy up s))"
| close: "amqp_step s (close_connection s)"
| lost: "amqp_step s (s\<lparr>am_open := removeAll c (am_open s)\<rparr>)"

definition one_connection :: "amqp \<Rightarrow> bool" where
  "one_connection s = (set (am_open s) \<subseteq> set_option (am_connection s) \<and> distinct (am_open s))"

lemma snd_get_channel [simp]: "snd (get_channel ch up s) = snd (get_connection up s)"
  by (simp add: get_channel_def split: prod.split sum.split)

lemma snd_rabbit_healthy [simp]: "snd (rabbit_healthy up s) = snd (get_connection up s)"
  by (simp add: rabbit_healthy_def split: prod.split sum.split)

lemma one_connection_nil: "one_connection s \<Longrightarrow> cached_connection s = None \<Longrightarrow> am_open s = []"
  by (cases "am_open s")
     (auto simp: one_connection_def cached_connection_def is_closed_def split: option.splits if_splits)

lemma get_keeps_one:
  assumes "one_connection s"
  shows "one_connection (snd (get_connection up s))"
proof (cases "cached_connection s")
  case None
  with assms have "am_open s = []" by (rule one_connection_nil)
  with assms None show ?thesis by (simp add: get_connection_def connect_robust_def one_connection_def)
next
  case (Some c)
  with assms show ?thesis by (simp add: get_connection_def)
qed

lemma close_keeps_one:
  assumes "one_connection s"
  shows "one_connection (close_connection s)"
proof (cases "cached_connection s")
  case None
  with assms have "am_open s = []" by (rule one_connection_nil)
  with None show ?thesis by (simp add: close_connection_def one_connection_def)
next
  case (Some c)
  then have "am_connection s = Some c" by (simp add: cached_connection_def split: option.splits if_splits)
  with assms Some show ?thesis by (auto simp: close_connection_def one_connection_def distinct_removeAll)
qed

lemma amqp_step_one: "amqp_step s s' \<Longrightarrow> one_connection s \<Longrightarrow> one_connection s'"
  by (induction rule: amqp_step.induct)
     (simp_all add: get_keeps_one close_keeps_one, auto simp: one_connection_def distinct_removeAll)

text \<open>However the calls follow each other, the process holds at most one connection, and none once it has closed it.\<close>

lemma sequential_calls_one_connection:
  assumes "amqp_step\<^sup>*\<^sup>* amqp_start s"
  shows "length (am_open s) \<le> 1" and "am_open (close_connection s) = []"
proof -
  from assms have one: "one_connection s"
  proof induction
    case base
    show ?case by (simp add: amqp_start_def one_connection_def)
  next
    case (step y z)
    then show ?case by (blast intro: amqp_step_one)
  qed
  then have "card (set (am_open s)) \<le> card (set_option (am_connection s))"
    by (simp add: one_connection_def card_mono)
  also have "\<dots> \<le> 1" by (cases "am_connection s") auto
  finally show "length (am_open s) \<le> 1"
    using one by (simp add: one_connection_def distinct_card)
  have "am_connection (close_connection s) = None"
    by (simp add: close_connection_def split: option.split)
  with close_keeps_one [OF one] show "am_open (close_connection s) = []"
    by (simp add: one_connection_def)
qed

text \<open>The flag \<open>w_broker_up\<close> of the other components stands for this module: as long as no connection outlives the broker, a call succeeds
  and the health check is green exactly when the broker is up.\<close>

lemma connection_follows_broker:
  assumes "\<not> up \<longrightarrow> am_open s = []"
  shows "isl (fst (get_connection up s)) = (\<not> up)" and "fst (rabbit_healthy up s) = up"
  using assms
  by (auto simp: get_connection_def rabbit_healthy_def cached_connection_def connect_robust_def is_closed_def split: option.splits)

lemma channel_follows_broker:
  assumes "\<not> w_broker_up w \<longrightarrow> am_open s = []"
  shows "fst (get_channel (\<lambda>_. Inr ()) (w_broker_up w) s) = fst (open_channel w)"
  using assms
  by (auto simp: get_connection_def get_channel_def cached_connection_def connect_robust_def is_closed_def open_channel_def
      split: option.splits)

section \<open>Calls that overlap\<close>

text \<open>Two coroutines that both found no connection both make one; the second assignment forgets the first, which stays open when the
  process closes the one it remembers.\<close>

lemma overlapping_calls_leak:
  defines "s1 \<equiv> snd (connect_robust True amqp_start)"
  defines "s2 \<equiv> snd (connect_robust True s1)"
  shows "cached_connection amqp_start = None \<and> am_open s2 = [1, 0] \<and> am_open (close_connection s2) = [0]
    \<and> am_connection (close_connection s2) = None"
  by (simp add: s1_def s2_def connect_robust_def amqp_start_def cached_connection_def close_connection_def is_closed_def)

end
