(* ===== verification/Agent_State.thy ===== *)
theory Agent_State
  imports Fake_Agent
begin

text \<open>
  The state file of \<^verbatim>\<open>scripts/fake_agent.py\<close>: loading, saving through a temporary file, the start of the script, and requests served while
  the script may be killed at any moment. \<open>dumps\<close> and \<open>loads\<close> are those of \<^verbatim>\<open>json\<close>; \<open>loads\<close> is \<open>None\<close> for a \<^verbatim>\<open>JSONDecodeError\<close>.
\<close>

section \<open>The state and its file\<close>

type_synonym fake_hosts = "(string \<times> fake_host) list"

record state_file =
  sf_text :: "string option"
  sf_tmp :: "string option"

definition host_json :: "fake_host \<Rightarrow> json" where
  "host_json hs = JObj [(''name'', JStr (fh_name hs)), (''hardware'', JObj (fh_hardware hs)), (''vms'', JList (map JObj (fh_vms hs))),
     (''templates'', JList (map JObj (fh_templates hs))), (''isos'', JList (map JObj (fh_isos hs)))]"

definition hosts_obj :: "fake_hosts \<Rightarrow> jobj" where
  "hosts_obj hosts = map (\<lambda>(k, hs). (k, host_json hs)) hosts"

definition state_json :: "fake_hosts \<Rightarrow> jobj" where
  "state_json hosts = [(''hosts'', JObj (hosts_obj hosts))]"

fun has_len :: "json \<Rightarrow> bool" where
  "has_len (JObj _) = True"
| "has_len (JList _) = True"
| "has_len (JStr _) = True"
| "has_len _ = False"

text \<open>\<open>readable\<close> is whether \<^verbatim>\<open>read_text\<close> succeeds. The log line takes the length of the hosts, whatever they are; only errors of the
  file and of its syntax are caught.\<close>

definition load_state :: "(string \<Rightarrow> json option) \<Rightarrow> bool \<Rightarrow> state_file \<Rightarrow> jobj res" where
  "load_state loads readable f =
     (case sf_text f of
        None \<Rightarrow> Inr (state_json [])
      | Some t \<Rightarrow>
          if \<not> readable then Inr (state_json [])
          else (case loads t of
             None \<Rightarrow> Inr (state_json [])
           | Some j \<Rightarrow>
               (case as_dict j of
                  None \<Rightarrow> Inl AttributeError
                | Some d \<Rightarrow>
                    let d' = (if jhas d ''hosts'' then d else jset d ''hosts'' (JObj []))
                    in if has_len (jget d' ''hosts'') then Inr d' else Inl TypeError)))"

definition write_tmp :: "string \<Rightarrow> state_file \<Rightarrow> state_file" where
  "write_tmp t f = f\<lparr>sf_tmp := Some t\<rparr>"

definition replace_state :: "state_file \<Rightarrow> state_file" where
  "replace_state f = \<lparr>sf_text = sf_tmp f, sf_tmp = None\<rparr>"

definition save_state :: "(jobj \<Rightarrow> string) \<Rightarrow> jobj \<Rightarrow> state_file \<Rightarrow> state_file" where
  "save_state dumps state f = replace_state (write_tmp (dumps state) f)"

text \<open>\<^verbatim>\<open>_host_state\<close> on the loaded object.\<close>

definition raw_host_state :: "fake_env \<Rightarrow> string \<Rightarrow> string \<Rightarrow> vm_draw list \<Rightarrow> jobj \<Rightarrow> jobj res" where
  "raw_host_state fe host_id name ds state =
     (case as_dict (jget state ''hosts'') of
        None \<Rightarrow> Inl AttributeError
      | Some hosts \<Rightarrow> Inr (if jget hosts host_id = JNull
          then jset state ''hosts'' (JObj (jset hosts host_id (host_json (new_fake_host fe host_id name ds)))) else state))"

fun raw_host_states :: "fake_env \<Rightarrow> (string \<times> string \<times> vm_draw list) list \<Rightarrow> jobj \<Rightarrow> jobj res" where
  "raw_host_states fe [] state = Inr state"
| "raw_host_states fe ((hid, name, ds) # hs) state = sbind (raw_host_state fe hid name ds state) (raw_host_states fe hs)"

text \<open>\<^verbatim>\<open>main\<close> up to the connection: the short id and name of each host row, with the random draws of its inventory. The result is the
  state the hosts are served from, \<open>None\<close> when there is no host.\<close>

definition agent_main ::
  "(jobj \<Rightarrow> string) \<Rightarrow> (string \<Rightarrow> json option) \<Rightarrow> bool \<Rightarrow> fake_env \<Rightarrow> (string \<times> string \<times> vm_draw list) list \<Rightarrow> state_file
   \<Rightarrow> jobj option res \<times> state_file" where
  "agent_main dumps loads readable fe hosts f =
     (if hosts = [] then (Inr None, f)
      else case sbind (load_state loads readable f) (raw_host_states fe hosts) of
        Inl e \<Rightarrow> (Inl e, f)
      | Inr state \<Rightarrow> (Inr (Some state), save_state dumps state f))"

section \<open>The state survives\<close>

text \<open>The only thing asked of \<^verbatim>\<open>json\<close>: it reads back what it wrote.\<close>

definition json_reads_back :: "(jobj \<Rightarrow> string) \<Rightarrow> (string \<Rightarrow> json option) \<Rightarrow> bool" where
  "json_reads_back dumps loads \<longleftrightarrow> (\<forall>d. loads (dumps d) = Some (JObj d))"

lemma host_json_inj: "host_json a = host_json b \<longleftrightarrow> a = b"
proof
  assume "host_json a = host_json b"
  moreover have "inj JObj" by (simp add: inj_def)
  ultimately show "a = b" by (cases a; cases b) (simp add: host_json_def inj_map_eq_map)
qed simp

lemma hosts_obj_inj: "hosts_obj a = hosts_obj b \<longleftrightarrow> a = b"
proof -
  have "inj (\<lambda>(k, hs). (k, host_json hs))" by (auto simp: inj_def host_json_inj)
  then show ?thesis unfolding hosts_obj_def by (rule inj_map_eq_map)
qed

lemma state_json_inj: "state_json a = state_json b \<longleftrightarrow> a = b"
  by (simp add: state_json_def hosts_obj_inj)

lemma map_of_hosts_obj: "map_of (hosts_obj hosts) k = map_option host_json (map_of hosts k)"
  by (simp add: hosts_obj_def map_of_map)

lemma load_dumped:
  assumes "json_reads_back dumps loads" "sf_text f = Some (dumps (state_json hosts))"
  shows "load_state loads True f = Inr (state_json hosts)"
  using assms by (simp add: load_state_def json_reads_back_def state_json_def)

lemma save_load:
  "json_reads_back dumps loads \<Longrightarrow> load_state loads True (save_state dumps (state_json hosts) f) = Inr (state_json hosts)"
  by (rule load_dumped) (simp_all add: save_state_def replace_state_def write_tmp_def)

text \<open>A script that dies while it writes leaves the file of before.\<close>

lemma torn_write_harmless: "load_state loads readable (write_tmp t f) = load_state loads readable f"
  by (simp add: load_state_def write_tmp_def)

text \<open>On a state the script saved, the loaded object behaves as the typed state of the simulator.\<close>

lemma raw_host_state_refines:
  "raw_host_state fe hid name ds (state_json hosts) = Inr (state_json (snd (host_state fe hid name ds hosts)))"
proof (cases "map_of hosts hid")
  case None
  then have "hid \<notin> fst ` set hosts" by (simp add: map_of_eq_None_iff)
  then have "\<not> jhas (hosts_obj hosts) hid" by (force simp: jhas_def hosts_obj_def)
  moreover from this have "jget (hosts_obj hosts) hid = JNull" by (rule jget_absent)
  moreover have "hosts_obj (hosts @ [(hid, h)]) = hosts_obj hosts @ [(hid, host_json h)]" for h by (simp add: hosts_obj_def)
  ultimately show ?thesis using None by (simp add: raw_host_state_def state_json_def host_state_def jset_def Let_def)
next
  case (Some hs)
  then show ?thesis
    by (simp add: raw_host_state_def state_json_def host_state_def jget_def map_of_hosts_obj host_json_def)
qed

definition host_states :: "fake_env \<Rightarrow> (string \<times> string \<times> vm_draw list) list \<Rightarrow> fake_hosts \<Rightarrow> fake_hosts" where
  "host_states fe hs hosts = fold (\<lambda>(hid, name, ds) m. snd (host_state fe hid name ds m)) hs hosts"

lemma raw_host_states_refines: "raw_host_states fe hs (state_json hosts) = Inr (state_json (host_states fe hs hosts))"
  by (induction hs arbitrary: hosts) (auto simp: host_states_def raw_host_state_refines)

lemma host_state_keeps: "map_of hosts k = Some h \<Longrightarrow> map_of (snd (host_state fe hid name ds hosts)) k = Some h"
  by (simp add: host_state_def Let_def map_add_Some_iff split: option.split)

lemma host_state_knows: "map_of (snd (host_state fe hid name ds hosts)) hid \<noteq> None"
  by (auto simp: host_state_def Let_def map_add_def split: option.split)

lemma host_states_keep: "map_of hosts k = Some h \<Longrightarrow> map_of (host_states fe hs hosts) k = Some h"
  by (induction hs arbitrary: hosts) (auto simp: host_states_def host_state_keeps)

lemma host_states_know: "hid \<in> fst ` set hs \<Longrightarrow> map_of (host_states fe hs hosts) hid \<noteq> None"
proof (induction hs arbitrary: hosts)
  case (Cons x hs)
  obtain k name ds where x: "x = (k, name, ds)" by (cases x)
  let ?m = "snd (host_state fe k name ds hosts)"
  have step: "host_states fe (x # hs) hosts = host_states fe hs ?m" by (simp add: host_states_def x)
  show ?case
  proof (cases "hid = k")
    case True
    then obtain h where "map_of ?m hid = Some h" using host_state_knows [of fe k name ds hosts] by auto
    then show ?thesis by (simp add: step host_states_keep)
  next
    case False
    then have "hid \<in> fst ` set hs" using Cons.prems x by simp
    then show ?thesis unfolding step by (rule Cons.IH)
  qed
qed simp

text \<open>A start on a file the script saved keeps every host of it, makes an inventory for each new row, and saves.\<close>

lemma start_keeps_hosts:
  assumes "json_reads_back dumps loads" "sf_text f = Some (dumps (state_json hosts))" "rows \<noteq> []"
  shows "\<exists>hosts'. agent_main dumps loads True fe rows f
      = (Inr (Some (state_json hosts')), \<lparr>sf_text = Some (dumps (state_json hosts')), sf_tmp = None\<rparr>)
    \<and> (\<forall>k h. map_of hosts k = Some h \<longrightarrow> map_of hosts' k = Some h)
    \<and> (\<forall>k \<in> fst ` set rows. map_of hosts' k \<noteq> None)"
proof (intro exI [of _ "host_states fe rows hosts"] conjI)
  show "agent_main dumps loads True fe rows f = (Inr (Some (state_json (host_states fe rows hosts))),
      \<lparr>sf_text = Some (dumps (state_json (host_states fe rows hosts))), sf_tmp = None\<rparr>)"
    using assms
    by (simp add: agent_main_def load_dumped [OF assms(1,2)] raw_host_states_refines save_state_def replace_state_def write_tmp_def)
qed (auto simp: host_states_keep host_states_know simp del: not_None_eq)

text \<open>A file that is an object whose hosts are null is not regenerated: taking their length stops the script.\<close>

lemma null_hosts_stop_start:
  assumes "loads t = Some (JObj [(''hosts'', JNull)])" "rows \<noteq> []"
  shows "agent_main dumps loads True fe rows \<lparr>sf_text = Some t, sf_tmp = None\<rparr> = (Inl TypeError, \<lparr>sf_text = Some t, sf_tmp = None\<rparr>)"
  using assms by (simp add: agent_main_def load_state_def)

section \<open>Requests and restarts\<close>

text \<open>
  The script while it serves: its memory, its file, the requests served and not yet saved, those saved and not yet answered, and the
  answers sent. \<open>sv_log\<close> lists the states of the memory, the newest first, a request
  carries the position of the state it produced, and \<open>sv_disk\<close> is that of the state saved last: observations of the run. Saving holds no await between the write and the replacement, so only the death of the process
  separates them.
\<close>

record server =
  sv_mem :: fake_hosts
  sv_file :: state_file
  sv_unsaved :: "(nat \<times> json) list"
  sv_saved :: "(nat \<times> json) list"
  sv_sent :: "(nat \<times> json) list"
  sv_log :: "fake_hosts list"
  sv_disk :: nat

definition log_at :: "server \<Rightarrow> nat \<Rightarrow> fake_hosts" where
  "log_at s k = rev (sv_log s) ! k"

inductive server_step ::
  "(jobj \<Rightarrow> string) \<Rightarrow> (string \<Rightarrow> json option) \<Rightarrow> pyenv \<Rightarrow> fake_env \<Rightarrow> server \<Rightarrow> server \<Rightarrow> bool"
  for dumps loads env fe where
  serve: "map_of (sv_mem s) hid = Some hs \<Longrightarrow> serve_request env fe guid r hs = Inr (answer, hs') \<Longrightarrow>
    m = AList.update hid hs' (sv_mem s) \<Longrightarrow>
    server_step dumps loads env fe s
      (s\<lparr>sv_mem := m, sv_log := m # sv_log s, sv_unsaved := (length (sv_log s), answer) # sv_unsaved s\<rparr>)"
| save: "x \<in> set (sv_unsaved s) \<Longrightarrow>
    server_step dumps loads env fe s
      (s\<lparr>sv_file := save_state dumps (state_json (sv_mem s)) (sv_file s), sv_unsaved := remove1 x (sv_unsaved s),
         sv_saved := x # sv_saved s, sv_disk := length (sv_log s) - 1\<rparr>)"
| answer: "x \<in> set (sv_saved s) \<Longrightarrow>
    server_step dumps loads env fe s (s\<lparr>sv_saved := remove1 x (sv_saved s), sv_sent := x # sv_sent s\<rparr>)"
| restart: "torn = sv_file s \<or> torn = write_tmp t (sv_file s) \<Longrightarrow> load_state loads True torn = Inr (state_json m) \<Longrightarrow>
    server_step dumps loads env fe s
      (s\<lparr>sv_mem := m, sv_file := torn, sv_unsaved := [], sv_saved := [],
         sv_log := drop (length (sv_log s) - Suc (sv_disk s)) (sv_log s)\<rparr>)"

definition server_start :: "(jobj \<Rightarrow> string) \<Rightarrow> fake_hosts \<Rightarrow> server" where
  "server_start dumps hosts = \<lparr>sv_mem = hosts, sv_file = \<lparr>sf_text = Some (dumps (state_json hosts)), sf_tmp = None\<rparr>,
     sv_unsaved = [], sv_saved = [], sv_sent = [], sv_log = [hosts], sv_disk = 0\<rparr>"

text \<open>The file holds a state of the log at or after every request saved or answered, and the memory is the newest one.\<close>

definition durable :: "(jobj \<Rightarrow> string) \<Rightarrow> server \<Rightarrow> bool" where
  "durable dumps s \<longleftrightarrow> sv_disk s < length (sv_log s) \<and> sv_log s ! 0 = sv_mem s
     \<and> sf_text (sv_file s) = Some (dumps (state_json (log_at s (sv_disk s))))
     \<and> (\<forall>x \<in> set (sv_unsaved s). fst x < length (sv_log s))
     \<and> (\<forall>x \<in> set (sv_saved s) \<union> set (sv_sent s). fst x \<le> sv_disk s)"

lemma log_at_newest: "sv_log s \<noteq> [] \<Longrightarrow> log_at s (length (sv_log s) - 1) = sv_log s ! 0"
  by (simp add: log_at_def rev_nth)

lemma nth_rev_Cons: "k < length l \<Longrightarrow> rev (m # l) ! k = rev l ! k"
  by (simp add: nth_append)

lemma nth_rev_drop: "k < length l - n \<Longrightarrow> rev (drop n l) ! k = rev l ! k"
  by (simp add: rev_nth)

lemma durable_step:
  assumes "server_step dumps loads env fe s s'" "json_reads_back dumps loads" "durable dumps s"
  shows "durable dumps s'"
  using assms
proof (induction rule: server_step.induct)
  case (serve s hid hs guid r answer hs' m)
  then have "sv_disk s < length (sv_log s)" by (simp add: durable_def)
  with serve show ?case
    by (auto simp: durable_def log_at_def nth_append less_Suc_eq)
next
  case (save x s)
  then have l: "sv_log s \<noteq> []" "sv_log s ! 0 = sv_mem s" "fst x \<le> length (sv_log s) - 1"
    "sv_disk s \<le> length (sv_log s) - 1" by (auto simp: durable_def)
  have f: "sf_text (save_state dumps (state_json (sv_mem s)) (sv_file s)) = Some (dumps (state_json (sv_mem s)))"
    by (simp add: save_state_def replace_state_def write_tmp_def)
  have n: "rev (sv_log s) ! (length (sv_log s) - 1) = sv_mem s" using l by (simp add: rev_nth)
  show ?case using save l f n by (auto simp: durable_def log_at_def dest: notin_set_remove1 set_remove1_subset [THEN subsetD] intro: order_trans)
next
  case (answer x s)
  then show ?case by (auto simp: durable_def log_at_def dest: set_remove1_subset [THEN subsetD])
next
  case (restart torn s t m)
  let ?n = "length (sv_log s) - Suc (sv_disk s)"
  have d: "sv_disk s < length (sv_log s)" and f: "sf_text (sv_file s) = Some (dumps (state_json (log_at s (sv_disk s))))"
    using restart by (auto simp: durable_def)
  have t: "sf_text torn = sf_text (sv_file s)" using restart(1) by (auto simp: write_tmp_def)
  then have "load_state loads True torn = Inr (state_json (log_at s (sv_disk s)))"
    using f by (intro load_dumped [OF restart(3)]) simp
  then have m: "m = log_at s (sv_disk s)" using restart(2) by (simp add: state_json_inj)
  have "drop ?n (sv_log s) ! 0 = m" using d by (simp add: m log_at_def rev_nth)
  moreover have "rev (drop ?n (sv_log s)) ! sv_disk s = log_at s (sv_disk s)"
    using d by (simp add: log_at_def nth_rev_drop)
  ultimately show ?case using restart(4) d t by (auto simp: durable_def log_at_def)
qed

text \<open>An answered request is never lost: whenever the script is killed and started again, the memory it serves from is a state of the log
  at or after the one that request produced.\<close>

lemma answered_requests_survive:
  assumes "json_reads_back dumps loads" "(server_step dumps loads env fe)\<^sup>*\<^sup>* (server_start dumps hosts) s" "(k, answer) \<in> set (sv_sent s)"
  shows "\<exists>d. k \<le> d \<and> d < length (sv_log s) \<and> load_state loads True (sv_file s) = Inr (state_json (log_at s d))"
proof -
  from assms(2) have "durable dumps s"
  proof induction
    case base
    show ?case by (simp add: durable_def server_start_def log_at_def)
  next
    case (step y z)
    then show ?case using durable_step assms(1) by blast
  qed
  then have f: "sf_text (sv_file s) = Some (dumps (state_json (log_at s (sv_disk s))))" and "sv_disk s < length (sv_log s)"
    and "\<forall>x \<in> set (sv_sent s). fst x \<le> sv_disk s" by (simp_all add: durable_def)
  moreover from this(3) assms(3) have "k \<le> sv_disk s" by force
  ultimately show ?thesis using load_dumped [OF assms(1) f] by blast
qed

end
