(* ===== verification/Spec2Isabelle.thy ===== *)
theory Spec2Isabelle
  imports Auth Networking Vm_Frame Lifecycles Task_Audit Schema_History Agent_Loop Agent_Files Http_App Views Oidc Management Amqp_Connection Agent_State
begin

text \<open>
  A verification library for the Open vCenter backend (the Python packages \<^verbatim>\<open>app\<close> and \<^verbatim>\<open>alembic\<close>, and \<^verbatim>\<open>scripts/fake_agent.py\<close>).

  \<^bold>\<open>The program.\<close> The API process (\<^verbatim>\<open>app/main.py\<close>) authenticates a request, resolves what its user may see, and reads or edits an inventory of
  clusters, hosts, folders, VLANs, tags and VMs in PostgreSQL. It does not touch a hypervisor: a mutating request takes a lock in Valkey, inserts
  a task row and an audit event, overlays the transitional state in Valkey, and publishes a message on the RabbitMQ queue of the host. An agent on
  the host executes it and answers on another queue; it also reports status, inventories and metrics. The worker process
  (\<^verbatim>\<open>app/worker\<close>) consumes those queues, settles tasks, locks, audit events and overlays, replaces the VM rows by what
  the host reports, and sweeps what is overdue. The preflight migrates the schema and repairs queues and broker users before the API serves.

  \<^bold>\<open>How it is modelled.\<close> A row is a record with the fields of its ORM class, a table is the list of its rows in insertion
  order, and the database is a record of tables. The \<open>world\<close> of \<^verbatim>\<open>Messaging\<close> has the database, the cache, the queues with their messages, the broker's
  users, the clock and whether each service is up. A function of the source is a definition of the same name
  that takes the world and returns a result and the new world: \<open>Inl\<close> is the exception raised, \<open>Inr\<close> the value. A request or a message that
  raises rolls its database session back and keeps what it already did to the cache and to the broker, as in the source. What
  the program gets from outside is an argument: fresh identifiers, passwords and random draws; the clock; \<open>pyenv\<close> for the parsing and printing of numbers
  and dates; \<open>validate\<close> for the pydantic validation of an agent's response; the HMAC, the digest, the presigned URLs and the answers of the
  operating system for agent builds; PyJWT and the provider's documents for tokens; \<^verbatim>\<open>json\<close> for the request log and the simulator's
  file; alembic and the server for the preflight. A fact that relies on such code has a named hypothesis for the documented behaviour,
  and a witness that instantiates it. Concurrency is interleaving: each message, request, sweep and watchdog pass is a step of an inductive
  relation, and invariants are proved by rule induction over its reachable states.

  \<^bold>\<open>Theories, bottom up.\<close>

  \<^item> \<^verbatim>\<open>Prelude\<close>: exceptions, results, text operations of Python, tables with their generic lemmas. \<^verbatim>\<open>PyJson\<close>: JSON values and
    Python's coercions. \<^verbatim>\<open>Base64\<close>: the codec of cursors and images. \<^verbatim>\<open>Settings\<close>: \<^verbatim>\<open>config.py\<close>, \<^verbatim>\<open>task_timeouts.py\<close>. \<^verbatim>\<open>Samples\<close>: rows for witnesses.
  \<^item> \<^verbatim>\<open>Models\<close>, \<^verbatim>\<open>Relations\<close> (\<^verbatim>\<open>app/models\<close>): rows, foreign keys with their \<^verbatim>\<open>ON DELETE\<close> actions, referential integrity. \<^verbatim>\<open>Unique_Names\<close>:
    the locales of unique keys and of a flag exclusive per group.
  \<^item> \<^verbatim>\<open>Schema\<close>, \<^verbatim>\<open>Metadata\<close>, \<^verbatim>\<open>Migrations\<close>, \<^verbatim>\<open>Schema_History\<close> (\<^verbatim>\<open>alembic/versions\<close>, \<^verbatim>\<open>app/models\<close>): the statements of each revision run on a catalogue; the schema
    is a function of the revision, and at the head it is what the classes declare up to the listed differences.
  \<^item> \<^verbatim>\<open>Rbac\<close>, \<^verbatim>\<open>Auth\<close>, \<^verbatim>\<open>Oidc\<close> (\<^verbatim>\<open>services/rbac.py\<close>, \<^verbatim>\<open>services/auth.py\<close>, \<^verbatim>\<open>api/deps.py\<close>): scopes, users, tokens; the SQL clause agrees with the predicate, a user
    has a token of the provider, downloads of keys are paced.
  \<^item> \<^verbatim>\<open>Audit_Log\<close>, \<^verbatim>\<open>Tags\<close>, \<^verbatim>\<open>Organization\<close>, \<^verbatim>\<open>Networking\<close> (the services and routes of the same names): pagination is complete, and the
    catalogues stay well formed in every reachable state.
  \<^item> \<^verbatim>\<open>Cache\<close> (\<^verbatim>\<open>cache.py\<close>): keys with expiry; locks exclude, overlays and tombstones expire. \<^verbatim>\<open>Messaging\<close>, \<^verbatim>\<open>Management\<close>,
    \<^verbatim>\<open>Amqp_Connection\<close> (\<^verbatim>\<open>app/messaging\<close>): queues and publication, the HTTP client of the broker's management, the shared connection; permissions isolate hosts.
  \<^item> \<^verbatim>\<open>Serializers\<close>, \<^verbatim>\<open>Views\<close> (\<^verbatim>\<open>services/serializers.py\<close>, \<^verbatim>\<open>app/schemas\<close>): what responses contain and what they leave out.
  \<^item> \<^verbatim>\<open>Vm_Rows\<close>, \<^verbatim>\<open>Vm_Frame\<close>, \<^verbatim>\<open>Inventory\<close>, \<^verbatim>\<open>Reconcile\<close>, \<^verbatim>\<open>Agent_Reports\<close>, \<^verbatim>\<open>Responses\<close>, \<^verbatim>\<open>Lifecycles\<close> (\<^verbatim>\<open>services/inventory.py\<close>):
    normalisation of reports, the handlers of every message, and the abstract specification of an inventory (a set equation on GUIDs)
    that the row updates refine. \<^verbatim>\<open>Frames\<close>: the locale of what a computation keeps.
  \<^item> \<^verbatim>\<open>Vms\<close>, \<^verbatim>\<open>Vm_Routes\<close>, \<^verbatim>\<open>Host_Actions\<close>, \<^verbatim>\<open>Hosts\<close>, \<^verbatim>\<open>Agent_Urls\<close>, \<^verbatim>\<open>Install_Script\<close>, \<^verbatim>\<open>Host_Routes\<close>, \<^verbatim>\<open>Preflight\<close> (the services and routes of VMs, tasks, images, health and
    hosts, and \<^verbatim>\<open>preflight.py\<close>): effects and failures of requests, guards, validation of bodies, registration and removal of hosts.
  \<^item> \<^verbatim>\<open>Agent_Store\<close>, \<^verbatim>\<open>Agent_Files\<close>, \<^verbatim>\<open>Agent_Binaries\<close> (\<^verbatim>\<open>services/agent_store.py\<close>, \<^verbatim>\<open>agent_upgrade.py\<close>, their routes): links, the directory and
    the bucket as refinements of one store, catalogue and rollout.
  \<^item> \<^verbatim>\<open>Worker\<close>, \<^verbatim>\<open>Task_Audit\<close> (\<^verbatim>\<open>app/worker\<close>): dispatch, sweeps, watchdog, and their interleaving with requests.
  \<^item> \<^verbatim>\<open>Request_Log\<close>, \<^verbatim>\<open>Http_App\<close> (\<^verbatim>\<open>logging.py\<close>, \<^verbatim>\<open>api/errors.py\<close>, \<^verbatim>\<open>main.py\<close>): redaction, error envelopes, the start of the process.
  \<^item> \<^verbatim>\<open>Fake_Agent\<close>, \<^verbatim>\<open>Agent_State\<close>, \<^verbatim>\<open>Agent_Loop\<close> (\<^verbatim>\<open>scripts/fake_agent.py\<close>): an agent, its state file, and the loop it closes with the worker.

  \<^bold>\<open>Interfaces.\<close> \<open>expiring_store\<close> and \<open>vm_mutex\<close> are what the rest relies on of the cache, interpreted on its operations; \<open>unique_names\<close> is
  interpreted for categories, tags and VLANs, \<open>exclusive_flag\<close> for default VLANs and active builds, \<open>visibility\<close> for VMs, hosts, folders and
  VLANs, \<open>object_store\<close> for the directory and the bucket. \<open>act_frame\<close> lifts a relation kept by the primitives to every handler, and
  \<open>worker_frame\<close> to every step of the worker; they are interpreted for tasks, for stored files and for the audit log.

  \<^bold>\<open>Bounds and fuel.\<close> Definitions are total. The only fuel is that of \<open>walk_pages\<close>, a client of the audit log; one more than the
  number of events is shown to be enough. Copying in chunks and text replacement recurse on the length of what remains. Identifiers, sizes and times are unbounded,
  as Python's integers are; where the code bounds them (deadlines, expiry, the size of images and logged bodies, tags of VLANs) the bound is part of the definition.

  \<^bold>\<open>Not modelled.\<close> \<^verbatim>\<open>alembic/env.py\<close> and the process entry points, which only call alembic, uvicorn and asyncio; the transports of
  AMQP, HTTP, Valkey and SQL, represented by their effect on the world and by failures; CORS headers and the generated documentation; request and
  response classes that are field lists without validators or defaults the code relies on, and the schema of a host's hardware, whose validation
  is pydantic's and a parameter; the pauses and the connection of the simulator. Transactions of two requests do not overlap: a request is
  one step, except for the shared broker connection, whose suspension point is modelled.
\<close>

end
